(* ===== verification/Errors.thy ===== *)
theory Errors
  imports Prelude
begin

text \<open>
  The error taxonomy of \<open>src/error.rs\<close>: one constructor per variant of \<open>VaultError\<close>, its
  stable code and its display message. \<open>io::Error\<close> is what the code reads of it: the OS
  error number, when there is one, and the rendered message.
\<close>

datatype io_error = Io_Error "int option" string

datatype vault_error =
    Auth | Locked | Busy | Corrupt string | InsecureParams | WeakPassphrase
  | HumanRequired | Exists | NotFound | Permission | PathNotAuthorized
  | LeaseExpired | SessionExpired | ApprovalPending string nat
  | ApprovalDenied | ApprovalConsumed | ApprovalExpired | TooLarge | VaultTooLarge
  | InvalidInput string | AuditWrite string | AuditFull string | Mismatch
  | BrokerUntrusted string | Io io_error | Protocol string

type_synonym 'a res = "vault_error + 'a"

definition raw_os_error :: "vault_error \<Rightarrow> int option" where
  "raw_os_error e = (case e of Io (Io_Error n _) \<Rightarrow> n | _ \<Rightarrow> None)"

fun code :: "vault_error \<Rightarrow> string" where
  "code Auth = ''E_AUTH''"
| "code Locked = ''E_LOCKED''"
| "code Busy = ''E_BUSY''"
| "code (Corrupt _) = ''E_VAULT_CORRUPT''"
| "code InsecureParams = ''E_INSECURE_PARAMS''"
| "code WeakPassphrase = ''E_WEAK_PASSPHRASE''"
| "code HumanRequired = ''E_HUMAN_REQUIRED''"
| "code Exists = ''E_EXISTS''"
| "code NotFound = ''E_NOT_FOUND''"
| "code Permission = ''E_PERMISSION''"
| "code PathNotAuthorized = ''E_PATH_NOT_AUTHORIZED''"
| "code LeaseExpired = ''E_LEASE_EXPIRED''"
| "code SessionExpired = ''E_SESSION_EXPIRED''"
| "code (ApprovalPending _ _) = ''E_APPROVAL_PENDING''"
| "code ApprovalDenied = ''E_APPROVAL_DENIED''"
| "code ApprovalConsumed = ''E_APPROVAL_CONSUMED''"
| "code ApprovalExpired = ''E_APPROVAL_EXPIRED''"
| "code TooLarge = ''E_TOO_LARGE''"
| "code VaultTooLarge = ''E_VAULT_TOO_LARGE''"
| "code (InvalidInput _) = ''E_INVALID_INPUT''"
| "code (AuditWrite _) = ''E_AUDIT_WRITE''"
| "code (AuditFull _) = ''E_AUDIT_FULL''"
| "code Mismatch = ''E_MISMATCH''"
| "code (BrokerUntrusted _) = ''E_BROKER_UNTRUSTED''"
| "code (Io _) = ''E_IO''"
| "code (Protocol _) = ''E_PROTOCOL''"

fun display_error :: "vault_error \<Rightarrow> string" where
  "display_error Auth = ''authentication failed''"
| "display_error Locked = ''vault is locked''"
| "display_error Busy = ''too many concurrent operations''"
| "display_error (Corrupt why) = ''vault file corrupted: '' @ why"
| "display_error InsecureParams = ''kdf parameters outside accepted bounds''"
| "display_error WeakPassphrase = ''passphrase must be at least 12 characters''"
| "display_error HumanRequired =
    ''interactive passphrase required and no terminal is available; use --passphrase-file for non-interactive use''"
| "display_error Exists = ''vault already exists''"
| "display_error Mismatch = ''passphrases do not match''"
| "display_error NotFound = ''not found''"
| "display_error Permission = ''permission denied''"
| "display_error PathNotAuthorized = ''path outside authorized folders''"
| "display_error LeaseExpired = ''lease expired or revoked''"
| "display_error SessionExpired = ''session expired or revoked''"
| "display_error (ApprovalPending _ _) = ''approval pending''"
| "display_error ApprovalDenied = ''approval denied''"
| "display_error ApprovalConsumed = ''approval already claimed''"
| "display_error ApprovalExpired = ''approval expired''"
| "display_error TooLarge = ''message too large''"
| "display_error VaultTooLarge =
    ''vault would exceed the maximum vault size; refusing to store a vault that could not be reopened''"
| "display_error (InvalidInput why) = ''invalid input: '' @ why"
| "display_error (AuditWrite e) =
    ''vault change committed but the audit event failed to write: '' @ e"
| "display_error (AuditFull why) = ''audit log is full: '' @ why"
| "display_error (BrokerUntrusted why) =
    ''broker identity could not be verified; refusing to send credentials: '' @ why"
| "display_error (Io e) = (case e of Io_Error _ msg \<Rightarrow> ''io error: '' @ msg)"
| "display_error (Protocol s) = ''protocol error: '' @ s"

end
