(* ===== verification/Rust_Std.thy ===== *)
theory Rust_Std
  imports Prelude
begin

text \<open>
  The string functions of the Rust standard library that the code calls. A \<open>str\<close> or a byte
  vector is a list of bytes (\<open>string\<close>); \<open>chars\<close> decodes UTF-8 into code points with the
  checks of \<open>String::from_utf8\<close> (no overlong form, no surrogate, nothing past 10FFFF).
\<close>

section \<open>UTF-8\<close>

definition is_scalar :: "nat \<Rightarrow> bool" where
  "is_scalar c \<longleftrightarrow> c < 1114112 \<and> \<not> (55296 \<le> c \<and> c < 57344)"

definition utf8_encode1 :: "nat \<Rightarrow> nat list" where
  "utf8_encode1 c =
     (if c < 128 then [c]
      else if c < 2048 then [192 + c div 64, 128 + c mod 64]
      else if c < 65536 then [224 + c div 4096, 128 + c div 64 mod 64, 128 + c mod 64]
      else [240 + c div 262144, 128 + c div 4096 mod 64, 128 + c div 64 mod 64, 128 + c mod 64])"

definition is_cont :: "nat \<Rightarrow> bool" where
  "is_cont b \<longleftrightarrow> 128 \<le> b \<and> b < 192"

fun utf8_decode_bytes :: "nat list \<Rightarrow> nat list option" where
  "utf8_decode_bytes [] = Some []"
| "utf8_decode_bytes (a # r) =
     (if a < 128 then map_option (Cons a) (utf8_decode_bytes r)
      else case r of [] \<Rightarrow> None | b # r1 \<Rightarrow>
        if \<not> is_cont b then None
        else if a < 224 then
          (let c = (a - 192) * 64 + (b - 128)
           in if 192 \<le> a \<and> 128 \<le> c then map_option (Cons c) (utf8_decode_bytes r1) else None)
        else (case r1 of [] \<Rightarrow> None | b2 # r2 \<Rightarrow>
          if \<not> is_cont b2 then None
          else if a < 240 then
            (let c = (a - 224) * 4096 + (b - 128) * 64 + (b2 - 128)
             in if 2048 \<le> c \<and> is_scalar c then map_option (Cons c) (utf8_decode_bytes r2) else None)
          else (case r2 of [] \<Rightarrow> None | b3 # r3 \<Rightarrow>
            if \<not> is_cont b3 then None
            else
              (let c = (a - 240) * 262144 + (b - 128) * 4096 + (b2 - 128) * 64 + (b3 - 128)
               in if a < 248 \<and> 65536 \<le> c \<and> is_scalar c
                  then map_option (Cons c) (utf8_decode_bytes r3) else None))))"

definition utf8_decode :: "string \<Rightarrow> nat list option" where
  "utf8_decode s = utf8_decode_bytes (map of_char s)"

definition utf8_encode :: "nat list \<Rightarrow> string" where
  "utf8_encode cs = map char_of (concat (map utf8_encode1 cs))"

lemma utf8_decode_encode1:
  assumes "is_scalar c"
  shows "utf8_decode_bytes (utf8_encode1 c @ r) = map_option (Cons c) (utf8_decode_bytes r)"
proof -
  have e1: "c div 4096 = c div 64 div 64" and e2: "c div 262144 = c div 4096 div 64"
    by (simp_all add: div_mult2_eq [symmetric])
  have d1: "c div 64 * 64 + c mod 64 = c" by simp
  have "c div 4096 * 64 + c div 64 mod 64 = c div 64" by (simp add: e1)
  with d1 have d2: "c div 4096 * 4096 + c div 64 mod 64 * 64 + c mod 64 = c" by linarith
  have "c div 262144 * 64 + c div 4096 mod 64 = c div 4096" by (simp add: e2)
  with d2 have d3: "c div 262144 * 262144 + c div 4096 mod 64 * 4096 + c div 64 mod 64 * 64
      + c mod 64 = c" by linarith
  consider "c < 128" | "128 \<le> c" "c < 2048" | "2048 \<le> c" "c < 65536" | "65536 \<le> c" "c < 1114112"
    using assms by (fastforce simp: is_scalar_def)
  then show ?thesis
  proof cases
    case 1 then show ?thesis by (simp add: utf8_encode1_def)
  next
    case 2
    then have "c div 64 < 32" by (simp add: less_mult_imp_div_less)
    with 2 d1 show ?thesis by (simp add: utf8_encode1_def is_cont_def Let_def)
  next
    case 3
    then have "c div 4096 < 16" by (simp add: less_mult_imp_div_less)
    with 3 d2 assms show ?thesis by (simp add: utf8_encode1_def is_cont_def Let_def)
  next
    case 4
    then have "c div 262144 < 8" by (simp add: less_mult_imp_div_less)
    with 4 d3 assms show ?thesis by (simp add: utf8_encode1_def is_cont_def Let_def)
  qed
qed

lemma utf8_encode1_byte: "is_scalar c \<Longrightarrow> b \<in> set (utf8_encode1 c) \<Longrightarrow> b < 256"
  by (auto simp: utf8_encode1_def is_scalar_def less_mult_imp_div_less split: if_splits)

lemma of_char_of_byte: "b < 256 \<Longrightarrow> of_char (char_of (b::nat)) = b"
  by simp

lemma utf8_decode_bytes_encode:
  "(\<forall>c\<in>set cs. is_scalar c) \<Longrightarrow> utf8_decode_bytes (concat (map utf8_encode1 cs)) = Some cs"
  by (induction cs) (auto simp: utf8_decode_encode1)

theorem utf8_round_trip:
  assumes "\<forall>c\<in>set cs. is_scalar c"
  shows "utf8_decode (utf8_encode cs) = Some cs"
proof -
  have "map (of_char :: char \<Rightarrow> nat) (map char_of (concat (map utf8_encode1 cs)))
      = concat (map utf8_encode1 cs)"
    unfolding map_map o_def
  proof (rule map_idI)
    fix b assume "b \<in> set (concat (map utf8_encode1 cs))"
    with assms have "b < 256" by (auto dest: utf8_encode1_byte)
    then show "of_char (char_of b :: char) = b" by simp
  qed
  then show ?thesis
    by (simp only: utf8_decode_def utf8_encode_def utf8_decode_bytes_encode [OF assms])
qed

text \<open>Conversely, a decoded text is the encoding of its code points, so decoding is
  compositional: a valid text followed by a valid text is valid.\<close>

lemma div64: "r < 64 \<Longrightarrow> (q * 64 + r) div 64 = (q::nat)" "r < 64 \<Longrightarrow> (q * 64 + r) mod 64 = (r::nat)"
  by simp_all

lemma utf8_encode1_2:
  assumes "is_cont b" "192 \<le> a" "a < 224" "128 \<le> (a - 192) * 64 + (b - 128)"
  shows "utf8_encode1 ((a - 192) * 64 + (b - 128)) = [a, b]"
proof -
  obtain x y where xy: "a = 192 + x" "b = 128 + y" "x < 32" "y < 64"
    using assms(1-3) by (auto simp: is_cont_def le_iff_add)
  have "(x * 64 + y) div 64 = x" "(x * 64 + y) mod 64 = y" "x * 64 + y < 2048"
    using xy by auto
  with assms(4) xy show ?thesis by (simp add: utf8_encode1_def)
qed

lemma utf8_encode1_3:
  assumes "is_cont b" "is_cont b2" "224 \<le> a" "a < 240"
    and "2048 \<le> (a - 224) * 4096 + (b - 128) * 64 + (b2 - 128)"
  shows "utf8_encode1 ((a - 224) * 4096 + (b - 128) * 64 + (b2 - 128)) = [a, b, b2]"
proof -
  obtain x y z where xy: "a = 224 + x" "b = 128 + y" "b2 = 128 + z" "x < 16" "y < 64" "z < 64"
    using assms(1-4) by (auto simp: is_cont_def le_iff_add)
  let ?c = "x * 4096 + y * 64 + z"
  have c: "?c = (x * 64 + y) * 64 + z" by simp
  have d: "?c div 64 = x * 64 + y" "?c mod 64 = z" using xy by (simp_all only: c div64)
  have "?c div 4096 = ?c div 64 div 64" by (simp add: div_mult2_eq [symmetric])
  then have "?c div 4096 = x" using d xy by simp
  moreover have "?c < 65536" using xy by simp
  ultimately show ?thesis using assms(5) xy d by (simp add: utf8_encode1_def)
qed

lemma utf8_encode1_4:
  assumes "is_cont b" "is_cont b2" "is_cont b3" "240 \<le> a"
    and "65536 \<le> (a - 240) * 262144 + (b - 128) * 4096 + (b2 - 128) * 64 + (b3 - 128)"
  shows "utf8_encode1 ((a - 240) * 262144 + (b - 128) * 4096 + (b2 - 128) * 64 + (b3 - 128))
    = [a, b, b2, b3]"
proof -
  obtain x y z u where xy: "a = 240 + x" "b = 128 + y" "b2 = 128 + z" "b3 = 128 + u"
      "y < 64" "z < 64" "u < 64"
    using assms(1-4) by (auto simp: is_cont_def le_iff_add)
  let ?c = "x * 262144 + y * 4096 + z * 64 + u"
  have c: "?c = (x * 4096 + y * 64 + z) * 64 + u" by simp
  have d: "?c div 64 = x * 4096 + y * 64 + z" "?c mod 64 = u"
    using xy by (simp_all only: c div64)
  have c1: "x * 4096 + y * 64 + z = (x * 64 + y) * 64 + z" by simp
  have d1: "(x * 4096 + y * 64 + z) div 64 = x * 64 + y" "(x * 4096 + y * 64 + z) mod 64 = z"
    using xy by (simp_all only: c1 div64)
  have "?c div 4096 = ?c div 64 div 64" "?c div 262144 = ?c div 64 div 64 div 64"
    by (simp_all add: div_mult2_eq [symmetric])
  then have "?c div 4096 = x * 64 + y" "?c div 262144 = x" using d d1 xy by simp_all
  then show ?thesis using assms(5) xy d d1 by (simp add: utf8_encode1_def)
qed

lemma utf8_decode_bytes_sound:
  "utf8_decode_bytes bs = Some cs \<Longrightarrow>
    (\<forall>c\<in>set cs. is_scalar c) \<and> bs = concat (map utf8_encode1 cs)"
proof (induction "length bs" arbitrary: bs cs rule: less_induct)
  case less
  show ?case
  proof (cases bs)
    case Nil
    with less.prems show ?thesis by simp
  next
    case (Cons a r)
    consider (one) "a < 128"
      | (two) b r1 where "\<not> a < 128" "r = b # r1" "is_cont b" "a < 224"
      | (more) b b2 r2 where "\<not> a < 128" "r = b # b2 # r2" "is_cont b" "is_cont b2" "\<not> a < 224"
      using less.prems unfolding Cons
      by (auto split: list.splits if_splits)
    then show ?thesis
    proof cases
      case one
      with less.prems Cons obtain z where z: "utf8_decode_bytes r = Some z" "cs = a # z"
        by auto
      with less.hyps [OF _ z(1)] Cons one show ?thesis
        by (simp add: utf8_encode1_def is_scalar_def)
    next
      case two
      let ?c = "(a - 192) * 64 + (b - 128)"
      from two less.prems Cons obtain z
        where z: "utf8_decode_bytes r1 = Some z" "cs = ?c # z" "192 \<le> a" "128 \<le> ?c"
        by (auto simp only: utf8_decode_bytes.simps Let_def list.case if_False if_True
            option.map_disc_iff map_option_eq_Some simp_thms split: if_splits)
      have "is_scalar ?c" using two by (auto simp: is_scalar_def is_cont_def)
      then show ?thesis
        using less.hyps [OF _ z(1)] Cons two z(2) utf8_encode1_2 [OF two(3) z(3) two(4) z(4)]
        by simp
    next
      case more
      show ?thesis
      proof (cases "a < 240")
        case True
        let ?c = "(a - 224) * 4096 + (b - 128) * 64 + (b2 - 128)"
        from more True less.prems Cons obtain z
          where z: "utf8_decode_bytes r2 = Some z" "cs = ?c # z" "2048 \<le> ?c" "is_scalar ?c"
          by (auto simp only: utf8_decode_bytes.simps Let_def list.case if_False if_True
              option.map_disc_iff map_option_eq_Some simp_thms split: if_splits)
        then show ?thesis
          using less.hyps [OF _ z(1)] Cons more utf8_encode1_3 [OF more(3,4) _ True z(3)]
          by simp
      next
        case False
        with more less.prems Cons obtain b3 r3 where r3: "r2 = b3 # r3" "is_cont b3"
          by (auto simp only: utf8_decode_bytes.simps list.case if_False if_True simp_thms
              split: list.splits if_splits)
        let ?c = "(a - 240) * 262144 + (b - 128) * 4096 + (b2 - 128) * 64 + (b3 - 128)"
        from more False r3 less.prems Cons obtain z
          where z: "utf8_decode_bytes r3 = Some z" "cs = ?c # z" "65536 \<le> ?c" "is_scalar ?c"
          by (auto simp only: utf8_decode_bytes.simps Let_def list.case if_False if_True
              option.map_disc_iff map_option_eq_Some simp_thms split: if_splits)
        then show ?thesis
          using less.hyps [OF _ z(1)] Cons more False r3
            utf8_encode1_4 [OF more(3,4) r3(2) _ z(3)]
          by simp
      qed
    qed
  qed
qed

lemma utf8_decode_bytes_append:
  assumes "utf8_decode_bytes a = Some xs"
  shows "utf8_decode_bytes (a @ b) = map_option (append xs) (utf8_decode_bytes b)"
proof -
  from assms have s: "\<forall>c\<in>set xs. is_scalar c" and a: "a = concat (map utf8_encode1 xs)"
    by (simp_all add: utf8_decode_bytes_sound)
  show ?thesis unfolding a using s
  proof (induction xs)
    case Nil
    show ?case by (cases "utf8_decode_bytes b") simp_all
  next
    case (Cons x xs)
    then show ?case by (cases "utf8_decode_bytes b") (simp_all add: utf8_decode_encode1)
  qed
qed

definition valid_utf8 :: "string \<Rightarrow> bool" where
  "valid_utf8 s \<longleftrightarrow> utf8_decode s \<noteq> None"

lemma valid_utf8_append [intro]: "valid_utf8 a \<Longrightarrow> valid_utf8 b \<Longrightarrow> valid_utf8 (a @ b)"
  by (auto simp: valid_utf8_def utf8_decode_def utf8_decode_bytes_append)

lemma valid_utf8_Nil [simp]: "valid_utf8 []"
  by (simp add: valid_utf8_def utf8_decode_def)

lemma valid_utf8_ascii: "\<forall>c\<in>set s. (of_char c :: nat) < 128 \<Longrightarrow> valid_utf8 s"
  by (induction s) (auto simp: valid_utf8_def utf8_decode_def)

lemma utf8_decode_scalar:
  "utf8_decode s = Some cs \<Longrightarrow> c \<in> set cs \<Longrightarrow> is_scalar c"
  by (auto simp: utf8_decode_def dest: utf8_decode_bytes_sound)

section \<open>Characters, splitting, trimming, lines\<close>

definition is_whitespace :: "nat \<Rightarrow> bool" where
  "is_whitespace c \<longleftrightarrow> (9 \<le> c \<and> c \<le> 13) \<or> c = 32 \<or> c = 133 \<or> c = 160 \<or> c = 5760
     \<or> (8192 \<le> c \<and> c \<le> 8202) \<or> c = 8232 \<or> c = 8233 \<or> c = 8239 \<or> c = 8287 \<or> c = 12288"

definition is_control :: "nat \<Rightarrow> bool" where
  "is_control c \<longleftrightarrow> c < 32 \<or> (127 \<le> c \<and> c < 160)"

definition is_ascii_alphabetic :: "char \<Rightarrow> bool" where
  "is_ascii_alphabetic ch = (let c = of_char ch :: nat in (65 \<le> c \<and> c \<le> 90) \<or> (97 \<le> c \<and> c \<le> 122))"

definition is_ascii_alphanumeric :: "char \<Rightarrow> bool" where
  "is_ascii_alphanumeric ch = (is_ascii_alphabetic ch \<or>
     (let c = of_char ch :: nat in 48 \<le> c \<and> c \<le> 57))"

definition trim :: "nat list \<Rightarrow> nat list" where
  "trim cs = rev (dropWhile is_whitespace (rev (dropWhile is_whitespace cs)))"

fun split_on :: "'a \<Rightarrow> 'a list \<Rightarrow> 'a list list" where
  "split_on x [] = [[]]"
| "split_on x (y # ys) =
     (if y = x then [] # split_on x ys
      else (case split_on x ys of [] \<Rightarrow> [[y]] | l # ls \<Rightarrow> (y # l) # ls))"

definition NL :: char where "NL = CHR 10"
definition CR :: char where "CR = CHR 13"

definition strip_cr :: "string \<Rightarrow> string" where
  "strip_cr l = (if l \<noteq> [] \<and> last l = CR then butlast l else l)"

text \<open>\<open>str::lines\<close>: terminated lines lose their line ending (and a carriage return before it);
  an unterminated last line is kept as it is, and an empty one is no line.\<close>

definition rust_lines :: "string \<Rightarrow> string list" where
  "rust_lines s =
     (let ps = split_on NL s
      in map strip_cr (butlast ps) @ (if last ps = [] then [] else [last ps]))"

lemma split_on_nonempty [simp]: "split_on x ys \<noteq> []"
  by (induction ys) (auto split: list.splits)

lemma split_on_absent: "x \<notin> set ys \<Longrightarrow> split_on x ys = [ys]"
  by (induction ys) auto

lemma split_on_append: "split_on x (ys @ x # zs) = split_on x ys @ split_on x zs"
  by (induction ys) (auto split: list.splits simp: neq_Nil_conv)

text \<open>Appending one terminated line to a text that is empty or ends with a line break adds
  exactly that line.\<close>

definition line_text :: "string \<Rightarrow> bool" where
  "line_text l \<longleftrightarrow> NL \<notin> set l \<and> l \<noteq> [] \<and> last l \<noteq> CR"

definition terminated :: "string \<Rightarrow> bool" where
  "terminated s \<longleftrightarrow> s = [] \<or> last s = NL"

lemma terminated_append_line [simp]: "terminated (s @ l @ [NL])"
  by (simp add: terminated_def)

lemma rust_lines_append:
  assumes "terminated s" and "line_text l"
  shows "rust_lines (s @ l @ [NL]) = rust_lines s @ [l]"
proof (cases s rule: rev_cases)
  case Nil
  with assms show ?thesis
    by (simp add: rust_lines_def line_text_def strip_cr_def split_on_append split_on_absent)
next
  case (snoc t x)
  with assms have s: "s = t @ NL # []" by (simp add: terminated_def)
  have a: "split_on NL s = split_on NL t @ [[]]"
    unfolding s by (simp add: split_on_append)
  have "split_on NL (s @ l @ [NL]) = split_on NL (t @ NL # (l @ NL # []))"
    unfolding s by simp
  also have "\<dots> = split_on NL t @ split_on NL l @ [[]]"
    by (simp only: split_on_append split_on.simps)
  also have "split_on NL l = [l]"
    using assms(2) by (simp add: split_on_absent line_text_def)
  finally have b: "split_on NL (s @ l @ [NL]) = split_on NL t @ [l, []]" by simp
  show ?thesis
    using assms(2) by (simp add: rust_lines_def a b line_text_def strip_cr_def butlast_append)
qed

end
