(* ===== verification/World.thy ===== *)
theory World
  imports Errors Rust_Std
begin

text \<open>
  The machine the daemon runs on, as far as the code reads or changes it: the files by path,
  the held file locks, the two clocks, the random generator and the faults of the file
  system. \<open>w_fault i = Some k\<close> makes the \<open>i\<close>-th file-system step fail, a write after \<open>k\<close>
  bytes. Random bytes are drawn from \<open>w_rng\<close>; \<open>w_rng_ok\<close> tells whether a draw succeeds.
  Wall-clock times are nanoseconds since the epoch, monotonic instants nanoseconds since
  boot; one call of an operation reads each clock at one instant, and time passes between
  calls.
\<close>

type_synonym time = int

record world =
  w_dir :: "string \<rightharpoonup> string"
  w_locks :: "string list"
  w_wall :: time
  w_mono :: nat
  w_rng :: "nat \<Rightarrow> char"
  w_rng_ok :: "nat \<Rightarrow> bool"
  w_rng_pos :: nat
  w_fault :: "nat \<Rightarrow> nat option"
  w_io :: nat
  w_canon :: "string \<Rightarrow> string option"
  w_is_dir :: "string \<Rightarrow> bool"

definition SEC :: nat where "SEC = 1000000000"

text \<open>\<open>Instant::duration_since(..).as_secs()\<close>: saturating, whole seconds.\<close>

definition elapsed_secs :: "nat \<Rightarrow> nat \<Rightarrow> nat" where
  "elapsed_secs now since = (now - since) div SEC"

definition seconds :: "nat \<Rightarrow> time" where
  "seconds n = int (n * SEC)"

definition io_failed :: vault_error where
  "io_failed = Io (Io_Error None ''input/output error'')"

definition tick :: "world \<Rightarrow> world" where
  "tick w = w\<lparr>w_io := Suc (w_io w)\<rparr>"

definition fault_now :: "world \<Rightarrow> nat option" where
  "fault_now w = w_fault w (w_io w)"

definition set_file :: "string \<Rightarrow> string option \<Rightarrow> world \<Rightarrow> world" where
  "set_file p c w = w\<lparr>w_dir := (w_dir w)(p := c)\<rparr>"

definition random_bytes :: "nat \<Rightarrow> world \<Rightarrow> string res \<times> world" where
  "random_bytes n w =
     (let w' = w\<lparr>w_rng_pos := w_rng_pos w + n\<rparr>
      in if w_rng_ok w (w_rng_pos w)
         then (Inr (map (w_rng w) [w_rng_pos w..<w_rng_pos w + n]), w')
         else (Inl (Io (Io_Error None ''csprng failure'')), w'))"

text \<open>\<open>std::fs::read_to_string\<close>: the file must exist and be UTF-8.\<close>

definition read_to_string :: "string \<Rightarrow> world \<Rightarrow> string option" where
  "read_to_string p w =
     (case w_dir w p of None \<Rightarrow> None | Some s \<Rightarrow> if valid_utf8 s then Some s else None)"

text \<open>\<open>metadata(path).map(|m| m.len()).unwrap_or(0)\<close>.\<close>

definition file_len :: "string \<Rightarrow> world \<Rightarrow> nat" where
  "file_len p w = (case w_dir w p of None \<Rightarrow> 0 | Some s \<Rightarrow> length s)"

text \<open>Open for appending (never creating), write everything, fsync. A failing write leaves the
  bytes it got through; a failing fsync leaves all of them.\<close>

definition append_sync :: "string \<Rightarrow> string \<Rightarrow> world \<Rightarrow> unit res \<times> world" where
  "append_sync p bytes w =
     (case w_dir w p of
        None \<Rightarrow> (Inl io_failed, tick w)
      | Some old \<Rightarrow>
          (if fault_now w \<noteq> None then (Inl io_failed, tick w)
           else (let w1 = tick w in
             case fault_now w1 of
               Some k \<Rightarrow> (Inl io_failed, set_file p (Some (old @ take k bytes)) (tick w1))
             | None \<Rightarrow>
                 (let w2 = set_file p (Some (old @ bytes)) (tick w1)
                  in (if fault_now w2 = None then Inr () else Inl io_failed, tick w2)))))"

section \<open>Frame lemmas\<close>

lemma tick_fields [simp]:
  "w_dir (tick w) = w_dir w" "w_locks (tick w) = w_locks w" "w_wall (tick w) = w_wall w"
  "w_mono (tick w) = w_mono w" "w_rng (tick w) = w_rng w" "w_rng_ok (tick w) = w_rng_ok w"
  "w_rng_pos (tick w) = w_rng_pos w" "w_fault (tick w) = w_fault w"
  "w_canon (tick w) = w_canon w" "w_is_dir (tick w) = w_is_dir w"
  by (simp_all add: tick_def)

lemma set_file_fields [simp]:
  "w_dir (set_file p c w) = (w_dir w)(p := c)" "w_locks (set_file p c w) = w_locks w"
  "w_wall (set_file p c w) = w_wall w" "w_mono (set_file p c w) = w_mono w"
  "w_rng (set_file p c w) = w_rng w" "w_rng_ok (set_file p c w) = w_rng_ok w"
  "w_rng_pos (set_file p c w) = w_rng_pos w" "w_fault (set_file p c w) = w_fault w"
  "w_io (set_file p c w) = w_io w" "w_canon (set_file p c w) = w_canon w"
  "w_is_dir (set_file p c w) = w_is_dir w"
  by (simp_all add: set_file_def)

text \<open>Everything of the world that no operation of the code changes.\<close>

definition same_env :: "world \<Rightarrow> world \<Rightarrow> bool" where
  "same_env w w' \<longleftrightarrow> w_wall w' = w_wall w \<and> w_mono w' = w_mono w \<and> w_rng w' = w_rng w
     \<and> w_rng_ok w' = w_rng_ok w \<and> w_fault w' = w_fault w \<and> w_canon w' = w_canon w
     \<and> w_is_dir w' = w_is_dir w"

lemma same_env_refl [simp]: "same_env w w"
  by (simp add: same_env_def)

lemma same_env_trans: "same_env w1 w2 \<Longrightarrow> same_env w2 w3 \<Longrightarrow> same_env w1 w3"
  by (simp add: same_env_def)

lemma same_env_steps [simp]:
  "same_env w (tick w') = same_env w w'" "same_env w (set_file p c w') = same_env w w'"
  by (simp_all add: same_env_def)

lemma random_bytes_frame:
  assumes "random_bytes n w = (r, w')"
  shows "w_dir w' = w_dir w" "w_locks w' = w_locks w" "same_env w w'" "w_io w' = w_io w"
  using assms by (auto simp: random_bytes_def Let_def same_env_def split: if_splits)

lemma random_bytes_length: "random_bytes n w = (Inr bs, w') \<Longrightarrow> length bs = n"
  by (auto simp: random_bytes_def Let_def split: if_splits)

lemma append_sync_frame:
  assumes "append_sync p bytes w = (r, w')"
  shows "same_env w w'" "w_locks w' = w_locks w" "w_rng_pos w' = w_rng_pos w"
    "\<forall>q. q \<noteq> p \<longrightarrow> w_dir w' q = w_dir w q"
  using assms by (auto simp: append_sync_def Let_def split: option.splits if_splits)

lemma append_sync_ok:
  "append_sync p bytes w = (Inr u, w') \<Longrightarrow>
    \<exists>old. w_dir w p = Some old \<and> w_dir w' p = Some (old @ bytes)"
  by (auto simp: append_sync_def Let_def split: option.splits if_splits)

lemma append_sync_any:
  "append_sync p bytes w = (r, w') \<Longrightarrow> w_dir w p = Some old \<Longrightarrow>
    \<exists>k. w_dir w' p = Some (old @ take k bytes)"
  by (auto simp: append_sync_def Let_def split: option.splits if_splits
      intro: exI [of _ 0] exI [of _ "length bytes"])

lemma append_sync_missing:
  "append_sync p bytes w = (r, w') \<Longrightarrow> w_dir w p = None \<Longrightarrow> w_dir w' p = None"
  by (auto simp: append_sync_def)

text \<open>The file system does not tear appends: a failing write leaves nothing behind.\<close>

definition no_torn_writes :: "world \<Rightarrow> bool" where
  "no_torn_writes w \<longleftrightarrow> (\<forall>i k. w_fault w i = Some k \<longrightarrow> k = 0)"

lemma append_sync_untorn:
  "append_sync p bytes w = (r, w') \<Longrightarrow> no_torn_writes w \<Longrightarrow> w_dir w p = Some old \<Longrightarrow>
    w_dir w' p = Some old \<or> w_dir w' p = Some (old @ bytes)"
  by (fastforce simp: append_sync_def Let_def no_torn_writes_def fault_now_def
      split: option.splits if_splits)

end
