(* ===== verification/Crypto.thy ===== *)
theory Crypto
  imports World
begin

text \<open>
  \<open>src/crypto.rs\<close>: key material, capability generation and hex. The primitives of the
  third-party crates (SHA-256, HMAC, HKDF, XChaCha20-Poly1305, Argon2id, base64url) are the
  fields of the library record that every definition using them takes as an argument.
  Records of the later components extend it with the serialisers they need.
\<close>

record crypto_lib =
  sha256 :: "string \<Rightarrow> string"
  hmac_sha256 :: "string \<Rightarrow> string \<Rightarrow> string"
  hkdf_sha256 :: "string \<Rightarrow> string \<Rightarrow> string"
  aead_seal :: "string \<Rightarrow> string \<Rightarrow> string \<Rightarrow> string \<Rightarrow> string"
  aead_open :: "string \<Rightarrow> string \<Rightarrow> string \<Rightarrow> string \<Rightarrow> string option"
  argon2_params :: "nat \<Rightarrow> nat \<Rightarrow> nat \<Rightarrow> string option"
  argon2_hash :: "string \<Rightarrow> nat \<Rightarrow> nat \<Rightarrow> nat \<Rightarrow> string \<Rightarrow> string + string"
  base64url :: "string \<Rightarrow> string"

definition KEY_LEN :: nat where "KEY_LEN = 32"
definition NONCE_LEN :: nat where "NONCE_LEN = 24"
definition SALT_LEN :: nat where "SALT_LEN = 16"

definition generate_key :: "world \<Rightarrow> string res \<times> world" where
  "generate_key w = random_bytes KEY_LEN w"

definition token_digest :: "('z) crypto_lib_scheme \<Rightarrow> string \<Rightarrow> string" where
  "token_digest L token = sha256 L token"

section \<open>Hexadecimal\<close>

definition hex_digit :: "nat \<Rightarrow> char" where
  "hex_digit n = (if n < 10 then char_of (48 + n) else char_of (87 + n))"

definition hex :: "string \<Rightarrow> string" where
  "hex bs = concat (map (\<lambda>b. [hex_digit (of_char b div 16), hex_digit (of_char b mod 16)]) bs)"

text \<open>\<open>char::to_digit(16)\<close>.\<close>

definition to_digit16 :: "char \<Rightarrow> nat option" where
  "to_digit16 ch =
     (let c = of_char ch :: nat
      in if 48 \<le> c \<and> c \<le> 57 then Some (c - 48)
         else if 97 \<le> c \<and> c \<le> 102 then Some (c - 87)
         else if 65 \<le> c \<and> c \<le> 70 then Some (c - 55)
         else None)"

fun unhex_pairs :: "string \<Rightarrow> string option" where
  "unhex_pairs (a # b # r) =
     (case to_digit16 a of None \<Rightarrow> None | Some hi \<Rightarrow>
       (case to_digit16 b of None \<Rightarrow> None | Some lo \<Rightarrow>
         map_option (Cons (char_of (hi * 16 + lo))) (unhex_pairs r)))"
| "unhex_pairs _ = Some []"

definition unhex :: "string \<Rightarrow> string option" where
  "unhex s = (if length s mod 2 \<noteq> 0 then None else unhex_pairs s)"

lemma of_char_hex_digit: "n < 16 \<Longrightarrow> of_char (hex_digit n) = (if n < 10 then 48 + n else 87 + n)"
  by (simp add: hex_digit_def)

lemma to_digit16_hex_digit [simp]: "n < 16 \<Longrightarrow> to_digit16 (hex_digit n) = Some n"
  by (simp add: to_digit16_def of_char_hex_digit)

lemma of_char_less [simp]: "(of_char ch :: nat) < 256"
  by (metis of_char_mod_256 mod_less_divisor zero_less_numeral)

lemma hex_Nil [simp]: "hex [] = []"
  by (simp add: hex_def)

lemma hex_Cons: "hex (b # bs) = hex_digit (of_char b div 16) # hex_digit (of_char b mod 16) # hex bs"
  by (simp add: hex_def)

lemma length_hex [simp]: "length (hex bs) = 2 * length bs"
  by (induction bs) (simp_all add: hex_Cons)

lemma nibbles: "(of_char b :: nat) div 16 < 16" "(of_char b :: nat) mod 16 < 16"
  using of_char_less [of b] by (simp_all add: less_mult_imp_div_less)

lemma unhex_pairs_hex: "unhex_pairs (hex bs) = Some bs"
  by (induction bs) (simp_all add: hex_Cons nibbles)

theorem unhex_hex: "unhex (hex bs) = Some bs"
  by (simp add: unhex_def unhex_pairs_hex)

lemma hex_inj [simp]: "hex a = hex b \<longleftrightarrow> a = b"
  by (metis unhex_hex option.inject)

lemma hex_digit_ascii: "n < 16 \<Longrightarrow> (of_char (hex_digit n) :: nat) < 128"
  by (simp add: of_char_hex_digit)

lemma hex_ascii: "c \<in> set (hex bs) \<Longrightarrow> (of_char c :: nat) < 128"
  by (induction bs) (auto simp: hex_Cons hex_digit_ascii nibbles)

section \<open>Capabilities, key derivation\<close>

text \<open>The credential is returned once; only its digest and the first four digest bytes are
  kept.\<close>

definition generate_capability ::
  "('z) crypto_lib_scheme \<Rightarrow> world \<Rightarrow> (string \<times> string \<times> string) res \<times> world" where
  "generate_capability L w =
     try_bind (random_bytes 32 w) (\<lambda>bytes w1.
       let token = base64url L bytes; digest = token_digest L token
       in (Inr (token, digest, hex (take 4 digest)), w1))"

definition generate_agent_token ::
  "('z) crypto_lib_scheme \<Rightarrow> world \<Rightarrow> (string \<times> string \<times> string) res \<times> world" where
  "generate_agent_token L w = generate_capability L w"

definition derive_kek ::
  "('z) crypto_lib_scheme \<Rightarrow> string \<Rightarrow> nat \<Rightarrow> nat \<Rightarrow> nat \<Rightarrow> string \<Rightarrow> string res" where
  "derive_kek L passphrase m_kib t p salt =
     (case argon2_params L m_kib t p of
        Some e \<Rightarrow> Inl (Protocol (''invalid kdf params: '' @ e))
      | None \<Rightarrow> map_err (\<lambda>e. Protocol (''kdf failure: '' @ e))
                 (argon2_hash L passphrase m_kib t p salt))"

lemma generate_capability_frame:
  assumes "generate_capability L w = (r, w')"
  shows "w_dir w' = w_dir w" "w_locks w' = w_locks w" "same_env w w'" "w_io w' = w_io w"
proof -
  obtain q v where "random_bytes 32 w = (q, v)" by force
  with assms random_bytes_frame [OF this]
  show "w_dir w' = w_dir w" "w_locks w' = w_locks w" "same_env w w'" "w_io w' = w_io w"
    by (cases q; auto simp: generate_capability_def Let_def)+
qed

lemma generate_capability_ok:
  assumes "generate_capability L w = (Inr (token, digest, prefix), w')"
  shows "digest = token_digest L token \<and> prefix = hex (take 4 digest)"
proof -
  obtain q v where "random_bytes 32 w = (q, v)" by force
  with assms show ?thesis by (cases q) (auto simp: generate_capability_def Let_def)
qed

section \<open>Random identifiers\<close>

text \<open>\<open>envelope::hex_id\<close>, and the loop that draws until the identifier is not taken. The loop
  has no bound in the code, so not returning is the value \<open>None\<close>.\<close>

definition hex_id :: "world \<Rightarrow> string res \<times> world" where
  "hex_id w = try_bind (random_bytes 8 w) (\<lambda>b w1. (Inr (hex b), w1))"

partial_function (option) fresh_id ::
  "(string \<Rightarrow> bool) \<Rightarrow> world \<Rightarrow> (string res \<times> world) option" where
  "fresh_id taken w =
     (case hex_id w of (r, w1) \<Rightarrow>
       (case r of
          Inl e \<Rightarrow> Some (Inl e, w1)
        | Inr i \<Rightarrow> (if taken i then fresh_id taken w1 else Some (Inr i, w1))))"

lemma hex_id_frame:
  assumes "hex_id w = (r, w')"
  shows "w_dir w' = w_dir w" "w_locks w' = w_locks w" "same_env w w'" "w_io w' = w_io w"
proof -
  obtain q v where "random_bytes 8 w = (q, v)" by force
  with assms random_bytes_frame [OF this]
  show "w_dir w' = w_dir w" "w_locks w' = w_locks w" "same_env w w'" "w_io w' = w_io w"
    by (cases q; auto simp: hex_id_def)+
qed

definition fresh_id_post ::
  "(string \<Rightarrow> bool) \<Rightarrow> world \<Rightarrow> string res \<times> world \<Rightarrow> bool" where
  "fresh_id_post taken w out \<longleftrightarrow>
     (\<forall>i. fst out = Inr i \<longrightarrow> \<not> taken i) \<and> w_dir (snd out) = w_dir w
     \<and> w_locks (snd out) = w_locks w \<and> same_env w (snd out) \<and> w_io (snd out) = w_io w"

lemma fresh_id_sound:
  assumes ret: "fresh_id taken w = Some out"
  shows "fresh_id_post taken w out"
proof (rule fresh_id.raw_induct [where P = fresh_id_post, OF _ ret])
  fix f :: "(string \<Rightarrow> bool) \<Rightarrow> world \<Rightarrow> (string res \<times> world) option" and tk v o'
  assume IH: "\<And>tk v o'. f tk v = Some o' \<Longrightarrow> fresh_id_post tk v o'"
    and eq: "(case hex_id v of (r, w1) \<Rightarrow> case r of Inl e \<Rightarrow> Some (Inl e, w1)
      | Inr i \<Rightarrow> if tk i then f tk w1 else Some (Inr i, w1)) = Some o'"
  obtain q v1 where h: "hex_id v = (q, v1)" by force
  note fr = hex_id_frame [OF h]
  show "fresh_id_post tk v o'"
  proof (cases q)
    case (Inl e)
    with eq h fr show ?thesis by (auto simp: fresh_id_post_def)
  next
    case (Inr i)
    show ?thesis
    proof (cases "tk i")
      case True
      with eq h Inr have "f tk v1 = Some o'" by simp
      from IH [OF this] fr show ?thesis
        by (auto simp: fresh_id_post_def intro: same_env_trans)
    next
      case False
      with eq h Inr fr show ?thesis by (auto simp: fresh_id_post_def)
    qed
  qed
qed

lemma fresh_id_frame:
  assumes "fresh_id taken w = Some (r, w')"
  shows "w_dir w' = w_dir w" "w_locks w' = w_locks w" "same_env w w'" "w_io w' = w_io w"
  using fresh_id_sound [OF assms] by (simp_all add: fresh_id_post_def)

lemma fresh_id_not_taken: "fresh_id taken w = Some (Inr i, w') \<Longrightarrow> \<not> taken i"
  by (drule fresh_id_sound) (simp add: fresh_id_post_def)

text \<open>The loop returns as soon as the generator fails or yields an identifier that is not
  taken: the \<open>n\<close>-th draw decides, whatever the earlier ones were.\<close>

fun drawn :: "nat \<Rightarrow> world \<Rightarrow> string res" where
  "drawn n w = (if n = 0 then fst (hex_id w) else drawn (n - 1) (snd (hex_id w)))"

declare drawn.simps [simp del]

theorem fresh_id_terminates:
  assumes "\<not> (\<exists>i. drawn n w = Inr i \<and> taken i)"
  shows "\<exists>out. fresh_id taken w = Some out"
  using assms
proof (induction n arbitrary: w)
  case 0
  then show ?case
    by (subst fresh_id.simps) (auto simp: drawn.simps split: prod.splits sum.splits)
next
  case (Suc n)
  have "drawn n (snd (hex_id w)) = drawn (Suc n) w" by (simp add: drawn.simps [of "Suc n" w])
  with Suc have "\<exists>out. fresh_id taken (snd (hex_id w)) = Some out" by simp
  then show ?case
    by (subst fresh_id.simps) (auto split: prod.splits sum.splits)
qed

end
