(* ===== verification/Store.thy ===== *)
theory Store
  imports Crypto
begin

text \<open>
  \<open>src/store.rs\<close> and the lock files of \<open>src/ipc.rs\<close>: vault paths, atomic persistence (a
  randomly named temporary file, fsync, rename) and the exclusive \<open>flock\<close> on the vault.
  Paths are slash-separated strings; each file-system call is one step that may fail.
\<close>

section \<open>Paths\<close>

definition SLASH :: char where "SLASH = CHR 0x2F"

definition dir_part :: "string \<Rightarrow> string" where
  "dir_part p = rev (dropWhile (\<lambda>c. c \<noteq> SLASH) (rev p))"

definition file_part :: "string \<Rightarrow> string" where
  "file_part p = rev (takeWhile (\<lambda>c. c \<noteq> SLASH) (rev p))"

definition file_name :: "string \<Rightarrow> string option" where
  "file_name p = (let n = file_part p in if n = [] \<or> n = ''..'' then None else Some n)"

definition with_file_name :: "string \<Rightarrow> string \<Rightarrow> string" where
  "with_file_name p n = dir_part p @ n"

definition path_join :: "string \<Rightarrow> string \<Rightarrow> string" where
  "path_join base p =
     (if p \<noteq> [] \<and> hd p = SLASH then p
      else if base = [] \<or> last base = SLASH then base @ p else base @ [SLASH] @ p)"

definition default_vault_path :: "(string \<Rightarrow> string option) \<Rightarrow> string res" where
  "default_vault_path env =
     res_bind
       (case env ''XDG_DATA_HOME'' of
          Some v \<Rightarrow> if v \<noteq> [] then Inr v else
            (case env ''HOME'' of None \<Rightarrow> Inl (Io (Io_Error None ''HOME not set''))
             | Some home \<Rightarrow> Inr (path_join home ''.local/share''))
        | None \<Rightarrow>
            (case env ''HOME'' of None \<Rightarrow> Inl (Io (Io_Error None ''HOME not set''))
             | Some home \<Rightarrow> Inr (path_join home ''.local/share'')))
       (\<lambda>base. Inr (path_join (path_join base ''svault'') ''vault.enc''))"

definition audit_path :: "string \<Rightarrow> string" where
  "audit_path vault_path = with_file_name vault_path ''audit.jsonl''"

definition vault_lock_path :: "string \<Rightarrow> string" where
  "vault_lock_path vault =
     with_file_name vault
       ((case file_name vault of None \<Rightarrow> ''vault.enc'' | Some n \<Rightarrow> n) @ ''.lock'')"

definition instance_lock_path :: "string \<Rightarrow> string" where
  "instance_lock_path sock =
     with_file_name sock
       ((case file_name sock of None \<Rightarrow> ''svault.sock'' | Some n \<Rightarrow> n) @ ''.lock'')"

section \<open>Atomic persistence\<close>

definition temp_name :: "string \<Rightarrow> string \<Rightarrow> string" where
  "temp_name path tag = with_file_name path (''.'' @ file_part path @ ''.tmp.'' @ tag)"

text \<open>Removing the temporary file is best effort; the error is the original one.\<close>

definition abandon_temp :: "string \<Rightarrow> world \<Rightarrow> unit res \<times> world" where
  "abandon_temp tmp w =
     (Inl io_failed, if fault_now w = None then set_file tmp None (tick w) else tick w)"

text \<open>The closure that writes, syncs and renames. The directory fsync after the rename does not
  change the result.\<close>

definition publish_temp :: "string \<Rightarrow> string \<Rightarrow> string \<Rightarrow> world \<Rightarrow> unit res \<times> world" where
  "publish_temp tmp path bytes w =
     (case fault_now w of
        Some k \<Rightarrow> abandon_temp tmp (set_file tmp (Some (take k bytes)) (tick w))
      | None \<Rightarrow>
          (let w1 = set_file tmp (Some bytes) (tick w)
           in if fault_now w1 \<noteq> None then abandon_temp tmp (tick w1)
              else (let w2 = tick w1
                    in if fault_now w2 \<noteq> None then abandon_temp tmp (tick w2)
                       else (Inr (), tick (set_file path (Some bytes)
                               (set_file tmp None (tick w2)))))))"

fun save_attempts ::
  "nat \<Rightarrow> io_error option \<Rightarrow> string \<Rightarrow> string \<Rightarrow> world \<Rightarrow> unit res \<times> world" where
  "save_attempts 0 last_err path bytes w =
     (Inl (Io (case last_err of
        None \<Rightarrow> Io_Error None ''could not create a temporary file'' | Some e \<Rightarrow> e)), w)"
| "save_attempts (Suc n) last_err path bytes w =
     try_bind (random_bytes 16 w) (\<lambda>tag w1.
       let tmp = temp_name path (hex tag)
       in if w_dir w1 tmp \<noteq> None
          then save_attempts n (Some (Io_Error (Some 17) ''File exists'')) path bytes (tick w1)
          else if fault_now w1 \<noteq> None then (Inl io_failed, tick w1)
          else publish_temp tmp path bytes (set_file tmp (Some []) (tick w1)))"

definition save_atomic :: "string \<Rightarrow> string \<Rightarrow> world \<Rightarrow> unit res \<times> world" where
  "save_atomic path bytes w =
     (case file_name path of
        None \<Rightarrow> (Inl (Io (Io_Error None ''vault path has no file name'')), w)
      | Some _ \<Rightarrow> save_attempts 8 None path bytes w)"

definition load_file :: "string \<Rightarrow> world \<Rightarrow> string res" where
  "load_file path w = ok_or io_failed (w_dir w path)"

definition ensure_private_dir :: "string \<Rightarrow> world \<Rightarrow> unit res \<times> world" where
  "ensure_private_dir path w =
     (if fault_now w = None then (Inr (), tick w) else (Inl io_failed, tick w))"

text \<open>The exclusive lock on the vault: \<open>EWOULDBLOCK\<close> is \<open>Busy\<close>; dropping the owner releases it.\<close>

definition acquire_file :: "string \<Rightarrow> world \<Rightarrow> string res \<times> world" where
  "acquire_file path w =
     try_bind (if dir_part path = [] then (Inr (), w) else ensure_private_dir (dir_part path) w)
       (\<lambda>_ w1.
         if fault_now w1 \<noteq> None then (Inl io_failed, tick w1)
         else if path \<in> set (w_locks w1) then (Inl Busy, tick w1)
         else (Inr path, (tick w1)\<lparr>w_locks := path # w_locks w1\<rparr>))"

definition acquire_vault :: "string \<Rightarrow> world \<Rightarrow> string res \<times> world" where
  "acquire_vault vault w = acquire_file (vault_lock_path vault) w"

definition release_lock :: "string \<Rightarrow> world \<Rightarrow> world" where
  "release_lock path w = w\<lparr>w_locks := removeAll path (w_locks w)\<rparr>"

section \<open>Correctness\<close>

text \<open>Temporary names start with a dot and carry the marker, so they never collide with the
  audit log next to the vault, nor with the vault itself.\<close>

lemma file_part_append: "SLASH \<notin> set n \<Longrightarrow> file_part (dir_part p @ n) = n"
proof -
  assume n: "SLASH \<notin> set n"
  have "takeWhile (\<lambda>c. c \<noteq> SLASH) (rev n @ q) = rev n @ takeWhile (\<lambda>c. c \<noteq> SLASH) q"
    for q using n by (intro takeWhile_append2) auto
  moreover have "takeWhile (\<lambda>c. c \<noteq> SLASH) (dropWhile (\<lambda>c. c \<noteq> SLASH) q) = []" for q
    by (induction q) auto
  ultimately show ?thesis by (simp add: file_part_def dir_part_def)
qed

lemma dir_file_part: "dir_part p @ file_part p = p"
  by (metis dir_part_def file_part_def rev_append rev_rev_ident takeWhile_dropWhile_id)

lemma no_slash_file_part: "SLASH \<notin> set (file_part p)"
  by (auto simp: file_part_def dest: set_takeWhileD)

lemma hex_no_slash: "SLASH \<notin> set (hex bs)"
proof (induction bs)
  case (Cons b bs)
  have "hex_digit n \<noteq> SLASH" if "n < 16" for n
  proof
    assume "hex_digit n = SLASH"
    then have "(of_char (hex_digit n) :: nat) = of_char SLASH" by simp
    with that show False by (simp add: of_char_hex_digit SLASH_def split: if_splits)
  qed
  from this [OF nibbles(1)] this [OF nibbles(2)] Cons show ?case
    by (auto simp: hex_Cons eq_commute [of SLASH])
qed simp

lemma temp_name_file_part:
  "file_part (temp_name p (hex t)) = ''.'' @ file_part p @ ''.tmp.'' @ hex t"
proof -
  have "SLASH \<notin> set (''.'' @ file_part p @ ''.tmp.'' @ hex t)"
    using no_slash_file_part [of p] hex_no_slash [of t] by (simp add: SLASH_def)
  then show ?thesis unfolding temp_name_def with_file_name_def by (rule file_part_append)
qed

lemma temp_name_neq_path: "temp_name p (hex t) \<noteq> p"
proof
  assume "temp_name p (hex t) = p"
  then have "file_part p = ''.'' @ file_part p @ ''.tmp.'' @ hex t"
    using temp_name_file_part by metis
  then have "length (file_part p) = length (''.'' @ file_part p @ ''.tmp.'' @ hex t)"
    by (rule arg_cong)
  then show False by simp
qed

lemma temp_name_neq_audit: "temp_name p (hex t) \<noteq> audit_path q"
proof
  assume "temp_name p (hex t) = audit_path q"
  then have "file_part (audit_path q) = ''.'' @ file_part p @ ''.tmp.'' @ hex t"
    using temp_name_file_part by metis
  moreover have "file_part (audit_path q) = ''audit.jsonl''"
    unfolding audit_path_def with_file_name_def by (rule file_part_append) (simp add: SLASH_def)
  ultimately show False by simp
qed

text \<open>The files a save may touch beside its target.\<close>

definition is_temp_of :: "string \<Rightarrow> string \<Rightarrow> bool" where
  "is_temp_of path q \<longleftrightarrow> (\<exists>t. q = temp_name path (hex t))"

lemma not_temp [simp]: "\<not> is_temp_of path path" "\<not> is_temp_of path (audit_path q)"
  using temp_name_neq_path temp_name_neq_audit by (metis is_temp_of_def)+

definition save_post :: "string \<Rightarrow> string \<Rightarrow> world \<Rightarrow> unit res \<times> world \<Rightarrow> bool" where
  "save_post path bytes w out \<longleftrightarrow>
     same_env w (snd out) \<and> w_locks (snd out) = w_locks w
     \<and> (\<forall>q. q \<noteq> path \<and> \<not> is_temp_of path q \<longrightarrow> w_dir (snd out) q = w_dir w q)
     \<and> w_dir (snd out) path = (if is_ok (fst out) then Some bytes else w_dir w path)"

lemma abandon_temp_post:
  "is_temp_of path tmp \<Longrightarrow>
    (\<And>q. q \<noteq> tmp \<Longrightarrow> w_dir v q = w_dir w q) \<Longrightarrow> same_env w v \<Longrightarrow> w_locks v = w_locks w \<Longrightarrow>
    save_post path bytes w (abandon_temp tmp v)"
  using not_temp(1) by (fastforce simp: save_post_def abandon_temp_def)

lemma publish_temp_post:
  assumes "is_temp_of path tmp"
    and "\<And>q. q \<noteq> tmp \<Longrightarrow> w_dir v q = w_dir w q" "same_env w v" "w_locks v = w_locks w"
  shows "save_post path bytes w (publish_temp tmp path bytes v)"
proof -
  have "tmp \<noteq> path" using assms(1) by auto
  then show ?thesis
    unfolding publish_temp_def Let_def
    using assms
    by (auto split: option.split intro!: abandon_temp_post) (auto simp: save_post_def)
qed

lemma save_attempts_post: "save_post path bytes w (save_attempts n last_err path bytes w)"
proof (induction n arbitrary: last_err w)
  case 0
  show ?case by (simp add: save_post_def)
next
  case (Suc n)
  obtain r w1 where rb: "random_bytes 16 w = (r, w1)" by force
  note fr = random_bytes_frame [OF rb]
  show ?case
  proof (cases r)
    case (Inl e)
    with rb fr show ?thesis by (simp add: save_post_def)
  next
    case (Inr tag)
    let ?tmp = "temp_name path (hex tag)"
    have t: "is_temp_of path ?tmp" by (auto simp: is_temp_of_def)
    consider "w_dir w1 ?tmp \<noteq> None" | "w_dir w1 ?tmp = None" "fault_now w1 \<noteq> None"
      | "w_dir w1 ?tmp = None" "fault_now w1 = None"
      by blast
    then show ?thesis
    proof cases
      case 1
      have "save_post path bytes (tick w1) (save_attempts n (Some (Io_Error (Some 17) ''File exists''))
          path bytes (tick w1))" by (rule Suc.IH)
      then have "save_post path bytes w (save_attempts n (Some (Io_Error (Some 17) ''File exists''))
          path bytes (tick w1))"
        using fr by (auto simp: save_post_def same_env_def)
      with 1 rb Inr show ?thesis by (simp add: Let_def)
    next
      case 2
      with rb Inr fr show ?thesis by (auto simp: save_post_def Let_def)
    next
      case 3
      have "save_post path bytes w (publish_temp ?tmp path bytes (set_file ?tmp (Some []) (tick w1)))"
        using fr by (intro publish_temp_post [OF t]) auto
      with 3 rb Inr show ?thesis by (simp add: Let_def)
    qed
  qed
qed

theorem save_atomic_post: "save_post path bytes w (save_atomic path bytes w)"
proof (cases "file_name path")
  case None
  then show ?thesis by (simp add: save_atomic_def save_post_def)
next
  case (Some n)
  then show ?thesis using save_attempts_post by (simp add: save_atomic_def)
qed

lemma save_atomicD:
  assumes "save_atomic path bytes w = (r, w')"
  shows "same_env w w'" "w_locks w' = w_locks w"
    "\<And>q. q \<noteq> path \<Longrightarrow> \<not> is_temp_of path q \<Longrightarrow> w_dir w' q = w_dir w q"
    "r = Inr u \<Longrightarrow> w_dir w' path = Some bytes"
    "r = Inl e \<Longrightarrow> w_dir w' path = w_dir w path"
  using save_atomic_post [of path bytes w] assms by (auto simp: save_post_def)

text \<open>Without a fault and with a temporary name that is free, a save succeeds.\<close>

lemma save_atomic_succeeds:
  assumes "file_name path \<noteq> None" and "\<And>i. w_fault w i = None" and "\<And>i. w_rng_ok w i"
    and "\<And>t. w_dir w (temp_name path (hex t)) = None"
  shows "\<exists>w'. save_atomic path bytes w = (Inr (), w')"
proof -
  obtain r w1 where rb: "random_bytes 16 w = (r, w1)" by force
  with assms(3) obtain tag where r: "r = Inr tag" by (auto simp: random_bytes_def Let_def)
  have nf: "fault_now v = None" if "w_fault v = w_fault w" for v
    using assms(2) that by (simp add: fault_now_def)
  have "w_fault w1 = w_fault w" using random_bytes_frame(3) [OF rb] by (simp add: same_env_def)
  then show ?thesis
    using assms(1,4) rb r random_bytes_frame(1) [OF rb]
    by (auto simp: save_atomic_def eval_nat_numeral publish_temp_def Let_def nf)
qed

text \<open>Only one owner holds the vault lock at a time.\<close>

lemma acquire_excludes:
  "acquire_vault vault w = (Inr l, w1) \<Longrightarrow> w_locks w2 = w_locks w1 \<Longrightarrow>
    \<not> is_ok (fst (acquire_vault vault w2))"
  by (auto simp: acquire_vault_def acquire_file_def ensure_private_dir_def split: if_splits)

end
