(* ===== verification/AuditLog.thy ===== *)
theory AuditLog
  imports Store
begin

text \<open>
  \<open>src/audit.rs\<close>: the append-only log with its hash chain. The file holds one JSON object per
  line; the library record supplies the serialiser, its parser and the RFC 3339 printer. The
  log object caches the chain head (\<open>lg_seq\<close>, \<open>lg_last_hash\<close>) and re-reads the file before
  every append.
\<close>

section \<open>Data\<close>

datatype priority = Ordinary | Lifecycle

datatype decision = Allowed | Denied

record audit_event =
  ev_ts :: string
  ev_seq :: nat
  ev_prev_hash :: string
  ev_actor :: string
  ev_op :: string
  ev_project :: "string option"
  ev_keys :: "string list"
  ev_target :: "string option"
  ev_decision :: decision
  ev_reason :: "string option"
  ev_run_id :: "string option"
  ev_executable :: "string option"
  ev_arg_count :: "nat option"
  ev_cwd :: "string option"
  ev_result :: "string option"
  ev_exit_code :: "int option"
  ev_signal :: "string option"

record audit_line =
  al_event :: audit_event
  al_hash :: string
  al_mac :: "string option"

record verify_report =
  vr_entries :: nat
  vr_macs_verified :: nat
  vr_macs_null :: nat

record audit_record =
  r_actor :: string
  r_op :: string
  r_project :: "string option"
  r_keys :: "string list"
  r_target :: "string option"
  r_decision :: decision
  r_reason :: "string option"

record run_record =
  rr_actor :: string
  rr_project :: "string option"
  rr_keys :: "string list"
  rr_run_id :: "string option"
  rr_executable :: "string option"
  rr_arg_count :: "nat option"
  rr_cwd :: "string option"
  rr_decision :: decision
  rr_reason :: "string option"
  rr_result :: "string option"
  rr_exit_code :: "int option"
  rr_signal :: "string option"

record staged_entry =
  st_event :: audit_event
  st_hash_hex :: string
  st_mac_hex :: "string option"

record audit_log =
  lg_path :: string
  lg_seq :: nat
  lg_last_hash :: string
  lg_soft :: nat
  lg_hard :: nat

record audit_lib = crypto_lib +
  rfc3339 :: "time \<Rightarrow> string option"
  event_json :: "audit_event \<Rightarrow> string"
  line_json :: "audit_line \<Rightarrow> string"
  parse_line :: "string \<Rightarrow> audit_line option"

definition MAX_AUDIT_LEN :: nat where "MAX_AUDIT_LEN = 16777216"
definition AUDIT_HEADROOM :: nat where "AUDIT_HEADROOM = 2097152"
definition AUDIT_SOFT_LIMIT :: nat where "AUDIT_SOFT_LIMIT = MAX_AUDIT_LEN - AUDIT_HEADROOM"
definition AUDIT_INFO :: string where "AUDIT_INFO = ''svault/audit-mac/v1''"

definition ZERO_HASH :: string where "ZERO_HASH = replicate 32 (CHR 0x00)"

section \<open>Hashes and hexadecimal fields\<close>

definition derive_audit_key :: "('z) crypto_lib_scheme \<Rightarrow> string \<Rightarrow> string" where
  "derive_audit_key L mek = hkdf_sha256 L mek AUDIT_INFO"

definition entry_hash :: "('z) audit_lib_scheme \<Rightarrow> string \<Rightarrow> audit_event \<Rightarrow> string" where
  "entry_hash L prev_hash event = sha256 L (prev_hash @ event_json L event)"

definition entry_mac :: "('z) audit_lib_scheme \<Rightarrow> string \<Rightarrow> string \<Rightarrow> audit_event \<Rightarrow> string" where
  "entry_mac L mac_key prev_hash event = hmac_sha256 L mac_key (prev_hash @ event_json L event)"

text \<open>\<open>u8::from_str_radix(_, 16)\<close> on two characters: a leading plus sign is accepted. A field
  whose two-byte slices would split a multi-byte character is \<open>Corrupt\<close> here; the slice
  expression of the code panics on it.\<close>

definition radix16_pair :: "char \<Rightarrow> char \<Rightarrow> nat option" where
  "radix16_pair a b =
     (if a = CHR ''+'' then to_digit16 b
      else (case to_digit16 a of None \<Rightarrow> None | Some hi \<Rightarrow>
             map_option (\<lambda>lo. hi * 16 + lo) (to_digit16 b)))"

fun audit_unhex_pairs :: "string \<Rightarrow> string option" where
  "audit_unhex_pairs (a # b # r) =
     (case radix16_pair a b of None \<Rightarrow> None | Some v \<Rightarrow>
        map_option (Cons (char_of v)) (audit_unhex_pairs r))"
| "audit_unhex_pairs _ = Some []"

definition audit_unhex :: "string \<Rightarrow> string res" where
  "audit_unhex s =
     (if length s \<noteq> 64 then Inl (Corrupt ''audit hex field length'')
      else ok_or (Corrupt ''audit hex field'') (audit_unhex_pairs s))"

section \<open>Reading\<close>

definition audit_lines :: "string \<Rightarrow> string list" where
  "audit_lines content = filter (\<lambda>l. l \<noteq> []) (rust_lines content)"

text \<open>Error texts quote the operating system; the model uses one text for it.\<close>

definition unreadable :: vault_error where
  "unreadable = Corrupt ''audit unreadable: input/output error''"

fun scan_head :: "('z) audit_lib_scheme \<Rightarrow> nat \<Rightarrow> string \<Rightarrow> string list \<Rightarrow> (nat \<times> string) option" where
  "scan_head L seq prev [] = Some (seq, prev)"
| "scan_head L seq prev (l # ls) =
     (case parse_line L l of
        None \<Rightarrow> None
      | Some parsed \<Rightarrow>
          if ev_seq (al_event parsed) \<noteq> Suc seq then None
          else (case audit_unhex (al_hash parsed) of
                  Inl _ \<Rightarrow> None
                | Inr h \<Rightarrow> scan_head L (Suc seq) h ls))"

definition resync :: "('z) audit_lib_scheme \<Rightarrow> world \<Rightarrow> audit_log \<Rightarrow> audit_log" where
  "resync L w lg =
     (case read_to_string (lg_path lg) w of
        None \<Rightarrow> lg
      | Some content \<Rightarrow>
          (case scan_head L 0 ZERO_HASH (audit_lines content) of
             None \<Rightarrow> lg
           | Some (seq, prev) \<Rightarrow>
               if seq > lg_seq lg then lg\<lparr>lg_seq := seq, lg_last_hash := prev\<rparr> else lg))"

fun walk_lines ::
  "('z) audit_lib_scheme \<Rightarrow> string option \<Rightarrow> nat \<Rightarrow> string \<Rightarrow> verify_report \<Rightarrow> string list
    \<Rightarrow> (verify_report \<times> string) res" where
  "walk_lines L key seq prev rep [] = Inr (rep, prev)"
| "walk_lines L key seq prev rep (l # ls) =
     (case parse_line L l of
        None \<Rightarrow> Inl (Corrupt ''audit line invalid'')
      | Some parsed \<Rightarrow>
          if ev_seq (al_event parsed) \<noteq> Suc seq then Inl (Corrupt ''audit seq out of order'')
          else res_bind (audit_unhex (ev_prev_hash (al_event parsed))) (\<lambda>ph.
            if ph \<noteq> prev then Inl (Corrupt ''audit chain linkage broken'')
            else let computed = entry_hash L prev (al_event parsed) in
              res_bind (audit_unhex (al_hash parsed)) (\<lambda>h.
                if h \<noteq> computed then Inl (Corrupt ''audit hash mismatch'')
                else (case (al_mac parsed, key) of
                  (Some mac_hex, Some k) \<Rightarrow>
                    res_bind (audit_unhex mac_hex) (\<lambda>m.
                      if m \<noteq> entry_mac L k ph (al_event parsed)
                      then Inl (Corrupt ''audit mac mismatch'')
                      else walk_lines L key (Suc seq) computed
                        (rep\<lparr>vr_macs_verified := Suc (vr_macs_verified rep),
                             vr_entries := Suc (vr_entries rep)\<rparr>) ls)
                | _ \<Rightarrow> walk_lines L key (Suc seq) computed
                        (rep\<lparr>vr_macs_null := Suc (vr_macs_null rep),
                             vr_entries := Suc (vr_entries rep)\<rparr>) ls))))"

definition empty_report :: verify_report where
  "empty_report = \<lparr>vr_entries = 0, vr_macs_verified = 0, vr_macs_null = 0\<rparr>"

definition walk ::
  "('z) audit_lib_scheme \<Rightarrow> string \<Rightarrow> string option \<Rightarrow> world \<Rightarrow> (verify_report \<times> string) res" where
  "walk L path key w =
     (case read_to_string path w of
        None \<Rightarrow> Inl unreadable
      | Some content \<Rightarrow> walk_lines L key 0 ZERO_HASH empty_report (audit_lines content))"

definition verify ::
  "('z) audit_lib_scheme \<Rightarrow> string \<Rightarrow> string option \<Rightarrow> world \<Rightarrow> verify_report res" where
  "verify L path key w = res_bind (walk L path key w) (\<lambda>rp. Inr (fst rp))"

fun checkpoint_lines ::
  "('z) audit_lib_scheme \<Rightarrow> nat \<Rightarrow> string \<Rightarrow> nat \<Rightarrow> string \<Rightarrow> string list \<Rightarrow> unit res" where
  "checkpoint_lines L head_seq head_hash seq prev [] =
     Inl (Corrupt ''audit log is behind the vault checkpoint: the event for the last vault change is missing'')"
| "checkpoint_lines L head_seq head_hash seq prev (l # ls) =
     (case parse_line L l of
        None \<Rightarrow> Inl (Corrupt ''audit line invalid'')
      | Some parsed \<Rightarrow>
          if ev_seq (al_event parsed) \<noteq> Suc seq then Inl (Corrupt ''audit seq out of order'')
          else let computed = entry_hash L prev (al_event parsed) in
            if Suc seq = head_seq then
              res_bind (audit_unhex (al_hash parsed)) (\<lambda>h.
                if h \<noteq> computed \<or> al_hash parsed \<noteq> head_hash
                then Inl (Corrupt ''audit log diverges from the vault checkpoint'')
                else Inr ())
            else checkpoint_lines L head_seq head_hash (Suc seq) computed ls)"

definition check_checkpoint ::
  "('z) audit_lib_scheme \<Rightarrow> string \<Rightarrow> nat \<Rightarrow> string \<Rightarrow> world \<Rightarrow> unit res" where
  "check_checkpoint L path head_seq head_hash w =
     (case read_to_string path w of
        None \<Rightarrow> Inl unreadable
      | Some content \<Rightarrow> checkpoint_lines L head_seq head_hash 0 ZERO_HASH (audit_lines content))"

fun parse_all :: "('z) audit_lib_scheme \<Rightarrow> string list \<Rightarrow> audit_line list res" where
  "parse_all L [] = Inr []"
| "parse_all L (l # ls) =
     (case parse_line L l of
        None \<Rightarrow> Inl (Corrupt ''audit line invalid'')
      | Some x \<Rightarrow> res_bind (parse_all L ls) (\<lambda>xs. Inr (x # xs)))"

definition read_all :: "('z) audit_lib_scheme \<Rightarrow> string \<Rightarrow> world \<Rightarrow> audit_line list res" where
  "read_all L path w =
     (case read_to_string path w of
        None \<Rightarrow> Inl unreadable
      | Some content \<Rightarrow> parse_all L (audit_lines content))"

definition tail :: "('z) audit_lib_scheme \<Rightarrow> string \<Rightarrow> nat \<Rightarrow> world \<Rightarrow> audit_line list res" where
  "tail L path n w =
     res_bind (read_all L path w) (\<lambda>lines. Inr (drop (length lines - n) lines))"

section \<open>Writing\<close>

definition load_or_init :: "('z) audit_lib_scheme \<Rightarrow> string \<Rightarrow> world \<Rightarrow> audit_log res \<times> world" where
  "load_or_init L path w =
     (case w_dir w path of
        None \<Rightarrow>
          (if fault_now w \<noteq> None then (Inl io_failed, tick w)
           else let w1 = set_file path (Some []) (tick w) in
             if fault_now w1 \<noteq> None then (Inl io_failed, tick w1)
             else (Inr \<lparr>lg_path = path, lg_seq = 0, lg_last_hash = ZERO_HASH,
                        lg_soft = AUDIT_SOFT_LIMIT, lg_hard = MAX_AUDIT_LEN\<rparr>, tick w1))
      | Some _ \<Rightarrow>
          (case walk L path None w of
             Inl e \<Rightarrow> (Inl e, w)
           | Inr (report, last_hash) \<Rightarrow>
               (Inr \<lparr>lg_path = path, lg_seq = vr_entries report, lg_last_hash = last_hash,
                     lg_soft = AUDIT_SOFT_LIMIT, lg_hard = MAX_AUDIT_LEN\<rparr>, w)))"

text \<open>The probe carries a full-length hash and MAC, so its length bounds the real line.\<close>

definition probe_line :: "audit_event \<Rightarrow> audit_line" where
  "probe_line event =
     \<lparr>al_event = event, al_hash = replicate 64 (CHR ''0''),
      al_mac = Some (replicate 64 (CHR ''0''))\<rparr>"

definition preflight ::
  "('z) audit_lib_scheme \<Rightarrow> audit_log \<Rightarrow> world \<Rightarrow> audit_event \<Rightarrow> priority \<Rightarrow> unit res" where
  "preflight L lg w event prio =
     (let projected = file_len (lg_path lg) w + length (line_json L (probe_line event)) + 1;
          ceiling = (case prio of Ordinary \<Rightarrow> lg_soft lg | Lifecycle \<Rightarrow> lg_hard lg)
      in if projected > ceiling
         then (case prio of
                 Ordinary \<Rightarrow> Inl (AuditFull ''refused before any change; rotation is post-MVP'')
               | Lifecycle \<Rightarrow> Inl (AuditWrite ''audit log reached its hard ceiling''))
         else Inr ())"

definition stage_event ::
  "('z) audit_lib_scheme \<Rightarrow> (string \<Rightarrow> audit_log \<Rightarrow> audit_event) \<Rightarrow> string option \<Rightarrow> priority
    \<Rightarrow> audit_log \<Rightarrow> world \<Rightarrow> staged_entry res" where
  "stage_event L mk mac_key prio lg w =
     (let synced = resync L w lg in
      case rfc3339 L (w_wall w) of
        None \<Rightarrow> Inl (Protocol ''audit timestamp: format'')
      | Some ts \<Rightarrow>
          (let event = mk ts synced in
           res_bind (preflight L synced w event prio) (\<lambda>_.
             Inr \<lparr>st_event = event,
                  st_hash_hex = hex (entry_hash L (lg_last_hash synced) event),
                  st_mac_hex = map_option (\<lambda>k. hex (entry_mac L k (lg_last_hash synced) event))
                                 mac_key\<rparr>)))"

definition record_event :: "audit_record \<Rightarrow> string \<Rightarrow> audit_log \<Rightarrow> audit_event" where
  "record_event r ts synced =
     \<lparr>ev_ts = ts, ev_seq = lg_seq synced + 1, ev_prev_hash = hex (lg_last_hash synced),
      ev_actor = r_actor r, ev_op = r_op r, ev_project = r_project r, ev_keys = r_keys r,
      ev_target = r_target r, ev_decision = r_decision r, ev_reason = r_reason r,
      ev_run_id = None, ev_executable = None, ev_arg_count = None, ev_cwd = None,
      ev_result = None, ev_exit_code = None, ev_signal = None\<rparr>"

definition run_event :: "run_record \<Rightarrow> string \<Rightarrow> audit_log \<Rightarrow> audit_event" where
  "run_event r ts synced =
     \<lparr>ev_ts = ts, ev_seq = lg_seq synced + 1, ev_prev_hash = hex (lg_last_hash synced),
      ev_actor = rr_actor r, ev_op = ''run_with_secrets'', ev_project = rr_project r,
      ev_keys = rr_keys r, ev_target = None, ev_decision = rr_decision r,
      ev_reason = rr_reason r, ev_run_id = rr_run_id r, ev_executable = rr_executable r,
      ev_arg_count = rr_arg_count r, ev_cwd = rr_cwd r, ev_result = rr_result r,
      ev_exit_code = rr_exit_code r, ev_signal = rr_signal r\<rparr>"

definition stage ::
  "('z) audit_lib_scheme \<Rightarrow> audit_record \<Rightarrow> string option \<Rightarrow> priority \<Rightarrow> audit_log \<Rightarrow> world
    \<Rightarrow> staged_entry res" where
  "stage L r mac_key prio lg w = stage_event L (record_event r) mac_key prio lg w"

definition stage_run ::
  "('z) audit_lib_scheme \<Rightarrow> run_record \<Rightarrow> string option \<Rightarrow> priority \<Rightarrow> audit_log \<Rightarrow> world
    \<Rightarrow> staged_entry res" where
  "stage_run L r mac_key prio lg w = stage_event L (run_event r) mac_key prio lg w"

text \<open>\<open>StagedEntry::mac_with\<close>: the previous hash of a staged entry is internal hex, so the
  decoding it unwraps cannot fail.\<close>

definition mac_with :: "('z) audit_lib_scheme \<Rightarrow> string \<Rightarrow> staged_entry \<Rightarrow> staged_entry" where
  "mac_with L key staged =
     (case audit_unhex (ev_prev_hash (st_event staged)) of
        Inl _ \<Rightarrow> staged
      | Inr prev \<Rightarrow> staged\<lparr>st_mac_hex := Some (hex (entry_mac L key prev (st_event staged)))\<rparr>)"

definition staged_line :: "staged_entry \<Rightarrow> audit_line" where
  "staged_line staged =
     \<lparr>al_event = st_event staged, al_hash = st_hash_hex staged, al_mac = st_mac_hex staged\<rparr>"

definition append_staged ::
  "('z) audit_lib_scheme \<Rightarrow> staged_entry \<Rightarrow> audit_log \<Rightarrow> world \<Rightarrow> unit res \<times> audit_log \<times> world" where
  "append_staged L staged lg0 w =
     (let lg = resync L w lg0;
          refuse = Protocol ''staged audit entry does not chain from the log head'' in
      if ev_seq (st_event staged) \<noteq> lg_seq lg + 1 then (Inl refuse, lg, w)
      else (case audit_unhex (ev_prev_hash (st_event staged)) of
        Inl e \<Rightarrow> (Inl e, lg, w)
      | Inr ph \<Rightarrow>
          if ph \<noteq> lg_last_hash lg then (Inl refuse, lg, w)
          else (let recomputed = entry_hash L (lg_last_hash lg) (st_event staged) in
            if hex recomputed \<noteq> st_hash_hex staged
            then (Inl (Protocol ''staged audit hash mismatch''), lg, w)
            else (case append_sync (lg_path lg) (line_json L (staged_line staged) @ [NL]) w of
                    (Inl e, w1) \<Rightarrow> (Inl e, lg, w1)
                  | (Inr _, w1) \<Rightarrow>
                      (Inr (), lg\<lparr>lg_seq := lg_seq lg + 1, lg_last_hash := recomputed\<rparr>, w1)))))"

text \<open>Staging works on a copy of the log object: a refusal leaves the cached head alone.\<close>

definition append_entry ::
  "('z) audit_lib_scheme \<Rightarrow> staged_entry res \<Rightarrow> audit_log \<Rightarrow> world \<Rightarrow> unit res \<times> audit_log \<times> world" where
  "append_entry L staged lg w =
     (case staged of Inl e \<Rightarrow> (Inl e, lg, w) | Inr s \<Rightarrow> append_staged L s lg w)"

definition append_audit ::
  "('z) audit_lib_scheme \<Rightarrow> audit_record \<Rightarrow> string option \<Rightarrow> priority \<Rightarrow> audit_log \<Rightarrow> world
    \<Rightarrow> unit res \<times> audit_log \<times> world" where
  "append_audit L r mac_key prio lg w = append_entry L (stage L r mac_key prio lg w) lg w"

definition append_run ::
  "('z) audit_lib_scheme \<Rightarrow> run_record \<Rightarrow> string option \<Rightarrow> priority \<Rightarrow> audit_log \<Rightarrow> world
    \<Rightarrow> unit res \<times> audit_log \<times> world" where
  "append_run L r mac_key prio lg w = append_entry L (stage_run L r mac_key prio lg w) lg w"

end
