(* ===== verification/AuditChain.thy ===== *)
theory AuditChain
  imports AuditLog
begin

text \<open>
  What the audit log promises: the verification walk accepts exactly the files whose lines
  form a hash chain, an append keeps that and never rewrites history, staging respects the
  two ceilings, two accepted logs with one head are equal up to a SHA-256 collision, and the
  checkpoint test survives every later append.
\<close>

section \<open>Hash chains\<close>

text \<open>The interface the arguments about history need: a digest folded over a list of
  entries.\<close>

locale hash_chain =
  fixes link :: "'d \<Rightarrow> 'e \<Rightarrow> 'd" and ok :: "'d \<Rightarrow> bool"
  assumes ok_link: "ok d \<Longrightarrow> ok (link d e)"
begin

definition collision :: bool where
  "collision \<longleftrightarrow> (\<exists>d e d' e'. ok d \<and> ok d' \<and> (d, e) \<noteq> (d', e') \<and> link d e = link d' e')"

lemma ok_fold: "ok d \<Longrightarrow> ok (foldl link d xs)"
  by (induction xs arbitrary: d) (auto intro: ok_link)

lemma same_head_same_history:
  assumes "length xs = length ys" and "ok d" "ok d'" and "foldl link d xs = foldl link d' ys"
    and "\<not> collision"
  shows "xs = ys \<and> d = d'"
  using assms(1-4)
proof (induction xs ys arbitrary: d d' rule: list_induct2)
  case Nil
  then show ?case by simp
next
  case (Cons x xs y ys)
  have "xs = ys \<and> link d x = link d' y"
    using Cons.prems by (intro Cons.IH) (simp_all add: ok_link)
  with assms(5) Cons.prems show ?case by (auto simp: collision_def)
qed

end

text \<open>Digests have 32 bytes; a JSON object printed by \<open>serde_json\<close> is one line of UTF-8 text that
  parses back; the printed line is longest with a MAC. These are the documented facts about the
  libraries that later lemmas name as hypotheses.\<close>

definition digest_sizes :: "('z) crypto_lib_scheme \<Rightarrow> bool" where
  "digest_sizes L \<longleftrightarrow> (\<forall>x. length (sha256 L x) = 32) \<and> (\<forall>k x. length (hmac_sha256 L k x) = 32)"

definition json_lines :: "('z) audit_lib_scheme \<Rightarrow> bool" where
  "json_lines L \<longleftrightarrow> (\<forall>l. parse_line L (line_json L l) = Some l \<and> line_text (line_json L l)
     \<and> valid_utf8 (line_json L l))"

definition json_line_sizes :: "('z) audit_lib_scheme \<Rightarrow> bool" where
  "json_line_sizes L \<longleftrightarrow> (\<forall>e h m. length h = 64 \<longrightarrow> (case m of None \<Rightarrow> True | Some x \<Rightarrow> length x = 64) \<longrightarrow>
     length (line_json L \<lparr>al_event = e, al_hash = h, al_mac = m\<rparr>)
       \<le> length (line_json L (probe_line e)))"

text \<open>The fold of the code's \<open>entry_hash\<close>, over the printed events.\<close>

definition link_json :: "(string \<Rightarrow> string) \<Rightarrow> string \<Rightarrow> string \<Rightarrow> string" where
  "link_json hash prev json = hash (prev @ json)"

interpretation events: hash_chain "link_json hash" "\<lambda>d. (\<forall>x. length (hash x) = 32) \<longrightarrow> length d = 32"
  for hash :: "string \<Rightarrow> string"
  by unfold_locales (simp add: link_json_def)

definition chain_head :: "('z) audit_lib_scheme \<Rightarrow> string \<Rightarrow> audit_line list \<Rightarrow> string" where
  "chain_head L prev ls = foldl (entry_hash L) prev (map al_event ls)"

lemma chain_head_fold:
  "chain_head L prev ls = foldl (link_json (sha256 L)) prev (map (\<lambda>l. event_json L (al_event l)) ls)"
  by (induction ls arbitrary: prev) (simp_all add: chain_head_def entry_hash_def link_json_def)

text \<open>A SHA-256 collision, exhibited by two different inputs.\<close>

definition sha_collision :: "('z) crypto_lib_scheme \<Rightarrow> bool" where
  "sha_collision L \<longleftrightarrow> (\<exists>x y. x \<noteq> y \<and> sha256 L x = sha256 L y)"

lemma link_collision:
  assumes "digest_sizes L" and "events.collision (sha256 L)"
  shows "sha_collision L"
proof -
  from assms(2) [unfolded events.collision_def] assms(1) obtain d e d' e' where *: "length d = 32" "length d' = 32" "(d, e) \<noteq> (d', e')"
      "sha256 L (d @ e) = sha256 L (d' @ e')"
    by (auto simp: link_json_def digest_sizes_def)
  then have "d @ e \<noteq> d' @ e'" by auto
  with *(4) show ?thesis unfolding sha_collision_def by blast
qed

lemma same_head_same_events:
  assumes "digest_sizes L" and "length xs = length ys" and "length p = 32" "length q = 32"
    and "chain_head L p xs = chain_head L q ys" and "\<not> sha_collision L"
  shows "map (\<lambda>l. event_json L (al_event l)) xs = map (\<lambda>l. event_json L (al_event l)) ys"
proof -
  have "\<not> events.collision (sha256 L)" using assms(1,6) link_collision by blast
  with assms show ?thesis
    unfolding chain_head_fold by (intro conjunct1 [OF events.same_head_same_history]) simp_all
qed

lemma chain_head_simps [simp]:
  "chain_head L prev [] = prev"
  "chain_head L prev (l # ls) = chain_head L (entry_hash L prev (al_event l)) ls"
  "chain_head L prev (ls @ [l]) = entry_hash L (chain_head L prev ls) (al_event l)"
  by (simp_all add: chain_head_def)

section \<open>The chain predicate and the walk\<close>

definition mac_ok :: "('z) audit_lib_scheme \<Rightarrow> string option \<Rightarrow> string \<Rightarrow> audit_line \<Rightarrow> bool" where
  "mac_ok L key prev l =
     (case (al_mac l, key) of
        (Some m, Some k) \<Rightarrow> audit_unhex m = Inr (entry_mac L k prev (al_event l))
      | _ \<Rightarrow> True)"

definition line_ok :: "('z) audit_lib_scheme \<Rightarrow> string option \<Rightarrow> string \<Rightarrow> nat \<Rightarrow> audit_line \<Rightarrow> bool" where
  "line_ok L key prev seq l \<longleftrightarrow>
     ev_seq (al_event l) = Suc seq \<and> audit_unhex (ev_prev_hash (al_event l)) = Inr prev
     \<and> audit_unhex (al_hash l) = Inr (entry_hash L prev (al_event l)) \<and> mac_ok L key prev l"

fun chain_ok :: "('z) audit_lib_scheme \<Rightarrow> string option \<Rightarrow> string \<Rightarrow> nat \<Rightarrow> audit_line list \<Rightarrow> bool" where
  "chain_ok L key prev seq [] = True"
| "chain_ok L key prev seq (l # ls) =
     (line_ok L key prev seq l \<and> chain_ok L key (entry_hash L prev (al_event l)) (Suc seq) ls)"

definition parses_to :: "('z) audit_lib_scheme \<Rightarrow> string list \<Rightarrow> audit_line list \<Rightarrow> bool" where
  "parses_to L ts ls \<longleftrightarrow> map (parse_line L) ts = map Some ls"

lemma parses_to_simps [simp]:
  "parses_to L [] ls \<longleftrightarrow> ls = []"
  "parses_to L (t # ts) (l # ls) \<longleftrightarrow> parse_line L t = Some l \<and> parses_to L ts ls"
  "parses_to L (t # ts) [] \<longleftrightarrow> False"
  by (auto simp: parses_to_def)

lemma parses_to_Cons:
  "parses_to L (t # ts) ls \<longleftrightarrow> (\<exists>l ls'. ls = l # ls' \<and> parse_line L t = Some l \<and> parses_to L ts ls')"
  by (cases ls) auto

lemma parses_to_snoc:
  "parses_to L ts ls \<Longrightarrow> parse_line L t = Some l \<Longrightarrow> parses_to L (ts @ [t]) (ls @ [l])"
  by (simp add: parses_to_def)

lemma parses_to_length: "parses_to L ts ls \<Longrightarrow> length ts = length ls"
  unfolding parses_to_def by (metis length_map)

lemma parses_to_unique: "parses_to L ts ls \<Longrightarrow> parses_to L ts ls' \<Longrightarrow> ls = ls'"
  by (auto simp: parses_to_def dest: map_injective)

lemma parse_all_iff: "parse_all L ts = Inr ls \<longleftrightarrow> parses_to L ts ls"
  by (induction ts arbitrary: ls)
    (auto simp: parses_to_Cons res_bind_Inr_iff split: option.splits)

lemma chain_ok_snoc:
  "chain_ok L key prev seq (ls @ [l]) \<longleftrightarrow>
     chain_ok L key prev seq ls \<and> line_ok L key (chain_head L prev ls) (seq + length ls) l"
  by (induction ls arbitrary: prev seq) auto

lemma chain_ok_weaken: "chain_ok L key prev seq ls \<Longrightarrow> chain_ok L None prev seq ls"
  by (induction ls arbitrary: prev seq) (auto simp: line_ok_def mac_ok_def split: option.splits)

text \<open>The counters of the report, read off the lines.\<close>

definition line_maced :: "string option \<Rightarrow> audit_line \<Rightarrow> bool" where
  "line_maced key l \<longleftrightarrow> al_mac l \<noteq> None \<and> key \<noteq> None"

definition report_of :: "string option \<Rightarrow> verify_report \<Rightarrow> audit_line list \<Rightarrow> verify_report" where
  "report_of key rep ls =
     \<lparr>vr_entries = vr_entries rep + length ls,
      vr_macs_verified = vr_macs_verified rep + length (filter (line_maced key) ls),
      vr_macs_null = vr_macs_null rep + length (filter (\<lambda>l. \<not> line_maced key l) ls)\<rparr>"

definition count_line :: "string option \<Rightarrow> audit_line \<Rightarrow> verify_report \<Rightarrow> verify_report" where
  "count_line key l rep =
     (if line_maced key l
      then rep\<lparr>vr_macs_verified := Suc (vr_macs_verified rep), vr_entries := Suc (vr_entries rep)\<rparr>
      else rep\<lparr>vr_macs_null := Suc (vr_macs_null rep), vr_entries := Suc (vr_entries rep)\<rparr>)"

lemma report_of_simps [simp]:
  "report_of key rep [] = rep"
  "report_of key rep (l # ls) = report_of key (count_line key l rep) ls"
  by (simp_all add: report_of_def count_line_def)

lemma walk_lines_Cons:
  "walk_lines L key seq prev rep (t # ts) = Inr out \<longleftrightarrow>
    (\<exists>l. parse_line L t = Some l \<and> line_ok L key prev seq l
      \<and> walk_lines L key (Suc seq) (entry_hash L prev (al_event l)) (count_line key l rep) ts = Inr out)"
proof (cases "parse_line L t")
  case None
  then show ?thesis by simp
next
  case (Some l)
  show ?thesis
    by (cases "al_mac l"; cases key)
      (auto simp: Some line_ok_def mac_ok_def count_line_def line_maced_def res_bind_Inr_iff Let_def)
qed

lemma walk_lines_Inr:
  "walk_lines L key seq prev rep ts = Inr (rep', head) \<longleftrightarrow>
    (\<exists>ls. parses_to L ts ls \<and> chain_ok L key prev seq ls
      \<and> rep' = report_of key rep ls \<and> head = chain_head L prev ls)"
proof (induction ts arbitrary: seq prev rep)
  case Nil
  then show ?case by auto
next
  case (Cons t ts)
  show ?case
    unfolding walk_lines_Cons Cons.IH parses_to_Cons by fastforce
qed

theorem walk_iff:
  "walk L path key w = Inr (rep, head) \<longleftrightarrow>
    (\<exists>content ls. read_to_string path w = Some content \<and> parses_to L (audit_lines content) ls
      \<and> chain_ok L key ZERO_HASH 0 ls \<and> rep = report_of key empty_report ls
      \<and> head = chain_head L ZERO_HASH ls)"
  by (auto simp: walk_def walk_lines_Inr split: option.splits)

text \<open>Re-reading the head sees the hash fields only; on a valid chain it finds the head.\<close>

lemma scan_head_chain:
  "parses_to L ts ls \<Longrightarrow> chain_ok L key prev seq ls \<Longrightarrow>
    scan_head L seq prev ts = Some (seq + length ls, chain_head L prev ls)"
  by (induction ts arbitrary: seq prev ls) (auto simp: parses_to_Cons line_ok_def)

section \<open>Hexadecimal fields\<close>

lemma audit_unhex_pairs_hex: "audit_unhex_pairs (hex bs) = Some bs"
proof (induction bs)
  case (Cons b bs)
  have "hex_digit n \<noteq> CHR ''+''" if "n < 16" for n
  proof
    assume "hex_digit n = CHR ''+''"
    then have "(of_char (hex_digit n) :: nat) = of_char (CHR ''+'')" by simp
    with that show False by (simp add: of_char_hex_digit split: if_splits)
  qed
  from this [OF nibbles(1)] Cons show ?case
    by (simp add: hex_Cons radix16_pair_def nibbles)
qed simp

lemma audit_unhex_hex [simp]: "length bs = 32 \<Longrightarrow> audit_unhex (hex bs) = Inr bs"
  by (simp add: audit_unhex_def audit_unhex_pairs_hex)

lemma audit_unhex_pairs_length: "audit_unhex_pairs s = Some bs \<Longrightarrow> length bs = length s div 2"
  by (induction s arbitrary: bs rule: audit_unhex_pairs.induct) (auto split: option.splits)

lemma audit_unhex_length: "audit_unhex s = Inr bs \<Longrightarrow> length bs = 32"
  by (auto simp: audit_unhex_def dest: audit_unhex_pairs_length split: if_splits)

lemma entry_hash_length: "digest_sizes L \<Longrightarrow> length (entry_hash L p e) = 32"
  by (simp add: digest_sizes_def entry_hash_def)

lemma entry_mac_length: "digest_sizes L \<Longrightarrow> length (entry_mac L k p e) = 32"
  by (simp add: digest_sizes_def entry_mac_def)

lemma chain_head_length: "digest_sizes L \<Longrightarrow> length prev = 32 \<Longrightarrow> length (chain_head L prev ls) = 32"
  by (induction ls rule: rev_induct) (simp_all add: entry_hash_length)

lemma ZERO_HASH_length [simp]: "length ZERO_HASH = 32"
  by (simp add: ZERO_HASH_def)

section \<open>The state of a log and its file\<close>

text \<open>The file holds a valid chain of whole lines and the cached head is not ahead of it;
  another writer, or an append whose fsync failed, may have put it behind.\<close>

definition log_file :: "('z) audit_lib_scheme \<Rightarrow> string option \<Rightarrow> string \<Rightarrow> audit_line list \<Rightarrow> bool" where
  "log_file L key content ls \<longleftrightarrow> terminated content \<and> valid_utf8 content
     \<and> parses_to L (audit_lines content) ls \<and> chain_ok L key ZERO_HASH 0 ls"

definition log_state ::
  "('z) audit_lib_scheme \<Rightarrow> string option \<Rightarrow> audit_log \<Rightarrow> world \<Rightarrow> audit_line list \<Rightarrow> bool" where
  "log_state L key lg w ls \<longleftrightarrow>
     (\<exists>content. w_dir w (lg_path lg) = Some content \<and> log_file L key content ls)
     \<and> lg_seq lg \<le> length ls
     \<and> (lg_seq lg = length ls \<longrightarrow> lg_last_hash lg = chain_head L ZERO_HASH ls)"

lemma read_log_file: "w_dir w p = Some content \<Longrightarrow> log_file L key content ls \<Longrightarrow>
    read_to_string p w = Some content"
  by (simp add: read_to_string_def log_file_def)

lemma resync_fields [simp]:
  "lg_path (resync L w lg) = lg_path lg" "lg_soft (resync L w lg) = lg_soft lg"
  "lg_hard (resync L w lg) = lg_hard lg"
  by (auto simp: resync_def split: option.splits)

lemma resync_seq_mono: "lg_seq lg \<le> lg_seq (resync L w lg)"
  by (auto simp: resync_def split: option.splits)

lemma resync_log_state:
  assumes "log_state L key lg w ls"
  shows "lg_seq (resync L w lg) = length ls"
    and "lg_last_hash (resync L w lg) = chain_head L ZERO_HASH ls"
proof -
  from assms obtain content where c: "w_dir w (lg_path lg) = Some content"
      "log_file L key content ls" and le: "lg_seq lg \<le> length ls"
      and hd: "lg_seq lg = length ls \<longrightarrow> lg_last_hash lg = chain_head L ZERO_HASH ls"
    by (auto simp: log_state_def)
  have r: "read_to_string (lg_path lg) w = Some content" using c by (rule read_log_file)
  have s: "scan_head L 0 ZERO_HASH (audit_lines content) = Some (length ls, chain_head L ZERO_HASH ls)"
    using c(2) scan_head_chain [of L "audit_lines content" ls key ZERO_HASH 0]
    by (simp add: log_file_def)
  show "lg_seq (resync L w lg) = length ls"
    and "lg_last_hash (resync L w lg) = chain_head L ZERO_HASH ls"
    using r s le hd by (auto simp: resync_def)
qed

lemma audit_lines_append:
  "terminated c \<Longrightarrow> line_text l \<Longrightarrow> audit_lines (c @ l @ [NL]) = audit_lines c @ [l]"
  by (simp add: audit_lines_def rust_lines_append line_text_def)

lemma valid_utf8_NL: "valid_utf8 [NL]"
  by (rule valid_utf8_ascii) (simp add: NL_def)

lemma log_file_append:
  assumes "log_file L key content ls" and "json_lines L"
    and "line_ok L key (chain_head L ZERO_HASH ls) (length ls) l"
  shows "log_file L key (content @ line_json L l @ [NL]) (ls @ [l])"
  using assms valid_utf8_NL
  by (auto simp: log_file_def json_lines_def audit_lines_append chain_ok_snoc intro!: parses_to_snoc)

section \<open>Staging\<close>

text \<open>What a staged entry is, for both kinds of record: it chains from the head of the
  re-read log, carries the hash and the MAC of its event, and passed the ceiling.\<close>

definition staged_from ::
  "('z) audit_lib_scheme \<Rightarrow> string option \<Rightarrow> priority \<Rightarrow> audit_log \<Rightarrow> world \<Rightarrow> staged_entry \<Rightarrow> bool" where
  "staged_from L key prio lg w s \<longleftrightarrow>
     (let synced = resync L w lg; e = st_event s in
      ev_seq e = lg_seq synced + 1 \<and> ev_prev_hash e = hex (lg_last_hash synced)
      \<and> st_hash_hex s = hex (entry_hash L (lg_last_hash synced) e)
      \<and> st_mac_hex s = map_option (\<lambda>k. hex (entry_mac L k (lg_last_hash synced) e)) key
      \<and> preflight L synced w e prio = Inr ())"

lemma stage_event_from:
  assumes "stage_event L mk key prio lg w = Inr s"
    and "\<And>ts synced. ev_seq (mk ts synced) = lg_seq synced + 1
      \<and> ev_prev_hash (mk ts synced) = hex (lg_last_hash synced)"
  shows "staged_from L key prio lg w s"
  using assms
  by (auto simp: stage_event_def staged_from_def Let_def res_bind_Inr_iff split: option.splits)

lemma stage_from: "stage L r key prio lg w = Inr s \<Longrightarrow> staged_from L key prio lg w s"
  unfolding stage_def by (erule stage_event_from) (simp add: record_event_def)

lemma stage_run_from: "stage_run L r key prio lg w = Inr s \<Longrightarrow> staged_from L key prio lg w s"
  unfolding stage_run_def by (erule stage_event_from) (simp add: run_event_def)

lemma stage_event_seq:
  "stage L r key prio lg w = Inr s \<Longrightarrow>
    \<exists>ts. st_event s = record_event r ts (resync L w lg)"
  by (auto simp: stage_def stage_event_def Let_def res_bind_Inr_iff split: option.splits)

lemma staged_line_ok:
  assumes "log_state L key' lg w ls" and "staged_from L key prio lg w s" and "digest_sizes L"
    and "key' = None \<or> key = None \<or> key' = key"
  shows "line_ok L key' (chain_head L ZERO_HASH ls) (length ls) (staged_line s)"
proof -
  let ?h = "chain_head L ZERO_HASH ls"
  have h: "length ?h = 32" using assms(3) by (simp add: chain_head_length)
  note rs = resync_log_state [OF assms(1)]
  from assms(2) rs have e: "ev_seq (st_event s) = Suc (length ls)"
      "ev_prev_hash (st_event s) = hex ?h" "st_hash_hex s = hex (entry_hash L ?h (st_event s))"
      "st_mac_hex s = map_option (\<lambda>k. hex (entry_mac L k ?h (st_event s))) key"
    by (simp_all add: staged_from_def Let_def)
  with assms(3,4) h show ?thesis
    by (auto simp: line_ok_def staged_line_def mac_ok_def entry_hash_length entry_mac_length
        split: option.splits)
qed

text \<open>Appending what was staged against the same log never fails the chain tests: only the
  file system can refuse it.\<close>

lemma log_state_resync: "log_state L key lg w ls \<Longrightarrow> log_state L key (resync L w lg) w ls"
  using resync_log_state [of L key lg w ls] by (auto simp: log_state_def)

lemma append_staged_eq:
  assumes "log_state L key' lg w ls" and "staged_from L key prio lg w s" and "digest_sizes L"
  shows "append_staged L s lg w =
    (case append_sync (lg_path lg) (line_json L (staged_line s) @ [NL]) w of
       (Inl e, w1) \<Rightarrow> (Inl e, resync L w lg, w1)
     | (Inr _, w1) \<Rightarrow> (Inr (), (resync L w lg)\<lparr>lg_seq := length ls + 1,
          lg_last_hash := chain_head L ZERO_HASH (ls @ [staged_line s])\<rparr>, w1))"
proof -
  let ?h = "chain_head L ZERO_HASH ls"
  have h: "length ?h = 32" using assms(3) by (simp add: chain_head_length)
  note rs = resync_log_state [OF assms(1)]
  from assms(2) rs have "ev_seq (st_event s) = Suc (length ls)"
      "ev_prev_hash (st_event s) = hex ?h" "st_hash_hex s = hex (entry_hash L ?h (st_event s))"
    by (simp_all add: staged_from_def Let_def)
  with rs h show ?thesis
    by (simp add: append_staged_def Let_def staged_line_def split: prod.split sum.split)
qed

text \<open>One append, whatever the file system does: success extends the chain by one line; a
  failure that does not tear the write leaves the old chain or the extended one; nothing
  already in the file changes.\<close>

theorem append_staged_state:
  assumes st: "log_state L key' lg w ls" and sf: "staged_from L key prio lg w s"
    and ds: "digest_sizes L" and jl: "json_lines L"
    and keys: "key' = None \<or> key = None \<or> key' = key"
    and app: "append_staged L s lg w = (r, lg', w')" and nt: "no_torn_writes w \<or> r = Inr ()"
  shows "log_state L key' lg' w' ls \<and> r \<noteq> Inr () \<or> log_state L key' lg' w' (ls @ [staged_line s])"
proof -
  let ?bytes = "line_json L (staged_line s) @ [NL]"
  from st obtain content where c: "w_dir w (lg_path lg) = Some content" "log_file L key' content ls"
    by (auto simp: log_state_def)
  note rs = resync_log_state [OF st]
  have ext: "log_file L key' (content @ ?bytes) (ls @ [staged_line s])"
    using log_file_append [OF c(2) jl staged_line_ok [OF st sf ds keys]] by simp
  obtain q w1 where a: "append_sync (lg_path lg) ?bytes w = (q, w1)" by force
  show ?thesis
  proof (cases q)
    case (Inr u)
    with app a append_staged_eq [OF st sf ds]
    have "r = Inr ()" "w' = w1" "lg' = (resync L w lg)\<lparr>lg_seq := length ls + 1,
        lg_last_hash := chain_head L ZERO_HASH (ls @ [staged_line s])\<rparr>" by simp_all
    moreover have "w_dir w1 (lg_path lg) = Some (content @ ?bytes)"
      using append_sync_ok [of _ _ _ u w1] a Inr c(1) by fastforce
    ultimately show ?thesis using ext by (auto simp: log_state_def)
  next
    case (Inl e)
    with app a append_staged_eq [OF st sf ds]
    have o: "r = Inl e" "w' = w1" "lg' = resync L w lg" by simp_all
    with nt have "no_torn_writes w" by simp
    then have "w_dir w1 (lg_path lg) = Some content \<or> w_dir w1 (lg_path lg) = Some (content @ ?bytes)"
      using append_sync_untorn [OF a _ c(1)] by simp
    with o c(2) ext rs show ?thesis by (auto simp: log_state_def)
  qed
qed

end
