(* ===== verification/Codec.thy ===== *)
theory Codec
  imports AuditLog
begin

text \<open>
  A concrete serialiser with the documented behaviour of \<open>serde_json\<close>, for the witnesses: every
  value is printed as a self-delimiting text of the characters 0 and 1 and parses back. The
  combinators are shared by the audit lines and the toy libraries of the later witnesses.
\<close>

type_synonym 'a printer = "'a \<Rightarrow> string"
type_synonym 'a parser = "string \<Rightarrow> ('a \<times> string) option"

definition bits_text :: "string \<Rightarrow> bool" where
  "bits_text s \<longleftrightarrow> set s \<subseteq> {CHR ''0'', CHR ''1''}"

definition codec :: "'a printer \<Rightarrow> 'a parser \<Rightarrow> bool" where
  "codec e d \<longleftrightarrow> (\<forall>x r. d (e x @ r) = Some (x, r)) \<and> (\<forall>x. bits_text (e x))"

definition p_map :: "('a \<Rightarrow> 'b) \<Rightarrow> 'a parser \<Rightarrow> 'b parser" where
  "p_map f d s = (case d s of None \<Rightarrow> None | Some (x, r) \<Rightarrow> Some (f x, r))"

definition p_pair :: "'a parser \<Rightarrow> 'b parser \<Rightarrow> ('a \<times> 'b) parser" where
  "p_pair d1 d2 s =
     (case d1 s of None \<Rightarrow> None | Some (x, r) \<Rightarrow>
       (case d2 r of None \<Rightarrow> None | Some (y, r') \<Rightarrow> Some ((x, y), r')))"

definition e_pair :: "'a printer \<Rightarrow> 'b printer \<Rightarrow> ('a \<times> 'b) printer" where
  "e_pair e1 e2 xy = e1 (fst xy) @ e2 (snd xy)"

definition e_bool :: "bool printer" where
  "e_bool b = (if b then ''1'' else ''0'')"

fun p_bool :: "bool parser" where
  "p_bool [] = None"
| "p_bool (ch # r) = Some (ch = CHR ''1'', r)"

fun e_list :: "'a printer \<Rightarrow> 'a list printer" where
  "e_list e [] = ''0''"
| "e_list e (x # xs) = CHR ''1'' # e x @ e_list e xs"

fun p_list :: "nat \<Rightarrow> 'a parser \<Rightarrow> 'a list parser" where
  "p_list 0 d s = None"
| "p_list (Suc n) d s =
     (case s of [] \<Rightarrow> None
      | ch # r \<Rightarrow> if ch = CHR ''0'' then Some ([], r)
          else (case d r of None \<Rightarrow> None
                | Some (x, r') \<Rightarrow> p_map (Cons x) (p_list n d) r'))"

definition p_many :: "'a parser \<Rightarrow> 'a list parser" where
  "p_many d s = p_list (length s) d s"

definition e_opt :: "'a printer \<Rightarrow> 'a option printer" where
  "e_opt e q = (case q of None \<Rightarrow> ''0'' | Some x \<Rightarrow> CHR ''1'' # e x)"

fun p_opt :: "'a parser \<Rightarrow> 'a option parser" where
  "p_opt d [] = None"
| "p_opt d (ch # r) = (if ch = CHR ''0'' then Some (None, r) else p_map Some d r)"

definition bits8 :: "char \<Rightarrow> bool list" where
  "bits8 c = [digit0 c, digit1 c, digit2 c, digit3 c, digit4 c, digit5 c, digit6 c, digit7 c]"

definition e_char :: "char printer" where
  "e_char c = concat (map e_bool (bits8 c))"

fun p_char :: "char parser" where
  "p_char (a # b # c # d # e # f # g # h # r) =
     (let o' = (\<lambda>x. x = CHR ''1'') in Some (Char (o' a) (o' b) (o' c) (o' d) (o' e) (o' f) (o' g) (o' h), r))"
| "p_char _ = None"

definition e_str :: "string printer" where "e_str = e_list e_char"
definition p_str :: "string parser" where "p_str = p_many p_char"

definition e_nat :: "nat printer" where "e_nat n = e_list (\<lambda>_. []) (replicate n ())"
definition p_nat :: "nat parser" where
  "p_nat = p_map length (p_many (\<lambda>s. Some ((), s)))"

definition e_int :: "int printer" where
  "e_int i = e_pair e_bool e_nat (i < 0, nat \<bar>i\<bar>)"
definition p_int :: "int parser" where
  "p_int = p_map (\<lambda>(neg, n). if neg then - int n else int n) (p_pair p_bool p_nat)"

section \<open>Every combinator parses what it prints\<close>

lemma bits_text_simps [simp]:
  "bits_text []" "bits_text (x # s) \<longleftrightarrow> (x = CHR ''0'' \<or> x = CHR ''1'') \<and> bits_text s"
  "bits_text (s @ t) \<longleftrightarrow> bits_text s \<and> bits_text t"
  by (auto simp: bits_text_def)

lemma codecD: "codec e d \<Longrightarrow> d (e x @ r) = Some (x, r)" "codec e d \<Longrightarrow> bits_text (e x)"
  by (auto simp: codec_def)

lemma codec_bool: "codec e_bool p_bool"
  by (auto simp: codec_def e_bool_def)

lemma codec_pair: "codec e1 d1 \<Longrightarrow> codec e2 d2 \<Longrightarrow> codec (e_pair e1 e2) (p_pair d1 d2)"
  by (auto simp: codec_def e_pair_def p_pair_def)

lemma codec_map:
  "codec e d \<Longrightarrow> (\<And>x. g (f x) = x) \<Longrightarrow> codec (\<lambda>x. e (f x)) (p_map g d)"
  by (auto simp: codec_def p_map_def)

lemma codec_opt: "codec e d \<Longrightarrow> codec (e_opt e) (p_opt d)"
  by (auto simp: codec_def e_opt_def p_map_def split: option.split)

lemma length_e_list: "length xs < length (e_list e xs)"
  by (induction xs) auto

lemma p_list_e_list:
  "codec e d \<Longrightarrow> length xs < n \<Longrightarrow> p_list n d (e_list e xs @ r) = Some (xs, r)"
proof (induction xs arbitrary: n)
  case Nil
  then show ?case by (cases n) simp_all
next
  case (Cons x xs)
  then show ?case by (cases n) (simp_all add: codecD p_map_def)
qed

lemma codec_list:
  assumes "codec e d"
  shows "codec (e_list e) (p_many d)"
proof -
  have "bits_text (e_list e xs)" for xs
    using assms by (induction xs) (simp_all add: codecD)
  moreover have "p_many d (e_list e xs @ r) = Some (xs, r)" for xs r
    unfolding p_many_def using length_e_list [of xs e] by (intro p_list_e_list [OF assms]) simp
  ultimately show ?thesis by (simp add: codec_def)
qed

lemma codec_char: "codec e_char p_char"
  unfolding codec_def
proof (intro conjI allI)
  fix x r
  show "p_char (e_char x @ r) = Some (x, r)"
    by (cases x) (simp add: e_char_def bits8_def e_bool_def Let_def)
  show "bits_text (e_char x)"
    by (simp add: e_char_def bits8_def e_bool_def)
qed

lemma codec_str: "codec e_str p_str"
  unfolding e_str_def p_str_def by (rule codec_list) (rule codec_char)

lemma codec_nat: "codec e_nat p_nat"
proof -
  have "codec (\<lambda>_::unit. []) (\<lambda>s. Some ((), s))" by (simp add: codec_def)
  from codec_map [OF codec_list [OF this], of length "\<lambda>n. replicate n ()"]
  show ?thesis by (simp add: e_nat_def [abs_def] p_nat_def)
qed

lemma codec_int: "codec e_int p_int"
proof -
  have "codec (\<lambda>i. e_pair e_bool e_nat (i < 0, nat \<bar>i\<bar>)) p_int"
    unfolding p_int_def
    by (rule codec_map [OF codec_pair [OF codec_bool codec_nat]]) auto
  then show ?thesis by (simp add: e_int_def [abs_def])
qed

lemma length_e_char [simp]: "length (e_char c) = 8"
  by (simp add: e_char_def bits8_def e_bool_def)

lemma length_e_str [simp]: "length (e_str s) = 9 * length s + 1"
  unfolding e_str_def by (induction s) simp_all

section \<open>Audit lines\<close>

definition event_tuple where
  "event_tuple e =
     ((ev_ts e, ev_seq e, ev_prev_hash e, ev_actor e, ev_op e, ev_project e, ev_keys e),
      (ev_target e, ev_decision e = Allowed, ev_reason e, ev_run_id e, ev_executable e,
       ev_arg_count e, ev_cwd e, ev_result e, ev_exit_code e, ev_signal e))"

definition tuple_event where
  "tuple_event t =
     (case t of ((ts, sq, ph, ac, op, pr, ks), (tg, dc, rs, ri, ex, an, cw, re, xc, sg)) \<Rightarrow>
       \<lparr>ev_ts = ts, ev_seq = sq, ev_prev_hash = ph, ev_actor = ac, ev_op = op, ev_project = pr,
        ev_keys = ks, ev_target = tg, ev_decision = (if dc then Allowed else Denied),
        ev_reason = rs, ev_run_id = ri, ev_executable = ex, ev_arg_count = an, ev_cwd = cw,
        ev_result = re, ev_exit_code = xc, ev_signal = sg\<rparr>)"

lemma tuple_event: "tuple_event (event_tuple e) = e"
  by (cases e; cases "ev_decision e") (auto simp: tuple_event_def event_tuple_def)

abbreviation "e_ostr \<equiv> e_opt e_str"
abbreviation "p_ostr \<equiv> p_opt p_str"

definition e_event :: "audit_event printer" where
  "e_event e = e_pair
     (e_pair e_str (e_pair e_nat (e_pair e_str (e_pair e_str (e_pair e_str (e_pair e_ostr (e_list e_str)))))))
     (e_pair e_ostr (e_pair e_bool (e_pair e_ostr (e_pair e_ostr (e_pair e_ostr (e_pair (e_opt e_nat)
       (e_pair e_ostr (e_pair e_ostr (e_pair (e_opt e_int) e_ostr)))))))))
     (event_tuple e)"

definition p_event :: "audit_event parser" where
  "p_event = p_map tuple_event (p_pair
     (p_pair p_str (p_pair p_nat (p_pair p_str (p_pair p_str (p_pair p_str (p_pair p_ostr (p_many p_str)))))))
     (p_pair p_ostr (p_pair p_bool (p_pair p_ostr (p_pair p_ostr (p_pair p_ostr (p_pair (p_opt p_nat)
       (p_pair p_ostr (p_pair p_ostr (p_pair (p_opt p_int) p_ostr))))))))))"

lemma codec_event: "codec e_event p_event"
  unfolding e_event_def [abs_def] p_event_def
  by (rule codec_map, (rule codec_pair codec_str codec_nat codec_opt codec_list codec_bool codec_int)+)
    (rule tuple_event)

definition e_line :: "audit_line printer" where
  "e_line l = e_pair e_event (e_pair e_str e_ostr) (al_event l, al_hash l, al_mac l)"

definition p_line :: "audit_line parser" where
  "p_line = p_map (\<lambda>(e, h, m). \<lparr>al_event = e, al_hash = h, al_mac = m\<rparr>)
     (p_pair p_event (p_pair p_str p_ostr))"

lemma codec_line: "codec e_line p_line"
  unfolding e_line_def [abs_def] p_line_def
  by (rule codec_map, (rule codec_pair codec_event codec_str codec_opt)+) simp

text \<open>A whole text is parsed when nothing is left over.\<close>

definition parse_whole :: "'a parser \<Rightarrow> string \<Rightarrow> 'a option" where
  "parse_whole d s = (case d s of Some (x, []) \<Rightarrow> Some x | _ \<Rightarrow> None)"

lemma parse_whole: "codec e d \<Longrightarrow> parse_whole d (e x) = Some x"
  using codecD(1) [of e d x "[]"] by (simp add: parse_whole_def)

lemma bits_text_line: "bits_text s \<Longrightarrow> s \<noteq> [] \<Longrightarrow> line_text s"
  unfolding line_text_def
  by (auto simp: bits_text_def NL_def CR_def dest!: last_in_set)

lemma bits_text_utf8: "bits_text s \<Longrightarrow> valid_utf8 s"
  by (rule valid_utf8_ascii) (auto simp: bits_text_def)

end
