(* ===== verification/AuditTheorems.thy ===== *)
theory AuditTheorems
  imports AuditProps
begin

text \<open>
  The properties of the audit log, each with the witness that applies it to a concrete log.
\<close>

lemma checkpoint_lines_iff:
  assumes "parses_to L ts ls" and "chain_ok L key prev seq ls"
  shows "checkpoint_lines L n h seq prev ts = Inr () \<longleftrightarrow>
    seq < n \<and> n \<le> seq + length ls \<and> h = al_hash (ls ! (n - Suc seq))"
  using assms
proof (induction ts arbitrary: seq prev ls)
  case Nil
  then show ?case by simp
next
  case (Cons t ts)
  then obtain l ls' where ls: "ls = l # ls'" "parse_line L t = Some l" "parses_to L ts ls'"
    by (auto simp: parses_to_Cons)
  with Cons.prems(2) have ok: "line_ok L key prev seq l"
      "chain_ok L key (entry_hash L prev (al_event l)) (Suc seq) ls'" by simp_all
  show ?case
  proof (cases "Suc seq = n")
    case True
    with ls ok show ?thesis by (auto simp: line_ok_def Let_def)
  next
    case False
    with ls ok have "checkpoint_lines L n h seq prev (t # ts)
        = checkpoint_lines L n h (Suc seq) (entry_hash L prev (al_event l)) ts"
      by (simp add: line_ok_def Let_def)
    also have "\<dots> = Inr () \<longleftrightarrow> Suc seq < n \<and> n \<le> Suc seq + length ls' \<and> h = al_hash (ls' ! (n - Suc (Suc seq)))"
      by (rule Cons.IH [OF ls(3) ok(2)])
    also have "\<dots> \<longleftrightarrow> seq < n \<and> n \<le> seq + length ls \<and> h = al_hash (ls ! (n - Suc seq))"
      using False ls by (auto simp: nth_Cons')
    finally show ?thesis .
  qed
qed

text \<open>C10: \<open>audit::verify\<close> accepts a file exactly when its non-empty lines parse to a sequence of
  entries numbered from 1, each carrying the hash of its predecessor and its own recomputed
  hash, and, where a MAC is present and the audit key is known, the right MAC; the report counts
  the entries and the checked MACs.\<close>

theorem audit_verify_iff:
  "verify L path key w = Inr rep \<longleftrightarrow>
    (\<exists>content ls. read_to_string path w = Some content \<and> parses_to L (audit_lines content) ls
      \<and> chain_ok L key ZERO_HASH 0 ls \<and> rep = report_of key empty_report ls)"
  by (auto simp: verify_def res_bind_Inr_iff walk_iff)

text \<open>appending an audit record, whatever it says and however the file system fails, never
  changes a byte that is already in the log and touches no other file.\<close>

theorem audit_append_only:
  "case append_audit L r key prio lg w of (res, lg', w') \<Rightarrow>
     extends (lg_path lg) w w' \<and> lg_path lg' = lg_path lg"
proof -
  obtain res lg' w' where a: "append_audit L r key prio lg w = (res, lg', w')"
    by (metis prod_cases3)
  then have "log_step lg w lg' w'"
    unfolding append_audit_def by (rule append_entry_step)
  with a show ?thesis by (simp add: log_step_def)
qed

lemma toy_resync: "resync toy_audit toy_log_world toy_log = toy_log"
  by (simp add: resync_def toy_log_def toy_log_world_def calm_world_def read_to_string_def
    valid_utf8_ascii audit_lines_def rust_lines_def)

lemma toy_line_length:
  "length (e_line (probe_line (record_event toy_record ''t'' toy_log))) \<le> 4000"
  by (simp add: e_line_def e_pair_def e_event_def event_tuple_def e_opt_def e_bool_def e_nat_def probe_line_def
     record_event_def toy_record_def toy_log_def numeral_eq_Suc)
lemma toy_stage:
  "\<exists>s. stage toy_audit toy_record None prio toy_log toy_log_world = Inr s"
proof -
  have "preflight toy_audit toy_log toy_log_world (record_event toy_record ''t'' toy_log) prio = Inr ()"
    using toy_line_length
    by (cases prio) (simp_all add: preflight_def Let_def file_len_def toy_log_world_def calm_world_def toy_log_def
      AUDIT_SOFT_LIMIT_def MAX_AUDIT_LEN_def AUDIT_HEADROOM_def)
  then show ?thesis by (simp add: stage_def stage_event_def toy_resync Let_def)
qed

lemma toy_append:
  assumes "append_audit toy_audit toy_record None prio toy_log toy_log_world = (res, lg', w')"
  shows "res = Inr ()"
proof -
  obtain s where s: "stage toy_audit toy_record None prio toy_log toy_log_world = Inr s"
    using toy_stage by blast
  with assms have a: "append_staged toy_audit s toy_log toy_log_world = (res, lg', w')"
    by (simp add: append_audit_def append_entry_def)
  obtain q v where "append_sync (lg_path toy_log) (e_line (staged_line s) @ [NL]) toy_log_world = (q, v)"
    by force
  moreover from this have "q = Inr ()"
    by (auto simp: append_sync_def toy_log_def toy_log_world_def calm_world_def Let_def fault_now_def)
  ultimately show ?thesis
    using a append_staged_eq [OF toy_log_state stage_from [OF s] toy_digest_sizes] by simp
qed

text \<open>C8: appending a record to a log whose file is a valid chain: when it succeeds, the file is
  that chain and one more valid entry; when it fails and the file system does not tear writes,
  the file is still a valid chain, with or without the entry, and the cached head can follow it.\<close>

theorem audit_append_extends_chain:
  assumes "log_state L key lg w ls" and "digest_sizes L" and "json_lines L"
    and "append_audit L r key prio lg w = (res, lg', w')" and "no_torn_writes w \<or> res = Inr ()"
  shows "log_state L key lg' w' ls \<and> res \<noteq> Inr ()
    \<or> (\<exists>s. stage L r key prio lg w = Inr s \<and> log_state L key lg' w' (ls @ [staged_line s]))"
proof (cases "stage L r key prio lg w")
  case (Inl e)
  with assms show ?thesis by (auto simp: append_audit_def append_entry_def)
next
  case (Inr s)
  with assms(4) have "append_staged L s lg w = (res, lg', w')"
    by (simp add: append_audit_def append_entry_def)
  from append_staged_state [OF assms(1) stage_from [OF Inr] assms(2,3) _ this assms(5)] Inr
  show ?thesis by auto
qed

theorem audit_append_extends_chain_witness:
  "\<exists>s lg' w'. append_audit toy_audit toy_record None Ordinary toy_log toy_log_world = (Inr (), lg', w')
    \<and> log_state toy_audit None lg' w' [staged_line s]"
proof -
  obtain res lg' w' where a: "append_audit toy_audit toy_record None Ordinary toy_log toy_log_world
      = (res, lg', w')" by (metis prod_cases3)
  have res: "res = Inr ()" using a by (rule toy_append)
  with audit_append_extends_chain [OF toy_log_state toy_digest_sizes toy_json_lines a] a
  show ?thesis by auto
qed

text \<open>whatever was staged for a priority class, a successful append leaves the log within the
  ceiling of that class: the soft limit for ordinary entries, the hard limit for lifecycle
  entries, so the headroom between them is never spent by ordinary ones.\<close>

theorem audit_append_within_ceiling:
  assumes "digest_sizes L" and "json_line_sizes L"
    and "append_audit L r key prio lg w = (Inr (), lg', w')"
  shows "file_len (lg_path lg) w' \<le> (case prio of Ordinary \<Rightarrow> lg_soft lg | Lifecycle \<Rightarrow> lg_hard lg)"
proof -
  obtain s where "stage L r key prio lg w = Inr s" "append_staged L s lg w = (Inr (), lg', w')"
    using assms(3) by (auto simp: append_audit_def append_entry_def split: sum.splits)
  then show ?thesis using append_within_ceiling [OF stage_from] assms(1,2) by blast
qed

theorem audit_append_within_ceiling_witness:
  "\<exists>lg' w'. append_audit toy_audit toy_record None Lifecycle toy_log toy_log_world = (Inr (), lg', w')
    \<and> file_len ''/a'' w' \<le> MAX_AUDIT_LEN"
proof -
  obtain res lg' w' where a: "append_audit toy_audit toy_record None Lifecycle toy_log toy_log_world
      = (res, lg', w')" by (metis prod_cases3)
  have "res = Inr ()" using a by (rule toy_append)
  with audit_append_within_ceiling [OF toy_digest_sizes toy_json_line_sizes] a
  show ?thesis by (fastforce simp: toy_log_def)
qed



text \<open>on a log whose file is a valid chain, the checkpoint of a vault passes exactly when the
  log has an entry with the checkpoint's sequence number and hash: a vault that is ahead of its
  log, or whose log was replaced at that entry, is refused, and a log that has grown is accepted.\<close>

theorem audit_checkpoint_iff:
  assumes "log_state L key lg w ls"
  shows "check_checkpoint L (lg_path lg) n h w = Inr () \<longleftrightarrow>
    0 < n \<and> n \<le> length ls \<and> h = al_hash (ls ! (n - 1))"
proof -
  from assms obtain content where c: "w_dir w (lg_path lg) = Some content" "log_file L key content ls"
    by (auto simp: log_state_def)
  then have "read_to_string (lg_path lg) w = Some content" by (rule read_log_file)
  with c(2) show ?thesis
    using checkpoint_lines_iff [of L "audit_lines content" ls key ZERO_HASH 0 n h]
    by (auto simp: check_checkpoint_def log_file_def)
qed

theorem audit_checkpoint_iff_witness:
  "\<forall>h. check_checkpoint toy_audit ''/a'' 1 h toy_log_world \<noteq> Inr ()"
  using audit_checkpoint_iff [OF toy_log_state, where n = 1] by (simp add: toy_log_def)

end
