(* ===== verification/Model.thy ===== *)
theory Model
  imports Store
begin

text \<open>
  \<open>src/model.rs\<close>: the decrypted vault document (projects, secrets, agents, grants, leases,
  approvals and the audit checkpoint), its limits, the validation of names, keys, values and
  paths, the lookups and the authorization test. The invariant \<open>wf_doc\<close> collects what the
  header of that file promises and what the lifecycle operations rely on.
\<close>

definition MAX_PROJECTS :: nat where "MAX_PROJECTS = 256"
definition MAX_SECRETS :: nat where "MAX_SECRETS = 10000"
definition MAX_PATHS_PER_PROJECT :: nat where "MAX_PATHS_PER_PROJECT = 32"
definition MAX_PATH_LEN :: nat where "MAX_PATH_LEN = 4096"
definition MAX_PROJECT_NAME :: nat where "MAX_PROJECT_NAME = 64"
definition MAX_KEY_LEN :: nat where "MAX_KEY_LEN = 128"
definition MAX_VALUE_LEN :: nat where "MAX_VALUE_LEN = 65536"
definition MAX_AGENTS :: nat where "MAX_AGENTS = 64"
definition MAX_LEASES :: nat where "MAX_LEASES = 1024"
definition MAX_APPROVALS :: nat where "MAX_APPROVALS = 1024"
definition MIN_LEASE_TTL_SECS :: nat where "MIN_LEASE_TTL_SECS = 1"
definition MAX_LEASE_TTL_SECS :: nat where "MAX_LEASE_TTL_SECS = 86400"
definition APPROVAL_PENDING_SECS :: nat where "APPROVAL_PENDING_SECS = 600"
definition APPROVAL_CLAIM_SECS :: nat where "APPROVAL_CLAIM_SECS = 300"

section \<open>Data\<close>

record project =
  p_id :: string
  p_name :: string
  p_paths :: "string list"
  p_created_at :: time

record secret =
  s_project_id :: string
  s_key :: string
  s_value :: string
  s_created_at :: time
  s_updated_at :: time

datatype operation = OpRead | OpInject | OpRun | OpReveal | OpManage

datatype agent_status = Active | Revoked

record agent_record =
  a_id :: string
  a_name :: string
  a_status :: agent_status
  a_token_hash :: string
  a_token_prefix :: string
  a_created_at :: time
  a_last_seen :: "time option"

record grant_summary =
  gs_agent :: string
  gs_project :: string
  gs_ops :: "operation list"
  gs_revoked :: bool

record grant =
  g_agent_id :: string
  g_project_id :: string
  g_ops :: "operation list"
  g_created_at :: time
  g_revoked_at :: "time option"

record lease =
  l_id :: string
  l_agent_id :: string
  l_project_id :: string
  l_ops :: "operation list"
  l_credential_hash :: string
  l_credential_prefix :: string
  l_created_at :: time
  l_expires_at :: time
  l_revoked_at :: "time option"

datatype approval_status = APending | AApproved | ADenied | AConsumed

record approval =
  ap_id :: string
  ap_agent_id :: string
  ap_project_id :: string
  ap_key :: string
  ap_status :: approval_status
  ap_created_at :: time
  ap_pending_expires_at :: time
  ap_approved_at :: "time option"
  ap_claim_expires_at :: "time option"

record audit_head =
  h_seq :: nat
  h_hash :: string

definition genesis :: audit_head where
  "genesis = \<lparr>h_seq = 0, h_hash = concat (replicate 32 ''00'')\<rparr>"

record vault_document =
  d_v :: nat
  d_meta_created_at :: time
  d_projects :: "project list"
  d_secrets :: "secret list"
  d_agents :: "agent_record list"
  d_grants :: "grant list"
  d_leases :: "lease list"
  d_approvals :: "approval list"
  d_audit_head :: audit_head

definition new_document :: "time \<Rightarrow> vault_document" where
  "new_document created_at =
     \<lparr>d_v = 1, d_meta_created_at = created_at, d_projects = [], d_secrets = [], d_agents = [],
      d_grants = [], d_leases = [], d_approvals = [], d_audit_head = genesis\<rparr>"

section \<open>Parsing an operation list\<close>

text \<open>\<open>chars\<close> of a \<open>str\<close>, which is always valid UTF-8.\<close>

definition chars :: "string \<Rightarrow> nat list" where
  "chars s = (case utf8_decode s of Some cs \<Rightarrow> cs | None \<Rightarrow> [])"

definition bytes_of :: "string \<Rightarrow> nat list" where
  "bytes_of s = map of_char s"

definition parse_op :: "string \<Rightarrow> operation res" where
  "parse_op s =
     (let t = trim (chars s)
      in if t = bytes_of ''read'' then Inr OpRead
         else if t = bytes_of ''inject'' then Inr OpInject
         else if t = bytes_of ''run'' then Inr OpRun
         else if t = bytes_of ''reveal'' then Inr OpReveal
         else if t = bytes_of ''manage'' then Inr OpManage
         else Inl (InvalidInput
           ''ops must be a comma-separated list of read/inject/run/reveal/manage''))"

fun collect_res :: "'a res list \<Rightarrow> 'a list res" where
  "collect_res [] = Inr []"
| "collect_res (r # rs) = res_bind r (\<lambda>x. res_bind (collect_res rs) (\<lambda>xs. Inr (x # xs)))"

definition parse_list :: "string \<Rightarrow> operation list res" where
  "parse_list spec =
     collect_res (map parse_op (filter (\<lambda>s. s \<noteq> []) (split_on (CHR 0x2C) spec)))"

section \<open>Lookups and authorization\<close>

definition project_by_name :: "vault_document \<Rightarrow> string \<Rightarrow> project option" where
  "project_by_name doc name = find (\<lambda>p. p_name p = name) (d_projects doc)"

definition project_by_id :: "vault_document \<Rightarrow> string \<Rightarrow> project option" where
  "project_by_id doc i = find (\<lambda>p. p_id p = i) (d_projects doc)"

definition secret_of :: "vault_document \<Rightarrow> string \<Rightarrow> string \<Rightarrow> secret option" where
  "secret_of doc pid key = find (\<lambda>s. s_project_id s = pid \<and> s_key s = key) (d_secrets doc)"

definition agent_by_token_hash :: "vault_document \<Rightarrow> string \<Rightarrow> agent_record option" where
  "agent_by_token_hash doc digest =
     find (\<lambda>a. a_status a = Active \<and> a_token_hash a = digest) (d_agents doc)"

definition agent_by_name :: "vault_document \<Rightarrow> string \<Rightarrow> agent_record option" where
  "agent_by_name doc name = find (\<lambda>a. a_name a = name) (d_agents doc)"

definition agent_by_id :: "vault_document \<Rightarrow> string \<Rightarrow> agent_record option" where
  "agent_by_id doc i = find (\<lambda>a. a_id a = i) (d_agents doc)"

definition is_active_grant :: "string \<Rightarrow> string \<Rightarrow> grant \<Rightarrow> bool" where
  "is_active_grant agent_id project_id g \<longleftrightarrow>
     g_agent_id g = agent_id \<and> g_project_id g = project_id \<and> g_revoked_at g = None"

definition active_grant :: "vault_document \<Rightarrow> string \<Rightarrow> string \<Rightarrow> grant option" where
  "active_grant doc agent_id project_id = find (is_active_grant agent_id project_id) (d_grants doc)"

definition authorize :: "vault_document \<Rightarrow> string \<Rightarrow> string \<Rightarrow> operation \<Rightarrow> bool" where
  "authorize doc agent_id project_id op =
     (case active_grant doc agent_id project_id of
        None \<Rightarrow> False | Some g \<Rightarrow> op \<in> set (g_ops g))"

section \<open>Validation\<close>

definition valid_project_name :: "string \<Rightarrow> bool" where
  "valid_project_name name =
     (if name = [] \<or> length name > MAX_PROJECT_NAME \<or> name = ''.'' \<or> name = ''..'' then False
      else list_all (\<lambda>c. is_ascii_alphanumeric c \<or> c = CHR ''.'' \<or> c = CHR ''_'' \<or> c = CHR ''-'') name)"

definition valid_key :: "string \<Rightarrow> bool" where
  "valid_key key =
     (case key of [] \<Rightarrow> False
      | first # rest \<Rightarrow>
          length key \<le> MAX_KEY_LEN \<and> (is_ascii_alphabetic first \<or> first = CHR ''_'')
          \<and> list_all (\<lambda>c. is_ascii_alphanumeric c \<or> c = CHR ''_'') rest)"

text \<open>The quoted names at the end of two messages.\<close>

definition dot_names :: string where
  "dot_names = [CHR 39, CHR ''.'', CHR 39] @ '' or '' @ [CHR 39, CHR ''.'', CHR ''.'', CHR 39]"

definition check_new_agent_name :: "vault_document \<Rightarrow> string \<Rightarrow> unit res" where
  "check_new_agent_name doc name =
     (if \<not> valid_project_name name then
        Inl (InvalidInput (''agent name must be 1-64 chars of [a-zA-Z0-9._-] and not '' @ dot_names))
      else if agent_by_name doc name \<noteq> None then Inl Exists
      else if length (d_agents doc) \<ge> MAX_AGENTS then Inl (InvalidInput ''too many agents'')
      else Inr ())"

definition check_new_project_name :: "vault_document \<Rightarrow> string \<Rightarrow> unit res" where
  "check_new_project_name doc name =
     (if \<not> valid_project_name name then
        Inl (InvalidInput (''project name must be 1-64 chars of [a-zA-Z0-9._-] and not '' @ dot_names))
      else if project_by_name doc name \<noteq> None then Inl Exists
      else if length (d_projects doc) \<ge> MAX_PROJECTS then Inl (InvalidInput ''too many projects'')
      else Inr ())"

definition check_new_secret_key :: "vault_document \<Rightarrow> string \<Rightarrow> string \<Rightarrow> unit res" where
  "check_new_secret_key doc project_id key =
     (if \<not> valid_key key then
        Inl (InvalidInput ''secret key must match [A-Za-z_][A-Za-z0-9_]* (max 128 chars)'')
      else if length (d_secrets doc) \<ge> MAX_SECRETS then Inl (InvalidInput ''too many secrets'')
      else if secret_of doc project_id key \<noteq> None then Inl Exists
      else Inr ())"

definition check_secret_value :: "string \<Rightarrow> unit res" where
  "check_secret_value v =
     (if v = [] \<or> length v > MAX_VALUE_LEN
      then Inl (InvalidInput ''secret value must be 1-65536 bytes'') else Inr ())"

definition check_new_path :: "world \<Rightarrow> project \<Rightarrow> string \<Rightarrow> string res" where
  "check_new_path w project path =
     (case w_canon w path of
        None \<Rightarrow> Inl (InvalidInput ''path not usable (missing or inaccessible)'')
      | Some canonical \<Rightarrow>
          if \<not> w_is_dir w canonical then Inl (InvalidInput ''authorized path must be a directory'')
          else if canonical = [] \<or> hd canonical \<noteq> SLASH
            then Inl (InvalidInput ''authorized path must be absolute'')
          else if length canonical > MAX_PATH_LEN then Inl (InvalidInput ''path too long'')
          else if length (p_paths project) \<ge> MAX_PATHS_PER_PROJECT
            then Inl (InvalidInput ''too many paths for project'')
          else if canonical \<in> set (p_paths project) then Inl Exists
          else Inr canonical)"

definition check_project_removable :: "vault_document \<Rightarrow> string \<Rightarrow> unit res" where
  "check_project_removable doc project_id =
     (if \<exists>s\<in>set (d_secrets doc). s_project_id s = project_id
      then Inl (InvalidInput ''project still has secrets; delete them first'') else Inr ())"

section \<open>The operation list parser inverts printing\<close>

fun op_name :: "operation \<Rightarrow> string" where
  "op_name OpRead = ''read''"
| "op_name OpInject = ''inject''"
| "op_name OpRun = ''run''"
| "op_name OpReveal = ''reveal''"
| "op_name OpManage = ''manage''"

fun join_ops :: "operation list \<Rightarrow> string" where
  "join_ops [] = []"
| "join_ops [x] = op_name x"
| "join_ops (x # xs) = op_name x @ CHR 0x2C # join_ops xs"

lemma parse_op_name: "parse_op (op_name x) = Inr x"
proof -
  have "parse_op (op_name OpRead) = Inr OpRead" "parse_op (op_name OpInject) = Inr OpInject"
    "parse_op (op_name OpRun) = Inr OpRun" "parse_op (op_name OpReveal) = Inr OpReveal"
    "parse_op (op_name OpManage) = Inr OpManage"
    by (simp_all add: parse_op_def chars_def utf8_decode_def trim_def bytes_of_def is_whitespace_def)
  then show ?thesis by (cases x) simp_all
qed

lemma op_name_no_comma [simp]: "CHR 0x2C \<notin> set (op_name x)"
  by (cases x) simp_all

lemma op_name_nonempty [simp]: "op_name x \<noteq> []"
  by (cases x) simp_all

lemma split_join_ops: "xs \<noteq> [] \<Longrightarrow> split_on (CHR 0x2C) (join_ops xs) = map op_name xs"
  by (induction xs rule: join_ops.induct) (simp_all add: split_on_absent split_on_append)

lemma collect_res_Inr: "collect_res (map Inr xs) = Inr xs"
  by (induction xs) simp_all

theorem parse_list_round_trip: "parse_list (join_ops xs) = Inr xs"
proof (cases "xs = []")
  case True
  then show ?thesis by (simp add: parse_list_def)
next
  case False
  then have "parse_list (join_ops xs) = collect_res (map parse_op (map op_name xs))"
    by (simp add: parse_list_def split_join_ops filter_map o_def)
  also have "map parse_op (map op_name xs) = map Inr xs"
    by (simp add: parse_op_name)
  finally show ?thesis by (simp only: collect_res_Inr)
qed

section \<open>The document invariant\<close>

text \<open>Identifiers and names are unique, references resolve, user-controlled data is capped.\<close>

definition wf_projects :: "vault_document \<Rightarrow> bool" where
  "wf_projects d \<longleftrightarrow> distinct (map p_id (d_projects d)) \<and> distinct (map p_name (d_projects d))
     \<and> length (d_projects d) \<le> MAX_PROJECTS
     \<and> (\<forall>p\<in>set (d_projects d). valid_project_name (p_name p) \<and> distinct (p_paths p)
          \<and> length (p_paths p) \<le> MAX_PATHS_PER_PROJECT
          \<and> (\<forall>q\<in>set (p_paths p). length q \<le> MAX_PATH_LEN))"

definition wf_secrets :: "vault_document \<Rightarrow> bool" where
  "wf_secrets d \<longleftrightarrow> distinct (map (\<lambda>s. (s_project_id s, s_key s)) (d_secrets d))
     \<and> length (d_secrets d) \<le> MAX_SECRETS
     \<and> (\<forall>s\<in>set (d_secrets d). s_project_id s \<in> p_id ` set (d_projects d)
          \<and> valid_key (s_key s) \<and> s_value s \<noteq> [] \<and> length (s_value s) \<le> MAX_VALUE_LEN)"

definition wf_agents :: "vault_document \<Rightarrow> bool" where
  "wf_agents d \<longleftrightarrow> distinct (map a_id (d_agents d)) \<and> distinct (map a_name (d_agents d))
     \<and> length (d_agents d) \<le> MAX_AGENTS
     \<and> (\<forall>a\<in>set (d_agents d). valid_project_name (a_name a))"

text \<open>At most one live grant for an agent and a project.\<close>

definition wf_grants :: "vault_document \<Rightarrow> bool" where
  "wf_grants d \<longleftrightarrow>
     distinct (map (\<lambda>g. (g_agent_id g, g_project_id g))
       (filter (\<lambda>g. g_revoked_at g = None) (d_grants d)))"

definition agent_active :: "vault_document \<Rightarrow> string \<Rightarrow> bool" where
  "agent_active d i \<longleftrightarrow> (\<exists>a\<in>set (d_agents d). a_id a = i \<and> a_status a = Active)"

text \<open>Authority never outlives its source: an unrevoked lease belongs to an active agent and is
  covered by the live grant; an undecided or unclaimed approval belongs to an active agent
  that still holds \<open>reveal\<close>.\<close>

definition lease_covered :: "vault_document \<Rightarrow> lease \<Rightarrow> bool" where
  "lease_covered d l \<longleftrightarrow> agent_active d (l_agent_id l)
     \<and> (\<forall>op\<in>set (l_ops l). authorize d (l_agent_id l) (l_project_id l) op)"

definition wf_leases :: "vault_document \<Rightarrow> bool" where
  "wf_leases d \<longleftrightarrow> distinct (map l_id (d_leases d)) \<and> length (d_leases d) \<le> MAX_LEASES
     \<and> (\<forall>l\<in>set (d_leases d). l_ops l \<noteq> [] \<and> (l_revoked_at l = None \<longrightarrow> lease_covered d l))"

definition approval_open :: "approval \<Rightarrow> bool" where
  "approval_open a \<longleftrightarrow> ap_status a = APending \<or> ap_status a = AApproved"

definition wf_approvals :: "vault_document \<Rightarrow> bool" where
  "wf_approvals d \<longleftrightarrow> distinct (map ap_id (d_approvals d)) \<and> length (d_approvals d) \<le> MAX_APPROVALS
     \<and> (\<forall>a\<in>set (d_approvals d). (ap_status a = AApproved \<longrightarrow> ap_claim_expires_at a \<noteq> None)
          \<and> (approval_open a \<longrightarrow> agent_active d (ap_agent_id a)
               \<and> authorize d (ap_agent_id a) (ap_project_id a) OpReveal))"

definition wf_doc :: "vault_document \<Rightarrow> bool" where
  "wf_doc d \<longleftrightarrow> wf_projects d \<and> wf_secrets d \<and> wf_agents d \<and> wf_grants d \<and> wf_leases d \<and> wf_approvals d"

lemma wf_doc_new [wf_intros]: "wf_doc (new_document t)"
  by (simp add: wf_doc_def wf_projects_def wf_secrets_def wf_agents_def wf_grants_def wf_leases_def
      wf_approvals_def new_document_def)

text \<open>Moving the audit checkpoint touches none of it.\<close>

lemma lookups_audit_head [simp]:
  "project_by_name (d\<lparr>d_audit_head := h\<rparr>) n = project_by_name d n"
  "project_by_id (d\<lparr>d_audit_head := h\<rparr>) n = project_by_id d n"
  "secret_of (d\<lparr>d_audit_head := h\<rparr>) n k = secret_of d n k"
  "agent_by_name (d\<lparr>d_audit_head := h\<rparr>) n = agent_by_name d n"
  "agent_by_id (d\<lparr>d_audit_head := h\<rparr>) n = agent_by_id d n"
  "active_grant (d\<lparr>d_audit_head := h\<rparr>) n k = active_grant d n k"
  "authorize (d\<lparr>d_audit_head := h\<rparr>) n k op = authorize d n k op"
  "agent_active (d\<lparr>d_audit_head := h\<rparr>) n = agent_active d n"
  by (simp_all add: project_by_name_def project_by_id_def secret_of_def agent_by_name_def
      agent_by_id_def active_grant_def authorize_def agent_active_def)

lemma wf_doc_audit_head [simp]: "wf_doc (d\<lparr>d_audit_head := h\<rparr>) = wf_doc d"
  by (simp add: wf_doc_def wf_projects_def wf_secrets_def wf_agents_def wf_grants_def wf_leases_def
      wf_approvals_def lease_covered_def)

section \<open>Lookups under the invariant\<close>

lemma project_by_nameD:
  "project_by_name d n = Some p \<Longrightarrow> p \<in> set (d_projects d) \<and> p_name p = n"
  by (auto simp: project_by_name_def dest: find_SomeD)

lemma secret_ofD:
  "secret_of d i k = Some s \<Longrightarrow> s \<in> set (d_secrets d) \<and> s_project_id s = i \<and> s_key s = k"
  by (auto simp: secret_of_def dest: find_SomeD)

lemma agent_by_nameD: "agent_by_name d n = Some a \<Longrightarrow> a \<in> set (d_agents d) \<and> a_name a = n"
  by (auto simp: agent_by_name_def dest: find_SomeD)

lemma active_grantD:
  "active_grant d a p = Some g \<Longrightarrow> g \<in> set (d_grants d) \<and> is_active_grant a p g"
  by (auto simp: active_grant_def dest: find_SomeD)

lemma active_grant_unique:
  assumes "wf_grants d" and "g \<in> set (d_grants d)" "is_active_grant a p g"
  shows "active_grant d a p = Some g"
  unfolding active_grant_def
proof (rule find_unique, rule assms(2), rule assms(3))
  fix y assume y: "y \<in> set (d_grants d)" "is_active_grant a p y"
  let ?live = "filter (\<lambda>g. g_revoked_at g = None) (d_grants d)"
  have "inj_on (\<lambda>g. (g_agent_id g, g_project_id g)) (set ?live)"
    using assms(1) by (simp add: wf_grants_def distinct_map)
  then show "y = g"
    using assms(2,3) y by (auto simp: is_active_grant_def inj_on_def)
qed

text \<open>The invariant makes an unrevoked lease worth at most the grant behind it.\<close>

lemma wf_lease_op:
  "wf_leases d \<Longrightarrow> l \<in> set (d_leases d) \<Longrightarrow> l_revoked_at l = None \<Longrightarrow> op \<in> set (l_ops l) \<Longrightarrow>
    authorize d (l_agent_id l) (l_project_id l) op"
  by (auto simp: wf_leases_def lease_covered_def)

end
