(* ===== verification/Envelope.thy ===== *)
theory Envelope
  imports AuditProps
begin

text \<open>
  \<open>src/envelope.rs\<close>: the vault file. Magic, version and header length in front, the header JSON,
  the document nonce and the document ciphertext, which is sealed with the header as associated
  data. Passphrase slots wrap the master key, the master key wraps the document key. The header
  serialiser is a field of the library record; base64 is part of it.
\<close>

definition MAGIC :: string where "MAGIC = ''SVAULT''"
definition VERSION :: nat where "VERSION = 1"
definition TAG_LEN :: nat where "TAG_LEN = 16"
definition MEK_AAD_PREFIX :: string where "MEK_AAD_PREFIX = ''svault/v1/mek:''"
definition DEK_AAD :: string where "DEK_AAD = ''svault/v1/dek''"
definition ARGON2ID :: string where "ARGON2ID = ''argon2id''"
definition MIN_M_KIB :: nat where "MIN_M_KIB = 19456"
definition MIN_T :: nat where "MIN_T = 2"
definition MAX_M_KIB :: nat where "MAX_M_KIB = 262144"
definition MAX_T :: nat where "MAX_T = 10"
definition MAX_P :: nat where "MAX_P = 8"
definition MAX_SLOTS :: nat where "MAX_SLOTS = 8"
definition MAX_HEADER_LEN :: nat where "MAX_HEADER_LEN = 1024 * 1024"
definition MAX_FILE_LEN :: nat where "MAX_FILE_LEN = 16 * 1024 * 1024"

section \<open>Data\<close>

datatype slot_type = Passphrase | Backup | Keychain | Sync | Other string

definition slot_type_from :: "string \<Rightarrow> slot_type" where
  "slot_type_from s =
     (if s = ''passphrase'' then Passphrase else if s = ''backup'' then Backup
      else if s = ''keychain'' then Keychain else if s = ''sync'' then Sync else Other s)"

fun slot_type_into :: "slot_type \<Rightarrow> string" where
  "slot_type_into Passphrase = ''passphrase''"
| "slot_type_into Backup = ''backup''"
| "slot_type_into Keychain = ''keychain''"
| "slot_type_into Sync = ''sync''"
| "slot_type_into (Other s) = s"

record kdf_params =
  k_algo :: string
  k_m_kib :: nat
  k_t :: nat
  k_p :: nat

definition argon2id_defaults :: kdf_params where
  "argon2id_defaults = \<lparr>k_algo = ARGON2ID, k_m_kib = 65536, k_t = 3, k_p = 4\<rparr>"

definition validate_kdf :: "kdf_params \<Rightarrow> unit res" where
  "validate_kdf k =
     (if k_algo k \<noteq> ARGON2ID \<or> k_m_kib k < MIN_M_KIB \<or> k_m_kib k > MAX_M_KIB \<or> k_t k < MIN_T
        \<or> k_t k > MAX_T \<or> k_p k < 1 \<or> k_p k > MAX_P
      then Inl InsecureParams else Inr ())"

record slot =
  sl_id :: string
  sl_kind :: slot_type
  sl_kdf :: kdf_params
  sl_salt :: string
  sl_nonce :: string
  sl_wrapped_mek :: string

record wrapped_key =
  wk_nonce :: string
  wk_wrapped :: string

record vault_header =
  vh_created_at :: time
  vh_slots :: "slot list"
  vh_dek :: wrapped_key

record keys =
  mek :: string
  dek :: string

record envelope =
  en_header :: vault_header
  en_nonce :: string
  en_ct :: string

record envelope_lib = audit_lib +
  hdr_ser :: "vault_header \<Rightarrow> string"
  hdr_de :: "string \<Rightarrow> vault_header option"

definition mek_aad :: "string \<Rightarrow> string" where
  "mek_aad i = MEK_AAD_PREFIX @ i"

section \<open>Creating\<close>

text \<open>\<open>SecretKey::generate\<close> panics when the generator fails; here that is an error value too, and
  either way nothing is published. Serialising the header cannot fail.\<close>

definition create_envelope ::
  "('z) envelope_lib_scheme \<Rightarrow> string \<Rightarrow> string \<Rightarrow> time \<Rightarrow> world \<Rightarrow> envelope res \<times> world" where
  "create_envelope L passphrase document created_at w =
     try_bind (generate_key w) (\<lambda>mk w1.
     try_bind (generate_key w1) (\<lambda>dk w2.
     try_bind (random_bytes SALT_LEN w2) (\<lambda>salt w3.
     try_bind (random_bytes NONCE_LEN w3) (\<lambda>nonce w4.
     try_bind (hex_id w4) (\<lambda>i w5.
       let kdf = argon2id_defaults in
       try_bind (derive_kek L passphrase (k_m_kib kdf) (k_t kdf) (k_p kdf) salt, w5) (\<lambda>kek w6.
         let slot = \<lparr>sl_id = i, sl_kind = Passphrase, sl_kdf = kdf, sl_salt = salt,
                     sl_nonce = nonce, sl_wrapped_mek = aead_seal L kek nonce (mek_aad i) mk\<rparr> in
         try_bind (random_bytes NONCE_LEN w6) (\<lambda>dek_nonce w7.
           let hdr = \<lparr>vh_created_at = created_at, vh_slots = [slot],
                      vh_dek = \<lparr>wk_nonce = dek_nonce,
                                wk_wrapped = aead_seal L mk dek_nonce DEK_AAD dk\<rparr>\<rparr> in
           try_bind (random_bytes NONCE_LEN w7) (\<lambda>doc_nonce w8.
             (Inr \<lparr>en_header = hdr, en_nonce = doc_nonce,
                   en_ct = aead_seal L dk doc_nonce (hdr_ser L hdr) document\<rparr>, w8)))))))))"

section \<open>Bytes\<close>

definition u32_le :: "nat \<Rightarrow> string" where
  "u32_le n = map (\<lambda>i. char_of (n div 256 ^ i mod 256)) [0..<4]"

definition of_u32_le :: "string \<Rightarrow> nat" where
  "of_u32_le s = foldr (\<lambda>c acc. of_char c + 256 * acc) s 0"

definition PREFIX_LEN :: nat where "PREFIX_LEN = length MAGIC + 4 + 4"

definition slot_lengths_ok :: "slot \<Rightarrow> bool" where
  "slot_lengths_ok s =
     (case sl_kind s of Other _ \<Rightarrow> True
      | _ \<Rightarrow> length (sl_salt s) = SALT_LEN \<and> length (sl_nonce s) = NONCE_LEN
              \<and> length (sl_wrapped_mek s) = KEY_LEN + TAG_LEN)"

text \<open>The checks of \<open>parse\<close> after the header has been read.\<close>

definition check_header :: "vault_header \<Rightarrow> unit res" where
  "check_header h =
     (if vh_slots h = [] then Inl (Corrupt ''no key slots'')
      else if length (vh_slots h) > MAX_SLOTS then Inl (Corrupt ''too many key slots'')
      else if \<not> list_all slot_lengths_ok (vh_slots h) then Inl (Corrupt ''invalid slot field lengths'')
      else if length (wk_nonce (vh_dek h)) \<noteq> NONCE_LEN \<or> length (wk_wrapped (vh_dek h)) \<noteq> KEY_LEN + TAG_LEN
        then Inl (Corrupt ''invalid dek wrap field lengths'')
      else Inr ())"

definition parse_envelope :: "('z) envelope_lib_scheme \<Rightarrow> string \<Rightarrow> envelope res" where
  "parse_envelope L bytes =
     (if length bytes < PREFIX_LEN + NONCE_LEN + TAG_LEN then Inl (Corrupt ''truncated file'')
      else if length bytes > MAX_FILE_LEN then Inl (Corrupt ''file exceeds maximum size'')
      else if take (length MAGIC) bytes \<noteq> MAGIC then Inl (Corrupt ''bad magic'')
      else if of_u32_le (take 4 (drop (length MAGIC) bytes)) \<noteq> VERSION
        then Inl (Corrupt ''unsupported envelope version'')
      else
        let header_len = of_u32_le (take 4 (drop (length MAGIC + 4) bytes));
            rest = drop PREFIX_LEN bytes
        in if header_len > MAX_HEADER_LEN then Inl (Corrupt ''header exceeds maximum size'')
           else if header_len + NONCE_LEN + TAG_LEN > length rest
             then Inl (Corrupt ''header length out of bounds'')
           else res_bind (ok_or (Corrupt ''invalid header'') (hdr_de L (take header_len rest))) (\<lambda>h.
             res_bind (check_header h) (\<lambda>_.
               let doc_ct = drop (header_len + NONCE_LEN) rest
               in if length doc_ct < TAG_LEN then Inl (Corrupt ''document ciphertext truncated'')
                  else Inr \<lparr>en_header = h, en_nonce = take NONCE_LEN (drop header_len rest),
                            en_ct = doc_ct\<rparr>)))"

definition to_bytes :: "('z) envelope_lib_scheme \<Rightarrow> envelope \<Rightarrow> string" where
  "to_bytes L env =
     (let header_bytes = hdr_ser L (en_header env)
      in MAGIC @ u32_le VERSION @ u32_le (length header_bytes) @ header_bytes @ en_nonce env @ en_ct env)"

definition validate_persistable :: "('z) envelope_lib_scheme \<Rightarrow> envelope \<Rightarrow> unit res" where
  "validate_persistable L env =
     (let header_len = length (hdr_ser L (en_header env))
      in if header_len > MAX_HEADER_LEN then Inl VaultTooLarge
         else if length MAGIC + 4 + 4 + header_len + NONCE_LEN + length (en_ct env) > MAX_FILE_LEN
           then Inl VaultTooLarge
         else Inr ())"

section \<open>Unlocking\<close>

type_synonym kek_recipe = "(nat \<times> kdf_params \<times> string) list"
type_synonym derived_keks = "(nat \<times> string) list"

fun recipe_entries :: "nat \<Rightarrow> slot list \<Rightarrow> kek_recipe res" where
  "recipe_entries i [] = Inr []"
| "recipe_entries i (s # ss) =
     (if sl_kind s \<noteq> Passphrase then recipe_entries (Suc i) ss
      else res_bind (validate_kdf (sl_kdf s)) (\<lambda>_.
        if length (sl_salt s) \<noteq> SALT_LEN then Inl (Corrupt ''invalid slot salt length'')
        else res_bind (recipe_entries (Suc i) ss) (\<lambda>es. Inr ((i, sl_kdf s, sl_salt s) # es))))"

definition kek_recipe_of :: "envelope \<Rightarrow> kek_recipe res" where
  "kek_recipe_of env =
     res_bind (recipe_entries 0 (vh_slots (en_header env))) (\<lambda>es.
       if es = [] then Inl Auth else Inr es)"

fun derive_keks :: "('z) crypto_lib_scheme \<Rightarrow> kek_recipe \<Rightarrow> string \<Rightarrow> derived_keks res" where
  "derive_keks L [] passphrase = Inr []"
| "derive_keks L ((i, kdf, salt) # es) passphrase =
     res_bind (derive_kek L passphrase (k_m_kib kdf) (k_t kdf) (k_p kdf) salt) (\<lambda>k.
       res_bind (derive_keks L es passphrase) (\<lambda>ks. Inr ((i, k) # ks)))"

definition unwrap_dek :: "('z) crypto_lib_scheme \<Rightarrow> envelope \<Rightarrow> string \<Rightarrow> string res" where
  "unwrap_dek L env mk =
     (let wrap = vh_dek (en_header env) in
      if length (wk_nonce wrap) \<noteq> NONCE_LEN then Inl (Corrupt ''invalid dek nonce length'')
      else res_bind (ok_or (Corrupt ''dek wrap failed authentication'')
             (aead_open L mk (wk_nonce wrap) DEK_AAD (wk_wrapped wrap))) (\<lambda>d.
        if length d \<noteq> KEY_LEN then Inl (Corrupt ''wrapped dek length invalid'') else Inr d))"

fun unlock_with :: "('z) crypto_lib_scheme \<Rightarrow> envelope \<Rightarrow> derived_keks \<Rightarrow> keys res" where
  "unlock_with L env [] = Inl Auth"
| "unlock_with L env ((index, kek) # ks) =
     (if index \<ge> length (vh_slots (en_header env)) then unlock_with L env ks
      else
        let slot = vh_slots (en_header env) ! index in
        if sl_kind slot \<noteq> Passphrase then unlock_with L env ks
        else if length (sl_nonce slot) \<noteq> NONCE_LEN then Inl (Corrupt ''invalid slot nonce length'')
        else (case aead_open L kek (sl_nonce slot) (mek_aad (sl_id slot)) (sl_wrapped_mek slot) of
                None \<Rightarrow> unlock_with L env ks
              | Some mk \<Rightarrow>
                  if length mk \<noteq> KEY_LEN then Inl (Corrupt ''wrapped mek length invalid'')
                  else res_bind (unwrap_dek L env mk) (\<lambda>d. Inr \<lparr>mek = mk, dek = d\<rparr>)))"

definition unlock_envelope :: "('z) crypto_lib_scheme \<Rightarrow> envelope \<Rightarrow> string \<Rightarrow> keys res" where
  "unlock_envelope L env passphrase =
     res_bind (kek_recipe_of env) (\<lambda>r. res_bind (derive_keks L r passphrase) (unlock_with L env))"

section \<open>The document\<close>

definition open_document :: "('z) envelope_lib_scheme \<Rightarrow> envelope \<Rightarrow> keys \<Rightarrow> string res" where
  "open_document L env ks =
     ok_or (Corrupt ''document failed authentication'')
       (aead_open L (dek ks) (en_nonce env) (hdr_ser L (en_header env)) (en_ct env))"

definition reseal_document ::
  "('z) envelope_lib_scheme \<Rightarrow> string \<Rightarrow> keys \<Rightarrow> envelope \<Rightarrow> world \<Rightarrow> unit res \<times> envelope \<times> world" where
  "reseal_document L document ks env w =
     (case random_bytes NONCE_LEN w of
        (Inl e, w1) \<Rightarrow> (Inl e, env, w1)
      | (Inr n, w1) \<Rightarrow>
          (Inr (), env\<lparr>en_nonce := n, en_ct := aead_seal L (dek ks) n (hdr_ser L (en_header env)) document\<rparr>, w1))"

end
