(* ===== verification/SessionCore.thy ===== *)
theory SessionCore
  imports Model Envelope
begin

text \<open>
  \<open>src/session.rs\<close>, the state and the internals every operation goes through: audit recording,
  the gate, the commit protocol (entry first, then the vault that names it), the lock and the
  idle lock. A session is one record; an operation takes it and returns its result and the
  session it leaves, with the machine (\<open>s_world\<close>) inside. The injected clock is the machine's.
\<close>

record vault_lib = envelope_lib +
  doc_ser :: "vault_document \<Rightarrow> string option"
  doc_de :: "string \<Rightarrow> vault_document option"

text \<open>One live human session: monotonic windows only. \<open>hs_ttl\<close> is the sliding window in seconds.\<close>

record human_session =
  hs_prefix :: string
  hs_minted_at :: nat
  hs_last_used :: nat
  hs_ttl :: nat

definition DEFAULT_IDLE_LOCK :: nat where "DEFAULT_IDLE_LOCK = 900 * SEC"
definition MIN_PASSPHRASE_LEN :: nat where "MIN_PASSPHRASE_LEN = 12"
definition SESSION_DEFAULT_TTL_SECS :: nat where "SESSION_DEFAULT_TTL_SECS = 300"
definition SESSION_MAX_TTL_SECS :: nat where "SESSION_MAX_TTL_SECS = 1800"
definition MAX_SESSIONS :: nat where "MAX_SESSIONS = 256"

text \<open>\<open>HashMap\<close>s: the digest index is a map, the session table an association list with one entry
  per digest. \<open>s_lock\<close> is the held lock file; the session owns it while it exists.\<close>

record session =
  s_path :: string
  s_audit_path :: string
  s_envelope :: envelope
  s_doc :: "vault_document option"
  s_keys :: "keys option"
  s_audit_key :: "string option"
  s_audit :: audit_log
  s_lock :: string
  s_digests :: "string \<rightharpoonup> string"
  s_sessions :: "(string \<times> human_session) list"
  s_last_activity :: nat
  s_idle_timeout :: nat
  s_idle_self_lock :: bool
  s_world :: world

section \<open>Collecting terminal rows\<close>

record gc_report =
  gc_leases :: nat
  gc_approvals :: nat

definition gc_is_empty :: "gc_report \<Rightarrow> bool" where
  "gc_is_empty r \<longleftrightarrow> gc_leases r = 0 \<and> gc_approvals r = 0"

definition dead_lease :: "time \<Rightarrow> lease \<Rightarrow> bool" where
  "dead_lease now l \<longleftrightarrow> now \<ge> l_expires_at l \<or> l_revoked_at l \<noteq> None"

definition dead_approval :: "time \<Rightarrow> approval \<Rightarrow> bool" where
  "dead_approval now a \<longleftrightarrow>
     ap_status a = AConsumed \<or> ap_status a = ADenied
     \<or> (ap_status a = APending \<and> now \<ge> ap_pending_expires_at a)
     \<or> (ap_status a = AApproved \<and> (case ap_claim_expires_at a of None \<Rightarrow> False | Some d \<Rightarrow> now \<ge> d))"

definition purge_terminal :: "vault_document \<Rightarrow> time \<Rightarrow> vault_document \<times> gc_report" where
  "purge_terminal doc now =
     (let ls = filter (\<lambda>l. \<not> dead_lease now l) (d_leases doc);
          aps = filter (\<lambda>a. \<not> dead_approval now a) (d_approvals doc)
      in (doc\<lparr>d_leases := ls, d_approvals := aps\<rparr>,
          \<lparr>gc_leases = length (d_leases doc) - length ls,
           gc_approvals = length (d_approvals doc) - length aps\<rparr>))"

definition gc_terminal_credentials :: "session \<Rightarrow> gc_report \<times> session" where
  "gc_terminal_credentials s =
     (case s_doc s of
        None \<Rightarrow> (\<lparr>gc_leases = 0, gc_approvals = 0\<rparr>, s)
      | Some doc \<Rightarrow>
          (case purge_terminal doc (w_wall (s_world s)) of (swept, report) \<Rightarrow>
             (report, s\<lparr>s_doc := Some swept\<rparr>)))"

section \<open>Audit recording\<close>

definition mk_record ::
  "string \<Rightarrow> string \<Rightarrow> string option \<Rightarrow> string list \<Rightarrow> string option \<Rightarrow> decision \<Rightarrow> string option
    \<Rightarrow> audit_record" where
  "mk_record actor op project keys target dec reason =
     \<lparr>r_actor = actor, r_op = op, r_project = project, r_keys = keys, r_target = target,
      r_decision = dec, r_reason = reason\<rparr>"

definition record_with ::
  "('z) vault_lib_scheme \<Rightarrow> audit_record \<Rightarrow> string option \<Rightarrow> priority \<Rightarrow> session \<Rightarrow> unit res \<times> session" where
  "record_with L r key prio s =
     (case append_audit L r key prio (s_audit s) (s_world s) of (res, lg, w) \<Rightarrow>
        (res, s\<lparr>s_audit := lg, s_world := w\<rparr>))"

definition audit_record ::
  "('z) vault_lib_scheme \<Rightarrow> string \<Rightarrow> audit_record \<Rightarrow> session \<Rightarrow> unit res \<times> session" where
  "audit_record L actor r s = record_with L (r\<lparr>r_actor := actor\<rparr>) (s_audit_key s) Ordinary s"

definition audit_record_lifecycle ::
  "('z) vault_lib_scheme \<Rightarrow> string \<Rightarrow> audit_record \<Rightarrow> session \<Rightarrow> unit res \<times> session" where
  "audit_record_lifecycle L actor r s = record_with L (r\<lparr>r_actor := actor\<rparr>) (s_audit_key s) Lifecycle s"

definition audit_denied_code ::
  "('z) vault_lib_scheme \<Rightarrow> string \<Rightarrow> string \<Rightarrow> string option \<Rightarrow> string \<Rightarrow> session \<Rightarrow> session" where
  "audit_denied_code L actor op project reason s =
     snd (record_with L (mk_record actor op project [] None Denied (Some reason)) (s_audit_key s) Ordinary s)"

definition audit_denied ::
  "('z) vault_lib_scheme \<Rightarrow> string \<Rightarrow> string \<Rightarrow> string option \<Rightarrow> string list \<Rightarrow> string option
    \<Rightarrow> vault_error \<Rightarrow> session \<Rightarrow> session" where
  "audit_denied L actor op project keys target err s =
     snd (record_with L (mk_record actor op project keys target Denied (Some (code err)))
            (s_audit_key s) Ordinary s)"

text \<open>The pattern \<open>self.audit_denied(..., &e); return Err(e)\<close>.\<close>

definition refuse ::
  "('z) vault_lib_scheme \<Rightarrow> string \<Rightarrow> string \<Rightarrow> string option \<Rightarrow> string list \<Rightarrow> string option
    \<Rightarrow> vault_error \<Rightarrow> session \<Rightarrow> 'a res \<times> session" where
  "refuse L actor op project keys target err s =
     (Inl err, audit_denied L actor op project keys target err s)"

definition audit_seq :: "session \<Rightarrow> nat" where
  "audit_seq s = lg_seq (s_audit s)"

section \<open>Digest index, lock\<close>

definition rebuild_agent_digests :: "session \<Rightarrow> session" where
  "rebuild_agent_digests s =
     s\<lparr>s_digests :=
       (case s_doc s of
          None \<Rightarrow> Map.empty
        | Some d \<Rightarrow>
            map_of (rev (map (\<lambda>a. (a_token_hash a, a_id a))
              (filter (\<lambda>a. length (a_token_hash a) = 32)
                (filter (\<lambda>a. a_status a = Active) (d_agents d))))))\<rparr>"

definition lock_session :: "session \<Rightarrow> session" where
  "lock_session s = s\<lparr>s_keys := None, s_audit_key := None, s_doc := None, s_sessions := []\<rparr>"

definition is_locked :: "session \<Rightarrow> bool" where
  "is_locked s \<longleftrightarrow> s_keys s = None"

section \<open>Commit\<close>

text \<open>The part of \<open>commit_with\<close> after the audit entry: serialize, reseal, check the caps, replace
  the file, adopt the document. The envelope in memory is resealed before the checks.\<close>

definition commit_seal ::
  "('z) vault_lib_scheme \<Rightarrow> vault_document \<Rightarrow> keys \<Rightarrow> session \<Rightarrow> unit res \<times> session" where
  "commit_seal L doc ks s =
     (case doc_ser L doc of
        None \<Rightarrow> (Inl (Protocol ''document serialization''), s)
      | Some doc_bytes \<Rightarrow>
          (case reseal_document L doc_bytes ks (s_envelope s) (s_world s) of (r, env, w) \<Rightarrow>
             (let s1 = s\<lparr>s_envelope := env, s_world := w\<rparr> in
              case r of
                Inl e \<Rightarrow> (Inl e, s1)
              | Inr _ \<Rightarrow>
                  (case validate_persistable L env of
                     Inl e \<Rightarrow> (Inl e, s1)
                   | Inr _ \<Rightarrow>
                       (case save_atomic (s_path s1) (to_bytes L env) w of
                          (Inl e, w2) \<Rightarrow> (Inl e, s1\<lparr>s_world := w2\<rparr>)
                        | (Inr _, w2) \<Rightarrow>
                            (Inr (), rebuild_agent_digests (s1\<lparr>s_world := w2, s_doc := Some doc\<rparr>)))))))"

definition commit_with ::
  "('z) vault_lib_scheme \<Rightarrow> vault_document \<Rightarrow> audit_record \<Rightarrow> priority \<Rightarrow> session \<Rightarrow> unit res \<times> session" where
  "commit_with L doc r prio s =
     (case s_keys s of
        None \<Rightarrow> (Inl Locked, s)
      | Some ks \<Rightarrow>
          (case stage L r (s_audit_key s) prio (s_audit s) (s_world s) of
             Inl e \<Rightarrow> if prio = Ordinary then (Inl e, s) else commit_seal L doc ks s
           | Inr staged \<Rightarrow>
               (case append_staged L staged (s_audit s) (s_world s) of (q, lg, w) \<Rightarrow>
                  (let s1 = s\<lparr>s_audit := lg, s_world := w\<rparr> in
                   case q of
                     Inr _ \<Rightarrow>
                       commit_seal L (doc\<lparr>d_audit_head := \<lparr>h_seq = ev_seq (st_event staged),
                                                         h_hash = st_hash_hex staged\<rparr>\<rparr>) ks s1
                   | Inl e \<Rightarrow>
                       if prio = Ordinary then (Inl (AuditWrite (display_error e)), s1)
                       else commit_seal L doc ks s1))))"

definition commit ::
  "('z) vault_lib_scheme \<Rightarrow> vault_document \<Rightarrow> audit_record \<Rightarrow> session \<Rightarrow> unit res \<times> session" where
  "commit L doc r s = commit_with L doc r Ordinary s"

definition commit_lifecycle ::
  "('z) vault_lib_scheme \<Rightarrow> vault_document \<Rightarrow> audit_record \<Rightarrow> session \<Rightarrow> unit res \<times> session" where
  "commit_lifecycle L doc r s = commit_with L doc r Lifecycle s"

section \<open>Locking and idling\<close>

definition revoke_all_leases :: "vault_document \<Rightarrow> time \<Rightarrow> vault_document" where
  "revoke_all_leases doc now =
     doc\<lparr>d_leases := map (\<lambda>l. if l_revoked_at l = None then l\<lparr>l_revoked_at := Some now\<rparr> else l) (d_leases doc)\<rparr>"

definition deny_all_approvals :: "vault_document \<Rightarrow> vault_document" where
  "deny_all_approvals doc =
     doc\<lparr>d_approvals := map (\<lambda>a. if ap_status a = APending \<or> ap_status a = AApproved
                              then a\<lparr>ap_status := ADenied\<rparr> else a) (d_approvals doc)\<rparr>"

text \<open>The commit's error is not propagated: the lock itself always takes effect.\<close>

definition lock_persist :: "('z) vault_lib_scheme \<Rightarrow> session \<Rightarrow> unit res \<times> session" where
  "lock_persist L s =
     (case (s_keys s, s_doc s) of
        (Some _, Some doc) \<Rightarrow>
          (let doc1 = revoke_all_leases doc (w_wall (s_world s));
               doc2 = deny_all_approvals doc1;
               out = commit_with L doc2 (mk_record ''human'' ''vault.lock'' None [] None Allowed None) Lifecycle s
           in (Inr (), lock_session (snd out)))
      | _ \<Rightarrow> (Inr (), lock_session s))"

definition idle_expired :: "session \<Rightarrow> bool" where
  "idle_expired s \<longleftrightarrow> s_idle_timeout s \<noteq> 0 \<and> w_mono (s_world s) - s_last_activity s \<ge> s_idle_timeout s"

definition check_idle :: "('z) vault_lib_scheme \<Rightarrow> session \<Rightarrow> session" where
  "check_idle L s =
     (if s_idle_self_lock s \<and> s_idle_timeout s \<noteq> 0
         \<and> w_mono (s_world s) - s_last_activity s \<ge> s_idle_timeout s
      then (case lock_persist L s of (Inr _, s1) \<Rightarrow> s1 | (Inl _, s1) \<Rightarrow> lock_session s1)
      else s)"

definition defer_idle_lock :: "session \<Rightarrow> session" where
  "defer_idle_lock s = s\<lparr>s_idle_self_lock := False\<rparr>"

definition idle_deadline :: "session \<Rightarrow> nat option" where
  "idle_deadline s =
     (if s_idle_timeout s = 0 \<or> is_locked s then None else Some (s_last_activity s + s_idle_timeout s))"

definition require_keys :: "('z) vault_lib_scheme \<Rightarrow> session \<Rightarrow> keys res \<times> session" where
  "require_keys L s =
     (let s1 = check_idle L s in
      case s_keys s1 of
        None \<Rightarrow> (Inl Locked, s1)
      | Some ks \<Rightarrow> (Inr ks, s1\<lparr>s_last_activity := w_mono (s_world s1)\<rparr>))"

definition gate ::
  "('z) vault_lib_scheme \<Rightarrow> string \<Rightarrow> string \<Rightarrow> string option \<Rightarrow> string list \<Rightarrow> session \<Rightarrow> unit res \<times> session" where
  "gate L actor op project keys s =
     (let s1 = check_idle L s in
      if s_keys s1 = None then
        try_bind (record_with L (mk_record actor op project keys None Denied (Some ''E_LOCKED'')) None Ordinary s1)
          (\<lambda>_ s2. (Inl Locked, s2))
      else (Inr (), s1))"

text \<open>The gate of the agent-facing operations: the denial is best effort.\<close>

definition agent_gate ::
  "('z) vault_lib_scheme \<Rightarrow> string \<Rightarrow> string \<Rightarrow> string option \<Rightarrow> string list \<Rightarrow> session \<Rightarrow> vault_document res \<times> session" where
  "agent_gate L actor op project keys s =
     (let s1 = check_idle L s in
      if s_keys s1 = None then refuse L actor op project keys None Locked s1
      else (case s_doc s1 of None \<Rightarrow> (Inl Locked, s1) | Some doc \<Rightarrow> (Inr doc, s1)))"

section \<open>The shape of the human operations\<close>

text \<open>Gate, clone the document, apply the change to the clone, commit it with its record; a
  refusal is recorded. \<open>out\<close> is the result of the \<open>do_\<close> function on the clone.\<close>

definition with_doc ::
  "('z) vault_lib_scheme \<Rightarrow> string \<Rightarrow> string \<Rightarrow> string option \<Rightarrow> string list \<Rightarrow> session
    \<Rightarrow> vault_document res \<times> session" where
  "with_doc L actor op project keys s =
     try_bind (gate L actor op project keys s) (\<lambda>_ s1.
       case s_doc s1 of None \<Rightarrow> (Inl Locked, s1) | Some doc \<Rightarrow> (Inr doc, s1))"

definition finish_change ::
  "('z) vault_lib_scheme \<Rightarrow> priority \<Rightarrow> audit_record \<Rightarrow> string option \<Rightarrow> ('x \<times> vault_document) res \<Rightarrow> session
    \<Rightarrow> 'x res \<times> session" where
  "finish_change L prio r denied_project out s =
     (case out of
        Inr (x, doc) \<Rightarrow> try_bind (commit_with L doc r prio s) (\<lambda>_ s1. (Inr x, s1))
      | Inl e \<Rightarrow> refuse L (r_actor r) (r_op r) denied_project (r_keys r) (r_target r) e s)"

definition finish_read ::
  "('z) vault_lib_scheme \<Rightarrow> audit_record \<Rightarrow> 'x res \<Rightarrow> session \<Rightarrow> 'x res \<times> session" where
  "finish_read L r out s =
     (case out of
        Inr x \<Rightarrow> try_bind (audit_record L (r_actor r) r s) (\<lambda>_ s1. (Inr x, s1))
      | Inl e \<Rightarrow> refuse L (r_actor r) (r_op r) (r_project r) (r_keys r) (r_target r) e s)"

end
