(* ===== verification/SessionProjects.thy ===== *)
theory SessionProjects
  imports SessionCore
begin

text \<open>
  \<open>src/session.rs\<close>: the human operations on projects and secrets. Each \<open>do_\<close> function works on
  the cloned document; the operation around it gates, commits and records.
\<close>

section \<open>Projects\<close>

fun add_paths :: "world \<Rightarrow> project \<Rightarrow> string list \<Rightarrow> project res" where
  "add_paths w p [] = Inr p"
| "add_paths w p (q # qs) =
     res_bind (check_new_path w p q) (\<lambda>canonical. add_paths w (p\<lparr>p_paths := p_paths p @ [canonical]\<rparr>) qs)"

definition do_project_add ::
  "vault_document \<Rightarrow> string \<Rightarrow> string list \<Rightarrow> world \<Rightarrow> ((string \<times> vault_document) res \<times> world) option" where
  "do_project_add doc name paths w =
     (case check_new_project_name doc name of
        Inl e \<Rightarrow> Some (Inl e, w)
      | Inr _ \<Rightarrow>
          map_option (\<lambda>(r, w1).
            (res_bind r (\<lambda>i.
               res_bind (add_paths w1 \<lparr>p_id = i, p_name = name, p_paths = [], p_created_at = w_wall w1\<rparr> paths)
                 (\<lambda>p. Inr (i, doc\<lparr>d_projects := d_projects doc @ [p]\<rparr>))), w1))
            (fresh_id (\<lambda>i. project_by_id doc i \<noteq> None) w))"

definition project_add ::
  "('z) vault_lib_scheme \<Rightarrow> string \<Rightarrow> string \<Rightarrow> string list \<Rightarrow> session \<Rightarrow> (string res \<times> session) option" where
  "project_add L actor name paths s =
     (case with_doc L actor ''project.add'' (Some name) [] s of
        (Inl e, s1) \<Rightarrow> Some (Inl e, s1)
      | (Inr doc, s1) \<Rightarrow>
          map_option (\<lambda>(out, w).
            finish_change L Ordinary (mk_record actor ''project.add'' (Some name) [] None Allowed None)
              (Some name) out (s1\<lparr>s_world := w\<rparr>))
            (do_project_add doc name paths (s_world s1)))"

definition do_project_list :: "session \<Rightarrow> project list res" where
  "do_project_list s = res_bind (ok_or Locked (s_doc s)) (\<lambda>d. Inr (d_projects d))"

definition project_list ::
  "('z) vault_lib_scheme \<Rightarrow> string \<Rightarrow> session \<Rightarrow> project list res \<times> session" where
  "project_list L actor s =
     try_bind (gate L actor ''project.list'' None [] s) (\<lambda>_ s1.
       finish_read L (mk_record actor ''project.list'' None [] None Allowed None) (do_project_list s1) s1)"

definition do_project_path_add ::
  "world \<Rightarrow> vault_document \<Rightarrow> string \<Rightarrow> string \<Rightarrow> (unit \<times> vault_document) res" where
  "do_project_path_add w doc name path =
     (case position (\<lambda>p. p_name p = name) (d_projects doc) of
        None \<Rightarrow> Inl NotFound
      | Some idx \<Rightarrow>
          (let p = d_projects doc ! idx in
           res_bind (check_new_path w p path) (\<lambda>canonical.
             Inr ((), doc\<lparr>d_projects := (d_projects doc)[idx := p\<lparr>p_paths := p_paths p @ [canonical]\<rparr>]\<rparr>))))"

definition project_path_add ::
  "('z) vault_lib_scheme \<Rightarrow> string \<Rightarrow> string \<Rightarrow> string \<Rightarrow> session \<Rightarrow> unit res \<times> session" where
  "project_path_add L actor name path s =
     try_bind (with_doc L actor ''project.path.add'' (Some name) [] s) (\<lambda>doc s1.
       finish_change L Ordinary (mk_record actor ''project.path.add'' (Some name) [] (Some path) Allowed None)
         (Some name) (do_project_path_add (s_world s1) doc name path) s1)"

text \<open>The canonical form is preferred; the raw path still removes a deleted directory.\<close>

definition do_project_path_remove ::
  "world \<Rightarrow> vault_document \<Rightarrow> string \<Rightarrow> string \<Rightarrow> (unit \<times> vault_document) res" where
  "do_project_path_remove w doc name path =
     (case position (\<lambda>p. p_name p = name) (d_projects doc) of
        None \<Rightarrow> Inl NotFound
      | Some idx \<Rightarrow>
          (let p = d_projects doc ! idx;
               candidate = (case w_canon w path of None \<Rightarrow> path | Some c \<Rightarrow> c);
               pos = (case position (\<lambda>q. q = candidate) (p_paths p) of
                        Some i \<Rightarrow> Some i | None \<Rightarrow> position (\<lambda>q. q = path) (p_paths p))
           in case pos of
                None \<Rightarrow> Inl NotFound
              | Some i \<Rightarrow>
                  Inr ((), doc\<lparr>d_projects := (d_projects doc)[idx := p\<lparr>p_paths := remove_at i (p_paths p)\<rparr>]\<rparr>)))"

definition project_path_remove ::
  "('z) vault_lib_scheme \<Rightarrow> string \<Rightarrow> string \<Rightarrow> string \<Rightarrow> session \<Rightarrow> unit res \<times> session" where
  "project_path_remove L actor name path s =
     try_bind (with_doc L actor ''project.path.remove'' (Some name) [] s) (\<lambda>doc s1.
       finish_change L Ordinary (mk_record actor ''project.path.remove'' (Some name) [] (Some path) Allowed None)
         (Some name) (do_project_path_remove (s_world s1) doc name path) s1)"

definition do_project_remove :: "vault_document \<Rightarrow> string \<Rightarrow> (unit \<times> vault_document) res" where
  "do_project_remove doc name =
     (case position (\<lambda>p. p_name p = name) (d_projects doc) of
        None \<Rightarrow> Inl NotFound
      | Some idx \<Rightarrow>
          res_bind (check_project_removable doc (p_id (d_projects doc ! idx))) (\<lambda>_.
            Inr ((), doc\<lparr>d_projects := remove_at idx (d_projects doc)\<rparr>)))"

definition project_remove ::
  "('z) vault_lib_scheme \<Rightarrow> string \<Rightarrow> string \<Rightarrow> session \<Rightarrow> unit res \<times> session" where
  "project_remove L actor name s =
     try_bind (with_doc L actor ''project.remove'' (Some name) [] s) (\<lambda>doc s1.
       finish_change L Ordinary (mk_record actor ''project.remove'' (Some name) [] None Allowed None)
         (Some name) (do_project_remove doc name) s1)"

section \<open>Secrets\<close>

definition do_secret_set ::
  "time \<Rightarrow> vault_document \<Rightarrow> string \<Rightarrow> string \<Rightarrow> string \<Rightarrow> (unit \<times> vault_document) res" where
  "do_secret_set now doc project key val =
     res_bind (check_secret_value val) (\<lambda>_.
       case project_by_name doc project of
         None \<Rightarrow> Inl NotFound
       | Some p \<Rightarrow>
           (let pid = p_id p in
            if secret_of doc pid key \<noteq> None
            then Inr ((), doc\<lparr>d_secrets :=
                   update_first (\<lambda>s. s_project_id s = pid \<and> s_key s = key)
                     (\<lambda>s. s\<lparr>s_value := val, s_updated_at := now\<rparr>) (d_secrets doc)\<rparr>)
            else res_bind (check_new_secret_key doc pid key) (\<lambda>_.
                   Inr ((), doc\<lparr>d_secrets := d_secrets doc @
                     [\<lparr>s_project_id = pid, s_key = key, s_value = val,
                       s_created_at = now, s_updated_at = now\<rparr>]\<rparr>))))"

definition secret_set ::
  "('z) vault_lib_scheme \<Rightarrow> string \<Rightarrow> string \<Rightarrow> string \<Rightarrow> string \<Rightarrow> session \<Rightarrow> unit res \<times> session" where
  "secret_set L actor project key val s =
     try_bind (with_doc L actor ''secret.set'' (Some project) [key] s) (\<lambda>doc s1.
       finish_change L Ordinary (mk_record actor ''secret.set'' (Some project) [key] None Allowed None)
         (Some project) (do_secret_set (w_wall (s_world s1)) doc project key val) s1)"

definition do_secret_list :: "session \<Rightarrow> string \<Rightarrow> (string \<times> time) list res" where
  "do_secret_list s project =
     res_bind (ok_or Locked (s_doc s)) (\<lambda>doc.
       res_bind (ok_or NotFound (project_by_name doc project)) (\<lambda>p.
         Inr (map (\<lambda>x. (s_key x, s_updated_at x))
                (filter (\<lambda>x. s_project_id x = p_id p) (d_secrets doc)))))"

definition secret_list ::
  "('z) vault_lib_scheme \<Rightarrow> string \<Rightarrow> string \<Rightarrow> session \<Rightarrow> (string \<times> time) list res \<times> session" where
  "secret_list L project actor s =
     try_bind (gate L actor ''secret.list'' (Some project) [] s) (\<lambda>_ s1.
       finish_read L (mk_record actor ''secret.list'' (Some project) [] None Allowed None)
         (do_secret_list s1 project) s1)"

definition do_secret_delete :: "vault_document \<Rightarrow> string \<Rightarrow> string \<Rightarrow> (unit \<times> vault_document) res" where
  "do_secret_delete doc project key =
     (case project_by_name doc project of
        None \<Rightarrow> Inl NotFound
      | Some p \<Rightarrow>
          (case position (\<lambda>s. s_project_id s = p_id p \<and> s_key s = key) (d_secrets doc) of
             None \<Rightarrow> Inl NotFound
           | Some pos \<Rightarrow> Inr ((), doc\<lparr>d_secrets := remove_at pos (d_secrets doc)\<rparr>)))"

definition secret_delete ::
  "('z) vault_lib_scheme \<Rightarrow> string \<Rightarrow> string \<Rightarrow> string \<Rightarrow> session \<Rightarrow> unit res \<times> session" where
  "secret_delete L actor project key s =
     try_bind (with_doc L actor ''secret.delete'' (Some project) [key] s) (\<lambda>doc s1.
       finish_change L Ordinary (mk_record actor ''secret.delete'' (Some project) [key] None Allowed None)
         (Some project) (do_secret_delete doc project key) s1)"

end
