(* ===== verification/SessionAgents.thy ===== *)
theory SessionAgents
  imports SessionCore
begin

text \<open>
  \<open>src/session.rs\<close>: enrolling and revoking agents, granting and withdrawing operations. Every
  change that removes authority also revokes the leases and denies the approvals that rested on
  it, in the same commit.
\<close>

section \<open>Sweeps\<close>

definition revoke_agent_leases :: "vault_document \<Rightarrow> string \<Rightarrow> time \<Rightarrow> vault_document" where
  "revoke_agent_leases doc agent_id now =
     doc\<lparr>d_leases := map (\<lambda>l. if l_agent_id l = agent_id \<and> l_revoked_at l = None
                           then l\<lparr>l_revoked_at := Some now\<rparr> else l) (d_leases doc)\<rparr>"

definition deny_agent_approvals :: "vault_document \<Rightarrow> string \<Rightarrow> vault_document" where
  "deny_agent_approvals doc agent_id =
     doc\<lparr>d_approvals := map (\<lambda>a. if ap_agent_id a = agent_id \<and> (ap_status a = APending \<or> ap_status a = AApproved)
                              then a\<lparr>ap_status := ADenied\<rparr> else a) (d_approvals doc)\<rparr>"

definition revoke_uncovered_leases ::
  "vault_document \<Rightarrow> string \<Rightarrow> string \<Rightarrow> time \<Rightarrow> vault_document" where
  "revoke_uncovered_leases doc agent_id project_id now =
     (let grant_ops = (case active_grant doc agent_id project_id of None \<Rightarrow> [] | Some g \<Rightarrow> g_ops g)
      in doc\<lparr>d_leases :=
           map (\<lambda>l. if l_agent_id l = agent_id \<and> l_project_id l = project_id \<and> l_revoked_at l = None
                       \<and> \<not> list_all (\<lambda>op. op \<in> set grant_ops) (l_ops l)
                    then l\<lparr>l_revoked_at := Some now\<rparr> else l) (d_leases doc)\<rparr>)"

definition deny_pair_approvals_if_reveal_lost ::
  "vault_document \<Rightarrow> string \<Rightarrow> string \<Rightarrow> vault_document" where
  "deny_pair_approvals_if_reveal_lost doc agent_id project_id =
     (if authorize doc agent_id project_id OpReveal then doc
      else doc\<lparr>d_approvals :=
             map (\<lambda>a. if ap_agent_id a = agent_id \<and> ap_project_id a = project_id
                         \<and> (ap_status a = APending \<or> ap_status a = AApproved)
                      then a\<lparr>ap_status := ADenied\<rparr> else a) (d_approvals doc)\<rparr>)"

section \<open>Agents\<close>

definition do_agent_add ::
  "('z) crypto_lib_scheme \<Rightarrow> vault_document \<Rightarrow> string \<Rightarrow> world
    \<Rightarrow> (((string \<times> string) \<times> vault_document) res \<times> world) option" where
  "do_agent_add L doc name w =
     (case check_new_agent_name doc name of
        Inl e \<Rightarrow> Some (Inl e, w)
      | Inr _ \<Rightarrow>
          (case generate_agent_token L w of
             (Inl e, w1) \<Rightarrow> Some (Inl e, w1)
           | (Inr (token, digest, prefix), w1) \<Rightarrow>
               map_option (\<lambda>(r, w2).
                 (res_bind r (\<lambda>i.
                    Inr ((i, token), doc\<lparr>d_agents := d_agents doc @
                      [\<lparr>a_id = i, a_name = name, a_status = Active, a_token_hash = digest,
                        a_token_prefix = prefix, a_created_at = w_wall w2, a_last_seen = None\<rparr>]\<rparr>)), w2))
                 (fresh_id (\<lambda>i. agent_by_id doc i \<noteq> None) w1)))"

definition agent_add ::
  "('z) vault_lib_scheme \<Rightarrow> string \<Rightarrow> string \<Rightarrow> session \<Rightarrow> ((string \<times> string) res \<times> session) option" where
  "agent_add L actor name s =
     (case with_doc L actor ''agents.add'' (Some name) [] s of
        (Inl e, s1) \<Rightarrow> Some (Inl e, s1)
      | (Inr doc, s1) \<Rightarrow>
          map_option (\<lambda>(out, w).
            finish_change L Ordinary (mk_record actor ''agents.add'' None [] None Allowed None)
              (Some name) out (s1\<lparr>s_world := w\<rparr>))
            (do_agent_add L doc name (s_world s1)))"

definition do_agent_revoke :: "vault_document \<Rightarrow> string \<Rightarrow> (string \<times> vault_document) res" where
  "do_agent_revoke doc name =
     (case position (\<lambda>a. a_name a = name) (d_agents doc) of
        None \<Rightarrow> Inl NotFound
      | Some idx \<Rightarrow>
          Inr (a_id (d_agents doc ! idx),
               doc\<lparr>d_agents := (d_agents doc)[idx := (d_agents doc ! idx)\<lparr>a_status := Revoked\<rparr>]\<rparr>))"

text \<open>The document change of \<open>agent_revoke\<close>: the status, then both sweeps.\<close>

definition agent_revoke_doc :: "time \<Rightarrow> vault_document \<Rightarrow> string \<Rightarrow> (unit \<times> vault_document) res" where
  "agent_revoke_doc now doc name =
     res_bind (do_agent_revoke doc name) (\<lambda>(agent_id, doc1).
       Inr ((), deny_agent_approvals (revoke_agent_leases doc1 agent_id now) agent_id))"

definition agent_revoke ::
  "('z) vault_lib_scheme \<Rightarrow> string \<Rightarrow> string \<Rightarrow> session \<Rightarrow> unit res \<times> session" where
  "agent_revoke L actor name s =
     try_bind (with_doc L actor ''agents.revoke'' (Some name) [] s) (\<lambda>doc s1.
       finish_change L Lifecycle (mk_record actor ''agents.revoke'' None [] None Allowed None)
         (Some name) (agent_revoke_doc (w_wall (s_world s1)) doc name) s1)"

definition agent_list ::
  "('z) vault_lib_scheme \<Rightarrow> string \<Rightarrow> session \<Rightarrow> (string \<times> agent_status \<times> string) list res \<times> session" where
  "agent_list L actor s =
     try_bind (with_doc L actor ''agents.list'' None [] s) (\<lambda>doc s1.
       finish_read L (mk_record actor ''agents.list'' None [] None Allowed None)
         (Inr (map (\<lambda>a. (a_name a, a_status a, a_token_prefix a)) (d_agents doc))) s1)"

text \<open>Works while locked: only digests are consulted.\<close>

definition resolve_agent :: "('z) crypto_lib_scheme \<Rightarrow> string \<Rightarrow> session \<Rightarrow> string option" where
  "resolve_agent L token s = s_digests s (token_digest L token)"

section \<open>Grants\<close>

definition do_grant_add ::
  "vault_document \<Rightarrow> string \<Rightarrow> string \<Rightarrow> operation list \<Rightarrow> time \<Rightarrow> (unit \<times> vault_document) res" where
  "do_grant_add doc agent_name project_name ops now =
     (if ops = [] then Inl (InvalidInput ''grant must include at least one op'')
      else case agent_by_name doc agent_name of
        None \<Rightarrow> Inl NotFound
      | Some a \<Rightarrow>
          (case project_by_name doc project_name of
             None \<Rightarrow> Inl NotFound
           | Some p \<Rightarrow>
               (let doc1 =
                  (if active_grant doc (a_id a) (p_id p) \<noteq> None
                   then doc\<lparr>d_grants := update_first (is_active_grant (a_id a) (p_id p))
                              (\<lambda>g. g\<lparr>g_ops := ops\<rparr>) (d_grants doc)\<rparr>
                   else doc\<lparr>d_grants := d_grants doc @
                          [\<lparr>g_agent_id = a_id a, g_project_id = p_id p, g_ops = ops,
                            g_created_at = now, g_revoked_at = None\<rparr>]\<rparr>)
                in Inr ((), deny_pair_approvals_if_reveal_lost
                              (revoke_uncovered_leases doc1 (a_id a) (p_id p) now) (a_id a) (p_id p)))))"

definition previously_granted :: "vault_document \<Rightarrow> string \<Rightarrow> string \<Rightarrow> operation list option" where
  "previously_granted doc agent_name project_name =
     (case (agent_by_name doc agent_name, project_by_name doc project_name) of
        (Some a, Some p) \<Rightarrow> map_option g_ops (active_grant doc (a_id a) (p_id p))
      | _ \<Rightarrow> None)"

definition is_reduction :: "operation list option \<Rightarrow> operation list \<Rightarrow> bool" where
  "is_reduction before ops =
     (case before of None \<Rightarrow> False | Some b \<Rightarrow> list_all (\<lambda>op. op \<in> set b) ops)"

definition grant_add ::
  "('z) vault_lib_scheme \<Rightarrow> string \<Rightarrow> string \<Rightarrow> string \<Rightarrow> operation list \<Rightarrow> session \<Rightarrow> unit res \<times> session" where
  "grant_add L actor agent_name project_name ops s =
     try_bind (with_doc L actor ''grants.grant'' (Some project_name) [] s) (\<lambda>doc s1.
       finish_change L
         (if is_reduction (previously_granted doc agent_name project_name) ops then Lifecycle else Ordinary)
         (mk_record actor ''grants.grant'' (Some project_name) [] None Allowed None)
         (Some project_name) (do_grant_add doc agent_name project_name ops (w_wall (s_world s1))) s1)"

definition do_grant_revoke ::
  "vault_document \<Rightarrow> string \<Rightarrow> string \<Rightarrow> time \<Rightarrow> (unit \<times> vault_document) res" where
  "do_grant_revoke doc agent_name project_name now =
     (case agent_by_name doc agent_name of
        None \<Rightarrow> Inl NotFound
      | Some a \<Rightarrow>
          (case project_by_name doc project_name of
             None \<Rightarrow> Inl NotFound
           | Some p \<Rightarrow>
               (if active_grant doc (a_id a) (p_id p) = None then Inl NotFound
                else
                  (let doc1 = doc\<lparr>d_grants := update_first (is_active_grant (a_id a) (p_id p))
                                    (\<lambda>g. g\<lparr>g_revoked_at := Some now\<rparr>) (d_grants doc)\<rparr>
                   in Inr ((), deny_pair_approvals_if_reveal_lost
                                 (revoke_uncovered_leases doc1 (a_id a) (p_id p) now) (a_id a) (p_id p))))))"

definition grant_revoke ::
  "('z) vault_lib_scheme \<Rightarrow> string \<Rightarrow> string \<Rightarrow> string \<Rightarrow> session \<Rightarrow> unit res \<times> session" where
  "grant_revoke L actor agent_name project_name s =
     try_bind (with_doc L actor ''grants.revoke'' (Some project_name) [] s) (\<lambda>doc s1.
       finish_change L Lifecycle (mk_record actor ''grants.revoke'' (Some project_name) [] None Allowed None)
         (Some project_name) (do_grant_revoke doc agent_name project_name (w_wall (s_world s1))) s1)"

definition summarize_grant :: "vault_document \<Rightarrow> grant \<Rightarrow> grant_summary" where
  "summarize_grant doc g =
     \<lparr>gs_agent = (case agent_by_id doc (g_agent_id g) of None \<Rightarrow> g_agent_id g | Some a \<Rightarrow> a_name a),
      gs_project = (case project_by_id doc (g_project_id g) of None \<Rightarrow> g_project_id g | Some p \<Rightarrow> p_name p),
      gs_ops = g_ops g, gs_revoked = (g_revoked_at g \<noteq> None)\<rparr>"

definition grant_list ::
  "('z) vault_lib_scheme \<Rightarrow> string \<Rightarrow> session \<Rightarrow> grant_summary list res \<times> session" where
  "grant_list L actor s =
     try_bind (with_doc L actor ''grants.list'' None [] s) (\<lambda>doc s1.
       finish_read L (mk_record actor ''grants.list'' None [] None Allowed None)
         (Inr (map (summarize_grant doc) (d_grants doc))) s1)"

end
