(* ===== verification/SessionLeases.thy ===== *)
theory SessionLeases
  imports SessionAgents
begin

text \<open>
  \<open>src/session.rs\<close>: TTL-bound leases. A lease is a subset of the caller's live grant; its
  credential is returned once and resolved by digest; \<open>authorize_lease\<close> evaluates
  grant, lease, TTL and lock state on every request.
\<close>

definition agent_prefix :: "string \<Rightarrow> string" where
  "agent_prefix agent_id = ''agent:'' @ agent_id"

text \<open>The checks of \<open>lease_create\<close> up to the room for one more lease, in the order of the code:
  the project id and the document to extend.\<close>

definition check_new_lease ::
  "vault_document \<Rightarrow> string \<Rightarrow> string \<Rightarrow> operation list \<Rightarrow> time \<Rightarrow> (string \<times> vault_document) res" where
  "check_new_lease doc0 agent_id project ops now =
     (case project_by_name doc0 project of
        None \<Rightarrow> Inl NotFound
      | Some p \<Rightarrow>
          (case agent_by_id doc0 agent_id of
             None \<Rightarrow> Inl NotFound
           | Some a \<Rightarrow>
               if a_status a \<noteq> Active then Inl NotFound
               else (case active_grant doc0 agent_id (p_id p) of
                       None \<Rightarrow> Inl Permission
                     | Some g \<Rightarrow>
                         if \<not> list_all (\<lambda>op. op \<in> set (g_ops g)) ops then Inl Permission
                         else (let doc = (if length (d_leases doc0) \<ge> MAX_LEASES
                                          then fst (purge_terminal doc0 now) else doc0)
                               in if length (d_leases doc) \<ge> MAX_LEASES
                                  then Inl (InvalidInput ''too many leases'')
                                  else Inr (p_id p, doc)))))"

text \<open>Drawing the handle and the credential, and extending the document.\<close>

definition mint_lease ::
  "('z) crypto_lib_scheme \<Rightarrow> vault_document \<Rightarrow> string \<Rightarrow> string \<Rightarrow> operation list \<Rightarrow> nat \<Rightarrow> time \<Rightarrow> world
    \<Rightarrow> (((lease \<times> string) \<times> vault_document) res \<times> world) option" where
  "mint_lease L doc agent_id project_id ops ttl_secs now w =
     map_option (\<lambda>(r, w1).
       try_bind (r, w1) (\<lambda>i w1.
         try_bind (generate_capability L w1) (\<lambda>(credential, digest, prefix) w2.
           let l = \<lparr>l_id = i, l_agent_id = agent_id, l_project_id = project_id, l_ops = ops,
                    l_credential_hash = digest, l_credential_prefix = prefix, l_created_at = now,
                    l_expires_at = now + seconds ttl_secs, l_revoked_at = None\<rparr>
           in (Inr ((l, credential), doc\<lparr>d_leases := d_leases doc @ [l]\<rparr>), w2))))
       (fresh_id (\<lambda>i. \<exists>l\<in>set (d_leases doc). l_id l = i) w)"

text \<open>A failing random draw is returned without an audit entry.\<close>

definition lease_create ::
  "('z) vault_lib_scheme \<Rightarrow> string \<Rightarrow> string \<Rightarrow> string \<Rightarrow> operation list \<Rightarrow> nat \<Rightarrow> session
    \<Rightarrow> ((lease \<times> string) res \<times> session) option" where
  "lease_create L actor agent_id project ops ttl_secs s =
     (let op = ''lease.create''; no = refuse L actor op (Some project) [] None;
          s1 = check_idle L s; now = w_wall (s_world s1) in
      if s_keys s1 = None then Some (no Locked s1)
      else if \<not> (MIN_LEASE_TTL_SECS \<le> ttl_secs \<and> ttl_secs \<le> MAX_LEASE_TTL_SECS)
        then Some (no (InvalidInput ''ttl_secs must be 1..86400'') s1)
      else if ops = [] then Some (no (InvalidInput ''lease must include at least one op'') s1)
      else case s_doc s1 of
        None \<Rightarrow> Some (Inl Locked, s1)
      | Some doc0 \<Rightarrow>
          (case check_new_lease doc0 agent_id project ops now of
             Inl e \<Rightarrow> Some (no e s1)
           | Inr (project_id, doc) \<Rightarrow>
               map_option (\<lambda>(out, w).
                 try_bind (out, s1\<lparr>s_world := w\<rparr>) (\<lambda>(answer, doc') s2.
                   try_bind (commit L doc' (mk_record actor op (Some project) [] None Allowed None) s2)
                     (\<lambda>_ s3. (Inr answer, s3))))
                 (mint_lease L doc agent_id project_id ops ttl_secs now (s_world s1))))"

definition lease_list ::
  "('z) vault_lib_scheme \<Rightarrow> string \<Rightarrow> string option \<Rightarrow> session \<Rightarrow> lease list res \<times> session" where
  "lease_list L actor agent_id s =
     try_bind (agent_gate L actor ''lease.list'' None [] s) (\<lambda>doc s1.
       let list = (case agent_id of
                     Some i \<Rightarrow> filter (\<lambda>l. l_agent_id l = i) (d_leases doc) | None \<Rightarrow> d_leases doc)
       in (Inr list, snd (audit_record L actor (mk_record actor ''lease.list'' None [] None Allowed None) s1)))"

text \<open>The document change of \<open>lease_revoke\<close>: an agent may only name its own leases; idempotent.\<close>

definition do_lease_revoke ::
  "vault_document \<Rightarrow> string option \<Rightarrow> string \<Rightarrow> time \<Rightarrow> (unit \<times> vault_document) res" where
  "do_lease_revoke doc agent_id lease_id now =
     (case position (\<lambda>l. l_id l = lease_id) (d_leases doc) of
        None \<Rightarrow> Inl NotFound
      | Some pos \<Rightarrow>
          (let l = d_leases doc ! pos in
           if (case agent_id of Some i \<Rightarrow> l_agent_id l \<noteq> i | None \<Rightarrow> False) then Inl Permission
           else Inr ((), if l_revoked_at l = None
                         then doc\<lparr>d_leases := (d_leases doc)[pos := l\<lparr>l_revoked_at := Some now\<rparr>]\<rparr>
                         else doc)))"

definition lease_revoke ::
  "('z) vault_lib_scheme \<Rightarrow> string \<Rightarrow> string option \<Rightarrow> string \<Rightarrow> session \<Rightarrow> unit res \<times> session" where
  "lease_revoke L actor agent_id lease_id s =
     try_bind (agent_gate L actor ''lease.revoke'' None [] s) (\<lambda>doc s1.
       finish_change L Lifecycle (mk_record actor ''lease.revoke'' None [] None Allowed None) None
         (do_lease_revoke doc agent_id lease_id (w_wall (s_world s1))) s1)"

section \<open>Authorization\<close>

text \<open>The pure part of \<open>authorize_lease\<close> on an unlocked vault. \<open>Sweep\<close> is the branch that finds a
  lease its grant no longer covers and persists the invalidation before it denies.\<close>

datatype verdict = Allow string | Deny vault_error | Sweep string

definition lease_verdict ::
  "vault_document \<Rightarrow> string \<Rightarrow> string \<Rightarrow> operation \<Rightarrow> lease \<Rightarrow> time \<Rightarrow> verdict" where
  "lease_verdict doc agent_id project_id op l now =
     (if l_agent_id l \<noteq> agent_id \<or> l_project_id l \<noteq> project_id then Deny LeaseExpired
      else if l_revoked_at l \<noteq> None \<or> now \<ge> l_expires_at l then Deny LeaseExpired
      else case active_grant doc agent_id project_id of
             None \<Rightarrow> Deny LeaseExpired
           | Some g \<Rightarrow>
               if \<not> list_all (\<lambda>q. q \<in> set (g_ops g)) (l_ops l) then Sweep (l_id l)
               else if op \<notin> set (l_ops l) then Deny Permission
               else Allow (''lease:'' @ l_id l))"

definition authorize_verdict ::
  "('z) crypto_lib_scheme \<Rightarrow> vault_document \<Rightarrow> string \<Rightarrow> string \<Rightarrow> operation \<Rightarrow> string option \<Rightarrow> time
    \<Rightarrow> verdict" where
  "authorize_verdict L doc agent_id project op credential now =
     (case project_by_name doc project of
        None \<Rightarrow> Deny NotFound
      | Some p \<Rightarrow>
          if \<not> (\<exists>a\<in>set (d_agents doc). a_id a = agent_id \<and> a_status a = Active) then Deny Permission
          else (case credential of
                  None \<Rightarrow> if authorize doc agent_id (p_id p) op then Allow (agent_prefix agent_id)
                          else Deny Permission
                | Some presented \<Rightarrow>
                    (case find (\<lambda>l. l_credential_hash l = token_digest L presented) (d_leases doc) of
                       None \<Rightarrow> Deny LeaseExpired
                     | Some l \<Rightarrow> lease_verdict doc agent_id (p_id p) op l now)))"

definition sweep_lease :: "vault_document \<Rightarrow> string \<Rightarrow> time \<Rightarrow> vault_document" where
  "sweep_lease doc lid now =
     doc\<lparr>d_leases := update_first (\<lambda>l. l_id l = lid) (\<lambda>l. l\<lparr>l_revoked_at := Some now\<rparr>) (d_leases doc)\<rparr>"

definition authorize_lease ::
  "('z) vault_lib_scheme \<Rightarrow> string \<Rightarrow> string \<Rightarrow> operation \<Rightarrow> string option \<Rightarrow> session
    \<Rightarrow> string res \<times> session" where
  "authorize_lease L agent_id project op credential s =
     (let actor = agent_prefix agent_id; rec = (\<lambda>a o'. mk_record a o' (Some project) [] None Allowed None) in
      try_bind (agent_gate L actor ''authorize'' (Some project) [] s) (\<lambda>doc s1.
        let now = w_wall (s_world s1) in
        case authorize_verdict L doc agent_id project op credential now of
          Deny e \<Rightarrow> refuse L actor ''authorize'' (Some project) [] None e s1
        | Sweep lid \<Rightarrow>
            refuse L actor ''authorize'' (Some project) [] None LeaseExpired
              (snd (commit L (sweep_lease doc lid now) (rec actor ''lease.invalidate'') s1))
        | Allow who \<Rightarrow> (Inr who, snd (audit_record L who (rec who ''authorize'') s1))))"

end
