(* ===== verification/SessionApprovals.thy ===== *)
theory SessionApprovals
  imports SessionLeases
begin

text \<open>
  \<open>src/session.rs\<close>: approvals of secret reveals. An agent requests, a human decides inside the
  pending window, the agent claims once inside the claim window; the state machine is
  pending, then approved or denied, then consumed.
\<close>

definition starts_with :: "string \<Rightarrow> string \<Rightarrow> bool" where
  "starts_with s p \<longleftrightarrow> take (length p) s = p"

definition is_human_identity :: "string \<Rightarrow> bool" where
  "is_human_identity actor \<longleftrightarrow>
     actor = ''human'' \<or> (starts_with actor ''human(session:'' \<and> actor \<noteq> [] \<and> last actor = CHR '')'')"

section \<open>Requesting\<close>

definition check_new_approval ::
  "vault_document \<Rightarrow> string \<Rightarrow> string \<Rightarrow> string \<Rightarrow> time \<Rightarrow> (string \<times> vault_document) res" where
  "check_new_approval doc0 agent_id project key now =
     (case project_by_name doc0 project of
        None \<Rightarrow> Inl NotFound
      | Some p \<Rightarrow>
          if \<not> (\<exists>a\<in>set (d_agents doc0). a_id a = agent_id \<and> a_status a = Active) then Inl Permission
          else if \<not> authorize doc0 agent_id (p_id p) OpReveal then Inl Permission
          else if secret_of doc0 (p_id p) key = None then Inl NotFound
          else (let doc = (if length (d_approvals doc0) \<ge> MAX_APPROVALS
                           then fst (purge_terminal doc0 now) else doc0)
                in if length (d_approvals doc) \<ge> MAX_APPROVALS
                   then Inl (InvalidInput ''too many approvals'') else Inr (p_id p, doc)))"

definition mint_approval ::
  "vault_document \<Rightarrow> string \<Rightarrow> string \<Rightarrow> string \<Rightarrow> time \<Rightarrow> world
    \<Rightarrow> ((approval \<times> vault_document) res \<times> world) option" where
  "mint_approval doc agent_id project_id key now w =
     map_option (\<lambda>(r, w1).
       (res_bind r (\<lambda>i.
          let a = \<lparr>ap_id = i, ap_agent_id = agent_id, ap_project_id = project_id, ap_key = key,
                   ap_status = APending, ap_created_at = now,
                   ap_pending_expires_at = now + seconds APPROVAL_PENDING_SECS,
                   ap_approved_at = None, ap_claim_expires_at = None\<rparr>
          in Inr (a, doc\<lparr>d_approvals := d_approvals doc @ [a]\<rparr>)), w1))
       (fresh_id (\<lambda>i. \<exists>a\<in>set (d_approvals doc). ap_id a = i) w)"

definition approval_request ::
  "('z) vault_lib_scheme \<Rightarrow> string \<Rightarrow> string \<Rightarrow> string \<Rightarrow> string \<Rightarrow> session
    \<Rightarrow> (approval res \<times> session) option" where
  "approval_request L actor agent_id project key s =
     (let op = ''approval.request'' in
      case agent_gate L actor op (Some project) [key] s of
        (Inl e, s1) \<Rightarrow> Some (Inl e, s1)
      | (Inr doc0, s1) \<Rightarrow>
          (let now = w_wall (s_world s1) in
           case check_new_approval doc0 agent_id project key now of
             Inl e \<Rightarrow> Some (refuse L actor op (Some project) [key] None e s1)
           | Inr (project_id, doc) \<Rightarrow>
               map_option (\<lambda>(out, w).
                 try_bind (out, s1\<lparr>s_world := w\<rparr>) (\<lambda>(a, doc') s2.
                   try_bind (commit L doc' (mk_record actor op (Some project) [key] None Allowed None) s2)
                     (\<lambda>_ s3. (Inr a, s3))))
                 (mint_approval doc agent_id project_id key now (s_world s1))))"

section \<open>Polling and listing\<close>

definition approval_view :: "approval \<Rightarrow> time \<Rightarrow> string" where
  "approval_view a now =
     (case ap_status a of
        ADenied \<Rightarrow> ''denied''
      | AConsumed \<Rightarrow> ''consumed''
      | APending \<Rightarrow> if now \<ge> ap_pending_expires_at a then ''expired'' else ''pending''
      | AApproved \<Rightarrow>
          (case ap_claim_expires_at a of
             Some exp \<Rightarrow> if now \<ge> exp then ''expired'' else ''approved''
           | None \<Rightarrow> ''approved''))"

definition approval_status ::
  "('z) vault_lib_scheme \<Rightarrow> string \<Rightarrow> string \<Rightarrow> session \<Rightarrow> string res \<times> session" where
  "approval_status L agent_id approval_id s =
     (let actor = agent_prefix agent_id; op = ''approval.status'' in
      try_bind (agent_gate L actor op None [] s) (\<lambda>doc s1.
        case find (\<lambda>a. ap_id a = approval_id) (d_approvals doc) of
          None \<Rightarrow> refuse L actor op None [] None NotFound s1
        | Some a \<Rightarrow>
            if ap_agent_id a \<noteq> agent_id then refuse L actor op None [] None Permission s1
            else (Inr (approval_view a (w_wall (s_world s1))),
                  snd (audit_record L actor (mk_record actor op None [] None Allowed None) s1))))"

text \<open>The human gate comes after the idle check and before the lock check.\<close>

definition human_gate ::
  "('z) vault_lib_scheme \<Rightarrow> string \<Rightarrow> string \<Rightarrow> session \<Rightarrow> vault_document res \<times> session" where
  "human_gate L actor op s =
     (let s1 = check_idle L s in
      if \<not> is_human_identity actor then refuse L actor op None [] None HumanRequired s1
      else if s_keys s1 = None then refuse L actor op None [] None Locked s1
      else (case s_doc s1 of None \<Rightarrow> (Inl Locked, s1) | Some doc \<Rightarrow> (Inr doc, s1)))"

definition approval_pending ::
  "('z) vault_lib_scheme \<Rightarrow> string \<Rightarrow> session \<Rightarrow> approval list res \<times> session" where
  "approval_pending L actor s =
     (let op = ''approval.pending'' in
      try_bind (human_gate L actor op s) (\<lambda>doc s1.
        (Inr (filter (\<lambda>a. ap_status a = APending \<and> w_wall (s_world s1) < ap_pending_expires_at a)
               (d_approvals doc)),
         snd (audit_record L actor (mk_record actor op None [] None Allowed None) s1))))"

section \<open>Deciding\<close>

definition do_approval_decide ::
  "vault_document \<Rightarrow> string \<Rightarrow> bool \<Rightarrow> time \<Rightarrow> (unit \<times> vault_document) res" where
  "do_approval_decide doc approval_id approve now =
     (case position (\<lambda>a. ap_id a = approval_id) (d_approvals doc) of
        None \<Rightarrow> Inl NotFound
      | Some pos \<Rightarrow>
          (let a = d_approvals doc ! pos in
           case ap_status a of
             ADenied \<Rightarrow> Inl ApprovalDenied
           | AConsumed \<Rightarrow> Inl ApprovalConsumed
           | AApproved \<Rightarrow> Inl (InvalidInput ''approval already decided'')
           | APending \<Rightarrow>
               if now \<ge> ap_pending_expires_at a then Inl ApprovalExpired
               else Inr ((), doc\<lparr>d_approvals := (d_approvals doc)[pos :=
                      (if approve
                       then a\<lparr>ap_status := AApproved, ap_approved_at := Some now,
                              ap_claim_expires_at := Some (now + seconds APPROVAL_CLAIM_SECS)\<rparr>
                       else a\<lparr>ap_status := ADenied\<rparr>)]\<rparr>)))"

definition approval_decide ::
  "('z) vault_lib_scheme \<Rightarrow> string \<Rightarrow> string \<Rightarrow> bool \<Rightarrow> session \<Rightarrow> unit res \<times> session" where
  "approval_decide L actor approval_id approve s =
     try_bind (human_gate L actor ''approval.decide'' s) (\<lambda>doc s1.
       case do_approval_decide doc approval_id approve (w_wall (s_world s1)) of
         Inl e \<Rightarrow> refuse L actor ''approval.decide'' None [] None e s1
       | Inr (_, doc') \<Rightarrow>
           commit L doc' (mk_record actor (if approve then ''approval.approve'' else ''approval.deny'')
                            None [] None Allowed None) s1)"

section \<open>Claiming\<close>

text \<open>The checks of \<open>reveal_claim\<close> in order: project, approval, ownership and binding, live grant,
  state and windows, secret. The remaining pending time is whole seconds, never negative.\<close>

definition do_reveal_claim ::
  "vault_document \<Rightarrow> string \<Rightarrow> string \<Rightarrow> string \<Rightarrow> string \<Rightarrow> time \<Rightarrow> (string \<times> vault_document) res" where
  "do_reveal_claim doc agent_id project key approval_id now =
     (case project_by_name doc project of
        None \<Rightarrow> Inl NotFound
      | Some p \<Rightarrow>
          (case position (\<lambda>a. ap_id a = approval_id) (d_approvals doc) of
             None \<Rightarrow> Inl NotFound
           | Some pos \<Rightarrow>
               (let a = d_approvals doc ! pos in
                if ap_agent_id a \<noteq> agent_id \<or> ap_project_id a \<noteq> p_id p \<or> ap_key a \<noteq> key
                  then Inl Permission
                else if \<not> authorize doc agent_id (p_id p) OpReveal then Inl Permission
                else case ap_status a of
                  ADenied \<Rightarrow> Inl ApprovalDenied
                | AConsumed \<Rightarrow> Inl ApprovalConsumed
                | APending \<Rightarrow>
                    if now \<ge> ap_pending_expires_at a then Inl ApprovalExpired
                    else Inl (ApprovalPending approval_id
                                (nat ((ap_pending_expires_at a - now) div int SEC)))
                | AApproved \<Rightarrow>
                    if (case ap_claim_expires_at a of Some exp \<Rightarrow> now \<ge> exp | None \<Rightarrow> False)
                      then Inl ApprovalExpired
                    else (case secret_of doc (p_id p) key of
                            None \<Rightarrow> Inl NotFound
                          | Some sec \<Rightarrow>
                              Inr (s_value sec,
                                   doc\<lparr>d_approvals := (d_approvals doc)[pos := a\<lparr>ap_status := AConsumed\<rparr>]\<rparr>)))))"

definition reveal_claim ::
  "('z) vault_lib_scheme \<Rightarrow> string \<Rightarrow> string \<Rightarrow> string \<Rightarrow> string \<Rightarrow> string \<Rightarrow> session
    \<Rightarrow> string res \<times> session" where
  "reveal_claim L actor agent_id project key approval_id s =
     try_bind (agent_gate L actor ''reveal'' (Some project) [key] s) (\<lambda>doc s1.
       finish_change L Ordinary (mk_record actor ''reveal'' (Some project) [key] None Allowed None)
         (Some project) (do_reveal_claim doc agent_id project key approval_id (w_wall (s_world s1))) s1)"

definition reveal_human ::
  "('z) vault_lib_scheme \<Rightarrow> string \<Rightarrow> string \<Rightarrow> string \<Rightarrow> session \<Rightarrow> string res \<times> session" where
  "reveal_human L actor project key s =
     try_bind (agent_gate L actor ''reveal'' (Some project) [key] s) (\<lambda>doc s1.
       finish_read L (mk_record actor ''reveal'' (Some project) [key] None Allowed None)
         (res_bind (ok_or NotFound (project_by_name doc project)) (\<lambda>p.
            res_bind (ok_or NotFound (secret_of doc (p_id p) key)) (\<lambda>sec. Inr (s_value sec)))) s1)"

end
