(* ===== verification/DocInv.thy ===== *)
theory DocInv
  imports SessionProjects SessionApprovals
begin

text \<open>
  Every change an operation makes to the cloned document keeps the document invariant. The
  interface is \<open>doc_change\<close>: a change that keeps \<open>wf_doc\<close> may be committed; it is interpreted on
  the \<open>do_\<close> functions of the model.
\<close>

locale doc_change =
  fixes change :: "vault_document \<Rightarrow> ('x \<times> vault_document) res"
  assumes keeps: "wf_doc d \<Longrightarrow> change d = Inr (x, d') \<Longrightarrow> wf_doc d'"
begin

lemma keeps_head: "wf_doc d \<Longrightarrow> change d = Inr (x, d') \<Longrightarrow> wf_doc (d'\<lparr>d_audit_head := h\<rparr>)"
  using keeps by simp

lemma keeps_seq:
  "wf_doc d \<Longrightarrow> change d = Inr (x, d1) \<Longrightarrow> change d1 = Inr (y, d2) \<Longrightarrow> wf_doc d2"
  using keeps by blast

end

section \<open>Independence of the parts\<close>

lemma wf_projects_upd [simp]:
  "wf_projects (d\<lparr>d_secrets := x\<rparr>) = wf_projects d" "wf_projects (d\<lparr>d_agents := a\<rparr>) = wf_projects d"
  "wf_projects (d\<lparr>d_grants := g\<rparr>) = wf_projects d" "wf_projects (d\<lparr>d_leases := l\<rparr>) = wf_projects d"
  "wf_projects (d\<lparr>d_approvals := ap\<rparr>) = wf_projects d"
  by (simp_all add: wf_projects_def)

lemma wf_secrets_upd [simp]:
  "wf_secrets (d\<lparr>d_agents := a\<rparr>) = wf_secrets d" "wf_secrets (d\<lparr>d_grants := g\<rparr>) = wf_secrets d"
  "wf_secrets (d\<lparr>d_leases := l\<rparr>) = wf_secrets d" "wf_secrets (d\<lparr>d_approvals := ap\<rparr>) = wf_secrets d"
  by (simp_all add: wf_secrets_def)

lemma wf_agents_upd [simp]:
  "wf_agents (d\<lparr>d_projects := p\<rparr>) = wf_agents d" "wf_agents (d\<lparr>d_secrets := x\<rparr>) = wf_agents d"
  "wf_agents (d\<lparr>d_grants := g\<rparr>) = wf_agents d" "wf_agents (d\<lparr>d_leases := l\<rparr>) = wf_agents d"
  "wf_agents (d\<lparr>d_approvals := ap\<rparr>) = wf_agents d"
  by (simp_all add: wf_agents_def)

lemma wf_grants_upd [simp]:
  "wf_grants (d\<lparr>d_projects := p\<rparr>) = wf_grants d" "wf_grants (d\<lparr>d_secrets := x\<rparr>) = wf_grants d"
  "wf_grants (d\<lparr>d_agents := a\<rparr>) = wf_grants d" "wf_grants (d\<lparr>d_leases := l\<rparr>) = wf_grants d"
  "wf_grants (d\<lparr>d_approvals := ap\<rparr>) = wf_grants d"
  by (simp_all add: wf_grants_def)

lemma authority_upd [simp]:
  "active_grant (d\<lparr>d_projects := p\<rparr>) = active_grant d" "active_grant (d\<lparr>d_secrets := x\<rparr>) = active_grant d"
  "active_grant (d\<lparr>d_agents := a\<rparr>) = active_grant d" "active_grant (d\<lparr>d_leases := l\<rparr>) = active_grant d"
  "active_grant (d\<lparr>d_approvals := ap\<rparr>) = active_grant d"
  "authorize (d\<lparr>d_projects := p\<rparr>) = authorize d" "authorize (d\<lparr>d_secrets := x\<rparr>) = authorize d"
  "authorize (d\<lparr>d_agents := a\<rparr>) = authorize d" "authorize (d\<lparr>d_leases := l\<rparr>) = authorize d"
  "authorize (d\<lparr>d_approvals := ap\<rparr>) = authorize d"
  "agent_active (d\<lparr>d_projects := p\<rparr>) = agent_active d" "agent_active (d\<lparr>d_secrets := x\<rparr>) = agent_active d"
  "agent_active (d\<lparr>d_grants := g\<rparr>) = agent_active d" "agent_active (d\<lparr>d_leases := l\<rparr>) = agent_active d"
  "agent_active (d\<lparr>d_approvals := ap\<rparr>) = agent_active d"
  by (simp_all add: active_grant_def [abs_def] authorize_def [abs_def] agent_active_def [abs_def])

lemma lease_covered_upd [simp]:
  "lease_covered (d\<lparr>d_projects := p\<rparr>) = lease_covered d" "lease_covered (d\<lparr>d_secrets := x\<rparr>) = lease_covered d"
  "lease_covered (d\<lparr>d_leases := l\<rparr>) = lease_covered d" "lease_covered (d\<lparr>d_approvals := ap\<rparr>) = lease_covered d"
  by (simp_all add: lease_covered_def [abs_def])

lemma wf_leases_upd [simp]:
  "wf_leases (d\<lparr>d_projects := p\<rparr>) = wf_leases d" "wf_leases (d\<lparr>d_secrets := x\<rparr>) = wf_leases d"
  "wf_leases (d\<lparr>d_approvals := ap\<rparr>) = wf_leases d"
  by (simp_all add: wf_leases_def)

lemma wf_approvals_upd [simp]:
  "wf_approvals (d\<lparr>d_projects := p\<rparr>) = wf_approvals d" "wf_approvals (d\<lparr>d_secrets := x\<rparr>) = wf_approvals d"
  "wf_approvals (d\<lparr>d_leases := l\<rparr>) = wf_approvals d"
  by (simp_all add: wf_approvals_def)

lemma wf_docD:
  "wf_doc d \<Longrightarrow> wf_projects d" "wf_doc d \<Longrightarrow> wf_secrets d" "wf_doc d \<Longrightarrow> wf_agents d"
  "wf_doc d \<Longrightarrow> wf_grants d" "wf_doc d \<Longrightarrow> wf_leases d" "wf_doc d \<Longrightarrow> wf_approvals d"
  by (simp_all add: wf_doc_def)

section \<open>Projects\<close>

definition wf_project :: "project \<Rightarrow> bool" where
  "wf_project p \<longleftrightarrow> valid_project_name (p_name p) \<and> distinct (p_paths p)
     \<and> length (p_paths p) \<le> MAX_PATHS_PER_PROJECT \<and> (\<forall>q\<in>set (p_paths p). length q \<le> MAX_PATH_LEN)"

lemma wf_projects_alt:
  "wf_projects d \<longleftrightarrow> distinct (map p_id (d_projects d)) \<and> distinct (map p_name (d_projects d))
     \<and> length (d_projects d) \<le> MAX_PROJECTS \<and> (\<forall>p\<in>set (d_projects d). wf_project p)"
  by (simp add: wf_projects_def wf_project_def)

lemma check_new_path_wf:
  "check_new_path w p q = Inr c \<Longrightarrow> wf_project p \<Longrightarrow> wf_project (p\<lparr>p_paths := p_paths p @ [c]\<rparr>)"
  by (auto simp: check_new_path_def wf_project_def split: option.splits if_splits)

lemma add_paths_wf:
  "add_paths w p qs = Inr p' \<Longrightarrow> wf_project p \<Longrightarrow>
    wf_project p' \<and> p_id p' = p_id p \<and> p_name p' = p_name p \<and> p_created_at p' = p_created_at p"
proof (induction qs arbitrary: p)
  case (Cons q qs)
  then obtain c where "check_new_path w p q = Inr c"
      and r: "add_paths w (p\<lparr>p_paths := p_paths p @ [c]\<rparr>) qs = Inr p'"
    by (auto simp: res_bind_Inr_iff)
  with Cons.prems(2) have "wf_project (p\<lparr>p_paths := p_paths p @ [c]\<rparr>)" by (simp add: check_new_path_wf)
  from Cons.IH [OF r this] show ?case by simp
qed simp

lemma project_by_id_None: "project_by_id d i = None \<Longrightarrow> i \<notin> p_id ` set (d_projects d)"
  by (auto simp: project_by_id_def find_None_iff)

lemma check_new_project_name_ok:
  assumes "check_new_project_name d n = Inr ()"
  shows "valid_project_name n" "n \<notin> p_name ` set (d_projects d)" "length (d_projects d) < MAX_PROJECTS"
  using assms
  by (auto simp: check_new_project_name_def project_by_name_def find_None_iff split: if_splits)

lemma do_project_add_wf:
  assumes "do_project_add d name paths w = Some (Inr (i, d'), w')" and "wf_doc d"
  shows "wf_doc d'"
proof -
  from assms(1) have name: "check_new_project_name d name = Inr ()"
    by (auto simp: do_project_add_def split: sum.splits)
  from assms(1) name obtain w1 p where f: "fresh_id (\<lambda>i. project_by_id d i \<noteq> None) w = Some (Inr i, w1)"
      and p: "add_paths w1 \<lparr>p_id = i, p_name = name, p_paths = [], p_created_at = w_wall w1\<rparr> paths = Inr p"
      and d': "d' = d\<lparr>d_projects := d_projects d @ [p]\<rparr>"
    by (auto simp: do_project_add_def res_bind_Inr_iff)
  note ok = check_new_project_name_ok [OF name]
  have "wf_project \<lparr>p_id = i, p_name = name, p_paths = [], p_created_at = w_wall w1\<rparr>"
    using ok(1) by (simp add: wf_project_def)
  from add_paths_wf [OF p this] have wp: "wf_project p" "p_id p = i" "p_name p = name" by simp_all
  have "i \<notin> p_id ` set (d_projects d)"
    using fresh_id_not_taken [OF f] project_by_id_None by blast
  then have "wf_projects d'"
    using assms(2) ok wp by (auto simp: d' wf_doc_def wf_projects_alt)
  moreover have "wf_secrets d'" using assms(2) by (auto simp: d' wf_doc_def wf_secrets_def)
  ultimately show ?thesis using assms(2) by (simp add: d' wf_doc_def)
qed

lemma wf_doc_update_project:
  assumes "wf_doc d" and "i < length (d_projects d)" and "wf_project p"
    and "p_id p = p_id (d_projects d ! i)" and "p_name p = p_name (d_projects d ! i)"
  shows "wf_doc (d\<lparr>d_projects := (d_projects d)[i := p]\<rparr>)"
proof -
  let ?ps = "(d_projects d)[i := p]"
  have ids: "map p_id ?ps = map p_id (d_projects d)" "map p_name ?ps = map p_name (d_projects d)"
    using assms(2,4,5) by (simp_all add: map_list_update_same)
  have "p_id ` set ?ps = p_id ` set (d_projects d)" using ids(1) by (metis list.set_map)
  then have "wf_secrets (d\<lparr>d_projects := ?ps\<rparr>)" using assms(1) by (simp add: wf_doc_def wf_secrets_def)
  moreover have "wf_projects (d\<lparr>d_projects := ?ps\<rparr>)"
    using assms(1,3) ids by (auto simp: wf_doc_def wf_projects_alt dest!: list_update_in_set)
  ultimately show ?thesis using assms(1) by (simp add: wf_doc_def)
qed

lemma nth_wf_project:
  "wf_doc d \<Longrightarrow> i < length (d_projects d) \<Longrightarrow> wf_project (d_projects d ! i)"
  by (simp add: wf_doc_def wf_projects_alt)

interpretation path_add: doc_change "\<lambda>d. do_project_path_add w d name path" for w name path
proof
  fix d d' :: vault_document and x :: unit
  assume wf: "wf_doc d" and "do_project_path_add w d name path = Inr (x, d')"
  then obtain i c where i: "position (\<lambda>p. p_name p = name) (d_projects d) = Some i"
      and c: "check_new_path w (d_projects d ! i) path = Inr c"
      and d': "d' = d\<lparr>d_projects := (d_projects d)[i := (d_projects d ! i)\<lparr>p_paths := p_paths (d_projects d ! i) @ [c]\<rparr>]\<rparr>"
    by (auto simp: do_project_path_add_def Let_def res_bind_Inr_iff split: option.splits)
  have "i < length (d_projects d)" using position_SomeD [OF i] by simp
  then show "wf_doc d'"
    unfolding d' using wf c by (intro wf_doc_update_project check_new_path_wf nth_wf_project) auto
qed

lemma wf_project_remove_path: "wf_project p \<Longrightarrow> wf_project (p\<lparr>p_paths := remove_at i (p_paths p)\<rparr>)"
  using set_remove_at [of i "p_paths p"] length_remove_at_le [of i "p_paths p"]
  by (auto simp: wf_project_def distinct_remove_at)

interpretation path_remove: doc_change "\<lambda>d. do_project_path_remove w d name path" for w name path
proof
  fix d d' :: vault_document and x :: unit
  assume wf: "wf_doc d" and "do_project_path_remove w d name path = Inr (x, d')"
  then obtain i j where i: "position (\<lambda>p. p_name p = name) (d_projects d) = Some i"
      and d': "d' = d\<lparr>d_projects := (d_projects d)[i := (d_projects d ! i)\<lparr>p_paths := remove_at j (p_paths (d_projects d ! i))\<rparr>]\<rparr>"
    by (auto simp: do_project_path_remove_def Let_def split: option.splits)
  have "i < length (d_projects d)" using position_SomeD [OF i] by simp
  then show "wf_doc d'"
    unfolding d' using wf by (intro wf_doc_update_project wf_project_remove_path nth_wf_project) auto
qed

lemma in_set_remove_at:
  assumes "x \<in> set xs" and "i < length xs" and "x \<noteq> xs ! i"
  shows "x \<in> set (remove_at i xs)"
proof -
  have "set xs = insert (xs ! i) (set (remove_at i xs))"
    using id_take_nth_drop [OF assms(2)] unfolding remove_at_def
    by (metis Un_insert_right list.simps(15) set_append)
  with assms(1,3) show ?thesis by blast
qed

interpretation project_remove: doc_change "\<lambda>d. do_project_remove d name" for name
proof
  fix d d' :: vault_document and x :: unit
  assume wf: "wf_doc d" and "do_project_remove d name = Inr (x, d')"
  then obtain i where i: "position (\<lambda>p. p_name p = name) (d_projects d) = Some i"
      and free: "\<forall>s\<in>set (d_secrets d). s_project_id s \<noteq> p_id (d_projects d ! i)"
      and d': "d' = d\<lparr>d_projects := remove_at i (d_projects d)\<rparr>"
    by (auto simp: do_project_remove_def check_project_removable_def res_bind_Inr_iff split: option.splits if_splits)
  have il: "i < length (d_projects d)" using position_SomeD [OF i] by simp
  have "wf_projects d'"
    using wf set_remove_at [of i "d_projects d"] length_remove_at_le [of i "d_projects d"]
    by (auto simp: d' wf_doc_def wf_projects_alt map_remove_at distinct_remove_at)
  moreover have "s_project_id s \<in> p_id ` set (remove_at i (d_projects d))" if s: "s \<in> set (d_secrets d)" for s
  proof -
    from wf s obtain p where p: "p \<in> set (d_projects d)" "p_id p = s_project_id s"
      by (auto simp: wf_doc_def wf_secrets_def)
    with free s have "p \<noteq> d_projects d ! i" by auto
    with p il in_set_remove_at show ?thesis by (metis imageI)
  qed
  then have "wf_secrets d'" using wf by (auto simp: d' wf_doc_def wf_secrets_def)
  ultimately show "wf_doc d'" using wf by (simp add: d' wf_doc_def)
qed

section \<open>Secrets\<close>

lemma check_secret_value_ok: "check_secret_value v = Inr () \<longleftrightarrow> v \<noteq> [] \<and> length v \<le> MAX_VALUE_LEN"
  by (auto simp: check_secret_value_def)

interpretation secret_set: doc_change "\<lambda>d. do_secret_set now d project key val" for now project key val
proof
  fix d d' :: vault_document and x :: unit
  assume wf: "wf_doc d" and r: "do_secret_set now d project key val = Inr (x, d')"
  then obtain p where v: "val \<noteq> []" "length val \<le> MAX_VALUE_LEN" and p: "project_by_name d project = Some p"
    by (auto simp: do_secret_set_def res_bind_Inr_iff check_secret_value_ok split: option.splits)
  from project_by_nameD [OF p] have pid: "p_id p \<in> p_id ` set (d_projects d)" by simp
  show "wf_doc d'"
  proof (cases "secret_of d (p_id p) key")
    case None
    with r v p have ck: "check_new_secret_key d (p_id p) key = Inr ()"
      and d': "d' = d\<lparr>d_secrets := d_secrets d @ [\<lparr>s_project_id = p_id p, s_key = key, s_value = val,
        s_created_at = now, s_updated_at = now\<rparr>]\<rparr>"
      by (auto simp: do_secret_set_def res_bind_Inr_iff Let_def)
    from None have "(p_id p, key) \<notin> (\<lambda>s. (s_project_id s, s_key s)) ` set (d_secrets d)"
      by (auto simp: secret_of_def find_None_iff)
    moreover have "valid_key key" "length (d_secrets d) < MAX_SECRETS"
      using ck by (auto simp: check_new_secret_key_def split: if_splits)
    ultimately have "wf_secrets d'" using wf v pid by (auto simp: d' wf_doc_def wf_secrets_def)
    then show ?thesis using wf by (simp add: d' wf_doc_def)
  next
    case (Some old)
    let ?p = "\<lambda>s. s_project_id s = p_id p \<and> s_key s = key"
    let ?f = "\<lambda>s. s\<lparr>s_value := val, s_updated_at := now\<rparr>"
    from Some r v p have d': "d' = d\<lparr>d_secrets := update_first ?p ?f (d_secrets d)\<rparr>"
      by (auto simp: do_secret_set_def res_bind_Inr_iff Let_def)
    have "map (\<lambda>s. (s_project_id s, s_key s)) (update_first ?p ?f (d_secrets d))
        = map (\<lambda>s. (s_project_id s, s_key s)) (d_secrets d)"
      by (rule map_update_first) simp
    then have "wf_secrets d'"
      using wf v pid by (auto simp: d' wf_doc_def wf_secrets_def dest!: update_first_in_set)
    then show ?thesis using wf by (simp add: d' wf_doc_def)
  qed
qed

interpretation secret_delete: doc_change "\<lambda>d. do_secret_delete d project key" for project key
proof
  fix d d' :: vault_document and x :: unit
  assume wf: "wf_doc d" and "do_secret_delete d project key = Inr (x, d')"
  then obtain i where d': "d' = d\<lparr>d_secrets := remove_at i (d_secrets d)\<rparr>"
    by (auto simp: do_secret_delete_def split: option.splits)
  have "wf_secrets d'"
    using wf set_remove_at [of i "d_secrets d"] length_remove_at_le [of i "d_secrets d"]
    by (auto simp: d' wf_doc_def wf_secrets_def map_remove_at distinct_remove_at)
  then show "wf_doc d'" using wf by (simp add: d' wf_doc_def)
qed

end
