(* ===== verification/AuthorityInv.thy ===== *)
theory AuthorityInv
  imports DocInv
begin

text \<open>
  The invariant through every change of authority: agents, grants, leases and approvals. A lease
  that is not revoked is covered by a live grant of an active agent, before and after.
\<close>

section \<open>Rows that were closed\<close>

text \<open>Mapping a change over the leases or approvals keeps the invariant when it keeps the
  identifying fields and every row it leaves open was open and is still covered.\<close>

lemma wf_leases_map:
  assumes "wf_leases d" and "\<And>l. l_id (f l) = l_id l \<and> l_ops (f l) = l_ops l"
    and "\<And>l. l \<in> set (d_leases d) \<Longrightarrow> l_revoked_at (f l) = None \<Longrightarrow> lease_covered d' (f l)"
    and "d_leases d' = map f (d_leases d)"
  shows "wf_leases d'"
proof -
  have "l_id \<circ> f = l_id" using assms(2) by (simp add: fun_eq_iff)
  then show ?thesis using assms by (auto simp: wf_leases_def)
qed

lemma wf_approvals_map:
  assumes "wf_approvals d" and "\<And>a. ap_id (f a) = ap_id a"
    and "\<And>a. a \<in> set (d_approvals d) \<Longrightarrow> ap_status (f a) = AApproved \<Longrightarrow> ap_claim_expires_at (f a) \<noteq> None"
    and "\<And>a. a \<in> set (d_approvals d) \<Longrightarrow> approval_open (f a) \<Longrightarrow>
      agent_active d' (ap_agent_id (f a)) \<and> authorize d' (ap_agent_id (f a)) (ap_project_id (f a)) OpReveal"
    and "d_approvals d' = map f (d_approvals d)"
  shows "wf_approvals d'"
proof -
  have "ap_id \<circ> f = ap_id" using assms(2) by (simp add: fun_eq_iff)
  then show ?thesis using assms by (auto simp: wf_approvals_def)
qed

lemma wf_lease_covered:
  "wf_leases d \<Longrightarrow> l \<in> set (d_leases d) \<Longrightarrow> l_revoked_at l = None \<Longrightarrow> lease_covered d l"
  by (simp add: wf_leases_def)

lemma wf_approval_open:
  "wf_approvals d \<Longrightarrow> a \<in> set (d_approvals d) \<Longrightarrow> approval_open a \<Longrightarrow>
    agent_active d (ap_agent_id a) \<and> authorize d (ap_agent_id a) (ap_project_id a) OpReveal"
  by (simp add: wf_approvals_def)

lemma wf_approval_window:
  "wf_approvals d \<Longrightarrow> a \<in> set (d_approvals d) \<Longrightarrow> ap_status a = AApproved \<Longrightarrow> ap_claim_expires_at a \<noteq> None"
  by (simp add: wf_approvals_def)

lemma revoke_all_leases_wf:
  assumes "wf_doc d"
  shows "wf_doc (revoke_all_leases d now)"
proof -
  have "wf_leases (revoke_all_leases d now)"
  proof (rule wf_leases_map [of d])
    show "d_leases (revoke_all_leases d now) = map (\<lambda>l. if l_revoked_at l = None then l\<lparr>l_revoked_at := Some now\<rparr> else l) (d_leases d)"
      by (simp add: revoke_all_leases_def)
  qed (use assms in \<open>auto simp: wf_doc_def split: if_splits\<close>)
  then show ?thesis using assms by (simp add: wf_doc_def revoke_all_leases_def)
qed

lemma deny_all_approvals_wf:
  assumes "wf_doc d"
  shows "wf_doc (deny_all_approvals d)"
proof -
  have "wf_approvals (deny_all_approvals d)"
  proof (rule wf_approvals_map [of d])
    show "d_approvals (deny_all_approvals d) = map (\<lambda>a. if ap_status a = APending \<or> ap_status a = AApproved
        then a\<lparr>ap_status := ADenied\<rparr> else a) (d_approvals d)"
      by (simp add: deny_all_approvals_def)
  qed (use assms in \<open>auto simp: wf_doc_def approval_open_def split: if_splits\<close>)
  then show ?thesis using assms by (simp add: wf_doc_def deny_all_approvals_def)
qed

section \<open>Garbage collection\<close>

lemma distinct_map_filter': "distinct (map f xs) \<Longrightarrow> distinct (map f (filter P xs))"
  by (simp add: distinct_map_filter)

lemma purge_terminal_wf: "wf_doc d \<Longrightarrow> wf_doc (fst (purge_terminal d now))"
proof -
  assume wf: "wf_doc d"
  let ?d = "fst (purge_terminal d now)"
  have ls: "d_leases ?d = filter (\<lambda>l. \<not> dead_lease now l) (d_leases d)"
    and aps: "d_approvals ?d = filter (\<lambda>a. \<not> dead_approval now a) (d_approvals d)"
    and d: "?d = d\<lparr>d_leases := d_leases ?d, d_approvals := d_approvals ?d\<rparr>"
    by (simp_all add: purge_terminal_def Let_def)
  have cov: "lease_covered ?d = lease_covered d" "agent_active ?d = agent_active d" "authorize ?d = authorize d"
    by (subst d, simp)+
  have "wf_leases ?d"
    using wf unfolding wf_doc_def wf_leases_def ls cov
    by (auto simp: distinct_map_filter' intro: le_trans [OF length_filter_le])
  moreover have "wf_approvals ?d"
    using wf unfolding wf_doc_def wf_approvals_def aps cov
    by (auto simp: distinct_map_filter' intro: le_trans [OF length_filter_le])
  moreover have "wf_projects ?d" "wf_secrets ?d" "wf_agents ?d" "wf_grants ?d"
    using wf by (subst d, simp add: wf_doc_def)+
  ultimately show ?thesis by (simp add: wf_doc_def)
qed

section \<open>Agents\<close>

lemma agent_by_id_None: "agent_by_id d i = None \<Longrightarrow> i \<notin> a_id ` set (d_agents d)"
  by (auto simp: agent_by_id_def find_None_iff)

lemma check_new_agent_name_ok:
  assumes "check_new_agent_name d n = Inr ()"
  shows "valid_project_name n" "n \<notin> a_name ` set (d_agents d)" "length (d_agents d) < MAX_AGENTS"
  using assms
  by (auto simp: check_new_agent_name_def agent_by_name_def find_None_iff split: if_splits)

lemma do_agent_add_wf:
  assumes "do_agent_add L d name w = Some (Inr (it, d'), w')" and "wf_doc d"
  shows "wf_doc d'"
proof -
  from assms(1) have name: "check_new_agent_name d name = Inr ()"
    by (auto simp: do_agent_add_def split: sum.splits)
  obtain r w1 where g: "generate_agent_token L w = (r, w1)" by force
  with assms(1) name obtain t where t: "r = Inr t"
    by (cases r) (auto simp: do_agent_add_def)
  obtain token digest prefix where [simp]: "t = (token, digest, prefix)" by (cases t) auto
  from assms(1) name g t obtain w2 i where f: "fresh_id (\<lambda>i. agent_by_id d i \<noteq> None) w1 = Some (Inr i, w2)"
      and d'0: "d' = d\<lparr>d_agents := d_agents d @ [\<lparr>a_id = i, a_name = name, a_status = Active,
        a_token_hash = digest, a_token_prefix = prefix, a_created_at = w_wall w2, a_last_seen = None\<rparr>]\<rparr>"
    by (auto simp: do_agent_add_def res_bind_Inr_iff)
  obtain a where ad: "a = \<lparr>a_id = i, a_name = name, a_status = Active, a_token_hash = digest,
      a_token_prefix = prefix, a_created_at = w_wall w2, a_last_seen = None\<rparr>" by blast
  then have a: "a_id a = i" "a_name a = name" "a_status a = Active" by simp_all
  have d': "d' = d\<lparr>d_agents := d_agents d @ [a]\<rparr>" using d'0 ad by simp
  note ok = check_new_agent_name_ok [OF name]
  have "i \<notin> a_id ` set (d_agents d)" using fresh_id_not_taken [OF f] agent_by_id_None by blast
  then have "wf_agents d'" using assms(2) ok a by (auto simp: d' wf_doc_def wf_agents_def)
  moreover have act: "agent_active d j \<Longrightarrow> agent_active d' j" for j
    by (auto simp: agent_active_def d')
  have "authorize d' = authorize d" by (simp add: d')
  then have "wf_leases d'" "wf_approvals d'"
    using assms(2) act by (auto simp: d' wf_doc_def wf_leases_def wf_approvals_def lease_covered_def)
  ultimately show ?thesis using assms(2) by (simp add: d' wf_doc_def)
qed

interpretation agent_revoke: doc_change "\<lambda>d. agent_revoke_doc now d name" for now name
proof
  fix d d' :: vault_document and x :: unit
  assume wf: "wf_doc d" and "agent_revoke_doc now d name = Inr (x, d')"
  then obtain i where i: "position (\<lambda>a. a_name a = name) (d_agents d) = Some i"
      and d': "d' = deny_agent_approvals (revoke_agent_leases
        (d\<lparr>d_agents := (d_agents d)[i := (d_agents d ! i)\<lparr>a_status := Revoked\<rparr>]\<rparr>) (a_id (d_agents d ! i)) now)
        (a_id (d_agents d ! i))"
    by (auto simp: agent_revoke_doc_def do_agent_revoke_def split: option.splits)
  let ?a = "d_agents d ! i" and ?as = "(d_agents d)[i := (d_agents d ! i)\<lparr>a_status := Revoked\<rparr>]"
  have il: "i < length (d_agents d)" using position_SomeD [OF i] by simp
  have ids: "map a_id ?as = map a_id (d_agents d)" "map a_name ?as = map a_name (d_agents d)"
    using il by (simp_all add: map_list_update_same)
  have wfa: "wf_agents d" using wf by (rule wf_docD)
  have "wf_agents (d\<lparr>d_agents := ?as\<rparr>)"
    using wfa ids il by (auto simp: wf_agents_def dest!: list_update_in_set)
  moreover have act: "agent_active d j \<Longrightarrow> j \<noteq> a_id ?a \<Longrightarrow> agent_active (d\<lparr>d_agents := ?as\<rparr>) j" for j
  proof -
    assume "agent_active d j" and j: "j \<noteq> a_id ?a"
    then obtain b where b: "b \<in> set (d_agents d)" "a_id b = j" "a_status b = Active"
      by (auto simp: agent_active_def)
    then obtain k where k: "k < length (d_agents d)" "d_agents d ! k = b" by (auto simp: in_set_conv_nth)
    with b j have "k \<noteq> i" by auto
    with k have "b \<in> set ?as" by (metis length_list_update nth_list_update_neq nth_mem)
    with b show ?thesis by (auto simp: agent_active_def)
  qed
  have g: "authorize d' = authorize d" "agent_active d' = agent_active (d\<lparr>d_agents := ?as\<rparr>)"
    by (simp_all add: d' deny_agent_approvals_def revoke_agent_leases_def)
  have "wf_leases d'"
  proof (rule wf_leases_map [of d])
    show "d_leases d' = map (\<lambda>l. if l_agent_id l = a_id ?a \<and> l_revoked_at l = None
        then l\<lparr>l_revoked_at := Some now\<rparr> else l) (d_leases d)"
      by (simp add: d' deny_agent_approvals_def revoke_agent_leases_def)
  qed (use wf g act in \<open>auto simp: wf_doc_def lease_covered_def dest!: wf_lease_covered split: if_splits\<close>)
  moreover have "wf_approvals d'"
  proof (rule wf_approvals_map [of d])
    show "d_approvals d' = map (\<lambda>a. if ap_agent_id a = a_id ?a \<and> (ap_status a = APending \<or> ap_status a = AApproved)
        then a\<lparr>ap_status := ADenied\<rparr> else a) (d_approvals d)"
      by (simp add: d' deny_agent_approvals_def revoke_agent_leases_def)
  qed (use wf g act in \<open>auto simp: wf_doc_def approval_open_def dest: wf_approval_window wf_approval_open split: if_splits\<close>)
  ultimately show "wf_doc d'"
    using wf by (simp add: d' wf_doc_def deny_agent_approvals_def revoke_agent_leases_def)
qed

section \<open>Grants\<close>

text \<open>The change of the grants of one pair, then the two sweeps of that pair.\<close>

definition sweep_pair :: "vault_document \<Rightarrow> string \<Rightarrow> string \<Rightarrow> time \<Rightarrow> vault_document" where
  "sweep_pair d a p now = deny_pair_approvals_if_reveal_lost (revoke_uncovered_leases d a p now) a p"

lemma sweep_pair_wf:
  assumes wf: "wf_doc d" and g: "wf_grants (d\<lparr>d_grants := gs\<rparr>)"
    and other: "\<And>a' p'. (a', p') \<noteq> (a, p) \<Longrightarrow> active_grant (d\<lparr>d_grants := gs\<rparr>) a' p' = active_grant d a' p'"
  shows "wf_doc (sweep_pair (d\<lparr>d_grants := gs\<rparr>) a p now)"
proof -
  let ?e = "d\<lparr>d_grants := gs\<rparr>" let ?d' = "sweep_pair ?e a p now"
  let ?cov = "\<lambda>l. list_all (\<lambda>op. op \<in> set (case active_grant ?e a p of None \<Rightarrow> [] | Some g \<Rightarrow> g_ops g)) (l_ops l)"
  have auth: "authorize ?d' = authorize ?e" and act: "agent_active ?d' = agent_active d"
    and same: "d_projects ?d' = d_projects d" "d_secrets ?d' = d_secrets d" "d_agents ?d' = d_agents d"
      "d_grants ?d' = gs"
    by (simp_all add: sweep_pair_def deny_pair_approvals_if_reveal_lost_def revoke_uncovered_leases_def Let_def)
  have auth_other: "(a', p') \<noteq> (a, p) \<Longrightarrow> authorize ?e a' p' op = authorize d a' p' op" for a' p' op
    using other by (simp add: authorize_def)
  have cov: "?cov l \<Longrightarrow> op \<in> set (l_ops l) \<Longrightarrow> authorize ?e a p op" for l op
    by (cases "active_grant ?e a p") (auto simp: authorize_def list_all_iff)
  have "wf_leases ?d'"
  proof (rule wf_leases_map [of d])
    show "d_leases ?d' = map (\<lambda>l. if l_agent_id l = a \<and> l_project_id l = p \<and> l_revoked_at l = None \<and> \<not> ?cov l
        then l\<lparr>l_revoked_at := Some now\<rparr> else l) (d_leases d)"
      by (simp add: sweep_pair_def deny_pair_approvals_if_reveal_lost_def revoke_uncovered_leases_def Let_def)
  next
    fix l assume l: "l \<in> set (d_leases d)"
      and "l_revoked_at (if l_agent_id l = a \<and> l_project_id l = p \<and> l_revoked_at l = None \<and> \<not> ?cov l
        then l\<lparr>l_revoked_at := Some now\<rparr> else l) = None"
    then have n: "l_revoked_at l = None" and c: "l_agent_id l = a \<and> l_project_id l = p \<Longrightarrow> ?cov l"
      by (auto split: if_splits)
    have old: "lease_covered d l" using wf l n by (auto simp: wf_doc_def intro: wf_lease_covered)
    have "lease_covered ?d' l"
    proof (cases "(l_agent_id l, l_project_id l) = (a, p)")
      case True
      then show ?thesis using old c cov [of l] by (auto simp: lease_covered_def auth act)
    next
      case False
      then show ?thesis using old auth_other by (auto simp: lease_covered_def auth act)
    qed
    then show "lease_covered ?d' (if l_agent_id l = a \<and> l_project_id l = p \<and> l_revoked_at l = None \<and> \<not> ?cov l
        then l\<lparr>l_revoked_at := Some now\<rparr> else l)"
      using c by auto
  qed (use wf in \<open>auto simp: wf_doc_def\<close>)
  moreover have "wf_approvals ?d'"
  proof (rule wf_approvals_map [of d])
    let ?f = "\<lambda>x. if \<not> authorize ?e a p OpReveal \<and> ap_agent_id x = a \<and> ap_project_id x = p
        \<and> (ap_status x = APending \<or> ap_status x = AApproved) then x\<lparr>ap_status := ADenied\<rparr> else x"
    show "d_approvals ?d' = map ?f (d_approvals d)"
      by (simp add: sweep_pair_def deny_pair_approvals_if_reveal_lost_def revoke_uncovered_leases_def Let_def)
    fix x assume x: "x \<in> set (d_approvals d)" and o: "approval_open (?f x)"
    then have ox: "approval_open x" and k: "(ap_agent_id x, ap_project_id x) = (a, p) \<Longrightarrow> authorize ?e a p OpReveal"
      by (auto simp: approval_open_def split: if_splits)
    from wf x ox have old: "agent_active d (ap_agent_id x)" "authorize d (ap_agent_id x) (ap_project_id x) OpReveal"
      using wf_approval_open by (auto simp: wf_doc_def)
    have "authorize ?e (ap_agent_id x) (ap_project_id x) OpReveal"
      using old k auth_other by (cases "(ap_agent_id x, ap_project_id x) = (a, p)") auto
    moreover have "ap_agent_id (?f x) = ap_agent_id x" "ap_project_id (?f x) = ap_project_id x"
      by (simp_all split: if_splits)
    ultimately show "agent_active ?d' (ap_agent_id (?f x))
        \<and> authorize ?d' (ap_agent_id (?f x)) (ap_project_id (?f x)) OpReveal"
      using old unfolding auth act by metis
  qed (use wf in \<open>auto simp: wf_doc_def dest: wf_approval_window split: if_splits\<close>)
  moreover have "wf_projects ?d'" "wf_secrets ?d'" "wf_agents ?d'" "wf_grants ?d'"
    using wf g by (simp_all add: wf_doc_def wf_projects_def wf_secrets_def wf_agents_def wf_grants_def same)
  ultimately show ?thesis by (simp add: wf_doc_def)
qed

lemma find_append_other: "\<not> P x \<Longrightarrow> find P (xs @ [x]) = find P xs"
  by (induction xs) auto

lemma find_update_first_other:
  "(\<And>x. Q x \<Longrightarrow> \<not> P x \<and> \<not> P (f x)) \<Longrightarrow> find P (update_first Q f xs) = find P xs"
  by (induction xs) auto

lemma live_update_first_ops:
  "map (\<lambda>g. (g_agent_id g, g_project_id g)) (filter (\<lambda>g. g_revoked_at g = None)
      (update_first (is_active_grant a p) (\<lambda>g. g\<lparr>g_ops := ops\<rparr>) gs))
    = map (\<lambda>g. (g_agent_id g, g_project_id g)) (filter (\<lambda>g. g_revoked_at g = None) gs)"
  by (induction gs) (auto simp: is_active_grant_def)

lemma live_update_first_revoke:
  "map (\<lambda>g. (g_agent_id g, g_project_id g)) (filter (\<lambda>g. g_revoked_at g = None)
      (update_first (is_active_grant a p) (\<lambda>g. g\<lparr>g_revoked_at := Some t\<rparr>) gs))
    = remove1 (a, p) (map (\<lambda>g. (g_agent_id g, g_project_id g)) (filter (\<lambda>g. g_revoked_at g = None) gs))"
  by (induction gs) (auto simp: is_active_grant_def)

interpretation grant_add: doc_change "\<lambda>d. do_grant_add d an pn ops now" for an pn ops now
proof
  fix d d' :: vault_document and x :: unit
  assume wf: "wf_doc d" and r: "do_grant_add d an pn ops now = Inr (x, d')"
  then obtain a p where a: "agent_by_name d an = Some a" and p: "project_by_name d pn = Some p"
    by (auto simp: do_grant_add_def split: if_splits option.splits)
  let ?upd = "update_first (is_active_grant (a_id a) (p_id p)) (\<lambda>g. g\<lparr>g_ops := ops\<rparr>) (d_grants d)"
  let ?new = "d_grants d @ [\<lparr>g_agent_id = a_id a, g_project_id = p_id p, g_ops = ops,
      g_created_at = now, g_revoked_at = None\<rparr>]"
  show "wf_doc d'"
  proof (cases "active_grant d (a_id a) (p_id p)")
    case None
    with r a p have d': "d' = sweep_pair (d\<lparr>d_grants := ?new\<rparr>) (a_id a) (p_id p) now"
      by (auto simp: do_grant_add_def sweep_pair_def Let_def split: if_splits)
    have "wf_grants (d\<lparr>d_grants := ?new\<rparr>)"
      using wf None
      by (auto simp: wf_doc_def wf_grants_def active_grant_def find_None_iff is_active_grant_def)
    then show ?thesis
      unfolding d' using wf
      by (intro sweep_pair_wf) (auto simp: active_grant_def is_active_grant_def find_append_other)
  next
    case (Some g)
    with r a p have d': "d' = sweep_pair (d\<lparr>d_grants := ?upd\<rparr>) (a_id a) (p_id p) now"
      by (auto simp: do_grant_add_def sweep_pair_def Let_def split: if_splits)
    have "wf_grants (d\<lparr>d_grants := ?upd\<rparr>)"
      using wf by (simp add: wf_doc_def wf_grants_def live_update_first_ops)
    then show ?thesis
      unfolding d' using wf
      by (intro sweep_pair_wf) (auto simp: active_grant_def intro!: find_update_first_other simp: is_active_grant_def)
  qed
qed

interpretation grant_revoke: doc_change "\<lambda>d. do_grant_revoke d an pn now" for an pn now
proof
  fix d d' :: vault_document and x :: unit
  assume wf: "wf_doc d" and r: "do_grant_revoke d an pn now = Inr (x, d')"
  then obtain a p where a: "agent_by_name d an = Some a" and p: "project_by_name d pn = Some p"
    by (auto simp: do_grant_revoke_def split: option.splits)
  with r have d': "d' = sweep_pair (d\<lparr>d_grants :=
      update_first (is_active_grant (a_id a) (p_id p)) (\<lambda>g. g\<lparr>g_revoked_at := Some now\<rparr>) (d_grants d)\<rparr>)
      (a_id a) (p_id p) now"
    by (auto simp: do_grant_revoke_def sweep_pair_def Let_def split: if_splits)
  have "wf_grants (d\<lparr>d_grants :=
      update_first (is_active_grant (a_id a) (p_id p)) (\<lambda>g. g\<lparr>g_revoked_at := Some now\<rparr>) (d_grants d)\<rparr>)"
    using wf by (simp add: wf_doc_def wf_grants_def live_update_first_revoke)
  then show "wf_doc d'"
    unfolding d' using wf
    by (intro sweep_pair_wf) (auto simp: active_grant_def intro!: find_update_first_other simp: is_active_grant_def)
qed

section \<open>Leases\<close>

text \<open>Revoking one row in place.\<close>

lemma wf_doc_revoke_at:
  assumes "wf_doc d" and "i < length (d_leases d)"
  shows "wf_doc (d\<lparr>d_leases := (d_leases d)[i := (d_leases d ! i)\<lparr>l_revoked_at := Some now\<rparr>]\<rparr>)"
proof -
  have "map l_id ((d_leases d)[i := (d_leases d ! i)\<lparr>l_revoked_at := Some now\<rparr>]) = map l_id (d_leases d)"
    using assms(2) by (simp add: map_list_update_same)
  moreover have "l_ops (d_leases d ! i) \<noteq> []"
    using assms by (simp add: wf_doc_def wf_leases_def)
  ultimately have "wf_leases (d\<lparr>d_leases := (d_leases d)[i := (d_leases d ! i)\<lparr>l_revoked_at := Some now\<rparr>]\<rparr>)"
    using assms(1) by (auto simp: wf_doc_def wf_leases_def dest!: list_update_in_set)
  then show ?thesis using assms(1) by (simp add: wf_doc_def)
qed

interpretation lease_revoke: doc_change "\<lambda>d. do_lease_revoke d agent_id lid now" for agent_id lid now
proof
  fix d d' :: vault_document and x :: unit
  assume wf: "wf_doc d" and r: "do_lease_revoke d agent_id lid now = Inr (x, d')"
  then obtain i where i: "position (\<lambda>l. l_id l = lid) (d_leases d) = Some i"
    by (auto simp: do_lease_revoke_def split: option.splits)
  have il: "i < length (d_leases d)" using position_SomeD [OF i] by simp
  from r i have "d' = d \<or> d' = d\<lparr>d_leases := (d_leases d)[i := (d_leases d ! i)\<lparr>l_revoked_at := Some now\<rparr>]\<rparr>"
    by (auto simp: do_lease_revoke_def Let_def split: if_splits)
  then show "wf_doc d'" using wf wf_doc_revoke_at [OF wf il] by auto
qed

lemma sweep_lease_wf:
  assumes "wf_doc d"
  shows "wf_doc (sweep_lease d lid now)"
proof -
  let ?ls = "update_first (\<lambda>l. l_id l = lid) (\<lambda>l. l\<lparr>l_revoked_at := Some now\<rparr>) (d_leases d)"
  have "map l_id ?ls = map l_id (d_leases d)" by (rule map_update_first) simp
  then have "wf_leases (d\<lparr>d_leases := ?ls\<rparr>)"
    using assms by (auto simp: wf_doc_def wf_leases_def dest!: update_first_in_set)
  then show ?thesis using assms by (simp add: wf_doc_def sweep_lease_def)
qed

lemma purge_authority [simp]:
  "authorize (fst (purge_terminal d now)) = authorize d"
  "agent_active (fst (purge_terminal d now)) = agent_active d"
  "active_grant (fst (purge_terminal d now)) = active_grant d"
  "project_by_name (fst (purge_terminal d now)) = project_by_name d"
  by (simp_all add: purge_terminal_def Let_def project_by_name_def [abs_def])

lemma agent_active_by_id:
  "agent_by_id d i = Some a \<Longrightarrow> a_status a = Active \<Longrightarrow> agent_active d i"
  by (auto simp: agent_by_id_def agent_active_def dest!: find_SomeD)

lemma check_new_lease_ok:
  assumes "check_new_lease d agent_id project ops now = Inr (pid, d1)" and "wf_doc d"
  shows "wf_doc d1" "length (d_leases d1) < MAX_LEASES" "agent_active d1 agent_id"
    "\<forall>op\<in>set ops. authorize d1 agent_id pid op"
proof -
  from assms(1) obtain p a g where
    p: "project_by_name d project = Some p" "pid = p_id p" and
    a: "agent_by_id d agent_id = Some a" "a_status a = Active" and
    g: "active_grant d agent_id (p_id p) = Some g" "list_all (\<lambda>op. op \<in> set (g_ops g)) ops" and
    d1: "d1 = (if length (d_leases d) \<ge> MAX_LEASES then fst (purge_terminal d now) else d)"
      "length (d_leases d1) < MAX_LEASES"
    by (auto simp: check_new_lease_def Let_def split: option.splits if_splits)
  show "wf_doc d1" using d1(1) assms(2) purge_terminal_wf by simp
  show "length (d_leases d1) < MAX_LEASES" by (rule d1(2))
  show "agent_active d1 agent_id" using agent_active_by_id [OF a] d1(1) by simp
  show "\<forall>op\<in>set ops. authorize d1 agent_id pid op"
    using g p d1(1) by (auto simp: authorize_def list_all_iff)
qed

lemma mint_lease_ok:
  assumes "mint_lease L d agent_id pid ops ttl now w = Some (Inr ((l, cred), d'), w')"
  shows "l_id l \<notin> l_id ` set (d_leases d)" "d' = d\<lparr>d_leases := d_leases d @ [l]\<rparr>"
    "l_agent_id l = agent_id" "l_project_id l = pid" "l_ops l = ops" "l_revoked_at l = None"
    "l_expires_at l = now + seconds ttl" "l_credential_hash l = token_digest L cred"
proof -
  from assms obtain r w1 where f0: "fresh_id (\<lambda>i. \<exists>l\<in>set (d_leases d). l_id l = i) w = Some (r, w1)"
    by (auto simp: mint_lease_def)
  with assms obtain i c w2 where i: "r = Inr i" and c: "generate_capability L w1 = (Inr c, w2)"
    by (auto simp: mint_lease_def try_bind_Inr)
  obtain cred' digest prefix where [simp]: "c = (cred', digest, prefix)" by (cases c) auto
  from assms f0 i c have [simp]: "cred' = cred"
    and l: "l = \<lparr>l_id = i, l_agent_id = agent_id, l_project_id = pid, l_ops = ops,
                    l_credential_hash = digest, l_credential_prefix = prefix, l_created_at = now,
                    l_expires_at = now + seconds ttl, l_revoked_at = None\<rparr>"
    and d': "d' = d\<lparr>d_leases := d_leases d @ [l]\<rparr>"
    by (auto simp: mint_lease_def Let_def)
  note f = f0 [unfolded i] and g = c [simplified]
  show "l_id l \<notin> l_id ` set (d_leases d)" using fresh_id_not_taken [OF f] by (auto simp: l)
  show "d' = d\<lparr>d_leases := d_leases d @ [l]\<rparr>" by (rule d')
  show "l_credential_hash l = token_digest L cred"
    using generate_capability_ok [OF g] by (simp add: l)
  show "l_agent_id l = agent_id" "l_project_id l = pid" "l_ops l = ops" "l_revoked_at l = None"
    "l_expires_at l = now + seconds ttl" by (simp_all add: l)
qed

lemma lease_create_wf:
  assumes "check_new_lease d agent_id project ops now = Inr (pid, d1)" and "wf_doc d" and "ops \<noteq> []"
    and "mint_lease L d1 agent_id pid ops ttl now w = Some (Inr ((l, cred), d'), w')"
  shows "wf_doc d'"
proof -
  note c = check_new_lease_ok [OF assms(1,2)] and m = mint_lease_ok [OF assms(4)]
  have "lease_covered d1 l" using c(3,4) m by (simp add: lease_covered_def)
  then have "wf_leases d'" using c(1,2) m assms(3) by (auto simp: m(2) wf_doc_def wf_leases_def)
  then show ?thesis using c(1) by (simp add: m(2) wf_doc_def)
qed

section \<open>Approvals\<close>

lemma wf_doc_set_approval:
  assumes "wf_doc d" and "i < length (d_approvals d)" and "ap_id a = ap_id (d_approvals d ! i)"
    and "ap_status a = AApproved \<Longrightarrow> ap_claim_expires_at a \<noteq> None"
    and "approval_open a \<Longrightarrow> approval_open (d_approvals d ! i)
      \<and> ap_agent_id a = ap_agent_id (d_approvals d ! i) \<and> ap_project_id a = ap_project_id (d_approvals d ! i)"
  shows "wf_doc (d\<lparr>d_approvals := (d_approvals d)[i := a]\<rparr>)"
proof -
  have "map ap_id ((d_approvals d)[i := a]) = map ap_id (d_approvals d)"
    using assms(2,3) by (simp add: map_list_update_same)
  moreover have "approval_open a \<Longrightarrow> agent_active d (ap_agent_id a)
      \<and> authorize d (ap_agent_id a) (ap_project_id a) OpReveal"
    using assms(1,2,5) wf_approval_open [of d "d_approvals d ! i"] by (auto simp: wf_doc_def)
  ultimately have "wf_approvals (d\<lparr>d_approvals := (d_approvals d)[i := a]\<rparr>)"
    using assms(1,4) by (auto simp: wf_doc_def wf_approvals_def dest!: list_update_in_set)
  then show ?thesis using assms(1) by (simp add: wf_doc_def)
qed

interpretation approval_decide: doc_change "\<lambda>d. do_approval_decide d aid approve now" for aid approve now
proof
  fix d d' :: vault_document and x :: unit
  assume wf: "wf_doc d" and r: "do_approval_decide d aid approve now = Inr (x, d')"
  then obtain i where i: "position (\<lambda>a. ap_id a = aid) (d_approvals d) = Some i"
    by (auto simp: do_approval_decide_def split: option.splits)
  have il: "i < length (d_approvals d)" using position_SomeD [OF i] by simp
  from r i have p: "ap_status (d_approvals d ! i) = APending"
    by (auto simp: do_approval_decide_def Let_def split: approval_status.splits)
  with r i have d': "d' = d\<lparr>d_approvals := (d_approvals d)[i :=
      (if approve then (d_approvals d ! i)\<lparr>ap_status := AApproved, ap_approved_at := Some now,
         ap_claim_expires_at := Some (now + seconds APPROVAL_CLAIM_SECS)\<rparr>
       else (d_approvals d ! i)\<lparr>ap_status := ADenied\<rparr>)]\<rparr>"
    by (auto simp: do_approval_decide_def Let_def split: if_splits)
  show "wf_doc d'" unfolding d'
    using wf il p by (intro wf_doc_set_approval) (auto simp: approval_open_def split: if_splits)
qed

lemma do_reveal_claim_ok:
  assumes "do_reveal_claim d agent_id project key aid now = Inr (v, d')"
  obtains p i sec where "project_by_name d project = Some p"
    "position (\<lambda>a. ap_id a = aid) (d_approvals d) = Some i" "i < length (d_approvals d)"
    "ap_agent_id (d_approvals d ! i) = agent_id" "ap_project_id (d_approvals d ! i) = p_id p"
    "ap_key (d_approvals d ! i) = key" "authorize d agent_id (p_id p) OpReveal"
    "ap_status (d_approvals d ! i) = AApproved"
    "case ap_claim_expires_at (d_approvals d ! i) of Some exp \<Rightarrow> now < exp | None \<Rightarrow> True"
    "secret_of d (p_id p) key = Some sec" "v = s_value sec"
    "d' = d\<lparr>d_approvals := (d_approvals d)[i := (d_approvals d ! i)\<lparr>ap_status := AConsumed\<rparr>]\<rparr>"
proof -
  from assms obtain p where p: "project_by_name d project = Some p"
    by (auto simp: do_reveal_claim_def split: option.splits)
  with assms obtain i where i: "position (\<lambda>a. ap_id a = aid) (d_approvals d) = Some i"
    by (auto simp: do_reveal_claim_def split: option.splits)
  have il: "i < length (d_approvals d)" using position_SomeD [OF i] by simp
  from assms p i have b: "ap_agent_id (d_approvals d ! i) = agent_id" "ap_project_id (d_approvals d ! i) = p_id p"
      "ap_key (d_approvals d ! i) = key" "authorize d agent_id (p_id p) OpReveal"
    by (auto simp: do_reveal_claim_def Let_def split: if_splits)
  with assms p i have s: "ap_status (d_approvals d ! i) = AApproved"
    by (auto simp: do_reveal_claim_def Let_def split: approval_status.splits if_splits)
  with assms p i b have "case ap_claim_expires_at (d_approvals d ! i) of Some exp \<Rightarrow> now < exp | None \<Rightarrow> True"
    by (auto simp: do_reveal_claim_def Let_def split: option.splits if_splits)
  moreover from assms p i b s obtain sec where "secret_of d (p_id p) key = Some sec" "v = s_value sec"
    "d' = d\<lparr>d_approvals := (d_approvals d)[i := (d_approvals d ! i)\<lparr>ap_status := AConsumed\<rparr>]\<rparr>"
    by (auto simp: do_reveal_claim_def Let_def split: option.splits if_splits)
  ultimately show thesis using that p i il b s by blast
qed

interpretation reveal_claim: doc_change "\<lambda>d. do_reveal_claim d agent_id project key aid now"
  for agent_id project key aid now
proof
  fix d d' :: vault_document and v :: string
  assume wf: "wf_doc d" and r: "do_reveal_claim d agent_id project key aid now = Inr (v, d')"
  show "wf_doc d'"
    by (rule do_reveal_claim_ok [OF r])
      (use wf in \<open>auto simp: approval_open_def intro!: wf_doc_set_approval\<close>)
qed

lemma check_new_approval_ok:
  assumes "check_new_approval d agent_id project key now = Inr (pid, d1)" and "wf_doc d"
  shows "wf_doc d1" "length (d_approvals d1) < MAX_APPROVALS" "agent_active d1 agent_id"
    "authorize d1 agent_id pid OpReveal"
proof -
  from assms(1) obtain p where
    p: "project_by_name d project = Some p" "pid = p_id p" and
    a: "agent_active d agent_id" "authorize d agent_id (p_id p) OpReveal" and
    d1: "d1 = (if length (d_approvals d) \<ge> MAX_APPROVALS then fst (purge_terminal d now) else d)"
      "length (d_approvals d1) < MAX_APPROVALS"
    by (auto simp: check_new_approval_def Let_def agent_active_def split: option.splits if_splits)
  show "wf_doc d1" using d1(1) assms(2) purge_terminal_wf by simp
  show "length (d_approvals d1) < MAX_APPROVALS" by (rule d1(2))
  show "agent_active d1 agent_id" "authorize d1 agent_id pid OpReveal" using a p d1(1) by simp_all
qed

lemma mint_approval_ok:
  assumes "mint_approval d agent_id pid key now w = Some (Inr (a, d'), w')"
  shows "ap_id a \<notin> ap_id ` set (d_approvals d)" "d' = d\<lparr>d_approvals := d_approvals d @ [a]\<rparr>"
    "ap_agent_id a = agent_id" "ap_project_id a = pid" "ap_key a = key" "ap_status a = APending"
    "ap_pending_expires_at a = now + seconds APPROVAL_PENDING_SECS"
proof -
  from assms obtain i w1 where f: "fresh_id (\<lambda>i. \<exists>a\<in>set (d_approvals d). ap_id a = i) w = Some (Inr i, w1)"
    and a: "a = \<lparr>ap_id = i, ap_agent_id = agent_id, ap_project_id = pid, ap_key = key,
                   ap_status = APending, ap_created_at = now,
                   ap_pending_expires_at = now + seconds APPROVAL_PENDING_SECS,
                   ap_approved_at = None, ap_claim_expires_at = None\<rparr>"
    and d': "d' = d\<lparr>d_approvals := d_approvals d @ [a]\<rparr>"
    by (auto simp: mint_approval_def res_bind_Inr_iff Let_def)
  show "ap_id a \<notin> ap_id ` set (d_approvals d)" using fresh_id_not_taken [OF f] by (auto simp: a)
  show "d' = d\<lparr>d_approvals := d_approvals d @ [a]\<rparr>" by (rule d')
qed (use assms in \<open>auto simp: mint_approval_def res_bind_Inr_iff Let_def\<close>)

lemma approval_request_wf:
  assumes "check_new_approval d agent_id project key now = Inr (pid, d1)" and "wf_doc d"
    and "mint_approval d1 agent_id pid key now w = Some (Inr (a, d'), w')"
  shows "wf_doc d'"
proof -
  note c = check_new_approval_ok [OF assms(1,2)] and m = mint_approval_ok [OF assms(3)]
  have "wf_approvals d'" using c m by (auto simp: m(2) wf_doc_def wf_approvals_def)
  then show ?thesis using c(1) by (simp add: m(2) wf_doc_def)
qed

end
