(* ===== verification/HumanSessions.thy ===== *)
theory HumanSessions
  imports SessionApprovals
begin

text \<open>
  \<open>src/session.rs\<close>: the memory-only human sessions of the dashboard. A session is a digest with
  a sliding and an absolute window on the monotonic clock; a credential is resolved by digest,
  and only an allowed operation slides it. The iteration order of the hash table is the order of
  the list; it decides only between entries with equal instants.
\<close>

definition expire_windows :: "human_session \<Rightarrow> nat \<Rightarrow> bool" where
  "expire_windows e now \<longleftrightarrow>
     elapsed_secs now (hs_last_used e) \<ge> hs_ttl e \<or> elapsed_secs now (hs_minted_at e) \<ge> SESSION_MAX_TTL_SECS"

definition drop_session :: "string \<Rightarrow> (string \<times> human_session) list \<Rightarrow> (string \<times> human_session) list" where
  "drop_session digest tab = filter (\<lambda>(k, _). k \<noteq> digest) tab"

definition put_session ::
  "string \<Rightarrow> human_session \<Rightarrow> (string \<times> human_session) list \<Rightarrow> (string \<times> human_session) list" where
  "put_session digest e tab = (digest, e) # drop_session digest tab"

text \<open>\<open>min_by_key(|(_, e)| (e.last_used, e.minted_at))\<close>: the first entry with the least pair.\<close>

fun older :: "human_session \<Rightarrow> human_session \<Rightarrow> bool" where
  "older a b = (hs_last_used a < hs_last_used b \<or>
     (hs_last_used a = hs_last_used b \<and> hs_minted_at a < hs_minted_at b))"

fun oldest_session :: "(string \<times> human_session) list \<Rightarrow> (string \<times> human_session) option" where
  "oldest_session [] = None"
| "oldest_session ((k, e) # r) =
     (case oldest_session r of
        None \<Rightarrow> Some (k, e)
      | Some (k', e') \<Rightarrow> if older e' e then Some (k', e') else Some (k, e))"

definition sweep_lapsed_sessions :: "session \<Rightarrow> session" where
  "sweep_lapsed_sessions s =
     s\<lparr>s_sessions := (if s_keys s = None then []
        else filter (\<lambda>(_, e). \<not> expire_windows e (w_mono (s_world s))) (s_sessions s))\<rparr>"

definition evict_oldest :: "session \<Rightarrow> session" where
  "evict_oldest s =
     (if length (s_sessions s) \<ge> MAX_SESSIONS
      then (case oldest_session (s_sessions s) of
              None \<Rightarrow> s | Some (k, _) \<Rightarrow> s\<lparr>s_sessions := drop_session k (s_sessions s)\<rparr>)
      else s)"

section \<open>Opening\<close>

text \<open>Answer: credential, display prefix, sliding window, absolute window.\<close>

definition session_open ::
  "('z) vault_lib_scheme \<Rightarrow> string \<Rightarrow> nat \<Rightarrow> session \<Rightarrow> (string \<times> string \<times> nat \<times> nat) res \<times> session" where
  "session_open L actor ttl_secs s =
     (if s_keys s = None \<or> s_doc s = None then refuse L actor ''session.open'' None [] None Locked s
      else if \<not> (1 \<le> ttl_secs \<and> ttl_secs \<le> SESSION_MAX_TTL_SECS)
        then refuse L actor ''session.open'' None [] None (InvalidInput ''ttl_secs must be 1..=1800'') s
      else
        (let s1 = evict_oldest (sweep_lapsed_sessions s);
             staged = stage L (mk_record actor ''session.open'' None [] None Allowed None)
                        (s_audit_key s1) Ordinary (s_audit s1) (s_world s1) in
         case staged of
           Inl e \<Rightarrow> (Inl e, s1)
         | Inr st \<Rightarrow>
             (case generate_capability L (s_world s1) of (r, w) \<Rightarrow>
                try_bind (r, s1\<lparr>s_world := w\<rparr>) (\<lambda>(credential, digest, prefix) s3.
                  let now = w_mono (s_world s3);
                      s4 = s3\<lparr>s_sessions := put_session digest
                                \<lparr>hs_prefix = prefix, hs_minted_at = now, hs_last_used = now, hs_ttl = ttl_secs\<rparr>
                                (s_sessions s3)\<rparr>
                  in case append_staged L st (s_audit s4) (s_world s4) of (q, lg, w') \<Rightarrow>
                       (let s5 = s4\<lparr>s_audit := lg, s_world := w'\<rparr> in
                        case q of
                          Inl _ \<Rightarrow> (Inl (AuditWrite ''audit write failed''),
                                    s5\<lparr>s_sessions := drop_session digest (s_sessions s5)\<rparr>)
                        | Inr _ \<Rightarrow> (Inr (credential, prefix, ttl_secs, SESSION_MAX_TTL_SECS), s5))))))"

section \<open>Using\<close>

definition validate_session ::
  "('z) vault_lib_scheme \<Rightarrow> string \<Rightarrow> session \<Rightarrow> string res \<times> session" where
  "validate_session L credential s =
     (let digest = token_digest L credential; now = w_mono (s_world s) in
      case map_of (s_sessions s) digest of
        None \<Rightarrow> (Inl SessionExpired, s)
      | Some e \<Rightarrow>
          if s_keys s = None \<or> expire_windows e now
          then (Inl SessionExpired, s\<lparr>s_sessions := drop_session digest (s_sessions s)\<rparr>)
          else (Inr (hs_prefix e), s))"

definition session_actor :: "string \<Rightarrow> string" where
  "session_actor prefix = ''human(session:'' @ prefix @ '')''"

definition authorize_session ::
  "('z) vault_lib_scheme \<Rightarrow> string \<Rightarrow> session \<Rightarrow> string res \<times> session" where
  "authorize_session L credential s =
     (case validate_session L credential s of
        (Inl e, s1) \<Rightarrow> refuse L ''unauthenticated'' ''session.use'' None [] None e s1
      | (Inr prefix, s1) \<Rightarrow> (Inr (session_actor prefix), s1))"

definition slide_session :: "('z) vault_lib_scheme \<Rightarrow> string \<Rightarrow> session \<Rightarrow> session" where
  "slide_session L credential s =
     (let digest = token_digest L credential in
      case map_of (s_sessions s) digest of
        None \<Rightarrow> s
      | Some e \<Rightarrow> s\<lparr>s_sessions := AList.update digest (e\<lparr>hs_last_used := w_mono (s_world s)\<rparr>) (s_sessions s)\<rparr>)"

definition session_windows :: "human_session \<Rightarrow> nat \<Rightarrow> nat \<times> nat" where
  "session_windows e now =
     (hs_ttl e - elapsed_secs now (hs_last_used e), SESSION_MAX_TTL_SECS - elapsed_secs now (hs_minted_at e))"

text \<open>The \<open>expect\<close> of the code is the \<open>None\<close> branch: the entry was just slid.\<close>

definition session_touch ::
  "('z) vault_lib_scheme \<Rightarrow> string \<Rightarrow> session \<Rightarrow> (string \<times> nat \<times> nat) res \<times> session" where
  "session_touch L credential s =
     (case validate_session L credential s of
        (Inl e, s1) \<Rightarrow> refuse L ''unauthenticated'' ''session.touch'' None [] None e s1
      | (Inr prefix, s1) \<Rightarrow>
          (let actor = session_actor prefix;
               r = mk_record actor ''session.touch'' None [] None Allowed None in
           case stage L r (s_audit_key s1) Ordinary (s_audit s1) (s_world s1) of
             Inl e \<Rightarrow> refuse L actor ''session.touch'' None [] None e s1
           | Inr _ \<Rightarrow>
               (let s3 = slide_session L credential s1; now = w_mono (s_world s3) in
                case map_of (s_sessions s3) (token_digest L credential) of
                  None \<Rightarrow> (Inl (Protocol ''just slid''), s3)
                | Some e \<Rightarrow>
                    (Inr (actor, fst (session_windows e now), snd (session_windows e now)),
                     snd (audit_record L actor r s3)))))"

definition session_close ::
  "('z) vault_lib_scheme \<Rightarrow> string \<Rightarrow> session \<Rightarrow> string res \<times> session" where
  "session_close L credential s =
     (case validate_session L credential s of
        (Inl e, s1) \<Rightarrow> refuse L ''unauthenticated'' ''session.close'' None [] None e s1
      | (Inr prefix, s1) \<Rightarrow>
          (let actor = session_actor prefix;
               s2 = s1\<lparr>s_sessions := drop_session (token_digest L credential) (s_sessions s1)\<rparr>
           in (Inr actor,
               snd (record_with L (mk_record actor ''session.close'' None [] None Allowed None)
                      (s_audit_key s2) Lifecycle s2))))"

definition session_display_times :: "session \<Rightarrow> nat \<Rightarrow> nat \<Rightarrow> time \<times> time" where
  "session_display_times s expires_in max_expires_in =
     (w_wall (s_world s) + seconds expires_in, w_wall (s_world s) + seconds max_expires_in)"

definition proof_is_valid :: "('z) vault_lib_scheme \<Rightarrow> derived_keks \<Rightarrow> session \<Rightarrow> bool" where
  "proof_is_valid L derived s = is_ok (unlock_with L (s_envelope s) derived)"

end
