(* ===== verification/SessionLifecycle.thy ===== *)
theory SessionLifecycle
  imports SessionProjects HumanSessions
begin

text \<open>
  \<open>src/session.rs\<close>: creating, loading, unlocking and saving the vault, its health and status,
  the paged audit reads and the audit of managed runs.
\<close>

section \<open>Create and load\<close>

text \<open>Dropping the lock file when a later step fails.\<close>

definition unlocking_on_error :: "string \<Rightarrow> 'a res \<times> world \<Rightarrow> 'a res \<times> world" where
  "unlocking_on_error lock out =
     (case out of (Inl e, w) \<Rightarrow> (Inl e, release_lock lock w) | (Inr x, w) \<Rightarrow> (Inr x, w))"

definition fresh_session ::
  "string \<Rightarrow> envelope \<Rightarrow> vault_document option \<Rightarrow> keys option \<Rightarrow> string option \<Rightarrow> audit_log \<Rightarrow> string
    \<Rightarrow> nat \<Rightarrow> world \<Rightarrow> session" where
  "fresh_session path env doc ks audit_key lg lock idle_timeout w =
     \<lparr>s_path = path, s_audit_path = audit_path path, s_envelope = env, s_doc = doc, s_keys = ks,
      s_audit_key = audit_key, s_audit = lg, s_lock = lock, s_digests = Map.empty, s_sessions = [],
      s_last_activity = w_mono w, s_idle_timeout = idle_timeout, s_idle_self_lock = True, s_world = w\<rparr>"

definition create_record :: audit_record where
  "create_record = mk_record ''human'' ''vault.created'' None [] None Allowed None"

text \<open>Everything \<open>create\<close> does while it holds the lock.\<close>

definition create_locked ::
  "('z) vault_lib_scheme \<Rightarrow> string \<Rightarrow> string \<Rightarrow> nat \<Rightarrow> string \<Rightarrow> world \<Rightarrow> session res \<times> world" where
  "create_locked L path passphrase idle_timeout lock w =
     (let created_at = w_wall w in
      try_bind (load_or_init L (audit_path path) w) (\<lambda>lg0 w1.
        try_bind (stage L create_record None Ordinary lg0 w1, w1) (\<lambda>staged w1.
          let doc = (new_document created_at)\<lparr>d_audit_head := \<lparr>h_seq = ev_seq (st_event staged),
                                                          h_hash = st_hash_hex staged\<rparr>\<rparr> in
          try_bind (ok_or (Protocol ''document serialization'') (doc_ser L doc), w1) (\<lambda>doc_bytes w1.
            try_bind (create_envelope L passphrase doc_bytes created_at w1) (\<lambda>env w2.
              try_bind (unlock_envelope L env passphrase, w2) (\<lambda>ks w2.
                let audit_key = derive_audit_key L (mek ks); staged' = mac_with L audit_key staged in
                case append_staged L staged' lg0 w2 of (q, lg2, w3) \<Rightarrow>
                  try_bind (q, w3) (\<lambda>_ w3.
                    try_bind (save_atomic path (to_bytes L env) w3) (\<lambda>_ w4.
                      (Inr (rebuild_agent_digests
                              (fresh_session path env (Some doc) (Some ks) (Some audit_key) lg2 lock
                                 idle_timeout w4)), w4)))))))))"

text \<open>The existence test of the code comes before the lock.\<close>

definition create_session ::
  "('z) vault_lib_scheme \<Rightarrow> string \<Rightarrow> string \<Rightarrow> nat \<Rightarrow> world \<Rightarrow> session res \<times> world" where
  "create_session L path passphrase idle_timeout w =
     (if length passphrase < MIN_PASSPHRASE_LEN then (Inl WeakPassphrase, w)
      else if w_dir w path \<noteq> None then (Inl Exists, w)
      else try_bind (if dir_part path = [] then (Inr (), w) else ensure_private_dir (dir_part path) w)
        (\<lambda>_ w1. try_bind (acquire_vault path w1) (\<lambda>lock w2.
           unlocking_on_error lock (create_locked L path passphrase idle_timeout lock w2))))"

definition load_locked ::
  "('z) vault_lib_scheme \<Rightarrow> string \<Rightarrow> nat \<Rightarrow> string \<Rightarrow> world \<Rightarrow> session res \<times> world" where
  "load_locked L path idle_timeout lock w =
     (case w_dir w path of
        None \<Rightarrow> (Inl io_failed, w)
      | Some content \<Rightarrow>
          if length content > MAX_FILE_LEN then (Inl (Corrupt ''vault file exceeds maximum size''), w)
          else try_bind (load_file path w, w) (\<lambda>bytes w.
            try_bind (parse_envelope L bytes, w) (\<lambda>env w.
              try_bind (load_or_init L (audit_path path) w) (\<lambda>lg w1.
                (Inr (fresh_session path env None None None lg lock idle_timeout w1), w1)))))"

definition load_session ::
  "('z) vault_lib_scheme \<Rightarrow> string \<Rightarrow> nat \<Rightarrow> world \<Rightarrow> session res \<times> world" where
  "load_session L path idle_timeout w =
     try_bind (acquire_vault path w) (\<lambda>lock w1.
       unlocking_on_error lock (load_locked L path idle_timeout lock w1))"

section \<open>Unlock, save\<close>

text \<open>Errors of \<open>verify\<close> collapse into one.\<close>

definition open_vault ::
  "('z) vault_lib_scheme \<Rightarrow> derived_keks \<Rightarrow> session \<Rightarrow> (keys \<times> string \<times> vault_document) res" where
  "open_vault L derived s =
     res_bind (unlock_with L (s_envelope s) derived) (\<lambda>ks.
       let audit_key = derive_audit_key L (mek ks) in
       res_bind (map_err (\<lambda>_. Corrupt ''audit log verification failed'')
                   (verify L (s_audit_path s) (Some audit_key) (s_world s))) (\<lambda>_.
         res_bind (open_document L (s_envelope s) ks) (\<lambda>doc_bytes.
           res_bind (ok_or (Protocol ''document deserialization'') (doc_de L doc_bytes)) (\<lambda>doc.
             res_bind (check_checkpoint L (s_audit_path s) (h_seq (d_audit_head doc))
                         (h_hash (d_audit_head doc)) (s_world s)) (\<lambda>_.
               Inr (ks, audit_key, doc))))))"

definition do_unlock ::
  "('z) vault_lib_scheme \<Rightarrow> derived_keks \<Rightarrow> session \<Rightarrow> unit res \<times> session" where
  "do_unlock L derived s =
     (case open_vault L derived s of
        Inl e \<Rightarrow> (Inl e, s)
      | Inr (ks, audit_key, doc) \<Rightarrow>
          (Inr (), rebuild_agent_digests
             (s\<lparr>s_keys := Some ks, s_audit_key := Some audit_key, s_doc := Some doc\<rparr>)))"

definition unlock_with_proof ::
  "('z) vault_lib_scheme \<Rightarrow> derived_keks \<Rightarrow> session \<Rightarrow> unit res \<times> session" where
  "unlock_with_proof L derived s =
     (case do_unlock L derived s of
        (Inr _, s1) \<Rightarrow>
          (let s2 = snd (audit_record_lifecycle L ''human''
                      (mk_record ''human'' ''vault.unlocked'' None [] None Allowed None) s1)
           in (Inr (), s2\<lparr>s_last_activity := w_mono (s_world s2)\<rparr>))
      | (Inl e, s1) \<Rightarrow>
          if e = Auth
          then (Inl e, snd (record_with L
                 (mk_record ''human'' ''vault.unlock'' None [] None Denied (Some (code e))) None Lifecycle s1))
          else (Inl e, s1))"

definition session_kek_recipe :: "session \<Rightarrow> kek_recipe res" where
  "session_kek_recipe s = kek_recipe_of (s_envelope s)"

definition unlock_session ::
  "('z) vault_lib_scheme \<Rightarrow> string \<Rightarrow> session \<Rightarrow> unit res \<times> session" where
  "unlock_session L passphrase s =
     (case res_bind (session_kek_recipe s) (\<lambda>r. derive_keks L r passphrase) of
        Inr derived \<Rightarrow> unlock_with_proof L derived s
      | Inl e \<Rightarrow> (Inl e, s))"

definition save_session :: "('z) vault_lib_scheme \<Rightarrow> session \<Rightarrow> unit res \<times> session" where
  "save_session L s =
     (let s1 = check_idle L s in
      case (s_doc s1, s_keys s1) of
        (Some doc, Some ks) \<Rightarrow>
          (let s2 = s1\<lparr>s_last_activity := w_mono (s_world s1)\<rparr> in
           case doc_ser L doc of
             None \<Rightarrow> (Inl (Protocol ''document serialization''), s2)
           | Some doc_bytes \<Rightarrow>
               (case reseal_document L doc_bytes ks (s_envelope s2) (s_world s2) of (r, env, w) \<Rightarrow>
                  try_bind (r, s2\<lparr>s_envelope := env, s_world := w\<rparr>) (\<lambda>_ s3.
                    try_bind (validate_persistable L env, s3) (\<lambda>_ s3.
                      case save_atomic (s_path s3) (to_bytes L env) (s_world s3) of (q, w') \<Rightarrow>
                        (q, s3\<lparr>s_world := w'\<rparr>)))))
      | _ \<Rightarrow> (Inl Locked, s1))"

section \<open>Status and health\<close>

record vault_status =
  vs_version :: nat
  vs_created_at :: time
  vs_slots :: "(slot_type \<times> kdf_params) list"
  vs_locked :: bool

definition status :: "session \<Rightarrow> vault_status" where
  "status s =
     \<lparr>vs_version = VERSION, vs_created_at = vh_created_at (en_header (s_envelope s)),
      vs_slots = map (\<lambda>x. (sl_kind x, sl_kdf x)) (vh_slots (en_header (s_envelope s))),
      vs_locked = is_locked s\<rparr>"

record vault_health_report =
  vr_locked :: bool
  vr_idle_lock_secs :: nat
  vr_idle_in :: "nat option"
  vr_audit_bytes :: nat
  vr_vault_bytes :: nat
  vr_runs_active :: nat
  vr_leases_active :: "nat option"
  vr_approvals_pending :: "nat option"

definition vault_health :: "session \<Rightarrow> nat \<Rightarrow> nat \<Rightarrow> vault_health_report" where
  "vault_health s idle_lock_secs runs_active =
     (let now = w_wall (s_world s) in
      \<lparr>vr_locked = is_locked s, vr_idle_lock_secs = idle_lock_secs,
       vr_idle_in = (if is_locked s \<or> idle_lock_secs = 0 then None
         else Some (idle_lock_secs - elapsed_secs (w_mono (s_world s)) (s_last_activity s))),
       vr_audit_bytes = file_len (s_audit_path s) (s_world s),
       vr_vault_bytes = file_len (s_path s) (s_world s), vr_runs_active = runs_active,
       vr_leases_active = map_option (\<lambda>d.
         length (filter (\<lambda>l. l_revoked_at l = None \<and> now < l_expires_at l) (d_leases d))) (s_doc s),
       vr_approvals_pending = map_option (\<lambda>d.
         length (filter (\<lambda>a. ap_status a = APending \<and> now < ap_pending_expires_at a) (d_approvals d))) (s_doc s)\<rparr>)"

section \<open>Audit inspection\<close>

text \<open>The page and the cursor are computed from the lines read before the read is recorded.\<close>

definition show_page :: "audit_line list \<Rightarrow> nat \<Rightarrow> nat option \<Rightarrow> audit_line list \<times> nat option" where
  "show_page ls tail_n before_seq =
     (let sq = (\<lambda>l. ev_seq (al_event l));
          head = (if ls = [] then 0 else sq (last ls));
          upper = (case before_seq of Some b \<Rightarrow> min b head | None \<Rightarrow> head);
          eligible = filter (\<lambda>l. sq l \<le> upper) ls;
          page = drop (length eligible - tail_n) eligible
      in (page,
          (case page of
             [] \<Rightarrow> None
           | first # _ \<Rightarrow>
               if sq first > 1 \<and> (\<exists>l\<in>set ls. sq l < sq first) then Some (sq first - 1) else None)))"

definition audit_show_page ::
  "('z) vault_lib_scheme \<Rightarrow> string \<Rightarrow> nat \<Rightarrow> nat option \<Rightarrow> session
    \<Rightarrow> (audit_line list \<times> nat option) res \<times> session" where
  "audit_show_page L actor tail_n before_seq s =
     try_bind (read_all L (s_audit_path s) (s_world s), s) (\<lambda>ls s.
       try_bind (audit_record L actor (mk_record actor ''audit.show'' None [] None Allowed None) s)
         (\<lambda>_ s1. (Inr (show_page ls tail_n before_seq), s1)))"

definition audit_tail ::
  "('z) vault_lib_scheme \<Rightarrow> string \<Rightarrow> nat \<Rightarrow> session \<Rightarrow> audit_line list res \<times> session" where
  "audit_tail L actor n s =
     try_bind (audit_show_page L actor n None s) (\<lambda>pg s1. (Inr (fst pg), s1))"

definition audit_verify :: "('z) vault_lib_scheme \<Rightarrow> session \<Rightarrow> verify_report res" where
  "audit_verify L s = verify L (s_audit_path s) (s_audit_key s) (s_world s)"

section \<open>Audit of managed runs\<close>

definition mk_run_record ::
  "string \<Rightarrow> string option \<Rightarrow> string list \<Rightarrow> string option \<Rightarrow> string option \<Rightarrow> nat option \<Rightarrow> string option
    \<Rightarrow> decision \<Rightarrow> string option \<Rightarrow> string option \<Rightarrow> int option \<Rightarrow> string option \<Rightarrow> run_record" where
  "mk_run_record actor project keys run_id exe argc cwd dec reason result exit_code sig =
     \<lparr>rr_actor = actor, rr_project = project, rr_keys = keys, rr_run_id = run_id, rr_executable = exe,
      rr_arg_count = argc, rr_cwd = cwd, rr_decision = dec, rr_reason = reason, rr_result = result,
      rr_exit_code = exit_code, rr_signal = sig\<rparr>"

definition run_record_with ::
  "('z) vault_lib_scheme \<Rightarrow> run_record \<Rightarrow> priority \<Rightarrow> session \<Rightarrow> unit res \<times> session" where
  "run_record_with L r prio s =
     (case append_run L r (s_audit_key s) prio (s_audit s) (s_world s) of (res, lg, w) \<Rightarrow>
        (res, s\<lparr>s_audit := lg, s_world := w\<rparr>))"

definition audit_run_allowed where
  "audit_run_allowed L actor project keys arg_count s =
     run_record_with L (mk_run_record actor (Some project) keys None None (Some arg_count) None Allowed
       None None None None) Ordinary s"

definition ensure_run_unlocked :: "('z) vault_lib_scheme \<Rightarrow> session \<Rightarrow> unit res \<times> session" where
  "ensure_run_unlocked L s =
     (let s1 = check_idle L s in if s_keys s1 = None then (Inl Locked, s1) else (Inr (), s1))"

definition audit_run_signal where
  "audit_run_signal L actor project run_id dec reason s =
     run_record_with L (mk_run_record actor (Some project) [] (Some run_id) None None None dec
       reason (Some ''signaled'') None None) Ordinary s"

definition audit_run_revoked where
  "audit_run_revoked L actor project run_id s =
     run_record_with L (mk_run_record actor (Some project) [] (Some run_id) None None None Allowed
       None (Some ''revoked'') None None) Lifecycle s"

definition audit_run_denied where
  "audit_run_denied L actor project keys run_id err s =
     snd (run_record_with L (mk_run_record actor project keys run_id None None None Denied
       (Some (code err)) (Some ''denied'') None None) Ordinary s)"

definition audit_run_started where
  "audit_run_started L actor project keys run_id exe arg_count cwd s =
     run_record_with L (mk_run_record actor (Some project) keys (Some run_id) (Some exe) (Some arg_count) cwd
       Allowed None (Some ''started'') None None) Ordinary s"

definition audit_run_exited where
  "audit_run_exited L actor project keys run_id exe arg_count cwd exit_code sig s =
     run_record_with L (mk_run_record actor (Some project) keys (Some run_id) (Some exe) (Some arg_count) cwd
       Allowed None (Some ''exited'') exit_code sig) Ordinary s"

end
