(* ===== verification/SessionFrame.thy ===== *)
theory SessionFrame
  imports AuthorityInv SessionLifecycle
begin

text \<open>
  What the building blocks of the session operations change and what they leave alone:
  recording an entry touches the log and the machine only; a commit either adopts the new
  document or leaves the old one; the lock drops keys, document and human sessions. These
  frames carry the invariants of all operations.
\<close>

section \<open>Frames\<close>

definition core_same :: "session \<Rightarrow> session \<Rightarrow> bool" where
  "core_same s s' \<longleftrightarrow> s_path s' = s_path s \<and> s_audit_path s' = s_audit_path s \<and> s_lock s' = s_lock s
     \<and> s_last_activity s' = s_last_activity s \<and> s_idle_timeout s' = s_idle_timeout s
     \<and> s_idle_self_lock s' = s_idle_self_lock s \<and> lg_path (s_audit s') = lg_path (s_audit s)
     \<and> lg_soft (s_audit s') = lg_soft (s_audit s) \<and> lg_hard (s_audit s') = lg_hard (s_audit s)
     \<and> same_env (s_world s) (s_world s') \<and> w_locks (s_world s') = w_locks (s_world s)"

definition unlocked_same :: "session \<Rightarrow> session \<Rightarrow> bool" where
  "unlocked_same s s' \<longleftrightarrow> core_same s s' \<and> s_keys s' = s_keys s \<and> s_audit_key s' = s_audit_key s
     \<and> s_sessions s' = s_sessions s"

definition rec_step :: "session \<Rightarrow> session \<Rightarrow> bool" where
  "rec_step s s' \<longleftrightarrow> unlocked_same s s' \<and> s_doc s' = s_doc s \<and> s_digests s' = s_digests s
     \<and> s_envelope s' = s_envelope s \<and> extends (lg_path (s_audit s)) (s_world s) (s_world s')"

lemma core_same_refl [simp]: "core_same s s"
  by (simp add: core_same_def)

lemma core_same_trans: "core_same s1 s2 \<Longrightarrow> core_same s2 s3 \<Longrightarrow> core_same s1 s3"
  by (auto simp: core_same_def intro: same_env_trans)

lemma unlocked_same_refl [simp]: "unlocked_same s s"
  by (simp add: unlocked_same_def)

lemma unlocked_same_trans: "unlocked_same s1 s2 \<Longrightarrow> unlocked_same s2 s3 \<Longrightarrow> unlocked_same s1 s3"
  by (auto simp: unlocked_same_def intro: core_same_trans)

lemma rec_step_refl [simp]: "rec_step s s"
  by (simp add: rec_step_def)

lemma rec_step_trans: "rec_step s1 s2 \<Longrightarrow> rec_step s2 s3 \<Longrightarrow> rec_step s1 s3"
  unfolding rec_step_def
  by (auto simp: unlocked_same_def core_same_def intro: same_env_trans extends_trans)

lemma rec_step_fields:
  assumes "rec_step s s'"
  shows "s_path s' = s_path s" "s_audit_path s' = s_audit_path s" "s_lock s' = s_lock s"
    "s_last_activity s' = s_last_activity s" "s_idle_timeout s' = s_idle_timeout s"
    "s_idle_self_lock s' = s_idle_self_lock s" "s_keys s' = s_keys s" "s_audit_key s' = s_audit_key s"
    "s_sessions s' = s_sessions s" "s_doc s' = s_doc s" "s_digests s' = s_digests s"
    "s_envelope s' = s_envelope s" "lg_path (s_audit s') = lg_path (s_audit s)"
    "w_wall (s_world s') = w_wall (s_world s)" "w_mono (s_world s') = w_mono (s_world s)"
  using assms by (simp_all add: rec_step_def unlocked_same_def core_same_def same_env_def)

section \<open>Recording\<close>

lemma log_step_rec_step:
  "log_step (s_audit s) (s_world s) lg w \<Longrightarrow> rec_step s (s\<lparr>s_audit := lg, s_world := w\<rparr>)"
  by (simp add: log_step_def rec_step_def unlocked_same_def core_same_def)

lemma record_with_step: "record_with L r key prio s = (q, s') \<Longrightarrow> rec_step s s'"
  unfolding record_with_def append_audit_def
  by (auto split: prod.splits intro!: log_step_rec_step dest: append_entry_step)

lemma record_with_steps [audit_frame]: "rec_step s (snd (record_with L r key prio s))"
  by (rule record_with_step [OF prod.collapse [symmetric]])

lemma audit_record_step [audit_frame]: "rec_step s (snd (audit_record L actor r s))"
  unfolding audit_record_def by (rule record_with_steps)

lemma audit_record_lifecycle_step [audit_frame]: "rec_step s (snd (audit_record_lifecycle L actor r s))"
  unfolding audit_record_lifecycle_def by (rule record_with_steps)

lemma audit_denied_step [audit_frame]: "rec_step s (audit_denied L actor op project keys target e s)"
  unfolding audit_denied_def by (rule record_with_steps)

lemma audit_denied_code_step [audit_frame]: "rec_step s (audit_denied_code L actor op project reason s)"
  unfolding audit_denied_code_def by (rule record_with_steps)

lemma refuse_step [audit_frame]: "rec_step s (snd (refuse L actor op project keys target e s))"
  unfolding refuse_def by (simp add: audit_denied_step)

lemma fst_refuse [simp]: "fst (refuse L actor op project keys target e s) = Inl e"
  by (simp add: refuse_def)

lemma finish_read_step [audit_frame]: "rec_step s (snd (finish_read L r out s))"
proof (cases out)
  case (Inl e)
  then show ?thesis by (simp add: finish_read_def refuse_step)
next
  case (Inr x)
  then show ?thesis using audit_record_step [of s L "r_actor r" r]
    by (auto simp: finish_read_def try_bind_def split: sum.split)
qed

lemma run_record_step [audit_frame]: "rec_step s (snd (run_record_with L r prio s))"
  unfolding run_record_with_def append_run_def
  by (auto split: prod.splits intro!: log_step_rec_step dest: append_entry_step)

section \<open>Commit\<close>

definition digest_index :: "vault_document \<Rightarrow> string \<rightharpoonup> string" where
  "digest_index d =
     map_of (rev (map (\<lambda>a. (a_token_hash a, a_id a))
       (filter (\<lambda>a. length (a_token_hash a) = 32) (filter (\<lambda>a. a_status a = Active) (d_agents d)))))"

lemma rebuild_agent_digests_eq:
  "rebuild_agent_digests s = s\<lparr>s_digests := (case s_doc s of None \<Rightarrow> Map.empty | Some d \<Rightarrow> digest_index d)\<rparr>"
  by (simp add: rebuild_agent_digests_def digest_index_def split: option.split)

lemma digest_index_agents: "d_agents d' = d_agents d \<Longrightarrow> digest_index d' = digest_index d"
  by (simp add: digest_index_def)

definition commit_step :: "vault_document \<Rightarrow> session \<Rightarrow> unit res \<Rightarrow> session \<Rightarrow> bool" where
  "commit_step doc s q s' \<longleftrightarrow> unlocked_same s s'
     \<and> (if is_ok q
        then (\<exists>h. s_doc s' = Some (doc\<lparr>d_audit_head := h\<rparr>)) \<and> s_digests s' = digest_index doc
        else s_doc s' = s_doc s \<and> s_digests s' = s_digests s)"

lemma reseal_document_world:
  assumes "reseal_document L d ks env w = (q, env', w')"
  shows "same_env w w'" "w_locks w' = w_locks w" "w_dir w' = w_dir w" "en_header env' = en_header env"
proof -
  obtain r v where rb: "random_bytes NONCE_LEN w = (r, v)" by force
  from assms rb random_bytes_frame [OF rb]
  show "same_env w w'" "w_locks w' = w_locks w" "w_dir w' = w_dir w" "en_header env' = en_header env"
    by (cases r; auto simp: reseal_document_def)+
qed

lemma commit_seal_step:
  assumes "commit_seal L doc ks s = (q, s')"
  shows "commit_step doc s q s'"
proof (cases "doc_ser L doc")
  case None
  with assms show ?thesis by (auto simp: commit_seal_def commit_step_def)
next
  case (Some bytes)
  obtain r env w where rs: "reseal_document L bytes ks (s_envelope s) (s_world s) = (r, env, w)"
    by (metis prod_cases3)
  note rw = reseal_document_world [OF rs]
  let ?s1 = "s\<lparr>s_envelope := env, s_world := w\<rparr>"
  have s1: "unlocked_same s ?s1"
    using rw by (simp add: unlocked_same_def core_same_def)
  obtain q2 w2 where sa: "save_atomic (s_path s) (to_bytes L env) w = (q2, w2)" by force
  note sw = save_atomicD [OF sa]
  have s2: "unlocked_same s (?s1\<lparr>s_world := w2\<rparr>)"
    using rw sw by (auto simp: unlocked_same_def core_same_def intro: same_env_trans)
  show ?thesis
  proof (cases "\<exists>e. r = Inl e \<or> validate_persistable L env = Inl e")
    case True
    then obtain e where "r = Inl e \<or> is_ok r \<and> validate_persistable L env = Inl e"
      by (metis is_ok_simps(1) sum.exhaust)
    with assms Some rs have "q = Inl e" "s' = ?s1"
      by (auto simp: commit_seal_def Let_def elim!: is_okE)
    with s1 show ?thesis by (simp add: commit_step_def)
  next
    case False
    then obtain u v where u: "r = Inr u" "validate_persistable L env = Inr v"
      by (metis sum.exhaust)
    show ?thesis
    proof (cases q2)
      case (Inl e)
      with assms Some rs u sa s2 show ?thesis
        by (auto simp: commit_seal_def commit_step_def Let_def)
    next
      case (Inr z)
      with assms Some rs u sa
      have "q = Inr ()" and s': "s' = rebuild_agent_digests (?s1\<lparr>s_world := w2, s_doc := Some doc\<rparr>)"
        by (simp_all add: commit_seal_def Let_def)
      moreover have "\<exists>h. doc = doc\<lparr>d_audit_head := h\<rparr>"
        by (rule exI [of _ "d_audit_head doc"]) simp
      ultimately show ?thesis
        using s2 by (auto simp: commit_step_def rebuild_agent_digests_eq unlocked_same_def core_same_def)
    qed
  qed
qed

lemma commit_step_after_rec:
  "rec_step s s1 \<Longrightarrow> commit_step doc s1 q s' \<Longrightarrow> commit_step doc s q s'"
  unfolding commit_step_def rec_step_def by (auto intro: unlocked_same_trans)

lemma commit_step_head:
  "commit_step (doc\<lparr>d_audit_head := h\<rparr>) s q s' \<Longrightarrow> commit_step doc s q s'"
  by (auto simp: commit_step_def digest_index_def)

lemma commit_step_fail: "rec_step s s' \<Longrightarrow> commit_step doc s (Inl e) s'"
  by (simp add: commit_step_def rec_step_def)

lemma commit_with_locked: "s_keys s = None \<Longrightarrow> commit_with L doc r prio s = (Inl Locked, s)"
  by (simp add: commit_with_def)

lemma commit_with_step:
  assumes "commit_with L doc r prio s = (q, s')"
  shows "commit_step doc s q s'"
proof (cases "s_keys s")
  case None
  then have "q = Inl Locked" "s' = s" using assms by (simp_all add: commit_with_locked)
  then show ?thesis by (simp add: commit_step_fail)
next
  case (Some ks)
  show ?thesis
  proof (cases "stage L r (s_audit_key s) prio (s_audit s) (s_world s)")
    case (Inl e)
    show ?thesis
    proof (cases "prio = Ordinary")
      case True
      with assms Some Inl show ?thesis by (auto simp: commit_with_def commit_step_fail)
    next
      case False
      with assms Some Inl have "commit_seal L doc ks s = (q, s')" by (simp add: commit_with_def)
      then show ?thesis by (rule commit_seal_step)
    qed
  next
    case (Inr st)
    obtain a lg w where ap: "append_staged L st (s_audit s) (s_world s) = (a, lg, w)" by (metis prod_cases3)
    let ?s1 = "s\<lparr>s_audit := lg, s_world := w\<rparr>"
    have rs: "rec_step s ?s1" by (rule log_step_rec_step [OF append_staged_step [OF ap]])
    show ?thesis
    proof (cases a)
      case (Inr u)
      with assms Some \<open>stage _ _ _ _ _ _ = Inr st\<close> ap
      have "commit_seal L (doc\<lparr>d_audit_head := \<lparr>h_seq = ev_seq (st_event st), h_hash = st_hash_hex st\<rparr>\<rparr>) ks ?s1 = (q, s')"
        by (simp add: commit_with_def Let_def)
      from commit_step_head [OF commit_seal_step [OF this]] show ?thesis
        by (rule commit_step_after_rec [OF rs])
    next
      case (Inl e)
      show ?thesis
      proof (cases "prio = Ordinary")
        case True
        with assms Some \<open>stage _ _ _ _ _ _ = Inr st\<close> ap Inl rs show ?thesis
          by (auto simp: commit_with_def Let_def commit_step_fail)
      next
        case False
        with assms Some \<open>stage _ _ _ _ _ _ = Inr st\<close> ap Inl have "commit_seal L doc ks ?s1 = (q, s')"
          by (simp add: commit_with_def Let_def)
        then show ?thesis using commit_seal_step commit_step_after_rec [OF rs] by blast
      qed
    qed
  qed
qed

section \<open>Lock and idle\<close>

lemma lock_session_fields [simp]:
  "s_keys (lock_session s) = None" "s_audit_key (lock_session s) = None" "s_doc (lock_session s) = None"
  "s_sessions (lock_session s) = []" "core_same s (lock_session s') = core_same s s'"
  "s_digests (lock_session s) = s_digests s" "s_envelope (lock_session s) = s_envelope s"
  "s_world (lock_session s) = s_world s" "s_audit (lock_session s) = s_audit s"
  by (simp_all add: lock_session_def core_same_def)

lemma lock_persist_cases:
  obtains s1 where "lock_persist L s = (Inr (), lock_session s1)" "core_same s s1"
proof (cases "s_keys s \<noteq> None \<and> s_doc s \<noteq> None")
  case True
  then obtain ks d where kd: "s_keys s = Some ks" "s_doc s = Some d" by blast
  obtain q s1 where c: "commit_with L (deny_all_approvals (revoke_all_leases d (w_wall (s_world s))))
      (mk_record ''human'' ''vault.lock'' None [] None Allowed None) Lifecycle s = (q, s1)" by force
  then have "core_same s s1"
    using commit_with_step [OF c] by (simp add: commit_step_def unlocked_same_def)
  moreover have "lock_persist L s = (Inr (), lock_session s1)"
    using kd c by (simp add: lock_persist_def Let_def)
  ultimately show thesis by (rule that [rotated])
next
  case False
  then have "lock_persist L s = (Inr (), lock_session s)"
    by (auto simp: lock_persist_def split: option.splits)
  then show thesis using that by simp
qed

lemma check_idle_cases:
  obtains "check_idle L s = s"
  | s1 where "check_idle L s = lock_session s1" "core_same s s1"
proof (cases "idle_expired s \<and> s_idle_self_lock s")
  case True
  obtain s1 where "lock_persist L s = (Inr (), lock_session s1)" "core_same s s1"
    by (rule lock_persist_cases)
  with True that(2) [of s1] show thesis by (simp add: check_idle_def idle_expired_def)
next
  case False
  then show thesis by (intro that(1)) (auto simp: check_idle_def idle_expired_def)
qed

lemma check_idle_core: "core_same s (check_idle L s)"
  by (rule check_idle_cases [of L s]) simp_all

lemma check_idle_unlocked: "s_keys (check_idle L s) \<noteq> None \<Longrightarrow> check_idle L s = s"
  by (rule check_idle_cases [of L s]) simp_all

end
