(* ===== verification/SessionInv.thy ===== *)
theory SessionInv
  imports SessionFrame
begin

text \<open>
  The invariant of a session and its preservation by every public operation: the document is
  well formed, keys, audit key and document are present together, the digest index is the one of
  the document, human sessions exist only while unlocked, at most 256 of them, with valid
  windows.
\<close>

section \<open>The invariant\<close>

definition sessions_ok :: "session \<Rightarrow> bool" where
  "sessions_ok s \<longleftrightarrow> distinct (map fst (s_sessions s)) \<and> length (s_sessions s) \<le> MAX_SESSIONS
     \<and> (s_keys s = None \<longrightarrow> s_sessions s = [])
     \<and> (\<forall>(k, e)\<in>set (s_sessions s). 1 \<le> hs_ttl e \<and> hs_ttl e \<le> SESSION_MAX_TTL_SECS)"

definition session_inv :: "session \<Rightarrow> bool" where
  "session_inv s \<longleftrightarrow> (s_keys s = None \<longleftrightarrow> s_doc s = None) \<and> (s_audit_key s = None \<longleftrightarrow> s_keys s = None)
     \<and> (\<forall>d. s_doc s = Some d \<longrightarrow> wf_doc d \<and> s_digests s = digest_index d)
     \<and> sessions_ok s \<and> lg_path (s_audit s) = s_audit_path s"

lemma inv_world [simp]: "session_inv (s\<lparr>s_world := w\<rparr>) = session_inv s"
  by (simp add: session_inv_def sessions_ok_def)

lemma inv_rec:
  assumes "rec_step s s'" and "session_inv s"
  shows "session_inv s'"
  using assms(2) rec_step_fields [OF assms(1)]
  by (simp add: session_inv_def sessions_ok_def)

lemma inv_lock: "core_same s s1 \<Longrightarrow> session_inv s \<Longrightarrow> session_inv (lock_session s1)"
  by (simp add: session_inv_def sessions_ok_def core_same_def)
    (simp add: lock_session_def)

lemma inv_commit:
  assumes "commit_step doc s q s'" and "session_inv s" and "wf_doc doc" and "s_keys s \<noteq> None"
  shows "session_inv s'"
  using assms
  by (auto simp: session_inv_def sessions_ok_def commit_step_def unlocked_same_def core_same_def
      digest_index_def split: if_splits)

lemma inv_check_idle: "session_inv s \<Longrightarrow> session_inv (check_idle L s)"
  by (rule check_idle_cases [of L s]) (auto intro: inv_lock)

section \<open>Gates\<close>

lemma gate_inv:
  assumes "gate L actor op project keys s = (r, s1)" and "session_inv s"
  shows "session_inv s1" "r = Inr u \<Longrightarrow> s_keys s1 \<noteq> None \<and> s1 = s"
proof -
  let ?s = "check_idle L s"
  have i: "session_inv ?s" using assms(2) by (rule inv_check_idle)
  show "session_inv s1"
  proof (cases "s_keys ?s")
    case None
    obtain q s2 where w: "record_with L (mk_record actor op project keys None Denied (Some ''E_LOCKED'')) None Ordinary ?s = (q, s2)"
      by force
    from inv_rec [OF record_with_step [OF w] i] assms(1) None w show ?thesis
      by (cases q) (auto simp: gate_def)
  next
    case (Some k)
    with assms(1) i show ?thesis by (auto simp: gate_def)
  qed
  assume "r = Inr u"
  with assms(1) have "s_keys ?s \<noteq> None" "s1 = ?s"
    by (auto simp: gate_def Let_def try_bind_def split: if_splits sum.splits)
  then show "s_keys s1 \<noteq> None \<and> s1 = s" using check_idle_unlocked by metis
qed

lemma with_doc_inv:
  assumes "with_doc L actor op project keys s = (r, s1)" and "session_inv s"
  shows "session_inv s1" "r = Inr d \<Longrightarrow> s_keys s1 \<noteq> None \<and> s_doc s1 = Some d \<and> wf_doc d \<and> s1 = s"
proof -
  obtain g s0 where g: "gate L actor op project keys s = (g, s0)" by force
  note gi = gate_inv [OF g assms(2)]
  from assms(1) g gi(1) show i: "session_inv s1"
    by (cases g) (auto simp: with_doc_def split: option.splits)
  assume "r = Inr d"
  with assms(1) g have "g = Inr ()" "s1 = s0" "s_doc s1 = Some d"
    by (cases g; auto simp: with_doc_def split: option.splits)+
  with gi i show "s_keys s1 \<noteq> None \<and> s_doc s1 = Some d \<and> wf_doc d \<and> s1 = s"
    by (auto simp: session_inv_def)
qed

lemma refuse_inv: "refuse L actor op project keys target e s = (r, s1) \<Longrightarrow> session_inv s \<Longrightarrow> session_inv s1"
  by (metis inv_rec refuse_step snd_conv)

lemma agent_gate_inv:
  assumes "agent_gate L actor op project keys s = (r, s1)" and "session_inv s"
  shows "session_inv s1" "r = Inr d \<Longrightarrow> s_keys s1 \<noteq> None \<and> s_doc s1 = Some d \<and> wf_doc d \<and> s1 = s"
proof -
  let ?s = "check_idle L s"
  have i: "session_inv ?s" using assms(2) by (rule inv_check_idle)
  show i1: "session_inv s1"
    using assms(1) i
    by (auto simp: agent_gate_def Let_def split: if_splits option.splits dest: refuse_inv)
  assume "r = Inr d"
  with assms(1) have "s_keys ?s \<noteq> None" "s1 = ?s" "s_doc s1 = Some d"
    by (auto simp: agent_gate_def Let_def refuse_def split: if_splits option.splits)
  with i1 show "s_keys s1 \<noteq> None \<and> s_doc s1 = Some d \<and> wf_doc d \<and> s1 = s"
    using check_idle_unlocked by (auto simp: session_inv_def)
qed

lemma human_gate_inv:
  assumes "human_gate L actor op s = (r, s1)" and "session_inv s"
  shows "session_inv s1"
    "r = Inr d \<Longrightarrow> is_human_identity actor \<and> s_keys s1 \<noteq> None \<and> s_doc s1 = Some d \<and> wf_doc d \<and> s1 = s"
proof -
  let ?s = "check_idle L s"
  have i: "session_inv ?s" using assms(2) by (rule inv_check_idle)
  show i1: "session_inv s1"
    using assms(1) i
    by (auto simp: human_gate_def Let_def split: if_splits option.splits dest: refuse_inv)
  assume "r = Inr d"
  with assms(1) have "is_human_identity actor" "s_keys ?s \<noteq> None" "s1 = ?s" "s_doc s1 = Some d"
    by (auto simp: human_gate_def Let_def refuse_def split: if_splits option.splits)
  with i1 show "is_human_identity actor \<and> s_keys s1 \<noteq> None \<and> s_doc s1 = Some d \<and> wf_doc d \<and> s1 = s"
    using check_idle_unlocked by (auto simp: session_inv_def)
qed

section \<open>Changes and reads\<close>

lemma commit_with_inv:
  "commit_with L doc r prio s = (q, s') \<Longrightarrow> session_inv s \<Longrightarrow> wf_doc doc \<Longrightarrow> session_inv s'"
  using commit_with_step inv_commit commit_with_locked
  by (cases "s_keys s") (fastforce, metis option.distinct(1))

lemma finish_change_inv:
  assumes "finish_change L prio r dp out s = (q, s')" and "session_inv s"
    and "\<And>x doc. out = Inr (x, doc) \<Longrightarrow> wf_doc doc"
  shows "session_inv s'"
proof (cases out)
  case (Inl e)
  with assms show ?thesis by (auto simp: finish_change_def dest: refuse_inv)
next
  case (Inr xd)
  obtain x doc where xd: "xd = (x, doc)" by force
  obtain c s1 where c: "commit_with L doc r prio s = (c, s1)" by force
  have "session_inv s1" using commit_with_inv [OF c assms(2)] assms(3) Inr xd by simp
  then show ?thesis using assms(1) Inr xd c by (cases c) (auto simp: finish_change_def)
qed

lemma finish_read_inv: "finish_read L r out s = (q, s') \<Longrightarrow> session_inv s \<Longrightarrow> session_inv s'"
  by (metis inv_rec finish_read_step snd_conv)

text \<open>An operation on the cloned document keeps the session invariant when its change keeps the
  document invariant.\<close>

lemma human_change_inv:
  assumes "try_bind (with_doc L actor op project keys s)
      (\<lambda>doc s1. finish_change L (prio doc) r dp (f doc s1) s1) = (q, s')"
    and "session_inv s" and "\<And>d s1 x d'. wf_doc d \<Longrightarrow> f d s1 = Inr (x, d') \<Longrightarrow> wf_doc d'"
  shows "session_inv s'"
proof -
  obtain g s1 where g: "with_doc L actor op project keys s = (g, s1)" by force
  show ?thesis
  proof (cases g)
    case (Inl e)
    with assms(1) g with_doc_inv(1) [OF g assms(2)] show ?thesis by simp
  next
    case (Inr d)
    with assms(1) g with_doc_inv [OF g assms(2)] assms(3) show ?thesis
      by (auto elim!: finish_change_inv)
  qed
qed

lemma agent_change_inv:
  assumes "try_bind (agent_gate L actor op project keys s)
      (\<lambda>doc s1. finish_change L prio r dp (f doc s1) s1) = (q, s')"
    and "session_inv s" and "\<And>d s1 x d'. wf_doc d \<Longrightarrow> f d s1 = Inr (x, d') \<Longrightarrow> wf_doc d'"
  shows "session_inv s'"
proof -
  obtain g s1 where g: "agent_gate L actor op project keys s = (g, s1)" by force
  show ?thesis
  proof (cases g)
    case (Inl e)
    with assms(1) g agent_gate_inv(1) [OF g assms(2)] show ?thesis by simp
  next
    case (Inr d)
    with assms(1) g agent_gate_inv [OF g assms(2)] assms(3) show ?thesis
      by (auto elim!: finish_change_inv)
  qed
qed

text \<open>Reads behind any of the gates: whatever follows only records.\<close>

lemma gated_read_inv:
  assumes "try_bind (g s) k = (q, s')" and "session_inv s"
    and "\<And>r s1. g s = (r, s1) \<Longrightarrow> session_inv s1"
    and "\<And>d s1. rec_step s1 (snd (k d s1))"
  shows "session_inv s'"
proof -
  obtain r s1 where g: "g s = (r, s1)" by force
  show ?thesis
  proof (cases r)
    case (Inl e)
    with assms(1) g assms(3) [OF g] show ?thesis by simp
  next
    case (Inr d)
    with assms(1) g have "k d s1 = (q, s')" by simp
    with assms(4) [of s1 d] inv_rec assms(3) [OF g] show ?thesis by (metis snd_conv)
  qed
qed

end
