(* ===== verification/SessionOps.thy ===== *)
theory SessionOps
  imports SessionInv
begin

text \<open>
  Every public operation of a session keeps the session invariant.
\<close>

section \<open>Human operations on the document\<close>

lemma project_add_inv:
  assumes "project_add L actor name paths s = Some (q, s')" and "session_inv s"
  shows "session_inv s'"
proof -
  obtain r s1 where g: "with_doc L actor ''project.add'' (Some name) [] s = (r, s1)" by force
  note gi = with_doc_inv [OF g assms(2)]
  show ?thesis
  proof (cases r)
    case (Inl e)
    with assms(1) g gi(1) show ?thesis by (simp add: project_add_def)
  next
    case (Inr d)
    with assms(1) g obtain out w where o: "do_project_add d name paths (s_world s1) = Some (out, w)"
      and f: "finish_change L Ordinary (mk_record actor ''project.add'' (Some name) [] None Allowed None)
              (Some name) out (s1\<lparr>s_world := w\<rparr>) = (q, s')"
      by (auto simp: project_add_def)
    show ?thesis
      by (rule finish_change_inv [OF f]) (use gi Inr o do_project_add_wf in auto)
  qed
qed

lemma agent_add_inv:
  assumes "agent_add L actor name s = Some (q, s')" and "session_inv s"
  shows "session_inv s'"
proof -
  obtain r s1 where g: "with_doc L actor ''agents.add'' (Some name) [] s = (r, s1)" by force
  note gi = with_doc_inv [OF g assms(2)]
  show ?thesis
  proof (cases r)
    case (Inl e)
    with assms(1) g gi(1) show ?thesis by (simp add: agent_add_def)
  next
    case (Inr d)
    with assms(1) g obtain out w where o: "do_agent_add L d name (s_world s1) = Some (out, w)"
      and f: "finish_change L Ordinary (mk_record actor ''agents.add'' None [] None Allowed None)
              (Some name) out (s1\<lparr>s_world := w\<rparr>) = (q, s')"
      by (auto simp: agent_add_def)
    show ?thesis
      by (rule finish_change_inv [OF f]) (use gi Inr o do_agent_add_wf in fastforce)+
  qed
qed

lemma project_path_add_inv:
  "project_path_add L actor name path s = (q, s') \<Longrightarrow> session_inv s \<Longrightarrow> session_inv s'"
  unfolding project_path_add_def by (erule human_change_inv, assumption) (rule path_add.keeps)

lemma project_path_remove_inv:
  "project_path_remove L actor name path s = (q, s') \<Longrightarrow> session_inv s \<Longrightarrow> session_inv s'"
  unfolding project_path_remove_def by (erule human_change_inv, assumption) (rule path_remove.keeps)

lemma project_remove_inv:
  "project_remove L actor name s = (q, s') \<Longrightarrow> session_inv s \<Longrightarrow> session_inv s'"
  unfolding project_remove_def by (erule human_change_inv, assumption) (rule project_remove.keeps)

lemma secret_set_inv:
  "secret_set L actor project key val s = (q, s') \<Longrightarrow> session_inv s \<Longrightarrow> session_inv s'"
  unfolding secret_set_def by (erule human_change_inv, assumption) (rule secret_set.keeps)

lemma secret_delete_inv:
  "secret_delete L actor project key s = (q, s') \<Longrightarrow> session_inv s \<Longrightarrow> session_inv s'"
  unfolding secret_delete_def by (erule human_change_inv, assumption) (rule secret_delete.keeps)

lemma agent_revoke_inv:
  "agent_revoke L actor name s = (q, s') \<Longrightarrow> session_inv s \<Longrightarrow> session_inv s'"
  unfolding agent_revoke_def by (erule human_change_inv, assumption) (rule agent_revoke.keeps)

lemma grant_add_inv:
  "grant_add L actor agent project ops s = (q, s') \<Longrightarrow> session_inv s \<Longrightarrow> session_inv s'"
  unfolding grant_add_def by (erule human_change_inv, assumption) (rule grant_add.keeps)

lemma grant_revoke_inv:
  "grant_revoke L actor agent project s = (q, s') \<Longrightarrow> session_inv s \<Longrightarrow> session_inv s'"
  unfolding grant_revoke_def by (erule human_change_inv, assumption) (rule grant_revoke.keeps)

lemma project_list_inv: "project_list L actor s = (q, s') \<Longrightarrow> session_inv s \<Longrightarrow> session_inv s'"
  unfolding project_list_def by (erule gated_read_inv) (auto intro: gate_inv(1) finish_read_step)

lemma secret_list_inv: "secret_list L project actor s = (q, s') \<Longrightarrow> session_inv s \<Longrightarrow> session_inv s'"
  unfolding secret_list_def by (erule gated_read_inv) (auto intro: gate_inv(1) finish_read_step)

lemma agent_list_inv: "agent_list L actor s = (q, s') \<Longrightarrow> session_inv s \<Longrightarrow> session_inv s'"
  unfolding agent_list_def by (erule gated_read_inv) (auto intro: with_doc_inv(1) finish_read_step)

lemma grant_list_inv: "grant_list L actor s = (q, s') \<Longrightarrow> session_inv s \<Longrightarrow> session_inv s'"
  unfolding grant_list_def by (erule gated_read_inv) (auto intro: with_doc_inv(1) finish_read_step)

section \<open>Leases\<close>

lemma commit_then_inv:
  assumes "try_bind (commit L doc r s) (\<lambda>_ s1. (Inr x, s1)) = (q, s')" and "session_inv s" and "wf_doc doc"
  shows "session_inv s'"
proof -
  obtain c s1 where c: "commit L doc r s = (c, s1)" by force
  then have "session_inv s1" using assms(2,3) commit_with_inv unfolding commit_def by blast
  with assms(1) c show ?thesis by (cases c) simp_all
qed

lemma lease_create_inv:
  assumes r: "lease_create L actor agent_id project ops ttl s = Some (q, s')" and inv: "session_inv s"
  shows "session_inv s'"
proof -
  let ?s1 = "check_idle L s"
  have i: "session_inv ?s1" using inv by (rule inv_check_idle)
  have no: "refuse L actor ''lease.create'' (Some project) [] None e ?s1 = (q', t) \<Longrightarrow> session_inv t" for e and q' :: "'c res" and t
    using i by (rule refuse_inv [rotated])
  consider (refused) e where "refuse L actor ''lease.create'' (Some project) [] None e ?s1 = (q, s')"
    | (none) "s' = ?s1"
    | (go) d pid d1 where "s_doc ?s1 = Some d" "ops \<noteq> []"
        "check_new_lease d agent_id project ops (w_wall (s_world ?s1)) = Inr (pid, d1)"
    using r unfolding lease_create_def Let_def
    by (auto split: if_splits option.splits sum.splits)
  then show ?thesis
  proof cases
    case refused
    then show ?thesis by (rule no)
  next
    case none
    then show ?thesis using i by simp
  next
    case go
    show ?thesis
    proof (cases "\<exists>e. refuse L actor ''lease.create'' (Some project) [] None e ?s1 = (q, s')")
      case True
      then show ?thesis using no by blast
    next
      case False
      with go r obtain out w where m: "mint_lease L d1 agent_id pid ops ttl (w_wall (s_world ?s1)) (s_world ?s1) = Some (out, w)"
        and b: "try_bind (out, ?s1\<lparr>s_world := w\<rparr>) (\<lambda>(answer, doc') s2.
                   try_bind (commit L doc' (mk_record actor ''lease.create'' (Some project) [] None Allowed None) s2)
                     (\<lambda>_ s3. (Inr answer, s3))) = (q, s')"
        by (auto simp: lease_create_def Let_def split: if_splits)
      show ?thesis
      proof (cases out)
        case (Inl e)
        with b i show ?thesis by auto
      next
        case (Inr x)
        obtain l cred d' where x: "x = ((l, cred), d')" by (metis prod.collapse)
        have "wf_doc d" using i go(1) by (simp add: session_inv_def)
        from lease_create_wf [OF go(3) this go(2)] m Inr x have "wf_doc d'" by simp
        with b Inr x i show ?thesis by (auto elim!: commit_then_inv)
      qed
    qed
  qed
qed

lemma lease_list_inv: "lease_list L actor who s = (q, s') \<Longrightarrow> session_inv s \<Longrightarrow> session_inv s'"
  unfolding lease_list_def Let_def
  by (erule gated_read_inv) (auto intro: agent_gate_inv(1) audit_record_step)

lemma lease_revoke_inv: "lease_revoke L actor who lid s = (q, s') \<Longrightarrow> session_inv s \<Longrightarrow> session_inv s'"
  unfolding lease_revoke_def by (erule agent_change_inv, assumption) (rule lease_revoke.keeps)

lemma authorize_lease_inv:
  assumes "authorize_lease L agent_id project op cred s = (q, s')" and "session_inv s"
  shows "session_inv s'"
proof -
  let ?actor = "agent_prefix agent_id"
  obtain g s1 where g: "agent_gate L ?actor ''authorize'' (Some project) [] s = (g, s1)" by force
  note gi = agent_gate_inv [OF g assms(2)]
  show ?thesis
  proof (cases g)
    case (Inl e)
    with assms(1) g gi(1) show ?thesis by (simp add: authorize_lease_def)
  next
    case (Inr d)
    let ?v = "authorize_verdict L d agent_id project op cred (w_wall (s_world s1))"
    show ?thesis
    proof (cases ?v)
      case (Allow who)
      with assms(1) g Inr have "s' = snd (audit_record L who (mk_record who ''authorize'' (Some project) [] None Allowed None) s1)"
        by (simp add: authorize_lease_def Let_def)
      then show ?thesis using inv_rec [OF audit_record_step gi(1)] by simp
    next
      case (Deny e)
      with assms(1) g Inr have "refuse L ?actor ''authorize'' (Some project) [] None e s1 = (q, s')"
        by (simp add: authorize_lease_def Let_def)
      then show ?thesis using gi(1) by (rule refuse_inv)
    next
      case (Sweep lid)
      obtain c s2 where c: "commit L (sweep_lease d lid (w_wall (s_world s1)))
          (mk_record ?actor ''lease.invalidate'' (Some project) [] None Allowed None) s1 = (c, s2)" by force
      have "session_inv s2"
        using c gi Inr sweep_lease_wf commit_with_inv unfolding commit_def by blast
      moreover have "refuse L ?actor ''authorize'' (Some project) [] None LeaseExpired s2 = (q, s')"
        using assms(1) g Inr Sweep c by (simp add: authorize_lease_def Let_def)
      ultimately show ?thesis by (rule refuse_inv [rotated])
    qed
  qed
qed

section \<open>Approvals\<close>

lemma approval_request_inv:
  assumes r: "approval_request L actor agent_id project key s = Some (q, s')" and inv: "session_inv s"
  shows "session_inv s'"
proof -
  obtain g s1 where g: "agent_gate L actor ''approval.request'' (Some project) [key] s = (g, s1)" by force
  note gi = agent_gate_inv [OF g inv]
  show ?thesis
  proof (cases g)
    case (Inl e)
    with r g gi(1) show ?thesis by (simp add: approval_request_def)
  next
    case (Inr d)
    let ?now = "w_wall (s_world s1)"
    show ?thesis
    proof (cases "check_new_approval d agent_id project key ?now")
      case (Inl e)
      with r g Inr have "refuse L actor ''approval.request'' (Some project) [key] None e s1 = (q, s')"
        by (simp add: approval_request_def Let_def)
      then show ?thesis using gi(1) by (rule refuse_inv)
    next
      case c: (Inr pd)
      obtain pid d1 where pd: "pd = (pid, d1)" by force
      with r g Inr c obtain out w where m: "mint_approval d1 agent_id pid key ?now (s_world s1) = Some (out, w)"
        and b: "try_bind (out, s1\<lparr>s_world := w\<rparr>) (\<lambda>(a, doc') s2.
                   try_bind (commit L doc' (mk_record actor ''approval.request'' (Some project) [key] None Allowed None) s2)
                     (\<lambda>_ s3. (Inr a, s3))) = (q, s')"
        by (auto simp: approval_request_def Let_def)
      show ?thesis
      proof (cases out)
        case (Inl e)
        with b gi(1) show ?thesis by auto
      next
        case o: (Inr x)
        obtain a d' where x: "x = (a, d')" by force
        have "wf_doc d" using gi(2) Inr by simp
        from approval_request_wf [OF _ this] c pd m o x have "wf_doc d'" by blast
        with b o x gi(1) show ?thesis by (auto elim!: commit_then_inv)
      qed
    qed
  qed
qed

lemma approval_status_inv:
  "approval_status L agent_id aid s = (q, s') \<Longrightarrow> session_inv s \<Longrightarrow> session_inv s'"
  unfolding approval_status_def Let_def
  by (erule gated_read_inv) (auto intro: agent_gate_inv(1) audit_record_step refuse_step split: option.split)

lemma approval_pending_inv: "approval_pending L actor s = (q, s') \<Longrightarrow> session_inv s \<Longrightarrow> session_inv s'"
  unfolding approval_pending_def Let_def
  by (erule gated_read_inv) (auto intro: human_gate_inv(1) audit_record_step)

lemma approval_decide_inv:
  assumes "approval_decide L actor aid approve s = (q, s')" and "session_inv s"
  shows "session_inv s'"
proof -
  obtain g s1 where g: "human_gate L actor ''approval.decide'' s = (g, s1)" by force
  note gi = human_gate_inv [OF g assms(2)]
  show ?thesis
  proof (cases g)
    case (Inl e)
    with assms(1) g gi(1) show ?thesis by (simp add: approval_decide_def)
  next
    case (Inr d)
    show ?thesis
    proof (cases "do_approval_decide d aid approve (w_wall (s_world s1))")
      case (Inl e)
      with assms(1) g Inr have "refuse L actor ''approval.decide'' None [] None e s1 = (q, s')"
        by (simp add: approval_decide_def)
      then show ?thesis using gi(1) by (rule refuse_inv)
    next
      case o: (Inr x)
      obtain d' where x: "x = ((), d')" by (cases x) auto
      have "wf_doc d'" using approval_decide.keeps o x gi(2) Inr by blast
      then show ?thesis
        using assms(1) g Inr o x gi(1) commit_with_inv by (fastforce simp: approval_decide_def commit_def)
    qed
  qed
qed

lemma reveal_claim_inv:
  "reveal_claim L actor agent_id project key aid s = (q, s') \<Longrightarrow> session_inv s \<Longrightarrow> session_inv s'"
  unfolding reveal_claim_def by (erule agent_change_inv, assumption) (rule reveal_claim.keeps)

lemma reveal_human_inv:
  "reveal_human L actor project key s = (q, s') \<Longrightarrow> session_inv s \<Longrightarrow> session_inv s'"
  unfolding reveal_human_def by (erule gated_read_inv) (auto intro: agent_gate_inv(1) finish_read_step)

section \<open>Lock, collection, save, unlock\<close>

lemma lock_persist_inv: "lock_persist L s = (q, s') \<Longrightarrow> session_inv s \<Longrightarrow> session_inv s'"
  by (rule lock_persist_cases [of L s]) (auto intro: inv_lock)

lemma gc_inv: "gc_terminal_credentials s = (r, s') \<Longrightarrow> session_inv s \<Longrightarrow> session_inv s'"
proof (cases "s_doc s")
  case (Some d)
  assume g: "gc_terminal_credentials s = (r, s')" and i: "session_inv s"
  have s': "s' = s\<lparr>s_doc := Some (fst (purge_terminal d (w_wall (s_world s))))\<rparr>"
    using g Some by (auto simp: gc_terminal_credentials_def split: prod.splits)
  have "d_agents (fst (purge_terminal d t)) = d_agents d" for t
    by (simp add: purge_terminal_def Let_def)
  then have "digest_index (fst (purge_terminal d t)) = digest_index d" for t
    by (rule digest_index_agents)
  with i Some purge_terminal_wf [of d] show ?thesis
    by (auto simp: s' session_inv_def sessions_ok_def)
qed (simp add: gc_terminal_credentials_def)

lemma inv_activity [simp]: "session_inv (s\<lparr>s_last_activity := t\<rparr>) = session_inv s"
  "session_inv (s\<lparr>s_idle_self_lock := b\<rparr>) = session_inv s"
  "session_inv (s\<lparr>s_envelope := env\<rparr>) = session_inv s"
  by (simp_all add: session_inv_def sessions_ok_def)

lemma require_keys_inv: "require_keys L s = (q, s') \<Longrightarrow> session_inv s \<Longrightarrow> session_inv s'"
  using inv_check_idle [of s L] by (auto simp: require_keys_def Let_def split: option.splits)

lemma save_session_inv:
  assumes "save_session L s = (q, s')" and "session_inv s"
  shows "session_inv s'"
proof -
  have i: "session_inv (check_idle L s)" using assms(2) by (rule inv_check_idle)
  obtain env w act where "s' = check_idle L s \<or> s' = (check_idle L s)\<lparr>s_last_activity := act\<rparr>
      \<or> s' = (check_idle L s)\<lparr>s_last_activity := act, s_envelope := env, s_world := w\<rparr>"
    using assms(1) unfolding save_session_def Let_def
    by (auto simp: try_bind_def split: option.splits prod.splits sum.splits)
  then show ?thesis using i by auto
qed

lemma do_unlock_inv:
  assumes "do_unlock L derived s = (q, s')" and "session_inv s"
    and "\<And>ks ak d. open_vault L derived s = Inr (ks, ak, d) \<Longrightarrow> wf_doc d"
  shows "session_inv s'"
proof (cases "open_vault L derived s")
  case (Inl e)
  with assms show ?thesis by (auto simp: do_unlock_def)
next
  case (Inr x)
  obtain ks ak d where x: "x = (ks, ak, d)" by (cases x) auto
  with assms Inr show ?thesis
    by (auto simp: do_unlock_def session_inv_def sessions_ok_def rebuild_agent_digests_eq)
qed

lemma unlock_with_proof_inv:
  assumes "unlock_with_proof L derived s = (q, s')" and "session_inv s"
    and "\<And>ks ak d. open_vault L derived s = Inr (ks, ak, d) \<Longrightarrow> wf_doc d"
  shows "session_inv s'"
proof -
  obtain r s1 where u: "do_unlock L derived s = (r, s1)" by force
  have i: "session_inv s1" using do_unlock_inv [OF u assms(2,3)] .
  show ?thesis
  proof (cases r)
    case (Inl e)
    with assms(1) u i inv_rec [OF record_with_steps i] show ?thesis
      by (auto simp: unlock_with_proof_def split: if_splits)
  next
    case (Inr x)
    with assms(1) u inv_rec [OF audit_record_lifecycle_step i] show ?thesis
      by (auto simp: unlock_with_proof_def Let_def)
  qed
qed

section \<open>Human sessions\<close>

lemma drop_session_ok:
  "distinct (map fst tab) \<Longrightarrow> distinct (map fst (drop_session k tab))"
  "length (drop_session k tab) \<le> length tab" "set (drop_session k tab) \<subseteq> set tab"
  "k \<notin> fst ` set (drop_session k tab)"
  by (auto simp: drop_session_def distinct_map_filter)

lemma drop_session_length: "k \<in> fst ` set tab \<Longrightarrow> length (drop_session k tab) < length tab"
  unfolding drop_session_def by (auto intro!: length_filter_less)

lemma inv_sub_sessions:
  assumes "session_inv s" and "distinct (map fst tab)" and "length tab \<le> length (s_sessions s)"
    and "set tab \<subseteq> set (s_sessions s)"
  shows "session_inv (s\<lparr>s_sessions := tab\<rparr>)"
  using assms by (fastforce simp: session_inv_def sessions_ok_def)

lemma inv_distinct: "session_inv s \<Longrightarrow> distinct (map fst (s_sessions s))"
  by (simp add: session_inv_def sessions_ok_def)

lemma sweep_lapsed_inv: "session_inv s \<Longrightarrow> session_inv (sweep_lapsed_sessions s)"
  unfolding sweep_lapsed_sessions_def
  by (rule inv_sub_sessions) (auto simp: distinct_map_filter inv_distinct)

lemma oldest_session_in: "oldest_session tab = Some ke \<Longrightarrow> ke \<in> set tab"
  by (induction tab arbitrary: ke) (auto split: option.splits if_splits)

lemma oldest_session_None [simp]: "oldest_session tab = None \<longleftrightarrow> tab = []"
  by (cases tab rule: oldest_session.cases) (auto split: option.splits if_splits)

lemma evict_oldest_inv:
  assumes "session_inv s"
  shows "session_inv (evict_oldest s)" "length (s_sessions (evict_oldest s)) < MAX_SESSIONS"
proof -
  show "session_inv (evict_oldest s)"
    using assms drop_session_ok [where tab = "s_sessions s"] inv_distinct [OF assms]
    by (auto simp: evict_oldest_def intro!: inv_sub_sessions split: option.split)
  have le: "length (s_sessions s) \<le> MAX_SESSIONS" using assms by (simp add: session_inv_def sessions_ok_def)
  show "length (s_sessions (evict_oldest s)) < MAX_SESSIONS"
  proof (cases "length (s_sessions s) \<ge> MAX_SESSIONS")
    case True
    then obtain k e where o: "oldest_session (s_sessions s) = Some (k, e)"
      by (cases "oldest_session (s_sessions s)") (auto simp: MAX_SESSIONS_def)
    then have "k \<in> fst ` set (s_sessions s)" by (force dest: oldest_session_in)
    from drop_session_length [OF this] True o le show ?thesis by (simp add: evict_oldest_def)
  qed (simp add: evict_oldest_def)
qed

lemma inv_log:
  "log_step (s_audit s) (s_world s) lg w \<Longrightarrow> session_inv s \<Longrightarrow> session_inv (s\<lparr>s_audit := lg, s_world := w\<rparr>)"
  by (rule inv_rec [OF log_step_rec_step])

lemma inv_resync: "session_inv s \<Longrightarrow> session_inv (s\<lparr>s_audit := resync L w (s_audit s)\<rparr>)"
  by (simp add: session_inv_def sessions_ok_def)

lemma inv_put_session:
  assumes "session_inv s" and "s_keys s \<noteq> None" and "length (s_sessions s) < MAX_SESSIONS"
    and "1 \<le> hs_ttl e" "hs_ttl e \<le> SESSION_MAX_TTL_SECS"
  shows "session_inv (s\<lparr>s_sessions := put_session k e (s_sessions s)\<rparr>)"
proof -
  note d = drop_session_ok [where tab = "s_sessions s" and k = k]
  have "distinct (map fst (put_session k e (s_sessions s)))"
    using d(1,4) inv_distinct [OF assms(1)] by (simp add: put_session_def)
  moreover have "length (put_session k e (s_sessions s)) \<le> MAX_SESSIONS"
    using d(2) assms(3) by (simp add: put_session_def)
  moreover have "\<forall>(k, e)\<in>set (put_session k e (s_sessions s)). 1 \<le> hs_ttl e \<and> hs_ttl e \<le> SESSION_MAX_TTL_SECS"
    using assms(1,4,5) d(3) by (auto simp: put_session_def session_inv_def sessions_ok_def)
  ultimately show ?thesis using assms(1,2) by (auto simp: session_inv_def sessions_ok_def)
qed

lemma session_open_inv:
  assumes r: "session_open L actor ttl s = (q, s')" and inv: "session_inv s"
  shows "session_inv s'"
proof (cases "s_keys s = None \<or> s_doc s = None \<or> \<not> (1 \<le> ttl \<and> ttl \<le> SESSION_MAX_TTL_SECS)")
  case True
  then obtain e where "refuse L actor ''session.open'' None [] None e s = (q, s')"
    using r by (auto simp: session_open_def split: if_splits)
  then show ?thesis using inv by (rule refuse_inv)
next
  case ok: False
  let ?s1 = "evict_oldest (sweep_lapsed_sessions s)"
  note e = evict_oldest_inv [OF sweep_lapsed_inv [OF inv]]
  have keys: "s_keys ?s1 = s_keys s"
    by (simp add: evict_oldest_def sweep_lapsed_sessions_def split: option.split)
  let ?st = "stage L (mk_record actor ''session.open'' None [] None Allowed None)
      (s_audit_key ?s1) Ordinary (s_audit ?s1) (s_world ?s1)"
  obtain g w where g: "generate_capability L (s_world ?s1) = (g, w)" by force
  have i3: "session_inv (?s1\<lparr>s_world := w\<rparr>)" using e(1) by simp
  show ?thesis
  proof (cases "\<exists>e. ?st = Inl e \<or> g = Inl e")
    case True
    then have "s' = ?s1 \<or> s' = ?s1\<lparr>s_world := w\<rparr>"
      using r ok g by (auto simp: session_open_def Let_def split: sum.splits)
    then show ?thesis using e(1) i3 by auto
  next
    case False
    then obtain st c where st: "?st = Inr st" and c: "g = Inr c" by (meson sum.exhaust)
    obtain cred digest prefix where [simp]: "c = (cred, digest, prefix)" by (cases c) auto
    let ?e = "\<lparr>hs_prefix = prefix, hs_minted_at = w_mono w, hs_last_used = w_mono w, hs_ttl = ttl\<rparr>"
    let ?s4 = "?s1\<lparr>s_world := w, s_sessions := put_session digest ?e (s_sessions ?s1)\<rparr>"
    have i4: "session_inv ?s4"
      using inv_put_session [OF i3, of ?e digest] keys ok e(2) by simp
    obtain a lg w' where ap: "append_staged L st (s_audit ?s4) (s_world ?s4) = (a, lg, w')" by (metis prod_cases3)
    let ?s5 = "?s4\<lparr>s_audit := lg, s_world := w'\<rparr>"
    have i5: "session_inv ?s5" by (rule inv_log [OF append_staged_step [OF ap] i4])
    have "s' = ?s5 \<or> s' = ?s5\<lparr>s_sessions := drop_session digest (s_sessions ?s5)\<rparr>"
      using r ok g st c ap by (cases a) (auto simp: session_open_def Let_def)
    moreover have "session_inv (?s5\<lparr>s_sessions := drop_session digest (s_sessions ?s5)\<rparr>)"
      using drop_session_ok [where tab = "s_sessions ?s5"] inv_distinct [OF i5]
      by (intro inv_sub_sessions [OF i5]) auto
    ultimately show ?thesis using i5 by auto
  qed
qed

lemma validate_session_inv:
  "validate_session L cred s = (q, s') \<Longrightarrow> session_inv s \<Longrightarrow> session_inv s'"
  using drop_session_ok [where tab = "s_sessions s"] inv_distinct [of s]
  by (auto simp: validate_session_def Let_def split: option.splits if_splits intro!: inv_sub_sessions)

lemma authorize_session_inv:
  assumes "authorize_session L cred s = (q, s')" and "session_inv s"
  shows "session_inv s'"
proof -
  obtain r s1 where v: "validate_session L cred s = (r, s1)" by force
  note i = validate_session_inv [OF v assms(2)]
  show ?thesis using assms(1) v i refuse_inv [OF _ i]
    by (cases r) (auto simp: authorize_session_def)
qed

lemma slide_session_inv: "session_inv s \<Longrightarrow> session_inv (slide_session L cred s)"
proof (cases "map_of (s_sessions s) (token_digest L cred)")
  case (Some e)
  assume i: "session_inv s"
  let ?d = "token_digest L cred" and ?e = "e\<lparr>hs_last_used := w_mono (s_world s)\<rparr>"
  let ?tab = "AList.update ?d ?e (s_sessions s)"
  have mem: "(?d, e) \<in> set (s_sessions s)" using Some by (rule map_of_SomeD)
  then have keys: "map fst ?tab = map fst (s_sessions s)" by (force simp: update_keys)
  have d: "distinct (map fst (s_sessions s))" using i by (rule inv_distinct)
  have "\<forall>(k, x)\<in>set ?tab. 1 \<le> hs_ttl x \<and> hs_ttl x \<le> SESSION_MAX_TTL_SECS"
  proof clarify
    fix k x assume kx: "(k, x) \<in> set ?tab"
    have "distinct (map fst ?tab)" using d keys by simp
    then have "map_of ?tab k = Some x" using kx by simp
    then have "x = ?e \<or> (k, x) \<in> set (s_sessions s)"
      by (auto simp: update_conv' dest: map_of_SomeD split: if_splits)
    then show "1 \<le> hs_ttl x \<and> hs_ttl x \<le> SESSION_MAX_TTL_SECS"
      using i mem by (auto simp: session_inv_def sessions_ok_def)
  qed
  moreover have "length ?tab = length (s_sessions s)" using keys by (metis length_map)
  ultimately show ?thesis
    using i keys mem d Some by (auto simp: slide_session_def session_inv_def sessions_ok_def)
qed (simp add: slide_session_def)

lemma session_touch_inv:
  assumes "session_touch L cred s = (q, s')" and "session_inv s"
  shows "session_inv s'"
proof -
  obtain r s1 where v: "validate_session L cred s = (r, s1)" by force
  note i = validate_session_inv [OF v assms(2)]
  show ?thesis
  proof (cases r)
    case (Inl e)
    with assms(1) v refuse_inv [OF _ i] show ?thesis by (auto simp: session_touch_def)
  next
    case (Inr prefix)
    let ?r = "mk_record (session_actor prefix) ''session.touch'' None [] None Allowed None"
    have i3: "session_inv (slide_session L cred s1)" using i by (rule slide_session_inv)
    show ?thesis
    proof (cases "stage L ?r (s_audit_key s1) Ordinary (s_audit s1) (s_world s1)")
      case (Inl e)
      with assms(1) v Inr refuse_inv [OF _ i] show ?thesis by (auto simp: session_touch_def Let_def)
    next
      case (Inr st)
      then have "s' = slide_session L cred s1
          \<or> s' = snd (audit_record L (session_actor prefix) ?r (slide_session L cred s1))"
        using assms(1) v \<open>r = Inr prefix\<close> by (auto simp: session_touch_def Let_def split: option.splits)
      then show ?thesis using i3 inv_rec [OF audit_record_step i3] by auto
    qed
  qed
qed

lemma inv_recorded: "session_inv s \<Longrightarrow> session_inv (snd (record_with L r key prio s))"
  by (rule inv_rec [OF record_with_steps])

lemma session_close_inv:
  assumes "session_close L cred s = (q, s')" and "session_inv s"
  shows "session_inv s'"
proof -
  obtain r s1 where v: "validate_session L cred s = (r, s1)" by force
  note i = validate_session_inv [OF v assms(2)]
  have "session_inv (s1\<lparr>s_sessions := drop_session k (s_sessions s1)\<rparr>)" for k
    using drop_session_ok [where tab = "s_sessions s1"] inv_distinct [OF i] by (intro inv_sub_sessions [OF i]) auto
  then show ?thesis
    using assms(1) v refuse_inv [OF _ i] by (cases r) (auto simp: session_close_def Let_def intro: inv_recorded)
qed

end
