(* ===== verification/SessionMachine.thy ===== *)
theory SessionMachine
  imports SessionOps
begin

text \<open>
  The daemon's session as a state machine: one step is one public operation, or any change of the
  machine around it (time, files, other processes). An unlock adopts whatever the vault file
  decrypts to; the rule assumes that what decrypts was sealed by this program, so that it is well
  formed. The invariant holds in every reachable state.
\<close>

inductive session_step :: "('z) vault_lib_scheme \<Rightarrow> session \<Rightarrow> session \<Rightarrow> bool"
  for L :: "('z) vault_lib_scheme" where
  machine: "session_step L s (s\<lparr>s_world := w\<rparr>)"
| idle: "session_step L s (check_idle L s)"
| lock: "lock_persist L s = (r, s') \<Longrightarrow> session_step L s s'"
| unlock: "unlock_with_proof L derived s = (r, s') \<Longrightarrow>
    (\<And>ks ak d. open_vault L derived s = Inr (ks, ak, d) \<Longrightarrow> wf_doc d) \<Longrightarrow> session_step L s s'"
| save: "save_session L s = (r, s') \<Longrightarrow> session_step L s s'"
| require_keys: "require_keys L s = (r1, s') \<Longrightarrow> session_step L s s'"
| defer_idle: "session_step L s (defer_idle_lock s)"
| gc: "gc_terminal_credentials s = (r2, s') \<Longrightarrow> session_step L s s'"
| project_add: "project_add L actor name paths s = Some (r3, s') \<Longrightarrow> session_step L s s'"
| project_list: "project_list L actor s = (r4, s') \<Longrightarrow> session_step L s s'"
| project_path_add: "project_path_add L actor name path s = (r, s') \<Longrightarrow> session_step L s s'"
| project_path_remove: "project_path_remove L actor name path s = (r, s') \<Longrightarrow> session_step L s s'"
| project_remove: "project_remove L actor name s = (r, s') \<Longrightarrow> session_step L s s'"
| secret_set: "secret_set L actor project key val s = (r, s') \<Longrightarrow> session_step L s s'"
| secret_list: "secret_list L project actor s = (r5, s') \<Longrightarrow> session_step L s s'"
| secret_delete: "secret_delete L actor project key s = (r, s') \<Longrightarrow> session_step L s s'"
| agent_add: "agent_add L actor name s = Some (r6, s') \<Longrightarrow> session_step L s s'"
| agent_revoke: "agent_revoke L actor name s = (r, s') \<Longrightarrow> session_step L s s'"
| agent_list: "agent_list L actor s = (r7, s') \<Longrightarrow> session_step L s s'"
| grant_add: "grant_add L actor agent project ops s = (r, s') \<Longrightarrow> session_step L s s'"
| grant_revoke: "grant_revoke L actor agent project s = (r, s') \<Longrightarrow> session_step L s s'"
| grant_list: "grant_list L actor s = (r8, s') \<Longrightarrow> session_step L s s'"
| lease_create: "lease_create L actor agent_id project ops ttl s = Some (r9, s') \<Longrightarrow> session_step L s s'"
| lease_list: "lease_list L actor who s = (r10, s') \<Longrightarrow> session_step L s s'"
| lease_revoke: "lease_revoke L actor who lid s = (r, s') \<Longrightarrow> session_step L s s'"
| authorize_lease: "authorize_lease L agent_id project op cred s = (r11, s') \<Longrightarrow> session_step L s s'"
| approval_request: "approval_request L actor agent_id project key s = Some (r12, s') \<Longrightarrow> session_step L s s'"
| approval_status: "approval_status L agent_id aid s = (r11, s') \<Longrightarrow> session_step L s s'"
| approval_pending: "approval_pending L actor s = (r13, s') \<Longrightarrow> session_step L s s'"
| approval_decide: "approval_decide L actor aid approve s = (r, s') \<Longrightarrow> session_step L s s'"
| reveal_claim: "reveal_claim L actor agent_id project key aid s = (r11, s') \<Longrightarrow> session_step L s s'"
| reveal_human: "reveal_human L actor project key s = (r11, s') \<Longrightarrow> session_step L s s'"
| session_open: "session_open L actor ttl s = (r14, s') \<Longrightarrow> session_step L s s'"
| authorize_session: "authorize_session L cred s = (r11, s') \<Longrightarrow> session_step L s s'"
| slide: "session_step L s (slide_session L cred s)"
| session_touch: "session_touch L cred s = (r15, s') \<Longrightarrow> session_step L s s'"
| session_close: "session_close L cred s = (r11, s') \<Longrightarrow> session_step L s s'"
| audit_show: "audit_show_page L actor n before s = (r16, s') \<Longrightarrow> session_step L s s'"
| run_audit: "run_record_with L rr prio s = (r, s') \<Longrightarrow> session_step L s s'"
| denied_code: "session_step L s (audit_denied_code L actor op' pr reason s)"

lemma audit_show_page_inv:
  assumes "audit_show_page L actor n before s = (q, s')" and "session_inv s"
  shows "session_inv s'"
proof (cases "read_all L (s_audit_path s) (s_world s)")
  case (Inl e)
  with assms show ?thesis by (auto simp: audit_show_page_def)
next
  case (Inr ls)
  let ?r = "mk_record actor ''audit.show'' None [] None Allowed None"
  obtain c s1 where c: "audit_record L actor ?r s = (c, s1)" by force
  have "session_inv s1" using inv_rec [OF audit_record_step assms(2)] c by (metis snd_conv)
  with assms(1) Inr c show ?thesis by (cases c) (auto simp: audit_show_page_def)
qed

lemma session_step_inv: "session_step L s s' \<Longrightarrow> session_inv s \<Longrightarrow> session_inv s'"
proof (induction rule: session_step.induct)
  case (machine s w) then show ?case by simp
next
  case (idle s) then show ?case by (rule inv_check_idle)
next
  case (lock s r s') then show ?case by (rule lock_persist_inv)
next
  case (unlock derived s r s') then show ?case by (blast intro: unlock_with_proof_inv)
next
  case (save s r s') then show ?case by (rule save_session_inv)
next
  case (defer_idle s) then show ?case by (simp add: defer_idle_lock_def)
next
  case (run_audit rr prio s r s')
  then show ?case using inv_rec [OF run_record_step] by (metis snd_conv)
next
  case (denied_code s actor op' pr reason)
  then show ?case using inv_rec [OF audit_denied_code_step] by blast
qed (blast intro: require_keys_inv gc_inv project_add_inv project_list_inv project_path_add_inv
      project_path_remove_inv project_remove_inv secret_set_inv secret_list_inv secret_delete_inv
      agent_add_inv agent_revoke_inv agent_list_inv grant_add_inv grant_revoke_inv grant_list_inv
      lease_create_inv lease_list_inv lease_revoke_inv authorize_lease_inv approval_request_inv
      approval_status_inv approval_pending_inv approval_decide_inv reveal_claim_inv reveal_human_inv
      session_open_inv authorize_session_inv slide_session_inv session_touch_inv session_close_inv
      audit_show_page_inv)+

lemma session_steps_inv: "(session_step L)\<^sup>*\<^sup>* s s' \<Longrightarrow> session_inv s \<Longrightarrow> session_inv s'"
  by (induction rule: rtranclp_induct) (auto dest: session_step_inv)

lemma fresh_session_inv:
  "session_inv (fresh_session path env None None None lg lock idle w) \<longleftrightarrow> lg_path lg = audit_path path"
  by (simp add: fresh_session_def session_inv_def sessions_ok_def)

end
