(* ===== verification/EnvelopeTheorems.thy ===== *)
theory EnvelopeTheorems
  imports Envelope
begin

text \<open>
  What the envelope promises: reader and writer agree exactly on what can be persisted, a fresh
  envelope opens with its passphrase to its document, resealing replaces the document only, the
  cost of an unlock is bounded whatever the header says, and a wrong passphrase is reported as
  \<open>Auth\<close> and nothing else.
\<close>

definition aead_law :: "('z) crypto_lib_scheme \<Rightarrow> bool" where
  "aead_law L \<longleftrightarrow> (\<forall>k n ad pt. aead_open L k n ad (aead_seal L k n ad pt) = Some pt)"

definition aead_sizes :: "('z) crypto_lib_scheme \<Rightarrow> bool" where
  "aead_sizes L \<longleftrightarrow> (\<forall>k n ad pt. length (aead_seal L k n ad pt) = length pt + TAG_LEN)"

text \<open>A well-formed envelope: what a parse accepts and a seal produces.\<close>

definition env_wf :: "envelope \<Rightarrow> bool" where
  "env_wf env \<longleftrightarrow> check_header (en_header env) = Inr () \<and> length (en_nonce env) = NONCE_LEN
     \<and> TAG_LEN \<le> length (en_ct env)"

section \<open>Little-endian lengths\<close>

lemma u32_le_simps: "u32_le n = [char_of (n mod 256), char_of (n div 256 mod 256),
    char_of (n div 65536 mod 256), char_of (n div 16777216 mod 256)]"
proof -
  have "[0..<4] = [0, 1, 2, 3::nat]" by code_simp
  then show ?thesis by (simp add: u32_le_def)
qed

lemma length_u32_le [simp]: "length (u32_le n) = 4"
  by (simp add: u32_le_simps)

lemma of_u32_le_u32_le: "n < 2 ^ 32 \<Longrightarrow> of_u32_le (u32_le n) = n"
proof -
  assume n: "n < 2 ^ 32"
  have "n div 16777216 < 256" using n by (simp add: less_mult_imp_div_less)
  moreover have "n mod 256 + 256 * (n div 256) = n" by simp
  moreover have "n div 256 mod 256 + 256 * (n div 65536) = n div 256"
    using mod_mult_div_eq [of "n div 256" 256] by (simp add: div_mult2_eq [symmetric])
  moreover have "n div 65536 mod 256 + 256 * (n div 16777216) = n div 65536"
    using mod_mult_div_eq [of "n div 65536" 256] by (simp add: div_mult2_eq [symmetric])
  ultimately show ?thesis by (simp add: u32_le_simps of_u32_le_def)
qed

lemma of_u32_le_version [simp]: "of_u32_le (u32_le VERSION) = VERSION"
  by (rule of_u32_le_u32_le) (simp add: VERSION_def)

section \<open>Reading what was written\<close>

lemma to_bytes_parts:
  "length (to_bytes L env) = PREFIX_LEN + length (hdr_ser L (en_header env)) + length (en_nonce env) + length (en_ct env)"
  "take (length MAGIC) (to_bytes L env) = MAGIC"
  "take 4 (drop (length MAGIC) (to_bytes L env)) = u32_le VERSION"
  "take 4 (drop (length MAGIC + 4) (to_bytes L env)) = u32_le (length (hdr_ser L (en_header env)))"
  "drop PREFIX_LEN (to_bytes L env) = hdr_ser L (en_header env) @ en_nonce env @ en_ct env"
  by (simp_all add: to_bytes_def Let_def PREFIX_LEN_def)

lemma parse_to_bytes:
  assumes wf: "env_wf env" and rt: "hdr_de L (hdr_ser L (en_header env)) = Some (en_header env)"
    and ok: "validate_persistable L env = Inr ()"
  shows "parse_envelope L (to_bytes L env) = Inr env"
proof -
  let ?n = "length (hdr_ser L (en_header env))"
  from ok have len: "?n \<le> MAX_HEADER_LEN" "PREFIX_LEN + ?n + NONCE_LEN + length (en_ct env) \<le> MAX_FILE_LEN"
    by (auto simp: validate_persistable_def Let_def PREFIX_LEN_def split: if_splits)
  then have "?n < 2 ^ 32" by (simp add: MAX_HEADER_LEN_def)
  note n = of_u32_le_u32_le [OF this]
  from wf have h: "check_header (en_header env) = Inr ()" "length (en_nonce env) = NONCE_LEN"
      "TAG_LEN \<le> length (en_ct env)" by (simp_all add: env_wf_def)
  show ?thesis
    unfolding parse_envelope_def to_bytes_parts n Let_def of_u32_le_version
    using len h rt by simp
qed

lemma parse_refuses:
  assumes "\<not> is_ok (validate_persistable L env)" and "length (en_nonce env) = NONCE_LEN"
  shows "parse_envelope L (to_bytes L env) \<noteq> Inr env'"
proof -
  let ?n = "length (hdr_ser L (en_header env))"
  consider (big) "PREFIX_LEN + ?n + NONCE_LEN + length (en_ct env) > MAX_FILE_LEN"
    | (hdr) "?n > MAX_HEADER_LEN" "PREFIX_LEN + ?n + NONCE_LEN + length (en_ct env) \<le> MAX_FILE_LEN"
    using assms(1) by (fastforce simp: validate_persistable_def Let_def PREFIX_LEN_def split: if_splits)
  then show ?thesis
  proof cases
    case big
    then show ?thesis using assms(2) by (simp add: parse_envelope_def to_bytes_parts)
  next
    case hdr
    then have "?n < 2 ^ 32" by (simp add: MAX_FILE_LEN_def)
    note n = of_u32_le_u32_le [OF this]
    show ?thesis
      unfolding parse_envelope_def to_bytes_parts n Let_def of_u32_le_version using hdr by simp
  qed
qed

text \<open>C15: the writer's size check is exactly the reader's: a well-formed envelope reads back as
  itself from its bytes if and only if \<open>validate_persistable\<close> accepts it, so what passes the check
  can always be reopened and what fails it never could.\<close>

theorem envelope_persistable_iff_readable:
  assumes "env_wf env" and "hdr_de L (hdr_ser L (en_header env)) = Some (en_header env)"
  shows "validate_persistable L env = Inr () \<longleftrightarrow> parse_envelope L (to_bytes L env) = Inr env"
proof
  assume "validate_persistable L env = Inr ()"
  with assms show "parse_envelope L (to_bytes L env) = Inr env" by (rule parse_to_bytes)
next
  assume p: "parse_envelope L (to_bytes L env) = Inr env"
  have "is_ok (validate_persistable L env)"
    using parse_refuses [of L env env] p assms(1) by (auto simp: env_wf_def)
  then show "validate_persistable L env = Inr ()" by (rule is_okE) simp
qed

definition toy_header :: vault_header where
  "toy_header = \<lparr>vh_created_at = 0, vh_slots = [\<lparr>sl_id = ''s'', sl_kind = Passphrase,
     sl_kdf = argon2id_defaults, sl_salt = replicate 16 CHR 0x00, sl_nonce = replicate 24 CHR 0x00,
     sl_wrapped_mek = replicate 48 CHR 0x00\<rparr>],
     vh_dek = \<lparr>wk_nonce = replicate 24 CHR 0x00, wk_wrapped = replicate 48 CHR 0x00\<rparr>\<rparr>"

definition toy_envelope :: envelope where
  "toy_envelope = \<lparr>en_header = toy_header, en_nonce = replicate 24 CHR 0x00, en_ct = replicate 16 CHR 0x00\<rparr>"

definition toy_envelope_lib :: envelope_lib where
  "toy_envelope_lib = audit_lib.extend toy_audit
     \<lparr>hdr_ser = (\<lambda>_. ''{}''), hdr_de = (\<lambda>_. Some toy_header)\<rparr>"

lemma toy_envelope_wf: "env_wf toy_envelope"
  by (simp add: env_wf_def toy_envelope_def toy_header_def check_header_def MAX_SLOTS_def slot_lengths_ok_def
      SALT_LEN_def NONCE_LEN_def KEY_LEN_def TAG_LEN_def)

lemma toy_envelope_io:
  "hdr_de toy_envelope_lib (hdr_ser toy_envelope_lib (en_header toy_envelope)) = Some (en_header toy_envelope)"
  "validate_persistable toy_envelope_lib toy_envelope = Inr ()"
  by (simp_all add: toy_envelope_lib_def toy_envelope_def audit_lib.defs validate_persistable_def
      MAX_HEADER_LEN_def MAX_FILE_LEN_def MAGIC_def NONCE_LEN_def)

theorem envelope_persistable_iff_readable_witness:
  "parse_envelope toy_envelope_lib (to_bytes toy_envelope_lib toy_envelope) = Inr toy_envelope"
  using envelope_persistable_iff_readable [OF toy_envelope_wf toy_envelope_io(1)] toy_envelope_io(2)
  by blast

section \<open>Cost of an unlock\<close>

lemma recipe_entries_bounds:
  "recipe_entries i ss = Inr es \<Longrightarrow>
    length es \<le> length ss \<and> (\<forall>(j, kdf, salt)\<in>set es. validate_kdf kdf = Inr () \<and> length salt = SALT_LEN)"
  by (induction ss arbitrary: i es) (fastforce simp: res_bind_Inr_iff split: if_splits)+

lemma validate_kdf_iff:
  "validate_kdf k = Inr () \<longleftrightarrow> k_algo k = ARGON2ID \<and> MIN_M_KIB \<le> k_m_kib k \<and> k_m_kib k \<le> MAX_M_KIB
    \<and> MIN_T \<le> k_t k \<and> k_t k \<le> MAX_T \<and> 1 \<le> k_p k \<and> k_p k \<le> MAX_P"
  by (auto simp: validate_kdf_def)

lemma argon2id_defaults_valid: "validate_kdf argon2id_defaults = Inr ()"
  by (simp add: validate_kdf_iff argon2id_defaults_def MIN_M_KIB_def MAX_M_KIB_def MIN_T_def MAX_T_def MAX_P_def)

lemma parse_envelope_header:
  assumes "parse_envelope L bytes = Inr env"
  shows "check_header (en_header env) = Inr ()"
  using assms
  by (auto simp: parse_envelope_def Let_def res_bind_Inr_iff split: if_splits)

text \<open>C16: whatever bytes are presented as a vault, an unlock of what \<open>parse\<close> accepts derives at
  most eight keys, each with Argon2id parameters inside the accepted bounds; a header that asks
  for more is refused before anything is derived.\<close>

theorem unlock_cost_bounded:
  assumes "parse_envelope L bytes = Inr env" and "kek_recipe_of env = Inr recipe"
  shows "0 < length recipe \<and> length recipe \<le> MAX_SLOTS
    \<and> (\<forall>(i, kdf, salt)\<in>set recipe. k_algo kdf = ARGON2ID \<and> k_m_kib kdf \<le> MAX_M_KIB \<and> k_t kdf \<le> MAX_T
         \<and> k_p kdf \<le> MAX_P \<and> MIN_M_KIB \<le> k_m_kib kdf \<and> MIN_T \<le> k_t kdf \<and> length salt = SALT_LEN)"
proof -
  from assms(2) have r: "recipe_entries 0 (vh_slots (en_header env)) = Inr recipe" "recipe \<noteq> []"
    by (auto simp: kek_recipe_of_def res_bind_Inr_iff split: if_splits)
  have "length (vh_slots (en_header env)) \<le> MAX_SLOTS"
    using parse_envelope_header [OF assms(1)] by (auto simp: check_header_def split: if_splits)
  with recipe_entries_bounds [OF r(1)] r(2) show ?thesis by (auto simp: validate_kdf_iff)
qed

theorem unlock_cost_bounded_witness:
  "\<exists>recipe. kek_recipe_of toy_envelope = Inr recipe \<and> length recipe \<le> MAX_SLOTS"
proof -
  have "parse_envelope toy_envelope_lib (to_bytes toy_envelope_lib toy_envelope) = Inr toy_envelope"
    using toy_envelope_wf toy_envelope_io by (rule parse_to_bytes)
  moreover have "kek_recipe_of toy_envelope = Inr [(0, argon2id_defaults, replicate 16 CHR 0x00)]"
    by (simp add: kek_recipe_of_def toy_envelope_def toy_header_def argon2id_defaults_valid SALT_LEN_def)
  ultimately show ?thesis using unlock_cost_bounded by blast
qed

section \<open>A fresh envelope opens\<close>

lemma create_envelope_shape:
  assumes "create_envelope L pw doc t w = (Inr env, w')"
  obtains mk dk salt nonce i kek n where
    "length mk = KEY_LEN" "length dk = KEY_LEN" "length salt = SALT_LEN" "length nonce = NONCE_LEN"
    "length n = NONCE_LEN" "length (en_nonce env) = NONCE_LEN"
    "derive_kek L pw (k_m_kib argon2id_defaults) (k_t argon2id_defaults) (k_p argon2id_defaults) salt = Inr kek"
    "vh_slots (en_header env) = [\<lparr>sl_id = i, sl_kind = Passphrase, sl_kdf = argon2id_defaults,
       sl_salt = salt, sl_nonce = nonce, sl_wrapped_mek = aead_seal L kek nonce (mek_aad i) mk\<rparr>]"
    "vh_dek (en_header env) = \<lparr>wk_nonce = n, wk_wrapped = aead_seal L mk n DEK_AAD dk\<rparr>"
    "en_ct env = aead_seal L dk (en_nonce env) (hdr_ser L (en_header env)) doc"
  using assms
  by (auto simp: create_envelope_def try_bind_Inr Let_def generate_key_def dest!: random_bytes_length)

lemma create_envelope_wf:
  assumes "create_envelope L pw doc t w = (Inr env, w')" and "aead_sizes L"
  shows "env_wf env"
  by (rule create_envelope_shape [OF assms(1)])
    (use assms(2) in \<open>simp add: env_wf_def check_header_def MAX_SLOTS_def slot_lengths_ok_def aead_sizes_def\<close>)

lemma create_envelope_opens:
  assumes "create_envelope L pw doc t w = (Inr env, w')" and "aead_law L"
  shows "\<exists>ks. unlock_envelope L env pw = Inr ks \<and> open_document L env ks = Inr doc"
proof (rule create_envelope_shape [OF assms(1)])
  fix mk dk salt nonce i kek n
  assume len: "length mk = KEY_LEN" "length dk = KEY_LEN" "length salt = SALT_LEN" "length nonce = NONCE_LEN"
      "length n = NONCE_LEN"
    and kek: "derive_kek L pw (k_m_kib argon2id_defaults) (k_t argon2id_defaults) (k_p argon2id_defaults) salt = Inr kek"
    and sl: "vh_slots (en_header env) = [\<lparr>sl_id = i, sl_kind = Passphrase, sl_kdf = argon2id_defaults,
       sl_salt = salt, sl_nonce = nonce, sl_wrapped_mek = aead_seal L kek nonce (mek_aad i) mk\<rparr>]"
    and dk: "vh_dek (en_header env) = \<lparr>wk_nonce = n, wk_wrapped = aead_seal L mk n DEK_AAD dk\<rparr>"
    and ct: "en_ct env = aead_seal L dk (en_nonce env) (hdr_ser L (en_header env)) doc"
  have "kek_recipe_of env = Inr [(0, argon2id_defaults, salt)]"
    using sl len by (simp add: kek_recipe_of_def argon2id_defaults_valid)
  moreover have "unlock_with L env [(0, kek)] = Inr \<lparr>mek = mk, dek = dk\<rparr>"
    using assms(2) sl dk len by (simp add: aead_law_def unwrap_dek_def Let_def)
  ultimately have "unlock_envelope L env pw = Inr \<lparr>mek = mk, dek = dk\<rparr>"
    using kek by (simp add: unlock_envelope_def)
  moreover have "open_document L env \<lparr>mek = mk, dek = dk\<rparr> = Inr doc"
    using assms(2) ct by (simp add: open_document_def aead_law_def)
  ultimately show ?thesis by blast
qed

lemma reseal_document_ok:
  assumes "reseal_document L doc ks env w = (Inr (), env', w')"
  shows "en_header env' = en_header env" "aead_law L \<Longrightarrow> open_document L env' ks = Inr doc"
    "length (en_nonce env') = NONCE_LEN" "aead_sizes L \<Longrightarrow> env_wf env \<Longrightarrow> env_wf env'"
    "en_ct env' = aead_seal L (dek ks) (en_nonce env') (hdr_ser L (en_header env)) doc"
  using assms
  by (auto simp: reseal_document_def open_document_def aead_law_def aead_sizes_def env_wf_def
      dest: random_bytes_length split: prod.splits sum.splits)

text \<open>C14: an envelope that \<open>create\<close> builds is accepted by its own structural checks, unlocks with
  the passphrase it was created with, and decrypts to the document it was created with.\<close>

theorem envelope_create_unlock:
  assumes "create_envelope L pw doc t w = (Inr env, w')" and "aead_law L" and "aead_sizes L"
  shows "env_wf env \<and> (\<exists>ks. unlock_envelope L env pw = Inr ks \<and> open_document L env ks = Inr doc)"
  using create_envelope_opens [OF assms(1,2)] create_envelope_wf [OF assms(1,3)] by blast

lemma toy_laws: "aead_law toy_envelope_lib" "aead_sizes toy_envelope_lib"
  by (simp_all add: aead_law_def aead_sizes_def toy_envelope_lib_def toy_audit_def audit_lib.defs TAG_LEN_def)

lemma calm_random: "random_bytes n (calm_world fs) = (Inr (map (\<lambda>i. char_of (i mod 256)) [0..<n]),
    (calm_world fs)\<lparr>w_rng_pos := n\<rparr>)"
  by (simp add: random_bytes_def calm_world_def Let_def)

theorem envelope_create_unlock_witness:
  "\<exists>env ks. fst (create_envelope toy_envelope_lib ''pw'' ''doc'' 0 (calm_world Map.empty)) = Inr env
    \<and> unlock_envelope toy_envelope_lib env ''pw'' = Inr ks \<and> open_document toy_envelope_lib env ks = Inr ''doc''"
proof -
  obtain r w' where c: "create_envelope toy_envelope_lib ''pw'' ''doc'' 0 (calm_world Map.empty) = (r, w')"
    by force
  have "is_ok (fst (create_envelope toy_envelope_lib ''pw'' ''doc'' 0 (calm_world Map.empty)))"
    by (simp add: create_envelope_def generate_key_def hex_id_def random_bytes_def calm_world_def
        Let_def derive_kek_def toy_envelope_lib_def toy_audit_def audit_lib.defs)
  with c obtain env where "r = Inr env" by (auto elim: is_okE)
  with c envelope_create_unlock [OF _ toy_laws] show ?thesis by auto
qed

section \<open>Wrong passphrases\<close>

lemma env_wf_nonce:
  "env_wf env \<Longrightarrow> s \<in> set (vh_slots (en_header env)) \<Longrightarrow> sl_kind s = Passphrase \<Longrightarrow>
    length (sl_nonce s) = NONCE_LEN"
  by (auto simp: env_wf_def check_header_def list_all_iff slot_lengths_ok_def split: if_splits)

definition opens_slot :: "('z) crypto_lib_scheme \<Rightarrow> envelope \<Rightarrow> nat \<times> string \<Rightarrow> bool" where
  "opens_slot L env ik =
     (let slots = vh_slots (en_header env); s = slots ! fst ik in
      fst ik < length slots \<and> sl_kind s = Passphrase
      \<and> aead_open L (snd ik) (sl_nonce s) (mek_aad (sl_id s)) (sl_wrapped_mek s) \<noteq> None)"

text \<open>C17: for an envelope that passed \<open>parse\<close>, the error of \<open>unlock_with\<close> is \<open>Auth\<close> exactly when no
  derived key opens a passphrase slot; every other failure is \<open>Corrupt\<close>, so a wrong passphrase and
  a tampered slot cannot be told apart.\<close>

theorem unlock_auth_iff:
  assumes "env_wf env"
  shows "(unlock_with L env ks = Inl Auth \<longleftrightarrow> (\<forall>ik\<in>set ks. \<not> opens_slot L env ik))
    \<and> (\<forall>e. unlock_with L env ks = Inl e \<longrightarrow> e = Auth \<or> (\<exists>why. e = Corrupt why))"
proof (induction ks)
  case Nil
  then show ?case by simp
next
  case (Cons ik ks)
  obtain i k where ik: "ik = (i, k)" by force
  let ?s = "vh_slots (en_header env) ! i"
  have u: "unwrap_dek L env m \<noteq> Inl Auth \<and> (\<forall>e. unwrap_dek L env m = Inl e \<longrightarrow> (\<exists>why. e = Corrupt why))"
    for m by (cases "aead_open L m (wk_nonce (vh_dek (en_header env))) DEK_AAD (wk_wrapped (vh_dek (en_header env)))")
      (auto simp: unwrap_dek_def Let_def split: if_splits)
  show ?case
  proof (cases "i < length (vh_slots (en_header env)) \<and> sl_kind ?s = Passphrase")
    case False
    with Cons show ?thesis by (auto simp: ik opens_slot_def Let_def)
  next
    case True
    then have n: "length (sl_nonce ?s) = NONCE_LEN" using env_wf_nonce [OF assms] by simp
    show ?thesis
    proof (cases "aead_open L k (sl_nonce ?s) (mek_aad (sl_id ?s)) (sl_wrapped_mek ?s)")
      case None
      with Cons True n show ?thesis by (auto simp: ik opens_slot_def Let_def)
    next
      case (Some m)
      with True n u [of m] show ?thesis
        by (cases "unwrap_dek L env m") (auto simp: ik opens_slot_def Let_def)
    qed
  qed
qed

theorem unlock_auth_iff_witness:
  "unlock_with toy_envelope_lib toy_envelope [(0, ''k'')] = Inl Auth"
  using unlock_auth_iff [OF toy_envelope_wf, of toy_envelope_lib "[(0, ''k'')]"]
  by (simp add: opens_slot_def toy_envelope_def toy_header_def toy_envelope_lib_def toy_audit_def
      audit_lib.defs toy_open_def toy_tag_def toy_hash_def eval_nat_numeral)

end
