(* ===== verification/Toy.thy ===== *)
theory Toy
  imports SessionMachine EnvelopeTheorems
begin

text \<open>
  A concrete vault for the witnesses: constant serialisers, a machine without faults, one
  project with a secret, one agent with a grant, a lease and an approval. Operations on it are
  shown to go through, so that the properties can be applied to a run that succeeds.
\<close>

definition toy_vault :: vault_lib where
  "toy_vault =
     \<lparr>sha256 = toy_hash, hmac_sha256 = (\<lambda>k x. toy_hash k), hkdf_sha256 = (\<lambda>k i. toy_hash (i @ k)),
      aead_seal = (\<lambda>k n ad pt. toy_tag k @ pt), aead_open = toy_open,
      argon2_params = (\<lambda>_ _ _. None), argon2_hash = (\<lambda>pw _ _ _ _. Inr (toy_hash pw)),
      base64url = id, rfc3339 = (\<lambda>_. Some ''t''), event_json = (\<lambda>_. ''e''), line_json = (\<lambda>_. ''l''),
      parse_line = (\<lambda>_. None), hdr_ser = (\<lambda>_. ''h''), hdr_de = (\<lambda>_. None),
      doc_ser = (\<lambda>_. Some ''d''), doc_de = (\<lambda>_. None)\<rparr>"

lemma toy_vault_sel [simp]:
  "sha256 toy_vault = toy_hash" "rfc3339 toy_vault t = Some ''t''" "line_json toy_vault l = ''l''"
  "parse_line toy_vault x = None" "doc_ser toy_vault d = Some ''d''" "hdr_ser toy_vault h = ''h''"
  "aead_seal toy_vault k n ad pt = toy_tag k @ pt" "base64url toy_vault x = x"
  by (simp_all add: toy_vault_def)

definition toy_doc :: vault_document where
  "toy_doc =
     \<lparr>d_v = 1, d_meta_created_at = 0,
      d_projects = [\<lparr>p_id = ''p'', p_name = ''P'', p_paths = [], p_created_at = 0\<rparr>],
      d_secrets = [\<lparr>s_project_id = ''p'', s_key = ''K'', s_value = ''v'', s_created_at = 0, s_updated_at = 0\<rparr>],
      d_agents = [\<lparr>a_id = ''a'', a_name = ''A'', a_status = Active, a_token_hash = toy_hash ''tok'',
                   a_token_prefix = ''00'', a_created_at = 0, a_last_seen = None\<rparr>],
      d_grants = [\<lparr>g_agent_id = ''a'', g_project_id = ''p'', g_ops = [OpRead, OpReveal],
                   g_created_at = 0, g_revoked_at = None\<rparr>],
      d_leases = [\<lparr>l_id = ''l'', l_agent_id = ''a'', l_project_id = ''p'', l_ops = [OpRead],
                   l_credential_hash = toy_hash ''c'', l_credential_prefix = ''00'', l_created_at = 0,
                   l_expires_at = 100, l_revoked_at = None\<rparr>],
      d_approvals = [\<lparr>ap_id = ''x'', ap_agent_id = ''a'', ap_project_id = ''p'', ap_key = ''K'',
                      ap_status = AApproved, ap_created_at = 0, ap_pending_expires_at = 100,
                      ap_approved_at = Some 0, ap_claim_expires_at = Some 100\<rparr>],
      d_audit_head = genesis\<rparr>"

definition toy_session :: session where
  "toy_session =
     \<lparr>s_path = ''/v'', s_audit_path = ''/a'', s_envelope = toy_envelope, s_doc = Some toy_doc,
      s_keys = Some \<lparr>mek = ''m'', dek = ''d''\<rparr>, s_audit_key = Some ''k'', s_audit = toy_log,
      s_lock = ''/v.lock'', s_digests = digest_index toy_doc, s_sessions = [], s_last_activity = 0,
      s_idle_timeout = 0, s_idle_self_lock = True, s_world = calm_world [''/v'' \<mapsto> [], ''/a'' \<mapsto> []]\<rparr>"

lemma toy_session_sel [simp]:
  "s_doc toy_session = Some toy_doc" "s_keys toy_session = Some \<lparr>mek = ''m'', dek = ''d''\<rparr>"
  "s_world toy_session = calm_world [''/v'' \<mapsto> [], ''/a'' \<mapsto> []]" "s_audit toy_session = toy_log"
  "s_path toy_session = ''/v''" "s_idle_timeout toy_session = 0" "s_audit_key toy_session = Some ''k''"
  "s_sessions toy_session = []"
  by (simp_all add: toy_session_def)

lemma toy_doc_lookups [simp]:
  "project_by_name toy_doc ''P'' = Some (hd (d_projects toy_doc))"
  "agent_by_name toy_doc ''A'' = Some (hd (d_agents toy_doc))"
  "agent_by_id toy_doc ''a'' = Some (hd (d_agents toy_doc))"
  "active_grant toy_doc ''a'' ''p'' = Some (hd (d_grants toy_doc))"
  "secret_of toy_doc ''p'' ''K'' = Some (hd (d_secrets toy_doc))"
  by (simp_all add: toy_doc_def project_by_name_def agent_by_name_def agent_by_id_def active_grant_def
      is_active_grant_def secret_of_def)

lemma toy_doc_authority [simp]:
  "authorize toy_doc ''a'' ''p'' op \<longleftrightarrow> op = OpRead \<or> op = OpReveal" "agent_active toy_doc ''a''"
  by (simp_all add: agent_active_def authorize_def) (simp_all add: toy_doc_def)

lemma toy_doc_lists:
  "d_projects toy_doc = [\<lparr>p_id = ''p'', p_name = ''P'', p_paths = [], p_created_at = 0\<rparr>]"
  "d_secrets toy_doc = [\<lparr>s_project_id = ''p'', s_key = ''K'', s_value = ''v'', s_created_at = 0, s_updated_at = 0\<rparr>]"
  "d_agents toy_doc = [\<lparr>a_id = ''a'', a_name = ''A'', a_status = Active, a_token_hash = toy_hash ''tok'',
     a_token_prefix = ''00'', a_created_at = 0, a_last_seen = None\<rparr>]"
  "d_grants toy_doc = [\<lparr>g_agent_id = ''a'', g_project_id = ''p'', g_ops = [OpRead, OpReveal],
     g_created_at = 0, g_revoked_at = None\<rparr>]"
  "d_leases toy_doc = [\<lparr>l_id = ''l'', l_agent_id = ''a'', l_project_id = ''p'', l_ops = [OpRead],
     l_credential_hash = toy_hash ''c'', l_credential_prefix = ''00'', l_created_at = 0,
     l_expires_at = 100, l_revoked_at = None\<rparr>]"
  "d_approvals toy_doc = [\<lparr>ap_id = ''x'', ap_agent_id = ''a'', ap_project_id = ''p'', ap_key = ''K'',
     ap_status = AApproved, ap_created_at = 0, ap_pending_expires_at = 100,
     ap_approved_at = Some 0, ap_claim_expires_at = Some 100\<rparr>]"
  by (simp_all add: toy_doc_def)

lemma toy_doc_wf: "wf_doc toy_doc"
proof -
  have "valid_project_name ''P''" "valid_project_name ''A''" "valid_key ''K''"
    by (simp_all add: valid_project_name_def MAX_PROJECT_NAME_def is_ascii_alphanumeric_def
        is_ascii_alphabetic_def valid_key_def MAX_KEY_LEN_def Let_def)
  then show ?thesis
    by (simp add: wf_doc_def wf_projects_def wf_secrets_def wf_agents_def wf_grants_def wf_leases_def
        wf_approvals_def lease_covered_def toy_doc_lists MAX_PROJECTS_def MAX_PATHS_PER_PROJECT_def
        MAX_SECRETS_def MAX_VALUE_LEN_def MAX_AGENTS_def MAX_LEASES_def MAX_APPROVALS_def)
qed

lemma toy_session_inv: "session_inv toy_session"
  by (simp add: session_inv_def toy_doc_wf sessions_ok_def)
    (simp add: toy_session_def toy_log_def)

section \<open>Operations that go through\<close>

lemma toy_vault_resync [simp]: "resync toy_vault w lg = lg"
proof (cases "read_to_string (lg_path lg) w")
  case (Some c)
  then show ?thesis by (cases "audit_lines c") (simp_all add: resync_def)
qed (simp add: resync_def)

definition calm :: "session \<Rightarrow> bool" where
  "calm s \<longleftrightarrow> s_keys s \<noteq> None \<and> s_path s = ''/v'' \<and> lg_path (s_audit s) = ''/a''
     \<and> lg_soft (s_audit s) = AUDIT_SOFT_LIMIT \<and> lg_hard (s_audit s) = MAX_AUDIT_LEN
     \<and> length (lg_last_hash (s_audit s)) = 32
     \<and> (\<forall>i. w_fault (s_world s) i = None) \<and> (\<forall>i. w_rng_ok (s_world s) i)
     \<and> (\<forall>t. w_dir (s_world s) (temp_name ''/v'' (hex t)) = None)
     \<and> w_dir (s_world s) ''/a'' = Some []"

lemma temp_not: "temp_name ''/v'' (hex t) \<noteq> ''/v''" "temp_name ''/v'' (hex t) \<noteq> ''/a''"
proof -
  have "length (temp_name ''/v'' (hex t)) > 2"
    by (simp add: temp_name_def with_file_name_def dir_part_def)
  then show "temp_name ''/v'' (hex t) \<noteq> ''/v''" "temp_name ''/v'' (hex t) \<noteq> ''/a''"
    by (metis length_Cons list.size(3) less_irrefl One_nat_def Suc_1)+
qed

lemma toy_session_calm: "calm toy_session"
  using temp_not by (simp add: calm_def calm_world_def toy_log_def)

lemma toy_stage_ok:
  assumes "calm s"
  shows "\<exists>st. stage toy_vault r key prio (s_audit s) (s_world s) = Inr st
    \<and> ev_seq (st_event st) = lg_seq (s_audit s) + 1 \<and> ev_prev_hash (st_event st) = hex (lg_last_hash (s_audit s))
    \<and> st_hash_hex st = hex (entry_hash toy_vault (lg_last_hash (s_audit s)) (st_event st))"
  using assms
  by (cases prio) (simp_all add: stage_def stage_event_def Let_def preflight_def file_len_def calm_def
      AUDIT_SOFT_LIMIT_def MAX_AUDIT_LEN_def AUDIT_HEADROOM_def record_event_def)

lemma toy_append_ok:
  assumes "calm s" and "ev_seq (st_event st) = lg_seq (s_audit s) + 1"
    and "ev_prev_hash (st_event st) = hex (lg_last_hash (s_audit s))"
    and "st_hash_hex st = hex (entry_hash toy_vault (lg_last_hash (s_audit s)) (st_event st))"
  shows "\<exists>lg w. append_staged toy_vault st (s_audit s) (s_world s) = (Inr (), lg, w)
    \<and> w_dir w = (w_dir (s_world s))(''/a'' \<mapsto> [CHR ''l'', NL]) \<and> same_env (s_world s) w"
  using assms
  by (simp add: append_staged_def Let_def calm_def append_sync_def fault_now_def set_file_def tick_def same_env_def)

lemma toy_commit_seal_ok:
  assumes "s_path s = ''/v''" "\<And>i. w_fault (s_world s) i = None" "\<And>i. w_rng_ok (s_world s) i"
    and "\<And>t. w_dir (s_world s) (temp_name ''/v'' (hex t)) = None"
  shows "\<exists>s'. commit_seal toy_vault doc ks s = (Inr (), s')"
proof -
  obtain r env w where rs: "reseal_document toy_vault ''d'' ks (s_envelope s) (s_world s) = (r, env, w)"
    by (metis prod_cases3)
  note rw = reseal_document_world [OF rs]
  have r: "r = Inr ()" and ct: "length (en_ct env) = 17"
    using rs assms(3) by (auto simp: reseal_document_def random_bytes_def Let_def)
  have v: "validate_persistable toy_vault env = Inr ()"
    using ct by (simp add: validate_persistable_def MAX_HEADER_LEN_def MAX_FILE_LEN_def MAGIC_def NONCE_LEN_def)
  have "file_name ''/v'' \<noteq> None" by (simp add: file_name_def file_part_def SLASH_def)
  then obtain w2 where "save_atomic ''/v'' (to_bytes toy_vault env) w = (Inr (), w2)"
    using save_atomic_succeeds [of "''/v''" w "to_bytes toy_vault env"] rw assms by (auto simp: same_env_def)
  with rs r v assms(1) show ?thesis by (simp add: commit_seal_def Let_def)
qed

lemma toy_commit_ok:
  assumes "calm s"
  shows "\<exists>s'. commit_with toy_vault doc r prio s = (Inr (), s')"
proof -
  obtain ks where ks: "s_keys s = Some ks" using assms by (auto simp: calm_def)
  obtain st where st: "stage toy_vault r (s_audit_key s) prio (s_audit s) (s_world s) = Inr st"
    "ev_seq (st_event st) = lg_seq (s_audit s) + 1" "ev_prev_hash (st_event st) = hex (lg_last_hash (s_audit s))"
    "st_hash_hex st = hex (entry_hash toy_vault (lg_last_hash (s_audit s)) (st_event st))"
    using toy_stage_ok [OF assms] by blast
  obtain lg w where a: "append_staged toy_vault st (s_audit s) (s_world s) = (Inr (), lg, w)"
    "w_dir w = (w_dir (s_world s))(''/a'' \<mapsto> [CHR ''l'', NL])" "same_env (s_world s) w"
    using toy_append_ok [OF assms st(2-4)] by blast
  have "\<exists>s'. commit_seal toy_vault d ks (s\<lparr>s_audit := lg, s_world := w\<rparr>) = (Inr (), s')" for d
    using assms a(2,3) temp_not by (intro toy_commit_seal_ok) (auto simp: calm_def same_env_def)
  then show ?thesis using ks st(1) a(1) by (simp add: commit_with_def Let_def)
qed

lemma toy_check_idle [simp]: "check_idle L toy_session = toy_session"
  by (simp add: check_idle_def)

lemma toy_with_doc [simp]: "with_doc L actor op project keys toy_session = (Inr toy_doc, toy_session)"
  by (simp add: with_doc_def gate_def)

lemma toy_agent_gate [simp]: "agent_gate L actor op project keys toy_session = (Inr toy_doc, toy_session)"
  by (simp add: agent_gate_def)

lemma toy_finish_change:
  assumes "out = Inr (x, d')"
  shows "\<exists>s'. finish_change toy_vault prio r dp out toy_session = (Inr x, s')"
  using toy_commit_ok [OF toy_session_calm, of d' r prio] assms by (auto simp: finish_change_def)

end
