(* ===== verification/CommitTheorems.thy ===== *)
theory CommitTheorems
  imports Toy
begin

text \<open>
  The commit protocol: the audit entry first, then the vault that names it. What a commit leaves
  on disk, whatever fails on the way, and that the vault can be opened again after it.
\<close>

section \<open>What a seal leaves on disk\<close>

text \<open>The log is neither the vault file nor one of its temporary files.\<close>

definition files_apart :: "session \<Rightarrow> bool" where
  "files_apart s \<longleftrightarrow> lg_path (s_audit s) \<noteq> s_path s \<and> \<not> is_temp_of (s_path s) (lg_path (s_audit s))"

lemma loaded_files_apart:
  "lg_path (s_audit s) = audit_path (s_path s) \<Longrightarrow> audit_path (s_path s) \<noteq> s_path s \<Longrightarrow> files_apart s"
  by (simp add: files_apart_def)

lemma commit_seal_disk:
  assumes "commit_seal L doc ks s = (q, s')"
  shows "s_audit s' = s_audit s" "s_path s' = s_path s" "s_audit_path s' = s_audit_path s"
    "\<And>p. p \<noteq> s_path s \<Longrightarrow> \<not> is_temp_of (s_path s) p \<Longrightarrow> w_dir (s_world s') p = w_dir (s_world s) p"
    "q = Inl e \<Longrightarrow> w_dir (s_world s') (s_path s) = w_dir (s_world s) (s_path s) \<and> s_doc s' = s_doc s"
    "q = Inr u \<Longrightarrow> w_dir (s_world s') (s_path s) = Some (to_bytes L (s_envelope s')) \<and> s_doc s' = Some doc
      \<and> validate_persistable L (s_envelope s') = Inr () \<and> en_header (s_envelope s') = en_header (s_envelope s)
      \<and> (\<exists>bytes. doc_ser L doc = Some bytes \<and>
           (\<exists>v. reseal_document L bytes ks (s_envelope s) (s_world s) = (Inr (), s_envelope s', v)))"
proof -
  have all: "s_audit s' = s_audit s \<and> s_path s' = s_path s \<and> s_audit_path s' = s_audit_path s
    \<and> (\<forall>p. p \<noteq> s_path s \<and> \<not> is_temp_of (s_path s) p \<longrightarrow> w_dir (s_world s') p = w_dir (s_world s) p)
    \<and> (q = Inl e \<longrightarrow> w_dir (s_world s') (s_path s) = w_dir (s_world s) (s_path s) \<and> s_doc s' = s_doc s)
    \<and> (q = Inr u \<longrightarrow> w_dir (s_world s') (s_path s) = Some (to_bytes L (s_envelope s')) \<and> s_doc s' = Some doc
      \<and> validate_persistable L (s_envelope s') = Inr () \<and> en_header (s_envelope s') = en_header (s_envelope s)
      \<and> (\<exists>bytes. doc_ser L doc = Some bytes \<and>
           (\<exists>v. reseal_document L bytes ks (s_envelope s) (s_world s) = (Inr (), s_envelope s', v))))"
  proof (cases "doc_ser L doc")
    case None
    with assms show ?thesis by (auto simp: commit_seal_def)
  next
    case (Some bytes)
    obtain r env w where rs: "reseal_document L bytes ks (s_envelope s) (s_world s) = (r, env, w)"
      by (metis prod_cases3)
    note rw = reseal_document_world [OF rs]
    obtain q2 w2 where sa: "save_atomic (s_path s) (to_bytes L env) w = (q2, w2)" by force
    note sw = save_atomicD [OF sa]
    show ?thesis
    proof (cases "\<exists>x. r = Inl x \<or> validate_persistable L env = Inl x")
      case True
      then obtain x where "r = Inl x \<or> is_ok r \<and> validate_persistable L env = Inl x"
        by (metis is_ok_simps(1) sum.exhaust)
      with assms Some rs have "q = Inl x" "s' = s\<lparr>s_envelope := env, s_world := w\<rparr>"
        by (auto simp: commit_seal_def Let_def elim!: is_okE)
      with rw show ?thesis by simp
    next
      case False
      then obtain a b where ab: "r = Inr a" "validate_persistable L env = Inr b"
        by (metis sum.exhaust)
      show ?thesis
      proof (cases q2)
        case (Inl x)
        with assms Some rs ab sa have "q = Inl x" "s' = s\<lparr>s_envelope := env, s_world := w2\<rparr>"
          by (auto simp: commit_seal_def Let_def)
        with rw sw Inl show ?thesis by simp
      next
        case (Inr z)
        with assms Some rs ab sa
        have "q = Inr ()" "s' = rebuild_agent_digests (s\<lparr>s_envelope := env, s_world := w2, s_doc := Some doc\<rparr>)"
          by (simp_all add: commit_seal_def Let_def)
        with rw sw Inr ab Some rs show ?thesis by (simp add: rebuild_agent_digests_eq)
      qed
    qed
  qed
  then show "s_audit s' = s_audit s" "s_path s' = s_path s" "s_audit_path s' = s_audit_path s"
    "\<And>p. p \<noteq> s_path s \<Longrightarrow> \<not> is_temp_of (s_path s) p \<Longrightarrow> w_dir (s_world s') p = w_dir (s_world s) p"
    "q = Inl e \<Longrightarrow> w_dir (s_world s') (s_path s) = w_dir (s_world s) (s_path s) \<and> s_doc s' = s_doc s"
    "q = Inr u \<Longrightarrow> w_dir (s_world s') (s_path s) = Some (to_bytes L (s_envelope s')) \<and> s_doc s' = Some doc
      \<and> validate_persistable L (s_envelope s') = Inr () \<and> en_header (s_envelope s') = en_header (s_envelope s)
      \<and> (\<exists>bytes. doc_ser L doc = Some bytes \<and>
           (\<exists>v. reseal_document L bytes ks (s_envelope s) (s_world s) = (Inr (), s_envelope s', v)))"
    by blast+
qed

text \<open>The two ways a commit reaches the seal, or stops before it.\<close>

lemma commit_with_cases:
  assumes "commit_with L doc r prio s = (q, s')" and "s_keys s = Some ks"
  obtains (staged) st lg w where "stage L r (s_audit_key s) prio (s_audit s) (s_world s) = Inr st"
      "append_staged L st (s_audit s) (s_world s) = (Inr (), lg, w)"
      "commit_seal L (doc\<lparr>d_audit_head := \<lparr>h_seq = ev_seq (st_event st), h_hash = st_hash_hex st\<rparr>\<rparr>) ks
         (s\<lparr>s_audit := lg, s_world := w\<rparr>) = (q, s')"
  | (append_failed) st lg w e where "stage L r (s_audit_key s) prio (s_audit s) (s_world s) = Inr st"
      "append_staged L st (s_audit s) (s_world s) = (Inl e, lg, w)" "prio = Ordinary"
      "q = Inl (AuditWrite (display_error e))" "s' = s\<lparr>s_audit := lg, s_world := w\<rparr>"
  | (append_skipped) st lg w e where "stage L r (s_audit_key s) prio (s_audit s) (s_world s) = Inr st"
      "append_staged L st (s_audit s) (s_world s) = (Inl e, lg, w)" "prio = Lifecycle"
      "commit_seal L doc ks (s\<lparr>s_audit := lg, s_world := w\<rparr>) = (q, s')"
  | (unstaged) e where "stage L r (s_audit_key s) prio (s_audit s) (s_world s) = Inl e" "prio = Ordinary"
      "q = Inl e" "s' = s"
  | (unstaged_skipped) e where "stage L r (s_audit_key s) prio (s_audit s) (s_world s) = Inl e" "prio = Lifecycle"
      "commit_seal L doc ks s = (q, s')"
proof (cases "stage L r (s_audit_key s) prio (s_audit s) (s_world s)")
  case (Inl e)
  with assms have c: "(if prio = Ordinary then (Inl e, s) else commit_seal L doc ks s) = (q, s')"
    by (simp add: commit_with_def)
  show thesis
  proof (cases prio)
    case Ordinary
    with c show thesis by (intro unstaged [OF Inl]) simp_all
  next
    case Lifecycle
    with c show thesis by (intro unstaged_skipped [OF Inl]) simp_all
  qed
next
  case (Inr st)
  obtain a lg w where ap: "append_staged L st (s_audit s) (s_world s) = (a, lg, w)" by (metis prod_cases3)
  show thesis
  proof (cases a)
    case (Inl e)
    with assms that(2,3) \<open>stage _ _ _ _ _ _ = Inr st\<close> ap show thesis
      by (cases prio) (auto simp: commit_with_def Let_def)
  next
    case (Inr u)
    with assms that(1) \<open>stage _ _ _ _ _ _ = Inr st\<close> ap show thesis
      by (auto simp: commit_with_def Let_def)
  qed
qed

section \<open>All or nothing\<close>

lemma log_step_files:
  assumes "log_step lg w lg' w'" and "lg_path lg \<noteq> p"
  shows "w_dir w' p = w_dir w p" "lg_path lg' = lg_path lg"
  using assms by (auto simp: log_step_def extends_def)

text \<open>C1: an ordinary commit is all or nothing: when it succeeds, the vault file holds the new
  document, which names the log entry that was just appended for this operation, sealed under the
  document key, and the session has adopted it; when it fails, the vault file, the document in
  memory and the digest index are what they were.\<close>

theorem commit_all_or_nothing:
  assumes "files_apart s" and "s_keys s = Some ks" and "aead_law L"
    and "commit L doc r s = (q, s')"
  shows "(\<exists>st bytes. q = Inr () \<and> stage L r (s_audit_key s) Ordinary (s_audit s) (s_world s) = Inr st
      \<and> s_doc s' = Some (doc\<lparr>d_audit_head := \<lparr>h_seq = ev_seq (st_event st), h_hash = st_hash_hex st\<rparr>\<rparr>)
      \<and> doc_ser L (doc\<lparr>d_audit_head := \<lparr>h_seq = ev_seq (st_event st), h_hash = st_hash_hex st\<rparr>\<rparr>) = Some bytes
      \<and> w_dir (s_world s') (s_path s) = Some (to_bytes L (s_envelope s'))
      \<and> open_document L (s_envelope s') ks = Inr bytes
      \<and> (\<exists>old. w_dir (s_world s) (lg_path (s_audit s)) = Some old
           \<and> w_dir (s_world s') (lg_path (s_audit s)) = Some (old @ line_json L (staged_line st) @ [NL])))
    \<or> (\<exists>e. q = Inl e \<and> s_doc s' = s_doc s \<and> s_digests s' = s_digests s
      \<and> w_dir (s_world s') (s_path s) = w_dir (s_world s) (s_path s))"
proof -
  have step: "commit_step doc s q s'" using assms(4) unfolding commit_def by (rule commit_with_step)
  from assms(1) have apart: "lg_path (s_audit s) \<noteq> s_path s" "\<not> is_temp_of (s_path s) (lg_path (s_audit s))"
    by (simp_all add: files_apart_def)
  show ?thesis
  proof (rule commit_with_cases [OF assms(4) [unfolded commit_def] assms(2)])
    fix st lg w
    assume st: "stage L r (s_audit_key s) Ordinary (s_audit s) (s_world s) = Inr st"
      and ap: "append_staged L st (s_audit s) (s_world s) = (Inr (), lg, w)"
      and cs: "commit_seal L (doc\<lparr>d_audit_head := \<lparr>h_seq = ev_seq (st_event st), h_hash = st_hash_hex st\<rparr>\<rparr>) ks
         (s\<lparr>s_audit := lg, s_world := w\<rparr>) = (q, s')"
    note disk = commit_seal_disk [OF cs]
    note pre = log_step_files [OF append_staged_step [OF ap] apart(1)]
    show ?thesis
    proof (cases q)
      case (Inl e)
      with disk(5) pre step show ?thesis by (auto simp: commit_step_def)
    next
      case (Inr u)
      then obtain bytes v where b: "doc_ser L (doc\<lparr>d_audit_head := \<lparr>h_seq = ev_seq (st_event st), h_hash = st_hash_hex st\<rparr>\<rparr>) = Some bytes"
          and rs: "reseal_document L bytes ks (s_envelope s) w = (Inr (), s_envelope s', v)"
        using disk(6) by auto
      have "open_document L (s_envelope s') ks = Inr bytes" by (rule reseal_document_ok(2) [OF rs assms(3)])
      moreover have "w_dir (s_world s') (lg_path (s_audit s)) = w_dir w (lg_path (s_audit s))"
        using disk(4) apart by simp
      ultimately show ?thesis using Inr disk(6) st b append_staged_written [OF ap] by auto
    qed
  next
    fix st lg w e
    assume "append_staged L st (s_audit s) (s_world s) = (Inl e, lg, w)"
      and q: "q = Inl (AuditWrite (display_error e))" and s': "s' = s\<lparr>s_audit := lg, s_world := w\<rparr>"
    then have "w_dir w (s_path s) = w_dir (s_world s) (s_path s)"
      using log_step_files(1) [OF append_staged_step apart(1)] by blast
    with q s' show ?thesis by simp
  qed simp_all
qed

theorem commit_all_or_nothing_witness:
  "\<exists>q s'. commit toy_vault toy_doc toy_record toy_session = (q, s') \<and> q = Inr ()
    \<and> w_dir (s_world s') ''/v'' = Some (to_bytes toy_vault (s_envelope s'))"
proof -
  obtain s' where c: "commit toy_vault toy_doc toy_record toy_session = (Inr (), s')"
    using toy_commit_ok [OF toy_session_calm] unfolding commit_def by blast
  have "files_apart toy_session"
    by (simp add: files_apart_def is_temp_of_def toy_log_def) (metis temp_not(2))
  moreover have "aead_law toy_vault" by (simp add: aead_law_def toy_vault_def)
  ultimately show ?thesis
    using commit_all_or_nothing [OF _ _ _ c] c by auto
qed

section \<open>The vault stays openable\<close>

text \<open>Unlocking consults the header of the envelope only.\<close>

lemma unlock_with_header:
  "en_header env' = en_header env \<Longrightarrow> unlock_with L env' ds = unlock_with L env ds"
proof (induction ds)
  case (Cons ik ds)
  then show ?case by (cases ik) (simp add: unwrap_dek_def Let_def split: option.split)
qed simp

text \<open>Reading the vault file of the session's path and unlocking it with these derived keys would
  succeed and give this document: the daemon could be restarted here.\<close>

definition reopens ::
  "('z) vault_lib_scheme \<Rightarrow> derived_keks \<Rightarrow> keys \<Rightarrow> session \<Rightarrow> vault_document \<Rightarrow> bool" where
  "reopens L derived ks s d \<longleftrightarrow>
     (\<exists>bytes env. load_file (s_path s) (s_world s) = Inr bytes \<and> parse_envelope L bytes = Inr env
        \<and> open_vault L derived (s\<lparr>s_envelope := env\<rparr>) = Inr (ks, derive_audit_key L (mek ks), d))"

definition checkpoint_ok :: "('z) vault_lib_scheme \<Rightarrow> session \<Rightarrow> vault_document \<Rightarrow> bool" where
  "checkpoint_ok L s d \<longleftrightarrow>
     check_checkpoint L (lg_path (s_audit s)) (h_seq (d_audit_head d)) (h_hash (d_audit_head d)) (s_world s) = Inr ()"

text \<open>The documented facts about the libraries that opening rests on.\<close>

definition library_laws :: "('z) vault_lib_scheme \<Rightarrow> bool" where
  "library_laws L \<longleftrightarrow> digest_sizes L \<and> json_lines L \<and> aead_law L \<and> aead_sizes L
     \<and> (\<forall>d bytes. doc_ser L d = Some bytes \<longrightarrow> doc_de L bytes = Some d)"

definition coherent :: "('z) vault_lib_scheme \<Rightarrow> derived_keks \<Rightarrow> keys \<Rightarrow> session \<Rightarrow> bool" where
  "coherent L derived ks s \<longleftrightarrow> s_keys s = Some ks \<and> s_audit_key s = Some (derive_audit_key L (mek ks))
     \<and> files_apart s \<and> lg_path (s_audit s) = s_audit_path s \<and> no_torn_writes (s_world s)
     \<and> env_wf (s_envelope s) \<and> unlock_with L (s_envelope s) derived = Inr ks
     \<and> hdr_de L (hdr_ser L (en_header (s_envelope s))) = Some (en_header (s_envelope s))
     \<and> (\<exists>ls. log_state L (s_audit_key s) (s_audit s) (s_world s) ls)
     \<and> (\<exists>d. reopens L derived ks s d)"

lemma log_state_verify:
  assumes "log_state L key lg w ls"
  shows "\<exists>rep. verify L (lg_path lg) key w = Inr rep"
proof -
  from assms obtain c where c: "w_dir w (lg_path lg) = Some c" "log_file L key c ls"
    by (auto simp: log_state_def)
  with read_log_file [OF c] show ?thesis
    by (auto simp: verify_def res_bind_Inr_iff walk_iff log_file_def)
qed

lemma checkpoint_extends:
  assumes "log_state L key lg w ls" and "log_state L key' lg' w' ls'" and "lg_path lg' = lg_path lg"
    and "extends (lg_path lg) w w'" and "check_checkpoint L (lg_path lg) n h w = Inr ()"
  shows "check_checkpoint L (lg_path lg) n h w' = Inr ()"
proof -
  from assms(1) obtain c where c: "w_dir w (lg_path lg) = Some c" "log_file L key c ls"
    by (auto simp: log_state_def)
  from assms(2,3) obtain c' where c': "w_dir w' (lg_path lg) = Some c'" "log_file L key' c' ls'"
    by (auto simp: log_state_def)
  from assms(4) c(1) c'(1) obtain x where x: "c' = c @ x" by (auto simp: extends_def)
  have "terminated c" using c(2) by (simp add: log_file_def)
  with assms(5) read_log_file [OF c] read_log_file [OF c'] x show ?thesis
    by (simp add: check_checkpoint_def terminated_lines_append checkpoint_lines_append)
qed

lemma checkpoint_last:
  assumes "log_state L key lg w (ls @ [l])"
  shows "check_checkpoint L (lg_path lg) (Suc (length ls)) (al_hash l) w = Inr ()"
proof -
  from assms obtain c where c: "w_dir w (lg_path lg) = Some c" "log_file L key c (ls @ [l])"
    by (auto simp: log_state_def)
  with read_log_file [OF c] show ?thesis
    using checkpoint_on_chain [of L "audit_lines c" "ls @ [l]" key ZERO_HASH 0]
    by (simp add: check_checkpoint_def log_file_def)
qed

lemma open_vault_ok:
  assumes "unlock_with L (s_envelope s) derived = Inr ks"
    and "verify L (s_audit_path s) (Some (derive_audit_key L (mek ks))) (s_world s) = Inr rep"
    and "open_document L (s_envelope s) ks = Inr bytes" and "doc_de L bytes = Some d"
    and "check_checkpoint L (s_audit_path s) (h_seq (d_audit_head d)) (h_hash (d_audit_head d)) (s_world s) = Inr ()"
  shows "open_vault L derived s = Inr (ks, derive_audit_key L (mek ks), d)"
  using assms by (simp add: open_vault_def Let_def)

lemma open_vaultD:
  assumes "open_vault L derived s = Inr (ks, ak, d)"
  shows "unlock_with L (s_envelope s) derived = Inr ks" "ak = derive_audit_key L (mek ks)"
    "\<exists>rep. verify L (s_audit_path s) (Some ak) (s_world s) = Inr rep"
    "\<exists>bytes. open_document L (s_envelope s) ks = Inr bytes \<and> doc_de L bytes = Some d"
    "check_checkpoint L (s_audit_path s) (h_seq (d_audit_head d)) (h_hash (d_audit_head d)) (s_world s) = Inr ()"
  using assms by (auto simp: open_vault_def Let_def res_bind_Inr_iff)

lemma same_file_reads:
  assumes "w_dir w' p = w_dir w p"
  shows "verify L p key w' = verify L p key w" "check_checkpoint L p n h w' = check_checkpoint L p n h w"
    "load_file p w' = load_file p w"
  using assms by (simp_all add: verify_def walk_def check_checkpoint_def read_to_string_def load_file_def)

lemma same_file_log_state:
  "w_dir w' (lg_path lg) = w_dir w (lg_path lg) \<Longrightarrow> log_state L key lg w' ls = log_state L key lg w ls"
  by (simp add: log_state_def)

lemma reopens_same:
  assumes "reopens L derived ks s d" and "s_path s' = s_path s" "s_audit_path s' = s_audit_path s"
    and "w_dir (s_world s') (s_path s) = w_dir (s_world s) (s_path s)"
    and "verify L (s_audit_path s) (Some (derive_audit_key L (mek ks))) (s_world s') = Inr rep"
    and "check_checkpoint L (s_audit_path s) (h_seq (d_audit_head d)) (h_hash (d_audit_head d)) (s_world s) = Inr ()
      \<Longrightarrow> check_checkpoint L (s_audit_path s) (h_seq (d_audit_head d)) (h_hash (d_audit_head d)) (s_world s') = Inr ()"
  shows "reopens L derived ks s' d"
proof -
  from assms(1) obtain bytes env where b: "load_file (s_path s) (s_world s) = Inr bytes"
      "parse_envelope L bytes = Inr env"
      and o: "open_vault L derived (s\<lparr>s_envelope := env\<rparr>) = Inr (ks, derive_audit_key L (mek ks), d)"
    by (auto simp: reopens_def)
  have "load_file (s_path s') (s_world s') = Inr bytes"
    using b(1) assms(2) same_file_reads(3) [OF assms(4)] by simp
  moreover have "open_vault L derived (s'\<lparr>s_envelope := env\<rparr>) = Inr (ks, derive_audit_key L (mek ks), d)"
    using open_vaultD [OF o] assms(3,5,6) by (auto intro!: open_vault_ok)
  ultimately show ?thesis using b(2) by (auto simp: reopens_def)
qed

lemma coherent_log:
  assumes co: "coherent L derived ks s" and ls: "log_step (s_audit s) (s_world s) lg w"
    and st: "log_state L (s_audit_key s) lg w ls'"
  shows "coherent L derived ks (s\<lparr>s_audit := lg, s_world := w\<rparr>)"
    "reopens L derived ks s d \<Longrightarrow> reopens L derived ks (s\<lparr>s_audit := lg, s_world := w\<rparr>) d"
    "checkpoint_ok L s d \<Longrightarrow> checkpoint_ok L (s\<lparr>s_audit := lg, s_world := w\<rparr>) d"
proof -
  let ?s = "s\<lparr>s_audit := lg, s_world := w\<rparr>"
  from co have c: "s_audit_key s = Some (derive_audit_key L (mek ks))" "files_apart s"
      "lg_path (s_audit s) = s_audit_path s" by (simp_all add: coherent_def)
  from co obtain ls0 where l0: "log_state L (s_audit_key s) (s_audit s) (s_world s) ls0"
    by (auto simp: coherent_def)
  from ls have lp: "lg_path lg = s_audit_path s" and ext: "extends (lg_path (s_audit s)) (s_world s) w"
    and env: "same_env (s_world s) w"
    using c(3) by (simp_all add: log_step_def)
  have vfile: "w_dir w (s_path s) = w_dir (s_world s) (s_path s)"
    using log_step_files(1) [OF ls] c(2) by (simp add: files_apart_def)
  have check: "check_checkpoint L (s_audit_path s) n h (s_world s) = Inr () \<Longrightarrow>
      check_checkpoint L (s_audit_path s) n h w = Inr ()" for n h
    using checkpoint_extends [OF l0 st _ ext] lp c(3) by simp
  obtain rep where "verify L (s_audit_path s) (Some (derive_audit_key L (mek ks))) w = Inr rep"
    using log_state_verify [OF st] c(1) lp by auto
  then show r: "reopens L derived ks ?s d" if "reopens L derived ks s d" for d
    using reopens_same [OF that, of ?s rep] vfile check by simp
  show "checkpoint_ok L s d \<Longrightarrow> checkpoint_ok L ?s d"
    using check lp c(3) by (simp add: checkpoint_ok_def)
  have "no_torn_writes w" using co env by (simp add: coherent_def no_torn_writes_def same_env_def)
  moreover have "\<exists>d. reopens L derived ks ?s d" using co r by (auto simp: coherent_def)
  ultimately show "coherent L derived ks ?s"
    using co st lp by (auto simp: coherent_def files_apart_def)
qed

lemma commit_seal_envelope:
  assumes "commit_seal L doc ks s = (q, s')"
  shows "s_envelope s' = s_envelope s \<or>
    (\<exists>bytes v. reseal_document L bytes ks (s_envelope s) (s_world s) = (Inr (), s_envelope s', v))"
proof (cases "doc_ser L doc")
  case None
  with assms show ?thesis by (auto simp: commit_seal_def)
next
  case (Some bytes)
  obtain r env w where rs: "reseal_document L bytes ks (s_envelope s) (s_world s) = (r, env, w)"
    by (metis prod_cases3)
  have e: "s_envelope s' = env"
    using assms Some rs
    by (cases r; cases "validate_persistable L env"; cases "save_atomic (s_path s) (to_bytes L env) w")
      (auto simp: commit_seal_def Let_def rebuild_agent_digests_eq split: sum.splits)
  show ?thesis
  proof (cases r)
    case (Inl x)
    with rs have "env = s_envelope s" by (auto simp: reseal_document_def split: prod.splits sum.splits)
    with e show ?thesis by simp
  next
    case (Inr u)
    with rs e show ?thesis by auto
  qed
qed

lemma coherent_seal:
  assumes co: "coherent L derived ks s" and laws: "library_laws L" and ck: "checkpoint_ok L s doc"
    and cs: "commit_seal L doc ks s = (q, s')"
  shows "coherent L derived ks s'" "q = Inr u \<Longrightarrow> reopens L derived ks s' doc"
    "q = Inl e \<Longrightarrow> reopens L derived ks s d \<Longrightarrow> reopens L derived ks s' d"
proof -
  note disk = commit_seal_disk [OF cs]
  from laws have law: "aead_law L" "aead_sizes L"
      "\<And>d bytes. doc_ser L d = Some bytes \<Longrightarrow> doc_de L bytes = Some d"
    by (simp_all add: library_laws_def)
  from co have c: "s_audit_key s = Some (derive_audit_key L (mek ks))" "lg_path (s_audit s) = s_audit_path s"
      "lg_path (s_audit s) \<noteq> s_path s" "\<not> is_temp_of (s_path s) (lg_path (s_audit s))"
      "env_wf (s_envelope s)" "unlock_with L (s_envelope s) derived = Inr ks"
      "hdr_de L (hdr_ser L (en_header (s_envelope s))) = Some (en_header (s_envelope s))"
    unfolding coherent_def files_apart_def by blast+
  have us: "unlocked_same s s'" using commit_seal_step [OF cs] by (simp add: commit_step_def)
  have log: "w_dir (s_world s') (s_audit_path s) = w_dir (s_world s) (s_audit_path s)"
    using disk(4) [OF c(3,4)] c(2) by simp
  from co obtain ls where st: "log_state L (s_audit_key s) (s_audit s) (s_world s) ls" by (auto simp: coherent_def)
  have st': "log_state L (s_audit_key s') (s_audit s') (s_world s') ls"
  proof -
    have "s_audit_key s' = s_audit_key s" using us by (simp add: unlocked_same_def)
    moreover have "w_dir (s_world s') (lg_path (s_audit s)) = w_dir (s_world s) (lg_path (s_audit s))"
      using log c(2) by simp
    ultimately show ?thesis using st disk(1) same_file_log_state by metis
  qed
  obtain rep where ver: "verify L (s_audit_path s) (Some (derive_audit_key L (mek ks))) (s_world s') = Inr rep"
    using log_state_verify [OF st] unfolding c(1,2) same_file_reads(1) [OF log] by blast
  show keep: "reopens L derived ks s' d" if "q = Inl e" "reopens L derived ks s d" for d e
    by (rule reopens_same [OF that(2) disk(2,3) _ ver])
      (simp_all add: disk(5) [OF that(1)] same_file_reads(2) [OF log])
  have env: "env_wf (s_envelope s') \<and> en_header (s_envelope s') = en_header (s_envelope s)"
    using commit_seal_envelope [OF cs]
  proof
    assume "\<exists>bytes v. reseal_document L bytes ks (s_envelope s) (s_world s) = (Inr (), s_envelope s', v)"
    then obtain bytes v where rs: "reseal_document L bytes ks (s_envelope s) (s_world s) = (Inr (), s_envelope s', v)"
      by blast
    show ?thesis using reseal_document_ok(1) [OF rs] reseal_document_ok(4) [OF rs law(2) c(5)] by simp
  qed (simp add: c(5))
  note un = unlock_with_header [OF conjunct2 [OF env], of L derived, unfolded c(6)]
  show new: "reopens L derived ks s' doc" if "q = Inr u" for u
  proof -
    from disk(6) [OF that] obtain bytes v where b: "doc_ser L doc = Some bytes"
        "reseal_document L bytes ks (s_envelope s) (s_world s) = (Inr (), s_envelope s', v)"
        and f: "w_dir (s_world s') (s_path s) = Some (to_bytes L (s_envelope s'))"
        and v: "validate_persistable L (s_envelope s') = Inr ()" by auto
    have "parse_envelope L (to_bytes L (s_envelope s')) = Inr (s_envelope s')"
      using c(7) env v by (intro parse_to_bytes) simp_all
    moreover have "open_document L (s_envelope s') ks = Inr bytes" by (rule reseal_document_ok(2) [OF b(2) law(1)])
    moreover have "check_checkpoint L (s_audit_path s) (h_seq (d_audit_head doc)) (h_hash (d_audit_head doc)) (s_world s') = Inr ()"
      using ck c(2) by (simp add: checkpoint_ok_def same_file_reads(2) [OF log])
    ultimately have "open_vault L derived (s'\<lparr>s_envelope := s_envelope s'\<rparr>) = Inr (ks, derive_audit_key L (mek ks), doc)"
      using un ver law(3) [OF b(1)] disk(3) by (intro open_vault_ok) simp_all
    with f \<open>parse_envelope _ _ = _\<close> disk(2) show ?thesis
      by (auto simp: reopens_def load_file_def)
  qed
  have "\<exists>d. reopens L derived ks s' d"
  proof (cases q)
    case (Inl e) with co keep show ?thesis by (auto simp: coherent_def)
  next
    case (Inr u) with new show ?thesis by auto
  qed
  moreover have "s_keys s' = Some ks" "s_audit_key s' = s_audit_key s" "no_torn_writes (s_world s')"
    using us co by (simp_all add: unlocked_same_def core_same_def no_torn_writes_def same_env_def coherent_def)
  ultimately show "coherent L derived ks s'"
    unfolding coherent_def files_apart_def disk(1-3) using c env un st' [unfolded disk(1)] by auto
qed

text \<open>Whatever an operation commits, at whatever priority, and whichever step fails (staging,
  the append, its fsync, the random draw, the size check, the temporary file, the rename), the
  vault on disk can afterwards be loaded and unlocked with the same passphrase, as long as the
  file system does not tear an append: to the new document when the commit succeeded, to the
  previous one when it failed. In particular the checkpoint inside the vault file never names an
  entry the log does not have.\<close>

theorem commit_keeps_vault_openable:
  assumes "coherent L derived ks s" and "library_laws L" and "checkpoint_ok L s doc"
    and "reopens L derived ks s d0" and "commit_with L doc r prio s = (q, s')"
  shows "coherent L derived ks s'
    \<and> (if is_ok q then \<exists>d. s_doc s' = Some d \<and> reopens L derived ks s' d else reopens L derived ks s' d0)"
proof -
  from assms(1) have k: "s_keys s = Some ks" "no_torn_writes (s_world s)" by (simp_all add: coherent_def)
  from assms(2) have law: "digest_sizes L" "json_lines L" by (simp_all add: library_laws_def)
  from assms(1) obtain ls where st: "log_state L (s_audit_key s) (s_audit s) (s_world s) ls" by (auto simp: coherent_def)
  have seal: ?thesis if co: "coherent L derived ks s1" "checkpoint_ok L s1 d1" "reopens L derived ks s1 d0"
      and cs: "commit_seal L d1 ks s1 = (q, s')" for s1 d1
  proof (cases q)
    case (Inl e)
    with coherent_seal [OF co(1) assms(2) co(2) cs] co(3) show ?thesis by simp
  next
    case (Inr u)
    with coherent_seal [OF co(1) assms(2) co(2) cs] commit_seal_disk(6) [OF cs Inr] show ?thesis by simp
  qed
  show ?thesis
  proof (rule commit_with_cases [OF assms(5) k(1)])
    fix e assume "q = Inl e" "s' = s"
    with assms(1,4) show ?thesis by simp
  next
    assume "commit_seal L doc ks s = (q, s')"
    with assms(1,3,4) show ?thesis by (intro seal)
  next
    fix stg lg w
    assume sg: "stage L r (s_audit_key s) prio (s_audit s) (s_world s) = Inr stg"
      and ap: "append_staged L stg (s_audit s) (s_world s) = (Inr (), lg, w)"
      and cs: "commit_seal L (doc\<lparr>d_audit_head := \<lparr>h_seq = ev_seq (st_event stg), h_hash = st_hash_hex stg\<rparr>\<rparr>) ks
         (s\<lparr>s_audit := lg, s_world := w\<rparr>) = (q, s')"
    have st2: "log_state L (s_audit_key s) lg w (ls @ [staged_line stg])"
      using append_staged_state [OF st stage_from [OF sg] law _ ap] by blast
    have ln: "line_ok L (s_audit_key s) (chain_head L ZERO_HASH ls) (length ls) (staged_line stg)"
      by (rule staged_line_ok [OF st stage_from [OF sg] law(1)]) simp
    note co = coherent_log [OF assms(1) append_staged_step [OF ap] st2]
    have "checkpoint_ok L (s\<lparr>s_audit := lg, s_world := w\<rparr>)
        (doc\<lparr>d_audit_head := \<lparr>h_seq = ev_seq (st_event stg), h_hash = st_hash_hex stg\<rparr>\<rparr>)"
      using checkpoint_last [OF st2] ln by (simp add: checkpoint_ok_def line_ok_def staged_line_def)
    with co assms(4) cs show ?thesis by (intro seal) simp_all
  next
    fix stg lg w e
    assume sg: "stage L r (s_audit_key s) prio (s_audit s) (s_world s) = Inr stg"
      and ap: "append_staged L stg (s_audit s) (s_world s) = (Inl e, lg, w)"
    then obtain ls' where "log_state L (s_audit_key s) lg w ls'"
      using append_staged_state [OF st stage_from [OF sg] law _ ap] k(2) by blast
    note co = coherent_log [OF assms(1) append_staged_step [OF ap] this]
    show ?thesis if "q = Inl (AuditWrite (display_error e))" "s' = s\<lparr>s_audit := lg, s_world := w\<rparr>"
      using that co assms(4) by simp
    show ?thesis if "commit_seal L doc ks (s\<lparr>s_audit := lg, s_world := w\<rparr>) = (q, s')"
      using that co assms(3,4) by (intro seal) simp_all
  qed
qed

end
