(* ===== verification/Durability.thy ===== *)
theory Durability
  imports CommitTheorems
begin

text \<open>
  What an operation has acknowledged is in the vault file: a daemon that is started again on the files of
  that moment, with the same passphrase, has it.
\<close>

section \<open>Acknowledged changes\<close>

lemma with_doc_open:
  assumes "with_doc L actor op project keys s = (Inr doc, s1)"
  shows "s1 = check_idle L s" "s_keys s1 \<noteq> None" "s_doc s1 = Some doc"
  using assms by (auto simp: with_doc_def gate_def Let_def try_bind_def split: if_splits prod.splits sum.splits option.splits)

lemma check_idle_open: "s_keys (check_idle L s) \<noteq> None \<Longrightarrow> check_idle L s = s"
  by (auto simp: check_idle_def lock_persist_def lock_session_def Let_def
      split: prod.splits sum.splits option.splits if_splits)

lemma acknowledged_change_reopens:
  assumes co: "coherent L derived ks s" and laws: "library_laws L"
    and doc: "s_doc s = Some doc" "checkpoint_ok L s doc" "d_audit_head doc' = d_audit_head doc"
    and fin: "finish_change L prio r dp (Inr (x, doc')) s = (Inr y, s')"
  shows "\<exists>h. s_doc s' = Some (doc'\<lparr>d_audit_head := h\<rparr>) \<and> reopens L derived ks s' (doc'\<lparr>d_audit_head := h\<rparr>)"
proof -
  obtain q where c: "commit_with L doc' r prio s = (q, s')" and q: "is_ok q"
  proof
    show "commit_with L doc' r prio s = (fst (commit_with L doc' r prio s), s')"
      "is_ok (fst (commit_with L doc' r prio s))"
      using fin by (cases "commit_with L doc' r prio s";
          auto simp: finish_change_def try_bind_def split: sum.splits)+
  qed
  obtain d0 where "reopens L derived ks s d0" using co by (auto simp: coherent_def)
  moreover have "checkpoint_ok L s doc'" using doc(2,3) by (simp add: checkpoint_ok_def)
  ultimately obtain d where d: "s_doc s' = Some d" "reopens L derived ks s' d"
    using commit_keeps_vault_openable [OF co laws _ _ c] q by auto
  with commit_with_step [OF c] q show ?thesis by (auto simp: commit_step_def)
qed

text \<open>A document with a new audit head answers every lookup alike.\<close>

lemma head_lookups [simp]:
  "project_by_name (d\<lparr>d_audit_head := h\<rparr>) n = project_by_name d n"
  "secret_of (d\<lparr>d_audit_head := h\<rparr>) p k = secret_of d p k"
  by (simp_all add: project_by_name_def secret_of_def)

lemma do_secret_set_stores:
  assumes "do_secret_set now doc project key val = Inr (u, doc')"
  shows "d_audit_head doc' = d_audit_head doc"
    "\<exists>p x. project_by_name doc' project = Some p \<and> secret_of doc' (p_id p) key = Some x \<and> s_value x = val"
proof -
  show "d_audit_head doc' = d_audit_head doc"
    using assms by (auto simp: do_secret_set_def Let_def res_bind_Inr_iff split: option.splits if_splits)
  from assms obtain p where p: "project_by_name doc project = Some p"
    by (auto simp: do_secret_set_def res_bind_Inr_iff split: option.splits)
  show "\<exists>p x. project_by_name doc' project = Some p \<and> secret_of doc' (p_id p) key = Some x \<and> s_value x = val"
  proof (cases "secret_of doc (p_id p) key")
    case None
    with assms p show ?thesis
      by (auto simp: do_secret_set_def Let_def res_bind_Inr_iff secret_of_def project_by_name_def find_snoc)
  next
    case (Some x)
    with assms p have "doc' = doc\<lparr>d_secrets :=
        update_first (\<lambda>s. s_project_id s = p_id p \<and> s_key s = key)
          (\<lambda>s. s\<lparr>s_value := val, s_updated_at := now\<rparr>) (d_secrets doc)\<rparr>"
      by (auto simp: do_secret_set_def Let_def res_bind_Inr_iff)
    moreover have "s_project_id x = p_id p" "s_key x = key"
      using Some by (auto simp: secret_of_def dest: find_SomeD)
    ultimately show ?thesis
      using p Some by (simp add: secret_of_def project_by_name_def find_update_first)
  qed
qed

text \<open>C2: A secret whose setting was acknowledged is in the vault: when \<open>secret_set\<close> succeeds, a daemon that is
  started on the files as they are then, and unlocked with the same passphrase, has the value under
  that project and key; its audit log verifies and has the entry the vault names. (As long as the
  file system does not tear an append; a session is \<open>coherent\<close> when its vault can be opened to begin with,
  and stays so.)\<close>

theorem stored_secret_survives_restart:
  assumes "coherent L derived ks s" and "library_laws L"
    and "s_doc s = Some doc" and "checkpoint_ok L s doc"
    and "secret_set L actor project key val s = (Inr (), s')"
  shows "\<exists>d p x. reopens L derived ks s' d \<and> project_by_name d project = Some p
    \<and> secret_of d (p_id p) key = Some x \<and> s_value x = val"
proof -
  let ?r = "mk_record actor ''secret.set'' (Some project) [key] None Allowed None"
  obtain g s1 where w: "with_doc L actor ''secret.set'' (Some project) [key] s = (g, s1)" by force
  with assms(5) obtain d1 where g: "g = Inr d1" by (cases g) (auto simp: secret_set_def)
  note o = with_doc_open [OF w [unfolded g]]
  have s1: "s1 = s" "d1 = doc" using o check_idle_open [of L s] assms(3) by auto
  obtain out where out: "do_secret_set (w_wall (s_world s)) doc project key val = out" by blast
  with assms(5) w g s1 have fin: "finish_change L Ordinary ?r (Some project) out s = (Inr (), s')"
    by (simp add: secret_set_def)
  then obtain u doc' where ok: "out = Inr (u, doc')"
    by (cases out) (auto simp: finish_change_def refuse_def split: prod.splits)
  from do_secret_set_stores [OF out [unfolded ok]] acknowledged_change_reopens [OF assms(1-4) _ fin [unfolded ok]]
  show ?thesis by fastforce
qed

section \<open>A vault that can be opened\<close>

text \<open>For the witness: the audit lines of \<open>Codec\<close>, a header with one slot, and a serialiser of the two
  documents that occur, whatever audit entry they name.\<close>

definition mek_toy :: string where "mek_toy = replicate 32 CHR ''m''"
definition dek_toy :: string where "dek_toy = replicate 32 CHR ''d''"

definition header_toy :: vault_header where
  "header_toy =
     \<lparr>vh_created_at = 0,
      vh_slots = [\<lparr>sl_id = ''s'', sl_kind = Passphrase, sl_kdf = argon2id_defaults, sl_salt = replicate 16 CHR 0x00,
                   sl_nonce = replicate 24 CHR 0x00, sl_wrapped_mek = toy_tag ''k'' @ mek_toy\<rparr>],
      vh_dek = \<lparr>wk_nonce = replicate 24 CHR 0x00, wk_wrapped = toy_tag mek_toy @ dek_toy\<rparr>\<rparr>"

definition doc_after :: vault_document where
  "doc_after = toy_doc\<lparr>d_secrets :=
     [\<lparr>s_project_id = ''p'', s_key = ''K'', s_value = ''w'', s_created_at = 0, s_updated_at = 0\<rparr>]\<rparr>"

definition e_head :: "audit_head printer" where
  "e_head h = e_pair e_nat e_str (h_seq h, h_hash h)"

definition p_head :: "audit_head parser" where
  "p_head = p_map (\<lambda>(n, h). \<lparr>h_seq = n, h_hash = h\<rparr>) (p_pair p_nat p_str)"

lemma codec_head: "codec e_head p_head"
  unfolding e_head_def [abs_def] p_head_def
  by (rule codec_map [OF codec_pair [OF codec_nat codec_str]]) simp

definition headless :: "vault_document \<Rightarrow> vault_document" where
  "headless d = d\<lparr>d_audit_head := genesis\<rparr>"

definition ser_toy :: "vault_document \<Rightarrow> string option" where
  "ser_toy d =
     (if headless d = toy_doc then Some (CHR ''0'' # e_head (d_audit_head d))
      else if headless d = doc_after then Some (CHR ''1'' # e_head (d_audit_head d)) else None)"

fun de_toy :: "string \<Rightarrow> vault_document option" where
  "de_toy [] = None"
| "de_toy (c # bytes) =
     map_option (\<lambda>h. (if c = CHR ''0'' then toy_doc else doc_after)\<lparr>d_audit_head := h\<rparr>) (parse_whole p_head bytes)"

lemma headless_back: "headless d = base \<Longrightarrow> base\<lparr>d_audit_head := d_audit_head d\<rparr> = d"
  by (auto simp: headless_def)

lemma ser_toy_back: "ser_toy d = Some bytes \<Longrightarrow> de_toy bytes = Some d"
  by (auto simp: ser_toy_def parse_whole [OF codec_head] headless_back split: if_splits)

definition durable_lib :: vault_lib where
  "durable_lib = envelope_lib.extend
     (audit_lib.extend toy_audit \<lparr>hdr_ser = (\<lambda>_. ''{}''), hdr_de = (\<lambda>_. Some header_toy)\<rparr>)
     \<lparr>doc_ser = ser_toy, doc_de = de_toy\<rparr>"

lemma durable_sel [simp]:
  "sha256 durable_lib = toy_hash" "hmac_sha256 durable_lib k x = toy_hash k" "rfc3339 durable_lib t = Some ''t''"
  "event_json durable_lib = e_event" "line_json durable_lib = e_line" "parse_line durable_lib = parse_whole p_line"
  "aead_seal durable_lib k n ad pt = toy_tag k @ pt" "aead_open durable_lib = toy_open"
  "hdr_ser durable_lib h = ''{}''" "hdr_de durable_lib x = Some header_toy"
  "doc_ser durable_lib = ser_toy" "doc_de durable_lib = de_toy"
  by (simp_all add: durable_lib_def toy_audit_def audit_lib.defs envelope_lib.defs)

lemma durable_laws: "library_laws durable_lib"
proof -
  have "digest_sizes durable_lib" by (simp add: digest_sizes_def)
  moreover have "json_lines durable_lib" using toy_json_lines by (simp add: json_lines_def)
  moreover have "aead_law durable_lib" "aead_sizes durable_lib"
    by (simp_all add: aead_law_def aead_sizes_def TAG_LEN_def)
  ultimately show ?thesis by (simp add: library_laws_def ser_toy_back)
qed

definition envelope_toy :: "string \<Rightarrow> envelope" where
  "envelope_toy bytes =
     \<lparr>en_header = header_toy, en_nonce = replicate 24 CHR 0x00, en_ct = toy_tag dek_toy @ bytes\<rparr>"

lemma envelope_toy_wf: "env_wf (envelope_toy bytes)"
  by (simp add: env_wf_def envelope_toy_def header_toy_def check_header_def MAX_SLOTS_def slot_lengths_ok_def
      SALT_LEN_def NONCE_LEN_def KEY_LEN_def TAG_LEN_def mek_toy_def dek_toy_def)

lemma envelope_toy_unlocks:
  "unlock_with durable_lib (envelope_toy bytes) [(0, ''k'')] = Inr \<lparr>mek = mek_toy, dek = dek_toy\<rparr>"
  by (simp add: envelope_toy_def header_toy_def unwrap_dek_def NONCE_LEN_def KEY_LEN_def ok_or_def)
    (simp add: mek_toy_def dek_toy_def)

lemma envelope_toy_opens:
  "open_document durable_lib (envelope_toy bytes) \<lparr>mek = m, dek = dek_toy\<rparr> = Inr bytes"
  by (simp add: open_document_def envelope_toy_def ok_or_def)

section \<open>Appends and commits that go through\<close>

lemma length_e_nat: "length (e_nat n) = n + 1"
  unfolding e_nat_def by (induction n) simp_all

lemma probe_length:
  "length (e_line (probe_line (record_event (mk_record a op p ks None Allowed None) ''t'' lg)))
    \<le> 3000 + lg_seq lg + 18 * length (lg_last_hash lg) + 9 * length a + 9 * length op
      + length (e_opt e_str p) + length (e_list e_str ks)"
  by (simp add: e_line_def e_pair_def e_event_def event_tuple_def e_opt_def e_bool_def length_e_nat probe_line_def
      record_event_def mk_record_def)

lemma durable_append:
  assumes st: "log_state durable_lib (Some key) lg w ls" and calm: "\<And>i. w_fault w i = None"
    and soft: "lg_soft lg = AUDIT_SOFT_LIMIT" and c: "w_dir w (lg_path lg) = Some c" "length c \<le> 100000"
    and r: "r = mk_record a op p ks None Allowed None"
      "length ls + 9 * length a + 9 * length op + length (e_opt e_str p) + length (e_list e_str ks) \<le> 10000"
  shows "\<exists>st lg' w'. stage durable_lib r (Some key) Ordinary lg w = Inr st
    \<and> append_staged durable_lib st lg w = (Inr (), lg', w') \<and> log_state durable_lib (Some key) lg' w' (ls @ [staged_line st])
    \<and> length (st_hash_hex st) = 64 \<and> ev_seq (st_event st) = Suc (length ls) \<and> log_step lg w lg' w'
    \<and> w_dir w' (lg_path lg) = Some (c @ e_line (staged_line st) @ [NL]) \<and> length (e_line (staged_line st)) \<le> 20000"
proof -
  have law: "digest_sizes durable_lib" "json_lines durable_lib" using durable_laws by (simp_all add: library_laws_def)
  note rs = resync_log_state [OF st]
  let ?lg = "resync durable_lib w lg"
  let ?ev = "record_event r ''t'' ?lg"
  have "length (lg_last_hash ?lg) = 32" using rs(2) law(1) by (simp add: chain_head_length)
  then have probe: "length (e_line (probe_line ?ev)) \<le> 20000"
    using probe_length [of a op p ks ?lg] r rs(1) by simp
  then have "preflight durable_lib ?lg w ?ev Ordinary = Inr ()"
    using soft c by (simp add: preflight_def Let_def file_len_def AUDIT_SOFT_LIMIT_def MAX_AUDIT_LEN_def AUDIT_HEADROOM_def)
  then obtain s where s: "stage durable_lib r (Some key) Ordinary lg w = Inr s" and ev: "st_event s = ?ev"
    by (auto simp: stage_def stage_event_def Let_def)
  note sf = stage_from [OF s]
  obtain w' where ap: "append_sync (lg_path lg) (e_line (staged_line s) @ [NL]) w = (Inr (), w')"
    using c calm by (simp add: append_sync_def fault_now_def Let_def)
  then obtain lg' where a: "append_staged durable_lib s lg w = (Inr (), lg', w')"
    using append_staged_eq [OF st sf law(1)] by auto
  have "json_line_sizes durable_lib" using toy_json_line_sizes by (simp add: json_line_sizes_def)
  from staged_line_size [OF sf law(1) this] probe ev have "length (e_line (staged_line s)) \<le> 20000" by simp
  moreover have "log_state durable_lib (Some key) lg' w' (ls @ [staged_line s])"
    using append_staged_state [OF st sf law _ a] by simp
  moreover have "ev_seq (st_event s) = Suc (length ls)" using ev rs(1) by (simp add: record_event_def)
  ultimately show ?thesis
    using s a staged_hex_sizes(1) [OF sf law(1)] append_staged_step [OF a] append_staged_written [OF a] c by auto
qed

lemma ser_toy_after: "headless d = doc_after \<Longrightarrow> \<exists>bytes. ser_toy d = Some bytes"
  by (auto simp: ser_toy_def)

lemma ser_toy_length:
  "ser_toy d = Some bytes \<Longrightarrow> length bytes = h_seq (d_audit_head d) + 9 * length (h_hash (d_audit_head d)) + 3"
  by (auto simp: ser_toy_def e_head_def e_pair_def length_e_nat split: if_splits)

lemma durable_seal:
  assumes "s_path s = ''/v''" "\<And>i. w_fault (s_world s) i = None" "\<And>i. w_rng_ok (s_world s) i"
    and "\<And>t. w_dir (s_world s) (temp_name ''/v'' (hex t)) = None"
    and "ser_toy doc = Some bytes" and "length bytes \<le> 10000"
  shows "\<exists>s'. commit_seal durable_lib doc ks s = (Inr (), s')"
proof -
  obtain r env w where rs: "reseal_document durable_lib bytes ks (s_envelope s) (s_world s) = (r, env, w)"
    by (metis prod_cases3)
  note rw = reseal_document_world [OF rs]
  have r: "r = Inr ()" and ct: "length (en_ct env) = 16 + length bytes"
    using rs assms(3) by (auto simp: reseal_document_def random_bytes_def Let_def)
  have v: "validate_persistable durable_lib env = Inr ()"
    using ct assms(6) by (simp add: validate_persistable_def MAX_HEADER_LEN_def MAX_FILE_LEN_def MAGIC_def NONCE_LEN_def)
  have "file_name ''/v'' \<noteq> None" by (simp add: file_name_def file_part_def SLASH_def)
  then obtain w2 where "save_atomic ''/v'' (to_bytes durable_lib env) w = (Inr (), w2)"
    using save_atomic_succeeds [of "''/v''" w "to_bytes durable_lib env"] rw assms by (auto simp: same_env_def)
  with rs r v assms(1,5) show ?thesis by (simp add: commit_seal_def Let_def)
qed

definition key_toy :: string where "key_toy = derive_audit_key durable_lib mek_toy"

definition doc_before :: "staged_entry \<Rightarrow> vault_document" where
  "doc_before st = toy_doc\<lparr>d_audit_head := \<lparr>h_seq = 1, h_hash = st_hash_hex st\<rparr>\<rparr>"

text \<open>A session over a vault file that names the one entry of its log.\<close>

definition durable_session :: "staged_entry \<Rightarrow> audit_log \<Rightarrow> world \<Rightarrow> session" where
  "durable_session st lg w =
     (let env = envelope_toy (the (ser_toy (doc_before st))) in
      toy_session\<lparr>s_envelope := env, s_doc := Some (doc_before st), s_keys := Some \<lparr>mek = mek_toy, dek = dek_toy\<rparr>,
        s_audit_key := Some key_toy, s_audit := lg,
        s_world := w\<lparr>w_dir := (w_dir w)(''/v'' \<mapsto> to_bytes durable_lib env)\<rparr>\<rparr>)"

lemma ser_doc_before: "ser_toy (doc_before st) = Some (CHR ''0'' # e_head \<lparr>h_seq = 1, h_hash = st_hash_hex st\<rparr>)"
proof -
  have "headless (doc_before st) = toy_doc"
    by (simp add: headless_def doc_before_def toy_doc_def)
  then show ?thesis by (simp add: ser_toy_def) (simp add: doc_before_def)
qed

lemma first_entry:
  obtains st lg w where "log_state durable_lib (Some key_toy) lg w [staged_line st]" "length (st_hash_hex st) = 64"
    "ev_seq (st_event st) = 1" "lg_path lg = ''/a''" "lg_soft lg = AUDIT_SOFT_LIMIT" "lg_hard lg = MAX_AUDIT_LEN"
    "\<And>i. w_fault w i = None" "\<And>i. w_rng_ok w i" "w_wall w = 0"
    "\<exists>c. w_dir w = [''/a'' \<mapsto> c] \<and> length c \<le> 30000"
proof -
  have st0: "log_state durable_lib (Some key_toy) toy_log toy_log_world []"
    using toy_log_state by (simp add: log_state_def log_file_def parses_to_def)
  let ?r = "mk_record ''human'' ''vault.create'' None [] None Allowed None"
  obtain st lg w where a: "log_state durable_lib (Some key_toy) lg w ([] @ [staged_line st])" "length (st_hash_hex st) = 64"
      "ev_seq (st_event st) = Suc (length ([] :: audit_line list))" "log_step toy_log toy_log_world lg w"
      "w_dir w (lg_path toy_log) = Some ([] @ e_line (staged_line st) @ [NL])" "length (e_line (staged_line st)) \<le> 20000"
    using durable_append [OF st0, of "[]" ?r "''human''" "''vault.create''" None "[]"]
    by (auto simp: toy_log_def toy_log_world_def calm_world_def e_opt_def)
  have "w_dir w = [''/a'' \<mapsto> e_line (staged_line st) @ [NL]]"
    using a(4,5) by (auto simp: log_step_def extends_def toy_log_def toy_log_world_def calm_world_def fun_eq_iff)
  with a(6) have "\<exists>c. w_dir w = [''/a'' \<mapsto> c] \<and> length c \<le> 30000" by auto
  moreover have "lg_path lg = ''/a''" "lg_soft lg = AUDIT_SOFT_LIMIT" "lg_hard lg = MAX_AUDIT_LEN"
    "\<And>i. w_fault w i = None" "\<And>i. w_rng_ok w i" "w_wall w = 0"
    using a(4) by (simp_all add: log_step_def same_env_def toy_log_def toy_log_world_def calm_world_def)
  ultimately show thesis using a(1-3) that [of lg w st] by simp
qed

lemma durable_coherent:
  assumes "log_state durable_lib (Some key_toy) lg w [staged_line st]" "lg_path lg = ''/a''" "\<And>i. w_fault w i = None"
    and "length (st_hash_hex st) = 64"
  shows "coherent durable_lib [(0, ''k'')] \<lparr>mek = mek_toy, dek = dek_toy\<rparr> (durable_session st lg w)"
    "checkpoint_ok durable_lib (durable_session st lg w) (doc_before st)"
proof -
  let ?s = "durable_session st lg w" and ?ks = "\<lparr>mek = mek_toy, dek = dek_toy\<rparr>"
  let ?bytes = "CHR ''0'' # e_head \<lparr>h_seq = 1, h_hash = st_hash_hex st\<rparr>"
  let ?env = "envelope_toy ?bytes"
  have fields: "s_envelope ?s = ?env" "s_path ?s = ''/v''" "s_audit_path ?s = ''/a''" "s_audit ?s = lg"
    "s_keys ?s = Some ?ks" "s_audit_key ?s = Some key_toy"
    "w_dir (s_world ?s) ''/v'' = Some (to_bytes durable_lib ?env)" "w_fault (s_world ?s) = w_fault w"
    by (simp_all add: durable_session_def ser_doc_before Let_def) (simp add: toy_session_def)
  have st: "log_state durable_lib (Some key_toy) lg (s_world ?s) [staged_line st]"
    using assms(1,2) by (simp add: log_state_def durable_session_def Let_def)
  have ck: "check_checkpoint durable_lib ''/a'' 1 (st_hash_hex st) (s_world ?s) = Inr ()"
    using checkpoint_last [of _ _ _ _ "[]", simplified, OF st] assms(2) by (simp add: staged_line_def)
  then show "checkpoint_ok durable_lib ?s (doc_before st)"
    by (simp add: checkpoint_ok_def fields assms(2)) (simp add: doc_before_def)
  obtain rep where ver: "verify durable_lib ''/a'' (Some key_toy) (s_world ?s) = Inr rep"
    using log_state_verify [OF st] assms(2) by auto
  have "open_vault durable_lib [(0, ''k'')] (?s\<lparr>s_envelope := ?env\<rparr>)
      = Inr (?ks, derive_audit_key durable_lib (mek ?ks), doc_before st)"
  proof (rule open_vault_ok)
    show "doc_de durable_lib ?bytes = Some (doc_before st)"
      using ser_toy_back [OF ser_doc_before] by simp
  qed (use ck ver in \<open>simp_all add: fields envelope_toy_unlocks envelope_toy_opens key_toy_def doc_before_def
      del: unlock_with.simps\<close>)
  moreover have "parse_envelope durable_lib (to_bytes durable_lib ?env) = Inr ?env"
  proof (rule parse_to_bytes [OF envelope_toy_wf])
    show "validate_persistable durable_lib ?env = Inr ()"
      using assms(4) by (simp add: validate_persistable_def envelope_toy_def MAX_HEADER_LEN_def MAX_FILE_LEN_def
          MAGIC_def NONCE_LEN_def e_head_def e_pair_def length_e_nat)
  qed (simp add: envelope_toy_def)
  ultimately have "reopens durable_lib [(0, ''k'')] ?ks ?s (doc_before st)"
    by (auto simp: reopens_def load_file_def fields ok_or_def)
  moreover have "\<not> is_temp_of ''/v'' ''/a''" using temp_not(2) by (metis is_temp_of_def)
  moreover have "en_header ?env = header_toy" by (simp add: envelope_toy_def)
  ultimately show "coherent durable_lib [(0, ''k'')] ?ks ?s"
    using st assms(2,3)
    by (auto simp: coherent_def fields key_toy_def files_apart_def envelope_toy_wf envelope_toy_unlocks
        no_torn_writes_def simp del: unlock_with.simps)
qed

lemma durable_set_goes_through:
  assumes "log_state durable_lib (Some key_toy) lg w [staged_line st]" "length (st_hash_hex st) = 64"
    "lg_path lg = ''/a''" "lg_soft lg = AUDIT_SOFT_LIMIT"
    "\<And>i. w_fault w i = None" "\<And>i. w_rng_ok w i" "w_wall w = 0" "w_dir w = [''/a'' \<mapsto> c]" "length c \<le> 30000"
  shows "\<exists>s'. secret_set durable_lib ''human'' ''P'' ''K'' ''w'' (durable_session st lg w) = (Inr (), s')"
proof -
  let ?s = "durable_session st lg w"
  let ?r = "mk_record ''human'' ''secret.set'' (Some ''P'') [''K''] None Allowed None"
  let ?doc = "doc_after\<lparr>d_audit_head := d_audit_head (doc_before st)\<rparr>"
  have fields: "s_path ?s = ''/v''" "s_audit ?s = lg" "s_keys ?s = Some \<lparr>mek = mek_toy, dek = dek_toy\<rparr>"
    "s_audit_key ?s = Some key_toy" "s_doc ?s = Some (doc_before st)" "s_idle_timeout ?s = 0"
    "w_wall (s_world ?s) = 0" "w_fault (s_world ?s) = w_fault w" "w_rng_ok (s_world ?s) = w_rng_ok w"
    "\<And>p. p \<noteq> ''/v'' \<Longrightarrow> w_dir (s_world ?s) p = w_dir w p"
    using assms(7) by (simp_all add: durable_session_def Let_def)
  have w: "with_doc L actor op p ks ?s = (Inr (doc_before st), ?s)" for L :: "('z) vault_lib_scheme" and actor op p ks
    by (simp add: with_doc_def gate_def check_idle_def fields)
  have "do_secret_set 0 (doc_before st) ''P'' ''K'' ''w'' = Inr ((), ?doc)"
    by (simp add: do_secret_set_def check_secret_value_def MAX_VALUE_LEN_def doc_before_def doc_after_def
        Let_def toy_doc_lists)
  moreover have "\<exists>s'. commit_with durable_lib ?doc ?r Ordinary ?s = (Inr (), s')"
  proof -
    have "log_state durable_lib (Some key_toy) lg (s_world ?s) [staged_line st]"
      using assms(1,3) fields(10) by (simp add: log_state_def)
    then obtain st2 lg2 w2 where a: "stage durable_lib ?r (Some key_toy) Ordinary lg (s_world ?s) = Inr st2"
        "append_staged durable_lib st2 lg (s_world ?s) = (Inr (), lg2, w2)"
        "length (st_hash_hex st2) = 64" "ev_seq (st_event st2) = 2" "log_step lg (s_world ?s) lg2 w2"
      using durable_append [of key_toy lg "s_world ?s" "[staged_line st]" c ?r "''human''" "''secret.set''" "Some ''P''" "[''K'']"]
        assms fields by (auto simp: e_opt_def numeral_2_eq_2)
    let ?d = "?doc\<lparr>d_audit_head := \<lparr>h_seq = ev_seq (st_event st2), h_hash = st_hash_hex st2\<rparr>\<rparr>"
    have "headless ?d = doc_after" by (simp add: headless_def doc_after_def toy_doc_def)
    then obtain bytes where b: "ser_toy ?d = Some bytes" using ser_toy_after by blast
    moreover have "length bytes \<le> 10000" using ser_toy_length [OF b] a(3,4) by simp
    moreover have "w_dir w2 (temp_name ''/v'' (hex t)) = None" for t
      using log_step_files(1) [OF a(5), of "temp_name ''/v'' (hex t)"] temp_not [of t] assms(3,8) fields(10) by auto
    ultimately have "\<exists>s'. commit_seal durable_lib ?d \<lparr>mek = mek_toy, dek = dek_toy\<rparr> (?s\<lparr>s_audit := lg2, s_world := w2\<rparr>)
        = (Inr (), s')"
      using assms(5,6) a(5) fields by (intro durable_seal) (auto simp: log_step_def same_env_def)
    then show ?thesis using a fields by (simp add: commit_with_def Let_def)
  qed
  ultimately show ?thesis by (auto simp: secret_set_def w fields finish_change_def)
qed

theorem stored_secret_survives_restart_witness:
  "\<exists>s s' d p x. secret_set durable_lib ''human'' ''P'' ''K'' ''w'' s = (Inr (), s')
    \<and> reopens durable_lib [(0, ''k'')] \<lparr>mek = mek_toy, dek = dek_toy\<rparr> s' d
    \<and> project_by_name d ''P'' = Some p \<and> secret_of d (p_id p) ''K'' = Some x \<and> s_value x = ''w''"
proof -
  obtain st lg w c where e: "log_state durable_lib (Some key_toy) lg w [staged_line st]" "length (st_hash_hex st) = 64"
    "lg_path lg = ''/a''" "lg_soft lg = AUDIT_SOFT_LIMIT" "\<And>i. w_fault w i = None" "\<And>i. w_rng_ok w i" "w_wall w = 0"
    "w_dir w = [''/a'' \<mapsto> c]" "length c \<le> 30000"
    using first_entry by metis
  obtain s' where "secret_set durable_lib ''human'' ''P'' ''K'' ''w'' (durable_session st lg w) = (Inr (), s')"
    using durable_set_goes_through [OF e] by blast
  moreover have "s_doc (durable_session st lg w) = Some (doc_before st)" by (simp add: durable_session_def Let_def)
  ultimately show ?thesis
    using stored_secret_survives_restart [OF durable_coherent(1) [OF e(1,3,5,2)] durable_laws _
        durable_coherent(2) [OF e(1,3,5,2)]]
    by blast
qed

end
