(* ===== verification/AuthorityTheorems.thy ===== *)
theory AuthorityTheorems
  imports Toy
begin

text \<open>
  The properties of authority: who may do what with which lease, and what a revocation and a
  narrowed grant take away.
\<close>

section \<open>Authorization\<close>

definition lease_allows ::
  "('z) crypto_lib_scheme \<Rightarrow> vault_document \<Rightarrow> string \<Rightarrow> string \<Rightarrow> operation \<Rightarrow> string \<Rightarrow> time \<Rightarrow> lease \<Rightarrow> bool" where
  "lease_allows L d agent_id pid op cred now l \<longleftrightarrow>
     find (\<lambda>l. l_credential_hash l = token_digest L cred) (d_leases d) = Some l
     \<and> l_agent_id l = agent_id \<and> l_project_id l = pid \<and> l_revoked_at l = None
     \<and> now < l_expires_at l \<and> op \<in> set (l_ops l)"

definition permitted ::
  "('z) crypto_lib_scheme \<Rightarrow> vault_document \<Rightarrow> string \<Rightarrow> string \<Rightarrow> operation \<Rightarrow> string option \<Rightarrow> time
    \<Rightarrow> string \<Rightarrow> bool" where
  "permitted L d agent_id project op credential now who \<longleftrightarrow>
     (\<exists>p. project_by_name d project = Some p \<and> agent_active d agent_id \<and> authorize d agent_id (p_id p) op
        \<and> (case credential of
             None \<Rightarrow> who = agent_prefix agent_id
           | Some cred \<Rightarrow> \<exists>l. lease_allows L d agent_id (p_id p) op cred now l \<and> who = ''lease:'' @ l_id l))"

lemma covered_ops:
  "authorize d a p op = (\<exists>g. active_grant d a p = Some g \<and> op \<in> set (g_ops g))"
  by (simp add: authorize_def split: option.split)

lemma live_lease_covered:
  assumes "wf_doc d" and "l \<in> set (d_leases d)" and "l_revoked_at l = None"
  obtains g where "active_grant d (l_agent_id l) (l_project_id l) = Some g"
    "list_all (\<lambda>op. op \<in> set (g_ops g)) (l_ops l)"
proof -
  have c: "lease_covered d l" and "l_ops l \<noteq> []"
    using assms by (auto simp: wf_doc_def wf_leases_def)
  then obtain op where "op \<in> set (l_ops l)" by (cases "l_ops l") auto
  with c obtain g where g: "active_grant d (l_agent_id l) (l_project_id l) = Some g"
    by (auto simp: lease_covered_def covered_ops)
  with c have "list_all (\<lambda>op. op \<in> set (g_ops g)) (l_ops l)"
    by (auto simp: lease_covered_def covered_ops list_all_iff)
  with g show thesis by (rule that)
qed

lemma authorize_verdict_iff:
  assumes wf: "wf_doc d"
  shows "authorize_verdict L d agent_id project op credential now = Allow who
    \<longleftrightarrow> permitted L d agent_id project op credential now who"
proof (cases "project_by_name d project")
  case None
  then show ?thesis by (simp add: authorize_verdict_def permitted_def)
next
  case (Some p)
  show ?thesis
  proof (cases "agent_active d agent_id")
    case False
    with Some show ?thesis by (simp add: authorize_verdict_def permitted_def agent_active_def)
  next
    case act: True
    show ?thesis
    proof (cases credential)
      case None
      with Some act show ?thesis
        by (auto simp: authorize_verdict_def permitted_def agent_active_def)
    next
      case cred: (Some cred)
      let ?find = "find (\<lambda>l. l_credential_hash l = token_digest L cred) (d_leases d)"
      show ?thesis
      proof (cases ?find)
        case None
        with Some act cred show ?thesis
          by (simp add: authorize_verdict_def permitted_def agent_active_def lease_allows_def)
      next
        case l: (Some l)
        have v: "authorize_verdict L d agent_id project op credential now
            = lease_verdict d agent_id (p_id p) op l now"
          using Some act cred l by (simp add: authorize_verdict_def agent_active_def)
        have p: "permitted L d agent_id project op credential now who \<longleftrightarrow>
            lease_allows L d agent_id (p_id p) op cred now l \<and> who = ''lease:'' @ l_id l
            \<and> authorize d agent_id (p_id p) op"
          using Some act cred l by (auto simp: permitted_def lease_allows_def)
        show ?thesis
        proof (cases "l_agent_id l = agent_id \<and> l_project_id l = p_id p \<and> l_revoked_at l = None \<and> now < l_expires_at l")
          case False
          then show ?thesis using v p by (auto simp: lease_verdict_def lease_allows_def)
        next
          case True
          then obtain g where "active_grant d agent_id (p_id p) = Some g"
              "list_all (\<lambda>op. op \<in> set (g_ops g)) (l_ops l)"
            using live_lease_covered [OF wf, of l] find_SomeD [OF l] by metis
          then show ?thesis
            using True v p l by (auto simp: lease_verdict_def lease_allows_def covered_ops list_all_iff)
        qed
      qed
    qed
  qed
qed

lemma check_idle_keys:
  "s_keys (check_idle L s) = (if idle_expired s \<and> s_idle_self_lock s then None else s_keys s)"
proof (cases "idle_expired s \<and> s_idle_self_lock s")
  case True
  obtain s1 where "lock_persist L s = (Inr (), lock_session s1)" by (rule lock_persist_cases)
  with True show ?thesis by (simp add: check_idle_def idle_expired_def)
next
  case False
  then show ?thesis by (auto simp: check_idle_def idle_expired_def)
qed

fun verdict_result :: "verdict \<Rightarrow> string res" where
  "verdict_result (Allow who) = Inr who"
| "verdict_result (Deny e) = Inl e"
| "verdict_result (Sweep lid) = Inl LeaseExpired"

lemma fst_authorize_lease:
  "fst (authorize_lease L agent_id project op credential s) =
    (if s_keys (check_idle L s) = None then Inl Locked
     else case s_doc s of None \<Rightarrow> Inl Locked
       | Some d \<Rightarrow> verdict_result (authorize_verdict L d agent_id project op credential (w_wall (s_world s))))"
proof (cases "s_keys (check_idle L s)")
  case None
  then show ?thesis by (simp add: authorize_lease_def agent_gate_def Let_def refuse_def)
next
  case (Some ks)
  then have same: "check_idle L s = s" by (intro check_idle_unlocked) simp
  show ?thesis
  proof (cases "s_doc s")
    case None
    with Some same show ?thesis by (simp add: authorize_lease_def agent_gate_def Let_def)
  next
    case d: (Some d)
    with Some same show ?thesis
      by (cases "authorize_verdict L d agent_id project op credential (w_wall (s_world s))")
        (simp_all add: authorize_lease_def agent_gate_def Let_def)
  qed
qed

lemma authorize_lease_permitted:
  assumes "session_inv s" and "fst (authorize_lease L agent_id project op credential s) = Inr who"
  shows "\<exists>d. s_doc s = Some d \<and> permitted L d agent_id project op credential (w_wall (s_world s)) who"
proof -
  from assms(2) obtain d where d: "s_doc s = Some d"
      "verdict_result (authorize_verdict L d agent_id project op credential (w_wall (s_world s))) = Inr who"
    by (auto simp: fst_authorize_lease split: if_splits option.splits)
  then have "authorize_verdict L d agent_id project op credential (w_wall (s_world s)) = Allow who"
    by (cases "authorize_verdict L d agent_id project op credential (w_wall (s_world s))") simp_all
  with d assms(1) show ?thesis
    using authorize_verdict_iff [of d L] by (auto simp: session_inv_def)
qed

text \<open>C3: a request is authorized exactly when the vault is unlocked and its idle timeout has not
  expired, the project exists, the agent is active, its live grant on the project contains the
  operation and, when a lease credential is presented, the lease it resolves to belongs to this
  agent and project, is not revoked, has not expired and contains the operation; the audit actor
  names the lease or the agent.\<close>

theorem authorize_lease_iff:
  assumes "session_inv s"
  shows "fst (authorize_lease L agent_id project op credential s) = Inr who \<longleftrightarrow>
    (\<exists>d. s_keys s \<noteq> None \<and> \<not> (idle_expired s \<and> s_idle_self_lock s) \<and> s_doc s = Some d
       \<and> permitted L d agent_id project op credential (w_wall (s_world s)) who)"
proof (cases "s_keys (check_idle L s)")
  case None
  then show ?thesis by (auto simp: fst_authorize_lease check_idle_keys split: if_splits)
next
  case (Some ks)
  then have k: "s_keys s \<noteq> None" "\<not> (idle_expired s \<and> s_idle_self_lock s)"
    by (auto simp: check_idle_keys split: if_splits)
  then obtain d where d: "s_doc s = Some d" and wf: "wf_doc d"
    using assms by (auto simp: session_inv_def)
  let ?v = "authorize_verdict L d agent_id project op credential (w_wall (s_world s))"
  have "fst (authorize_lease L agent_id project op credential s) = Inr who \<longleftrightarrow> ?v = Allow who"
    using Some d by (cases ?v) (simp_all add: fst_authorize_lease)
  then show ?thesis using authorize_verdict_iff [OF wf] k d by simp
qed

lemma toy_ids: "p_id (hd (d_projects toy_doc)) = ''p''" "a_id (hd (d_agents toy_doc)) = ''a''"
  by (simp_all add: toy_doc_lists)

theorem authorize_lease_iff_witness:
  "fst (authorize_lease toy_vault ''a'' ''P'' OpRead (Some ''c'') toy_session) = Inr ''lease:l''
    \<and> fst (authorize_lease toy_vault ''a'' ''P'' OpReveal (Some ''c'') toy_session) \<noteq> Inr ''lease:l''"
proof -
  have w: "w_wall (calm_world fs) = 0" for fs by (simp add: calm_world_def)
  have "permitted toy_vault toy_doc ''a'' ''P'' OpRead (Some ''c'') 0 ''lease:l''"
    by (simp add: permitted_def lease_allows_def token_digest_def toy_doc_lists toy_ids)
  moreover have "\<not> permitted toy_vault toy_doc ''a'' ''P'' OpReveal (Some ''c'') 0 ''lease:l''"
    by (simp add: permitted_def lease_allows_def token_digest_def toy_doc_lists toy_ids)
  ultimately show ?thesis
    using authorize_lease_iff [OF toy_session_inv, of toy_vault] by (simp add: w idle_expired_def)
qed

section \<open>Revoking an agent\<close>

definition powerless :: "vault_document \<Rightarrow> string \<Rightarrow> bool" where
  "powerless d i \<longleftrightarrow> \<not> agent_active d i
     \<and> (\<forall>l\<in>set (d_leases d). l_agent_id l = i \<longrightarrow> l_revoked_at l \<noteq> None)
     \<and> (\<forall>a\<in>set (d_approvals d). ap_agent_id a = i \<longrightarrow> \<not> approval_open a)"

lemma agent_revoke_doc_powerless:
  assumes "wf_doc d" and "agent_revoke_doc now d name = Inr (u, d')" and "agent_by_name d name = Some a"
  shows "powerless d' (a_id a)"
proof -
  from assms(2) obtain i where i: "position (\<lambda>a. a_name a = name) (d_agents d) = Some i"
      and d': "d' = deny_agent_approvals (revoke_agent_leases
        (d\<lparr>d_agents := (d_agents d)[i := (d_agents d ! i)\<lparr>a_status := Revoked\<rparr>]\<rparr>) (a_id (d_agents d ! i)) now)
        (a_id (d_agents d ! i))"
    by (auto simp: agent_revoke_doc_def do_agent_revoke_def split: option.splits)
  have a: "a = d_agents d ! i"
    using assms(3) i by (simp add: agent_by_name_def position_find)
  have il: "i < length (d_agents d)" using position_SomeD [OF i] by simp
  have dist: "distinct (map a_id (d_agents d))" using assms(1) by (simp add: wf_doc_def wf_agents_def)
  have "\<not> (a_id b = a_id a \<and> a_status b = Active)"
    if b: "b \<in> set ((d_agents d)[i := (d_agents d ! i)\<lparr>a_status := Revoked\<rparr>])" for b
  proof -
    from b obtain k where k: "k < length (d_agents d)"
        "b = (if k = i then (d_agents d ! i)\<lparr>a_status := Revoked\<rparr> else d_agents d ! k)"
      by (auto simp: in_set_conv_nth nth_list_update split: if_splits)
    show ?thesis
      using k il dist a by (auto simp: distinct_conv_nth split: if_splits)
  qed
  then show ?thesis
    by (auto simp: powerless_def d' a agent_active_def deny_agent_approvals_def revoke_agent_leases_def
        approval_open_def split: if_splits)
qed

lemma digest_index_active:
  "digest_index d t = Some i \<Longrightarrow> agent_active d i"
  unfolding digest_index_def by (auto dest!: map_of_SomeD simp: agent_active_def)

lemma finish_change_ok:
  assumes "finish_change L prio r dp out s = (Inr x, s')"
  obtains doc where "out = Inr (x, doc)" "commit_with L doc r prio s = (Inr (), s')"
proof -
  from assms obtain y doc where o: "out = Inr (y, doc)"
    by (cases out) (auto simp: finish_change_def refuse_def)
  with assms obtain u where "commit_with L doc r prio s = (Inr u, s')" "y = x"
    by (auto simp: finish_change_def try_bind_Inr)
  with o show thesis using that by simp
qed

lemma human_change_ok:
  assumes "try_bind (with_doc L actor op project keys s)
      (\<lambda>doc s1. finish_change L (prio doc) r dp (f doc s1) s1) = (Inr x, s')" and "session_inv s"
  obtains d d' where "s_doc s = Some d" "wf_doc d" "s_keys s \<noteq> None" "f d s = Inr (x, d')"
    "commit_with L d' r (prio d) s = (Inr (), s')"
proof -
  obtain g s1 where g: "with_doc L actor op project keys s = (g, s1)" by force
  with assms(1) obtain d where [simp]: "g = Inr d" by (cases g) auto
  from with_doc_inv(2) [OF g assms(2)] have d: "s_keys s \<noteq> None" "s_doc s = Some d" "wf_doc d" "s1 = s"
    by auto
  with assms(1) g have "finish_change L (prio d) r dp (f d s) s = (Inr x, s')" by simp
  then show thesis using that d by (auto elim!: finish_change_ok)
qed

lemma commit_with_ok:
  assumes "commit_with L doc r prio s = (Inr (), s')"
  obtains h where "s_doc s' = Some (doc\<lparr>d_audit_head := h\<rparr>)" "s_digests s' = digest_index doc"
    "unlocked_same s s'"
  using commit_with_step [OF assms] that by (auto simp: commit_step_def)

lemma powerless_head [simp]: "powerless (d\<lparr>d_audit_head := h\<rparr>) i = powerless d i"
  by (simp add: powerless_def)

text \<open>C5: when \<open>agent_revoke\<close> succeeds, the agent is inactive, each of its leases is revoked and none
  of its approvals is pending or claimable, no token resolves to it any more, and every request
  it makes afterwards is refused, with or without a lease credential.\<close>

theorem agent_revoke_takes_everything:
  assumes "session_inv s" and "agent_revoke L actor name s = (Inr (), s')"
    and "s_doc s = Some d" and "agent_by_name d name = Some a"
  shows "\<exists>d'. s_doc s' = Some d' \<and> powerless d' (a_id a)
    \<and> (\<forall>token. resolve_agent L token s' \<noteq> Some (a_id a))
    \<and> (\<forall>project op cred who. fst (authorize_lease L (a_id a) project op cred s') \<noteq> Inr who)"
proof -
  from assms(1-3) obtain d' where
    f: "agent_revoke_doc (w_wall (s_world s)) d name = Inr ((), d')" and wf: "wf_doc d" and
    c: "commit_with L d' (mk_record actor ''agents.revoke'' None [] None Allowed None) Lifecycle s = (Inr (), s')"
    unfolding agent_revoke_def by (auto elim!: human_change_ok)
  from commit_with_ok [OF c] obtain h where h: "s_doc s' = Some (d'\<lparr>d_audit_head := h\<rparr>)"
      "s_digests s' = digest_index d'" by blast
  have p: "powerless d' (a_id a)" by (rule agent_revoke_doc_powerless [OF wf f assms(4)])
  have r: "resolve_agent L token s' \<noteq> Some (a_id a)" for token
    using digest_index_active p h(2) by (auto simp: resolve_agent_def powerless_def)
  have i: "session_inv s'" using agent_revoke_inv [OF assms(2,1)] .
  have "fst (authorize_lease L (a_id a) project op cred s') \<noteq> Inr who" for project op cred who
  proof
    assume "fst (authorize_lease L (a_id a) project op cred s') = Inr who"
    then obtain e where e: "s_doc s' = Some e"
        "permitted L e (a_id a) project op cred (w_wall (s_world s')) who"
      using authorize_lease_permitted [OF i] by blast
    then have "e = d'\<lparr>d_audit_head := h\<rparr>" using h(1) by simp
    with e(2) p show False by (simp add: permitted_def powerless_def)
  qed
  with h p r show ?thesis by auto
qed

theorem agent_revoke_takes_everything_witness:
  "\<exists>s' d'. agent_revoke toy_vault ''human'' ''A'' toy_session = (Inr (), s') \<and> s_doc s' = Some d' \<and> powerless d' ''a''"
proof -
  have "\<exists>d'. agent_revoke_doc 0 toy_doc ''A'' = Inr ((), d')"
    by (simp add: agent_revoke_doc_def do_agent_revoke_def) (simp add: toy_doc_def)
  then obtain d' where d': "agent_revoke_doc (w_wall (s_world toy_session)) toy_doc ''A'' = Inr ((), d')"
    by (auto simp: calm_world_def)
  obtain s' where r: "agent_revoke toy_vault ''human'' ''A'' toy_session = (Inr (), s')"
    using toy_finish_change [OF d'] by (force simp: agent_revoke_def)
  have a: "a_id (hd (d_agents toy_doc)) = ''a''" by (simp add: toy_doc_def)
  from agent_revoke_takes_everything [OF toy_session_inv r toy_session_sel(1) toy_doc_lookups(2)] r a
  show ?thesis by auto
qed

section \<open>Grants\<close>

text \<open>What is left of the authority on a pair: exactly the given operations, no unrevoked lease
  beyond them, and no open approval unless \<open>reveal\<close> is among them.\<close>

definition pair_limited :: "vault_document \<Rightarrow> string \<Rightarrow> string \<Rightarrow> operation set \<Rightarrow> bool" where
  "pair_limited d a p ops \<longleftrightarrow> (\<forall>op. authorize d a p op \<longleftrightarrow> op \<in> ops)
     \<and> (\<forall>l\<in>set (d_leases d). l_agent_id l = a \<and> l_project_id l = p \<and> l_revoked_at l = None \<longrightarrow> set (l_ops l) \<subseteq> ops)
     \<and> (OpReveal \<notin> ops \<longrightarrow>
          (\<forall>x\<in>set (d_approvals d). ap_agent_id x = a \<and> ap_project_id x = p \<longrightarrow> \<not> approval_open x))"

lemma pair_limited_wf:
  assumes "wf_doc d" and "\<And>op. authorize d a p op \<longleftrightarrow> op \<in> ops"
  shows "pair_limited d a p ops"
  using assms unfolding pair_limited_def
  by (auto simp: wf_doc_def wf_leases_def wf_approvals_def lease_covered_def)

lemma sweep_pair_authorize: "authorize (sweep_pair d a p now) = authorize d"
  by (simp add: sweep_pair_def deny_pair_approvals_if_reveal_lost_def revoke_uncovered_leases_def Let_def)

lemma do_grant_add_authorize:
  assumes "do_grant_add d an pn ops now = Inr (u, d')"
  obtains a p where "agent_by_name d an = Some a" "project_by_name d pn = Some p" "ops \<noteq> []"
    "\<And>op. authorize d' (a_id a) (p_id p) op \<longleftrightarrow> op \<in> set ops"
proof -
  from assms obtain a p where a: "agent_by_name d an = Some a" and p: "project_by_name d pn = Some p"
      and ops: "ops \<noteq> []"
    by (auto simp: do_grant_add_def split: if_splits option.splits)
  have "\<exists>g. active_grant d' (a_id a) (p_id p) = Some g \<and> g_ops g = ops"
  proof (cases "active_grant d (a_id a) (p_id p)")
    case None
    with assms a p have d': "d' = sweep_pair (d\<lparr>d_grants := d_grants d @
        [\<lparr>g_agent_id = a_id a, g_project_id = p_id p, g_ops = ops, g_created_at = now, g_revoked_at = None\<rparr>]\<rparr>)
        (a_id a) (p_id p) now"
      by (auto simp: do_grant_add_def sweep_pair_def Let_def split: if_splits)
    have "d_grants d' = d_grants d @
        [\<lparr>g_agent_id = a_id a, g_project_id = p_id p, g_ops = ops, g_created_at = now, g_revoked_at = None\<rparr>]"
      by (simp add: d' sweep_pair_def deny_pair_approvals_if_reveal_lost_def revoke_uncovered_leases_def Let_def)
    with None show ?thesis by (simp add: active_grant_def find_snoc is_active_grant_def)
  next
    case (Some g)
    with assms a p have d': "d' = sweep_pair (d\<lparr>d_grants :=
        update_first (is_active_grant (a_id a) (p_id p)) (\<lambda>g. g\<lparr>g_ops := ops\<rparr>) (d_grants d)\<rparr>) (a_id a) (p_id p) now"
      by (auto simp: do_grant_add_def sweep_pair_def Let_def split: if_splits)
    have "d_grants d' = update_first (is_active_grant (a_id a) (p_id p)) (\<lambda>g. g\<lparr>g_ops := ops\<rparr>) (d_grants d)"
      by (simp add: d' sweep_pair_def deny_pair_approvals_if_reveal_lost_def revoke_uncovered_leases_def Let_def)
    moreover have "is_active_grant (a_id a) (p_id p) g"
      using Some by (simp add: active_grant_def find_SomeD)
    ultimately show ?thesis
      using Some find_update_first [of "is_active_grant (a_id a) (p_id p)" "d_grants d" g "\<lambda>g. g\<lparr>g_ops := ops\<rparr>"]
      by (simp add: active_grant_def is_active_grant_def)
  qed
  then have "authorize d' (a_id a) (p_id p) op \<longleftrightarrow> op \<in> set ops" for op by (auto simp: authorize_def)
  with a p ops show thesis by (rule that)
qed

lemma do_grant_revoke_authorize:
  assumes "wf_doc d" and "do_grant_revoke d an pn now = Inr (u, d')"
  obtains a p where "agent_by_name d an = Some a" "project_by_name d pn = Some p"
    "\<And>op. \<not> authorize d' (a_id a) (p_id p) op"
proof -
  from assms(2) obtain a p where a: "agent_by_name d an = Some a" and p: "project_by_name d pn = Some p"
    by (auto simp: do_grant_revoke_def split: option.splits)
  let ?gs = "update_first (is_active_grant (a_id a) (p_id p)) (\<lambda>g. g\<lparr>g_revoked_at := Some now\<rparr>) (d_grants d)"
  from assms(2) a p have d': "d' = sweep_pair (d\<lparr>d_grants := ?gs\<rparr>) (a_id a) (p_id p) now"
    by (auto simp: do_grant_revoke_def sweep_pair_def Let_def split: if_splits)
  have "(a_id a, p_id p) \<notin> set (map (\<lambda>g. (g_agent_id g, g_project_id g)) (filter (\<lambda>g. g_revoked_at g = None) ?gs))"
    using assms(1) unfolding live_update_first_revoke by (simp add: wf_doc_def wf_grants_def)
  then have "active_grant d' (a_id a) (p_id p) = None"
    by (force simp: d' sweep_pair_def deny_pair_approvals_if_reveal_lost_def revoke_uncovered_leases_def Let_def
        active_grant_def find_None_iff is_active_grant_def)
  then have "\<not> authorize d' (a_id a) (p_id p) op" for op by (simp add: authorize_def)
  with a p show thesis by (rule that)
qed

lemma pair_limited_head [simp]: "pair_limited (d\<lparr>d_audit_head := h\<rparr>) a p ops = pair_limited d a p ops"
  by (simp add: pair_limited_def)

text \<open>C7: after a successful grant, wider or narrower than before, the agent may do exactly the
  granted operations on the project, every unrevoked lease on the pair stays inside them, and no
  approval of the pair is pending or claimable unless reveal is granted.\<close>

theorem grant_add_limits:
  assumes "session_inv s" and "grant_add L actor an pn ops s = (Inr (), s')"
  shows "\<exists>d a p d'. s_doc s = Some d \<and> agent_by_name d an = Some a \<and> project_by_name d pn = Some p
    \<and> s_doc s' = Some d' \<and> pair_limited d' (a_id a) (p_id p) (set ops)"
proof -
  from assms(2,1) obtain d d' prio where
    d: "s_doc s = Some d" "wf_doc d" and f: "do_grant_add d an pn ops (w_wall (s_world s)) = Inr ((), d')" and
    c: "commit_with L d' (mk_record actor ''grants.grant'' (Some pn) [] None Allowed None) prio s = (Inr (), s')"
    unfolding grant_add_def by (auto elim!: human_change_ok)
  from commit_with_ok [OF c] obtain h where h: "s_doc s' = Some (d'\<lparr>d_audit_head := h\<rparr>)" by blast
  obtain a p where ap: "agent_by_name d an = Some a" "project_by_name d pn = Some p"
    "\<And>op. authorize d' (a_id a) (p_id p) op \<longleftrightarrow> op \<in> set ops"
    by (rule do_grant_add_authorize [OF f]) (rule that; simp)
  have "wf_doc d'" using grant_add.keeps [OF d(2) f] .
  then have "pair_limited d' (a_id a) (p_id p) (set ops)" using ap(3) by (rule pair_limited_wf)
  with d ap h show ?thesis by auto
qed

theorem grant_add_limits_witness:
  "\<exists>s' d'. grant_add toy_vault ''human'' ''A'' ''P'' [OpRead] toy_session = (Inr (), s')
    \<and> s_doc s' = Some d' \<and> pair_limited d' ''a'' ''p'' {OpRead}"
proof -
  have "\<exists>d'. do_grant_add toy_doc ''A'' ''P'' [OpRead] 0 = Inr ((), d')"
    by (simp add: do_grant_add_def Let_def)
  then obtain d' where d': "do_grant_add toy_doc ''A'' ''P'' [OpRead] (w_wall (s_world toy_session)) = Inr ((), d')"
    by (auto simp: calm_world_def)
  obtain s' where r: "grant_add toy_vault ''human'' ''A'' ''P'' [OpRead] toy_session = (Inr (), s')"
    using toy_finish_change [OF d'] unfolding grant_add_def by force
  have "a_id (hd (d_agents toy_doc)) = ''a''" "p_id (hd (d_projects toy_doc)) = ''p''"
    by (simp_all add: toy_doc_def)
  with grant_add_limits [OF toy_session_inv r] r show ?thesis by auto
qed

text \<open>After a successful revocation of a grant the agent may do nothing on the project, none of
  its leases there is unrevoked and none of its approvals there is pending or claimable.\<close>

theorem grant_revoke_limits:
  assumes "session_inv s" and "grant_revoke L actor an pn s = (Inr (), s')"
  shows "\<exists>d a p d'. s_doc s = Some d \<and> agent_by_name d an = Some a \<and> project_by_name d pn = Some p
    \<and> s_doc s' = Some d' \<and> pair_limited d' (a_id a) (p_id p) {}
    \<and> (\<forall>l\<in>set (d_leases d'). l_agent_id l = a_id a \<and> l_project_id l = p_id p \<longrightarrow> l_revoked_at l \<noteq> None)"
proof -
  from assms(2,1) obtain d d' where
    d: "s_doc s = Some d" "wf_doc d" and f: "do_grant_revoke d an pn (w_wall (s_world s)) = Inr ((), d')" and
    c: "commit_with L d' (mk_record actor ''grants.revoke'' (Some pn) [] None Allowed None) Lifecycle s = (Inr (), s')"
    unfolding grant_revoke_def by (auto elim!: human_change_ok)
  from commit_with_ok [OF c] obtain h where h: "s_doc s' = Some (d'\<lparr>d_audit_head := h\<rparr>)" by blast
  obtain a p where ap: "agent_by_name d an = Some a" "project_by_name d pn = Some p"
    "\<And>op. \<not> authorize d' (a_id a) (p_id p) op"
    by (rule do_grant_revoke_authorize [OF d(2) f]) (rule that; simp)
  have wf: "wf_doc d'" using grant_revoke.keeps [OF d(2) f] .
  then have pl: "pair_limited d' (a_id a) (p_id p) {}" using ap(3) by (intro pair_limited_wf) auto
  moreover have "\<forall>l\<in>set (d_leases d'). l_agent_id l = a_id a \<and> l_project_id l = p_id p \<longrightarrow> l_revoked_at l \<noteq> None"
    using pl wf by (auto simp: pair_limited_def wf_doc_def wf_leases_def)
  ultimately show ?thesis using d ap h by auto
qed

theorem grant_revoke_limits_witness:
  "\<exists>s' d'. grant_revoke toy_vault ''human'' ''A'' ''P'' toy_session = (Inr (), s')
    \<and> s_doc s' = Some d' \<and> pair_limited d' ''a'' ''p'' {}"
proof -
  have "\<exists>d'. do_grant_revoke toy_doc ''A'' ''P'' 0 = Inr ((), d')"
    by (simp add: do_grant_revoke_def Let_def) (simp add: toy_doc_def active_grant_def is_active_grant_def)
  then obtain d' where d': "do_grant_revoke toy_doc ''A'' ''P'' (w_wall (s_world toy_session)) = Inr ((), d')"
    by (auto simp: calm_world_def)
  obtain s' where r: "grant_revoke toy_vault ''human'' ''A'' ''P'' toy_session = (Inr (), s')"
    using toy_finish_change [OF d'] unfolding grant_revoke_def by force
  have "a_id (hd (d_agents toy_doc)) = ''a''" "p_id (hd (d_projects toy_doc)) = ''p''"
    by (simp_all add: toy_doc_def)
  with grant_revoke_limits [OF toy_session_inv r] r show ?thesis by auto
qed

end
