(* ===== verification/DecisionTheorems.thy ===== *)
theory DecisionTheorems
  imports AuthorityTheorems
begin

text \<open>
  Collecting dead rows changes no decision, the digest index answers as the agent list does, and
  the approval state machine: a decision needs a human inside the pending window, a claim needs
  an approval that is bound to it and unexpired, and consumes it.
\<close>

section \<open>Collecting dead rows\<close>

lemma find_filter_key:
  "distinct (map k xs) \<Longrightarrow> find (\<lambda>x. k x = v) (filter q xs) =
    (case find (\<lambda>x. k x = v) xs of None \<Rightarrow> None | Some x \<Rightarrow> if q x then Some x else None)"
  by (induction xs) (auto simp: find_None_iff image_iff split: option.splits dest!: find_SomeD)

lemma purge_fields [simp]:
  "d_projects (fst (purge_terminal d now)) = d_projects d" "d_agents (fst (purge_terminal d now)) = d_agents d"
  "d_grants (fst (purge_terminal d now)) = d_grants d" "d_secrets (fst (purge_terminal d now)) = d_secrets d"
  "d_leases (fst (purge_terminal d now)) = filter (\<lambda>l. \<not> dead_lease now l) (d_leases d)"
  "d_approvals (fst (purge_terminal d now)) = filter (\<lambda>a. \<not> dead_approval now a) (d_approvals d)"
  by (simp_all add: purge_terminal_def Let_def)

lemma purge_lookups [simp]:
  "project_by_name (fst (purge_terminal d now)) n = project_by_name d n"
  "active_grant (fst (purge_terminal d now)) a p = active_grant d a p"
  "authorize (fst (purge_terminal d now)) a p op = authorize d a p op"
  "secret_of (fst (purge_terminal d now)) p k = secret_of d p k"
  "agent_active (fst (purge_terminal d now)) a = agent_active d a"
  by (simp_all add: project_by_name_def active_grant_def authorize_def secret_of_def agent_active_def)

lemma dead_lease_verdict:
  "dead_lease now l \<Longrightarrow> now \<le> now' \<Longrightarrow> lease_verdict d a p op l now' = Deny LeaseExpired"
  by (auto simp: dead_lease_def lease_verdict_def)

lemma purge_verdict:
  assumes "distinct (map l_credential_hash (d_leases d))" and "now \<le> now'"
  shows "authorize_verdict L (fst (purge_terminal d now)) a p op c now' = authorize_verdict L d a p op c now'"
proof -
  have v: "lease_verdict (fst (purge_terminal d now)) i q op l now' = lease_verdict d i q op l now'" for i q l
    by (simp add: lease_verdict_def)
  have "find (\<lambda>l. l_credential_hash l = token_digest L x) (d_leases (fst (purge_terminal d now))) =
      (case find (\<lambda>l. l_credential_hash l = token_digest L x) (d_leases d) of
         None \<Rightarrow> None | Some l \<Rightarrow> if \<not> dead_lease now l then Some l else None)" for x
    using find_filter_key [OF assms(1)] by simp
  then show ?thesis
    using dead_lease_verdict [OF _ assms(2)]
    by (cases "agent_active d a"; cases c)
      (simp_all add: authorize_verdict_def agent_active_def [symmetric] v split: option.split)
qed

text \<open>C12: collecting expired, revoked and spent rows never changes an authorization: from the
  collection on, at any later time, every request of every agent gets the answer it would have
  got without it (credential digests being distinct).\<close>

theorem gc_keeps_authorization:
  assumes "\<And>d. s_doc s = Some d \<Longrightarrow> distinct (map l_credential_hash (d_leases d))"
    and "w_wall (s_world s) \<le> w_wall w"
  shows "fst (authorize_lease L agent project op cred ((snd (gc_terminal_credentials s))\<lparr>s_world := w\<rparr>))
    = fst (authorize_lease L agent project op cred (s\<lparr>s_world := w\<rparr>))"
proof (cases "s_doc s")
  case None
  then show ?thesis by (simp add: gc_terminal_credentials_def)
next
  case (Some d)
  have g: "snd (gc_terminal_credentials s) = s\<lparr>s_doc := Some (fst (purge_terminal d (w_wall (s_world s))))\<rparr>"
    using Some by (simp add: gc_terminal_credentials_def split: prod.split)
  show ?thesis
    unfolding fst_authorize_lease check_idle_keys g
    using purge_verdict [OF assms(1) [OF Some] assms(2), of L]
    by (cases "s_keys s") (simp_all add: idle_expired_def Some)
qed

theorem gc_keeps_authorization_witness:
  "fst (authorize_lease toy_vault ''a'' ''P'' OpRead (Some ''c'')
      ((snd (gc_terminal_credentials toy_session))\<lparr>s_world := (calm_world Map.empty)\<lparr>w_wall := 200\<rparr>\<rparr>))
    = fst (authorize_lease toy_vault ''a'' ''P'' OpRead (Some ''c'')
        (toy_session\<lparr>s_world := (calm_world Map.empty)\<lparr>w_wall := 200\<rparr>\<rparr>))"
  by (rule gc_keeps_authorization) (simp_all add: toy_doc_lists calm_world_def)

section \<open>Resolving agents\<close>

text \<open>C13: while the vault is unlocked, the digest index that authenticates agents resolves a token
  to exactly the active agent whose stored digest is the token's, as a search of the agent list
  would (digests of active agents being distinct and 32 bytes long); so a revoked agent's token
  resolves to nothing.\<close>

theorem resolve_agent_refines:
  assumes "session_inv s" and "s_doc s = Some d"
    and "distinct (map a_token_hash (filter (\<lambda>a. a_status a = Active) (d_agents d)))"
    and "\<forall>a\<in>set (d_agents d). a_status a = Active \<longrightarrow> length (a_token_hash a) = 32"
  shows "resolve_agent L token s = map_option a_id (agent_by_token_hash d (token_digest L token))"
proof -
  have idx: "map_of (map (\<lambda>a. (a_token_hash a, a_id a)) (filter (\<lambda>a. a_status a = Active) as)) t
      = map_option a_id (find (\<lambda>a. a_status a = Active \<and> a_token_hash a = t) as)" for as t
    by (induction as) auto
  have "filter (\<lambda>a. length (a_token_hash a) = 32) (filter (\<lambda>a. a_status a = Active) (d_agents d))
      = filter (\<lambda>a. a_status a = Active) (d_agents d)"
    using assms(4) by (auto intro!: filter_cong)
  then have "digest_index d = map_of (map (\<lambda>a. (a_token_hash a, a_id a)) (filter (\<lambda>a. a_status a = Active) (d_agents d)))"
    unfolding digest_index_def using assms(3) by (simp add: map_of_inject_set rev_map [symmetric] o_def)
  then show ?thesis
    using assms(1,2) idx by (simp add: session_inv_def resolve_agent_def agent_by_token_hash_def)
qed

theorem resolve_agent_refines_witness:
  "resolve_agent toy_vault ''tok'' toy_session = Some ''a''"
proof -
  have "agent_by_token_hash toy_doc (token_digest toy_vault ''tok'') = Some (hd (d_agents toy_doc))"
    by (simp add: agent_by_token_hash_def toy_doc_lists token_digest_def)
  with resolve_agent_refines [OF toy_session_inv toy_session_sel(1), of toy_vault "''tok''"]
  show ?thesis by (simp add: toy_doc_lists)
qed

section \<open>Approvals\<close>

lemma agent_change_ok:
  assumes "try_bind (agent_gate L actor op project keys s)
      (\<lambda>doc s1. finish_change L prio r dp (f doc s1) s1) = (Inr x, s')" and "session_inv s"
  obtains d d' where "s_doc s = Some d" "wf_doc d" "s_keys s \<noteq> None" "f d s = Inr (x, d')"
    "commit_with L d' r prio s = (Inr (), s')"
proof -
  obtain g s1 where g: "agent_gate L actor op project keys s = (g, s1)" by force
  with assms(1) obtain d where [simp]: "g = Inr d" by (cases g) auto
  from agent_gate_inv(2) [OF g assms(2)] have d: "s_keys s \<noteq> None" "s_doc s = Some d" "wf_doc d" "s1 = s"
    by auto
  with assms(1) g have "finish_change L prio r dp (f d s) s = (Inr x, s')" by simp
  then show thesis using that d by (auto elim!: finish_change_ok)
qed

text \<open>A claim that may be honoured: the approval is this agent's, for this project and key, approved,
  inside its claim window, the live grant still contains \<open>reveal\<close>, and the secret exists.\<close>

definition claimable ::
  "vault_document \<Rightarrow> string \<Rightarrow> string \<Rightarrow> string \<Rightarrow> string \<Rightarrow> time \<Rightarrow> string \<Rightarrow> bool" where
  "claimable d agent project key aid now v \<longleftrightarrow>
     (\<exists>p sec. project_by_name d project = Some p \<and> secret_of d (p_id p) key = Some sec \<and> v = s_value sec
        \<and> agent_active d agent \<and> authorize d agent (p_id p) OpReveal
        \<and> (\<exists>x\<in>set (d_approvals d). ap_id x = aid \<and> ap_agent_id x = agent \<and> ap_project_id x = p_id p
             \<and> ap_key x = key \<and> ap_status x = AApproved
             \<and> (case ap_claim_expires_at x of Some t \<Rightarrow> now < t | None \<Rightarrow> False)))"

definition spent :: "vault_document \<Rightarrow> string \<Rightarrow> bool" where
  "spent d aid \<longleftrightarrow> (\<forall>x\<in>set (d_approvals d). ap_id x = aid \<longrightarrow> ap_status x = AConsumed)"

lemma update_first_position: "position q xs = Some k \<Longrightarrow> update_first q f xs = xs[k := f (xs ! k)]"
  by (induction xs arbitrary: k) (auto split: if_splits)

lemma do_reveal_claim_claimable:
  assumes "wf_doc d" and "do_reveal_claim d agent project key aid now = Inr (v, d')"
  shows "claimable d agent project key aid now v \<and> spent d' aid
    \<and> d' = d\<lparr>d_approvals := update_first (\<lambda>x. ap_id x = aid) (\<lambda>x. x\<lparr>ap_status := AConsumed\<rparr>) (d_approvals d)\<rparr>"
proof (rule do_reveal_claim_ok [OF assms(2)])
  fix p i sec
  let ?x = "d_approvals d ! i"
  assume p: "project_by_name d project = Some p" and i: "position (\<lambda>a. ap_id a = aid) (d_approvals d) = Some i"
    "i < length (d_approvals d)" and x: "ap_agent_id ?x = agent" "ap_project_id ?x = p_id p" "ap_key ?x = key"
    "authorize d agent (p_id p) OpReveal" "ap_status ?x = AApproved"
    "case ap_claim_expires_at ?x of Some exp \<Rightarrow> now < exp | None \<Rightarrow> True"
    and s: "secret_of d (p_id p) key = Some sec" "v = s_value sec"
    and d': "d' = d\<lparr>d_approvals := (d_approvals d)[i := ?x\<lparr>ap_status := AConsumed\<rparr>]\<rparr>"
  have xin: "?x \<in> set (d_approvals d)" and xid: "ap_id ?x = aid" using i position_SomeD by fastforce+
  have wf: "wf_approvals d" using assms(1) by (simp add: wf_doc_def)
  then have "ap_claim_expires_at ?x \<noteq> None" "agent_active d agent"
    using xin x by (auto simp: wf_approvals_def approval_open_def)
  with p x s xin xid have c: "claimable d agent project key aid now v"
    by (auto simp: claimable_def split: option.splits)
  have uniq: "j = i" if "j < length (d_approvals d)" "ap_id (d_approvals d ! j) = aid" for j
    using wf i xid that by (auto simp: wf_approvals_def distinct_conv_nth)
  have "ap_status ((d_approvals d)[i := ?x\<lparr>ap_status := AConsumed\<rparr>] ! j) = AConsumed"
    if "j < length (d_approvals d)" "ap_id ((d_approvals d)[i := ?x\<lparr>ap_status := AConsumed\<rparr>] ! j) = aid" for j
  proof (cases "j = i")
    case True
    with i(2) show ?thesis by simp
  next
    case False
    with that have "ap_id (d_approvals d ! j) = aid" by simp
    with uniq that(1) False show ?thesis by blast
  qed
  then have sp: "spent d' aid" by (auto simp: spent_def d' in_set_conv_nth)
  from update_first_position [OF i(1)] c sp d' show ?thesis by simp
qed

lemma spent_refuses:
  "spent d aid \<Longrightarrow> do_reveal_claim d agent project key aid now \<noteq> Inr (v, d')"
  by (auto simp: spent_def elim!: do_reveal_claim_ok dest!: position_SomeD dest: nth_mem)

lemma spent_head [simp]: "spent (d\<lparr>d_audit_head := h\<rparr>) aid = spent d aid"
  by (simp add: spent_def)

text \<open>C4: a reveal releases a value only for a claimable approval and only after the approval has
  been consumed and committed: the adopted document is the old one with that approval marked
  consumed (and the audit checkpoint moved), and from then on every claim on it is refused,
  whoever makes it, whatever it names and whatever the clock says.\<close>

theorem reveal_claim_once:
  assumes "session_inv s" and "reveal_claim L actor agent project key aid s = (Inr v, s')"
  shows "\<exists>d h. s_doc s = Some d \<and> claimable d agent project key aid (w_wall (s_world s)) v
    \<and> s_doc s' = Some (d\<lparr>d_approvals :=
         update_first (\<lambda>x. ap_id x = aid) (\<lambda>x. x\<lparr>ap_status := AConsumed\<rparr>) (d_approvals d), d_audit_head := h\<rparr>)
    \<and> (\<forall>actor' agent' project' key' w.
         \<not> is_ok (fst (reveal_claim L actor' agent' project' key' aid (s'\<lparr>s_world := w\<rparr>))))"
proof -
  from assms(2,1) obtain d d' where d: "s_doc s = Some d" "wf_doc d" and
    f: "do_reveal_claim d agent project key aid (w_wall (s_world s)) = Inr (v, d')" and
    c: "commit_with L d' (mk_record actor ''reveal'' (Some project) [key] None Allowed None) Ordinary s = (Inr (), s')"
    unfolding reveal_claim_def by (auto elim!: agent_change_ok)
  note cl = do_reveal_claim_claimable [OF d(2) f]
  from commit_with_ok [OF c] obtain h where h: "s_doc s' = Some (d'\<lparr>d_audit_head := h\<rparr>)" by blast
  have i: "session_inv s'" by (rule reveal_claim_inv [OF assms(2,1)])
  have "\<not> is_ok (fst (reveal_claim L actor' agent' project' key' aid (s'\<lparr>s_world := w\<rparr>)))"
    for actor' agent' project' key' w
  proof
    assume "is_ok (fst (reveal_claim L actor' agent' project' key' aid (s'\<lparr>s_world := w\<rparr>)))"
    then obtain u s2 where "reveal_claim L actor' agent' project' key' aid (s'\<lparr>s_world := w\<rparr>) = (Inr u, s2)"
      by (metis is_okE prod.collapse)
    moreover have "session_inv (s'\<lparr>s_world := w\<rparr>)" using i by simp
    ultimately obtain e e' where "s_doc (s'\<lparr>s_world := w\<rparr>) = Some e"
        "do_reveal_claim e agent' project' key' aid (w_wall w) = Inr (u, e')"
      unfolding reveal_claim_def by (auto elim!: agent_change_ok)
    moreover have "spent (d'\<lparr>d_audit_head := h\<rparr>) aid" unfolding spent_head using cl by blast
    ultimately show False using h spent_refuses by auto
  qed
  with d h cl show ?thesis by auto
qed

theorem reveal_claim_once_witness:
  "\<exists>s'. reveal_claim toy_vault ''agent:a'' ''a'' ''P'' ''K'' ''x'' toy_session = (Inr ''v'', s')
    \<and> \<not> is_ok (fst (reveal_claim toy_vault ''agent:a'' ''a'' ''P'' ''K'' ''x'' s'))"
proof -
  have "\<exists>d'. do_reveal_claim toy_doc ''a'' ''P'' ''K'' ''x'' (w_wall (s_world toy_session)) = Inr (''v'', d')"
    by (simp add: do_reveal_claim_def toy_doc_lists toy_ids calm_world_def)
  then obtain d' where d': "do_reveal_claim toy_doc ''a'' ''P'' ''K'' ''x'' (w_wall (s_world toy_session)) = Inr (''v'', d')"
    by blast
  obtain s' where r: "reveal_claim toy_vault ''agent:a'' ''a'' ''P'' ''K'' ''x'' toy_session = (Inr ''v'', s')"
    using toy_finish_change [OF d'] unfolding reveal_claim_def by force
  from reveal_claim_once [OF toy_session_inv r]
  have "\<not> is_ok (fst (reveal_claim toy_vault ''agent:a'' ''a'' ''P'' ''K'' ''x'' (s'\<lparr>s_world := s_world s'\<rparr>)))"
    by blast
  with r show ?thesis by simp
qed

lemma do_approval_decide_ok:
  assumes "do_approval_decide d aid approve now = Inr (u, d')"
  shows "\<exists>x\<in>set (d_approvals d). ap_id x = aid \<and> ap_status x = APending \<and> now < ap_pending_expires_at x
    \<and> d' = d\<lparr>d_approvals := update_first (\<lambda>x. ap_id x = aid)
        (\<lambda>x. if approve then x\<lparr>ap_status := AApproved, ap_approved_at := Some now,
                                ap_claim_expires_at := Some (now + seconds APPROVAL_CLAIM_SECS)\<rparr>
             else x\<lparr>ap_status := ADenied\<rparr>) (d_approvals d)\<rparr>"
proof -
  from assms obtain i where i: "position (\<lambda>a. ap_id a = aid) (d_approvals d) = Some i"
    by (auto simp: do_approval_decide_def split: option.splits)
  then have "i < length (d_approvals d)" "ap_id (d_approvals d ! i) = aid" using position_SomeD [OF i] by auto
  with assms i show ?thesis
    by (intro bexI [of _ "d_approvals d ! i"])
      (cases approve; auto simp: do_approval_decide_def update_first_position Let_def split: approval_status.splits if_splits)+
qed

text \<open>C11: an approval is decided only by a human identity and only while it is pending inside its
  window; the decision is final for that row: approved with a claim window of 300 seconds, or
  denied; nothing else of the document changes (the audit checkpoint apart).\<close>

theorem approval_decide_requires:
  assumes "session_inv s" and "approval_decide L actor aid approve s = (Inr (), s')"
  shows "is_human_identity actor \<and> (\<exists>d h. s_doc s = Some d
    \<and> (\<exists>x\<in>set (d_approvals d). ap_id x = aid \<and> ap_status x = APending \<and> w_wall (s_world s) < ap_pending_expires_at x)
    \<and> s_doc s' = Some (d\<lparr>d_approvals := update_first (\<lambda>x. ap_id x = aid)
        (\<lambda>x. if approve then x\<lparr>ap_status := AApproved, ap_approved_at := Some (w_wall (s_world s)),
                                ap_claim_expires_at := Some (w_wall (s_world s) + seconds APPROVAL_CLAIM_SECS)\<rparr>
             else x\<lparr>ap_status := ADenied\<rparr>) (d_approvals d), d_audit_head := h\<rparr>))"
proof -
  obtain g s1 where g: "human_gate L actor ''approval.decide'' s = (g, s1)" by force
  with assms(2) obtain d where [simp]: "g = Inr d" by (cases g) (auto simp: approval_decide_def)
  from human_gate_inv(2) [OF g assms(1)] have h: "is_human_identity actor" and d: "s_doc s = Some d" and [simp]: "s1 = s"
    by auto
  from assms(2) g obtain u d' where f: "do_approval_decide d aid approve (w_wall (s_world s)) = Inr (u, d')"
    by (cases "do_approval_decide d aid approve (w_wall (s_world s))")
      (auto simp: approval_decide_def refuse_def)
  with assms(2) g obtain r where "commit_with L d' r Ordinary s = (Inr (), s')"
    by (auto simp: approval_decide_def commit_def)
  from commit_with_ok [OF this] obtain hd where "s_doc s' = Some (d'\<lparr>d_audit_head := hd\<rparr>)" by blast
  with h d do_approval_decide_ok [OF f] show ?thesis by auto
qed

lemma pending_toy:
  fixes d :: vault_document
  assumes "d = toy_doc\<lparr>d_approvals := map (\<lambda>x. x\<lparr>ap_status := APending\<rparr>) (d_approvals toy_doc)\<rparr>"
  shows "session_inv (toy_session\<lparr>s_doc := Some d\<rparr>)" "calm (toy_session\<lparr>s_doc := Some d\<rparr>)"
    "\<exists>d'. do_approval_decide d ''x'' True 0 = Inr ((), d')"
proof -
  have "wf_doc d"
    using toy_doc_wf unfolding assms wf_doc_def by (simp add: wf_approvals_def toy_doc_lists approval_open_def)
  then show "session_inv (toy_session\<lparr>s_doc := Some d\<rparr>)"
    using toy_session_inv digest_index_agents [of d toy_doc] by (simp add: session_inv_def sessions_ok_def assms)
  show "calm (toy_session\<lparr>s_doc := Some d\<rparr>)" using toy_session_calm by (simp add: calm_def)
  show "\<exists>d'. do_approval_decide d ''x'' True 0 = Inr ((), d')"
    by (simp add: do_approval_decide_def assms toy_doc_lists)
qed

theorem approval_decide_requires_witness:
  "\<exists>s s'. approval_decide toy_vault ''human'' ''x'' True s = (Inr (), s') \<and> is_human_identity ''human''"
proof -
  obtain d :: vault_document where d: "d = toy_doc\<lparr>d_approvals := map (\<lambda>x. x\<lparr>ap_status := APending\<rparr>) (d_approvals toy_doc)\<rparr>"
    by blast
  let ?s = "toy_session\<lparr>s_doc := Some d\<rparr>"
  note t = pending_toy [OF d]
  obtain d' where d': "do_approval_decide d ''x'' True 0 = Inr ((), d')" using t(3) by blast
  obtain s' where "commit_with toy_vault d' (mk_record ''human'' ''approval.approve'' None [] None Allowed None) Ordinary ?s
      = (Inr (), s')" using toy_commit_ok [OF t(2)] by blast
  then have r: "approval_decide toy_vault ''human'' ''x'' True ?s = (Inr (), s')"
    using d' by (simp add: approval_decide_def human_gate_def check_idle_def is_human_identity_def calm_world_def commit_def)
  with approval_decide_requires [OF t(1) r] show ?thesis by blast
qed

end
