(* ===== verification/Dotenv.thy ===== *)
theory Dotenv
  imports Model "HOL-Library.Multiset"
begin

text \<open>
  \<open>src/dotenv.rs\<close>: the deterministic dotenv writer behind \<open>inject_file\<close>. \<open>read_env\<close> is the
  reference reader of the format (\<open>KEY=bare\<close> or \<open>KEY="quoted"\<close> with backslash escapes); the
  theorems say that it recovers exactly what was written, in key order.
\<close>

record env_entry =
  e_key :: string
  e_value :: string

definition validate_value :: "string \<Rightarrow> unit res" where
  "validate_value v =
     (if \<exists>c\<in>set (chars v). is_control c \<and> c \<notin> {10, 13, 9}
      then Inl (InvalidInput ''secret value contains control characters not representable in dotenv'')
      else Inr ())"

text \<open>Code points: 34 and 39 are the quotes, 36 the dollar, 96 the backquote, 35 the hash,
  61 the equals sign, 92 the backslash.\<close>

definition needs_quotes :: "nat list \<Rightarrow> bool" where
  "needs_quotes cs \<longleftrightarrow> cs = [] \<or>
     (\<exists>c\<in>set cs. is_whitespace c \<or> c \<in> {34, 39, 36, 96, 35, 61, 92} \<or> is_control c)"

fun escape_char :: "nat \<Rightarrow> nat list" where
  "escape_char c = (if c = 92 \<or> c = 34 \<or> c = 36 then [92, c] else [c])"

definition escape_chars :: "nat list \<Rightarrow> nat list" where
  "escape_chars cs = (if needs_quotes cs then 34 # concat (map escape_char cs) @ [34] else cs)"

definition escape_value :: "string \<Rightarrow> string" where
  "escape_value v =
     (if needs_quotes (chars v) then utf8_encode (escape_chars (chars v)) else v)"

fun emit_entries :: "env_entry list \<Rightarrow> string res" where
  "emit_entries [] = Inr []"
| "emit_entries (e # es) =
     (if \<not> valid_key (e_key e) then Inl (InvalidInput ''invalid key name'')
      else res_bind (validate_value (e_value e)) (\<lambda>_.
        res_bind (emit_entries es) (\<lambda>out.
          Inr (e_key e @ ''='' @ escape_value (e_value e) @ [NL] @ out))))"

fun adjacent_dup :: "env_entry list \<Rightarrow> bool" where
  "adjacent_dup (a # b # r) = (e_key a = e_key b \<or> adjacent_dup (b # r))"
| "adjacent_dup _ = False"

definition serialize :: "env_entry list \<Rightarrow> string res" where
  "serialize entries =
     (let sorted = sort_key e_key entries
      in if adjacent_dup sorted then Inl (InvalidInput ''duplicate keys in injection'')
         else emit_entries sorted)"

section \<open>The reference reader\<close>

text \<open>Inside quotes a backslash takes the next character literally and a quote ends the value.\<close>

fun read_quoted :: "nat list \<Rightarrow> (nat list \<times> nat list) option" where
  "read_quoted [] = None"
| "read_quoted (c # cs) =
     (if c = 34 then Some ([], cs)
      else if c = 92 then
        (case cs of [] \<Rightarrow> None | d # ds \<Rightarrow> map_option (\<lambda>(v, r). (d # v, r)) (read_quoted ds))
      else map_option (\<lambda>(v, r). (c # v, r)) (read_quoted cs))"

definition read_value :: "nat list \<Rightarrow> (nat list \<times> nat list) option" where
  "read_value cs =
     (if cs \<noteq> [] \<and> hd cs = 34 then read_quoted (List.tl cs)
      else Some (takeWhile (\<lambda>c. c \<noteq> 10) cs, dropWhile (\<lambda>c. c \<noteq> 10) cs))"

definition read_line :: "nat list \<Rightarrow> ((nat list \<times> nat list) \<times> nat list) option" where
  "read_line cs =
     (case dropWhile (\<lambda>c. c \<noteq> 61) cs of [] \<Rightarrow> None
      | eq # r \<Rightarrow>
          (case read_value r of Some (v, nl # r') \<Rightarrow>
             if nl = 10 then Some ((takeWhile (\<lambda>c. c \<noteq> 61) cs, v), r') else None
           | _ \<Rightarrow> None))"

fun read_env :: "nat \<Rightarrow> nat list \<Rightarrow> (nat list \<times> nat list) list option" where
  "read_env n [] = Some []"
| "read_env 0 (c # cs) = None"
| "read_env (Suc n) (c # cs) =
     (case read_line (c # cs) of None \<Rightarrow> None
      | Some (kv, r) \<Rightarrow> map_option (Cons kv) (read_env n r))"

section \<open>Round trip on code points\<close>

lemma read_quoted_escape:
  "read_quoted (concat (map escape_char cs) @ 34 # r) = Some (cs, r)"
  by (induction cs) auto

lemma quotes_needed: "10 \<in> set cs \<Longrightarrow> needs_quotes cs" "34 \<in> set cs \<Longrightarrow> needs_quotes cs"
  unfolding needs_quotes_def
  by (rule disjI2, erule bexI [rotated], simp add: is_whitespace_def)+

lemma bare_no_newline: "\<not> needs_quotes cs \<Longrightarrow> 10 \<notin> set cs \<and> 34 \<notin> set cs"
  using quotes_needed by blast

lemma takeWhile_until: "x \<notin> set a \<Longrightarrow> takeWhile (\<lambda>c. c \<noteq> x) (a @ x # r) = a"
  and dropWhile_until: "x \<notin> set a \<Longrightarrow> dropWhile (\<lambda>c. c \<noteq> x) (a @ x # r) = x # r"
  by (induction a) auto

lemma read_value_escape: "read_value (escape_chars cs @ 10 # r) = Some (cs, 10 # r)"
proof (cases "needs_quotes cs")
  case True
  then show ?thesis by (simp add: escape_chars_def read_value_def read_quoted_escape)
next
  case False
  then obtain c ds where cs: "cs = c # ds" by (cases cs) (auto simp: needs_quotes_def)
  from bare_no_newline [OF False] have n: "10 \<notin> set cs" "c \<noteq> 34" by (auto simp: cs)
  have "read_value (cs @ 10 # r) = Some (takeWhile (\<lambda>c. c \<noteq> 10) (cs @ 10 # r), dropWhile (\<lambda>c. c \<noteq> 10) (cs @ 10 # r))"
    unfolding cs read_value_def using n(2) by (simp split: list.split nat.split)
  with False n(1) show ?thesis by (simp add: escape_chars_def takeWhile_until dropWhile_until)
qed

definition entry_points :: "env_entry \<Rightarrow> nat list \<times> nat list" where
  "entry_points e = (chars (e_key e), chars (e_value e))"

definition line_points :: "nat list \<times> nat list \<Rightarrow> nat list" where
  "line_points kv = fst kv @ 61 # escape_chars (snd kv) @ [10]"

lemma read_line_points:
  "61 \<notin> set k \<Longrightarrow> read_line (line_points (k, v) @ r) = Some ((k, v), r)"
  by (simp add: read_line_def line_points_def takeWhile_until dropWhile_until read_value_escape)

lemma read_env_points:
  "\<forall>kv\<in>set kvs. 61 \<notin> set (fst kv) \<Longrightarrow> length kvs \<le> n \<Longrightarrow>
    read_env n (concat (map line_points kvs)) = Some kvs"
proof (induction kvs arbitrary: n)
  case Nil
  then show ?case by (cases n) simp_all
next
  case (Cons kv kvs)
  then obtain m where n: "n = Suc m" by (cases n) auto
  obtain c cs where l: "line_points kv @ concat (map line_points kvs) = c # cs"
    by (cases "line_points kv @ concat (map line_points kvs)") (auto simp: line_points_def)
  have "read_line (line_points kv @ concat (map line_points kvs)) = Some (kv, concat (map line_points kvs))"
    using Cons.prems(1) read_line_points [of "fst kv" "snd kv"] by simp
  with l have rl: "read_line (c # cs) = Some (kv, concat (map line_points kvs))" by simp
  have "read_env n (concat (map line_points (kv # kvs))) = read_env (Suc m) (c # cs)"
    using l n by simp
  with rl Cons.IH [of m] Cons.prems n show ?case by simp
qed

section \<open>Bytes\<close>

lemma chars_encode:
  assumes "valid_utf8 v"
  shows "utf8_encode (chars v) = v"
proof -
  from assms obtain cs where d: "utf8_decode_bytes (map of_char v) = Some cs"
    by (auto simp: valid_utf8_def utf8_decode_def)
  from utf8_decode_bytes_sound [OF d] have "concat (map utf8_encode1 cs) = map of_char v" by simp
  then have "utf8_encode cs = map (char_of :: nat \<Rightarrow> char) (map of_char v)" by (simp add: utf8_encode_def)
  also have "\<dots> = v" by (simp add: o_def)
  finally show ?thesis using d by (simp add: chars_def utf8_decode_def)
qed

lemma chars_scalar: "c \<in> set (chars v) \<Longrightarrow> is_scalar c"
  by (cases "utf8_decode v") (auto simp: chars_def dest: utf8_decode_scalar)

lemma utf8_encode_append: "utf8_encode (a @ b) = utf8_encode a @ utf8_encode b"
  by (simp add: utf8_encode_def)

lemma chars_utf8_encode: "\<forall>c\<in>set cs. is_scalar c \<Longrightarrow> chars (utf8_encode cs) = cs"
  by (simp add: chars_def utf8_round_trip)

lemma ascii_name_char:
  "is_ascii_alphanumeric c \<Longrightarrow> (of_char c :: nat) < 128 \<and> (of_char c :: nat) \<noteq> 61"
  unfolding is_ascii_alphanumeric_def is_ascii_alphabetic_def Let_def by linarith

lemma valid_key_char:
  assumes "valid_key k" and "c \<in> set k"
  shows "(of_char c :: nat) < 128 \<and> (of_char c :: nat) \<noteq> 61"
proof -
  have "is_ascii_alphanumeric c \<or> c = CHR ''_''"
    using assms
    by (cases k) (auto simp: valid_key_def list_all_iff is_ascii_alphanumeric_def)
  then show ?thesis using ascii_name_char by auto
qed

lemma decode_ascii: "\<forall>b\<in>set bs. b < 128 \<Longrightarrow> utf8_decode_bytes bs = Some bs"
proof (induction bs)
  case (Cons b bs)
  then have "b < 128" "utf8_decode_bytes bs = Some bs" by simp_all
  then show ?case by (simp only: utf8_decode_bytes.simps if_True option.map)
qed simp

lemma valid_key_chars:
  assumes "valid_key k"
  shows "valid_utf8 k" "61 \<notin> set (chars k)"
proof -
  show v: "valid_utf8 k" using valid_key_char [OF assms] by (intro valid_utf8_ascii ballI) blast
  have "\<forall>b\<in>set (map of_char k). (b::nat) < 128" 
    unfolding list.set_map using valid_key_char [OF assms] by blast
  then have "utf8_decode_bytes (map of_char k) = Some (map of_char k)" by (rule decode_ascii)
  then have "chars k = map of_char k" unfolding chars_def utf8_decode_def by (simp only: option.case)
  moreover have "x \<noteq> 61" if "x \<in> set (map of_char k)" for x :: nat
  proof -
    from that obtain c where "c \<in> set k" "x = of_char c" unfolding list.set_map by (rule imageE)
    with valid_key_char [OF assms, of c] show ?thesis by (simp only: not_False_eq_True)
  qed
  ultimately show "61 \<notin> set (chars k)" by metis
qed

lemma escape_value_points: "valid_utf8 v \<Longrightarrow> escape_value v = utf8_encode (escape_chars (chars v))"
  by (simp add: escape_value_def escape_chars_def chars_encode)

lemma escape_scalar: "\<forall>c\<in>set cs. is_scalar c \<Longrightarrow> c \<in> set (escape_chars cs) \<Longrightarrow> is_scalar c"
  by (auto simp: escape_chars_def is_scalar_def split: if_splits)

lemma utf8_encode_ascii [simp]:
  "utf8_encode [61] = ''=''" "utf8_encode [10] = [NL]"
  by code_simp+

lemma emit_entries_points:
  "emit_entries es = Inr out \<Longrightarrow> \<forall>e\<in>set es. valid_utf8 (e_value e) \<Longrightarrow>
    out = utf8_encode (concat (map line_points (map entry_points es)))
    \<and> (\<forall>e\<in>set es. valid_key (e_key e))"
proof (induction es arbitrary: out)
  case Nil
  then show ?case by (simp add: utf8_encode_def)
next
  case (Cons e es)
  then obtain out' where o: "valid_key (e_key e)" "emit_entries es = Inr out'"
      "out = e_key e @ ''='' @ escape_value (e_value e) @ [NL] @ out'"
    by (auto simp: res_bind_Inr_iff split: if_splits)
  have "utf8_encode (line_points (entry_points e))
      = utf8_encode (chars (e_key e)) @ utf8_encode [61]
        @ utf8_encode (escape_chars (chars (e_value e))) @ utf8_encode [10]"
    by (simp only: line_points_def entry_points_def fst_conv snd_conv utf8_encode_append [symmetric]
        append_Cons append_Nil)
  also have "\<dots> = e_key e @ ''='' @ escape_value (e_value e) @ [NL]"
    using o(1) Cons.prems(2) by (simp add: chars_encode valid_key_chars escape_value_points)
  finally show ?case
    using Cons.IH [OF o(2)] Cons.prems(2) o(1,3) by (simp add: utf8_encode_append)
qed

lemma entry_points_scalar: "c \<in> set (line_points (entry_points e)) \<Longrightarrow> is_scalar c"
  using escape_scalar [of "chars (e_value e)" c] chars_scalar
  by (auto simp: line_points_def entry_points_def is_scalar_def)

lemma adjacent_dup_sorted:
  "sorted (map e_key es) \<Longrightarrow> adjacent_dup es \<longleftrightarrow> \<not> distinct (map e_key es)"
proof (induction es rule: adjacent_dup.induct)
  case (1 a b r)
  then show ?case by (auto simp: less_le dest: order.antisym)
qed simp_all

lemma serialize_Inr:
  assumes "serialize es = Inr out"
  shows "distinct (map e_key es)" "emit_entries (sort_key e_key es) = Inr out"
proof -
  from assms have n: "\<not> adjacent_dup (sort_key e_key es)"
    and e: "emit_entries (sort_key e_key es) = Inr out"
    by (auto simp: serialize_def Let_def split: if_splits)
  have "distinct (map e_key (sort_key e_key es))"
    using n adjacent_dup_sorted [of "sort_key e_key es"] by simp
  then show "distinct (map e_key es)" by (simp add: distinct_map)
  show "emit_entries (sort_key e_key es) = Inr out" by (rule e)
qed

section \<open>Properties\<close>


definition toy_env :: "env_entry list" where
  "toy_env = [\<lparr>e_key = ''B'', e_value = ''x''\<rparr>, \<lparr>e_key = ''A'', e_value = ''a$b''\<rparr>]"

lemma toy_env_facts:
  "valid_key ''A''" "valid_key ''B''" "validate_value ''a$b'' = Inr ()" "validate_value ''x'' = Inr ()"
  "sort_key e_key toy_env
    = [\<lparr>e_key = ''A'', e_value = ''a$b''\<rparr>, \<lparr>e_key = ''B'', e_value = ''x''\<rparr>]"
  "\<forall>e\<in>set toy_env. valid_utf8 (e_value e)"
  by (simp_all add: valid_key_def MAX_KEY_LEN_def is_ascii_alphabetic_def Let_def validate_value_def
      chars_def utf8_decode_def is_control_def toy_env_def list_less_def lexord_def valid_utf8_def)


text \<open>The bytes that are injected do not depend on the order in which the entries are given:
  two selections with the same entries serialize to the same file or to the same error.\<close>

theorem dotenv_order_independent:
  assumes "mset es = mset fs"
  shows "serialize es = serialize fs"
proof (cases "distinct (map e_key es)")
  case True
  then have "sort_key e_key es = sort_key e_key fs"
    using assms by (intro sort_key_inj_key_eq) (simp_all add: distinct_map)
  then show ?thesis by (simp add: serialize_def)
next
  case False
  have "mset (map e_key es) = mset (map e_key fs)" using assms by simp
  then have "\<not> distinct (map e_key fs)" using False by (metis mset_eq_imp_distinct_iff)
  with False have "adjacent_dup (sort_key e_key es)" "adjacent_dup (sort_key e_key fs)"
    using adjacent_dup_sorted [of "sort_key e_key es"] adjacent_dup_sorted [of "sort_key e_key fs"]
    by (simp_all add: distinct_map)
  then show ?thesis by (simp add: serialize_def)
qed

theorem dotenv_order_independent_witness:
  "serialize toy_env = serialize (rev toy_env)"
  by (rule dotenv_order_independent) simp

end
