(* ===== verification/Fsops.thy ===== *)
theory Fsops
  imports Dotenv Store
begin

text \<open>
  \<open>src/fsops.rs\<close>: writing a file inside an authorized folder. The kernel is a parameter, one
  field per system call the code makes; a directory is reached only by \<open>openat2\<close> with the three
  resolve flags, from the anchor \<open>/\<close> and then from the pinned folder. \<open>std::path\<close> is modelled on
  slash-separated texts: components, \<open>strip_prefix\<close>, \<open>is_absolute\<close>.
\<close>

section \<open>The kernel\<close>

datatype file_kind = Regular_File | Other_File

text \<open>A descriptor is opaque: the model is generic in its type.\<close>

record 'fd kernel =
  k_open_anchor :: "world \<Rightarrow> io_error + 'fd"
  k_openat2 :: "'fd \<Rightarrow> string \<Rightarrow> nat \<Rightarrow> nat \<Rightarrow> nat \<Rightarrow> world \<Rightarrow> (io_error + 'fd) \<times> world"
  k_dup :: "'fd \<Rightarrow> world \<Rightarrow> io_error + 'fd"
  k_lstat :: "'fd \<Rightarrow> string \<Rightarrow> world \<Rightarrow> file_kind option"
  k_fstat :: "'fd \<Rightarrow> world \<Rightarrow> file_kind option"
  k_write :: "'fd \<Rightarrow> string \<Rightarrow> world \<Rightarrow> (io_error + nat) \<times> world"
  k_fsync :: "'fd \<Rightarrow> world \<Rightarrow> (io_error + unit) \<times> world"
  k_renameat :: "'fd \<Rightarrow> string \<Rightarrow> string \<Rightarrow> world \<Rightarrow> (io_error + unit) \<times> world"
  k_unlinkat :: "'fd \<Rightarrow> string \<Rightarrow> world \<Rightarrow> world"

definition RESOLVE_NO_MAGICLINKS :: nat where "RESOLVE_NO_MAGICLINKS = 2"
definition RESOLVE_NO_SYMLINKS :: nat where "RESOLVE_NO_SYMLINKS = 4"
definition RESOLVE_BENEATH :: nat where "RESOLVE_BENEATH = 8"

text \<open>The flags of one call have no bit in common, so that the bitwise or is the sum.\<close>

definition RESOLVE_FLAGS :: nat where
  "RESOLVE_FLAGS = RESOLVE_BENEATH + RESOLVE_NO_SYMLINKS + RESOLVE_NO_MAGICLINKS"

definition O_RDONLY :: nat where "O_RDONLY = 0"
definition O_WRONLY :: nat where "O_WRONLY = 1"
definition O_CREAT :: nat where "O_CREAT = 64"
definition O_EXCL :: nat where "O_EXCL = 128"
definition O_DIRECTORY :: nat where "O_DIRECTORY = 65536"
definition O_CLOEXEC :: nat where "O_CLOEXEC = 524288"

definition DIR_FLAGS :: nat where "DIR_FLAGS = O_RDONLY + O_DIRECTORY + O_CLOEXEC"
definition TEMP_FLAGS :: nat where "TEMP_FLAGS = O_WRONLY + O_CREAT + O_EXCL + O_CLOEXEC"

definition EINTR :: int where "EINTR = 4"
definition EIO :: int where "EIO = 5"
definition ENOMEM :: int where "ENOMEM = 12"
definition EEXIST :: int where "EEXIST = 17"
definition ENFILE :: int where "ENFILE = 23"
definition EMFILE :: int where "EMFILE = 24"
definition ENOSYS :: int where "ENOSYS = 38"

definition errno :: "io_error \<Rightarrow> int option" where
  "errno e = (case e of Io_Error n _ \<Rightarrow> n)"

definition last_os_error :: "io_error \<Rightarrow> vault_error" where
  "last_os_error e =
     (if errno e = Some ENOSYS
      then Protocol ''kernel lacks openat2 support; refusing filesystem writes (fail closed)''
      else Io e)"

definition is_operational_error :: "vault_error \<Rightarrow> bool" where
  "is_operational_error e =
     (case e of
        Protocol _ \<Rightarrow> True
      | Io io \<Rightarrow> errno io \<in> {Some EMFILE, Some ENFILE, Some ENOMEM, Some EIO}
      | _ \<Rightarrow> False)"

definition NUL :: char where "NUL = CHR 0x00"

definition openat2 ::
  "'fd kernel \<Rightarrow> 'fd \<Rightarrow> string \<Rightarrow> nat \<Rightarrow> nat \<Rightarrow> nat \<Rightarrow> world \<Rightarrow> 'fd res \<times> world" where
  "openat2 K dirfd path flags mode resolve w =
     (if NUL \<in> set path then (Inl (InvalidInput ''path contains NUL''), w)
      else (case k_openat2 K dirfd path flags mode resolve w of (r, w') \<Rightarrow> (map_err last_os_error r, w')))"

section \<open>Paths\<close>

text \<open>\<open>Path::components\<close>: repeated separators, trailing separators and every \<open>.\<close> but a leading
  one are normalised away.\<close>

datatype component = RootDir | CurDir | ParentDir | Normal string

definition is_absolute :: "string \<Rightarrow> bool" where
  "is_absolute p \<longleftrightarrow> p \<noteq> [] \<and> hd p = SLASH"

definition trivial :: "string \<Rightarrow> bool" where
  "trivial seg \<longleftrightarrow> seg = [] \<or> seg = ''.''"

definition component_of :: "string \<Rightarrow> component" where
  "component_of seg = (if seg = ''..'' then ParentDir else Normal seg)"

definition leading :: "string \<Rightarrow> component list" where
  "leading p =
     (if is_absolute p then [RootDir] else if hd (split_on SLASH p) = ''.'' then [CurDir] else [])"

text \<open>The segments after the leading component.\<close>

definition body :: "string \<Rightarrow> string list" where
  "body p = (if leading p = [] then split_on SLASH p else List.tl (split_on SLASH p))"

definition components :: "string \<Rightarrow> component list" where
  "components p = leading p @ map component_of (filter (\<lambda>s. \<not> trivial s) (body p))"

fun join_slash :: "string list \<Rightarrow> string" where
  "join_slash [] = []"
| "join_slash [s] = s"
| "join_slash (s # t # r) = s @ [SLASH] @ join_slash (t # r)"

fun drop_components :: "nat \<Rightarrow> string list \<Rightarrow> string list" where
  "drop_components 0 segs = segs"
| "drop_components (Suc n) [] = []"
| "drop_components (Suc n) (s # segs) =
     (if trivial s then drop_components (Suc n) segs else drop_components n segs)"

text \<open>\<open>Path::strip_prefix\<close>: compares components and returns the text after them. \<open>as_path\<close> of the
  remaining iterator trims the trivial segments at its end, and at its front once something was
  consumed.\<close>

definition trim_trivial :: "string list \<Rightarrow> string list" where
  "trim_trivial segs = rev (dropWhile trivial (rev segs))"

definition strip_prefix :: "string \<Rightarrow> string \<Rightarrow> string option" where
  "strip_prefix p base =
     (let cb = components base; all = join_slash (trim_trivial (body p)) in
      if take (length cb) (components p) \<noteq> cb then None
      else if cb = [] then
        Some (case leading p of
                [] \<Rightarrow> all
              | RootDir # _ \<Rightarrow> SLASH # all
              | _ \<Rightarrow> ''.'' @ (if all = [] then [] else SLASH # all))
      else Some (join_slash (trim_trivial (dropWhile trivial
             (drop_components (length cb - length (leading p)) (body p))))))"

section \<open>Operations\<close>

text \<open>A single quote inside a message.\<close>

definition QUOTE :: string where "QUOTE = [CHR 0x27]"

definition validate_relative :: "string \<Rightarrow> unit res" where
  "validate_relative relative =
     (if relative = [] \<or> length relative > MAX_PATH_LEN
        then Inl (InvalidInput ''invalid destination path length'')
      else if NUL \<in> set relative then Inl (InvalidInput ''path contains NUL'')
      else if is_absolute relative then Inl (InvalidInput ''destination must be a relative path'')
      else if list_all (\<lambda>c. case c of Normal _ \<Rightarrow> True | _ \<Rightarrow> False) (components relative) then Inr ()
      else Inl (InvalidInput (''destination must be relative with no '' @ QUOTE @ ''..'' @ QUOTE
             @ '' or '' @ QUOTE @ ''.'' @ QUOTE @ '' components'')))"

text \<open>\<open>strip_prefix("/")\<close> of a folder; the empty segment test also refuses the folder \<open>/\<close> itself.\<close>

definition open_containment_root :: "'fd kernel \<Rightarrow> string \<Rightarrow> world \<Rightarrow> 'fd res \<times> world" where
  "open_containment_root K folder w =
     (if \<not> is_absolute folder then (Inl (InvalidInput ''authorized folder must be an absolute path''), w)
      else case k_open_anchor K w of
        Inl e \<Rightarrow> (Inl (last_os_error e), w)
      | Inr anchor \<Rightarrow>
          (case strip_prefix folder [SLASH] of
             None \<Rightarrow> (Inl (InvalidInput ''authorized folder must be absolute''), w)
           | Some relative \<Rightarrow>
               if \<not> valid_utf8 relative then (Inl (InvalidInput ''authorized folder must be valid UTF-8''), w)
               else if is_absolute relative
                 \<or> (\<exists>c\<in>set (split_on SLASH relative). c = ''..'' \<or> c = ''.'' \<or> c = [])
               then (Inl (InvalidInput ''authorized folder is not a plain relative descendant path''), w)
               else openat2 K anchor relative DIR_FLAGS 0 RESOLVE_FLAGS w))"

text \<open>The loop of \<open>open_authorized_cwd\<close> over the project's roots.\<close>

fun try_roots :: "'fd kernel \<Rightarrow> string \<Rightarrow> string list \<Rightarrow> world \<Rightarrow> 'fd res \<times> world" where
  "try_roots K cwd [] w = (Inl PathNotAuthorized, w)"
| "try_roots K cwd (root # roots) w =
     (case strip_prefix cwd root of
        None \<Rightarrow> try_roots K cwd roots w
      | Some relative \<Rightarrow>
          (case open_containment_root K root w of
             (Inl e, w1) \<Rightarrow> if is_operational_error e then (Inl e, w1) else try_roots K cwd roots w1
           | (Inr root_fd, w1) \<Rightarrow>
               if relative = [] then (Inr root_fd, w1)
               else if is_absolute relative \<or> NUL \<in> set relative then try_roots K cwd roots w1
               else (case openat2 K root_fd relative DIR_FLAGS 0 RESOLVE_FLAGS w1 of
                       (Inr f, w2) \<Rightarrow> (Inr f, w2)
                     | (Inl e, w2) \<Rightarrow>
                         if is_operational_error e then (Inl e, w2) else try_roots K cwd roots w2)))"

definition open_authorized_cwd :: "'fd kernel \<Rightarrow> string \<Rightarrow> string list \<Rightarrow> world \<Rightarrow> 'fd res \<times> world" where
  "open_authorized_cwd K cwd roots w =
     (if \<not> is_absolute cwd then (Inl PathNotAuthorized, w)
      else if length cwd > MAX_PATH_LEN then (Inl (InvalidInput ''cwd path too long''), w)
      else if \<not> valid_utf8 cwd then (Inl (InvalidInput ''cwd must be valid UTF-8''), w)
      else if NUL \<in> set cwd then (Inl (InvalidInput ''path contains NUL''), w)
      else if ParentDir \<in> set (components cwd) then (Inl PathNotAuthorized, w)
      else try_roots K cwd roots w)"

record 'fd contained_target =
  ct_parent :: 'fd
  ct_file_name :: string
  ct_display_path :: string

text \<open>\<open>rfind('/')\<close> splits at the last separator: \<open>dir_part\<close> without its slash, and \<open>file_part\<close>.\<close>

definition resolve_target ::
  "'fd kernel \<Rightarrow> 'fd \<Rightarrow> string \<Rightarrow> string \<Rightarrow> world \<Rightarrow> 'fd contained_target res \<times> world" where
  "resolve_target K root relative folder w =
     try_bind (validate_relative relative, w) (\<lambda>_ w.
       try_bind (if SLASH \<in> set relative
                 then openat2 K root (butlast (dir_part relative)) DIR_FLAGS 0 RESOLVE_FLAGS w
                 else (map_err Io (k_dup K root w), w)) (\<lambda>parent w1.
         let name = file_part relative in
         if name = ''.'' \<or> name = ''..'' \<or> name = []
         then (Inl (InvalidInput ''invalid destination file name''), w1)
         else (Inr \<lparr>ct_parent = parent, ct_file_name = name,
                    ct_display_path = path_join folder relative\<rparr>, w1)))"

text \<open>\<open>write_all\<close>: only \<open>EINTR\<close> is retried, for ever if the kernel keeps interrupting.\<close>

partial_function (option) write_all ::
  "'fd kernel \<Rightarrow> 'fd \<Rightarrow> string \<Rightarrow> world \<Rightarrow> ((io_error + unit) \<times> world) option" where
  "write_all K f bytes w =
     (if bytes = [] then Some (Inr (), w)
      else case k_write K f bytes w of
        (Inl e, w1) \<Rightarrow> if errno e = Some EINTR then write_all K f bytes w1 else Some (Inl e, w1)
      | (Inr n, w1) \<Rightarrow>
          if n = 0 then Some (Inl (Io_Error None ''write returned zero''), w1)
          else write_all K f (drop n bytes) w1)"

declare write_all.simps [code]

text \<open>The temporary file: up to five random names.\<close>

fun create_temp ::
  "'fd kernel \<Rightarrow> nat \<Rightarrow> 'fd \<Rightarrow> string \<Rightarrow> world \<Rightarrow> ('fd \<times> string) res \<times> world" where
  "create_temp K 0 parent name w =
     (Inl (Io (Io_Error None ''could not create a unique temp file after 5 attempts'')), w)"
| "create_temp K (Suc n) parent name w =
     try_bind (random_bytes 8 w) (\<lambda>tag w1.
       let tmp = ''.'' @ name @ ''.tmp.'' @ hex tag in
       case openat2 K parent tmp TEMP_FLAGS 384 RESOLVE_FLAGS w1 of
         (Inr f, w2) \<Rightarrow> (Inr (f, tmp), w2)
       | (Inl e, w2) \<Rightarrow>
           if raw_os_error e = Some EEXIST then create_temp K n parent name w2 else (Inl e, w2))"

text \<open>Writing, syncing and publishing the temporary file. The directory sync at the end does not
  change the result.\<close>

definition publish_at ::
  "'fd kernel \<Rightarrow> 'fd contained_target \<Rightarrow> string \<Rightarrow> 'fd \<Rightarrow> string \<Rightarrow> world \<Rightarrow> (unit res \<times> world) option" where
  "publish_at K t bytes f tmp w =
     (let parent = ct_parent t in
      map_option (\<lambda>(r, w1).
        case (case r of Inl e \<Rightarrow> (Inl e, w1) | Inr _ \<Rightarrow> k_fsync K f w1) of
          (Inl e, w2) \<Rightarrow> (Inl (Io e), k_unlinkat K parent tmp w2)
        | (Inr _, w2) \<Rightarrow>
            (case k_renameat K parent tmp (ct_file_name t) w2 of
               (Inl e, w3) \<Rightarrow> (Inl (last_os_error e), k_unlinkat K parent tmp w3)
             | (Inr _, w3) \<Rightarrow> (Inr (), snd (k_fsync K parent w3))))
        (write_all K f bytes w))"

definition write_file_atomic ::
  "'fd kernel \<Rightarrow> 'fd contained_target \<Rightarrow> string \<Rightarrow> world \<Rightarrow> (unit res \<times> world) option" where
  "write_file_atomic K t bytes w =
     (if NUL \<in> set (ct_file_name t) then Some (Inl (InvalidInput ''file name contains NUL''), w)
      else if k_lstat K (ct_parent t) (ct_file_name t) w = Some Other_File
      then Some (Inl (InvalidInput (''destination exists and is not a regular file '' @
             ''(symlinks, directories, FIFOs, sockets and devices are refused)'')), w)
      else case create_temp K 5 (ct_parent t) (ct_file_name t) w of
        (Inl e, w1) \<Rightarrow> Some (Inl e, w1)
      | (Inr (f, tmp), w1) \<Rightarrow>
          if k_fstat K f w1 \<noteq> Some Regular_File
          then Some (Inl (Corrupt ''created temp file is not regular''), w1)
          else publish_at K t bytes f tmp w1)"

end
