(* ===== verification/SessionInject.thy ===== *)
theory SessionInject
  imports Fsops SessionCore
begin

text \<open>
  \<open>src/session.rs\<close>: \<open>inject_file\<close>. The selected secrets of a project are written as a dotenv file
  below the first authorized folder that takes it; the values go into that file and nowhere else.
\<close>

record inject_report =
  ir_path :: string
  ir_keys :: "string list"

definition secret_entry :: "string \<Rightarrow> secret \<Rightarrow> env_entry res" where
  "secret_entry k s =
     (if valid_utf8 (s_value s) then Inr \<lparr>e_key = k, e_value = s_value s\<rparr>
      else Inl (InvalidInput ''secret value is not valid UTF-8 for dotenv injection''))"

fun pick_entries :: "vault_document \<Rightarrow> string \<Rightarrow> string list \<Rightarrow> env_entry list res" where
  "pick_entries doc pid [] = Inr []"
| "pick_entries doc pid (k # ks) =
     res_bind (ok_or NotFound (secret_of doc pid k)) (\<lambda>s.
       res_bind (secret_entry k s) (\<lambda>e.
         res_bind (pick_entries doc pid ks) (\<lambda>es. Inr (e # es))))"

text \<open>The selected key names and their entries: the named keys, or all of the project in key order.\<close>

definition select_entries ::
  "vault_document \<Rightarrow> string \<Rightarrow> string list option \<Rightarrow> (string list \<times> env_entry list) res" where
  "select_entries doc pid keys =
     (case keys of
        Some ks \<Rightarrow> res_bind (pick_entries doc pid ks) (\<lambda>es. Inr (ks, es))
      | None \<Rightarrow>
          res_bind (collect_res (map (\<lambda>s. secret_entry (s_key s) s)
                      (sort_key s_key (filter (\<lambda>s. s_project_id s = pid) (d_secrets doc)))))
            (\<lambda>es. Inr (map e_key es, es)))"

text \<open>The contained write below one folder.\<close>

definition inject_below ::
  "'fd kernel \<Rightarrow> string \<Rightarrow> string \<Rightarrow> string \<Rightarrow> string list \<Rightarrow> world \<Rightarrow> (inject_report res \<times> world) option" where
  "inject_below K folder relative bytes selected w =
     (case open_containment_root K folder w of
        (Inl e, w1) \<Rightarrow> Some (Inl e, w1)
      | (Inr root, w1) \<Rightarrow>
          (case resolve_target K root relative folder w1 of
             (Inl e, w2) \<Rightarrow> Some (Inl e, w2)
           | (Inr t, w2) \<Rightarrow>
               map_option (\<lambda>(r, w3).
                 (res_bind r (\<lambda>_. Inr \<lparr>ir_path = ct_display_path t, ir_keys = selected\<rparr>), w3))
                 (write_file_atomic K t bytes w2)))"

fun inject_into ::
  "'fd kernel \<Rightarrow> string list \<Rightarrow> string \<Rightarrow> string \<Rightarrow> string list \<Rightarrow> vault_error option \<Rightarrow> world
    \<Rightarrow> (inject_report res \<times> world) option" where
  "inject_into K [] relative bytes selected last_err w =
     Some (Inl (case last_err of None \<Rightarrow> InvalidInput ''no authorized folders'' | Some e \<Rightarrow> e), w)"
| "inject_into K (folder # folders) relative bytes selected last_err w =
     (case inject_below K folder relative bytes selected w of
        None \<Rightarrow> None
      | Some (Inr report, w1) \<Rightarrow> Some (Inr report, w1)
      | Some (Inl e, w1) \<Rightarrow> inject_into K folders relative bytes selected (Some e) w1)"

definition do_inject_file ::
  "'fd kernel \<Rightarrow> vault_document \<Rightarrow> string \<Rightarrow> string \<Rightarrow> string list option \<Rightarrow> world
    \<Rightarrow> (inject_report res \<times> world) option" where
  "do_inject_file K doc project relative keys w =
     (case project_by_name doc project of
        None \<Rightarrow> Some (Inl NotFound, w)
      | Some p \<Rightarrow>
          if p_paths p = [] then Some (Inl (InvalidInput ''project has no authorized folders''), w)
          else (case select_entries doc (p_id p) keys of
             Inl e \<Rightarrow> Some (Inl e, w)
           | Inr (selected, entries) \<Rightarrow>
               if selected = [] then Some (Inl (InvalidInput ''no secrets to inject''), w)
               else (case serialize entries of
                  Inl e \<Rightarrow> Some (Inl e, w)
                | Inr bytes \<Rightarrow> inject_into K (p_paths p) relative bytes selected None w)))"

definition inject_file ::
  "('z) vault_lib_scheme \<Rightarrow> 'fd kernel \<Rightarrow> string \<Rightarrow> string \<Rightarrow> string \<Rightarrow> string list option \<Rightarrow> session
    \<Rightarrow> (inject_report res \<times> session) option" where
  "inject_file L K actor project relative keys s =
     (case with_doc L actor ''inject_file'' (Some project) [] s of
        (Inl e, s1) \<Rightarrow> Some (Inl e, s1)
      | (Inr doc, s1) \<Rightarrow>
          map_option (\<lambda>(r, w).
            let s2 = s1\<lparr>s_world := w\<rparr> in
            case r of
              Inl e \<Rightarrow> refuse L actor ''inject_file'' (Some project) [] None e s2
            | Inr report \<Rightarrow>
                try_bind (audit_record L actor (mk_record actor ''inject_file'' (Some project)
                            (ir_keys report) (Some (ir_path report)) Allowed None) s2)
                  (\<lambda>_ s3. (Inr report, s3)))
            (do_inject_file K doc project relative keys (s_world s1)))"

end
