(* ===== verification/Containment.thy ===== *)
theory Containment
  imports SessionInject Toy "HOL-Library.Sublist"
begin

text \<open>
  What the contained write of \<open>src/fsops.rs\<close> promises. The interface to the kernel is the locale
  \<open>contained_kernel\<close>: the documented effect of each system call on the files, in terms of the true
  path name of what a descriptor denotes. \<open>flat_kernel\<close> is a concrete kernel that obeys it.
\<close>

section \<open>Path names\<close>

text \<open>True names: the root directory is the empty name, so that a child is always its parent's name,
  a slash and the entry.\<close>

definition child :: "string \<Rightarrow> string \<Rightarrow> string" where
  "child d n = d @ [SLASH] @ n"

definition beneath :: "string \<Rightarrow> string \<Rightarrow> bool" where
  "beneath p d \<longleftrightarrow> p = d \<or> prefix (d @ [SLASH]) p"

lemma beneath_refl [simp, intro]: "beneath d d"
  by (simp add: beneath_def)

lemma beneath_trans [trans]: "beneath a b \<Longrightarrow> beneath b c \<Longrightarrow> beneath a c"
  unfolding beneath_def by (metis append_prefixD prefix_order.trans)

lemma beneath_child [simp, intro]: "beneath (child d n) d"
  by (simp add: beneath_def child_def)

text \<open>The directory an authorized folder names, free of repeated separators.\<close>

definition folder_path :: "string \<Rightarrow> string" where
  "folder_path folder = child [] (case strip_prefix folder [SLASH] of None \<Rightarrow> [] | Some r \<Rightarrow> r)"

definition canonical :: "string \<Rightarrow> bool" where
  "canonical p \<longleftrightarrow> is_absolute p \<and> list_all (\<lambda>s. \<not> trivial s) (split_on SLASH (List.tl p))"

lemma split_on_slash: "split_on SLASH (SLASH # p) = [] # split_on SLASH p"
  by simp

lemma join_split: "join_slash (split_on SLASH p) = p"
proof (induction p)
  case (Cons c p)
  obtain l ls where ls: "split_on SLASH p = l # ls" by (metis neq_Nil_conv split_on_nonempty)
  with Cons.IH show ?case by (cases ls) (auto split: list.split)
qed simp

lemma trim_nontrivial: "list_all (\<lambda>s. \<not> trivial s) segs \<Longrightarrow> trim_trivial segs = segs"
  by (cases segs rule: rev_cases) (auto simp: trim_trivial_def)

lemma strip_root: "canonical p \<Longrightarrow> strip_prefix p [SLASH] = Some (List.tl p)"
proof -
  assume c: "canonical p"
  then obtain q where p: "p = SLASH # q" by (cases p) (auto simp: canonical_def is_absolute_def)
  with c have nt: "list_all (\<lambda>s. \<not> trivial s) (split_on SLASH q)" by (simp add: canonical_def)
  then have "dropWhile trivial (split_on SLASH q) = split_on SLASH q"
    by (cases "split_on SLASH q") auto
  with nt p show ?thesis
    by (simp add: strip_prefix_def components_def leading_def body_def is_absolute_def trim_nontrivial
        join_split trivial_def)
qed

lemma folder_path_canonical: "canonical p \<Longrightarrow> folder_path p = p"
  by (auto simp: folder_path_def strip_root child_def canonical_def is_absolute_def neq_Nil_conv)

lemma map_err_Inl_iff: "map_err f x = Inl e \<longleftrightarrow> (\<exists>y. x = Inl y \<and> e = f y)"
  by (cases x) auto

lemma hex_char_range: "c \<in> set (hex x) \<Longrightarrow> 48 \<le> (of_char c :: nat)"
proof -
  have d: "n < 16 \<Longrightarrow> 48 \<le> (of_char (hex_digit n) :: nat)" for n by (simp add: of_char_hex_digit)
  have "of_char b div 16 < (16::nat)" for b using of_char_less [of b] by linarith
  then show "c \<in> set (hex x) \<Longrightarrow> 48 \<le> (of_char c :: nat)"
    by (auto simp: hex_def d)
qed

lemma hex_plain_slash: "SLASH \<notin> set (hex x)"
  and hex_plain_nul: "NUL \<notin> set (hex x)"
  using hex_char_range [of SLASH x] hex_char_range [of NUL x] by (auto simp: SLASH_def NUL_def)

section \<open>The interface\<close>

text \<open>Everything but the files of a set is as before.\<close>

definition only_changes :: "string set \<Rightarrow> world \<Rightarrow> world \<Rightarrow> bool" where
  "only_changes X w w' \<longleftrightarrow> same_env w w' \<and> w_locks w' = w_locks w \<and> (\<forall>p. p \<notin> X \<longrightarrow> w_dir w' p = w_dir w p)"

lemma only_changes_refl [simp, intro]: "only_changes X w w"
  by (simp add: only_changes_def)

lemma only_changes_trans: "only_changes X w w1 \<Longrightarrow> only_changes Y w1 w2 \<Longrightarrow> only_changes (X \<union> Y) w w2"
  by (auto simp: only_changes_def intro: same_env_trans)

lemma only_changes_trans': "only_changes X w w1 \<Longrightarrow> only_changes X w1 w2 \<Longrightarrow> only_changes X w w2"
  using only_changes_trans [of X w w1 X w2] by simp

lemma only_changes_empty: "only_changes {} w w1 \<Longrightarrow> only_changes Y w1 w2 = only_changes Y w w2"
  by (auto simp: only_changes_def same_env_def)

lemma only_changes_mono: "only_changes X w w' \<Longrightarrow> X \<subseteq> Y \<Longrightarrow> only_changes Y w w'"
  by (auto simp: only_changes_def)

lemma only_changes_same: "only_changes X w w' \<Longrightarrow> p \<notin> X \<Longrightarrow> w_dir w' p = w_dir w p"
  by (simp add: only_changes_def)

lemma random_bytes_changes: "random_bytes n w = (r, w') \<Longrightarrow> only_changes {} w w'"
  using random_bytes_frame [of n w r w'] by (simp add: only_changes_def)

text \<open>The contained write changes the destination only, to the bytes given; when it fails it leaves at
  most its temporary file in the same directory.\<close>

definition written :: "string \<Rightarrow> string \<Rightarrow> string \<Rightarrow> bool \<Rightarrow> world \<Rightarrow> world \<Rightarrow> bool" where
  "written d n bytes ok w w' \<longleftrightarrow>
     (if ok then w_dir w' (child d n) = Some bytes \<and> only_changes {child d n} w w'
      else \<exists>tmp. tmp \<noteq> n \<and> only_changes {child d tmp} w w')"

lemma child_inject [simp]: "child d a = child d b \<longleftrightarrow> a = b"
  by (simp add: child_def)

lemma written_unchanged: "only_changes {} w w' \<Longrightarrow> written d n bytes False w w'"
  unfolding written_def
  by (rule if_not_P [THEN iffD2], simp) (rule exI [of _ "n @ ''.''"], auto intro: only_changes_mono)

text \<open>The outcome of an injection into a list of folders.\<close>

definition injected :: "string list \<Rightarrow> string \<Rightarrow> string \<Rightarrow> bool \<Rightarrow> world \<Rightarrow> world \<Rightarrow> bool" where
  "injected folders relative bytes ok w w' \<longleftrightarrow>
     (\<forall>p. w_dir w' p \<noteq> w_dir w p \<longrightarrow> (\<exists>folder\<in>set folders. beneath p (folder_path folder))) \<and>
     (ok \<longrightarrow> (\<exists>folder\<in>set folders. \<exists>d. beneath d (folder_path folder)
        \<and> w_dir w' (child d (file_part relative)) = Some bytes))"

lemma injected_nothing: "only_changes {} w w' \<Longrightarrow> injected folders relative bytes False w w'"
  by (simp add: injected_def only_changes_def)

locale contained_kernel =
  fixes K :: "'fd kernel" and name :: "'fd \<Rightarrow> string"
  assumes anchor: "k_open_anchor K w = Inr a \<Longrightarrow> name a = []"
    and lookup_frame: "k_openat2 K d p DIR_FLAGS m RESOLVE_FLAGS w = (r, w') \<Longrightarrow> only_changes {} w w'"
    and lookup_beneath: "k_openat2 K d p DIR_FLAGS m RESOLVE_FLAGS w = (Inr f, w') \<Longrightarrow> beneath (name f) (name d)"
    and lookup_plain: "k_openat2 K d p DIR_FLAGS m RESOLVE_FLAGS w = (Inr f, w') \<Longrightarrow>
      \<forall>c\<in>set (split_on SLASH p). c \<noteq> [] \<and> c \<noteq> ''.'' \<and> c \<noteq> ''..'' \<Longrightarrow> name f = child (name d) p"
    and create: "k_openat2 K d n TEMP_FLAGS m RESOLVE_FLAGS w = (Inr f, w') \<Longrightarrow> SLASH \<notin> set n \<Longrightarrow>
      name f = child (name d) n \<and> w_dir w (name f) = None \<and> w_dir w' (name f) = Some []
      \<and> only_changes {name f} w w'"
    and create_fails: "k_openat2 K d n TEMP_FLAGS m RESOLVE_FLAGS w = (Inl e, w') \<Longrightarrow> only_changes {} w w'"
    and dup: "k_dup K d w = Inr f \<Longrightarrow> name f = name d"
    and write_frame: "k_write K f bs w = (r', w') \<Longrightarrow> only_changes {name f} w w'"
    and write_interrupted: "k_write K f bs w = (Inl e, w') \<Longrightarrow> errno e = Some EINTR \<Longrightarrow>
      w_dir w' (name f) = w_dir w (name f)"
    and write_some: "k_write K f bs w = (Inr n', w') \<Longrightarrow> w_dir w (name f) = Some old \<Longrightarrow>
      n' \<le> length bs \<and> w_dir w' (name f) = Some (old @ take n' bs)"
    and sync: "k_fsync K f w = (q, w') \<Longrightarrow> only_changes {} w w'"
    and rename: "k_renameat K d n1 n2 w = (Inr u, w') \<Longrightarrow> n1 \<noteq> n2 \<Longrightarrow>
      w_dir w' (child (name d) n2) = w_dir w (child (name d) n1) \<and> w_dir w' (child (name d) n1) = None
      \<and> only_changes {child (name d) n1, child (name d) n2} w w'"
    and rename_fails: "k_renameat K d n1 n2 w = (Inl e, w') \<Longrightarrow> only_changes {} w w'"
    and unlink: "only_changes {child (name d) n1} w (k_unlinkat K d n1 w)"
begin

lemma openat2_fails:
  "openat2 K d n TEMP_FLAGS m RESOLVE_FLAGS w = (Inl e, w') \<Longrightarrow> only_changes {} w w'"
  using create_fails by (fastforce simp: openat2_def map_err_Inl_iff split: if_splits prod.splits)

lemma openat2_create:
  "openat2 K d n TEMP_FLAGS m RESOLVE_FLAGS w = (Inr f, w') \<Longrightarrow> SLASH \<notin> set n \<Longrightarrow>
      name f = child (name d) n \<and> w_dir w (name f) = None \<and> w_dir w' (name f) = Some []
      \<and> only_changes {name f} w w'"
  by (rule create) (auto simp: openat2_def split: if_splits prod.splits)

lemma openat2_dir:
  assumes "openat2 K d p DIR_FLAGS m RESOLVE_FLAGS w = (r, w')"
  shows "only_changes {} w w'" "r = Inr f \<Longrightarrow> beneath (name f) (name d)"
    "r = Inr f \<Longrightarrow> \<forall>c\<in>set (split_on SLASH p). c \<noteq> [] \<and> c \<noteq> ''.'' \<and> c \<noteq> ''..'' \<Longrightarrow> name f = child (name d) p"
  using assms lookup_frame lookup_beneath lookup_plain
  by (auto simp: openat2_def split: if_splits prod.splits)

definition appended :: "'fd \<Rightarrow> string \<Rightarrow> world \<Rightarrow> (io_error + unit) \<times> world \<Rightarrow> bool" where
  "appended f bytes w rw \<longleftrightarrow> only_changes {name f} w (snd rw) \<and>
     (is_ok (fst rw) \<longrightarrow> (\<forall>old. w_dir w (name f) = Some old \<longrightarrow> w_dir (snd rw) (name f) = Some (old @ bytes)))"

lemma appended_interrupted:
  assumes "k_write K f b v = (Inl x, w1)" and "errno x = Some EINTR" and "appended f b w1 rv"
  shows "appended f b v rv"
  using assms(3) write_interrupted [OF assms(1,2)]
  by (simp add: appended_def only_changes_trans' [OF write_frame [OF assms(1)]])

lemma appended_some:
  assumes k: "k_write K f b v = (Inr n, w1)" and a: "appended f (drop n b) w1 rv"
  shows "appended f b v rv"
proof -
  have "w_dir (snd rv) (name f) = Some (old @ b)" if "is_ok (fst rv)" "w_dir v (name f) = Some old" for old
    using a that(1) write_some [OF k that(2)] by (simp add: appended_def)
  with a show ?thesis by (auto simp: appended_def intro: only_changes_trans' [OF write_frame [OF k]])
qed

lemma write_all_appended: "write_all K f bytes w = Some rw \<Longrightarrow> appended f bytes w rw"
proof -
  have "K' = K \<longrightarrow> f' = f \<longrightarrow> appended f b v rv" if "write_all K' f' b v = Some rv" for K' f' b v rv
  proof (rule write_all.raw_induct [OF _ that])
    fix go K' f' b v rv
    assume IH: "\<And>K' f' b v rv. go K' f' b v = Some rv \<Longrightarrow> K' = K \<longrightarrow> f' = f \<longrightarrow> appended f b v rv"
      and bd: "(if b = [] then Some (Inr (), v)
        else case k_write K' f' b v of
          (Inl e, w1) \<Rightarrow> if errno e = Some EINTR then go K' f' b w1 else Some (Inl e, w1)
        | (Inr n, w1) \<Rightarrow>
            if n = 0 then Some (Inl (Io_Error None ''write returned zero''), w1)
            else go K' f' (drop n b) w1) = Some rv"
    have rec: "go K f b v = Some rv \<Longrightarrow> appended f b v rv" for b v rv
      using IH [of K f b v rv] by blast
    show "K' = K \<longrightarrow> f' = f \<longrightarrow> appended f b v rv"
    proof (intro impI)
      assume e: "K' = K" "f' = f"
      show "appended f b v rv"
      proof (cases "b = []")
        case True
        with bd show ?thesis by (auto simp: appended_def)
      next
        case ne: False
        obtain r1 w1 where k: "k_write K f b v = (r1, w1)" by force
        have stop: "appended f b v (Inl x, w1)" for x
          using write_frame [OF k] by (simp add: appended_def)
        show ?thesis
        proof (cases r1)
          case (Inl x)
          have "(if errno x = Some EINTR then go K f b w1 else Some (Inl x, w1)) = Some rv"
            using bd ne unfolding e k Inl by simp
          then show ?thesis
            using appended_interrupted [OF k [unfolded Inl] _ rec] stop by (auto split: if_splits)
        next
          case (Inr n)
          have "(if n = 0 then Some (Inl (Io_Error None ''write returned zero''), w1)
              else go K f (drop n b) w1) = Some rv"
            using bd ne unfolding e k Inr by simp
          then show ?thesis
            using appended_some [OF k [unfolded Inr] rec] stop by (auto split: if_splits)
        qed
      qed
    qed
  qed
  then show "write_all K f bytes w = Some rw \<Longrightarrow> appended f bytes w rw" by blast
qed

lemma create_temp_ok:
  "create_temp K n d nm w = (r, w') \<Longrightarrow> SLASH \<notin> set nm \<Longrightarrow>
    (case r of
       Inl e \<Rightarrow> only_changes {} w w'
     | Inr (f, tmp) \<Rightarrow> name f = child (name d) tmp \<and> tmp \<noteq> nm \<and> w_dir w (name f) = None
         \<and> w_dir w' (name f) = Some [] \<and> only_changes {name f} w w')"
proof (induction n arbitrary: w)
  case (Suc n)
  obtain t w1 where t: "random_bytes 8 w = (t, w1)" by force
  note rc = random_bytes_changes [OF t]
  show ?case
  proof (cases t)
    case (Inl e) with Suc.prems t rc show ?thesis by auto
  next
    case (Inr tag)
    obtain tmp where tmp_def: "tmp = ''.'' @ nm @ ''.tmp.'' @ hex tag" by blast
    have ns: "SLASH \<notin> set tmp" using Suc.prems(2) hex_plain_slash by (simp add: SLASH_def tmp_def)
    have ne: "tmp \<noteq> nm" by (rule notI, drule arg_cong [of _ _ length]) (simp add: tmp_def)
    obtain q w2 where q: "openat2 K d tmp TEMP_FLAGS 384 RESOLVE_FLAGS w1 = (q, w2)" by force
    note eq = Suc.prems(1) [unfolded create_temp.simps t Inr try_bind_simps Let_def tmp_def [symmetric] q]
    show ?thesis
    proof (cases q)
      case (Inl e)
      have fr: "only_changes {} w w2"
        using only_changes_trans' [OF rc openat2_fails [OF q [unfolded Inl]]] .
      then have same: "w_dir w2 p = w_dir w p" for p by (simp add: only_changes_def)
      show ?thesis
      proof (cases "raw_os_error e = Some EEXIST")
        case True
        with eq Inl have "create_temp K n d nm w2 = (r, w')" by simp
        from Suc.IH [OF this Suc.prems(2)] fr show ?thesis
          by (auto split: sum.splits simp: same only_changes_empty [OF fr])
      next
        case False
        with eq Inl fr show ?thesis by auto
      qed
    next
      case r: (Inr f)
      then have "r = Inr (f, tmp)" "w' = w2" using eq by simp_all
      with openat2_create [OF q [unfolded r] ns] ne rc show ?thesis
        by (auto simp: only_changes_same [OF rc] only_changes_empty [OF rc])
    qed
  qed
qed auto

lemma publish_at_ok:
  assumes "publish_at K t bytes f tmp w = Some (r, w')"
    and tmp: "name f = child (name (ct_parent t)) tmp" "tmp \<noteq> ct_file_name t" "w_dir w (name f) = Some []"
  shows "(\<forall>e. r = Inl e \<longrightarrow> only_changes {name f} w w') \<and>
    (\<forall>u. r = Inr u \<longrightarrow> w_dir w' (child (name (ct_parent t)) (ct_file_name t)) = Some bytes \<and> w_dir w' (name f) = None
       \<and> only_changes {name f, child (name (ct_parent t)) (ct_file_name t)} w w')"
proof -
  obtain r1 w1 where wr: "write_all K f bytes w = Some (r1, w1)"
    using assms(1) by (auto simp: publish_at_def Let_def)
  note ap = write_all_appended [OF wr, unfolded appended_def, simplified]
  obtain r2 w2 where fs: "(case r1 of Inl e \<Rightarrow> (Inl e, w1) | Inr _ \<Rightarrow> k_fsync K f w1) = (r2, w2)" by force
  have same: "only_changes {} w1 w2"
    using fs sync [of f w1 r2 w2] by (cases r1) auto
  have o2: "only_changes {name f} w w2"
    using ap same only_changes_trans [of "{name f}" w w1 "{}" w2] by simp
  have un: "only_changes {name f} v (k_unlinkat K (ct_parent t) tmp v)" for v
    using unlink tmp(1) by simp
  show ?thesis
  proof (cases r2)
    case (Inl e)
    with assms(1) wr fs have "r = Inl (Io e)" "w' = k_unlinkat K (ct_parent t) tmp w2"
      by (auto simp: publish_at_def Let_def)
    with only_changes_trans' [OF o2 un] show ?thesis by simp
  next
    case (Inr u)
    obtain r3 w3 where rn: "k_renameat K (ct_parent t) tmp (ct_file_name t) w2 = (r3, w3)" by force
    show ?thesis
    proof (cases r3)
      case (Inl e)
      with assms(1) wr fs Inr rn
      have "r = Inl (last_os_error e)" "w' = k_unlinkat K (ct_parent t) tmp w3"
        by (auto simp: publish_at_def Let_def)
      moreover have "only_changes {name f} w w3"
        using only_changes_trans [OF o2 rename_fails [OF rn [unfolded Inl]]] by simp
      ultimately show ?thesis using only_changes_trans' [OF _ un] by auto
    next
      case r3: (Inr u')
      obtain q w4 where sy: "k_fsync K (ct_parent t) w3 = (q, w4)" by force
      from assms(1) wr fs Inr rn r3 sy have r: "r = Inr ()" "w' = w4"
        by (auto simp: publish_at_def Let_def)
      have "is_ok r1" using fs Inr by (cases r1) auto
      then have "w_dir w1 (name f) = Some bytes" using ap tmp(3) by simp
      then have "w_dir w2 (name f) = Some bytes" using same by (simp add: only_changes_def)
      moreover note rename [OF rn [unfolded r3] tmp(2), folded tmp(1)]
      moreover have "w_dir w4 p = w_dir w3 p" for p using sync [OF sy] by (simp add: only_changes_def)
      moreover have "only_changes {name f, child (name (ct_parent t)) (ct_file_name t)} w w4"
        if "only_changes {name f, child (name (ct_parent t)) (ct_file_name t)} w2 w3"
        using only_changes_trans [OF only_changes_trans [OF o2 that] sync [OF sy]] by (simp add: insert_commute)
      ultimately show ?thesis using r by simp
    qed
  qed
qed

lemma write_file_atomic_ok:
  assumes "write_file_atomic K t bytes w = Some (r, w')" and "SLASH \<notin> set (ct_file_name t)"
  shows "written (name (ct_parent t)) (ct_file_name t) bytes (is_ok r) w w'"
proof -
  obtain r1 w1 where ct: "create_temp K 5 (ct_parent t) (ct_file_name t) w = (r1, w1)" by force
  note c = create_temp_ok [OF ct assms(2)]
  consider (early) e where "r = Inl e" "w' = w" | (untempted) e where "r1 = Inl e" "r = Inl e" "w' = w1"
    | (odd) f tmp e where "r1 = Inr (f, tmp)" "r = Inl e" "w' = w1"
    | (go) f tmp where "r1 = Inr (f, tmp)" "publish_at K t bytes f tmp w1 = Some (r, w')"
    using assms(1) ct by (auto simp: write_file_atomic_def split: if_splits sum.splits prod.splits)
  then show ?thesis
  proof cases
    case early then show ?thesis by (simp add: written_unchanged)
  next
    case untempted with c show ?thesis by (simp add: written_unchanged)
  next
    case odd with c show ?thesis by (auto simp: written_def)
  next
    case go
    have t: "name f = child (name (ct_parent t)) tmp" "tmp \<noteq> ct_file_name t" "w_dir w (name f) = None"
        "w_dir w1 (name f) = Some []" "only_changes {name f} w w1"
      using c unfolding go(1) sum.case prod.case by blast+
    note p = publish_at_ok [OF go(2) t(1,2,4)]
    show ?thesis
    proof (cases r)
      case (Inl e)
      with p only_changes_trans' [OF t(5)] t(1,2) show ?thesis by (auto simp: written_def)
    next
      case (Inr u)
      with p have q: "w_dir w' (child (name (ct_parent t)) (ct_file_name t)) = Some bytes" "w_dir w' (name f) = None"
          "only_changes {name f, child (name (ct_parent t)) (ct_file_name t)} w1 w'" by simp_all
      have "only_changes {name f, child (name (ct_parent t)) (ct_file_name t)} w w'"
        using only_changes_trans [OF t(5) q(3)] by (simp add: insert_commute)
      then have "only_changes {child (name (ct_parent t)) (ct_file_name t)} w w'"
        unfolding only_changes_def using t(3) q(2) by (metis insert_iff singletonD)
      with q(1) Inr show ?thesis by (simp add: written_def)
    qed
  qed
qed

lemma open_root_ok:
  assumes "open_containment_root K folder w = (r, w')"
  shows "only_changes {} w w'" "r = Inr f \<Longrightarrow> name f = folder_path folder"
proof -
  have "only_changes {} w w' \<and> (r = Inr f \<longrightarrow> name f = folder_path folder)"
  proof (cases "\<exists>a rel. k_open_anchor K w = Inr a \<and> strip_prefix folder [SLASH] = Some rel
      \<and> (\<forall>c\<in>set (split_on SLASH rel). c \<noteq> [] \<and> c \<noteq> ''.'' \<and> c \<noteq> ''..'')
      \<and> openat2 K a rel DIR_FLAGS 0 RESOLVE_FLAGS w = (r, w')")
    case True
    then obtain a rel where a: "k_open_anchor K w = Inr a" "strip_prefix folder [SLASH] = Some rel"
        "\<forall>c\<in>set (split_on SLASH rel). c \<noteq> [] \<and> c \<noteq> ''.'' \<and> c \<noteq> ''..''"
        "openat2 K a rel DIR_FLAGS 0 RESOLVE_FLAGS w = (r, w')" by blast
    from openat2_dir(1,3) [OF a(4)] a(2,3) anchor [OF a(1)] show ?thesis
      by (auto simp: folder_path_def)
  next
    case False
    with assms have "w' = w" "\<exists>e. r = Inl e"
      by (auto simp: open_containment_root_def split: if_splits sum.splits option.splits)
    then show ?thesis by auto
  qed
  then show "only_changes {} w w'" "r = Inr f \<Longrightarrow> name f = folder_path folder" by simp_all
qed

lemma resolve_target_ok:
  assumes "resolve_target K root relative folder w = (r, w')"
  shows "only_changes {} w w'" "r = Inr t \<Longrightarrow> beneath (name (ct_parent t)) (name root)
    \<and> ct_file_name t = file_part relative \<and> validate_relative relative = Inr ()"
proof -
  have "only_changes {} w w' \<and> (r = Inr t \<longrightarrow> beneath (name (ct_parent t)) (name root)
    \<and> ct_file_name t = file_part relative \<and> validate_relative relative = Inr ())"
  proof (cases "validate_relative relative")
    case (Inl e) with assms show ?thesis by (auto simp: resolve_target_def)
  next
    case (Inr u)
    obtain r1 w1 where p: "(if SLASH \<in> set relative
        then openat2 K root (butlast (dir_part relative)) DIR_FLAGS 0 RESOLVE_FLAGS w
        else (map_err Io (k_dup K root w), w)) = (r1, w1)" by force
    have "only_changes {} w w1 \<and> (\<forall>f. r1 = Inr f \<longrightarrow> beneath (name f) (name root))"
    proof (cases "SLASH \<in> set relative")
      case True
      with p openat2_dir(1,2) show ?thesis by (metis (mono_tags, lifting))
    next
      case False
      with p dup [of root w] show ?thesis by auto
    qed
    with assms Inr p show ?thesis
      by (cases r1) (auto simp: resolve_target_def Let_def split: if_splits)
  qed
  then show "only_changes {} w w'" "r = Inr t \<Longrightarrow> beneath (name (ct_parent t)) (name root)
    \<and> ct_file_name t = file_part relative \<and> validate_relative relative = Inr ()" by simp_all
qed

lemma inject_below_ok:
  assumes "inject_below K folder relative bytes selected w = Some (r, w')"
  shows "injected [folder] relative bytes (is_ok r) w w'"
proof -
  obtain r1 w1 where o1: "open_containment_root K folder w = (r1, w1)" by force
  note root = open_root_ok [OF o1]
  show ?thesis
  proof (cases r1)
    case (Inl e)
    with assms o1 have q: "r = Inl e" "w' = w1" by (simp_all add: inject_below_def)
    show ?thesis unfolding q is_ok_simps(2) [THEN eq_False [THEN iffD2]] by (rule injected_nothing [OF root(1)])
  next
    case r1: (Inr f)
    obtain r2 w2 where o2: "resolve_target K f relative folder w1 = (r2, w2)" by force
    note target = resolve_target_ok [OF o2]
    have pre: "only_changes {} w w2" using only_changes_trans' [OF root(1) target(1)] .
    show ?thesis
    proof (cases r2)
      case (Inl e)
      with assms o1 r1 o2 have q: "r = Inl e" "w' = w2" by (simp_all add: inject_below_def)
      show ?thesis unfolding q is_ok_simps(2) [THEN eq_False [THEN iffD2]] by (rule injected_nothing [OF pre])
    next
      case r2: (Inr t)
      let ?d = "name (ct_parent t)"
      obtain r3 where wf: "write_file_atomic K t bytes w2 = Some (r3, w')"
          and r: "r = res_bind r3 (\<lambda>_. Inr \<lparr>ir_path = ct_display_path t, ir_keys = selected\<rparr>)"
        using assms o1 r1 o2 r2 by (auto simp: inject_below_def)
      have ok: "is_ok r = is_ok r3" unfolding r by (cases r3) simp_all
      have t: "beneath ?d (folder_path folder)" "ct_file_name t = file_part relative"
        using target(2) [OF r2] root(2) [OF r1] by simp_all
      have ns: "SLASH \<notin> set (file_part relative)"
        by (auto simp: file_part_def dest: set_takeWhileD)
      have wr: "written ?d (file_part relative) bytes (is_ok r) w2 w'"
        using write_file_atomic_ok [OF wf] ns t(2) ok by simp
      then obtain n where n: "only_changes {child ?d n} w2 w'" by (auto simp: written_def split: if_splits)
      have "only_changes {child ?d n} w w'" using only_changes_empty [OF pre] n by blast
      then have "w_dir w' p \<noteq> w_dir w p \<Longrightarrow> p = child ?d n" for p by (auto simp: only_changes_def)
      moreover have "beneath (child ?d n) (folder_path folder)"
        using beneath_trans [OF beneath_child t(1)] .
      ultimately show ?thesis using wr t(1) by (auto simp: injected_def written_def)
    qed
  qed
qed

text \<open>A working directory is a descendant of a root.\<close>

lemma try_roots_ok:
  "try_roots K cwd roots w = (Inr f, w') \<Longrightarrow> \<exists>root\<in>set roots. beneath (name f) (folder_path root)"
proof (induction roots arbitrary: w)
  case (Cons root roots)
  then have rest: "try_roots K cwd roots v = (Inr f, w') \<Longrightarrow> ?case" for v by fastforce
  show ?case
  proof (cases "strip_prefix cwd root")
    case None with Cons.prems rest show ?thesis by simp
  next
    case (Some rel)
    obtain r1 w1 where o1: "open_containment_root K root w = (r1, w1)" by force
    show ?thesis
    proof (cases r1)
      case (Inl e)
      with Cons.prems Some o1 rest show ?thesis by (auto split: if_splits)
    next
      case r1: (Inr d)
      note d = open_root_ok(2) [OF o1 r1]
      consider (root) "rel = []" | (skip) "rel \<noteq> []" "is_absolute rel \<or> NUL \<in> set rel"
        | (opened) "rel \<noteq> []" "\<not> (is_absolute rel \<or> NUL \<in> set rel)" by blast
      then show ?thesis
      proof cases
        case root
        with Cons.prems Some o1 r1 d show ?thesis by simp
      next
        case skip
        with Cons.prems Some o1 r1 rest show ?thesis by simp
      next
        case opened
        obtain r2 w2 where o2: "openat2 K d rel DIR_FLAGS 0 RESOLVE_FLAGS w1 = (r2, w2)" by force
        with Cons.prems Some o1 r1 opened
        have c: "(case (r2, w2) of (Inr f, w2) \<Rightarrow> (Inr f, w2)
            | (Inl e, w2) \<Rightarrow> if is_operational_error e then (Inl e, w2) else try_roots K cwd roots w2) = (Inr f, w')"
          by simp
        show ?thesis
        proof (cases r2)
          case (Inl e) with c rest show ?thesis by (auto split: if_splits)
        next
          case (Inr g)
          with c openat2_dir(2) [OF o2] d show ?thesis by auto
        qed
      qed
    qed
  qed
qed simp

lemma inject_into_ok:
  "inject_into K folders relative bytes selected le w = Some (r, w') \<Longrightarrow>
    injected folders relative bytes (is_ok r) w w'"
proof (induction folders arbitrary: le w)
  case Nil
  then show ?case by (auto simp: injected_def)
next
  case (Cons folder folders)
  obtain r1 w1 where b: "inject_below K folder relative bytes selected w = Some (r1, w1)"
    using Cons.prems by (cases "inject_below K folder relative bytes selected w") auto
  note one = inject_below_ok [OF b]
  show ?case
  proof (cases r1)
    case (Inl e)
    with Cons.prems b have "inject_into K folders relative bytes selected (Some e) w1 = Some (r, w')" by simp
    from Cons.IH [OF this] one Inl show ?thesis
      unfolding injected_def by simp metis
  next
    case (Inr x)
    with Cons.prems b one show ?thesis by (auto simp: injected_def)
  qed
qed

end

section \<open>Termination\<close>

text \<open>The write loop ends when the kernel interrupts it only finitely often.\<close>

lemma write_all_returns:
  assumes "\<And>w f bs e w'. k_write K f bs w = (Inl e, w') \<Longrightarrow> errno e = Some EINTR \<Longrightarrow> left w' < left w"
    and "\<And>w f bs n w'. k_write K f bs w = (Inr n, w') \<Longrightarrow> left w' \<le> (left w :: nat)"
  shows "\<exists>r w'. write_all K f bytes w = Some (r, w')"
proof (induction "left w + length bytes" arbitrary: bytes w rule: less_induct)
  case less
  obtain r1 w1 where k: "k_write K f bytes w = (r1, w1)" by force
  show ?case
  proof (cases "bytes = []")
    case True then show ?thesis by (simp add: write_all.simps)
  next
    case ne: False
    show ?thesis
    proof (cases r1)
      case (Inl e)
      with less [of w1 bytes] assms(1) [OF k [unfolded Inl]] ne k show ?thesis
        by (cases "errno e = Some EINTR") (auto simp: write_all.simps [of K f bytes w])
    next
      case (Inr n)
      have "0 < length bytes" using ne by simp
      then have "n \<noteq> 0 \<Longrightarrow> left w1 + length (drop n bytes) < left w + length bytes"
        using assms(2) [OF k [unfolded Inr]] unfolding length_drop by linarith
      with less [of w1 "drop n bytes"] ne k Inr show ?thesis
        by (cases "n = 0") (auto simp: write_all.simps [of K f bytes w])
    qed
  qed
qed

section \<open>A kernel\<close>

text \<open>A kernel over the flat file map: a descriptor is the path name it denotes, directories are the
  paths the machine calls directories, a lookup takes plain components only, a write takes at most
  four bytes at a time.\<close>

definition plain_path :: "string \<Rightarrow> bool" where
  "plain_path p \<longleftrightarrow> list_all (\<lambda>c. c \<noteq> [] \<and> c \<noteq> ''.'' \<and> c \<noteq> ''..'') (split_on SLASH p)"

definition os_error :: "int \<Rightarrow> io_error" where
  "os_error n = Io_Error (Some n) ''os error''"

definition flat_open :: "string \<Rightarrow> string \<Rightarrow> nat \<Rightarrow> nat \<Rightarrow> nat \<Rightarrow> world \<Rightarrow> (io_error + string) \<times> world" where
  "flat_open d p flags mode resolve w =
     (let q = child d p in
      if flags = TEMP_FLAGS then
        (if w_dir w q = None then (Inr q, set_file q (Some []) w) else (Inl (os_error EEXIST), w))
      else if plain_path p \<and> w_is_dir w q then (Inr q, w) else (Inl (os_error 2), w))"

definition flat_write :: "string \<Rightarrow> string \<Rightarrow> world \<Rightarrow> (io_error + nat) \<times> world" where
  "flat_write f bytes w =
     (case (w_dir w f, fault_now w) of
        (Some old, None) \<Rightarrow>
          (Inr (min 4 (length bytes)), set_file f (Some (old @ take (min 4 (length bytes)) bytes)) (tick w))
      | _ \<Rightarrow> (Inl (os_error EIO), tick w))"

definition flat_rename :: "string \<Rightarrow> string \<Rightarrow> string \<Rightarrow> world \<Rightarrow> (io_error + unit) \<times> world" where
  "flat_rename d a b w =
     (if fault_now w = None
      then (Inr (), tick (set_file (child d b) (w_dir w (child d a)) (set_file (child d a) None w)))
      else (Inl (os_error EIO), tick w))"

definition flat_kernel :: "string kernel" where
  "flat_kernel =
     \<lparr>k_open_anchor = (\<lambda>w. Inr []), k_openat2 = flat_open, k_dup = (\<lambda>d w. Inr d),
      k_lstat = (\<lambda>d n w. if w_is_dir w (child d n) then Some Other_File
                          else map_option (\<lambda>_. Regular_File) (w_dir w (child d n))),
      k_fstat = (\<lambda>f w. map_option (\<lambda>_. Regular_File) (w_dir w f)), k_write = flat_write,
      k_fsync = (\<lambda>f w. (if fault_now w = None then Inr () else Inl (os_error EIO), tick w)),
      k_renameat = flat_rename, k_unlinkat = (\<lambda>d n w. set_file (child d n) None w)\<rparr>"

lemma flat_kernel_sel [simp]:
  "k_open_anchor flat_kernel w = Inr []" "k_openat2 flat_kernel = flat_open" "k_dup flat_kernel d w = Inr d"
  "k_write flat_kernel = flat_write" "k_renameat flat_kernel = flat_rename"
  "k_unlinkat flat_kernel d n w = set_file (child d n) None w"
  "k_fsync flat_kernel f w = (if fault_now w = None then Inr () else Inl (os_error EIO), tick w)"
  "k_lstat flat_kernel d n w = (if w_is_dir w (child d n) then Some Other_File
      else map_option (\<lambda>_. Regular_File) (w_dir w (child d n)))"
  "k_fstat flat_kernel f w = map_option (\<lambda>_. Regular_File) (w_dir w f)"
  by (simp_all add: flat_kernel_def)

lemma dir_not_temp: "DIR_FLAGS \<noteq> TEMP_FLAGS"
  by (simp add: DIR_FLAGS_def TEMP_FLAGS_def O_RDONLY_def O_WRONLY_def O_CREAT_def O_EXCL_def
      O_DIRECTORY_def O_CLOEXEC_def)

lemma only_changes_step [simp]:
  "only_changes X w (tick w') = only_changes X w w'"
  "p \<in> X \<Longrightarrow> only_changes X w w' \<Longrightarrow> only_changes X w (set_file p c w')"
  by (simp_all add: only_changes_def)

interpretation flat: contained_kernel flat_kernel id
proof (unfold_locales, goal_cases)
  case (4 d p m w f w')
  then show ?case by (auto simp: flat_open_def Let_def dir_not_temp split: if_splits)
next
  case (8 f bs w r' w')
  then show ?case by (auto simp: flat_write_def split: option.splits)
next
  case (10 f bs w n' w' old)
  then show ?case by (auto simp: flat_write_def split: option.splits)
next
  case (12 d n1 n2 w u w')
  then show ?case by (auto simp: flat_rename_def split: if_splits)
qed (auto simp: Let_def flat_open_def flat_rename_def flat_write_def dir_not_temp os_error_def errno_def EINTR_def EIO_def
    split: if_splits option.splits)

section \<open>A project with one folder\<close>

definition inj_doc :: vault_document where
  "inj_doc = toy_doc\<lparr>d_projects := [\<lparr>p_id = ''p'', p_name = ''P'', p_paths = [''/p''], p_created_at = 0\<rparr>]\<rparr>"

definition inj_world :: world where
  "inj_world = (calm_world [''/v'' \<mapsto> ''x''])\<lparr>w_is_dir := (\<lambda>p. p = ''/p'')\<rparr>"

lemma inj_entries: "\<exists>bytes. serialize [\<lparr>e_key = ''K'', e_value = ''v''\<rparr>] = Inr bytes"
  by (simp add: serialize_def valid_key_def MAX_KEY_LEN_def is_ascii_alphabetic_def Let_def utf8_decode_def is_control_def validate_value_def chars_def escape_value_def needs_quotes_def)

lemma inj_select: "select_entries inj_doc ''p'' None = Inr ([''K''], [\<lparr>e_key = ''K'', e_value = ''v''\<rparr>])"
  by (simp add: select_entries_def inj_doc_def toy_doc_def secret_entry_def valid_utf8_ascii)

lemma inj_root: "open_containment_root flat_kernel ''/p'' inj_world = (Inr ''/p'', inj_world)"
proof -
  have c: "canonical ''/p''"
    by (simp add: canonical_def is_absolute_def SLASH_def trivial_def)
  show ?thesis using strip_root [OF c]
    by (simp add: open_containment_root_def is_absolute_def SLASH_def valid_utf8_ascii openat2_def flat_open_def dir_not_temp Let_def
     inj_world_def calm_world_def child_def plain_path_def NUL_def)
qed

lemma inj_target: "resolve_target flat_kernel ''/p'' ''.env'' ''/p'' inj_world =
   (Inr \<lparr>ct_parent = ''/p'', ct_file_name = ''.env'', ct_display_path = ''/p/.env''\<rparr>, inj_world)"
proof -
  have "validate_relative ''.env'' = Inr ()"
    by (simp add: validate_relative_def MAX_PATH_LEN_def NUL_def is_absolute_def SLASH_def components_def
        leading_def body_def trivial_def component_of_def)
  then show ?thesis
    by (simp add: resolve_target_def NUL_def SLASH_def file_part_def path_join_def Let_def)
qed

lemma flat_write_all:
  "w_fault w = (\<lambda>_. None) \<Longrightarrow> w_dir w f = Some old \<Longrightarrow>
    \<exists>w'. write_all flat_kernel f bytes w = Some (Inr (), w') \<and> w_fault w' = (\<lambda>_. None)"
proof (induction "length bytes" arbitrary: bytes w old rule: less_induct)
  case less
  show ?case
  proof (cases "bytes = []")
    case True
    with less.prems show ?thesis by (simp add: write_all.simps)
  next
    case False
    let ?n = "min 4 (length bytes)"
    let ?w = "set_file f (Some (old @ take ?n bytes)) (tick w)"
    have "\<exists>w'. write_all flat_kernel f (drop ?n bytes) ?w = Some (Inr (), w') \<and> w_fault w' = (\<lambda>_. None)"
      using less.prems False by (intro less.hyps [where old = "old @ take ?n bytes"]) auto
    with less.prems False show ?thesis
      by (simp add: write_all.simps [of _ f bytes w] flat_write_def fault_now_def)
  qed
qed

lemma inj_write: "\<exists>w'. write_file_atomic flat_kernel \<lparr>ct_parent = ''/p'', ct_file_name = ''.env'', ct_display_path = ''/p/.env''\<rparr>
    bytes inj_world = Some (Inr (), w')"
proof -
  let ?t = "\<lparr>ct_parent = ''/p'', ct_file_name = ''.env'', ct_display_path = ''/p/.env''\<rparr>"
  obtain tag w1 where tag: "random_bytes 8 inj_world = (Inr tag, w1)"
    by (simp add: random_bytes_def inj_world_def calm_world_def)
  have w1: "w_dir w1 = [''/v'' \<mapsto> ''x'']" "w_fault w1 = (\<lambda>_. None)"
    using random_bytes_frame [OF tag] by (simp_all add: inj_world_def calm_world_def same_env_def)
  obtain tmp where tmp: "tmp = ''.'' @ ''.env'' @ ''.tmp.'' @ hex tag" by blast
  have nul: "NUL \<notin> set (hex tag)" 
    using hex_plain_nul .
  have "openat2 flat_kernel ''/p'' tmp TEMP_FLAGS 384 RESOLVE_FLAGS w1
    = (Inr (child ''/p'' tmp), set_file (child ''/p'' tmp) (Some []) w1)"
    using nul by (simp add: openat2_def flat_open_def w1 tmp child_def NUL_def Let_def)
  then have ct: "create_temp flat_kernel (Suc 4) ''/p'' ''.env'' inj_world
      = (Inr (child ''/p'' tmp, tmp), set_file (child ''/p'' tmp) (Some []) w1)"
    unfolding create_temp.simps tag try_bind_simps Let_def tmp [symmetric] by simp
  let ?w = "set_file (child ''/p'' tmp) (Some []) w1"
  obtain w2 where w2: "write_all flat_kernel (child ''/p'' tmp) bytes ?w = Some (Inr (), w2)"
      "w_fault w2 = (\<lambda>_. None)"
    using flat_write_all [of ?w "child ''/p'' tmp" "[]" bytes] w1 by auto
  have "\<exists>w'. publish_at flat_kernel ?t bytes (child ''/p'' tmp) tmp ?w = Some (Inr (), w')"
    by (simp add: publish_at_def Let_def w2 fault_now_def flat_rename_def)
  moreover have "k_lstat flat_kernel ''/p'' ''.env'' inj_world = None"
    by (simp add: child_def inj_world_def calm_world_def SLASH_def)
  ultimately show ?thesis using ct
    by (simp add: write_file_atomic_def NUL_def)
qed

lemma inj_done: "\<exists>rep w'. do_inject_file flat_kernel inj_doc ''P'' ''.env'' None inj_world = Some (Inr rep, w')"
proof -
  obtain bytes where b: "serialize [\<lparr>e_key = ''K'', e_value = ''v''\<rparr>] = Inr bytes" using inj_entries by blast
  obtain w' where w: "write_file_atomic flat_kernel \<lparr>ct_parent = ''/p'', ct_file_name = ''.env'', ct_display_path = ''/p/.env''\<rparr>
    bytes inj_world = Some (Inr (), w')" using inj_write by blast
  have "inject_below flat_kernel ''/p'' ''.env'' bytes [''K''] inj_world
      = Some (Inr \<lparr>ir_path = ''/p/.env'', ir_keys = [''K'']\<rparr>, w')"
    by (simp add: inject_below_def inj_root inj_target w)
  moreover have "project_by_name inj_doc ''P'' = Some \<lparr>p_id = ''p'', p_name = ''P'', p_paths = [''/p''], p_created_at = 0\<rparr>"
    by (simp add: project_by_name_def inj_doc_def)
  ultimately show ?thesis by (simp add: do_inject_file_def inj_select b)
qed

section \<open>Properties\<close>

text \<open>A destination is accepted exactly when it is a non-empty relative path of bounded length
  without a NUL, without a \<open>..\<close> segment, and whose first segment is not \<open>.\<close>; inner \<open>.\<close> segments and
  empty segments pass, because the path is read as its components.\<close>

theorem validate_relative_iff:
  "validate_relative r = Inr () \<longleftrightarrow>
    r \<noteq> [] \<and> length r \<le> MAX_PATH_LEN \<and> NUL \<notin> set r \<and> hd r \<noteq> SLASH
    \<and> ''..'' \<notin> set (split_on SLASH r) \<and> hd (split_on SLASH r) \<noteq> ''.''"
proof -
  have normal: "list_all (\<lambda>c. case c of Normal _ \<Rightarrow> True | _ \<Rightarrow> False)
      (map component_of (filter (\<lambda>s. \<not> trivial s) segs)) \<longleftrightarrow> ''..'' \<notin> set segs" for segs
    by (induction segs) (auto simp: component_of_def trivial_def)
  show ?thesis
    using normal [of "split_on SLASH r"]
    by (auto simp: validate_relative_def is_absolute_def components_def leading_def body_def)
qed


lemma validate_relative_inner_dots: "validate_relative ''a//./b'' = Inr ()"
  by (simp add: validate_relative_def MAX_PATH_LEN_def NUL_def is_absolute_def SLASH_def components_def
      leading_def body_def trivial_def component_of_def)

text \<open>C6: an injection is contained: whatever it is asked to write, whether it succeeds or fails and
  at whichever system call, the only files that differ afterwards lie below an authorized folder of
  the named project; when it succeeds, a file with the requested name below such a folder holds
  exactly the serialised entries of the selected keys.\<close>

theorem inject_contained:
  assumes "contained_kernel K name" and "do_inject_file K doc project relative keys w = Some (r, w')"
  shows "(\<forall>p. w_dir w' p \<noteq> w_dir w p \<longrightarrow>
      (\<exists>prj folder. project_by_name doc project = Some prj \<and> folder \<in> set (p_paths prj)
        \<and> beneath p (folder_path folder)))
    \<and> (is_ok r \<longrightarrow> (\<exists>prj selected entries bytes folder d.
        project_by_name doc project = Some prj \<and> select_entries doc (p_id prj) keys = Inr (selected, entries)
        \<and> serialize entries = Inr bytes \<and> folder \<in> set (p_paths prj) \<and> beneath d (folder_path folder)
        \<and> w_dir w' (child d (file_part relative)) = Some bytes))"
proof (cases "\<exists>prj selected entries bytes. project_by_name doc project = Some prj
    \<and> select_entries doc (p_id prj) keys = Inr (selected, entries) \<and> serialize entries = Inr bytes
    \<and> inject_into K (p_paths prj) relative bytes selected None w = Some (r, w')")
  case True
  then obtain prj selected entries bytes where p: "project_by_name doc project = Some prj"
      "select_entries doc (p_id prj) keys = Inr (selected, entries)" "serialize entries = Inr bytes"
      "inject_into K (p_paths prj) relative bytes selected None w = Some (r, w')" by blast
  from contained_kernel.inject_into_ok [OF assms(1) p(4)] p(1-3) show ?thesis
    by (fastforce simp: injected_def)
next
  case False
  with assms(2) have "w' = w" "\<not> is_ok r"
    by (auto simp: do_inject_file_def split: option.splits if_splits sum.splits prod.splits)
  then show ?thesis by simp
qed

theorem inject_contained_witness:
  "\<exists>rep w' d. do_inject_file flat_kernel inj_doc ''P'' ''.env'' None inj_world = Some (Inr rep, w')
    \<and> beneath d ''/p'' \<and> (\<exists>bytes. serialize [\<lparr>e_key = ''K'', e_value = ''v''\<rparr>] = Inr bytes
      \<and> w_dir w' (child d ''.env'') = Some bytes)"
proof -
  have fp: "folder_path ''/p'' = ''/p''"
    by (rule folder_path_canonical) (simp add: canonical_def is_absolute_def SLASH_def trivial_def)
  obtain rep w' where r: "do_inject_file flat_kernel inj_doc ''P'' ''.env'' None inj_world = Some (Inr rep, w')"
    using inj_done by blast
  have p: "project_by_name inj_doc ''P'' = Some \<lparr>p_id = ''p'', p_name = ''P'', p_paths = [''/p''], p_created_at = 0\<rparr>"
    by (simp add: project_by_name_def inj_doc_def)
  have "\<exists>d. beneath d ''/p'' \<and> (\<exists>bytes. serialize [\<lparr>e_key = ''K'', e_value = ''v''\<rparr>] = Inr bytes
      \<and> w_dir w' (child d ''.env'') = Some bytes)"
    using conjunct2 [OF inject_contained [OF flat.contained_kernel_axioms r]]
    by (auto simp: p inj_select fp file_part_def SLASH_def)
  with r show ?thesis by blast
qed

text \<open>C18: an injection always returns: when the kernel interrupts writes only finitely often (a number
  that every interruption decreases and no write increases), the loop that writes the file ends,
  with all bytes written or with the error that stopped it.\<close>

theorem inject_returns:
  assumes "\<And>w f bs e w'. k_write K f bs w = (Inl e, w') \<Longrightarrow> errno e = Some EINTR \<Longrightarrow> left w' < (left w :: nat)"
    and "\<And>w f bs n w'. k_write K f bs w = (Inr n, w') \<Longrightarrow> left w' \<le> left w"
  shows "\<exists>r w'. do_inject_file K doc project relative keys w = Some (r, w')"
proof -
  have wf: "\<exists>r w'. write_file_atomic K t bytes w = Some (r, w')" for t bytes w
  proof -
    have wr: "\<exists>r w'. write_all K f bytes v = Some (r, w')" for f v
      by (rule write_all_returns [of K left, OF assms])
    have "\<exists>x. publish_at K t bytes f tmp v = Some x" for f tmp v
    proof -
      obtain r1 v1 where "write_all K f bytes v = Some (r1, v1)" using wr by blast
      then show ?thesis by (simp add: publish_at_def Let_def)
    qed
    then have "\<exists>x. write_file_atomic K t bytes w = Some x"
      by (auto simp: write_file_atomic_def split: sum.split prod.split)
    then show ?thesis by auto
  qed
  have below: "\<exists>x. inject_below K folder relative bytes selected w = Some x" for folder bytes selected w
    using wf by (fastforce simp: inject_below_def split: prod.split sum.split)
  have into: "\<exists>x. inject_into K folders relative bytes selected le w = Some x" for folders bytes selected le w
  proof (induction folders arbitrary: le w)
    case (Cons folder folders)
    obtain r1 w1 where "inject_below K folder relative bytes selected w = Some (r1, w1)"
      using below [of folder bytes selected w] by auto
    with Cons.IH show ?case by (cases r1) auto
  qed simp
  have "\<exists>x. do_inject_file K doc project relative keys w = Some x"
    using into by (auto simp: do_inject_file_def split: option.split sum.split prod.split)
  then show ?thesis by auto
qed

theorem inject_returns_witness:
  "\<exists>r w'. do_inject_file flat_kernel inj_doc ''P'' ''.env'' None inj_world = Some (r, w')"
  by (rule inject_returns [of flat_kernel "\<lambda>_. 0"]) (auto simp: flat_write_def os_error_def errno_def EINTR_def EIO_def split: option.splits)

text \<open>The working directory of a managed run is pinned below one of the project's authorized
  folders, or the request is refused.\<close>

theorem cwd_authorized:
  assumes "contained_kernel K name" and "open_authorized_cwd K cwd roots w = (Inr f, w')"
  shows "\<exists>root\<in>set roots. beneath (name f) (folder_path root)"
  using assms(2) contained_kernel.try_roots_ok [OF assms(1), of cwd roots w f w']
  by (auto simp: open_authorized_cwd_def split: if_splits)

theorem cwd_authorized_witness:
  "beneath ''/p'' (folder_path ''/p'') \<and> open_authorized_cwd flat_kernel ''/p'' [''/p''] inj_world = (Inr ''/p'', inj_world)"
proof -
  have c: "open_authorized_cwd flat_kernel ''/p'' [''/p''] inj_world = (Inr ''/p'', inj_world)"
    by (simp add: open_authorized_cwd_def is_absolute_def SLASH_def MAX_PATH_LEN_def valid_utf8_ascii NUL_def
        components_def leading_def body_def component_of_def trivial_def strip_prefix_def trim_trivial_def inj_root)
  from cwd_authorized [OF flat.contained_kernel_axioms this] c show ?thesis by simp
qed

text \<open>The folder \<open>/\<close> itself can never be opened: its relative form is the empty text, whose only
  segment is empty.\<close>

lemma root_folder_refused:
  "k_open_anchor K w = Inr a \<Longrightarrow> open_containment_root K [SLASH] w =
     (Inl (InvalidInput ''authorized folder is not a plain relative descendant path''), w)"
  by (simp add: open_containment_root_def is_absolute_def strip_prefix_def components_def leading_def
      body_def trivial_def trim_trivial_def)

end
