(* ===== verification/Json.thy ===== *)
theory Json
  imports Errors Rust_Std
begin

text \<open>
  \<open>serde_json::Value\<close> as far as the broker reads and builds it. An integer literal that fits 64
  bits is \<open>JInt\<close>; any other number is a float, of which only the text is kept. An object is an
  association list with distinct keys in key order, as the default \<open>serde_json::Map\<close> iterates.
\<close>

datatype json =
    JNull
  | JBool bool
  | JInt int
  | JFloat string
  | JStr string
  | JArr "json list"
  | JObj "(string \<times> json) list"

text \<open>\<open>Value::get\<close> on an object; everything else has no members.\<close>

fun get_member :: "json \<Rightarrow> string \<Rightarrow> json option" where
  "get_member (JObj kvs) k = map_of kvs k"
| "get_member _ k = None"

text \<open>\<open>value[k]\<close>: a missing member reads as null.\<close>

definition index_member :: "json \<Rightarrow> string \<Rightarrow> json" where
  "index_member v k = (case get_member v k of None \<Rightarrow> JNull | Some x \<Rightarrow> x)"

fun as_str :: "json \<Rightarrow> string option" where
  "as_str (JStr s) = Some s"
| "as_str _ = None"

fun as_u64 :: "json \<Rightarrow> nat option" where
  "as_u64 (JInt i) = (if 0 \<le> i \<and> i < 2 ^ 64 then Some (nat i) else None)"
| "as_u64 _ = None"

fun as_array :: "json \<Rightarrow> json list option" where
  "as_array (JArr xs) = Some xs"
| "as_array _ = None"

fun as_object :: "json \<Rightarrow> (string \<times> json) list option" where
  "as_object (JObj kvs) = Some kvs"
| "as_object _ = None"

definition is_null :: "json \<Rightarrow> bool" where
  "is_null v \<longleftrightarrow> v = JNull"

definition str_param :: "json \<Rightarrow> string \<Rightarrow> string option" where
  "str_param v k = as_str (index_member v k)"

text \<open>The \<open>json!\<close> macro: the members end up in key order.\<close>

definition jobj :: "(string \<times> json) list \<Rightarrow> json" where
  "jobj kvs = JObj (sort_key fst kvs)"

definition jnat :: "nat \<Rightarrow> json" where
  "jnat n = JInt (int n)"

definition jstrs :: "string list \<Rightarrow> json" where
  "jstrs ss = JArr (map JStr ss)"

definition jopt :: "('a \<Rightarrow> json) \<Rightarrow> 'a option \<Rightarrow> json" where
  "jopt f x = (case x of None \<Rightarrow> JNull | Some y \<Rightarrow> f y)"

lemma index_member_JObj [simp]: "index_member (JObj kvs) k = (case map_of kvs k of None \<Rightarrow> JNull | Some x \<Rightarrow> x)"
  by (simp add: index_member_def)

lemma str_param_present: "str_param v k = Some s \<longleftrightarrow> get_member v k = Some (JStr s)"
  by (cases "get_member v k") (auto simp: str_param_def index_member_def elim: as_str.elims)

end
