(* ===== verification/Wire.thy ===== *)
theory Wire
  imports Json
begin

text \<open>
  \<open>src/wire.rs\<close>: requests, responses and the bounded line framing. The byte stream is the list of
  chunks the buffered reader hands out; the JSON codec of requests and responses is a parameter.
\<close>

definition WIRE_VERSION :: nat where "WIRE_VERSION = 1"
definition MAX_MESSAGE_LEN :: nat where "MAX_MESSAGE_LEN = 1024 * 1024"

record auth_field =
  au_token :: "string option"
  au_passphrase :: "string option"
  au_session :: "string option"

record request =
  rq_v :: nat
  rq_id :: string
  rq_op :: string
  rq_auth :: "auth_field option"
  rq_params :: json

record wire_error =
  we_code :: string
  we_msg :: string
  we_data :: "json option"

record response =
  rs_v :: nat
  rs_id :: string
  rs_ok :: bool
  rs_result :: "json option"
  rs_error :: "wire_error option"

definition response_ok :: "string \<Rightarrow> json \<Rightarrow> response" where
  "response_ok i result = \<lparr>rs_v = WIRE_VERSION, rs_id = i, rs_ok = True, rs_result = Some result, rs_error = None\<rparr>"

definition response_err :: "string \<Rightarrow> string \<Rightarrow> string \<Rightarrow> response" where
  "response_err i c msg =
     \<lparr>rs_v = WIRE_VERSION, rs_id = i, rs_ok = False, rs_result = None,
      rs_error = Some \<lparr>we_code = c, we_msg = msg, we_data = None\<rparr>\<rparr>"

definition response_err_data :: "string \<Rightarrow> string \<Rightarrow> string \<Rightarrow> json \<Rightarrow> response" where
  "response_err_data i c msg data =
     \<lparr>rs_v = WIRE_VERSION, rs_id = i, rs_ok = False, rs_result = None,
      rs_error = Some \<lparr>we_code = c, we_msg = msg, we_data = Some data\<rparr>\<rparr>"

text \<open>The pattern \<open>map_err(|e| Response::err(id, e.code(), e.to_string()))\<close>.\<close>

definition response_of_error :: "string \<Rightarrow> vault_error \<Rightarrow> response" where
  "response_of_error i e = response_err i (code e) (display_error e)"

section \<open>Framing\<close>

text \<open>What the reads of a stream give: \<open>fill_buf\<close> fails, or returns the next non-empty chunk, or nothing
  at the end. The result carries what is left to read; a chunk is consumed up to and including the first
  line break.\<close>

type_synonym stream = "(io_error + string) list"

fun read_line_bounded :: "string \<Rightarrow> stream \<Rightarrow> string res \<times> stream" where
  "read_line_bounded buf [] =
     (Inl (if buf = [] then Protocol ''connection closed'' else Protocol ''unterminated message''), [])"
| "read_line_bounded buf (Inl e # rest) = (Inl (Io e), rest)"
| "read_line_bounded buf (Inr chunk # rest) =
     (if chunk = [] then read_line_bounded buf rest
      else if NL \<in> set chunk then
        (let buf' = buf @ takeWhile (\<lambda>c. c \<noteq> NL) chunk;
             rest' = Inr (List.tl (dropWhile (\<lambda>c. c \<noteq> NL) chunk)) # rest
         in if length buf' > MAX_MESSAGE_LEN then (Inl TooLarge, rest') else (Inr buf', rest'))
      else if length (buf @ chunk) > MAX_MESSAGE_LEN then (Inl TooLarge, rest)
      else read_line_bounded (buf @ chunk) rest)"

record wire_lib =
  req_de :: "string \<Rightarrow> request option"
  req_ser :: "request \<Rightarrow> string"
  resp_de :: "string \<Rightarrow> response option"
  resp_ser :: "response \<Rightarrow> string"

definition read_request :: "('w) wire_lib_scheme \<Rightarrow> stream \<Rightarrow> request res \<times> stream" where
  "read_request W stream =
     try_bind (read_line_bounded [] stream) (\<lambda>buf rest.
       case req_de W buf of
         None \<Rightarrow> (Inl (Protocol ''invalid request''), rest)
       | Some req \<Rightarrow>
           if rq_v req \<noteq> WIRE_VERSION then (Inl (Protocol ''unsupported protocol version''), rest)
           else (Inr req, rest))"

definition read_response :: "('w) wire_lib_scheme \<Rightarrow> stream \<Rightarrow> response res \<times> stream" where
  "read_response W stream =
     try_bind (read_line_bounded [] stream) (\<lambda>buf rest.
       case resp_de W buf of
         None \<Rightarrow> (Inl (Protocol ''invalid response''), rest)
       | Some resp \<Rightarrow>
           if rs_v resp \<noteq> WIRE_VERSION then (Inl (Protocol ''unsupported protocol version''), rest)
           else (Inr resp, rest))"

definition write_response :: "('w) wire_lib_scheme \<Rightarrow> response \<Rightarrow> string" where
  "write_response W resp = resp_ser W resp @ [NL]"

section \<open>Framing is independent of the chunks\<close>

text \<open>What a reader sees of the whole byte stream: the first line, or the reason it has none.\<close>

definition first_line :: "string \<Rightarrow> string res" where
  "first_line s =
     (let l = takeWhile (\<lambda>c. c \<noteq> NL) s in
      if length l > MAX_MESSAGE_LEN then Inl TooLarge
      else if NL \<in> set s then Inr l
      else if s = [] then Inl (Protocol ''connection closed'') else Inl (Protocol ''unterminated message''))"

lemma takeWhile_no_NL: "NL \<notin> set xs \<Longrightarrow> takeWhile (\<lambda>c. c \<noteq> NL) (xs @ ys) = xs @ takeWhile (\<lambda>c. c \<noteq> NL) ys"
  by (rule takeWhile_append2) auto

lemma read_line_bounded_first_line:
  "NL \<notin> set buf \<Longrightarrow> length buf \<le> MAX_MESSAGE_LEN \<Longrightarrow>
    fst (read_line_bounded buf (map Inr chunks)) = first_line (buf @ concat chunks)"
proof (induction chunks arbitrary: buf)
  case Nil
  have tw: "takeWhile (\<lambda>c. c \<noteq> NL) buf = buf" using Nil(1) by (auto simp: takeWhile_eq_all_conv)
  show ?case
    unfolding list.map read_line_bounded.simps first_line_def Let_def concat.simps append_Nil2 tw using Nil by simp
next
  case (Cons chunk rest)
  consider (empty) "chunk = []" | (line) "chunk \<noteq> []" "NL \<in> set chunk"
    | (long) "chunk \<noteq> []" "NL \<notin> set chunk" "length (buf @ chunk) > MAX_MESSAGE_LEN"
    | (more) "chunk \<noteq> []" "NL \<notin> set chunk" "length (buf @ chunk) \<le> MAX_MESSAGE_LEN" by linarith
  then show ?case
  proof cases
    case empty
    with Cons show ?thesis by simp
  next
    case line
    have "takeWhile (\<lambda>c. c \<noteq> NL) (buf @ concat (chunk # rest)) = buf @ takeWhile (\<lambda>c. c \<noteq> NL) chunk"
      using Cons(2) line(2) takeWhile_append1 [of NL chunk "\<lambda>c. c \<noteq> NL"] by (simp add: takeWhile_no_NL)
    with line show ?thesis by (simp add: first_line_def Let_def)
  next
    case long
    have "NL \<notin> set (buf @ chunk)" using Cons(2) long by simp
    from takeWhile_no_NL [OF this, of "concat rest"] long show ?thesis
      by (simp add: first_line_def)
  next
    case more
    with Cons show ?thesis by simp
  qed
qed

text \<open>a request is read the same way however the socket splits the bytes: the result depends on the
  concatenation of the chunks only, namely on its first line, which is refused when it is longer
  than the message limit, unterminated or missing.\<close>

theorem framing_chunk_independent:
  "fst (read_request W (map Inr chunks)) =
    res_bind (first_line (concat chunks)) (\<lambda>line.
      case req_de W line of
        None \<Rightarrow> Inl (Protocol ''invalid request'')
      | Some req \<Rightarrow> if rq_v req \<noteq> WIRE_VERSION then Inl (Protocol ''unsupported protocol version'') else Inr req)"
  using read_line_bounded_first_line [of "[]" chunks]
  by (cases "read_line_bounded [] (map Inr chunks)"; cases "fst (read_line_bounded [] (map Inr chunks))")
    (auto simp: read_request_def split: option.split)

text \<open>A response that the writer emits is read back unchanged, whatever follows it on the stream
  and however it is split, when the JSON codec inverts its own single-line output.\<close>

theorem response_round_trip:
  assumes "resp_de W (resp_ser W r) = Some r" and "NL \<notin> set (resp_ser W r)"
    and "length (resp_ser W r) \<le> MAX_MESSAGE_LEN" and "rs_v r = WIRE_VERSION"
    and "concat chunks = write_response W r @ rest"
  shows "fst (read_response W (map Inr chunks)) = Inr r"
proof -
  have "takeWhile (\<lambda>c. c \<noteq> NL) (resp_ser W r @ NL # rest) = resp_ser W r"
    using takeWhile_no_NL [OF assms(2), of "NL # rest"] by simp
  with assms(3,5) have "first_line (concat chunks) = Inr (resp_ser W r)"
    by (simp add: first_line_def write_response_def)
  then have "fst (read_line_bounded [] (map Inr chunks)) = Inr (resp_ser W r)"
    using read_line_bounded_first_line [of "[]" chunks] by simp
  with assms(1,4) show ?thesis
    by (cases "read_line_bounded [] (map Inr chunks)") (simp add: read_response_def)
qed

definition toy_wire :: wire_lib where
  "toy_wire =
     \<lparr>req_de = (\<lambda>_. None), req_ser = (\<lambda>_. []),
      resp_de = (\<lambda>s. Some (response_ok s JNull)), resp_ser = rs_id\<rparr>"

theorem response_round_trip_witness:
  "fst (read_response toy_wire (map Inr [''a'', [], ''b'' @ [NL] @ ''c'', ''d''])) = Inr (response_ok ''ab'' JNull)"
  by (rule response_round_trip [where rest = "''cd''"])
    (simp_all add: toy_wire_def response_ok_def write_response_def NL_def MAX_MESSAGE_LEN_def)

end
