(* ===== verification/Runs.thy ===== *)
theory Runs
  imports Json Model
begin

text \<open>
  \<open>src/run.rs\<close>: the parameters of a managed run, the environment the child gets, exit and signal
  names, and the registry of live runs with its quotas and reservations. Spawning and killing are
  system calls; what the code decides around them is here.
\<close>

definition MAX_EXECUTABLE_BYTES :: nat where "MAX_EXECUTABLE_BYTES = 4096"
definition MAX_ARGV_ENTRIES :: nat where "MAX_ARGV_ENTRIES = 256"
definition MAX_ARGV_BYTES :: nat where "MAX_ARGV_BYTES = 128 * 1024"
definition MAX_KEYS :: nat where "MAX_KEYS = 256"
definition MAX_ENV_ENTRIES :: nat where "MAX_ENV_ENTRIES = 256"
definition MAX_ENV_BYTES :: nat where "MAX_ENV_BYTES = 128 * 1024"
definition MAX_CHILD_ENV_BYTES :: nat where "MAX_CHILD_ENV_BYTES = 1024 * 1024"
definition MAX_RUNS_PER_AGENT :: nat where "MAX_RUNS_PER_AGENT = 4"
definition MAX_RUNS_TOTAL :: nat where "MAX_RUNS_TOTAL = 16"
definition MAX_DURATION_SECS :: nat where "MAX_DURATION_SECS = 24 * 3600"

definition ALLOWED_ENV :: "string list" where
  "ALLOWED_ENV =
     [''PATH'', ''HOME'', ''TERM'', ''LANG'', ''LC_ALL'', ''LC_CTYPE'', ''TMPDIR'', ''SHELL'', ''USER'',
      ''XDG_RUNTIME_DIR'', ''XDG_CONFIG_HOME'', ''XDG_DATA_HOME'', ''XDG_CACHE_HOME'']"

record run_params =
  rp_project :: string
  rp_executable :: string
  rp_argv :: "string list"
  rp_cwd :: "string option"
  rp_keys :: "string list option"
  rp_env :: "(string \<times> string) list"
  rp_timeout_secs :: "nat option"

section \<open>Names\<close>

definition ascii_upper :: "char \<Rightarrow> char" where
  "ascii_upper c = (let n = of_char c :: nat in if 97 \<le> n \<and> n \<le> 122 then char_of (n - 32) else c)"

definition to_ascii_uppercase :: "string \<Rightarrow> string" where
  "to_ascii_uppercase s = map ascii_upper s"

definition begins_with :: "string \<Rightarrow> string \<Rightarrow> bool" where
  "begins_with s p \<longleftrightarrow> take (length p) s = p"

fun contains_text :: "string \<Rightarrow> string \<Rightarrow> bool" where
  "contains_text [] p = (p = [])"
| "contains_text (c # s) p = (begins_with (c # s) p \<or> contains_text s p)"

definition is_forbidden_env_name :: "string \<Rightarrow> bool" where
  "is_forbidden_env_name name =
     (let upper = to_ascii_uppercase name in
      name = ''SVAULT_TOKEN'' \<or> begins_with upper ''SVAULT_'' \<or> contains_text upper ''TOKEN''
      \<or> contains_text upper ''PASSPHRASE'' \<or> contains_text upper ''INTERNAL''
      \<or> begins_with upper ''LD_'' \<or> begins_with upper ''DYLD_'')"

definition has_nul :: "string \<Rightarrow> bool" where
  "has_nul s \<longleftrightarrow> CHR 0x00 \<in> set s"

section \<open>Parameters\<close>

text \<open>The loop over \<open>argv\<close>; \<open>used\<close> is the number of bytes so far.\<close>

fun parse_argv :: "nat \<Rightarrow> json list \<Rightarrow> string list res" where
  "parse_argv used [] = Inr []"
| "parse_argv used (item # items) =
     (case as_str item of
        None \<Rightarrow> Inl (InvalidInput ''argv must be strings'')
      | Some s \<Rightarrow>
          if has_nul s then Inl (InvalidInput ''invalid argv value'')
          else if used + length s > MAX_ARGV_BYTES then Inl TooLarge
          else res_bind (parse_argv (used + length s) items) (\<lambda>r. Inr (s # r)))"

fun parse_key_items :: "json list \<Rightarrow> string list res" where
  "parse_key_items [] = Inr []"
| "parse_key_items (item # items) =
     (case as_str item of
        None \<Rightarrow> Inl (InvalidInput ''keys must be strings'')
      | Some s \<Rightarrow>
          if \<not> valid_key s then Inl (InvalidInput ''invalid key'')
          else res_bind (parse_key_items items) (\<lambda>r. Inr (s # r)))"

fun parse_env_items :: "nat \<Rightarrow> (string \<times> json) list \<Rightarrow> (string \<times> string) list res" where
  "parse_env_items used [] = Inr []"
| "parse_env_items used ((k, v) # items) =
     (case as_str v of
        None \<Rightarrow> Inl (InvalidInput ''env values must be strings'')
      | Some vs \<Rightarrow>
          if k = [] \<or> has_nul k \<or> has_nul vs then Inl (InvalidInput ''invalid env entry'')
          else if used + (length k + length vs) > MAX_ENV_BYTES then Inl TooLarge
          else res_bind (parse_env_items (used + (length k + length vs)) items) (\<lambda>r. Inr ((k, vs) # r)))"

definition parse_cwd :: "json option \<Rightarrow> string option res" where
  "parse_cwd v =
     (case v of
        None \<Rightarrow> Inr None
      | Some JNull \<Rightarrow> Inr None
      | Some x \<Rightarrow>
          (case as_str x of
             None \<Rightarrow> Inl (InvalidInput ''cwd must be a string'')
           | Some s \<Rightarrow> if s = [] \<or> has_nul s then Inl (InvalidInput ''invalid cwd'') else Inr (Some s)))"

definition parse_run_keys :: "json option \<Rightarrow> string list option res" where
  "parse_run_keys v =
     (case v of
        None \<Rightarrow> Inr None
      | Some JNull \<Rightarrow> Inr None
      | Some x \<Rightarrow>
          (case as_array x of
             None \<Rightarrow> Inl (InvalidInput ''keys must be an array'')
           | Some arr \<Rightarrow>
               if length arr > MAX_KEYS then Inl (InvalidInput ''too many keys'')
               else res_bind (parse_key_items arr) (\<lambda>ks. Inr (Some ks))))"

definition parse_run_env :: "json option \<Rightarrow> (string \<times> string) list res" where
  "parse_run_env v =
     (case v of
        None \<Rightarrow> Inr []
      | Some JNull \<Rightarrow> Inr []
      | Some x \<Rightarrow>
          (case as_object x of
             None \<Rightarrow> Inl (InvalidInput ''env must be an object'')
           | Some kvs \<Rightarrow>
               if length kvs > MAX_ENV_ENTRIES then Inl (InvalidInput ''too many env entries'')
               else parse_env_items 0 kvs))"

definition parse_timeout :: "json option \<Rightarrow> nat option res" where
  "parse_timeout v =
     (case v of
        None \<Rightarrow> Inr None
      | Some JNull \<Rightarrow> Inr None
      | Some x \<Rightarrow>
          (case as_u64 x of
             None \<Rightarrow> Inl (InvalidInput ''invalid timeout_secs'')
           | Some t \<Rightarrow> if t = 0 \<or> t > MAX_DURATION_SECS then Inl (InvalidInput ''invalid timeout_secs'')
                       else Inr (Some t)))"

definition parse_run_params :: "json \<Rightarrow> run_params res" where
  "parse_run_params params =
     res_bind (ok_or (InvalidInput ''params must be an object'') (as_object params)) (\<lambda>obj.
       let get_str = (\<lambda>k. case map_of obj k of None \<Rightarrow> None | Some v \<Rightarrow> as_str v) in
       res_bind (ok_or (InvalidInput ''missing project'') (get_str ''project'')) (\<lambda>project.
       if \<not> valid_project_name project then Inl (InvalidInput ''invalid project'') else
       res_bind (ok_or (InvalidInput ''missing executable'') (get_str ''executable'')) (\<lambda>executable.
       if executable = [] \<or> length executable > MAX_EXECUTABLE_BYTES \<or> has_nul executable
       then Inl (InvalidInput ''invalid executable'') else
       res_bind (ok_or (InvalidInput ''missing argv'') (map_of obj ''argv'')) (\<lambda>argv_val.
       res_bind (ok_or (InvalidInput ''argv must be an array'') (as_array argv_val)) (\<lambda>argv_arr.
       if argv_arr = [] \<or> length argv_arr > MAX_ARGV_ENTRIES then Inl (InvalidInput ''invalid argv count'') else
       res_bind (parse_argv 0 argv_arr) (\<lambda>argv.
       res_bind (parse_cwd (map_of obj ''cwd'')) (\<lambda>cwd.
       res_bind (parse_run_keys (map_of obj ''keys'')) (\<lambda>keys.
       res_bind (parse_run_env (map_of obj ''env'')) (\<lambda>env.
       res_bind (parse_timeout (map_of obj ''timeout_secs'')) (\<lambda>timeout.
         Inr \<lparr>rp_project = project, rp_executable = executable, rp_argv = argv, rp_cwd = cwd,
              rp_keys = keys, rp_env = env, rp_timeout_secs = timeout\<rparr>))))))))))"

section \<open>The child environment\<close>

text \<open>\<open>push\<close>: the accumulated environment and its size.\<close>

definition push_env :: "string \<Rightarrow> string \<Rightarrow> (string \<times> string) list \<times> nat \<Rightarrow> ((string \<times> string) list \<times> nat) res" where
  "push_env k v acc =
     (if has_nul k \<or> has_nul v then Inl (InvalidInput ''env value cannot carry NUL'')
      else let total = snd acc + (length k + length v) in
           if total > MAX_CHILD_ENV_BYTES then Inl TooLarge else Inr (fst acc @ [(k, v)], total))"

fun push_request_env ::
  "string list \<Rightarrow> (string \<times> string) list \<Rightarrow> (string \<times> string) list \<times> nat \<Rightarrow> ((string \<times> string) list \<times> nat) res" where
  "push_request_env selected [] acc = Inr acc"
| "push_request_env selected ((k, v) # env) acc =
     (if k \<in> set selected then Inl (InvalidInput ''env collides with a selected secret'')
      else if is_forbidden_env_name k \<or> k \<notin> set ALLOWED_ENV then push_request_env selected env acc
      else res_bind (push_env k v acc) (push_request_env selected env))"

fun push_secrets ::
  "(string \<times> string) list \<Rightarrow> (string \<times> string) list \<times> nat \<Rightarrow> ((string \<times> string) list \<times> nat) res" where
  "push_secrets [] acc = Inr acc"
| "push_secrets ((k, v) # secrets) acc = res_bind (push_env k v acc) (push_secrets secrets)"

definition build_child_env ::
  "(string \<times> string) list \<Rightarrow> (string \<times> string) list \<Rightarrow> (string \<times> string) list res" where
  "build_child_env request_env secrets =
     res_bind (push_request_env (map fst secrets) request_env ([], 0)) (\<lambda>acc.
       res_bind (push_secrets secrets acc) (\<lambda>acc. Inr (fst acc)))"

section \<open>Exit and signal names\<close>

record exit_status =
  es_code :: "int option"
  es_signal :: "int option"

text \<open>Decimal rendering, as \<open>format!\<close> prints an integer.\<close>

fun show_nat :: "nat \<Rightarrow> string" where
  "show_nat n =
     (if n < 10 then [char_of (48 + n)] else show_nat (n div 10) @ [char_of (48 + n mod 10)])"

declare show_nat.simps [simp del]

definition show_int :: "int \<Rightarrow> string" where
  "show_int i = (if i < 0 then ''-'' @ show_nat (nat (- i)) else show_nat (nat i))"

definition signal_name :: "int \<Rightarrow> string" where
  "signal_name sig =
     (if sig = 1 then ''HUP (1)'' else if sig = 2 then ''INT (2)'' else if sig = 9 then ''KILL (9)''
      else if sig = 15 then ''TERM (15)''
      else ''SIG'' @ show_int sig @ '' ('' @ show_int sig @ '')'')"

definition exit_result :: "exit_status \<Rightarrow> json" where
  "exit_result st =
     (case es_code st of
        Some c \<Rightarrow> JObj [(''exit_code'', JInt c)]
      | None \<Rightarrow> (case es_signal st of
          Some sig \<Rightarrow> JObj [(''signal'', JStr (signal_name sig))]
        | None \<Rightarrow> JObj [(''signal'', JStr ''unknown'')]))"

definition exit_signal :: "exit_status \<Rightarrow> string option" where
  "exit_signal st = map_option signal_name (es_signal st)"

definition SIGHUP :: int where "SIGHUP = 1"
definition SIGINT :: int where "SIGINT = 2"
definition SIGQUIT :: int where "SIGQUIT = 3"
definition SIGKILL :: int where "SIGKILL = 9"
definition SIGTERM :: int where "SIGTERM = 15"

definition parse_signal :: "string \<Rightarrow> int res" where
  "parse_signal name =
     (let n = to_ascii_uppercase name in
      if n \<in> {''TERM'', ''SIGTERM'', ''15''} then Inr SIGTERM
      else if n \<in> {''KILL'', ''SIGKILL'', ''9''} then Inr SIGKILL
      else if n \<in> {''HUP'', ''SIGHUP'', ''1''} then Inr SIGHUP
      else if n \<in> {''INT'', ''SIGINT'', ''2''} then Inr SIGINT
      else if n \<in> {''QUIT'', ''SIGQUIT'', ''3''} then Inr SIGQUIT
      else Inl (InvalidInput ''unknown signal''))"

section \<open>The registry\<close>

text \<open>A hash map from run ids to metadata, as an association list with one entry per id. A
  reservation is the run id it guards.\<close>

record run_meta =
  rm_agent :: string
  rm_project :: string
  rm_pid :: int
  rm_pgid :: int
  rm_started_at :: time

type_synonym run_registry = "(string \<times> run_meta) list"

record reserve_error =
  re_code :: string
  re_msg :: string

definition owned_runs :: "string \<Rightarrow> run_registry \<Rightarrow> nat" where
  "owned_runs agent reg = length (filter (\<lambda>(_, m). rm_agent m = agent) reg)"

definition try_reserve ::
  "string \<Rightarrow> string \<Rightarrow> string \<Rightarrow> time \<Rightarrow> run_registry \<Rightarrow> (reserve_error + string) \<times> run_registry" where
  "try_reserve agent project run_id now reg =
     (if map_of reg run_id \<noteq> None
        then (Inl \<lparr>re_code = ''E_PROTOCOL'', re_msg = ''duplicate run_id''\<rparr>, reg)
      else if length reg \<ge> MAX_RUNS_TOTAL
        then (Inl \<lparr>re_code = ''E_BUSY'', re_msg = ''too many concurrent runs''\<rparr>, reg)
      else if owned_runs agent reg \<ge> MAX_RUNS_PER_AGENT
        then (Inl \<lparr>re_code = ''E_BUSY'', re_msg = ''too many concurrent runs for agent''\<rparr>, reg)
      else (Inr run_id, reg @ [(run_id, \<lparr>rm_agent = agent, rm_project = project, rm_pid = 0, rm_pgid = 0,
                                      rm_started_at = now\<rparr>)]))"

definition lookup_owned :: "string \<Rightarrow> string \<Rightarrow> run_registry \<Rightarrow> (string \<times> int \<times> int) option" where
  "lookup_owned agent run_id reg =
     (case map_of reg run_id of
        None \<Rightarrow> None
      | Some m \<Rightarrow> if rm_agent m = agent then Some (rm_project m, rm_pid m, rm_pgid m) else None)"

definition remove_run :: "string \<Rightarrow> run_registry \<Rightarrow> run_meta option \<times> run_registry" where
  "remove_run run_id reg = (map_of reg run_id, AList.delete run_id reg)"

definition matches_run :: "string option \<Rightarrow> string option \<Rightarrow> run_meta \<Rightarrow> bool" where
  "matches_run agent project m \<longleftrightarrow>
     (case agent of None \<Rightarrow> True | Some a \<Rightarrow> rm_agent m = a)
     \<and> (case project of None \<Rightarrow> True | Some p \<Rightarrow> rm_project m = p)"

definition take_matching ::
  "string option \<Rightarrow> string option \<Rightarrow> run_registry \<Rightarrow> (string \<times> run_meta) list \<times> run_registry" where
  "take_matching agent project reg =
     (filter (\<lambda>(_, m). matches_run agent project m) reg, filter (\<lambda>(_, m). \<not> matches_run agent project m) reg)"

definition activate :: "string \<Rightarrow> int \<Rightarrow> int \<Rightarrow> run_registry \<Rightarrow> bool \<times> run_registry" where
  "activate run_id pid pgid reg =
     (case map_of reg run_id of
        None \<Rightarrow> (False, reg)
      | Some m \<Rightarrow> (True, AList.update run_id (m\<lparr>rm_pid := pid, rm_pgid := pgid\<rparr>) reg))"

text \<open>Dropping a reservation that was not committed.\<close>

definition drop_reservation :: "string \<Rightarrow> run_registry \<Rightarrow> run_registry" where
  "drop_reservation run_id reg = AList.delete run_id reg"

definition new_run_id :: "world \<Rightarrow> string res \<times> world" where
  "new_run_id w = try_bind (random_bytes 16 w) (\<lambda>b w1. (Inr (hex b), w1))"

end
