(* ===== verification/BrokerCore.thy ===== *)
theory BrokerCore
  imports Wire Runs SessionInject SessionLifecycle
begin

text \<open>
  \<open>src/broker.rs\<close>, what every operation of the daemon shares: the state a request handler works on
  (the vault session and the live runs), identities, parameter extraction, the lease guards, and the
  one lifecycle of locking (audit, terminate the managed runs, revoke, persist, drop the keys).

  A handler takes the session and the run host and returns the answer with both. The answer is a sum
  of two responses, \<open>Inl\<close> for \<open>Err(Response)\<close>. The outer option is \<open>None\<close> when the handler
  does not return: an id search or a write loop that never ends, or a failing \<open>expect\<close>.
\<close>

record broker_lib = vault_lib +
  show_time :: "time \<Rightarrow> string"
  line_value :: "audit_line \<Rightarrow> json"
  killpg :: "int \<Rightarrow> int \<Rightarrow> io_error option"

definition MAX_CONCURRENT_CONNECTIONS :: nat where "MAX_CONCURRENT_CONNECTIONS = 32"

definition HUMAN_ONLY :: "string list" where
  "HUMAN_ONLY =
     [''vault.create'', ''vault.unlock'', ''project.add'', ''project.list'', ''project.path.add'',
      ''project.path.remove'', ''project.remove'', ''secret.set'', ''secret.delete'', ''agents.add'',
      ''agents.revoke'', ''agents.list'', ''grants.grant'', ''grants.revoke'', ''grants.list'',
      ''audit.show'', ''audit.verify'', ''approvals.pending'', ''approvals.approve'', ''approvals.deny'',
      ''session.open'', ''session.touch'', ''session.close'', ''runs.list'', ''vault.health'']"

definition NOT_YET :: "string list" where
  "NOT_YET = []"

definition LEASE_ID_IS_TARGET :: "string list" where
  "LEASE_ID_IS_TARGET = [''lease.revoke'']"

section \<open>Identities and state\<close>

datatype identity = Human | Agent string | Unauthenticated

text \<open>The registry and the signals sent to process groups, oldest first.\<close>

record run_host =
  rh_runs :: run_registry
  rh_signals :: "(int \<times> int) list"

type_synonym answer = "response + response"
type_synonym handled = "(answer \<times> session \<times> run_host) option"

record op_context =
  cx_id :: string
  cx_actor :: string
  cx_identity :: identity
  cx_proof :: "derived_keks option"

section \<open>Shapes of the handlers\<close>

definition answer_ok :: "string \<Rightarrow> json \<Rightarrow> session \<Rightarrow> run_host \<Rightarrow> handled" where
  "answer_ok i result s h = Some (Inr (response_ok i result), s, h)"

definition answer_err :: "string \<Rightarrow> string \<Rightarrow> string \<Rightarrow> session \<Rightarrow> run_host \<Rightarrow> handled" where
  "answer_err i c msg s h = Some (Inl (response_err i c msg), s, h)"

text \<open>\<open>session.op(..).map_err(|e| Response::err(id, e.code(), e.to_string()))?\<close>.\<close>

definition calls ::
  "string \<Rightarrow> run_host \<Rightarrow> 'a res \<times> session \<Rightarrow> ('a \<Rightarrow> session \<Rightarrow> handled) \<Rightarrow> handled" where
  "calls i h m k =
     (case m of
        (Inl e, s) \<Rightarrow> Some (Inl (response_of_error i e), s, h)
      | (Inr x, s) \<Rightarrow> k x s)"

definition calls_opt ::
  "string \<Rightarrow> run_host \<Rightarrow> ('a res \<times> session) option \<Rightarrow> ('a \<Rightarrow> session \<Rightarrow> handled) \<Rightarrow> handled" where
  "calls_opt i h m k = (case m of None \<Rightarrow> None | Some out \<Rightarrow> calls i h out k)"

text \<open>A parameter that must be present.\<close>

definition needs ::
  "string \<Rightarrow> string \<Rightarrow> 'a option \<Rightarrow> session \<Rightarrow> run_host \<Rightarrow> ('a \<Rightarrow> handled) \<Rightarrow> handled" where
  "needs i msg x s h k =
     (case x of None \<Rightarrow> answer_err i ''E_INVALID_INPUT'' msg s h | Some y \<Rightarrow> k y)"

section \<open>Parameters\<close>

definition lease_handle_refused :: string where
  "lease_handle_refused =
     ''lease_id is a public handle and does not authorize; present the credential instead''"

definition lease_credential_param :: "request \<Rightarrow> string + string option" where
  "lease_credential_param req =
     (case as_object (rq_params req) of
        None \<Rightarrow> Inl ''params must be an object''
      | Some params \<Rightarrow>
          if (case map_of params ''lease_id'' of None \<Rightarrow> False | Some v \<Rightarrow> \<not> is_null v)
          then Inl lease_handle_refused
          else (case map_of params ''lease'' of
                  None \<Rightarrow> Inr None
                | Some JNull \<Rightarrow> Inr None
                | Some (JStr s) \<Rightarrow> if s \<noteq> [] then Inr (Some s) else Inl ''invalid lease credential''
                | Some _ \<Rightarrow> Inl ''invalid lease credential''))"

definition lease_on_human :: string where
  "lease_on_human = ''human operations take no lease; leases narrow agent grants only''"

definition reject_lease_on_human_op :: "request \<Rightarrow> string + unit" where
  "reject_lease_on_human_op req =
     (case as_object (rq_params req) of
        None \<Rightarrow> Inl ''params must be an object''
      | Some params \<Rightarrow>
          if (case map_of params ''lease'' of None \<Rightarrow> False | Some v \<Rightarrow> \<not> is_null v) then Inl lease_on_human
          else if rq_op req \<notin> set LEASE_ID_IS_TARGET
            \<and> (case map_of params ''lease_id'' of None \<Rightarrow> False | Some v \<Rightarrow> \<not> is_null v) then Inl lease_on_human
          else Inr ())"

fun string_items :: "json list \<Rightarrow> string list option" where
  "string_items [] = Some []"
| "string_items (x # xs) =
     (case as_str x of None \<Rightarrow> None | Some s \<Rightarrow> map_option (Cons s) (string_items xs))"

definition keys_param :: "json \<Rightarrow> string + string list option" where
  "keys_param params =
     (case get_member params ''keys'' of
        None \<Rightarrow> Inr None
      | Some JNull \<Rightarrow> Inr None
      | Some (JArr items) \<Rightarrow>
          (case string_items items of
             None \<Rightarrow> Inl ''keys must be an array of strings'' | Some ss \<Rightarrow> Inr (Some ss))
      | Some _ \<Rightarrow> Inl ''keys must be an array of strings'')"

text \<open>\<open>filter_map\<close>: the entries of \<open>paths\<close> that are no strings are dropped.\<close>

definition project_params :: "request \<Rightarrow> (string \<times> string list) option" where
  "project_params req =
     (case str_param (rq_params req) ''name'' of
        None \<Rightarrow> None
      | Some name \<Rightarrow>
          Some (name, case as_array (index_member (rq_params req) ''paths'') of
                        None \<Rightarrow> [] | Some items \<Rightarrow> List.map_filter as_str items))"

section \<open>Managed runs\<close>

text \<open>\<open>SIGTERM\<close> to the group, a grace period, and \<open>SIGKILL\<close> when the probe still finds it.\<close>

definition terminate_group :: "('z) broker_lib_scheme \<Rightarrow> int \<Rightarrow> (int \<times> int) list" where
  "terminate_group L pgid =
     (if pgid \<le> 0 then []
      else [(pgid, SIGTERM)] @ (if killpg L pgid 0 = None then [(pgid, SIGKILL)] else []))"

definition signal_group :: "('z) broker_lib_scheme \<Rightarrow> int \<Rightarrow> int \<Rightarrow> (io_error + unit) \<times> (int \<times> int) list" where
  "signal_group L pgid sig =
     (if pgid \<le> 0 then (Inl (Io_Error None ''invalid pgid''), [])
      else case killpg L pgid sig of None \<Rightarrow> (Inr (), [(pgid, sig)]) | Some e \<Rightarrow> (Inl e, []))"

definition finish_run :: "('z) broker_lib_scheme \<Rightarrow> string \<Rightarrow> int \<Rightarrow> run_host \<Rightarrow> run_host" where
  "finish_run L run_id pgid h =
     (case remove_run run_id (rh_runs h) of
        (None, reg) \<Rightarrow> h\<lparr>rh_runs := reg\<rparr>
      | (Some _, reg) \<Rightarrow> h\<lparr>rh_runs := reg, rh_signals := rh_signals h @ terminate_group L pgid\<rparr>)"

text \<open>The revocations are recorded best effort after all groups were signalled.\<close>

fun audit_revoked_runs ::
  "('z) broker_lib_scheme \<Rightarrow> string \<Rightarrow> (string \<times> run_meta) list \<Rightarrow> session \<Rightarrow> session" where
  "audit_revoked_runs L actor [] s = s"
| "audit_revoked_runs L actor ((run_id, m) # runs) s =
     audit_revoked_runs L actor runs (snd (audit_run_revoked L actor (rm_project m) run_id s))"

definition terminate_matching_runs ::
  "('z) broker_lib_scheme \<Rightarrow> string \<Rightarrow> string option \<Rightarrow> string option \<Rightarrow> session \<Rightarrow> run_host
    \<Rightarrow> unit res \<times> session \<times> run_host" where
  "terminate_matching_runs L actor agent project s h =
     (case take_matching agent project (rh_runs h) of (runs, reg) \<Rightarrow>
        (Inr (), audit_revoked_runs L actor runs s,
         h\<lparr>rh_runs := reg,
           rh_signals := rh_signals h @ concat (map (\<lambda>(_, m). terminate_group L (rm_pgid m)) runs)\<rparr>))"

section \<open>Locking\<close>

definition lock_and_drain ::
  "('z) broker_lib_scheme \<Rightarrow> string \<Rightarrow> session \<Rightarrow> run_host \<Rightarrow> unit res \<times> session \<times> run_host" where
  "lock_and_drain L actor s h =
     (let s1 = snd (audit_record_lifecycle L actor
                 (mk_record actor ''vault.lock'' None [] None Allowed None) s) in
      case terminate_matching_runs L actor None None s1 h of (cleanup, s2, h1) \<Rightarrow>
        (case lock_persist L s2 of
           (Inl e, s3) \<Rightarrow> (Inl e, s3, h1)
         | (Inr _, s3) \<Rightarrow> (cleanup, s3, h1)))"

text \<open>\<open>if session.idle_expired() && !session.is_locked()\<close>, before a request is evaluated.\<close>

definition idle_lock ::
  "('z) broker_lib_scheme \<Rightarrow> session \<Rightarrow> run_host \<Rightarrow> unit res \<times> session \<times> run_host" where
  "idle_lock L s h =
     (if idle_expired s \<and> \<not> is_locked s then lock_and_drain L ''human'' s h else (Inr (), s, h))"

definition whole_seconds_left :: "time \<Rightarrow> time \<Rightarrow> nat" where
  "whole_seconds_left deadline now = nat ((deadline - now) div int SEC)"

end
