(* ===== verification/BrokerHumanOps.thy ===== *)
theory BrokerHumanOps
  imports BrokerCore
begin

text \<open>
  \<open>src/broker.rs\<close>, the arms of \<open>dispatch_op\<close> that administer the vault: status, lock, unlock,
  projects, secrets, agents, grants, approvals, audit reads, human sessions, runs and health. Each
  arm is one definition: its parameter checks in the order of the code, the session operation, and
  the answer.
\<close>

definition plain_record :: "string \<Rightarrow> string \<Rightarrow> audit_record" where
  "plain_record actor op = mk_record actor op None [] None Allowed None"

section \<open>Vault\<close>

definition op_vault_status :: "('z) broker_lib_scheme \<Rightarrow> op_context \<Rightarrow> session \<Rightarrow> run_host \<Rightarrow> handled" where
  "op_vault_status L c s h =
     (let st = status s in
      calls (cx_id c) h (audit_record L (cx_actor c) (plain_record (cx_actor c) ''vault.status'') s) (\<lambda>_ s1.
        answer_ok (cx_id c)
          (jobj [(''version'', jnat (vs_version st)), (''created'', JStr (show_time L (vs_created_at st))),
                 (''locked'', JBool (vs_locked st))]) s1 h))"

definition op_vault_lock :: "('z) broker_lib_scheme \<Rightarrow> op_context \<Rightarrow> session \<Rightarrow> run_host \<Rightarrow> handled" where
  "op_vault_lock L c s h =
     (case lock_and_drain L (cx_actor c) s h of (r, s1, h1) \<Rightarrow>
        calls (cx_id c) h1 (r, s1) (\<lambda>_ s1. answer_ok (cx_id c) (jobj [(''locked'', JBool True)]) s1 h1))"

definition has_session :: "request \<Rightarrow> bool" where
  "has_session req \<longleftrightarrow> (case rq_auth req of None \<Rightarrow> False | Some a \<Rightarrow> au_session a \<noteq> None)"

definition session_credential :: "request \<Rightarrow> string option" where
  "session_credential req = (case rq_auth req of None \<Rightarrow> None | Some a \<Rightarrow> au_session a)"

definition session_expired_answer :: "string \<Rightarrow> session \<Rightarrow> run_host \<Rightarrow> handled" where
  "session_expired_answer i s h = answer_err i ''E_SESSION_EXPIRED'' ''session expired or revoked'' s h"

definition minted_fields ::
  "('z) broker_lib_scheme \<Rightarrow> session \<Rightarrow> string \<Rightarrow> string \<Rightarrow> nat \<Rightarrow> nat \<Rightarrow> (string \<times> json) list" where
  "minted_fields L s credential prefix expires_in max_expires_in =
     (case session_display_times s expires_in max_expires_in of (expires_at, max_expires_at) \<Rightarrow>
        [(''session_credential'', JStr credential), (''session_prefix'', JStr prefix),
         (''expires_at'', JStr (show_time L expires_at)), (''expires_in'', jnat expires_in),
         (''max_expires_at'', JStr (show_time L max_expires_at)), (''max_expires_in'', jnat max_expires_in)])"

text \<open>Unlocking seeds a session; a failing mint does not fail the unlock.\<close>

definition op_vault_unlock ::
  "('z) broker_lib_scheme \<Rightarrow> op_context \<Rightarrow> request \<Rightarrow> session \<Rightarrow> run_host \<Rightarrow> handled" where
  "op_vault_unlock L c req s h =
     (if has_session req then session_expired_answer (cx_id c) s h
      else case cx_proof c of
        None \<Rightarrow> answer_err (cx_id c) ''E_AUTH'' ''authentication failed'' s h
      | Some derived \<Rightarrow>
          calls (cx_id c) h (unlock_with_proof L derived s) (\<lambda>_ s1.
            case session_open L (cx_actor c) SESSION_DEFAULT_TTL_SECS s1 of
              (Inr (credential, prefix, expires_in, max_expires_in), s2) \<Rightarrow>
                answer_ok (cx_id c)
                  (jobj ((''unlocked'', JBool True) #
                         minted_fields L s2 credential prefix expires_in max_expires_in)) s2 h
            | (Inl _, s2) \<Rightarrow> answer_ok (cx_id c) (jobj [(''unlocked'', JBool True)]) s2 h))"

definition op_vault_create :: "op_context \<Rightarrow> session \<Rightarrow> run_host \<Rightarrow> handled" where
  "op_vault_create c s h = answer_err (cx_id c) ''E_EXISTS'' ''vault already exists'' s h"

definition health_value :: "vault_health_report \<Rightarrow> json" where
  "health_value r =
     jobj [(''locked'', JBool (vr_locked r)), (''idle_lock_secs'', jnat (vr_idle_lock_secs r)),
           (''idle_in'', jopt jnat (vr_idle_in r)), (''audit_bytes'', jnat (vr_audit_bytes r)),
           (''audit_soft_limit'', jnat AUDIT_SOFT_LIMIT), (''audit_hard_limit'', jnat MAX_AUDIT_LEN),
           (''vault_bytes'', jnat (vr_vault_bytes r)), (''vault_max_bytes'', jnat MAX_FILE_LEN),
           (''runs_active'', jnat (vr_runs_active r)), (''leases_active'', jopt jnat (vr_leases_active r)),
           (''approvals_pending'', jopt jnat (vr_approvals_pending r))]"

definition op_vault_health ::
  "('z) broker_lib_scheme \<Rightarrow> nat \<Rightarrow> op_context \<Rightarrow> session \<Rightarrow> run_host \<Rightarrow> handled" where
  "op_vault_health L idle_lock_secs c s h =
     (let health = vault_health s idle_lock_secs (length (rh_runs h)) in
      calls (cx_id c) h (audit_record L (cx_actor c) (plain_record (cx_actor c) ''vault.health'') s) (\<lambda>_ s1.
        answer_ok (cx_id c) (health_value health) s1 h))"

section \<open>Projects and secrets\<close>

definition op_project_add ::
  "('z) broker_lib_scheme \<Rightarrow> op_context \<Rightarrow> request \<Rightarrow> session \<Rightarrow> run_host \<Rightarrow> handled" where
  "op_project_add L c req s h =
     needs (cx_id c) ''missing project name'' (project_params req) s h (\<lambda>(name, paths).
       calls_opt (cx_id c) h (project_add L (cx_actor c) name paths s) (\<lambda>_ s1.
         answer_ok (cx_id c) (jobj [(''added'', JStr name)]) s1 h))"

definition op_project_list :: "('z) broker_lib_scheme \<Rightarrow> op_context \<Rightarrow> session \<Rightarrow> run_host \<Rightarrow> handled" where
  "op_project_list L c s h =
     calls (cx_id c) h (project_list L (cx_actor c) s) (\<lambda>ps s1.
       answer_ok (cx_id c)
         (jobj [(''projects'', JArr (map (\<lambda>p. jobj [(''name'', JStr (p_name p)), (''paths'', jstrs (p_paths p))]) ps))])
         s1 h)"

text \<open>The arms that read two members together refuse with one message.\<close>

definition both :: "'a option \<Rightarrow> 'b option \<Rightarrow> ('a \<times> 'b) option" where
  "both x y = (case (x, y) of (Some a, Some b) \<Rightarrow> Some (a, b) | _ \<Rightarrow> None)"

definition op_project_path_add ::
  "('z) broker_lib_scheme \<Rightarrow> op_context \<Rightarrow> request \<Rightarrow> session \<Rightarrow> run_host \<Rightarrow> handled" where
  "op_project_path_add L c req s h =
     needs (cx_id c) ''missing name or path''
       (both (str_param (rq_params req) ''name'') (str_param (rq_params req) ''path'')) s h (\<lambda>(name, path).
       calls (cx_id c) h (project_path_add L (cx_actor c) name path s) (\<lambda>_ s1.
         answer_ok (cx_id c) (jobj [(''added'', JStr path)]) s1 h))"

definition op_project_path_remove ::
  "('z) broker_lib_scheme \<Rightarrow> op_context \<Rightarrow> request \<Rightarrow> session \<Rightarrow> run_host \<Rightarrow> handled" where
  "op_project_path_remove L c req s h =
     needs (cx_id c) ''missing name or path''
       (both (str_param (rq_params req) ''name'') (str_param (rq_params req) ''path'')) s h (\<lambda>(name, path).
       calls (cx_id c) h (project_path_remove L (cx_actor c) name path s) (\<lambda>_ s1.
         answer_ok (cx_id c) (jobj [(''removed'', JStr path)]) s1 h))"

definition op_project_remove ::
  "('z) broker_lib_scheme \<Rightarrow> op_context \<Rightarrow> request \<Rightarrow> session \<Rightarrow> run_host \<Rightarrow> handled" where
  "op_project_remove L c req s h =
     needs (cx_id c) ''missing name'' (str_param (rq_params req) ''name'') s h (\<lambda>name.
       calls (cx_id c) h (project_remove L (cx_actor c) name s) (\<lambda>_ s1.
         answer_ok (cx_id c) (jobj [(''removed'', JStr name)]) s1 h))"

definition op_secret_set ::
  "('z) broker_lib_scheme \<Rightarrow> op_context \<Rightarrow> request \<Rightarrow> session \<Rightarrow> run_host \<Rightarrow> handled" where
  "op_secret_set L c req s h =
     needs (cx_id c) ''missing project, key or value''
       (both (str_param (rq_params req) ''project'')
          (both (str_param (rq_params req) ''key'') (str_param (rq_params req) ''value''))) s h
       (\<lambda>(project, key, val).
         calls (cx_id c) h (secret_set L (cx_actor c) project key val s) (\<lambda>_ s1.
           answer_ok (cx_id c) (jobj [(''set'', JStr (project @ ''/'' @ key))]) s1 h))"

definition op_secret_delete ::
  "('z) broker_lib_scheme \<Rightarrow> op_context \<Rightarrow> request \<Rightarrow> session \<Rightarrow> run_host \<Rightarrow> handled" where
  "op_secret_delete L c req s h =
     needs (cx_id c) ''missing project or key''
       (both (str_param (rq_params req) ''project'') (str_param (rq_params req) ''key'')) s h (\<lambda>(project, key).
       calls (cx_id c) h (secret_delete L (cx_actor c) project key s) (\<lambda>_ s1.
         answer_ok (cx_id c) (jobj [(''deleted'', JStr (project @ ''/'' @ key))]) s1 h))"

section \<open>Agents and grants\<close>

definition op_agents_add ::
  "('z) broker_lib_scheme \<Rightarrow> op_context \<Rightarrow> request \<Rightarrow> session \<Rightarrow> run_host \<Rightarrow> handled" where
  "op_agents_add L c req s h =
     needs (cx_id c) ''missing name'' (str_param (rq_params req) ''name'') s h (\<lambda>name.
       calls_opt (cx_id c) h (agent_add L (cx_actor c) name s) (\<lambda>(agent_id, token) s1.
         answer_ok (cx_id c) (jobj [(''agent_id'', JStr agent_id), (''token'', JStr token)]) s1 h))"

text \<open>The id of a named agent, read before the operation; the \<open>expect\<close> on it afterwards.\<close>

definition agent_id_of :: "session \<Rightarrow> string \<Rightarrow> string option" where
  "agent_id_of s name =
     (case s_doc s of None \<Rightarrow> None | Some d \<Rightarrow> map_option a_id (agent_by_name d name))"

definition drains ::
  "('z) broker_lib_scheme \<Rightarrow> op_context \<Rightarrow> string \<Rightarrow> string option \<Rightarrow> string option \<Rightarrow> session \<Rightarrow> run_host
    \<Rightarrow> json \<Rightarrow> handled" where
  "drains L c actor agent project s h result =
     (case terminate_matching_runs L actor agent project s h of (r, s1, h1) \<Rightarrow>
        calls (cx_id c) h1 (r, s1) (\<lambda>_ s2. answer_ok (cx_id c) result s2 h1))"

definition op_agents_revoke ::
  "('z) broker_lib_scheme \<Rightarrow> op_context \<Rightarrow> request \<Rightarrow> session \<Rightarrow> run_host \<Rightarrow> handled" where
  "op_agents_revoke L c req s h =
     needs (cx_id c) ''missing name'' (str_param (rq_params req) ''name'') s h (\<lambda>name.
       calls (cx_id c) h (agent_revoke L (cx_actor c) name s) (\<lambda>_ s1.
         case agent_id_of s name of
           None \<Rightarrow> None
         | Some agent_id \<Rightarrow>
             drains L c (cx_actor c) (Some agent_id) None s1 h (jobj [(''revoked'', JStr name)])))"

definition status_text :: "agent_status \<Rightarrow> string" where
  "status_text st = (case st of Active \<Rightarrow> ''active'' | Revoked \<Rightarrow> ''revoked'')"

definition op_agents_list :: "('z) broker_lib_scheme \<Rightarrow> op_context \<Rightarrow> session \<Rightarrow> run_host \<Rightarrow> handled" where
  "op_agents_list L c s h =
     calls (cx_id c) h (agent_list L (cx_actor c) s) (\<lambda>xs s1.
       answer_ok (cx_id c)
         (jobj [(''agents'', JArr (map (\<lambda>(name, st, prefix).
            jobj [(''name'', JStr name), (''status'', JStr (status_text st)), (''token_prefix'', JStr prefix)]) xs))])
         s1 h)"

text \<open>The previous run grant: the agent's id and whether it had the run operation.\<close>

definition run_grant_before :: "session \<Rightarrow> string \<Rightarrow> string \<Rightarrow> (string \<times> bool) option" where
  "run_grant_before s agent project =
     (case s_doc s of
        None \<Rightarrow> None
      | Some d \<Rightarrow>
          (case (agent_by_name d agent, project_by_name d project) of
             (Some a, Some p) \<Rightarrow> Some (a_id a, authorize d (a_id a) (p_id p) OpRun)
           | _ \<Rightarrow> None))"

definition ops_param :: "request \<Rightarrow> operation list res" where
  "ops_param req = parse_list (case str_param (rq_params req) ''ops'' of None \<Rightarrow> [] | Some x \<Rightarrow> x)"

definition op_grants_grant ::
  "('z) broker_lib_scheme \<Rightarrow> op_context \<Rightarrow> request \<Rightarrow> session \<Rightarrow> run_host \<Rightarrow> handled" where
  "op_grants_grant L c req s h =
     needs (cx_id c) ''missing agent or project''
       (both (str_param (rq_params req) ''agent'') (str_param (rq_params req) ''project'')) s h (\<lambda>(agent, project).
       calls (cx_id c) h (ops_param req, s) (\<lambda>ops s.
         calls (cx_id c) h (grant_add L (cx_actor c) agent project ops s) (\<lambda>_ s1.
           let result = jobj [(''granted'', JStr (agent @ ''/'' @ project))] in
           case run_grant_before s agent project of
             Some (agent_id, True) \<Rightarrow>
               if OpRun \<notin> set ops then drains L c ''human'' (Some agent_id) (Some project) s1 h result
               else answer_ok (cx_id c) result s1 h
           | _ \<Rightarrow> answer_ok (cx_id c) result s1 h)))"

definition op_grants_revoke ::
  "('z) broker_lib_scheme \<Rightarrow> op_context \<Rightarrow> request \<Rightarrow> session \<Rightarrow> run_host \<Rightarrow> handled" where
  "op_grants_revoke L c req s h =
     needs (cx_id c) ''missing agent or project''
       (both (str_param (rq_params req) ''agent'') (str_param (rq_params req) ''project'')) s h (\<lambda>(agent, project).
       calls (cx_id c) h (grant_revoke L (cx_actor c) agent project s) (\<lambda>_ s1.
         case agent_id_of s agent of
           None \<Rightarrow> None
         | Some agent_id \<Rightarrow>
             drains L c (cx_actor c) (Some agent_id) (Some project) s1 h
               (jobj [(''revoked'', JStr (agent @ ''/'' @ project))])))"

definition op_grants_list :: "('z) broker_lib_scheme \<Rightarrow> op_context \<Rightarrow> session \<Rightarrow> run_host \<Rightarrow> handled" where
  "op_grants_list L c s h =
     calls (cx_id c) h (grant_list L (cx_actor c) s) (\<lambda>gs s1.
       answer_ok (cx_id c)
         (jobj [(''grants'', JArr (map (\<lambda>g.
            jobj [(''agent'', JStr (gs_agent g)), (''project'', JStr (gs_project g)),
                  (''ops'', jstrs (map op_name (gs_ops g))), (''revoked'', JBool (gs_revoked g))]) gs))]) s1 h)"

end
