(* ===== verification/BrokerSessionOps.thy ===== *)
theory BrokerSessionOps
  imports BrokerHumanOps
begin

text \<open>
  \<open>src/broker.rs\<close>, more arms of \<open>dispatch_op\<close>: audit reads, approvals as the human sees them, the
  human sessions and the list of live runs.
\<close>

section \<open>Audit\<close>

definition tail_param :: "request \<Rightarrow> nat option" where
  "tail_param req = as_u64 (case get_member (rq_params req) ''tail'' of None \<Rightarrow> JInt 20 | Some v \<Rightarrow> v)"

definition before_param :: "request \<Rightarrow> nat option option" where
  "before_param req =
     (case get_member (rq_params req) ''before_seq'' of
        None \<Rightarrow> Some None
      | Some JNull \<Rightarrow> Some None
      | Some v \<Rightarrow> map_option Some (as_u64 v))"

definition op_audit_show ::
  "('z) broker_lib_scheme \<Rightarrow> op_context \<Rightarrow> request \<Rightarrow> session \<Rightarrow> run_host \<Rightarrow> handled" where
  "op_audit_show L c req s h =
     needs (cx_id c) ''tail must be 1..=1000'' (tail_param req) s h (\<lambda>tail_n.
       if \<not> (1 \<le> tail_n \<and> tail_n \<le> 1000)
       then answer_err (cx_id c) ''E_INVALID_INPUT'' ''tail must be 1..=1000'' s h
       else needs (cx_id c) ''invalid before_seq'' (before_param req) s h (\<lambda>before_seq.
         calls (cx_id c) h (audit_show_page L (cx_actor c) tail_n before_seq s) (\<lambda>(lines, next_before) s1.
           answer_ok (cx_id c)
             (jobj [(''entries'', JArr (map (line_value L) lines)), (''next_before_seq'', jopt jnat next_before)])
             s1 h)))"

definition op_audit_verify :: "('z) broker_lib_scheme \<Rightarrow> op_context \<Rightarrow> session \<Rightarrow> run_host \<Rightarrow> handled" where
  "op_audit_verify L c s h =
     calls (cx_id c) h (audit_verify L s, s) (\<lambda>rep s1.
       answer_ok (cx_id c)
         (jobj [(''entries'', jnat (vr_entries rep)), (''macs_verified'', jnat (vr_macs_verified rep)),
                (''macs_null'', jnat (vr_macs_null rep))]) s1 h)"

section \<open>Approvals\<close>

definition named_project :: "vault_document option \<Rightarrow> string \<Rightarrow> string" where
  "named_project d pid =
     (case d of None \<Rightarrow> [] | Some doc \<Rightarrow> (case project_by_id doc pid of None \<Rightarrow> [] | Some p \<Rightarrow> p_name p))"

definition named_agent :: "vault_document option \<Rightarrow> string \<Rightarrow> string option" where
  "named_agent d aid =
     (case d of None \<Rightarrow> None | Some doc \<Rightarrow> map_option a_name (agent_by_id doc aid))"

definition op_approvals_pending :: "('z) broker_lib_scheme \<Rightarrow> op_context \<Rightarrow> session \<Rightarrow> run_host \<Rightarrow> handled" where
  "op_approvals_pending L c s h =
     calls (cx_id c) h (approval_pending L (cx_actor c) s) (\<lambda>aps s1.
       answer_ok (cx_id c)
         (jobj [(''approvals'', JArr (map (\<lambda>a.
            jobj [(''approval_id'', JStr (ap_id a)),
                  (''agent'', JStr (case named_agent (s_doc s1) (ap_agent_id a) of None \<Rightarrow> [] | Some n \<Rightarrow> n)),
                  (''project'', JStr (named_project (s_doc s1) (ap_project_id a))), (''key'', JStr (ap_key a)),
                  (''status'', JStr ''pending''),
                  (''expires_at'', JStr (show_time L (ap_pending_expires_at a)))]) aps))]) s1 h)"

definition op_approvals_decide ::
  "('z) broker_lib_scheme \<Rightarrow> op_context \<Rightarrow> request \<Rightarrow> session \<Rightarrow> run_host \<Rightarrow> handled" where
  "op_approvals_decide L c req s h =
     needs (cx_id c) ''missing approval_id'' (str_param (rq_params req) ''approval_id'') s h (\<lambda>approval_id.
       let approved = (rq_op req = ''approvals.approve'') in
       calls (cx_id c) h (approval_decide L (cx_actor c) approval_id approved s) (\<lambda>_ s1.
         answer_ok (cx_id c)
           (jobj [(''approval_id'', JStr approval_id),
                  (''status'', JStr (if approved then ''approved'' else ''denied''))]) s1 h))"

section \<open>Human sessions\<close>

definition ttl_param :: "request \<Rightarrow> nat option" where
  "ttl_param req =
     (case get_member (rq_params req) ''ttl_secs'' of
        None \<Rightarrow> Some SESSION_DEFAULT_TTL_SECS
      | Some JNull \<Rightarrow> Some SESSION_DEFAULT_TTL_SECS
      | Some v \<Rightarrow> as_u64 v)"

definition op_session_open ::
  "('z) broker_lib_scheme \<Rightarrow> op_context \<Rightarrow> request \<Rightarrow> session \<Rightarrow> run_host \<Rightarrow> handled" where
  "op_session_open L c req s h =
     (if has_session req then session_expired_answer (cx_id c) s h
      else if cx_proof c = None
      then answer_err (cx_id c) ''E_AUTH'' ''authentication failed''
             (audit_denied L (cx_actor c) ''session.open'' None [] None Auth s) h
      else needs (cx_id c) ''invalid ttl_secs'' (ttl_param req) s h (\<lambda>ttl_secs.
        calls (cx_id c) h (session_open L (cx_actor c) ttl_secs s)
          (\<lambda>(credential, prefix, expires_in, max_expires_in) s1.
            answer_ok (cx_id c) (jobj (minted_fields L s1 credential prefix expires_in max_expires_in)) s1 h)))"

definition op_session_touch ::
  "('z) broker_lib_scheme \<Rightarrow> op_context \<Rightarrow> request \<Rightarrow> session \<Rightarrow> run_host \<Rightarrow> handled" where
  "op_session_touch L c req s h =
     (case session_credential req of
        None \<Rightarrow> session_expired_answer (cx_id c) s h
      | Some credential \<Rightarrow>
          calls (cx_id c) h (session_touch L credential s) (\<lambda>(_, expires_in, max_expires_in) s1.
            case session_display_times s1 expires_in max_expires_in of (expires_at, max_expires_at) \<Rightarrow>
              answer_ok (cx_id c)
                (jobj [(''expires_at'', JStr (show_time L expires_at)), (''expires_in'', jnat expires_in),
                       (''max_expires_at'', JStr (show_time L max_expires_at)),
                       (''max_expires_in'', jnat max_expires_in)]) s1 h))"

definition op_session_close ::
  "('z) broker_lib_scheme \<Rightarrow> op_context \<Rightarrow> request \<Rightarrow> session \<Rightarrow> run_host \<Rightarrow> handled" where
  "op_session_close L c req s h =
     (case session_credential req of
        None \<Rightarrow> session_expired_answer (cx_id c) s h
      | Some credential \<Rightarrow>
          calls (cx_id c) h (session_close L credential s) (\<lambda>_ s1.
            answer_ok (cx_id c) (jobj [(''closed'', JBool True)]) s1 h))"

section \<open>Live runs\<close>

definition run_value :: "('z) broker_lib_scheme \<Rightarrow> vault_document option \<Rightarrow> string \<times> run_meta \<Rightarrow> json" where
  "run_value L d x =
     (case x of (run_id, m) \<Rightarrow>
        jobj [(''run_id'', JStr run_id),
              (''agent'', JStr (case named_agent d (rm_agent m) of None \<Rightarrow> rm_agent m | Some n \<Rightarrow> n)),
              (''project'', JStr (rm_project m)), (''pid'', JInt (rm_pid m)),
              (''started_at'', JStr (show_time L (rm_started_at m))), (''status'', JStr ''running'')])"

text \<open>\<open>sort_by\<close> on the run id of the built values; the ids are the keys of the registry.\<close>

definition op_runs_list :: "('z) broker_lib_scheme \<Rightarrow> op_context \<Rightarrow> session \<Rightarrow> run_host \<Rightarrow> handled" where
  "op_runs_list L c s h =
     (let out = map (run_value L (s_doc s)) (sort_key fst (rh_runs h)) in
      calls (cx_id c) h (audit_record L (cx_actor c) (plain_record (cx_actor c) ''runs.list'') s) (\<lambda>_ s1.
        answer_ok (cx_id c) (jobj [(''runs'', JArr out)]) s1 h))"

end
