(* ===== verification/BrokerAgentOps.thy ===== *)
theory BrokerAgentOps
  imports BrokerSessionOps
begin

text \<open>
  \<open>src/broker.rs\<close>, the arms of \<open>dispatch_op\<close> an agent reaches: file injection, secret names, leases,
  reveals and their approvals, and signals to its own runs.
\<close>

text \<open>The arms that need an agent: anything else is refused.\<close>

definition needs_agent ::
  "op_context \<Rightarrow> string \<Rightarrow> session \<Rightarrow> run_host \<Rightarrow> (string \<Rightarrow> handled) \<Rightarrow> handled" where
  "needs_agent c msg s h k =
     (case cx_identity c of
        Agent agent_id \<Rightarrow> k agent_id
      | _ \<Rightarrow> answer_err (cx_id c) ''E_AUTH'' msg s h)"

section \<open>Injection and names\<close>

definition op_inject_file ::
  "('z) broker_lib_scheme \<Rightarrow> 'fd kernel \<Rightarrow> op_context \<Rightarrow> request \<Rightarrow> session \<Rightarrow> run_host \<Rightarrow> handled" where
  "op_inject_file L K c req s h =
     (let i = cx_id c; actor = cx_actor c; op = ''inject_file'' in
      case cx_identity c of
        Agent agent_id \<Rightarrow>
          needs i ''missing project'' (str_param (rq_params req) ''project'') s h (\<lambda>project.
          needs i ''missing path'' (str_param (rq_params req) ''path'') s h (\<lambda>path.
            if is_locked s
            then answer_err i ''E_LOCKED'' ''vault is locked''
                   (audit_denied L actor op (Some project) [] None Locked s) h
            else case lease_credential_param req of
              Inl why \<Rightarrow>
                answer_err i ''E_INVALID_INPUT'' why
                  (audit_denied L actor op (Some project) [] None (InvalidInput why) s) h
            | Inr credential \<Rightarrow>
                calls i h (authorize_lease L agent_id project OpInject credential s) (\<lambda>op_actor s1.
                  case keys_param (rq_params req) of
                    Inl why \<Rightarrow>
                      answer_err i ''E_INVALID_INPUT'' why
                        (audit_denied L actor op (Some project) [] None (InvalidInput why) s1) h
                  | Inr keys \<Rightarrow>
                      calls_opt i h (inject_file L K op_actor project path keys s1) (\<lambda>report s2.
                        answer_ok i
                          (jobj [(''path'', JStr (ir_path report)), (''count'', jnat (length (ir_keys report))),
                                 (''keys'', jstrs (ir_keys report))]) s2 h))))
      | _ \<Rightarrow>
          answer_err i ''E_AUTH'' ''inject_file requires agent credentials''
            (audit_denied L actor op None [] None Auth s) h)"

definition op_secrets_list ::
  "('z) broker_lib_scheme \<Rightarrow> op_context \<Rightarrow> request \<Rightarrow> session \<Rightarrow> run_host \<Rightarrow> handled" where
  "op_secrets_list L c req s h =
     (let i = cx_id c; actor = cx_actor c in
      needs i ''missing project'' (str_param (rq_params req) ''project'') s h (\<lambda>project.
        let finish = (\<lambda>op_actor s1.
          calls i h (secret_list L project op_actor s1) (\<lambda>xs s2.
            answer_ok i
              (jobj [(''secrets'', JArr (map (\<lambda>(k, u).
                 jobj [(''key'', JStr k), (''updated'', JStr (show_time L u))]) xs))]) s2 h)) in
        case cx_identity c of
          Agent agent_id \<Rightarrow>
            if is_locked s
            then answer_err i ''E_LOCKED'' ''vault is locked''
                   (audit_denied L actor ''secrets.list'' (Some project) [] None Locked s) h
            else (case lease_credential_param req of
                    Inl why \<Rightarrow> answer_err i ''E_INVALID_INPUT'' why s h
                  | Inr credential \<Rightarrow>
                      calls i h (authorize_lease L agent_id project OpRead credential s) finish)
        | _ \<Rightarrow> finish actor s))"

section \<open>Leases\<close>

definition op_lease_create ::
  "('z) broker_lib_scheme \<Rightarrow> op_context \<Rightarrow> request \<Rightarrow> session \<Rightarrow> run_host \<Rightarrow> handled" where
  "op_lease_create L c req s h =
     (let i = cx_id c in
      needs_agent c ''lease.create requires agent credentials'' s h (\<lambda>agent_id.
      needs i ''missing project'' (str_param (rq_params req) ''project'') s h (\<lambda>project.
      calls i h (ops_param req, s) (\<lambda>ops s.
      needs i ''missing ttl_secs'' (as_u64 (index_member (rq_params req) ''ttl_secs'')) s h (\<lambda>ttl_secs.
      calls_opt i h (lease_create L (cx_actor c) agent_id project ops ttl_secs s) (\<lambda>(l, credential) s1.
        answer_ok i
          (jobj [(''lease_id'', JStr (l_id l)), (''lease_prefix'', JStr (l_credential_prefix l)),
                 (''lease_credential'', JStr credential), (''expires_at'', JStr (show_time L (l_expires_at l))),
                 (''expires_in'', jnat ttl_secs)]) s1 h))))))"

text \<open>The owner filter: agents see and name their own leases, a human all of them. The last case is
  the \<open>unreachable!\<close> of the code.\<close>

definition lease_owner :: "identity \<Rightarrow> string option option" where
  "lease_owner who =
     (case who of Agent agent_id \<Rightarrow> Some (Some agent_id) | Human \<Rightarrow> Some None | Unauthenticated \<Rightarrow> None)"

definition lease_value :: "('z) broker_lib_scheme \<Rightarrow> vault_document option \<Rightarrow> time \<Rightarrow> lease \<Rightarrow> json" where
  "lease_value L d now l =
     jobj [(''lease_id'', JStr (l_id l)), (''lease_prefix'', JStr (l_credential_prefix l)),
           (''project'', JStr (named_project d (l_project_id l))), (''ops'', jstrs (map op_name (l_ops l))),
           (''expires_at'', JStr (show_time L (l_expires_at l))),
           (''expires_in'', jnat (whole_seconds_left (l_expires_at l) now)),
           (''status'', JStr (if l_revoked_at l \<noteq> None then ''revoked''
                              else if now \<ge> l_expires_at l then ''expired'' else ''active''))]"

definition op_lease_list ::
  "('z) broker_lib_scheme \<Rightarrow> op_context \<Rightarrow> session \<Rightarrow> run_host \<Rightarrow> handled" where
  "op_lease_list L c s h =
     (case lease_owner (cx_identity c) of
        None \<Rightarrow> None
      | Some owner \<Rightarrow>
          calls (cx_id c) h (lease_list L (cx_actor c) owner s) (\<lambda>ls s1.
            answer_ok (cx_id c)
              (jobj [(''leases'', JArr (map (lease_value L (s_doc s1) (w_wall (s_world s1))) ls))]) s1 h))"

definition op_lease_revoke ::
  "('z) broker_lib_scheme \<Rightarrow> op_context \<Rightarrow> request \<Rightarrow> session \<Rightarrow> run_host \<Rightarrow> handled" where
  "op_lease_revoke L c req s h =
     (case lease_owner (cx_identity c) of
        None \<Rightarrow> None
      | Some owner \<Rightarrow>
          needs (cx_id c) ''missing lease_id'' (str_param (rq_params req) ''lease_id'') s h (\<lambda>lease_id.
            calls (cx_id c) h (lease_revoke L (cx_actor c) owner lease_id s) (\<lambda>_ s1.
              answer_ok (cx_id c) (jobj [(''lease_id'', JStr lease_id), (''revoked'', JBool True)]) s1 h)))"

section \<open>Reveals\<close>

definition reveal_value ::
  "string \<Rightarrow> string \<Rightarrow> session \<Rightarrow> run_host \<Rightarrow> handled" where
  "reveal_value i val s h =
     (if valid_utf8 val then answer_ok i (jobj [(''value'', JStr val)]) s h
      else answer_err i ''E_INVALID_INPUT'' ''secret is not valid UTF-8'' s h)"

definition reveal_as_human ::
  "('z) broker_lib_scheme \<Rightarrow> op_context \<Rightarrow> request \<Rightarrow> session \<Rightarrow> run_host \<Rightarrow> handled" where
  "reveal_as_human L c req s h =
     (let i = cx_id c in
      if (case get_member (rq_params req) ''approval_id'' of None \<Rightarrow> False | Some v \<Rightarrow> \<not> is_null v)
      then answer_err i ''E_INVALID_INPUT'' ''human reveal takes no approval_id'' s h
      else needs i ''missing project'' (str_param (rq_params req) ''project'') s h (\<lambda>project.
           needs i ''missing key'' (str_param (rq_params req) ''key'') s h (\<lambda>key.
           calls i h (reveal_human L (cx_actor c) project key s) (\<lambda>val s1. reveal_value i val s1 h))))"

definition reveal_as_agent ::
  "('z) broker_lib_scheme \<Rightarrow> op_context \<Rightarrow> string \<Rightarrow> request \<Rightarrow> session \<Rightarrow> run_host \<Rightarrow> handled" where
  "reveal_as_agent L c agent_id req s h =
     (let i = cx_id c in
      needs i ''missing project'' (str_param (rq_params req) ''project'') s h (\<lambda>project.
      needs i ''missing key'' (str_param (rq_params req) ''key'') s h (\<lambda>key.
      case lease_credential_param req of
        Inl why \<Rightarrow> answer_err i ''E_INVALID_INPUT'' why s h
      | Inr credential \<Rightarrow>
          calls i h (authorize_lease L agent_id project OpReveal credential s) (\<lambda>op_actor s1.
            case str_param (rq_params req) ''approval_id'' of
              Some approval_id \<Rightarrow>
                calls i h (reveal_claim L op_actor agent_id project key approval_id s1)
                  (\<lambda>val s2. reveal_value i val s2 h)
            | None \<Rightarrow>
                calls_opt i h (approval_request L op_actor agent_id project key s1) (\<lambda>a s2.
                  Some (Inl (response_err_data i ''E_APPROVAL_PENDING'' ''approval pending''
                          (jobj [(''approval_id'', JStr (ap_id a)),
                                 (''expires_in'', jnat (whole_seconds_left (ap_pending_expires_at a)
                                                          (w_wall (s_world s2))))])), s2, h))))))"

definition op_reveal ::
  "('z) broker_lib_scheme \<Rightarrow> op_context \<Rightarrow> request \<Rightarrow> session \<Rightarrow> run_host \<Rightarrow> handled" where
  "op_reveal L c req s h =
     (if cx_identity c = Human then reveal_as_human L c req s h
      else needs_agent c ''reveal requires agent credentials'' s h (\<lambda>agent_id.
             reveal_as_agent L c agent_id req s h))"

definition op_approvals_status ::
  "('z) broker_lib_scheme \<Rightarrow> op_context \<Rightarrow> request \<Rightarrow> session \<Rightarrow> run_host \<Rightarrow> handled" where
  "op_approvals_status L c req s h =
     (let i = cx_id c in
      needs_agent c ''approvals.status requires agent credentials'' s h (\<lambda>agent_id.
      needs i ''missing approval_id'' (str_param (rq_params req) ''approval_id'') s h (\<lambda>approval_id.
      calls i h (approval_status L agent_id approval_id s) (\<lambda>st s1.
        let found = (case s_doc s1 of None \<Rightarrow> None
                     | Some d \<Rightarrow> find (\<lambda>a. ap_id a = approval_id) (d_approvals d));
            details = (case found of
              None \<Rightarrow> ([], [], 0)
            | Some a \<Rightarrow>
                (named_project (s_doc s1) (ap_project_id a), ap_key a,
                 whole_seconds_left
                   (case ap_claim_expires_at a of None \<Rightarrow> ap_pending_expires_at a | Some e \<Rightarrow> e)
                   (w_wall (s_world s1))))
        in answer_ok i
             (jobj [(''approval_id'', JStr approval_id), (''status'', JStr st), (''project'', JStr (fst details)),
                    (''key'', JStr (fst (snd details))), (''expires_in'', jnat (snd (snd details)))]) s1 h))))"

section \<open>Signals to runs\<close>

definition run_signal_denied ::
  "('z) broker_lib_scheme \<Rightarrow> op_context \<Rightarrow> string \<Rightarrow> string \<Rightarrow> string \<Rightarrow> string \<Rightarrow> session \<Rightarrow> run_host \<Rightarrow> handled" where
  "run_signal_denied L c project run_id cd msg s h =
     answer_err (cx_id c) cd msg (snd (audit_run_signal L (cx_actor c) project run_id Denied (Some cd) s)) h"

definition may_run :: "session \<Rightarrow> string \<Rightarrow> string \<Rightarrow> bool" where
  "may_run s agent_id project =
     (case s_doc s of
        None \<Rightarrow> False
      | Some d \<Rightarrow> (case project_by_name d project of
          None \<Rightarrow> False | Some p \<Rightarrow> authorize d agent_id (p_id p) OpRun))"

text \<open>The registry cannot change while the session is held by this request, so the recheck before the
  signal sees the entry of the lookup unless the run finished meanwhile; both branches are here.\<close>

definition op_run_signal ::
  "('z) broker_lib_scheme \<Rightarrow> op_context \<Rightarrow> request \<Rightarrow> session \<Rightarrow> run_host \<Rightarrow> handled" where
  "op_run_signal L c req s h =
     (let i = cx_id c; actor = cx_actor c;
          no = (\<lambda>e s. audit_denied L actor ''run_signal'' None [] None e s) in
      case cx_identity c of
        Agent agent_id \<Rightarrow>
          (case str_param (rq_params req) ''run_id'' of
             None \<Rightarrow> answer_err i ''E_INVALID_INPUT'' ''missing run_id'' (no (InvalidInput ''missing run_id'') s) h
           | Some run_id \<Rightarrow>
          (case str_param (rq_params req) ''signal'' of
             None \<Rightarrow> answer_err i ''E_INVALID_INPUT'' ''missing signal'' (no (InvalidInput ''missing signal'') s) h
           | Some sig_name \<Rightarrow>
          (case lookup_owned agent_id run_id (rh_runs h) of
             None \<Rightarrow> answer_err i ''E_NOT_FOUND'' ''not found'' (no NotFound s) h
           | Some (project, _, pgid) \<Rightarrow>
          (case ensure_run_unlocked L s of
             (Inl _, s1) \<Rightarrow> run_signal_denied L c project run_id (code Locked) ''vault is locked'' s1 h
           | (Inr _, s1) \<Rightarrow>
               if \<not> may_run s1 agent_id project
               then run_signal_denied L c project run_id (code Permission) ''permission denied'' s1 h
               else (case parse_signal sig_name of
                 Inl e \<Rightarrow> run_signal_denied L c project run_id (code e) (display_error e) s1 h
               | Inr sig \<Rightarrow>
                   (case lookup_owned agent_id run_id (rh_runs h) of
                      None \<Rightarrow> answer_err i ''E_NOT_FOUND'' ''not found'' (no NotFound s1) h
                    | Some (live_project, _, live_pgid) \<Rightarrow>
                        if live_project \<noteq> project \<or> live_pgid \<noteq> pgid
                        then answer_err i ''E_NOT_FOUND'' ''not found'' (no NotFound s1) h
                        else (case signal_group L pgid sig of
                          (Inl e, _) \<Rightarrow> run_signal_denied L c project run_id (code (Io e)) ''signal failed'' s1 h
                        | (Inr _, sent) \<Rightarrow>
                            (let h1 = h\<lparr>rh_signals := rh_signals h @ sent\<rparr> in
                             case audit_run_signal L actor project run_id Allowed None s1 of
                               (Inl _, s2) \<Rightarrow> answer_err i ''E_AUDIT_WRITE'' ''audit write failed'' s2 h1
                             | (Inr _, s2) \<Rightarrow>
                                 answer_ok i (jobj [(''run_id'', JStr run_id), (''signaled'', JBool True)]) s2 h1))))))))
      | _ \<Rightarrow>
          answer_err i ''E_AUTH'' ''run_signal requires agent credentials'' (no Auth s) h)"

end
