(* ===== verification/HostProcess.thy ===== *)
theory HostProcess
  imports Fsops
begin

text \<open>
  What the code of the daemon and of its clients reads of the process it runs in, and the functions
  of \<open>std::path\<close> and \<open>std::string\<close> that only they use: the environment, the working directory, the
  effective user, \<open>to_string_lossy\<close> and \<open>with_extension\<close>.
\<close>

record process =
  pr_env :: "string \<Rightarrow> string option"
  pr_cwd :: "string option"
  pr_euid :: nat

text \<open>\<open>std::env::var\<close>: set, and UTF-8.\<close>

definition env_var :: "process \<Rightarrow> string \<Rightarrow> string option" where
  "env_var pr name =
     (case pr_env pr name of None \<Rightarrow> None | Some v \<Rightarrow> if valid_utf8 v then Some v else None)"

section \<open>Lossy decoding\<close>

text \<open>\<open>String::from_utf8_lossy\<close>: the length of the next sequence and whether it is well formed. An
  ill-formed one ends before the first byte that cannot continue it and becomes one replacement
  character.\<close>

fun next_is :: "(nat \<Rightarrow> bool) \<Rightarrow> nat list \<Rightarrow> bool" where
  "next_is P [] = False"
| "next_is P (b # r) = P b"

fun utf8_chunk :: "nat list \<Rightarrow> nat \<times> bool" where
  "utf8_chunk [] = (0, True)"
| "utf8_chunk (a # r) =
     (if a < 128 then (1, True)
      else if 194 \<le> a \<and> a < 224 then (if next_is is_cont r then (2, True) else (1, False))
      else if 224 \<le> a \<and> a < 240 then
        (if \<not> next_is (\<lambda>b. (if a = 224 then 160 else 128) \<le> b \<and> b < (if a = 237 then 160 else 192)) r
           then (1, False)
         else if \<not> next_is is_cont (drop 1 r) then (2, False) else (3, True))
      else if 240 \<le> a \<and> a < 245 then
        (if \<not> next_is (\<lambda>b. (if a = 240 then 144 else 128) \<le> b \<and> b < (if a = 244 then 144 else 192)) r
           then (1, False)
         else if \<not> next_is is_cont (drop 1 r) then (2, False)
         else if \<not> next_is is_cont (drop 2 r) then (3, False) else (4, True))
      else (1, False))"

function lossy_bytes :: "nat list \<Rightarrow> nat list" where
  "lossy_bytes [] = []"
| "lossy_bytes (a # r) =
     (case utf8_chunk (a # r) of (n, ok) \<Rightarrow>
        (if ok then take n (a # r) else [239, 191, 189]) @ lossy_bytes (drop n (a # r)))"
  by pat_completeness auto

termination lossy_bytes
  by (relation "measure length") (auto split: if_splits)

definition to_string_lossy :: "string \<Rightarrow> string" where
  "to_string_lossy s = map char_of (lossy_bytes (map of_char s))"

lemma lossy_bytes_ascii: "(\<forall>b\<in>set bs. b < 128) \<Longrightarrow> lossy_bytes bs = bs"
  by (induction bs) simp_all

lemma to_string_lossy_ascii: "(\<forall>c\<in>set s. (of_char c :: nat) < 128) \<Longrightarrow> to_string_lossy s = s"
  by (simp add: to_string_lossy_def lossy_bytes_ascii map_idI)

section \<open>Extensions\<close>

text \<open>\<open>Path::with_extension\<close>: what follows the last dot of the file name is replaced, unless that
  dot is its first character.\<close>

definition file_stem :: "string \<Rightarrow> string" where
  "file_stem n =
     (let before = rev (List.tl (dropWhile (\<lambda>c. c \<noteq> CHR ''.'') (rev n)))
      in if CHR ''.'' \<notin> set n \<or> before = [] then n else before)"

definition with_extension :: "string \<Rightarrow> string \<Rightarrow> string" where
  "with_extension p ext =
     (case file_name p of None \<Rightarrow> p | Some n \<Rightarrow> dir_part p @ file_stem n @ CHR ''.'' # ext)"

section \<open>Lexical normal form\<close>

fun lexical :: "string list \<Rightarrow> component list \<Rightarrow> string list" where
  "lexical parts [] = parts"
| "lexical parts (RootDir # cs) = lexical [] cs"
| "lexical parts (CurDir # cs) = lexical parts cs"
| "lexical parts (ParentDir # cs) = lexical (butlast parts) cs"
| "lexical parts (Normal c # cs) = lexical (parts @ [c]) cs"

end
