(* ===== verification/BrokerIdentity.thy ===== *)
theory BrokerIdentity
  imports HostProcess Wire
begin

text \<open>
  \<open>src/broker_identity.rs\<close>: the daemon's signing identity, the signed answer to \<open>broker.hello\<close>, and
  the client's pins. Ed25519 and the codec of \<open>serde_json::Value\<close> are parameters. A secret key is
  the 32 bytes of its file; \<open>ed_point\<close> tells whether 32 bytes are a public key at all.
\<close>

record identity_lib = wire_lib +
  ed_public :: "string \<Rightarrow> string"
  ed_sign :: "string \<Rightarrow> string \<Rightarrow> string"
  ed_point :: "string \<Rightarrow> bool"
  ed_verify :: "string \<Rightarrow> string \<Rightarrow> string \<Rightarrow> bool"
  value_ser :: "json \<Rightarrow> string"
  value_de :: "string \<Rightarrow> json option"

definition DOMAIN :: string where "DOMAIN = ''svault/broker-hello/v1''"
definition HELLO_NONCE_LEN :: nat where "HELLO_NONCE_LEN = 32"
definition HELLO_OP :: string where "HELLO_OP = ''broker.hello''"

section \<open>Paths\<close>

definition default_socket_path :: "process \<Rightarrow> string res" where
  "default_socket_path pr =
     (case env_var pr ''XDG_RUNTIME_DIR'' of
        None \<Rightarrow> Inl (Io (Io_Error None ''XDG_RUNTIME_DIR not set''))
      | Some runtime \<Rightarrow> Inr (path_join (path_join runtime ''svault'') ''svault.sock''))"

definition identity_path :: "string \<Rightarrow> string" where
  "identity_path vault =
     with_file_name vault
       ((case file_name vault of None \<Rightarrow> ''vault.enc'' | Some n \<Rightarrow> to_string_lossy n) @ ''.broker-id'')"

definition pin_dir :: "process \<Rightarrow> string res" where
  "pin_dir pr =
     res_bind
       (case env_var pr ''XDG_DATA_HOME'' of
          Some v \<Rightarrow> if v \<noteq> [] then Inr v else
            (case env_var pr ''HOME'' of None \<Rightarrow> Inl (Io (Io_Error None ''HOME not set''))
             | Some home \<Rightarrow> Inr (path_join home ''.local/share''))
        | None \<Rightarrow>
            (case env_var pr ''HOME'' of None \<Rightarrow> Inl (Io (Io_Error None ''HOME not set''))
             | Some home \<Rightarrow> Inr (path_join home ''.local/share'')))
       (\<lambda>base. Inr (path_join (path_join base ''svault'') ''pins''))"

text \<open>Absolute and lexical only; nothing is looked up.\<close>

definition canonical_socket_path :: "process \<Rightarrow> string \<Rightarrow> string" where
  "canonical_socket_path pr socket =
     (let abs = (if is_absolute socket then socket
                 else path_join (case pr_cwd pr of None \<Rightarrow> [SLASH] | Some d \<Rightarrow> d) socket)
      in SLASH # join_slash (lexical [] (components abs)))"

definition pin_path :: "('z) crypto_lib_scheme \<Rightarrow> process \<Rightarrow> string \<Rightarrow> string res" where
  "pin_path L pr socket =
     (let digest = sha256 L (canonical_socket_path pr socket)
      in res_bind (pin_dir pr) (\<lambda>d. Inr (path_join d (hex digest @ ''.pin''))))"

section \<open>Fingerprints\<close>

definition fingerprint :: "string \<Rightarrow> string" where
  "fingerprint public_key = hex public_key"

definition parse_fingerprint :: "string \<Rightarrow> string res" where
  "parse_fingerprint s =
     (if length s \<noteq> 64 \<or> \<not> list_all (\<lambda>c. to_digit16 c \<noteq> None) s
      then Inl (InvalidInput ''fingerprint must be 64 hex characters'')
      else ok_or (InvalidInput ''fingerprint must be 64 hex characters'') (unhex_pairs s))"

text \<open>The bytes that are signed.\<close>

definition signed_message :: "process \<Rightarrow> string \<Rightarrow> string \<Rightarrow> string \<Rightarrow> string" where
  "signed_message pr client_nonce server_nonce socket =
     DOMAIN @ client_nonce @ server_nonce @ canonical_socket_path pr socket"

section \<open>The daemon's identity\<close>

text \<open>The temporary file is created exclusively, or truncated; a failure after that leaves it behind.
  Setting its mode is best effort.\<close>

definition write_identity :: "bool \<Rightarrow> string \<Rightarrow> string \<Rightarrow> string \<Rightarrow> world \<Rightarrow> unit res \<times> world" where
  "write_identity exclusive tmp path key w =
     (if exclusive \<and> w_dir w tmp \<noteq> None then (Inl (Io (Io_Error (Some 17) ''File exists'')), tick w)
      else if fault_now w \<noteq> None then (Inl io_failed, tick w)
      else (let w1 = tick (set_file tmp (Some []) w) in
        case fault_now w1 of
          Some k \<Rightarrow> (Inl io_failed, tick (set_file tmp (Some (take k key)) w1))
        | None \<Rightarrow>
            (let w2 = tick (set_file tmp (Some key) w1) in
             if fault_now w2 \<noteq> None then (Inl io_failed, tick w2)
             else (let w4 = tick (tick w2) in
               if fault_now w4 \<noteq> None then (Inl io_failed, tick w4)
               else (Inr (), tick (set_file path (Some key) (set_file tmp None w4)))))))"

definition load_or_generate :: "string \<Rightarrow> world \<Rightarrow> string res \<times> world" where
  "load_or_generate vault w =
     (let path = identity_path vault in
      case w_dir w path of
        Some bytes \<Rightarrow>
          (if fault_now w \<noteq> None then (Inl io_failed, tick w)
           else if length bytes \<noteq> 32 then (Inl (Corrupt ''broker identity file''), tick w)
           else (Inr bytes, tick w))
      | None \<Rightarrow>
          try_bind (if dir_part path = [] then (Inr (), w) else ensure_private_dir (dir_part path) w) (\<lambda>_ w1.
            try_bind (random_bytes 32 w1) (\<lambda>key w2.
              try_bind (write_identity True (with_extension path ''broker-id.tmp'') path key w2) (\<lambda>_ w3.
                (Inr key, w3)))))"

definition regenerate :: "('y) identity_lib_scheme \<Rightarrow> string \<Rightarrow> world \<Rightarrow> string res \<times> world" where
  "regenerate E vault w =
     (let path = identity_path vault in
      try_bind (if dir_part path = [] then (Inr (), w) else ensure_private_dir (dir_part path) w) (\<lambda>_ w1.
        try_bind (random_bytes 32 w1) (\<lambda>key w2.
          try_bind (write_identity False (with_extension path ''broker-id.tmp'') path key w2) (\<lambda>_ w3.
            (Inr (ed_public E key), w3)))))"

definition hello_reply ::
  "('y) identity_lib_scheme \<Rightarrow> process \<Rightarrow> string \<Rightarrow> string \<Rightarrow> string \<Rightarrow> world \<Rightarrow> (string \<times> string) res \<times> world" where
  "hello_reply E pr secret client_nonce socket w =
     try_bind (random_bytes HELLO_NONCE_LEN w) (\<lambda>server_nonce w1.
       (Inr (server_nonce, ed_sign E secret (signed_message pr client_nonce server_nonce socket)), w1))"

definition verify_hello ::
  "('y) identity_lib_scheme \<Rightarrow> process \<Rightarrow> string \<Rightarrow> string \<Rightarrow> string \<Rightarrow> string \<Rightarrow> string \<Rightarrow> unit res" where
  "verify_hello E pr public_key client_nonce server_nonce signature socket =
     (if \<not> ed_point E public_key then Inl (BrokerUntrusted ''broker public key is malformed'')
      else if ed_verify E public_key (signed_message pr client_nonce server_nonce socket) signature
      then Inr () else Inl (BrokerUntrusted ''broker signature verification failed''))"

section \<open>Pins\<close>

datatype pin_decision = Proceed string | NeedHumanConfirm string

definition corrupt_pin :: vault_error where
  "corrupt_pin = BrokerUntrusted ''broker pin file is corrupt; delete it and re-pin at a TTY''"

definition store_pin ::
  "('z) crypto_lib_scheme \<Rightarrow> ('y) identity_lib_scheme \<Rightarrow> process \<Rightarrow> string \<Rightarrow> string \<Rightarrow> world \<Rightarrow> unit res \<times> world" where
  "store_pin L E pr socket public_key w =
     try_bind (pin_path L pr socket, w) (\<lambda>path w.
       try_bind (ensure_private_dir (dir_part path) w) (\<lambda>_ w1.
         try_bind (save_atomic path
             (value_ser E (jobj [(''socket'', JStr (to_string_lossy (canonical_socket_path pr socket))),
                                 (''key_hex'', JStr (hex public_key))])) w1) (\<lambda>_ w2.
           (Inr (), tick w2))))"

text \<open>The bytes of a pin file; a pin of 32 raw bytes is from before the JSON form.\<close>

definition read_pin ::
  "('y) identity_lib_scheme \<Rightarrow> process \<Rightarrow> string \<Rightarrow> string \<Rightarrow> string res" where
  "read_pin E pr socket bytes =
     (if length bytes = 32 \<and> hd bytes \<noteq> CHR ''{'' then Inr bytes
      else case value_de E bytes of
        None \<Rightarrow> Inl corrupt_pin
      | Some v \<Rightarrow>
          (case Option.bind (get_member v ''socket'') as_str of
             None \<Rightarrow> Inl corrupt_pin
           | Some stored \<Rightarrow>
               if stored \<noteq> to_string_lossy (canonical_socket_path pr socket)
               then Inl (BrokerUntrusted ''broker pin is for a different socket path; refusing to send credentials (re-pin this exact path at a TTY)'')
               else (case Option.bind (get_member v ''key_hex'') as_str of
                 None \<Rightarrow> Inl corrupt_pin
               | Some h \<Rightarrow>
                   (case unhex h of
                      None \<Rightarrow> Inl corrupt_pin
                    | Some raw \<Rightarrow> if length raw = 32 then Inr raw else Inl corrupt_pin))))"

definition load_pin ::
  "('z) crypto_lib_scheme \<Rightarrow> ('y) identity_lib_scheme \<Rightarrow> process \<Rightarrow> string \<Rightarrow> world \<Rightarrow> string option res \<times> world" where
  "load_pin L E pr socket w =
     try_bind (pin_path L pr socket, w) (\<lambda>path w.
       case w_dir w path of
         None \<Rightarrow> (Inr None, w)
       | Some bytes \<Rightarrow>
           if fault_now w \<noteq> None then (Inl io_failed, tick w)
           else (res_bind (read_pin E pr socket bytes) (\<lambda>key. Inr (Some key)), tick w))"

definition no_pin_message :: string where
  "no_pin_message =
     ''no pinned broker identity for this socket; refusing to send credentials (a human must pin once at a TTY: run any svault command interactively, verify the fingerprint out-of-band, answer `yes`)''"

definition decide_pin ::
  "('z) crypto_lib_scheme \<Rightarrow> ('y) identity_lib_scheme \<Rightarrow> process \<Rightarrow> string \<Rightarrow> string \<Rightarrow> bool \<Rightarrow> string option \<Rightarrow> bool \<Rightarrow>
     world \<Rightarrow> pin_decision res \<times> world" where
  "decide_pin L E pr socket presented hello_ok trust_fingerprint interactive w =
     try_bind (load_pin L E pr socket w) (\<lambda>pin w1.
       (case pin of
          Some pinned \<Rightarrow>
            (if hello_ok \<and> pinned = presented then Inr (Proceed pinned)
             else Inl (BrokerUntrusted ''broker identity does not match the pinned key; refusing to send credentials (run `svault trust show` to compare, `trust reset` + re-pin after investigation)''))
        | None \<Rightarrow>
            (if \<not> hello_ok then Inl (BrokerUntrusted ''broker signature verification failed'')
             else if (case trust_fingerprint of None \<Rightarrow> False | Some fp \<Rightarrow> fp \<noteq> presented)
             then Inl (BrokerUntrusted ''broker fingerprint does not match --trust-fingerprint; refusing to send credentials'')
             else if \<not> interactive then Inl (BrokerUntrusted no_pin_message)
             else Inr (NeedHumanConfirm presented)),
        w1))"

section \<open>The client's side of the handshake\<close>

text \<open>The process at the other end of a connection: what becomes readable after the last of the lines
  that were written to it, or the error of writing that line.\<close>

type_synonym peer = "string list \<Rightarrow> io_error + stream"

text \<open>A field of the answer that must be so many bytes in hexadecimal.\<close>

definition hex_field :: "nat \<Rightarrow> string \<Rightarrow> json \<Rightarrow> string \<Rightarrow> string res" where
  "hex_field n msg v field =
     (case Option.bind (Option.bind (get_member v field) as_str) unhex of
        None \<Rightarrow> Inl (BrokerUntrusted msg)
      | Some raw \<Rightarrow> if length raw = n then Inr raw else Inl (BrokerUntrusted msg))"

definition parse_key :: "json \<Rightarrow> string \<Rightarrow> string res" where
  "parse_key v field = hex_field 32 ''broker handshake presented no public key'' v field"

definition parse_nonce :: "json \<Rightarrow> string res" where
  "parse_nonce v = hex_field HELLO_NONCE_LEN ''broker handshake presented no server nonce'' v ''server_nonce''"

definition parse_sig :: "json \<Rightarrow> string res" where
  "parse_sig v = hex_field 64 ''broker handshake presented no signature'' v ''signature''"

definition hello_line :: "('y) identity_lib_scheme \<Rightarrow> string \<Rightarrow> string \<Rightarrow> string" where
  "hello_line E i client_nonce =
     value_ser E (jobj [(''v'', jnat WIRE_VERSION), (''id'', JStr i), (''op'', JStr HELLO_OP),
                        (''params'', jobj [(''client_nonce'', JStr (hex client_nonce))])]) @ [NL]"

definition handshake_result :: "string \<Rightarrow> response \<Rightarrow> json res" where
  "handshake_result i resp =
     (if rs_id resp \<noteq> i then Inl (BrokerUntrusted ''broker handshake id mismatch'')
      else if \<not> rs_ok resp then Inl (BrokerUntrusted ''broker handshake refused'')
      else case rs_result resp of
        None \<Rightarrow> Inl (BrokerUntrusted ''broker handshake empty'')
      | Some r \<Rightarrow> Inr r)"

text \<open>The answer is read, checked and the signature verified, giving the presented key.\<close>

definition proven_key ::
  "('y) identity_lib_scheme \<Rightarrow> process \<Rightarrow> string \<Rightarrow> string \<Rightarrow> string \<Rightarrow> stream \<Rightarrow> string res" where
  "proven_key E pr socket i client_nonce answer =
     res_bind (map_err (\<lambda>_. BrokerUntrusted ''broker handshake failed'') (fst (read_response E answer))) (\<lambda>resp.
       res_bind (handshake_result i resp) (\<lambda>r.
         res_bind (parse_key r ''public_key'') (\<lambda>presented.
           res_bind (parse_nonce r) (\<lambda>server_nonce.
             res_bind (parse_sig r) (\<lambda>signature.
               res_bind (verify_hello E pr presented client_nonce server_nonce signature socket) (\<lambda>_.
                 Inr presented))))))"

definition must_pin_message :: string where
  "must_pin_message =
     ''no pinned broker identity for this socket; refusing to send credentials (a human must pin once at a TTY: run any `svault` command interactively, verify the fingerprint out-of-band, answer `yes`)''"

text \<open>The steps every handshake begins with: a fresh nonce, a fresh identifier, the one line that is
  built from them, and what the peer makes of it. The lines that were sent are part of the result.\<close>

definition challenge ::
  "(string \<Rightarrow> string \<Rightarrow> string) \<Rightarrow> peer \<Rightarrow> world \<Rightarrow> (string \<times> string \<times> stream) res \<times> string list \<times> world" where
  "challenge mk_line peer w =
     (case random_bytes HELLO_NONCE_LEN w of
        (Inl e, w1) \<Rightarrow> (Inl e, [], w1)
      | (Inr client_nonce, w1) \<Rightarrow>
          (case random_bytes 8 w1 of
             (Inl e, w2) \<Rightarrow> (Inl e, [], w2)
           | (Inr tag, w2) \<Rightarrow>
               (let line = mk_line (hex tag) client_nonce in
                (map_err Io (map_sum id (\<lambda>answer. (hex tag, client_nonce, answer)) (peer [line])), [line], w2))))"

definition handshake_strict ::
  "('z) crypto_lib_scheme \<Rightarrow> ('y) identity_lib_scheme \<Rightarrow> process \<Rightarrow> peer \<Rightarrow> string \<Rightarrow> world \<Rightarrow>
     unit res \<times> string list \<times> world" where
  "handshake_strict L E pr peer socket w =
     (case challenge (hello_line E) peer w of
        (Inl e, sent, w1) \<Rightarrow> (Inl e, sent, w1)
      | (Inr (i, client_nonce, answer), sent, w1) \<Rightarrow>
          (case proven_key E pr socket i client_nonce answer of
             Inl e \<Rightarrow> (Inl e, sent, w1)
           | Inr presented \<Rightarrow>
               (case decide_pin L E pr socket presented True None False w1 of
                  (Inl e, w2) \<Rightarrow> (Inl e, sent, w2)
                | (Inr (Proceed _), w2) \<Rightarrow> (Inr (), sent, w2)
                | (Inr (NeedHumanConfirm _), w2) \<Rightarrow> (Inl (BrokerUntrusted must_pin_message), sent, w2))))"

definition hello_request :: "string \<Rightarrow> string \<Rightarrow> request" where
  "hello_request i client_nonce =
     \<lparr>rq_v = WIRE_VERSION, rq_id = i, rq_op = HELLO_OP, rq_auth = None,
      rq_params = jobj [(''client_nonce'', JStr (hex client_nonce))]\<rparr>"

definition hello_request_line :: "('y) identity_lib_scheme \<Rightarrow> string \<Rightarrow> string \<Rightarrow> string" where
  "hello_request_line E i client_nonce = req_ser E (hello_request i client_nonce) @ [NL]"

text \<open>The probe for the fingerprint; \<open>connect\<close> is the attempt to reach the socket.\<close>

definition broker_fingerprint_live ::
  "('y) identity_lib_scheme \<Rightarrow> io_error + peer \<Rightarrow> world \<Rightarrow> string res \<times> world" where
  "broker_fingerprint_live E connect w =
     (case connect of
        Inl e \<Rightarrow> (Inl (Io e), w)
      | Inr peer \<Rightarrow>
          (case challenge (hello_request_line E) peer w of
             (Inl e, _, w1) \<Rightarrow> (Inl e, w1)
           | (Inr (i, _, answer), _, w1) \<Rightarrow>
               (res_bind (fst (read_response E answer)) (\<lambda>resp.
                  if rs_id resp \<noteq> i \<or> \<not> rs_ok resp
                  then Inl (BrokerUntrusted ''broker handshake refused'')
                  else res_bind (ok_or (BrokerUntrusted ''broker handshake empty'') (rs_result resp)) (\<lambda>r.
                    ok_or (BrokerUntrusted ''broker handshake presented no public key'')
                      (Option.bind (get_member r ''public_key'') as_str))), w1)))"

end
