(* ===== verification/BrokerDispatch.thy ===== *)
theory BrokerDispatch
  imports BrokerAgentOps BrokerIdentity
begin

text \<open>
  \<open>src/broker.rs\<close>, one request from its credentials to its answer: the human proof derived before
  the session is taken, the idle lock, authentication, the authorisation boundary every operation
  shares, the operation, and what is recorded or renewed afterwards. The daemon's state is the
  session (when a vault exists), the live runs and the deadline of the idle watchdog.
\<close>

section \<open>Operations by name\<close>

definition dispatch_op ::
  "('z) broker_lib_scheme \<Rightarrow> 'fd kernel \<Rightarrow> nat \<Rightarrow> request \<Rightarrow> op_context \<Rightarrow> session \<Rightarrow> run_host \<Rightarrow> handled" where
  "dispatch_op L K idle_secs req c s h =
     (let op = rq_op req in
      if op = ''inject_file'' then op_inject_file L K c req s h
      else if op = ''vault.status'' then op_vault_status L c s h
      else if op = ''vault.lock'' then op_vault_lock L c s h
      else if op = ''secrets.list'' then op_secrets_list L c req s h
      else if op = ''vault.unlock'' then op_vault_unlock L c req s h
      else if op = ''vault.create'' then op_vault_create c s h
      else if op = ''project.add'' then op_project_add L c req s h
      else if op = ''project.list'' then op_project_list L c s h
      else if op = ''project.path.add'' then op_project_path_add L c req s h
      else if op = ''project.path.remove'' then op_project_path_remove L c req s h
      else if op = ''project.remove'' then op_project_remove L c req s h
      else if op = ''secret.set'' then op_secret_set L c req s h
      else if op = ''secret.delete'' then op_secret_delete L c req s h
      else if op = ''agents.add'' then op_agents_add L c req s h
      else if op = ''agents.revoke'' then op_agents_revoke L c req s h
      else if op = ''agents.list'' then op_agents_list L c s h
      else if op = ''grants.grant'' then op_grants_grant L c req s h
      else if op = ''grants.revoke'' then op_grants_revoke L c req s h
      else if op = ''grants.list'' then op_grants_list L c s h
      else if op = ''audit.show'' then op_audit_show L c req s h
      else if op = ''audit.verify'' then op_audit_verify L c s h
      else if op = ''lease.create'' then op_lease_create L c req s h
      else if op = ''lease.list'' then op_lease_list L c s h
      else if op = ''lease.revoke'' then op_lease_revoke L c req s h
      else if op = ''reveal'' then op_reveal L c req s h
      else if op = ''approvals.status'' then op_approvals_status L c req s h
      else if op = ''approvals.pending'' then op_approvals_pending L c s h
      else if op = ''approvals.approve'' \<or> op = ''approvals.deny'' then op_approvals_decide L c req s h
      else if op = ''run_signal'' then op_run_signal L c req s h
      else if op = ''session.open'' then op_session_open L c req s h
      else if op = ''session.touch'' then op_session_touch L c req s h
      else if op = ''session.close'' then op_session_close L c req s h
      else if op = ''runs.list'' then op_runs_list L c s h
      else if op = ''vault.health'' then op_vault_health L idle_secs c s h
      else answer_err (cx_id c) ''E_PROTOCOL'' (''unknown op: '' @ op) s h)"

section \<open>Authentication\<close>

definition auth_token :: "request \<Rightarrow> string option" where
  "auth_token req = (case rq_auth req of None \<Rightarrow> None | Some a \<Rightarrow> au_token a)"

definition auth_passphrase :: "request \<Rightarrow> string option" where
  "auth_passphrase req = (case rq_auth req of None \<Rightarrow> None | Some a \<Rightarrow> au_passphrase a)"

definition agent_actor :: "string \<Rightarrow> string" where
  "agent_actor agent_id = ''agent:'' @ agent_id"

definition one_credential :: string where
  "one_credential = ''provide exactly one credential: a token, a passphrase, or a session''"

definition expired_response :: "string \<Rightarrow> response" where
  "expired_response i = response_err i ''E_SESSION_EXPIRED'' ''session expired or revoked''"

definition auth_failed :: "string \<Rightarrow> response" where
  "auth_failed i = response_err i ''E_AUTH'' ''authentication failed''"

text \<open>Who a request comes from, with the name the audit gives it, or the refusal.\<close>

definition authenticate ::
  "('z) vault_lib_scheme \<Rightarrow> request \<Rightarrow> derived_keks option \<Rightarrow> session \<Rightarrow> (response + identity \<times> string) \<times> session" where
  "authenticate L req proof s =
     (let i = rq_id req; op = rq_op req in
      if session_credential req = Some [] then
        (Inl (if auth_token req \<noteq> None \<or> auth_passphrase req \<noteq> None
              then response_err i ''E_PROTOCOL'' one_credential else expired_response i), s)
      else
        (case (auth_token req, auth_passphrase req, session_credential req) of
           (Some token, None, None) \<Rightarrow>
             (case resolve_agent L token s of
                Some agent_id \<Rightarrow> (Inr (Agent agent_id, agent_actor agent_id), s)
              | None \<Rightarrow> (Inl (auth_failed i), audit_denied L ''agent:unknown'' op None [] None Auth s))
         | (None, Some _, None) \<Rightarrow>
             if (case proof of None \<Rightarrow> False | Some d \<Rightarrow> proof_is_valid L d s)
             then (Inr (Human, ''human''), s)
             else (Inl (auth_failed i), audit_denied L ''unauthenticated'' op None [] None Auth s)
         | (None, None, Some credential) \<Rightarrow>
             (case authorize_session L credential s of
                (Inr actor, s1) \<Rightarrow> (Inr (Human, actor), s1)
              | (Inl _, s1) \<Rightarrow> (Inl (expired_response i), s1))
         | (None, None, None) \<Rightarrow> (Inr (Unauthenticated, ''unauthenticated''), s)
         | _ \<Rightarrow> (Inl (response_err i ''E_PROTOCOL'' one_credential), s)))"

section \<open>The boundary\<close>

text \<open>What is refused before any operation runs: unauthenticated requests, agents on human
  operations, leases on human requests, operations of later builds.\<close>

fun is_agent :: "identity \<Rightarrow> bool" where
  "is_agent (Agent _) = True"
| "is_agent _ = False"

lemma is_agent_iff [simp]: "is_agent who \<longleftrightarrow> (\<exists>a. who = Agent a)"
  by (cases who) simp_all

definition boundary ::
  "('z) vault_lib_scheme \<Rightarrow> request \<Rightarrow> identity \<Rightarrow> string \<Rightarrow> session \<Rightarrow> (response + unit) \<times> session" where
  "boundary L req who actor s =
     (let i = rq_id req; op = rq_op req in
      if who = Unauthenticated \<and> op \<noteq> ''vault.status'' then
        (Inl (response_err i ''E_AUTH'' ''unauthenticated: this operation requires agent or human credentials''),
         if op = [] then s else audit_denied L ''unauthenticated'' op None [] None Auth s)
      else if is_agent who \<and> op \<in> set HUMAN_ONLY then
        (Inl (response_err i ''E_HUMAN_REQUIRED'' ''this operation is human-only''),
         audit_denied L actor op None [] None HumanRequired s)
      else case (if who = Human then reject_lease_on_human_op req else Inr ()) of
        Inl why \<Rightarrow>
          (Inl (response_err i ''E_INVALID_INPUT'' why),
           audit_denied L actor op None [] None (InvalidInput why) s)
      | Inr _ \<Rightarrow>
          if op \<in> set NOT_YET then
            (Inl (response_err i ''E_PROTOCOL'' ''op not available in this build''),
             audit_denied L actor op None [] None (Protocol ''op not available in this build'') s)
          else (Inr (), s))"

text \<open>After the operation: an allowed one renews the session it came with, and a refusal that no arm
  recorded is recorded here. \<open>mark\<close> is the audit sequence before the operation.\<close>

definition settle ::
  "('z) vault_lib_scheme \<Rightarrow> request \<Rightarrow> string \<Rightarrow> nat \<Rightarrow> answer \<Rightarrow> session \<Rightarrow> session" where
  "settle L req actor mark a s =
     (let op = rq_op req;
          s1 = (case (a, session_credential req) of
                  (Inr _, Some cred) \<Rightarrow>
                    if op \<in> {''session.touch'', ''session.open'', ''session.close''} then s
                    else slide_session L cred s
                | _ \<Rightarrow> s)
      in case a of
           Inr _ \<Rightarrow> s1
         | Inl resp \<Rightarrow>
             (case rs_error resp of
                Some e \<Rightarrow>
                  if op \<noteq> [] \<and> audit_seq s1 = mark
                  then audit_denied_code L actor op (str_param (rq_params req) ''project'') (we_code e) s1
                  else s1
              | None \<Rightarrow> s1))"

definition dispatch_session ::
  "('z) broker_lib_scheme \<Rightarrow> 'fd kernel \<Rightarrow> nat \<Rightarrow> request \<Rightarrow> derived_keks option \<Rightarrow> session \<Rightarrow> run_host \<Rightarrow> handled" where
  "dispatch_session L K idle_secs req proof s h =
     (case authenticate L req proof s of
        (Inl resp, s1) \<Rightarrow> Some (Inl resp, s1, h)
      | (Inr (who, actor), s1) \<Rightarrow>
          (case boundary L req who actor s1 of
             (Inl resp, s2) \<Rightarrow> Some (Inl resp, s2, h)
           | (Inr _, s2) \<Rightarrow>
               (case dispatch_op L K idle_secs req
                       \<lparr>cx_id = rq_id req, cx_actor = actor, cx_identity = who, cx_proof = proof\<rparr> s2 h of
                  None \<Rightarrow> None
                | Some (a, s3, h1) \<Rightarrow> Some (a, settle L req actor (audit_seq s2) a s3, h1))))"

section \<open>The daemon\<close>

text \<open>\<open>dm_world\<close> is the machine while no vault exists; afterwards the session carries it.\<close>

record daemon =
  dm_vault_path :: string
  dm_socket_path :: string
  dm_idle_lock :: nat
  dm_world :: world
  dm_session :: "session option"
  dm_host :: run_host
  dm_deadline :: "nat option"

definition op_create ::
  "('z) vault_lib_scheme \<Rightarrow> request \<Rightarrow> daemon \<Rightarrow> answer \<times> daemon" where
  "op_create L req D =
     (let i = rq_id req in
      if session_credential req \<noteq> None then (Inl (expired_response i), D)
      else case (case auth_passphrase req of
                   Some p \<Rightarrow> Some p | None \<Rightarrow> str_param (rq_params req) ''passphrase'') of
        None \<Rightarrow> (Inl (response_err i ''E_INVALID_INPUT'' ''missing passphrase''), D)
      | Some pass \<Rightarrow>
          (case create_session L (dm_vault_path D) pass (dm_idle_lock D) (dm_world D) of
             (Inl e, w) \<Rightarrow> (Inl (response_of_error i e), D\<lparr>dm_world := w\<rparr>)
           | (Inr s, w) \<Rightarrow>
               (Inr (response_ok i (jobj [(''created'', JStr (dm_vault_path D))])),
                D\<lparr>dm_world := w, dm_session := Some (defer_idle_lock s)\<rparr>)))"

definition dispatch ::
  "('z) broker_lib_scheme \<Rightarrow> 'fd kernel \<Rightarrow> request \<Rightarrow> derived_keks option \<Rightarrow> daemon \<Rightarrow> (answer \<times> daemon) option" where
  "dispatch L K req proof D =
     (case dm_session D of
        None \<Rightarrow>
          Some (if rq_op req = ''vault.create'' then op_create L req D
                else (Inl (response_err (rq_id req) ''E_NOT_FOUND'' ''no vault exists; run svault init''), D))
      | Some s \<Rightarrow>
          map_option (\<lambda>(a, s1, h1). (a, D\<lparr>dm_session := Some s1, dm_host := h1\<rparr>))
            (dispatch_session L K (dm_idle_lock D div SEC) req proof s (dm_host D)))"

text \<open>No derivation for a request that carries a session, or a token beside the passphrase.\<close>

definition derive_human_proof ::
  "('z) crypto_lib_scheme \<Rightarrow> request \<Rightarrow> session option \<Rightarrow> response + derived_keks option" where
  "derive_human_proof L req so =
     (if session_credential req \<noteq> None then Inr None
      else case auth_passphrase req of
        None \<Rightarrow> Inr None
      | Some pass \<Rightarrow>
          if auth_token req \<noteq> None then Inr None
          else (case so of
            None \<Rightarrow> Inr None
          | Some s \<Rightarrow>
              (case res_bind (session_kek_recipe s) (\<lambda>r. derive_keks L r pass) of
                 Inl e \<Rightarrow> Inl (response_of_error (rq_id req) e)
               | Inr d \<Rightarrow> Inr (Some d))))"

text \<open>\<open>arm_idle_watchdog\<close>; without a session the timer is left alone.\<close>

definition arm_idle_watchdog :: "daemon \<Rightarrow> daemon" where
  "arm_idle_watchdog D =
     (case dm_session D of None \<Rightarrow> D | Some s \<Rightarrow> D\<lparr>dm_deadline := idle_deadline s\<rparr>)"

definition idle_check :: "('z) broker_lib_scheme \<Rightarrow> daemon \<Rightarrow> unit res \<times> daemon" where
  "idle_check L D =
     (case dm_session D of
        None \<Rightarrow> (Inr (), D)
      | Some s \<Rightarrow>
          (case idle_lock L s (dm_host D) of (r, s1, h1) \<Rightarrow>
             (r, D\<lparr>dm_session := Some s1, dm_host := h1\<rparr>)))"

definition handle_request ::
  "('z) broker_lib_scheme \<Rightarrow> 'fd kernel \<Rightarrow> request \<Rightarrow> daemon \<Rightarrow> (response \<times> daemon) option" where
  "handle_request L K req D =
     (case derive_human_proof L req (dm_session D) of
        Inl resp \<Rightarrow> Some (resp, D)
      | Inr proof \<Rightarrow>
          (case idle_check L D of
             (Inl e, D1) \<Rightarrow> Some (response_of_error (rq_id req) e, D1)
           | (Inr _, D1) \<Rightarrow>
               map_option (\<lambda>(a, D2). (case a of Inl r \<Rightarrow> r | Inr r \<Rightarrow> r, arm_idle_watchdog D2))
                 (dispatch L K req proof D1)))"

text \<open>The watchdog wakes at its deadline: the same lock as every other path, then re-arm. The flag
  tells that the lifecycle failed, when the thread waits before it tries again.\<close>

definition watchdog_wake :: "('z) broker_lib_scheme \<Rightarrow> daemon \<Rightarrow> bool \<times> daemon" where
  "watchdog_wake L D =
     (case idle_check L D of (r, D1) \<Rightarrow> (\<not> is_ok r, arm_idle_watchdog D1))"

definition watchdog_fires :: "nat \<Rightarrow> daemon \<Rightarrow> bool" where
  "watchdog_fires now D \<longleftrightarrow> (case dm_deadline D of None \<Rightarrow> False | Some t \<Rightarrow> now \<ge> t)"

section \<open>Connections\<close>

definition accept_connection :: "nat \<Rightarrow> response + nat" where
  "accept_connection live =
     (if live \<ge> MAX_CONCURRENT_CONNECTIONS
      then Inl (response_err ''conn'' ''E_PROTOCOL'' ''too many concurrent connections'')
      else Inr (live + 1))"

text \<open>What a connection's request turns into: an answer, or a managed run that keeps the connection.\<close>

datatype routed = Replied response daemon | StartsRun request daemon

definition refuse_fds :: "('z) vault_lib_scheme \<Rightarrow> daemon \<Rightarrow> daemon" where
  "refuse_fds L D =
     D\<lparr>dm_session := map_option
        (audit_run_denied L ''agent:unknown'' None [] None (InvalidInput ''unexpected file descriptors''))
        (dm_session D)\<rparr>"

definition dispatch_on_connection ::
  "('z) broker_lib_scheme \<Rightarrow> 'fd kernel \<Rightarrow> request \<Rightarrow> nat \<Rightarrow> daemon \<Rightarrow> routed option" where
  "dispatch_on_connection L K req fds D =
     (if rq_op req = HELLO_OP
      then Some (Replied (response_err (rq_id req) ''E_PROTOCOL'' ''broker.hello is a handshake line, not an op'') D)
      else if rq_op req = ''run_with_secrets'' then Some (StartsRun req D)
      else if fds \<noteq> 0
      then Some (Replied (response_err (rq_id req) ''E_INVALID_INPUT'' ''unexpected file descriptors'') (refuse_fds L D))
      else map_option (\<lambda>(r, D1). Replied r D1) (handle_request L K req D))"

end
