(* ===== verification/BrokerRun.thy ===== *)
theory BrokerRun
  imports BrokerDispatch
begin

text \<open>
  \<open>src/broker.rs\<close>, \<open>handle_run\<close>: a managed run, as the thread of its connection goes through it. The
  thread takes the session lock for one step at a time, so that other requests, locks and revocations
  come between two steps: a run is a state machine, and one step is what the thread does between two
  points where others may interfere. What the machine answers in a step (the spawned process, a failing
  write, an exit status, a closed peer) is an argument of the step.
\<close>

text \<open>What the authorised request stands on until it ends.\<close>

record run_ready =
  rd_actor :: string
  rd_agent_id :: string
  rd_project :: string
  rd_keys :: "string list"
  rd_secrets :: "(string \<times> string) list"
  rd_roots :: "string list"

record launch =
  la_id :: string
  la_params :: run_params
  la_ready :: run_ready
  la_env :: "(string \<times> string) list"
  la_run_id :: string

datatype run_phase =
    Arrived request nat
  | Awake request nat
  | Parsed request run_params
  | Authorised string run_params run_ready
  | Equipped string run_params run_ready "(string \<times> string) list"
  | Located string run_params run_ready "(string \<times> string) list"
  | Named launch
  | Reserved launch
  | Recorded launch
  | Spawned launch int
  | Live launch int
  | Running launch int nat
  | Finished "response list"

record machine_answer =
  ma_spawn :: "io_error + int"
  ma_reply_ok :: bool
  ma_try_wait :: "io_error + exit_status option"
  ma_wait :: "exit_status option"
  ma_peer_gone :: bool

section \<open>Steps that audit\<close>

text \<open>\<open>if let Some(s) = guard.as_mut() { s.audit_run_denied(..) }\<close>, then the answer.\<close>

definition deny_run ::
  "('z) vault_lib_scheme \<Rightarrow> string \<Rightarrow> string option \<Rightarrow> string list \<Rightarrow> string option \<Rightarrow> vault_error
    \<Rightarrow> response \<Rightarrow> daemon \<Rightarrow> run_phase \<times> daemon" where
  "deny_run L actor project keys run_id err resp D =
     (Finished [resp],
      D\<lparr>dm_session := map_option (audit_run_denied L actor project keys run_id err) (dm_session D)\<rparr>)"

definition deny_launch ::
  "('z) vault_lib_scheme \<Rightarrow> launch \<Rightarrow> string option \<Rightarrow> vault_error \<Rightarrow> response \<Rightarrow> daemon \<Rightarrow> run_phase \<times> daemon" where
  "deny_launch L la run_id err resp D =
     deny_run L (rd_actor (la_ready la)) (Some (rd_project (la_ready la))) (rd_keys (la_ready la)) run_id err resp D"

section \<open>Before anything is decided\<close>

definition run_wakes ::
  "('z) broker_lib_scheme \<Rightarrow> request \<Rightarrow> nat \<Rightarrow> daemon \<Rightarrow> run_phase \<times> daemon" where
  "run_wakes L req fds D =
     (case idle_check L D of
        (Inl e, D1) \<Rightarrow> (Finished [response_of_error (rq_id req) e], D1)
      | (Inr _, D1) \<Rightarrow> (Awake req fds, arm_idle_watchdog D1))"

definition run_parses ::
  "('z) vault_lib_scheme \<Rightarrow> request \<Rightarrow> nat \<Rightarrow> daemon \<Rightarrow> run_phase \<times> daemon" where
  "run_parses L req fds D =
     (if fds \<noteq> 3
      then deny_run L ''agent:unknown'' None [] None (InvalidInput ''expected exactly 3 file descriptors'')
             (response_err (rq_id req) ''E_INVALID_INPUT'' ''expected exactly 3 file descriptors'') D
      else case parse_run_params (rq_params req) of
        Inl e \<Rightarrow> deny_run L ''agent:unknown'' None [] None e (response_of_error (rq_id req) e) D
      | Inr ps \<Rightarrow> (Parsed req ps, D))"

section \<open>Authorisation\<close>

text \<open>The selected secrets: the named keys, or all of the project in key order. The audit names the
  keys of a refusal.\<close>

definition select_run_secrets ::
  "vault_document \<Rightarrow> string \<Rightarrow> string list option
    \<Rightarrow> (vault_error \<times> string list \<times> string) + (string list \<times> (string \<times> string) list)" where
  "select_run_secrets doc pid keys =
     (case keys of
        Some ks \<Rightarrow>
          (if \<exists>k\<in>set ks. secret_of doc pid k = None then Inl (NotFound, ks, ''not found'')
           else Inr (ks, List.map_filter (\<lambda>k. map_option (\<lambda>x. (k, s_value x)) (secret_of doc pid k)) ks))
      | None \<Rightarrow>
          (let all = map (\<lambda>x. (s_key x, s_value x))
                       (sort_key s_key (filter (\<lambda>x. s_project_id x = pid) (d_secrets doc))) in
           if all = [] then Inl (InvalidInput ''no secrets to run with'', [], ''invalid input: no secrets to run with'')
           else if length all > MAX_KEYS
           then Inl (InvalidInput ''too many keys'', map fst all, ''invalid input: too many keys'')
           else Inr (map fst all, all)))"

text \<open>The project an agent may run in.\<close>

definition run_project :: "vault_document \<Rightarrow> string \<Rightarrow> string \<Rightarrow> project option" where
  "run_project doc agent_id name =
     (case project_by_name doc name of
        None \<Rightarrow> None
      | Some p \<Rightarrow> if authorize doc agent_id (p_id p) OpRun then Some p else None)"

definition authorise_run ::
  "('z) vault_lib_scheme \<Rightarrow> request \<Rightarrow> run_params \<Rightarrow> session \<Rightarrow> (response + run_ready) \<times> session" where
  "authorise_run L req ps s =
     (let i = rq_id req; name = rp_project ps;
          no = (\<lambda>actor keys e resp s. (Inl resp, audit_run_denied L actor (Some name) keys None e s)) in
      if auth_token req \<noteq> None \<and> auth_passphrase req \<noteq> None
      then no ''agent:unknown'' [] (Protocol ''provide either a token or a passphrase, not both'')
             (response_err i ''E_PROTOCOL'' ''provide either a token or a passphrase, not both'') s
      else case Option.bind (auth_token req) (\<lambda>t. resolve_agent L t s) of
        None \<Rightarrow> no ''agent:unknown'' [] Auth (auth_failed i) s
      | Some agent_id \<Rightarrow>
          (let actor = agent_actor agent_id in
           case ensure_run_unlocked L s of
             (Inl _, s1) \<Rightarrow> no actor [] Locked (response_err i ''E_LOCKED'' ''vault is locked'') s1
           | (Inr _, s1) \<Rightarrow>
               (case s_doc s1 of
                  None \<Rightarrow> no actor [] Locked (response_err i ''E_LOCKED'' ''vault is locked'') s1
                | Some doc \<Rightarrow>
                    (case run_project doc agent_id name of
                       None \<Rightarrow> no actor [] Permission (response_err i ''E_PERMISSION'' ''permission denied'') s1
                     | Some p \<Rightarrow>
                         (case select_run_secrets doc (p_id p) (rp_keys ps) of
                            Inl (e, keys, msg) \<Rightarrow> no actor keys e (response_err i (code e) msg) s1
                          | Inr (keys, secrets) \<Rightarrow>
                              (Inr \<lparr>rd_actor = actor, rd_agent_id = agent_id, rd_project = name,
                                    rd_keys = keys, rd_secrets = secrets, rd_roots = p_paths p\<rparr>, s1))))))"

definition run_authorises ::
  "('z) vault_lib_scheme \<Rightarrow> request \<Rightarrow> run_params \<Rightarrow> daemon \<Rightarrow> run_phase \<times> daemon" where
  "run_authorises L req ps D =
     (case dm_session D of
        None \<Rightarrow>
          (Finished [response_err (rq_id req) ''E_NOT_FOUND'' ''no vault exists; run svault init''], D)
      | Some s \<Rightarrow>
          (case authorise_run L req ps s of
             (Inl resp, s1) \<Rightarrow> (Finished [resp], D\<lparr>dm_session := Some s1\<rparr>)
           | (Inr rd, s1) \<Rightarrow> (Authorised (rq_id req) ps rd, D\<lparr>dm_session := Some s1\<rparr>)))"

section \<open>Environment, working directory, name\<close>

definition deny_ready ::
  "('z) vault_lib_scheme \<Rightarrow> string \<Rightarrow> run_ready \<Rightarrow> vault_error \<Rightarrow> daemon \<Rightarrow> run_phase \<times> daemon" where
  "deny_ready L i rd e D =
     deny_run L (rd_actor rd) (Some (rd_project rd)) (rd_keys rd) None e (response_of_error i e) D"

definition run_equips ::
  "('z) vault_lib_scheme \<Rightarrow> string \<Rightarrow> run_params \<Rightarrow> run_ready \<Rightarrow> daemon \<Rightarrow> run_phase \<times> daemon" where
  "run_equips L i ps rd D =
     (case build_child_env (rp_env ps) (rd_secrets rd) of
        Inl e \<Rightarrow> deny_ready L i rd e D
      | Inr env \<Rightarrow> (Equipped i ps rd env, D))"

definition machine_of :: "daemon \<Rightarrow> world" where
  "machine_of D = (case dm_session D of None \<Rightarrow> dm_world D | Some s \<Rightarrow> s_world s)"

definition set_machine :: "world \<Rightarrow> daemon \<Rightarrow> daemon" where
  "set_machine w D =
     (case dm_session D of
        None \<Rightarrow> D\<lparr>dm_world := w\<rparr> | Some s \<Rightarrow> D\<lparr>dm_session := Some (s\<lparr>s_world := w\<rparr>)\<rparr>)"

definition run_locates ::
  "('z) vault_lib_scheme \<Rightarrow> 'fd kernel \<Rightarrow> string \<Rightarrow> run_params \<Rightarrow> run_ready \<Rightarrow> (string \<times> string) list
    \<Rightarrow> daemon \<Rightarrow> run_phase \<times> daemon" where
  "run_locates L K i ps rd env D =
     (case rp_cwd ps of
        None \<Rightarrow> (Located i ps rd env, D)
      | Some c \<Rightarrow>
          (case open_authorized_cwd K c (rd_roots rd) (machine_of D) of
             (Inl e, w) \<Rightarrow> deny_ready L i rd e (set_machine w D)
           | (Inr _, w) \<Rightarrow> (Located i ps rd env, set_machine w D)))"

definition run_names ::
  "('z) vault_lib_scheme \<Rightarrow> string \<Rightarrow> run_params \<Rightarrow> run_ready \<Rightarrow> (string \<times> string) list
    \<Rightarrow> daemon \<Rightarrow> run_phase \<times> daemon" where
  "run_names L i ps rd env D =
     (case new_run_id (machine_of D) of
        (Inl e, w) \<Rightarrow> deny_ready L i rd e (set_machine w D)
      | (Inr run_id, w) \<Rightarrow>
          (Named \<lparr>la_id = i, la_params = ps, la_ready = rd, la_env = env, la_run_id = run_id\<rparr>, set_machine w D))"

section \<open>Reservation, record, spawn\<close>

definition set_runs :: "run_registry \<Rightarrow> daemon \<Rightarrow> daemon" where
  "set_runs reg D = D\<lparr>dm_host := (dm_host D)\<lparr>rh_runs := reg\<rparr>\<rparr>"

definition run_reserves ::
  "('z) vault_lib_scheme \<Rightarrow> launch \<Rightarrow> daemon \<Rightarrow> run_phase \<times> daemon" where
  "run_reserves L la D =
     (case try_reserve (rd_agent_id (la_ready la)) (rd_project (la_ready la)) (la_run_id la)
             (w_wall (machine_of D)) (rh_runs (dm_host D)) of
        (Inr _, reg) \<Rightarrow> (Reserved la, set_runs reg D)
      | (Inl re, reg) \<Rightarrow>
          deny_launch L la (Some (la_run_id la))
            (if re_code re = ''E_BUSY'' then Busy else Protocol (re_msg re))
            (response_err (la_id la) (re_code re) (re_msg re)) (set_runs reg D))"

definition unreserve :: "launch \<Rightarrow> daemon \<Rightarrow> daemon" where
  "unreserve la D = set_runs (drop_reservation (la_run_id la) (rh_runs (dm_host D))) D"

definition arg_count :: "launch \<Rightarrow> nat" where
  "arg_count la = length (rp_argv (la_params la))"

definition audit_lost :: "launch \<Rightarrow> response" where
  "audit_lost la = response_err (la_id la) ''E_AUDIT_WRITE'' ''audit write failed''"

text \<open>An audit record of the run on the session, when there is one.\<close>

definition on_session ::
  "(session \<Rightarrow> unit res \<times> session) \<Rightarrow> daemon \<Rightarrow> unit res \<times> daemon" where
  "on_session f D =
     (case dm_session D of
        None \<Rightarrow> (Inr (), D)
      | Some s \<Rightarrow> (case f s of (r, s1) \<Rightarrow> (r, D\<lparr>dm_session := Some s1\<rparr>)))"

definition run_records ::
  "('z) vault_lib_scheme \<Rightarrow> launch \<Rightarrow> daemon \<Rightarrow> run_phase \<times> daemon" where
  "run_records L la D =
     (case on_session (audit_run_allowed L (rd_actor (la_ready la)) (rd_project (la_ready la))
              (rd_keys (la_ready la)) (arg_count la)) D of
        (Inl _, D1) \<Rightarrow> (Finished [audit_lost la], unreserve la D1)
      | (Inr _, D1) \<Rightarrow> (Recorded la, D1))"

definition run_spawns ::
  "('z) vault_lib_scheme \<Rightarrow> machine_answer \<Rightarrow> launch \<Rightarrow> daemon \<Rightarrow> run_phase \<times> daemon" where
  "run_spawns L m la D =
     (case ma_spawn m of
        Inl e \<Rightarrow>
          deny_launch L la (Some (la_run_id la)) (Io e) (response_of_error (la_id la) (Io e)) (unreserve la D)
      | Inr pid \<Rightarrow> (Spawned la pid, D))"

definition add_signals :: "(int \<times> int) list \<Rightarrow> daemon \<Rightarrow> daemon" where
  "add_signals xs D = D\<lparr>dm_host := (dm_host D)\<lparr>rh_signals := rh_signals (dm_host D) @ xs\<rparr>\<rparr>"

text \<open>The process group of a run is named after its process. A run whose reservation is gone was
  revoked meanwhile: its group is terminated at once.\<close>

definition run_activates ::
  "('z) broker_lib_scheme \<Rightarrow> launch \<Rightarrow> int \<Rightarrow> daemon \<Rightarrow> run_phase \<times> daemon" where
  "run_activates L la pid D =
     (case activate (la_run_id la) pid pid (rh_runs (dm_host D)) of
        (True, reg) \<Rightarrow> (Live la pid, set_runs reg D)
      | (False, _) \<Rightarrow>
          (case deny_launch L la (Some (la_run_id la)) Permission
                  (response_err (la_id la) ''E_PERMISSION'' ''run capability was revoked'')
                  (add_signals (terminate_group L pid) D) of
             (ph, D1) \<Rightarrow> (ph, unreserve la D1)))"

section \<open>Supervision\<close>

definition finish_daemon :: "('z) broker_lib_scheme \<Rightarrow> launch \<Rightarrow> int \<Rightarrow> daemon \<Rightarrow> daemon" where
  "finish_daemon L la pgid D = D\<lparr>dm_host := finish_run L (la_run_id la) pgid (dm_host D)\<rparr>"

definition record_exit ::
  "('z) vault_lib_scheme \<Rightarrow> launch \<Rightarrow> exit_status option \<Rightarrow> daemon \<Rightarrow> unit res \<times> daemon" where
  "record_exit L la st D =
     on_session (audit_run_exited L (rd_actor (la_ready la)) (rd_project (la_ready la)) (rd_keys (la_ready la))
        (la_run_id la) (rp_executable (la_params la)) (arg_count la) (rp_cwd (la_params la))
        (Option.bind st es_code) (Option.bind st exit_signal)) D"

text \<open>The first line of the answer; \<open>ma_reply_ok\<close> tells whether it could be written.\<close>

definition started_answer :: "launch \<Rightarrow> int \<Rightarrow> response" where
  "started_answer la pid =
     response_ok (la_id la)
       (jobj [(''run_id'', JStr (la_run_id la)), (''pid'', JInt pid), (''status'', JStr ''started'')])"

definition run_announces ::
  "('z) broker_lib_scheme \<Rightarrow> machine_answer \<Rightarrow> launch \<Rightarrow> int \<Rightarrow> daemon \<Rightarrow> run_phase \<times> daemon" where
  "run_announces L m la pid D =
     (case on_session (audit_run_started L (rd_actor (la_ready la)) (rd_project (la_ready la))
              (rd_keys (la_ready la)) (la_run_id la) (rp_executable (la_params la)) (arg_count la)
              (rp_cwd (la_params la))) D of
        (Inl _, D1) \<Rightarrow> (Finished [audit_lost la], finish_daemon L la pid D1)
      | (Inr _, D1) \<Rightarrow>
          if \<not> ma_reply_ok m
          then (Finished [], snd (record_exit L la (ma_wait m) (finish_daemon L la pid D1)))
          else (Running la pid
                  (w_mono (machine_of D1)
                   + SEC * (case rp_timeout_secs (la_params la) of None \<Rightarrow> MAX_DURATION_SECS | Some t \<Rightarrow> t)), D1))"

definition exit_answer :: "launch \<Rightarrow> exit_status \<Rightarrow> response" where
  "exit_answer la st =
     response_ok (la_id la)
       (case exit_result st of
          JObj kvs \<Rightarrow> jobj (kvs @ [(''run_id'', JStr (la_run_id la)), (''status'', JStr ''exited'')])
        | j \<Rightarrow> j)"

definition unless_gone :: "machine_answer \<Rightarrow> response \<Rightarrow> response list" where
  "unless_gone m r = (if ma_peer_gone m then [] else [r])"

text \<open>One turn of the loop: an exit, a failing wait, the deadline, a peer that went away, or nothing.\<close>

definition run_polls ::
  "('z) broker_lib_scheme \<Rightarrow> machine_answer \<Rightarrow> launch \<Rightarrow> int \<Rightarrow> nat \<Rightarrow> daemon \<Rightarrow> run_phase \<times> daemon" where
  "run_polls L m la pgid deadline D =
     (let D1 = finish_daemon L la pgid D in
      case ma_try_wait m of
        Inr (Some st) \<Rightarrow>
          (case record_exit L la (Some st) D1 of
             (Inl _, D2) \<Rightarrow> (Finished (if ma_peer_gone m then [] else [audit_lost la]), D2)
           | (Inr _, D2) \<Rightarrow> (Finished (unless_gone m (exit_answer la st)), D2))
      | Inl _ \<Rightarrow> (Finished [], snd (record_exit L la (ma_wait m) D1))
      | Inr None \<Rightarrow>
          if w_mono (machine_of D) \<ge> deadline
          then (Finished (unless_gone m (case ma_wait m of
                   Some st \<Rightarrow> exit_answer la st
                 | None \<Rightarrow> response_err (la_id la) ''E_IO'' ''io error: wait failed'')),
                snd (record_exit L la (ma_wait m) D1))
          else if ma_peer_gone m then (Finished [], snd (record_exit L la (ma_wait m) D1))
          else (Running la pgid deadline, D))"

section \<open>The thread\<close>

fun run_step ::
  "('z) broker_lib_scheme \<Rightarrow> 'fd kernel \<Rightarrow> machine_answer \<Rightarrow> run_phase \<Rightarrow> daemon \<Rightarrow> run_phase \<times> daemon" where
  "run_step L K m (Arrived req fds) D = run_wakes L req fds D"
| "run_step L K m (Awake req fds) D = run_parses L req fds D"
| "run_step L K m (Parsed req ps) D = run_authorises L req ps D"
| "run_step L K m (Authorised i ps rd) D = run_equips L i ps rd D"
| "run_step L K m (Equipped i ps rd env) D = run_locates L K i ps rd env D"
| "run_step L K m (Located i ps rd env) D = run_names L i ps rd env D"
| "run_step L K m (Named la) D = run_reserves L la D"
| "run_step L K m (Reserved la) D = run_records L la D"
| "run_step L K m (Recorded la) D = run_spawns L m la D"
| "run_step L K m (Spawned la pid) D = run_activates L la pid D"
| "run_step L K m (Live la pid) D = run_announces L m la pid D"
| "run_step L K m (Running la pid deadline) D = run_polls L m la pid deadline D"
| "run_step L K m (Finished out) D = (Finished out, D)"

text \<open>What the connection is sent in a step.\<close>

definition run_sends :: "run_phase \<Rightarrow> run_phase \<Rightarrow> response list" where
  "run_sends before after =
     (case before of
        Finished _ \<Rightarrow> []
      | Live la pid \<Rightarrow>
          (case after of Running _ _ _ \<Rightarrow> [started_answer la pid] | Finished out \<Rightarrow> out | _ \<Rightarrow> [])
      | _ \<Rightarrow> (case after of Finished out \<Rightarrow> out | _ \<Rightarrow> []))"

end
