(* ===== verification/BrokerFrame.thy ===== *)
theory BrokerFrame
  imports BrokerRun SessionMachine
begin

text \<open>
  What a request can do to the state of the daemon: the session keeps its invariant, and a request
  never adds a run, it only ends some. One rule per shape of the handlers carries this through all the
  operations; the rules are collected in \<open>keeps_intro\<close>.
\<close>

named_theorems keeps_intro
named_theorems session_inv_ops

section \<open>The live runs\<close>

definition host_step :: "run_host \<Rightarrow> run_host \<Rightarrow> bool" where
  "host_step h h' \<longleftrightarrow> (\<exists>P. rh_runs h' = filter P (rh_runs h))"

lemma host_step_same [simp]: "rh_runs h' = rh_runs h \<Longrightarrow> host_step h h'"
  by (auto simp: host_step_def intro: exI [of _ "\<lambda>_. True"])

lemma host_step_trans: "host_step h h1 \<Longrightarrow> host_step h1 h2 \<Longrightarrow> host_step h h2"
  by (auto simp: host_step_def filter_filter)

lemma terminate_matching_runs_step:
  assumes "terminate_matching_runs L actor agent project s h = (r, s', h')"
  shows "r = Inr ()" "host_step h h'" "session_inv s \<Longrightarrow> session_inv s'" "rec_step s s'"
proof -
  have aud: "rec_step s (audit_revoked_runs L actor runs s)" for runs
  proof (induction runs arbitrary: s)
    case (Cons x runs)
    then show ?case
      by (cases x) (auto simp: audit_run_revoked_def intro: rec_step_trans [OF run_record_step])
  qed simp
  show "r = Inr ()" using assms by (auto simp: terminate_matching_runs_def take_matching_def)
  show "host_step h h'" using assms by (auto simp: terminate_matching_runs_def take_matching_def host_step_def)
  show rs: "rec_step s s'" using assms aud by (auto simp: terminate_matching_runs_def take_matching_def)
  show "session_inv s \<Longrightarrow> session_inv s'" using inv_rec [OF rs] .
qed

lemma lock_and_drain_step:
  assumes "lock_and_drain L actor s h = (r, s', h')"
  shows "host_step h h'" "session_inv s \<Longrightarrow> session_inv s'"
proof -
  let ?r = "mk_record actor ''vault.lock'' None [] None Allowed None"
  obtain c s2 h2 where t: "terminate_matching_runs L actor None None
      (snd (audit_record_lifecycle L actor ?r s)) h = (c, s2, h2)" by (metis prod_cases3)
  note ts = terminate_matching_runs_step [OF t]
  obtain q s3 where l: "lock_persist L s2 = (q, s3)" by force
  have eq: "s' = s3" "h' = h2" using assms t l by (auto simp: lock_and_drain_def Let_def split: sum.splits)
  show "host_step h h'" using eq ts(2) by simp
  assume "session_inv s"
  then have "session_inv s2" using ts(3) inv_rec [OF audit_record_lifecycle_step] by blast
  then show "session_inv s'" using lock_persist_inv [OF l] eq by simp
qed

lemma idle_lock_step:
  assumes "idle_lock L s h = (r, s', h')"
  shows "host_step h h'" "session_inv s \<Longrightarrow> session_inv s'"
  using assms lock_and_drain_step [of L "''human''" s h r s' h'] by (auto simp: idle_lock_def split: if_splits)

section \<open>Rules for the shapes\<close>

definition keeps :: "run_host \<Rightarrow> handled \<Rightarrow> bool" where
  "keeps h out \<longleftrightarrow> (\<forall>a s' h'. out = Some (a, s', h') \<longrightarrow> session_inv s' \<and> host_step h h')"

lemma keeps_None [keeps_intro]: "keeps h None"
  by (simp add: keeps_def)

lemma keeps_Some [keeps_intro]: "session_inv s \<Longrightarrow> host_step h h' \<Longrightarrow> keeps h (Some (a, s, h'))"
  by (simp add: keeps_def)

lemma keeps_ok [keeps_intro]: "session_inv s \<Longrightarrow> host_step h h' \<Longrightarrow> keeps h (answer_ok i r s h')"
  by (simp add: keeps_def answer_ok_def)

lemma keeps_err [keeps_intro]: "session_inv s \<Longrightarrow> host_step h h' \<Longrightarrow> keeps h (answer_err i c msg s h')"
  by (simp add: keeps_def answer_err_def)

lemma keeps_needs [keeps_intro]:
  "session_inv s \<Longrightarrow> host_step h h' \<Longrightarrow> (\<And>y. x = Some y \<Longrightarrow> keeps h (k y)) \<Longrightarrow> keeps h (needs i msg x s h' k)"
  by (auto simp: needs_def keeps_err split: option.split)

lemma keeps_calls:
  assumes "\<And>q s'. m = (q, s') \<Longrightarrow> session_inv s'" and "host_step h h'"
    and "\<And>x s'. m = (Inr x, s') \<Longrightarrow> session_inv s' \<Longrightarrow> keeps h (k x s')"
  shows "keeps h (calls i h' m k)"
  using assms by (auto simp: calls_def keeps_Some split: prod.split sum.split)

lemma keeps_calls_opt:
  assumes "\<And>q s'. m = Some (q, s') \<Longrightarrow> session_inv s'" and "host_step h h'"
    and "\<And>x s'. m = Some (Inr x, s') \<Longrightarrow> session_inv s' \<Longrightarrow> keeps h (k x s')"
  shows "keeps h (calls_opt i h' m k)"
proof (cases m)
  case (Some out)
  show ?thesis unfolding calls_opt_def Some option.case
    using assms Some by (intro keeps_calls) auto
qed (simp add: calls_opt_def keeps_None)

lemma keeps_option [keeps_intro]:
  "(x = None \<Longrightarrow> keeps h a) \<Longrightarrow> (\<And>y. x = Some y \<Longrightarrow> keeps h (b y)) \<Longrightarrow>
    keeps h (case x of None \<Rightarrow> a | Some y \<Rightarrow> b y)"
  by (cases x) auto

lemma keeps_sum [keeps_intro]:
  "(\<And>y. x = Inl y \<Longrightarrow> keeps h (a y)) \<Longrightarrow> (\<And>y. x = Inr y \<Longrightarrow> keeps h (b y)) \<Longrightarrow>
    keeps h (case x of Inl y \<Rightarrow> a y | Inr y \<Rightarrow> b y)"
  by (cases x) auto

lemma keeps_prod [keeps_intro]:
  "(\<And>a b. x = (a, b) \<Longrightarrow> keeps h (f a b)) \<Longrightarrow> keeps h (case x of (a, b) \<Rightarrow> f a b)"
  by (cases x) auto

lemma keeps_prod_fun [keeps_intro]:
  "(\<And>a b. x = (a, b) \<Longrightarrow> keeps h (f a b s)) \<Longrightarrow> keeps h ((case x of (a, b) \<Rightarrow> f a b) s)"
  by (cases x) auto

lemma keeps_bool [keeps_intro]:
  "(x \<Longrightarrow> keeps h a) \<Longrightarrow> (\<not> x \<Longrightarrow> keeps h b) \<Longrightarrow> keeps h (case x of True \<Rightarrow> a | False \<Rightarrow> b)"
  by (cases x) auto

lemma keeps_identity [keeps_intro]:
  "(x = Human \<Longrightarrow> keeps h a) \<Longrightarrow> (\<And>y. x = Agent y \<Longrightarrow> keeps h (b y)) \<Longrightarrow> (x = Unauthenticated \<Longrightarrow> keeps h c) \<Longrightarrow>
    keeps h (case x of Human \<Rightarrow> a | Agent y \<Rightarrow> b y | Unauthenticated \<Rightarrow> c)"
  by (cases x) auto

lemma keeps_if [keeps_intro]:
  "(c \<Longrightarrow> keeps h a) \<Longrightarrow> (\<not> c \<Longrightarrow> keeps h b) \<Longrightarrow> keeps h (if c then a else b)"
  by simp

lemma keeps_drains [keeps_intro]:
  assumes "session_inv s" "host_step h h'"
  shows "keeps h (drains L c actor agent project s h' result)"
proof -
  obtain r s1 h1 where t: "terminate_matching_runs L actor agent project s h' = (r, s1, h1)" by (metis prod_cases3)
  note ts = terminate_matching_runs_step [OF t]
  show ?thesis
    using assms ts host_step_trans [OF assms(2) ts(2)]
    by (auto simp: drains_def t keeps_def calls_def answer_ok_def)
qed

lemma keeps_needs_agent [keeps_intro]:
  "session_inv s \<Longrightarrow> host_step h h' \<Longrightarrow> (\<And>y. cx_identity c = Agent y \<Longrightarrow> keeps h (k y)) \<Longrightarrow>
    keeps h (needs_agent c msg s h' k)"
  by (auto simp: needs_agent_def keeps_err split: identity.split)

section \<open>Session operations\<close>

lemma inv_denied [keeps_intro]:
  "session_inv s \<Longrightarrow> session_inv (audit_denied L actor op project keys target e s)"
  "session_inv s \<Longrightarrow> session_inv (audit_denied_code L actor op project reason s)"
  using inv_rec [OF audit_denied_step] inv_rec [OF audit_denied_code_step] by blast+

lemma audit_record_inv: "audit_record L actor r s = (q, s') \<Longrightarrow> session_inv s \<Longrightarrow> session_inv s'"
  using inv_rec [OF audit_record_step] by (metis snd_conv)

lemma run_record_inv: "run_record_with L r prio s = (q, s') \<Longrightarrow> session_inv s \<Longrightarrow> session_inv s'"
  using inv_rec [OF run_record_step] by (metis snd_conv)

lemma audit_run_inv [keeps_intro]:
  "session_inv s \<Longrightarrow> session_inv (snd (audit_run_signal L actor project run_id dec reason s))"
  "session_inv s \<Longrightarrow> session_inv (audit_run_denied L actor project' keys run_id' e s)"
  unfolding audit_run_signal_def audit_run_denied_def using inv_rec [OF run_record_step] by blast+

lemma ensure_run_unlocked_inv: "ensure_run_unlocked L s = (q, s') \<Longrightarrow> session_inv s \<Longrightarrow> session_inv s'"
  using inv_check_idle [of s L] by (auto simp: ensure_run_unlocked_def Let_def split: if_splits)

lemma inject_file_inv:
  assumes "inject_file L K actor project path keys s = Some (q, s')" and "session_inv s"
  shows "session_inv s'"
proof -
  obtain g s1 where g: "with_doc L actor ''inject_file'' (Some project) [] s = (g, s1)" by force
  have i: "session_inv s1" by (rule with_doc_inv(1) [OF g assms(2)])
  show ?thesis
  proof (cases g)
    case (Inl e)
    with g assms(1) i show ?thesis by (simp add: inject_file_def)
  next
    case (Inr doc)
    with g assms(1) obtain r w where d: "do_inject_file K doc project path keys (s_world s1) = Some (r, w)"
      and o: "(q, s') = (case r of
            Inl e \<Rightarrow> refuse L actor ''inject_file'' (Some project) [] None e (s1\<lparr>s_world := w\<rparr>)
          | Inr report \<Rightarrow> try_bind (audit_record L actor (mk_record actor ''inject_file'' (Some project)
              (ir_keys report) (Some (ir_path report)) Allowed None) (s1\<lparr>s_world := w\<rparr>)) (\<lambda>_ s3. (Inr report, s3)))"
      by (auto simp: inject_file_def Let_def)
    have "session_inv (s1\<lparr>s_world := w\<rparr>)" using i by simp
    then have "session_inv (snd (case r of
            Inl e \<Rightarrow> refuse L actor ''inject_file'' (Some project) [] None e (s1\<lparr>s_world := w\<rparr>)
          | Inr report \<Rightarrow> try_bind (audit_record L actor (mk_record actor ''inject_file'' (Some project)
              (ir_keys report) (Some (ir_path report)) Allowed None) (s1\<lparr>s_world := w\<rparr>)) (\<lambda>_ s3. (Inr report, s3))))"
      by (cases r) (auto simp: try_bind_def refuse_def inv_denied split: sum.splits
          intro: inv_rec [OF audit_record_step])
    then show ?thesis using o by (metis snd_conv)
  qed
qed

lemmas session_ops_inv =
  project_add_inv project_list_inv project_path_add_inv project_path_remove_inv project_remove_inv
  secret_set_inv secret_list_inv secret_delete_inv agent_add_inv agent_revoke_inv agent_list_inv
  grant_add_inv grant_revoke_inv grant_list_inv lease_create_inv lease_list_inv lease_revoke_inv
  authorize_lease_inv approval_request_inv approval_status_inv approval_pending_inv
  approval_decide_inv reveal_claim_inv reveal_human_inv session_open_inv authorize_session_inv
  session_touch_inv session_close_inv audit_show_page_inv audit_record_inv inject_file_inv

lemmas shapes_keep = keeps_intro keeps_calls keeps_calls_opt

section \<open>Operations of the human\<close>

lemma op_vault_status_keeps [keeps_intro]: "session_inv s \<Longrightarrow> keeps h (op_vault_status L c s h)"
  unfolding op_vault_status_def Let_def
  by (intro shapes_keep; ((simp; fail) | blast intro: session_ops_inv)?)

lemma op_vault_create_keeps [keeps_intro]: "session_inv s \<Longrightarrow> keeps h (op_vault_create c s h)"
  unfolding op_vault_create_def Let_def
  by (intro shapes_keep; ((simp; fail) | blast intro: session_ops_inv)?)

lemma op_vault_health_keeps [keeps_intro]: "session_inv s \<Longrightarrow> keeps h (op_vault_health L n c s h)"
  unfolding op_vault_health_def Let_def
  by (intro shapes_keep; ((simp; fail) | blast intro: session_ops_inv)?)

lemma op_project_add_keeps [keeps_intro]: "session_inv s \<Longrightarrow> keeps h (op_project_add L c req s h)"
  unfolding op_project_add_def Let_def
  by (intro shapes_keep; ((simp; fail) | blast intro: session_ops_inv)?)

lemma op_project_list_keeps [keeps_intro]: "session_inv s \<Longrightarrow> keeps h (op_project_list L c s h)"
  unfolding op_project_list_def Let_def
  by (intro shapes_keep; ((simp; fail) | blast intro: session_ops_inv)?)

lemma op_project_path_add_keeps [keeps_intro]: "session_inv s \<Longrightarrow> keeps h (op_project_path_add L c req s h)"
  unfolding op_project_path_add_def Let_def
  by (intro shapes_keep; ((simp; fail) | blast intro: session_ops_inv)?)

lemma op_project_path_remove_keeps [keeps_intro]: "session_inv s \<Longrightarrow> keeps h (op_project_path_remove L c req s h)"
  unfolding op_project_path_remove_def Let_def
  by (intro shapes_keep; ((simp; fail) | blast intro: session_ops_inv)?)

lemma op_project_remove_keeps [keeps_intro]: "session_inv s \<Longrightarrow> keeps h (op_project_remove L c req s h)"
  unfolding op_project_remove_def Let_def
  by (intro shapes_keep; ((simp; fail) | blast intro: session_ops_inv)?)

lemma op_secret_set_keeps [keeps_intro]: "session_inv s \<Longrightarrow> keeps h (op_secret_set L c req s h)"
  unfolding op_secret_set_def Let_def
  by (intro shapes_keep; ((simp; fail) | blast intro: session_ops_inv)?)

lemma op_secret_delete_keeps [keeps_intro]: "session_inv s \<Longrightarrow> keeps h (op_secret_delete L c req s h)"
  unfolding op_secret_delete_def Let_def
  by (intro shapes_keep; ((simp; fail) | blast intro: session_ops_inv)?)

lemma op_agents_add_keeps [keeps_intro]: "session_inv s \<Longrightarrow> keeps h (op_agents_add L c req s h)"
  unfolding op_agents_add_def Let_def
  by (intro shapes_keep; ((simp; fail) | blast intro: session_ops_inv)?)

lemma op_agents_revoke_keeps [keeps_intro]: "session_inv s \<Longrightarrow> keeps h (op_agents_revoke L c req s h)"
  unfolding op_agents_revoke_def Let_def
  by (intro shapes_keep; ((simp; fail) | blast intro: session_ops_inv)?)

lemma op_agents_list_keeps [keeps_intro]: "session_inv s \<Longrightarrow> keeps h (op_agents_list L c s h)"
  unfolding op_agents_list_def Let_def
  by (intro shapes_keep; ((simp; fail) | blast intro: session_ops_inv)?)

lemma op_grants_grant_keeps [keeps_intro]: "session_inv s \<Longrightarrow> keeps h (op_grants_grant L c req s h)"
  unfolding op_grants_grant_def Let_def
  by (intro shapes_keep; ((simp; fail) | blast intro: session_ops_inv)?)

lemma op_grants_revoke_keeps [keeps_intro]: "session_inv s \<Longrightarrow> keeps h (op_grants_revoke L c req s h)"
  unfolding op_grants_revoke_def Let_def
  by (intro shapes_keep; ((simp; fail) | blast intro: session_ops_inv)?)

lemma op_grants_list_keeps [keeps_intro]: "session_inv s \<Longrightarrow> keeps h (op_grants_list L c s h)"
  unfolding op_grants_list_def Let_def
  by (intro shapes_keep; ((simp; fail) | blast intro: session_ops_inv)?)

lemma op_audit_show_keeps [keeps_intro]: "session_inv s \<Longrightarrow> keeps h (op_audit_show L c req s h)"
  unfolding op_audit_show_def Let_def
  by (intro shapes_keep; ((simp; fail) | blast intro: session_ops_inv)?)

lemma op_audit_verify_keeps [keeps_intro]: "session_inv s \<Longrightarrow> keeps h (op_audit_verify L c s h)"
  unfolding op_audit_verify_def Let_def
  by (intro shapes_keep; ((simp; fail) | blast intro: session_ops_inv)?)

lemma op_approvals_pending_keeps [keeps_intro]: "session_inv s \<Longrightarrow> keeps h (op_approvals_pending L c s h)"
  unfolding op_approvals_pending_def Let_def
  by (intro shapes_keep; ((simp; fail) | blast intro: session_ops_inv)?)

lemma op_approvals_decide_keeps [keeps_intro]: "session_inv s \<Longrightarrow> keeps h (op_approvals_decide L c req s h)"
  unfolding op_approvals_decide_def Let_def
  by (intro shapes_keep; ((simp; fail) | blast intro: session_ops_inv)?)

lemma op_session_open_keeps [keeps_intro]: "session_inv s \<Longrightarrow> keeps h (op_session_open L c req s h)"
  unfolding op_session_open_def session_expired_answer_def Let_def
  by (intro shapes_keep; ((simp; fail) | blast intro: session_ops_inv)?)

lemma op_session_touch_keeps [keeps_intro]: "session_inv s \<Longrightarrow> keeps h (op_session_touch L c req s h)"
  unfolding op_session_touch_def session_expired_answer_def Let_def
  by (intro shapes_keep; ((simp; fail) | blast intro: session_ops_inv)?)

lemma op_session_close_keeps [keeps_intro]: "session_inv s \<Longrightarrow> keeps h (op_session_close L c req s h)"
  unfolding op_session_close_def session_expired_answer_def Let_def
  by (intro shapes_keep; ((simp; fail) | blast intro: session_ops_inv)?)

lemma op_runs_list_keeps [keeps_intro]: "session_inv s \<Longrightarrow> keeps h (op_runs_list L c s h)"
  unfolding op_runs_list_def Let_def
  by (intro shapes_keep; ((simp; fail) | blast intro: session_ops_inv)?)

lemma op_inject_file_keeps [keeps_intro]: "session_inv s \<Longrightarrow> keeps h (op_inject_file L K c req s h)"
  unfolding op_inject_file_def Let_def
  by (intro shapes_keep; ((simp; fail) | blast intro: session_ops_inv)?)

lemma op_secrets_list_keeps [keeps_intro]: "session_inv s \<Longrightarrow> keeps h (op_secrets_list L c req s h)"
  unfolding op_secrets_list_def Let_def
  by (intro shapes_keep; ((simp; fail) | blast intro: session_ops_inv)?)

lemma op_lease_create_keeps [keeps_intro]: "session_inv s \<Longrightarrow> keeps h (op_lease_create L c req s h)"
  unfolding op_lease_create_def Let_def
  by (intro shapes_keep; ((simp; fail) | blast intro: session_ops_inv)?)

lemma op_lease_list_keeps [keeps_intro]: "session_inv s \<Longrightarrow> keeps h (op_lease_list L c s h)"
  unfolding op_lease_list_def Let_def
  by (intro shapes_keep; ((simp; fail) | blast intro: session_ops_inv)?)

lemma op_lease_revoke_keeps [keeps_intro]: "session_inv s \<Longrightarrow> keeps h (op_lease_revoke L c req s h)"
  unfolding op_lease_revoke_def Let_def
  by (intro shapes_keep; ((simp; fail) | blast intro: session_ops_inv)?)

lemma op_reveal_keeps [keeps_intro]: "session_inv s \<Longrightarrow> keeps h (op_reveal L c req s h)"
  unfolding op_reveal_def reveal_as_human_def reveal_as_agent_def reveal_value_def Let_def
  by (intro shapes_keep; ((simp; fail) | blast intro: session_ops_inv)?)

lemma op_approvals_status_keeps [keeps_intro]: "session_inv s \<Longrightarrow> keeps h (op_approvals_status L c req s h)"
  unfolding op_approvals_status_def Let_def
  by (intro shapes_keep; ((simp; fail) | blast intro: session_ops_inv)?)

lemma op_run_signal_keeps [keeps_intro]:
  assumes "session_inv s"
  shows "keeps h (op_run_signal L c req s h)"
proof -
  obtain e s1 where e: "ensure_run_unlocked L s = (e, s1)" by force
  have i: "session_inv s1" by (rule ensure_run_unlocked_inv [OF e assms])
  have no: "keeps h (run_signal_denied L c project run_id cd msg s1 h)" for project run_id cd msg
    unfolding run_signal_denied_def using i by (intro keeps_intro) simp_all
  have sent: "audit_run_signal L actor project run_id dec reason s1 = (q, s2) \<Longrightarrow> session_inv s2"
    for actor project run_id dec reason q s2
    using audit_run_inv(1) [OF i, of L actor project run_id dec reason] by simp
  show ?thesis
    unfolding op_run_signal_def Let_def e
    by (intro keeps_intro) (simp_all add: assms i inv_denied no sent)
qed

end
