(* ===== verification/BrokerMachine.thy ===== *)
theory BrokerMachine
  imports BrokerFrame
begin

text \<open>
  The daemon as a machine: one step is a whole request, a wake of the idle watchdog, the arrival of a
  run request, one step of the thread of a run, or anything the world does. Two invariants hold in
  every reachable state: the vault session is well formed, and whatever the operations of the run
  registry keep, stated as a locale and instantiated with the quotas.
\<close>

section \<open>The whole request\<close>

text \<open>What an unlock adopts was sealed by this program: whatever decrypts is well formed.\<close>

definition documents_wf :: "('z) vault_lib_scheme \<Rightarrow> bool" where
  "documents_wf L \<longleftrightarrow> (\<forall>derived s ks ak d. open_vault L derived s = Inr (ks, ak, d) \<longrightarrow> wf_doc d)"

lemma op_vault_lock_keeps [keeps_intro]: "session_inv s \<Longrightarrow> keeps h (op_vault_lock L c s h)"
  using lock_and_drain_step [of L "cx_actor c" s h]
  by (auto simp: op_vault_lock_def keeps_def calls_def answer_ok_def split: prod.splits sum.splits)

lemma op_vault_unlock_keeps:
  assumes "session_inv s" "documents_wf L"
  shows "keeps h (op_vault_unlock L c req s h)"
proof -
  have u: "unlock_with_proof L derived s = (q, s') \<Longrightarrow> session_inv s'" for derived q s'
    using unlock_with_proof_inv [of L derived s q s'] assms by (auto simp: documents_wf_def)
  show ?thesis
    unfolding op_vault_unlock_def session_expired_answer_def
    by (intro shapes_keep; ((simp add: assms; fail) | blast intro: u session_open_inv)?)
qed

lemma dispatch_op_keeps:
  assumes "session_inv s" "documents_wf L"
  shows "keeps h (dispatch_op L K n req c s h)"
  unfolding dispatch_op_def Let_def
  using assms by (intro keeps_if op_vault_unlock_keeps keeps_intro) (simp_all add: assms)

lemma authenticate_inv:
  assumes "authenticate L req proof s = (r, s')" and "session_inv s"
  shows "session_inv s'"
  using assms
  by (auto simp: authenticate_def Let_def inv_denied authorize_session_inv
      split: if_splits option.splits prod.splits sum.splits)

lemma boundary_inv:
  assumes "boundary L req who actor s = (r, s')" and "session_inv s"
  shows "session_inv s'"
  using assms by (auto simp: boundary_def Let_def inv_denied split: if_splits sum.splits)

lemma settle_inv: "session_inv s \<Longrightarrow> session_inv (settle L req actor mark a s)"
  by (auto simp: settle_def Let_def inv_denied slide_session_inv split: sum.splits option.splits)

lemma dispatch_session_keeps:
  assumes "session_inv s" "documents_wf L"
  shows "keeps h (dispatch_session L K n req proof s h)"
proof -
  obtain a s1 where a: "authenticate L req proof s = (a, s1)" by force
  note i1 = authenticate_inv [OF a assms(1)]
  show ?thesis
  proof (cases a)
    case (Inl resp)
    with a i1 show ?thesis by (simp add: dispatch_session_def keeps_Some)
  next
    case (Inr wa)
    obtain who actor where wa: "wa = (who, actor)" by force
    obtain b s2 where b: "boundary L req who actor s1 = (b, s2)" by force
    note i2 = boundary_inv [OF b i1]
    let ?c = "\<lparr>cx_id = rq_id req, cx_actor = actor, cx_identity = who, cx_proof = proof\<rparr>"
    note k = dispatch_op_keeps [OF i2 assms(2), of h K n req ?c]
    show ?thesis
      using a b Inr wa i2 k
      by (auto simp: dispatch_session_def keeps_def settle_inv split: sum.splits option.splits prod.splits)
  qed
qed

section \<open>Creating the vault\<close>

lemma load_or_init_path: "load_or_init L path w = (Inr lg, w') \<Longrightarrow> lg_path lg = path"
  by (auto simp: load_or_init_def try_bind_def Let_def split: prod.splits sum.splits if_splits option.splits)

lemma create_locked_inv:
  assumes "create_locked L path passphrase idle lock w = (Inr s, w')"
  shows "session_inv s"
proof -
  have wf: "wf_doc ((new_document t)\<lparr>d_audit_head := h\<rparr>)" for t h
    by (simp add: wf_doc_new)
  have path: "fst (load_or_init L p w) = Inr lg \<Longrightarrow> lg_path lg = p" for p lg
    using load_or_init_path by (metis prod.collapse)
  show ?thesis using assms wf
    by (auto simp: create_locked_def try_bind_def Let_def log_step_def rebuild_agent_digests_eq
        fresh_session_def session_inv_def sessions_ok_def digest_index_def
        dest!: path append_staged_step split: prod.splits sum.splits)
qed

lemma create_session_inv: "create_session L path passphrase idle w = (Inr s, w') \<Longrightarrow> session_inv s"
  by (auto simp: create_session_def unlocking_on_error_def try_bind_def dest: create_locked_inv
      split: if_splits prod.splits sum.splits)

section \<open>The daemon\<close>

definition daemon_inv :: "daemon \<Rightarrow> bool" where
  "daemon_inv D \<longleftrightarrow> (\<forall>s. dm_session D = Some s \<longrightarrow> session_inv s)"

text \<open>A step that leaves the sessions well formed and ends runs at most.\<close>

definition quiet :: "daemon \<Rightarrow> daemon \<Rightarrow> bool" where
  "quiet D D' \<longleftrightarrow> (daemon_inv D \<longrightarrow> daemon_inv D') \<and> host_step (dm_host D) (dm_host D')"

lemma quiet_refl [simp]: "quiet D D"
  by (simp add: quiet_def)

lemma quiet_trans: "quiet D D1 \<Longrightarrow> quiet D1 D2 \<Longrightarrow> quiet D D2"
  by (auto simp: quiet_def intro: host_step_trans)

lemma idle_check_quiet: "idle_check L D = (r, D') \<Longrightarrow> quiet D D'"
  by (auto simp: idle_check_def quiet_def daemon_inv_def dest: idle_lock_step split: option.splits prod.splits)

lemma arm_quiet [simp]: "quiet D (arm_idle_watchdog D)"
  by (auto simp: arm_idle_watchdog_def quiet_def daemon_inv_def split: option.splits)

lemma op_create_quiet: "op_create L req D = (a, D') \<Longrightarrow> quiet D D'"
  by (auto simp: op_create_def Let_def quiet_def daemon_inv_def defer_idle_lock_def
      split: if_splits option.splits prod.splits sum.splits elim!: create_session_inv)

lemma dispatch_quiet:
  assumes "dispatch L K req proof D = Some (a, D')" and "documents_wf L" and "daemon_inv D"
  shows "quiet D D'"
proof (cases "dm_session D")
  case None
  then show ?thesis using assms(1) op_create_quiet [of L req D a D'] by (auto simp: dispatch_def split: if_splits)
next
  case (Some s)
  then obtain s1 h1 where d: "dispatch_session L K (dm_idle_lock D div SEC) req proof s (dm_host D) = Some (a, s1, h1)"
    and D': "D' = D\<lparr>dm_session := Some s1, dm_host := h1\<rparr>"
    using assms(1) by (auto simp: dispatch_def)
  have "session_inv s" using assms(3) Some by (simp add: daemon_inv_def)
  then show ?thesis
    using dispatch_session_keeps [OF _ assms(2), of s "dm_host D" K "dm_idle_lock D div SEC" req "proof"] d D'
    by (auto simp: keeps_def quiet_def daemon_inv_def)
qed

lemma handle_request_quiet:
  assumes "handle_request L K req D = Some (resp, D')" and "documents_wf L" and "daemon_inv D"
  shows "quiet D D'"
proof (cases "derive_human_proof L req (dm_session D)")
  case (Inl e)
  then show ?thesis using assms(1) by (simp add: handle_request_def)
next
  case (Inr proof')
  obtain r D1 where i: "idle_check L D = (r, D1)" by force
  note q1 = idle_check_quiet [OF i]
  show ?thesis
  proof (cases r)
    case (Inl e)
    then show ?thesis using assms(1) Inr i q1 by (simp add: handle_request_def)
  next
    case (Inr u)
    then obtain a D2 where d: "dispatch L K req proof' D1 = Some (a, D2)" and D': "D' = arm_idle_watchdog D2"
      using assms(1) \<open>derive_human_proof L req (dm_session D) = Inr proof'\<close> i
      by (auto simp: handle_request_def split: option.splits)
    have "daemon_inv D1" using q1 assms(3) by (simp add: quiet_def)
    then have "quiet D1 D2" by (rule dispatch_quiet [OF d assms(2)])
    then show ?thesis using q1 D' quiet_trans arm_quiet by metis
  qed
qed

lemma watchdog_quiet: "watchdog_wake L D = (b, D') \<Longrightarrow> quiet D D'"
  using idle_check_quiet [of L D] arm_quiet quiet_trans
  by (auto simp: watchdog_wake_def split: prod.splits)

lemma session_update_quiet:
  "(\<And>s. dm_session D = Some s \<Longrightarrow> session_inv s \<Longrightarrow> session_inv (f s)) \<Longrightarrow>
    quiet D (D\<lparr>dm_session := map_option f (dm_session D)\<rparr>)"
  by (auto simp: quiet_def daemon_inv_def)

lemma set_machine_quiet [simp]: "quiet D (set_machine w D)"
  by (auto simp: quiet_def daemon_inv_def set_machine_def split: option.splits)

lemma add_signals_quiet [simp]: "quiet D (add_signals xs D)"
  by (simp add: quiet_def daemon_inv_def add_signals_def)

lemma deny_run_quiet: "deny_run L actor project keys run_id e resp D = (ph, D') \<Longrightarrow> quiet D D'"
  by (auto simp: deny_run_def intro: session_update_quiet audit_run_inv(2))

lemma on_session_quiet:
  assumes "on_session f D = (r, D')" and "\<And>s q s'. f s = (q, s') \<Longrightarrow> session_inv s \<Longrightarrow> session_inv s'"
  shows "quiet D D'"
  using assms by (auto simp: on_session_def quiet_def daemon_inv_def split: option.splits prod.splits)

lemma record_exit_quiet: "record_exit L la st D = (r, D') \<Longrightarrow> quiet D D'"
  unfolding record_exit_def by (erule on_session_quiet) (simp add: audit_run_exited_def run_record_inv)

lemma unreserve_quiet [simp]: "quiet D (unreserve la D)"
  by (auto simp: quiet_def daemon_inv_def unreserve_def set_runs_def drop_reservation_def host_step_def
      AList.delete_eq)

lemma finish_daemon_quiet [simp]: "quiet D (finish_daemon L la pgid D)"
  by (auto simp: quiet_def daemon_inv_def finish_daemon_def finish_run_def remove_run_def host_step_def
      AList.delete_eq split: option.splits)

section \<open>The registry\<close>

text \<open>A property of the registry that reserving, activating and ending runs keep.\<close>

locale registry_law =
  fixes law :: "run_registry \<Rightarrow> bool"
  assumes law_empty: "law []"
    and law_reserve: "law reg \<Longrightarrow> law (snd (try_reserve agent project run_id now reg))"
    and law_activate: "law reg \<Longrightarrow> law (snd (activate run_id pid pgid reg))"
    and law_end: "law reg \<Longrightarrow> law (filter P reg)"
begin

lemma law_host: "host_step h h' \<Longrightarrow> law (rh_runs h) \<Longrightarrow> law (rh_runs h')"
  by (auto simp: host_step_def law_end)

lemma law_quiet: "quiet D D' \<Longrightarrow> law (rh_runs (dm_host D)) \<Longrightarrow> law (rh_runs (dm_host D'))"
  by (auto simp: quiet_def intro: law_host)

end

end
