(* ===== verification/RunMachine.thy ===== *)
theory RunMachine
  imports BrokerMachine
begin

text \<open>
  The threads of managed runs beside the requests of everybody else. A state is the daemon with the
  phase of every run thread; the step relation interleaves them in any order.
\<close>

section \<open>One step of a run thread\<close>

text \<open>A thread reserves or activates its run, and otherwise only ends runs.\<close>

definition run_moves :: "daemon \<Rightarrow> daemon \<Rightarrow> bool" where
  "run_moves D D' \<longleftrightarrow>
     (\<exists>D1. quiet D1 D' \<and>
       (D1 = D
        \<or> (\<exists>a p i t. D1 = set_runs (snd (try_reserve a p i t (rh_runs (dm_host D)))) D)
        \<or> (\<exists>i pid pgid. D1 = set_runs (snd (activate i pid pgid (rh_runs (dm_host D)))) D)))"

lemma quiet_moves: "quiet D D' \<Longrightarrow> run_moves D D'"
  by (auto simp: run_moves_def)

lemma run_moves_inv: "run_moves D D' \<Longrightarrow> daemon_inv D \<Longrightarrow> daemon_inv D'"
  by (auto simp: run_moves_def quiet_def daemon_inv_def set_runs_def)

lemma authorise_run_inv:
  assumes "authorise_run L req ps s = (r, s')" and "session_inv s"
  shows "session_inv s'"
proof -
  obtain e s1 where e: "ensure_run_unlocked L s = (e, s1)" by force
  have i: "session_inv s1" by (rule ensure_run_unlocked_inv [OF e assms(2)])
  show ?thesis
    using assms i
    by (auto simp: authorise_run_def Let_def e audit_run_inv(2)
        split: if_splits option.splits sum.splits prod.splits)
qed

lemma deny_launch_quiet: "deny_launch L la run_id e resp D = (ph, D') \<Longrightarrow> quiet D D'"
  unfolding deny_launch_def by (rule deny_run_quiet)

lemma deny_ready_quiet: "deny_ready L i rd e D = (ph, D') \<Longrightarrow> quiet D D'"
  unfolding deny_ready_def by (rule deny_run_quiet)

lemma run_wakes_moves: "run_wakes L req fds D = (ph, D') \<Longrightarrow> run_moves D D'"
  by (auto simp: run_wakes_def split: prod.splits sum.splits
      intro: quiet_moves quiet_trans [OF idle_check_quiet arm_quiet] dest: idle_check_quiet)

lemma run_parses_moves: "run_parses L req fds D = (ph, D') \<Longrightarrow> run_moves D D'"
  by (auto simp: run_parses_def split: if_splits sum.splits intro: quiet_moves dest: deny_run_quiet)

lemma run_authorises_moves: "run_authorises L req ps D = (ph, D') \<Longrightarrow> run_moves D D'"
  by (auto simp: run_authorises_def quiet_def daemon_inv_def split: option.splits prod.splits sum.splits
      intro!: quiet_moves dest: authorise_run_inv)

lemma run_equips_moves: "run_equips L i ps rd D = (ph, D') \<Longrightarrow> run_moves D D'"
  by (auto simp: run_equips_def split: sum.splits intro: quiet_moves dest: deny_ready_quiet)

lemma run_locates_moves: "run_locates L K i ps rd env D = (ph, D') \<Longrightarrow> run_moves D D'"
  by (auto simp: run_locates_def split: option.splits prod.splits sum.splits
      intro: quiet_moves quiet_trans [OF set_machine_quiet] dest: deny_ready_quiet)

lemma run_names_moves: "run_names L i ps rd env D = (ph, D') \<Longrightarrow> run_moves D D'"
  by (auto simp: run_names_def split: prod.splits sum.splits
      intro: quiet_moves quiet_trans [OF set_machine_quiet] dest: deny_ready_quiet)

lemma run_reserves_moves: "run_reserves L la D = (ph, D') \<Longrightarrow> run_moves D D'"
proof -
  assume r: "run_reserves L la D = (ph, D')"
  let ?a = "try_reserve (rd_agent_id (la_ready la)) (rd_project (la_ready la)) (la_run_id la)
             (w_wall (machine_of D)) (rh_runs (dm_host D))"
  have "quiet (set_runs (snd ?a) D) D'"
    using r by (auto simp: run_reserves_def split: prod.splits sum.splits dest: deny_launch_quiet)
  then show ?thesis unfolding run_moves_def by blast
qed

lemma run_records_moves: "run_records L la D = (ph, D') \<Longrightarrow> run_moves D D'"
proof -
  assume r: "run_records L la D = (ph, D')"
  obtain q D1 where o: "on_session (audit_run_allowed L (rd_actor (la_ready la)) (rd_project (la_ready la))
              (rd_keys (la_ready la)) (arg_count la)) D = (q, D1)" by force
  have "quiet D D1" by (rule on_session_quiet [OF o]) (simp add: audit_run_allowed_def run_record_inv)
  then show ?thesis using r
    by (auto simp: run_records_def o split: sum.splits intro: quiet_moves quiet_trans [OF _ unreserve_quiet])
qed

lemma run_spawns_moves: "run_spawns L m la D = (ph, D') \<Longrightarrow> run_moves D D'"
  by (auto simp: run_spawns_def split: sum.splits
      intro: quiet_moves quiet_trans [OF unreserve_quiet] dest: deny_launch_quiet)

lemma run_activates_moves: "run_activates L la pid D = (ph, D') \<Longrightarrow> run_moves D D'"
proof -
  assume r: "run_activates L la pid D = (ph, D')"
  obtain b reg where a: "activate (la_run_id la) pid pid (rh_runs (dm_host D)) = (b, reg)" by force
  show ?thesis
  proof (cases b)
    case True
    then have "D' = set_runs (snd (activate (la_run_id la) pid pid (rh_runs (dm_host D)))) D"
      using r a by (simp add: run_activates_def)
    then show ?thesis unfolding run_moves_def using quiet_refl by blast
  next
    case False
    obtain ph1 D1 where d: "deny_launch L la (Some (la_run_id la)) Permission
        (response_err (la_id la) ''E_PERMISSION'' ''run capability was revoked'')
        (add_signals (terminate_group L pid) D) = (ph1, D1)" by force
    with False r a have "D' = unreserve la D1" by (simp add: run_activates_def)
    with deny_launch_quiet [OF d] have "quiet (add_signals (terminate_group L pid) D) D'"
      by (simp add: quiet_trans [OF _ unreserve_quiet])
    then show ?thesis by (rule quiet_moves [OF quiet_trans [OF add_signals_quiet]])
  qed
qed

lemma run_announces_moves: "run_announces L m la pid D = (ph, D') \<Longrightarrow> run_moves D D'"
proof -
  assume r: "run_announces L m la pid D = (ph, D')"
  obtain q D1 where o: "on_session (audit_run_started L (rd_actor (la_ready la)) (rd_project (la_ready la))
              (rd_keys (la_ready la)) (la_run_id la) (rp_executable (la_params la)) (arg_count la)
              (rp_cwd (la_params la))) D = (q, D1)" by force
  have q1: "quiet D D1" by (rule on_session_quiet [OF o]) (simp add: audit_run_started_def run_record_inv)
  have q2: "quiet D (finish_daemon L la pid D1)" using quiet_trans [OF q1 finish_daemon_quiet] .
  have q3: "quiet D (snd (record_exit L la st (finish_daemon L la pid D1)))" for st
    using quiet_trans [OF q2 record_exit_quiet [OF prod.collapse [symmetric]]] .
  show ?thesis using r q1 q2 q3
    by (auto simp: run_announces_def o split: sum.splits if_splits intro: quiet_moves)
qed

lemma run_polls_moves: "run_polls L m la pgid deadline D = (ph, D') \<Longrightarrow> run_moves D D'"
proof -
  assume r: "run_polls L m la pgid deadline D = (ph, D')"
  let ?D1 = "finish_daemon L la pgid D"
  have q: "quiet D (snd (record_exit L la st ?D1))" for st
    using quiet_trans [OF finish_daemon_quiet record_exit_quiet [OF prod.collapse [symmetric]]] .
  have "D' = D \<or> (\<exists>st. D' = snd (record_exit L la st ?D1))"
    using r by (auto simp: run_polls_def Let_def split: sum.splits option.splits if_splits prod.splits)
      (metis snd_conv)+
  then show ?thesis using q by (auto intro: quiet_moves)
qed

lemma run_step_moves: "run_step L K m ph D = (ph', D') \<Longrightarrow> run_moves D D'"
  by (cases ph)
    (auto intro: run_wakes_moves run_parses_moves run_authorises_moves run_equips_moves run_locates_moves
      run_names_moves run_reserves_moves run_records_moves run_spawns_moves run_activates_moves
      run_announces_moves run_polls_moves quiet_moves)

section \<open>All of it\<close>

record broker =
  bk_daemon :: daemon
  bk_runs :: "run_phase list"

inductive broker_step :: "('z) broker_lib_scheme \<Rightarrow> 'fd kernel \<Rightarrow> broker \<Rightarrow> broker \<Rightarrow> bool"
  for L :: "('z) broker_lib_scheme" and K :: "'fd kernel" where
  request: "handle_request L K req (bk_daemon B) = Some (resp, D) \<Longrightarrow>
    broker_step L K B (B\<lparr>bk_daemon := D\<rparr>)"
| refused: "broker_step L K B (B\<lparr>bk_daemon := refuse_fds L (bk_daemon B)\<rparr>)"
| wakes: "watchdog_wake L (bk_daemon B) = (failed, D) \<Longrightarrow> broker_step L K B (B\<lparr>bk_daemon := D\<rparr>)"
| arrives: "broker_step L K B (B\<lparr>bk_runs := bk_runs B @ [Arrived req fds]\<rparr>)"
| thread: "i < length (bk_runs B) \<Longrightarrow> run_step L K m (bk_runs B ! i) (bk_daemon B) = (ph, D) \<Longrightarrow>
    broker_step L K B (B\<lparr>bk_daemon := D, bk_runs := (bk_runs B)[i := ph]\<rparr>)"
| machine: "broker_step L K B (B\<lparr>bk_daemon := set_machine w (bk_daemon B)\<rparr>)"

lemma broker_step_moves:
  assumes "broker_step L K B B'" and "documents_wf L" and "daemon_inv (bk_daemon B)"
  shows "run_moves (bk_daemon B) (bk_daemon B')"
  using assms(1)
proof cases
  case (request req resp D)
  then show ?thesis using handle_request_quiet [OF request(2) assms(2,3)] by (simp add: quiet_moves)
next
  case refused
  then show ?thesis
    by (auto simp: refuse_fds_def intro!: quiet_moves session_update_quiet audit_run_inv(2))
next
  case (wakes failed D)
  then show ?thesis using watchdog_quiet [OF wakes(2)] by (simp add: quiet_moves)
next
  case (thread i m ph D)
  then show ?thesis using run_step_moves by auto
qed (auto intro: quiet_moves)

lemma broker_steps_inv:
  assumes "(broker_step L K)\<^sup>*\<^sup>* B B'" and "documents_wf L" and "daemon_inv (bk_daemon B)"
  shows "daemon_inv (bk_daemon B')"
  using assms
  by (induction rule: rtranclp_induct) (blast intro: run_moves_inv broker_step_moves)+

context registry_law
begin

lemma law_moves: "run_moves D D' \<Longrightarrow> law (rh_runs (dm_host D)) \<Longrightarrow> law (rh_runs (dm_host D'))"
  by (auto simp: run_moves_def set_runs_def law_reserve law_activate dest: law_quiet)

lemma law_reachable:
  assumes "(broker_step L K)\<^sup>*\<^sup>* B B'" and "documents_wf L" and "daemon_inv (bk_daemon B)"
    and "law (rh_runs (dm_host (bk_daemon B)))"
  shows "law (rh_runs (dm_host (bk_daemon B')))"
  using assms
proof (induction rule: rtranclp_induct)
  case (step B1 B2)
  have "daemon_inv (bk_daemon B1)" by (rule broker_steps_inv [OF step(1) assms(2,3)])
  with step show ?case by (blast intro: law_moves broker_step_moves)
qed simp

end

section \<open>The quotas\<close>

definition within_quotas :: "run_registry \<Rightarrow> bool" where
  "within_quotas reg \<longleftrightarrow> length reg \<le> MAX_RUNS_TOTAL \<and> (\<forall>agent. owned_runs agent reg \<le> MAX_RUNS_PER_AGENT)"

definition unique_runs :: "run_registry \<Rightarrow> bool" where
  "unique_runs reg \<longleftrightarrow> distinct (map fst reg)"

lemma activate_shape:
  assumes "snd (activate run_id pid pgid reg) = reg'"
  shows "map fst reg' = map fst reg" "map (rm_agent \<circ> snd) reg' = map (rm_agent \<circ> snd) reg"
  using assms
proof (induction reg arbitrary: reg')
  case (Cons x reg)
  {
    case 1 then show ?case using Cons.IH(1) [OF refl] by (cases x) (auto simp: activate_def split: option.splits if_splits)
  next
    case 2 then show ?case using Cons.IH(2) [OF refl] by (cases x) (auto simp: activate_def split: option.splits if_splits)
  }
qed (auto simp: activate_def)

lemma owned_runs_map: "owned_runs agent reg = length (filter (\<lambda>a. a = agent) (map (rm_agent \<circ> snd) reg))"
  by (induction reg) (auto simp: owned_runs_def)

interpretation quotas: registry_law within_quotas
proof
  show "within_quotas []" by (simp add: within_quotas_def owned_runs_def)
next
  fix reg agent project run_id now assume w: "within_quotas reg"
  have o: "owned_runs a (reg @ [(run_id, m)]) = owned_runs a reg + (if rm_agent m = a then 1 else 0)" for a m
    by (simp add: owned_runs_def)
  show "within_quotas (snd (try_reserve agent project run_id now reg))"
    using w by (auto simp: try_reserve_def within_quotas_def o)
next
  fix reg run_id pid pgid assume "within_quotas reg"
  then show "within_quotas (snd (activate run_id pid pgid reg))"
    using activate_shape [OF refl, of run_id pid pgid reg]
    by (simp add: within_quotas_def owned_runs_map) (metis length_map)
next
  fix reg and P :: "string \<times> run_meta \<Rightarrow> bool" assume w: "within_quotas reg"
  have "owned_runs a (filter P reg) \<le> owned_runs a reg" for a
    unfolding owned_runs_def by (induction reg) auto
  then show "within_quotas (filter P reg)" using w
    by (auto simp: within_quotas_def intro: order_trans order_trans [OF length_filter_le])
qed

interpretation unique: registry_law unique_runs
proof
  show "unique_runs []" by (simp add: unique_runs_def)
next
  fix reg agent project run_id now assume "unique_runs reg"
  then show "unique_runs (snd (try_reserve agent project run_id now reg))"
    by (auto simp: try_reserve_def unique_runs_def map_of_eq_None_iff)
next
  fix reg run_id pid pgid assume "unique_runs reg"
  then show "unique_runs (snd (activate run_id pid pgid reg))"
    using activate_shape(1) [OF refl, of run_id pid pgid reg] by (simp add: unique_runs_def)
next
  fix reg and P :: "string \<times> run_meta \<Rightarrow> bool" assume "unique_runs reg"
  then show "unique_runs (filter P reg)" by (simp add: unique_runs_def distinct_map_filter)
qed

end
