(* ===== verification/ToyBroker.thy ===== *)
theory ToyBroker
  imports Toy BrokerDispatch
begin

text \<open>
  The library of the daemon for the witnesses: the vault of \<open>Toy\<close> on a machine that knows no
  process, where no stored document can be read.
\<close>

definition toy_broker :: broker_lib where
  "toy_broker = vault_lib.extend toy_vault
     \<lparr>show_time = (\<lambda>_. ''t''), line_value = (\<lambda>_. JNull), killpg = (\<lambda>_ _. None)\<rparr>"

lemma toy_broker_sel [simp]:
  "sha256 toy_broker = toy_hash" "doc_de toy_broker = (\<lambda>_. None)" "killpg toy_broker p g = None"
  "parse_line toy_broker x = None"
  by (simp_all add: toy_broker_def toy_vault_def vault_lib.defs)

end
