(* ===== verification/BrokerTheorems.thy ===== *)
theory BrokerTheorems
  imports RunMachine ToyBroker Containment
begin

text \<open>
  The properties of the daemon: who may run what, what a lock and an idle timeout do to the live runs,
  what a managed run stands on, and the invariants of every interleaving. The witnesses use the vault
  of \<open>Toy\<close> with a machine that knows no process.
\<close>

section \<open>A concrete daemon\<close>

lemma toy_broker_documents: "documents_wf toy_broker"
proof -
  have "open_vault toy_broker derived s \<noteq> Inr r" for derived s r
    by (auto simp: open_vault_def Let_def res_bind_Inr_iff ok_or_def)
  then show ?thesis by (auto simp: documents_wf_def)
qed

definition toy_request :: "string \<Rightarrow> auth_field option \<Rightarrow> (string \<times> json) list \<Rightarrow> request" where
  "toy_request op au ps = \<lparr>rq_v = 1, rq_id = ''i'', rq_op = op, rq_auth = au, rq_params = JObj ps\<rparr>"

definition by_session :: "string \<Rightarrow> auth_field option" where
  "by_session c = Some \<lparr>au_token = None, au_passphrase = None, au_session = Some c\<rparr>"

definition by_token :: "string \<Rightarrow> auth_field option" where
  "by_token t = Some \<lparr>au_token = Some t, au_passphrase = None, au_session = None\<rparr>"

lemma toy_request_sel [simp]:
  "rq_op (toy_request op au ps) = op" "rq_id (toy_request op au ps) = ''i''"
  "rq_params (toy_request op au ps) = JObj ps"
  "auth_token (toy_request op (by_session c) ps) = None" "auth_token (toy_request op (by_token t) ps) = Some t"
  "auth_passphrase (toy_request op (by_session c) ps) = None" "auth_passphrase (toy_request op (by_token t) ps) = None"
  "session_credential (toy_request op (by_session c) ps) = Some c" "session_credential (toy_request op (by_token t) ps) = None"
  by (simp_all add: toy_request_def by_session_def by_token_def auth_token_def auth_passphrase_def
      session_credential_def)

definition no_runs :: run_host where "no_runs = \<lparr>rh_runs = [], rh_signals = []\<rparr>"

definition toy_human_session :: session where
  "toy_human_session =
     toy_session\<lparr>s_sessions := [(toy_hash ''c'', \<lparr>hs_prefix = ''00'', hs_minted_at = 0, hs_last_used = 0, hs_ttl = 300\<rparr>)]\<rparr>"

section \<open>Who may run what\<close>

lemma dispatch_session_allowed:
  assumes "dispatch_session L K n req proof s h = Some (Inr resp, s', h')"
  obtains who actor s1 where "authenticate L req proof s = (Inr (who, actor), s1)"
    "boundary L req who actor s1 = (Inr (), s1)"
proof -
  obtain a s1 where a: "authenticate L req proof s = (a, s1)" by force
  obtain who actor where w: "a = Inr (who, actor)"
    using assms a by (cases a) (auto simp: dispatch_session_def)
  obtain b s2 where b: "boundary L req who actor s1 = (b, s2)" by force
  have "b = Inr ()" using assms a w b by (cases b) (auto simp: dispatch_session_def)
  moreover have "s2 = s1" using b \<open>b = Inr ()\<close> by (auto simp: boundary_def Let_def split: if_splits sum.splits)
  ultimately show thesis using that a w b by blast
qed

lemma authenticate_human:
  assumes "authenticate L req proof s = (Inr (Human, actor), s1)"
  shows "auth_token req = None"
    and "(\<exists>p d. auth_passphrase req = Some p \<and> session_credential req = None \<and> proof = Some d \<and> proof_is_valid L d s)
       \<or> (\<exists>c e. session_credential req = Some c \<and> auth_passphrase req = None
            \<and> map_of (s_sessions s) (token_digest L c) = Some e \<and> s_keys s \<noteq> None
            \<and> \<not> expire_windows e (w_mono (s_world s)))"
  using assms
  by (auto simp: authenticate_def Let_def authorize_session_def validate_session_def refuse_def
      split: if_splits option.splits sum.splits prod.splits)

text \<open>C20: A human-only operation goes through only for a request that carries exactly one credential,
  and that credential is a passphrase whose derived key opens a slot of the vault, or a session
  credential that is live on an unlocked vault: unexpired by its own window and by the ceiling of
  half an hour since it was minted. The request names no lease.\<close>

theorem human_operation_needs_proof:
  assumes "dispatch_session L K n req proof s h = Some (Inr resp, s', h')"
    and "rq_op req \<in> set HUMAN_ONLY"
  shows "auth_token req = None
    \<and> ((\<exists>p d. auth_passphrase req = Some p \<and> session_credential req = None \<and> proof = Some d
          \<and> is_ok (unlock_with L (s_envelope s) d))
       \<or> (\<exists>c e. session_credential req = Some c \<and> auth_passphrase req = None
            \<and> map_of (s_sessions s) (token_digest L c) = Some e \<and> s_keys s \<noteq> None
            \<and> elapsed_secs (w_mono (s_world s)) (hs_last_used e) < hs_ttl e
            \<and> elapsed_secs (w_mono (s_world s)) (hs_minted_at e) < 1800))
    \<and> get_member (rq_params req) ''lease'' \<in> {None, Some JNull}"
proof -
  obtain who actor s1 where a: "authenticate L req proof s = (Inr (who, actor), s1)"
    and b: "boundary L req who actor s1 = (Inr (), s1)"
    by (rule dispatch_session_allowed [OF assms(1)])
  have status: "rq_op req \<noteq> ''vault.status''" using assms(2) by (auto simp: HUMAN_ONLY_def)
  have who: "who = Human"
    using b assms(2) status by (cases who) (auto simp: boundary_def Let_def split: if_splits)
  have "reject_lease_on_human_op req = Inr ()"
    using b by (auto simp: boundary_def Let_def who split: sum.splits if_splits)
  then have "get_member (rq_params req) ''lease'' \<in> {None, Some JNull}"
    by (cases "rq_params req")
      (auto simp: reject_lease_on_human_op_def is_null_def split: option.splits if_splits)
  then show ?thesis
    using authenticate_human [OF a [unfolded who]]
    by (auto simp: proof_is_valid_def expire_windows_def SESSION_MAX_TTL_SECS_def not_le)
qed

lemma toy_audit_verify:
  "op_audit_verify toy_broker c toy_human_session h =
     answer_ok (cx_id c)
       (jobj [(''entries'', jnat 0), (''macs_verified'', jnat 0), (''macs_null'', jnat 0)]) toy_human_session h"
  by (simp add: op_audit_verify_def toy_human_session_def audit_verify_def verify_def walk_def calls_def
      toy_session_def calm_world_def read_to_string_def empty_report_def audit_lines_def rust_lines_def)

lemma toy_authenticate:
  "authenticate toy_broker (toy_request op (by_session ''c'') ps) None toy_human_session
     = (Inr (Human, session_actor ''00''), toy_human_session)"
  by (simp add: authenticate_def authorize_session_def validate_session_def toy_human_session_def
      token_digest_def expire_windows_def elapsed_secs_def calm_world_def SESSION_MAX_TTL_SECS_def)

lemma toy_dispatch:
  "dispatch_session toy_broker flat_kernel 0 (toy_request ''audit.verify'' (by_session ''c'') []) None
        toy_human_session no_runs
      = Some (Inr (response_ok ''i'' (jobj [(''entries'', jnat 0), (''macs_verified'', jnat 0), (''macs_null'', jnat 0)])),
          toy_human_session, no_runs)"
proof -
  have b: "boundary toy_broker (toy_request ''audit.verify'' (by_session ''c'') []) Human (session_actor ''00'') s
      = (Inr (), s)" for s
    by (simp add: boundary_def reject_lease_on_human_op_def NOT_YET_def)
  have o: "dispatch_op toy_broker flat_kernel 0 (toy_request ''audit.verify'' (by_session ''c'') []) c toy_human_session no_runs
      = op_audit_verify toy_broker c toy_human_session no_runs" for c
    by (simp add: dispatch_op_def)
  have slide: "slide_session toy_broker ''c'' toy_human_session = toy_human_session"
    by (simp add: slide_session_def toy_human_session_def token_digest_def calm_world_def)
  show ?thesis
    unfolding dispatch_session_def toy_authenticate
    by (simp add: b o toy_audit_verify answer_ok_def settle_def slide)
qed

theorem human_operation_needs_proof_witness:
  "\<exists>e. map_of (s_sessions toy_human_session) (toy_hash ''c'') = Some e \<and> hs_ttl e = 300
    \<and> elapsed_secs (w_mono (s_world toy_human_session)) (hs_minted_at e) < 1800"
  using human_operation_needs_proof [OF toy_dispatch]
  by (simp add: HUMAN_ONLY_def token_digest_def) (simp add: toy_human_session_def)

text \<open>A request with two credentials, or with an empty session credential beside another one, is
  refused with \<open>E_PROTOCOL\<close> whatever its operation, and neither the vault nor the runs notice.\<close>

theorem one_credential_only:
  assumes "(auth_token req \<noteq> None \<and> auth_passphrase req \<noteq> None)
    \<or> (auth_token req \<noteq> None \<and> session_credential req \<noteq> None)
    \<or> (auth_passphrase req \<noteq> None \<and> session_credential req \<noteq> None)"
  shows "dispatch_session L K n req proof s h =
    Some (Inl (response_err (rq_id req) ''E_PROTOCOL'' one_credential), s, h)"
proof -
  have "authenticate L req proof s = (Inl (response_err (rq_id req) ''E_PROTOCOL'' one_credential), s)"
    using assms by (cases "auth_token req"; cases "auth_passphrase req"; cases "session_credential req")
      (simp_all add: authenticate_def Let_def)
  then show ?thesis by (simp add: dispatch_session_def)
qed

theorem one_credential_only_witness:
  "dispatch_session toy_broker flat_kernel 0
     (toy_request ''vault.lock'' (Some \<lparr>au_token = Some ''t'', au_passphrase = None, au_session = Some []\<rparr>) [])
     None toy_session no_runs
   = Some (Inl (response_err ''i'' ''E_PROTOCOL'' one_credential), toy_session, no_runs)"
  by (subst one_credential_only)
    (simp_all add: toy_request_def auth_token_def auth_passphrase_def session_credential_def)

section \<open>Locking and the live runs\<close>

text \<open>A vault that is locked and has nothing running.\<close>

definition shut :: "session \<Rightarrow> run_host \<Rightarrow> bool" where
  "shut s h \<longleftrightarrow> s_keys s = None \<and> s_doc s = None \<and> s_audit_key s = None \<and> s_sessions s = [] \<and> rh_runs h = []"

text \<open>Every live run's group got the terminating signal, and the killing one if it was still there.\<close>

definition all_signalled :: "('z) broker_lib_scheme \<Rightarrow> run_host \<Rightarrow> run_host \<Rightarrow> bool" where
  "all_signalled L h h' \<longleftrightarrow>
     (\<forall>(run_id, m)\<in>set (rh_runs h). rm_pgid m > 0 \<longrightarrow>
        (rm_pgid m, SIGTERM) \<in> set (rh_signals h')
        \<and> (killpg L (rm_pgid m) 0 = None \<longrightarrow> (rm_pgid m, SIGKILL) \<in> set (rh_signals h')))"

lemma lock_and_drain_effect:
  assumes "lock_and_drain L actor s h = (r, s', h')"
  shows "r = Inr ()" "shut s' h'" "all_signalled L h h'"
proof -
  let ?r = "mk_record actor ''vault.lock'' None [] None Allowed None"
  obtain c s2 h2 where t: "terminate_matching_runs L actor None None
      (snd (audit_record_lifecycle L actor ?r s)) h = (c, s2, h2)" by (metis prod_cases3)
  have c: "c = Inr ()" by (rule terminate_matching_runs_step(1) [OF t])
  have h2: "h2 = h\<lparr>rh_runs := [],
      rh_signals := rh_signals h @ concat (map (\<lambda>(_, m). terminate_group L (rm_pgid m)) (rh_runs h))\<rparr>"
    using t by (simp add: terminate_matching_runs_def take_matching_def matches_run_def)
  have sent: "set (terminate_group L (rm_pgid m)) \<subseteq> set (rh_signals h2)" if "(i, m) \<in> set (rh_runs h)" for i m
    using that by (auto simp: h2)
  have grp: "pgid > 0 \<Longrightarrow> (pgid, SIGTERM) \<in> set (terminate_group L pgid)
      \<and> (killpg L pgid 0 = None \<longrightarrow> (pgid, SIGKILL) \<in> set (terminate_group L pgid))" for pgid
    by (simp add: terminate_group_def)
  have all: "all_signalled L h h2" using sent grp by (fastforce simp: all_signalled_def)
  obtain s3 where l: "lock_persist L s2 = (Inr (), lock_session s3)" by (rule lock_persist_cases [of L s2])
  have eq: "r = Inr ()" "s' = lock_session s3" "h' = h2"
    using assms t l c by (auto simp: lock_and_drain_def Let_def)
  then show "r = Inr ()" "shut s' h'" "all_signalled L h h'" using h2 all by (simp_all add: shut_def)
qed

text \<open>C24: Locking always succeeds, even when the audit log is full or the vault file cannot be
  written: the keys, the document and the human sessions are gone, no run is left in the registry, and
  every live process group was sent \<open>SIGTERM\<close>, and \<open>SIGKILL\<close> when it was still there.\<close>

theorem lock_always_closes:
  "case lock_and_drain L actor s h of (r, s', h') \<Rightarrow>
     r = Inr () \<and> s_keys s' = None \<and> s_doc s' = None \<and> s_audit_key s' = None \<and> s_sessions s' = []
     \<and> rh_runs h' = [] \<and> all_signalled L h h'"
proof -
  obtain r s' h' where l: "lock_and_drain L actor s h = (r, s', h')" by (metis prod_cases3)
  show ?thesis using lock_and_drain_effect [OF l] by (simp add: l shut_def)
qed


definition idle_session :: session where
  "idle_session =
     toy_session\<lparr>s_idle_timeout := 5, s_world := (s_world toy_session)\<lparr>w_mono := 10\<rparr>\<rparr>"

definition toy_daemon :: "session \<Rightarrow> daemon" where
  "toy_daemon s =
     \<lparr>dm_vault_path = ''/v'', dm_socket_path = ''/v.sock'', dm_idle_lock = 5, dm_world = s_world s,
      dm_session = Some s, dm_host = no_runs, dm_deadline = None\<rparr>"


section \<open>Every request is answered\<close>

named_theorems returns_intro

definition returns :: "handled \<Rightarrow> bool" where
  "returns out \<longleftrightarrow> out \<noteq> None"

lemma returns_basic [returns_intro]:
  "returns (Some x)" "returns (answer_ok i r s h)" "returns (answer_err i c msg s h)"
  "(\<And>y. x' = Some y \<Longrightarrow> returns (k y)) \<Longrightarrow> returns (needs i msg x' s h k)"
  "(\<And>y. cx_identity c' = Agent y \<Longrightarrow> returns (k' y)) \<Longrightarrow> returns (needs_agent c' msg s h k')"
  by (auto simp: returns_def answer_ok_def answer_err_def needs_def needs_agent_def split: option.split identity.split)

lemma returns_calls [returns_intro]:
  "(\<And>x s'. m = (Inr x, s') \<Longrightarrow> returns (k x s')) \<Longrightarrow> returns (calls i h m k)"
  by (auto simp: returns_def calls_def split: prod.split sum.split)

lemma returns_drains [returns_intro]: "returns (drains L c actor agent project s h result)"
  by (auto simp: drains_def intro!: returns_intro split: prod.split)

lemma returns_cases [returns_intro]:
  "(x = None \<Longrightarrow> returns a) \<Longrightarrow> (\<And>y. x = Some y \<Longrightarrow> returns (b y)) \<Longrightarrow> returns (case x of None \<Rightarrow> a | Some y \<Rightarrow> b y)"
  "(\<And>y. z = Inl y \<Longrightarrow> returns (a' y)) \<Longrightarrow> (\<And>y. z = Inr y \<Longrightarrow> returns (b' y)) \<Longrightarrow>
     returns (case z of Inl y \<Rightarrow> a' y | Inr y \<Rightarrow> b' y)"
  "(\<And>u v. p = (u, v) \<Longrightarrow> returns (f u v)) \<Longrightarrow> returns (case p of (u, v) \<Rightarrow> f u v)"
  "(\<And>u v. p = (u, v) \<Longrightarrow> returns (g u v t)) \<Longrightarrow> returns ((case p of (u, v) \<Rightarrow> g u v) t)"
  "(q \<Longrightarrow> returns a) \<Longrightarrow> (\<not> q \<Longrightarrow> returns d) \<Longrightarrow> returns (case q of True \<Rightarrow> a | False \<Rightarrow> d)"
  "(q \<Longrightarrow> returns a) \<Longrightarrow> (\<not> q \<Longrightarrow> returns d) \<Longrightarrow> returns (if q then a else d)"
  "(w = Human \<Longrightarrow> returns a) \<Longrightarrow> (\<And>y. w = Agent y \<Longrightarrow> returns (e y)) \<Longrightarrow> (w = Unauthenticated \<Longrightarrow> returns d) \<Longrightarrow>
     returns (case w of Human \<Rightarrow> a | Agent y \<Rightarrow> e y | Unauthenticated \<Rightarrow> d)"
  by (cases x; cases z; cases p; cases q; cases w; auto)+

text \<open>The \<open>expect\<close>s: whoever was revoked had an id.\<close>

lemma finish_change_refused [simp]: "finish_change L prio r q (Inl e) s \<noteq> (Inr x, s')"
  by (simp add: finish_change_def refuse_def)

lemma agent_id_of_revoked:
  assumes "session_inv s" and "agent_revoke L actor name s = (Inr x, s')"
  shows "agent_id_of s name \<noteq> None"
proof -
  obtain g s1 where w: "with_doc L actor ''agents.revoke'' (Some name) [] s = (g, s1)" by force
  then obtain d where g: "g = Inr d" using assms(2) by (cases g) (auto simp: agent_revoke_def)
  with with_doc_inv(2) [OF w assms(1)] have d: "s_doc s = Some d" "s1 = s" by auto
  have "do_agent_revoke d name \<noteq> Inl NotFound"
    using assms(2) w g d by (auto simp: agent_revoke_def agent_revoke_doc_def)
  then show ?thesis
    using d by (auto simp: agent_id_of_def do_agent_revoke_def agent_by_name_def position_find
        split: option.splits)
qed

lemma agent_id_of_grantee:
  assumes "session_inv s" and "grant_revoke L actor name project s = (Inr x, s')"
  shows "agent_id_of s name \<noteq> None"
proof -
  obtain g s1 where w: "with_doc L actor ''grants.revoke'' (Some project) [] s = (g, s1)" by force
  then obtain d where g: "g = Inr d" using assms(2) by (cases g) (auto simp: grant_revoke_def)
  with with_doc_inv(2) [OF w assms(1)] have d: "s_doc s = Some d" "s1 = s" by auto
  have "agent_by_name d name \<noteq> None"
  proof
    assume "agent_by_name d name = None"
    then have "do_grant_revoke d name project t = Inl NotFound" for t by (simp add: do_grant_revoke_def)
    then show False using assms(2) w g d by (simp add: grant_revoke_def)
  qed
  then show ?thesis using d by (auto simp: agent_id_of_def)
qed

text \<open>The operations that draw an identifier, in a loop until it is new, or write a file below a folder.\<close>

definition LOOPING :: "string list" where
  "LOOPING = [''project.add'', ''agents.add'', ''lease.create'', ''reveal'', ''inject_file'']"

lemmas broker_ops =
  op_vault_status_def op_vault_lock_def op_vault_unlock_def op_vault_create_def op_vault_health_def
  op_project_list_def op_project_path_add_def op_project_path_remove_def op_project_remove_def
  op_secret_set_def op_secret_delete_def op_agents_list_def op_grants_grant_def op_grants_list_def
  op_audit_show_def op_audit_verify_def op_approvals_pending_def op_approvals_decide_def
  op_session_open_def op_session_touch_def op_session_close_def session_expired_answer_def
  op_runs_list_def op_secrets_list_def op_approvals_status_def

lemma broker_ops_return [returns_intro]:
  "returns (op_vault_status L c s h)" "returns (op_vault_lock L c s h)" "returns (op_vault_unlock L c req s h)"
  "returns (op_vault_create c s h)" "returns (op_vault_health L n c s h)" "returns (op_project_list L c s h)"
  "returns (op_project_path_add L c req s h)" "returns (op_project_path_remove L c req s h)"
  "returns (op_project_remove L c req s h)" "returns (op_secret_set L c req s h)"
  "returns (op_secret_delete L c req s h)" "returns (op_agents_list L c s h)"
  "returns (op_grants_grant L c req s h)" "returns (op_grants_list L c s h)"
  "returns (op_audit_show L c req s h)" "returns (op_audit_verify L c s h)"
  "returns (op_approvals_pending L c s h)" "returns (op_approvals_decide L c req s h)"
  "returns (op_session_open L c req s h)" "returns (op_session_touch L c req s h)"
  "returns (op_session_close L c req s h)" "returns (op_runs_list L c s h)"
  "returns (op_secrets_list L c req s h)" "returns (op_approvals_status L c req s h)"
  unfolding broker_ops Let_def by (intro returns_intro)+

lemma op_run_signal_returns [returns_intro]: "returns (op_run_signal L c req s h)"
  unfolding op_run_signal_def Let_def run_signal_denied_def by (intro returns_intro)

lemma op_lease_list_returns: "cx_identity c \<noteq> Unauthenticated \<Longrightarrow> returns (op_lease_list L c s h)"
  unfolding op_lease_list_def by (intro returns_intro) (auto simp: lease_owner_def split: identity.splits)

lemma op_lease_revoke_returns: "cx_identity c \<noteq> Unauthenticated \<Longrightarrow> returns (op_lease_revoke L c req s h)"
  unfolding op_lease_revoke_def by (intro returns_intro) (auto simp: lease_owner_def split: identity.splits)

lemma op_agents_revoke_returns: "session_inv s \<Longrightarrow> returns (op_agents_revoke L c req s h)"
  unfolding op_agents_revoke_def by (intro returns_intro) (auto dest: agent_id_of_revoked)

lemma op_grants_revoke_returns: "session_inv s \<Longrightarrow> returns (op_grants_revoke L c req s h)"
  unfolding op_grants_revoke_def by (intro returns_intro) (auto dest: agent_id_of_grantee)

lemma dispatch_op_returns:
  assumes "session_inv s" and "rq_op req \<notin> set LOOPING"
    and "cx_identity c = Unauthenticated \<longrightarrow> rq_op req = ''vault.status''"
  shows "returns (dispatch_op L K n req c s h)"
proof -
  have "rq_op req \<noteq> op" if "op \<in> set LOOPING" for op using assms(2) that by auto
  note skip = this [of "''project.add''"] this [of "''agents.add''"] this [of "''lease.create''"]
    this [of "''reveal''"] this [of "''inject_file''"]
  show ?thesis
    unfolding dispatch_op_def Let_def
    using skip assms(3)
    by (intro returns_cases(6) op_lease_list_returns op_lease_revoke_returns op_agents_revoke_returns
        op_grants_revoke_returns assms(1) returns_intro) (auto simp: LOOPING_def)
qed



end
