(* ===== verification/RunTheorems.thy ===== *)
theory RunTheorems
  imports BrokerTheorems
begin

text \<open>
  The properties of managed runs: the environment a child gets, what a run is authorised by, the
  invariants and quotas of every interleaving, and what revocation does and does not reach.
\<close>

section \<open>The environment\<close>

definition env_size :: "(string \<times> string) list \<Rightarrow> nat" where
  "env_size env = sum_list (map (\<lambda>(k, v). length k + length v) env)"

definition clean_env :: "(string \<times> string) list \<Rightarrow> bool" where
  "clean_env env \<longleftrightarrow> (\<forall>(k, v)\<in>set env. \<not> has_nul k \<and> \<not> has_nul v)"

text \<open>What is passed on of the caller's environment.\<close>

definition passed_on :: "string \<Rightarrow> bool" where
  "passed_on k \<longleftrightarrow> k \<in> set ALLOWED_ENV \<and> \<not> is_forbidden_env_name k"

lemma env_size_append [simp]: "env_size (xs @ ys) = env_size xs + env_size ys"
  by (simp add: env_size_def)

lemma env_size_Cons [simp]: "env_size ((k, v) # xs) = length k + length v + env_size xs"
  by (simp add: env_size_def)

lemma clean_env_append: "clean_env (xs @ ys) \<longleftrightarrow> clean_env xs \<and> clean_env ys"
  by (auto simp: clean_env_def)

lemma push_env_iff:
  "push_env k v (env, n) = Inr out \<longleftrightarrow>
     \<not> has_nul k \<and> \<not> has_nul v \<and> n + (length k + length v) \<le> MAX_CHILD_ENV_BYTES
     \<and> out = (env @ [(k, v)], n + (length k + length v))"
  by (auto simp: push_env_def Let_def)

lemma push_request_env_iff:
  "n \<le> MAX_CHILD_ENV_BYTES \<Longrightarrow> push_request_env selected req (env, n) = Inr out \<longleftrightarrow>
     (\<forall>(k, v)\<in>set req. k \<notin> set selected)
     \<and> clean_env (filter (passed_on \<circ> fst) req)
     \<and> n + env_size (filter (passed_on \<circ> fst) req) \<le> MAX_CHILD_ENV_BYTES
     \<and> out = (env @ filter (passed_on \<circ> fst) req, n + env_size (filter (passed_on \<circ> fst) req))"
proof (induction req arbitrary: env n)
  case Nil
  then show ?case by (auto simp: clean_env_def env_size_def)
next
  case (Cons x req)
  obtain k v where x: "x = (k, v)" by force
  show ?case
  proof (cases "passed_on k")
    case False
    then have "is_forbidden_env_name k \<or> k \<notin> set ALLOWED_ENV" by (auto simp: passed_on_def)
    with False Cons show ?thesis by (auto simp: x)
  next
    case True
    then have ok: "\<not> (is_forbidden_env_name k \<or> k \<notin> set ALLOWED_ENV)" by (simp add: passed_on_def)
    show ?thesis
    proof (cases "k \<in> set selected \<or> has_nul k \<or> has_nul v \<or> n + (length k + length v) > MAX_CHILD_ENV_BYTES")
      case True
      with ok \<open>passed_on k\<close> show ?thesis
        by (auto simp: x push_env_def Let_def clean_env_def)
    next
      case False
      then have p: "push_env k v (env, n) = Inr (env @ [(k, v)], n + (length k + length v))"
        by (simp add: push_env_iff)
      have "n + (length k + length v) \<le> MAX_CHILD_ENV_BYTES" using False by simp
      from Cons.IH [OF this] show ?thesis
        using ok \<open>passed_on k\<close> False p by (auto simp: x clean_env_def add.assoc)
    qed
  qed
qed

lemma push_secrets_iff:
  "n \<le> MAX_CHILD_ENV_BYTES \<Longrightarrow> push_secrets secrets (env, n) = Inr out \<longleftrightarrow>
     clean_env secrets \<and> n + env_size secrets \<le> MAX_CHILD_ENV_BYTES
     \<and> out = (env @ secrets, n + env_size secrets)"
proof (induction secrets arbitrary: env n)
  case Nil
  then show ?case by (auto simp: clean_env_def env_size_def)
next
  case (Cons x secrets)
  obtain k v where x: "x = (k, v)" by force
  show ?case
  proof (cases "has_nul k \<or> has_nul v \<or> n + (length k + length v) > MAX_CHILD_ENV_BYTES")
    case True
    then show ?thesis by (auto simp: x push_env_def Let_def clean_env_def)
  next
    case False
    then have p: "push_env k v (env, n) = Inr (env @ [(k, v)], n + (length k + length v))"
      by (simp add: push_env_iff)
    have "n + (length k + length v) \<le> MAX_CHILD_ENV_BYTES" using False by simp
    from Cons.IH [OF this] show ?thesis using False p by (auto simp: x clean_env_def add.assoc)
  qed
qed

text \<open>C30: Exactly what a child process gets in its environment, and when it is refused: the allowed
  entries of the caller, none of a forbidden name, followed by every selected secret; no name of the
  caller's may be that of a secret, nothing carries a NUL, and all of it fits into a mebibyte.\<close>

theorem child_env_iff:
  "build_child_env req secrets = Inr env \<longleftrightarrow>
     env = filter (\<lambda>(k, v). k \<in> set ALLOWED_ENV \<and> \<not> is_forbidden_env_name k) req @ secrets
     \<and> fst ` set req \<inter> fst ` set secrets = {}
     \<and> (\<forall>(k, v)\<in>set env. \<not> has_nul k \<and> \<not> has_nul v)
     \<and> sum_list (map (\<lambda>(k, v). length k + length v) env) \<le> 1048576"
proof -
  let ?kept = "filter (passed_on \<circ> fst) req"
  have kept: "filter (\<lambda>(k, v). k \<in> set ALLOWED_ENV \<and> \<not> is_forbidden_env_name k) req = ?kept"
    by (rule filter_cong) (auto simp: passed_on_def)
  have "build_child_env req secrets = Inr env \<longleftrightarrow>
      (\<forall>(k, v)\<in>set req. k \<notin> set (map fst secrets)) \<and> clean_env ?kept \<and> clean_env secrets
      \<and> env_size ?kept + env_size secrets \<le> MAX_CHILD_ENV_BYTES \<and> env = ?kept @ secrets"
    unfolding build_child_env_def res_bind_Inr_iff
    by (auto simp: push_request_env_iff push_secrets_iff)
  also have "(\<forall>(k, v)\<in>set req. k \<notin> set (map fst secrets)) \<longleftrightarrow> fst ` set req \<inter> fst ` set secrets = {}"
    by force
  also have "(fst ` set req \<inter> fst ` set secrets = {} \<and> clean_env ?kept \<and> clean_env secrets
      \<and> env_size ?kept + env_size secrets \<le> MAX_CHILD_ENV_BYTES \<and> env = ?kept @ secrets) \<longleftrightarrow>
     env = ?kept @ secrets \<and> fst ` set req \<inter> fst ` set secrets = {} \<and> clean_env env \<and> env_size env \<le> 1048576"
    by (auto simp: MAX_CHILD_ENV_BYTES_def clean_env_append)
  finally show ?thesis by (simp only: kept env_size_def clean_env_def)
qed

theorem child_env_iff_witness:
  "build_child_env [(''LD_PRELOAD'', ''x''), (''LANG'', ''C''), (''HOST'', ''h'')] [(''K'', ''v'')]
     = Inr [(''LANG'', ''C''), (''K'', ''v'')]"
  unfolding child_env_iff
  by (simp add: ALLOWED_ENV_def is_forbidden_env_name_def has_nul_def begins_with_def to_ascii_uppercase_def ascii_upper_def)

section \<open>What a run stands on\<close>

lemma secret_of_unique:
  assumes "wf_doc d" and "x \<in> set (d_secrets d)"
  shows "secret_of d (s_project_id x) (s_key x) = Some x"
proof -
  obtain y where y: "secret_of d (s_project_id x) (s_key x) = Some y"
    using assms(2) by (cases "secret_of d (s_project_id x) (s_key x)") (auto simp: secret_of_def find_None_iff)
  then have "y \<in> set (d_secrets d)" "s_project_id y = s_project_id x" "s_key y = s_key x"
    by (auto dest: secret_ofD)
  moreover have "distinct (map (\<lambda>s. (s_project_id s, s_key s)) (d_secrets d))"
    using assms(1) by (simp add: wf_doc_def wf_secrets_def)
  ultimately have "y = x" using assms(2) by (auto simp: distinct_map inj_on_def)
  with y show ?thesis by simp
qed

lemma select_run_secrets_ok:
  assumes "select_run_secrets d pid keys = Inr (names, secrets)" and "wf_doc d"
  shows "names = map fst secrets"
    and "\<forall>(k, v)\<in>set secrets. \<exists>x. secret_of d pid k = Some x \<and> s_value x = v"
    and "case keys of Some ks \<Rightarrow> names = ks | None \<Rightarrow> set names = s_key ` {x \<in> set (d_secrets d). s_project_id x = pid}"
proof -
  have "names = map fst secrets \<and> (\<forall>(k, v)\<in>set secrets. \<exists>x. secret_of d pid k = Some x \<and> s_value x = v)
    \<and> (case keys of Some ks \<Rightarrow> names = ks | None \<Rightarrow> set names = s_key ` {x \<in> set (d_secrets d). s_project_id x = pid})"
  proof (cases keys)
    case (Some ks)
    then have ok: "\<forall>k\<in>set ks. secret_of d pid k \<noteq> None" and n: "names = ks"
      and sec: "secrets = List.map_filter (\<lambda>k. map_option (\<lambda>x. (k, s_value x)) (secret_of d pid k)) ks"
      using assms(1) by (auto simp: select_run_secrets_def split: if_splits)
    have "map fst (List.map_filter (\<lambda>k. map_option (\<lambda>x. (k, s_value x)) (secret_of d pid k)) ks) = ks"
      using ok by (induction ks) (auto simp: List.map_filter_simps)
    then show ?thesis using n sec Some by (auto simp: List.map_filter_def)
  next
    case None
    then have sec: "secrets = map (\<lambda>x. (s_key x, s_value x))
        (sort_key s_key (filter (\<lambda>x. s_project_id x = pid) (d_secrets d)))" and n: "names = map fst secrets"
      using assms(1) by (auto simp: select_run_secrets_def Let_def split: if_splits)
    have "\<exists>x. secret_of d pid k = Some x \<and> s_value x = v" if "(k, v) \<in> set secrets" for k v
      using that sec secret_of_unique [OF assms(2)] by auto
    then show ?thesis using n sec None by (auto simp: image_iff)
  qed
  then show "names = map fst secrets"
    "\<forall>(k, v)\<in>set secrets. \<exists>x. secret_of d pid k = Some x \<and> s_value x = v"
    "case keys of Some ks \<Rightarrow> names = ks | None \<Rightarrow> set names = s_key ` {x \<in> set (d_secrets d). s_project_id x = pid}"
    by auto
qed

text \<open>C21: A run is authorised only on an unlocked vault, for the active agent whose token came with the
  request, in a project in which that agent holds a live grant with the run operation; what it is given
  are secrets of that project with the values of the vault, exactly the named ones or all of them, and
  the folders it may start in are the project's.\<close>

theorem run_authorised_by:
  assumes "authorise_run L req ps s = (Inr rd, s')" and "session_inv s"
  shows "s' = s \<and> s_keys s \<noteq> None \<and> (\<exists>d token a p.
    s_doc s = Some d \<and> auth_token req = Some token \<and> a \<in> set (d_agents d) \<and> a_status a = Active
    \<and> a_token_hash a = token_digest L token \<and> rd_agent_id rd = a_id a
    \<and> project_by_name d (rp_project ps) = Some p \<and> authorize d (a_id a) (p_id p) OpRun
    \<and> rd_roots rd = p_paths p \<and> rd_keys rd = map fst (rd_secrets rd)
    \<and> (\<forall>(k, v)\<in>set (rd_secrets rd). \<exists>x. secret_of d (p_id p) k = Some x \<and> s_value x = v)
    \<and> (case rp_keys ps of Some ks \<Rightarrow> rd_keys rd = ks
       | None \<Rightarrow> set (rd_keys rd) = s_key ` {x \<in> set (d_secrets d). s_project_id x = p_id p}))"
proof -
  obtain agent_id token where t: "auth_token req = Some token" "resolve_agent L token s = Some agent_id"
    using assms(1) by (auto simp: authorise_run_def Let_def split: if_splits option.splits bind_splits)
  obtain e s1 where e: "ensure_run_unlocked L s = (e, s1)" by force
  have "e = Inr ()" using assms(1) t e by (cases e) (auto simp: authorise_run_def Let_def split: if_splits)
  then have s1: "s1 = s" "s_keys s \<noteq> None"
    using e check_idle_unlocked [of L s] by (auto simp: ensure_run_unlocked_def Let_def split: if_splits)
  obtain d p keys secrets where d: "s_doc s = Some d" and p: "run_project d agent_id (rp_project ps) = Some p"
    and sel: "select_run_secrets d (p_id p) (rp_keys ps) = Inr (keys, secrets)"
    and rd: "s' = s" "rd = \<lparr>rd_actor = agent_actor agent_id, rd_agent_id = agent_id, rd_project = rp_project ps,
                rd_keys = keys, rd_secrets = secrets, rd_roots = p_paths p\<rparr>"
    using assms(1) t e \<open>e = Inr ()\<close> s1
    by (auto simp: authorise_run_def Let_def split: if_splits option.splits sum.splits prod.splits)
  have wf: "wf_doc d" and dig: "s_digests s = digest_index d" using assms(2) d by (simp_all add: session_inv_def)
  obtain a where a: "a \<in> set (d_agents d)" "a_status a = Active" "a_token_hash a = token_digest L token"
    "agent_id = a_id a"
    using t(2) by (auto simp: resolve_agent_def dig digest_index_def dest!: map_of_SomeD)
  have pp: "project_by_name d (rp_project ps) = Some p" "authorize d agent_id (p_id p) OpRun"
    using p by (auto simp: run_project_def split: option.splits if_splits)
  show ?thesis using select_run_secrets_ok [OF sel wf] rd s1 d t(1) a pp by (auto split: option.splits)
qed

definition run_doc :: vault_document where
  "run_doc = toy_doc\<lparr>d_grants := [\<lparr>g_agent_id = ''a'', g_project_id = ''p'', g_ops = [OpRead, OpReveal, OpRun],
                                   g_created_at = 0, g_revoked_at = None\<rparr>]\<rparr>"

definition run_session :: session where
  "run_session = toy_session\<lparr>s_doc := Some run_doc\<rparr>"

lemma run_doc_wf: "wf_doc run_doc"
proof -
  have n: "valid_project_name ''P''" "valid_project_name ''A''" "valid_key ''K''"
    by (simp_all add: valid_project_name_def MAX_PROJECT_NAME_def is_ascii_alphanumeric_def
        is_ascii_alphabetic_def valid_key_def MAX_KEY_LEN_def Let_def)
  have g: "authorize run_doc ''a'' ''p'' op \<longleftrightarrow> op \<in> {OpRead, OpReveal, OpRun}" "agent_active run_doc ''a''" for op
    by (auto simp: agent_active_def authorize_def active_grant_def is_active_grant_def run_doc_def toy_doc_lists)
  show ?thesis
    using n g by (simp add: wf_doc_def wf_projects_def wf_secrets_def wf_agents_def wf_grants_def wf_leases_def
        wf_approvals_def lease_covered_def)
      (simp add: run_doc_def toy_doc_lists MAX_PROJECTS_def MAX_PATHS_PER_PROJECT_def MAX_SECRETS_def
        MAX_VALUE_LEN_def MAX_AGENTS_def MAX_LEASES_def MAX_APPROVALS_def)
qed

lemma run_session_inv: "session_inv run_session"
proof -
  have "digest_index run_doc = digest_index toy_doc" by (rule digest_index_agents) (simp add: run_doc_def)
  then show ?thesis using toy_session_inv run_doc_wf
    by (simp add: run_session_def session_inv_def sessions_ok_def)
qed

definition run_params_toy :: run_params where
  "run_params_toy = \<lparr>rp_project = ''P'', rp_executable = ''/bin/x'', rp_argv = [''x''], rp_cwd = None,
                    rp_keys = None, rp_env = [], rp_timeout_secs = None\<rparr>"

definition ready_toy :: run_ready where
  "ready_toy = \<lparr>rd_actor = ''agent:a'', rd_agent_id = ''a'', rd_project = ''P'', rd_keys = [''K''],
               rd_secrets = [(''K'', ''v'')], rd_roots = []\<rparr>"

lemma toy_authorise:
  "authorise_run toy_broker (toy_request ''run_with_secrets'' (by_token ''tok'') []) run_params_toy run_session
    = (Inr ready_toy, run_session)"
proof -
  have r: "resolve_agent toy_broker ''tok'' run_session = Some ''a''"
    by (simp add: resolve_agent_def run_session_def token_digest_def)
      (simp add: toy_session_def digest_index_def toy_doc_lists)
  have e: "ensure_run_unlocked toy_broker run_session = (Inr (), run_session)"
    by (simp add: ensure_run_unlocked_def check_idle_def run_session_def Let_def)
  have p: "run_project run_doc ''a'' ''P'' = Some \<lparr>p_id = ''p'', p_name = ''P'', p_paths = [], p_created_at = 0\<rparr>"
    by (simp add: run_project_def project_by_name_def authorize_def active_grant_def is_active_grant_def
        run_doc_def toy_doc_lists)
  have s: "select_run_secrets run_doc ''p'' None = Inr ([''K''], [(''K'', ''v'')])"
    by (simp add: select_run_secrets_def run_doc_def toy_doc_lists MAX_KEYS_def)
  have d: "s_doc run_session = Some run_doc" by (simp add: run_session_def)
  show ?thesis
    by (simp add: authorise_run_def r e p s d run_params_toy_def ready_toy_def agent_actor_def)
qed

theorem run_authorised_by_witness:
  "\<exists>a\<in>set (d_agents run_doc). a_status a = Active \<and> a_token_hash a = toy_hash ''tok'' \<and> rd_agent_id ready_toy = a_id a"
  using run_authorised_by [OF toy_authorise run_session_inv]
  by (auto simp: run_session_def token_digest_def)

section \<open>Every interleaving\<close>


definition daemon_of :: "session \<Rightarrow> run_host \<Rightarrow> daemon" where
  "daemon_of s h = \<lparr>dm_vault_path = ''/v'', dm_socket_path = ''/s'', dm_idle_lock = 0, dm_world = s_world s,
                   dm_session = Some s, dm_host = h, dm_deadline = None\<rparr>"

definition launch_toy :: launch where
  "launch_toy = \<lparr>la_id = ''i'', la_params = run_params_toy, la_ready = ready_toy, la_env = [(''K'', ''v'')],
                la_run_id = ''r''\<rparr>"

definition reserved_host :: run_host where
  "reserved_host = \<lparr>rh_runs = [(''r'', \<lparr>rm_agent = ''a'', rm_project = ''P'', rm_pid = 0, rm_pgid = 0, rm_started_at = 0\<rparr>)],
                   rh_signals = []\<rparr>"

lemma toy_reserves:
  "run_step toy_broker flat_kernel m (Named launch_toy) (daemon_of run_session no_runs)
    = (Reserved launch_toy, daemon_of run_session reserved_host)"
  by (simp add: run_reserves_def launch_toy_def ready_toy_def daemon_of_def no_runs_def try_reserve_def
      MAX_RUNS_TOTAL_def MAX_RUNS_PER_AGENT_def owned_runs_def set_runs_def reserved_host_def machine_of_def
      run_session_def calm_world_def)




section \<open>Revocation and the threads of runs\<close>

lemma map_of_filter_gone: "map_of reg i = Some m \<Longrightarrow> distinct (map fst reg) \<Longrightarrow> \<not> P (i, m) \<Longrightarrow> map_of (filter P reg) i = None"
  by (induction reg) (auto simp: map_of_eq_None_iff image_iff split: if_splits)

definition toy_machine :: machine_answer where
  "toy_machine =
     \<lparr>ma_spawn = Inr 7, ma_reply_ok = True, ma_try_wait = Inr None, ma_wait = None, ma_peer_gone = False\<rparr>"

text \<open>C26: A run that was reserved but not yet started when its authority was taken away (a lock, a
  revoked agent, a revoked grant) never becomes live: its thread finds the reservation gone, the fresh
  process group is signalled at once and the caller gets \<open>E_PERMISSION\<close>.\<close>

theorem revoked_reservation_never_lives:
  assumes "map_of (rh_runs (dm_host D)) (la_run_id la) = Some m" and "unique_runs (rh_runs (dm_host D))"
    and "dm_session D = Some s" and "matches_run agent project m"
    and "terminate_matching_runs L actor agent project s (dm_host D) = (r, s1, h1)"
    and "run_step L K ma (Spawned la pid) (D\<lparr>dm_session := Some s1, dm_host := h1\<rparr>) = (ph, D')" and "0 < pid"
  shows "ph = Finished [response_err (la_id la) ''E_PERMISSION'' ''run capability was revoked'']
    \<and> (pid, SIGTERM) \<in> set (rh_signals (dm_host D')) \<and> map_of (rh_runs (dm_host D')) (la_run_id la) = None"
proof -
  have "rh_runs h1 = filter (\<lambda>(_, m). \<not> matches_run agent project m) (rh_runs (dm_host D))"
    using assms(5) by (auto simp: terminate_matching_runs_def take_matching_def)
  then have gone: "map_of (rh_runs h1) (la_run_id la) = None"
    using map_of_filter_gone [OF assms(1)] assms(2,4) by (simp add: unique_runs_def)
  then have a: "activate (la_run_id la) pid pid (rh_runs h1) = (False, rh_runs h1)" by (simp add: activate_def)
  show ?thesis
    using assms(6,7) gone
    by (auto simp: run_activates_def a deny_launch_def deny_run_def add_signals_def unreserve_def
        set_runs_def drop_reservation_def terminate_group_def delete_conv')
qed

theorem revoked_reservation_never_lives_witness:
  "\<exists>ph D'. run_step toy_broker flat_kernel toy_machine (Spawned launch_toy 7)
        ((daemon_of run_session reserved_host)\<lparr>dm_session := Some (fst (snd (terminate_matching_runs toy_broker ''human'' None None run_session reserved_host))),
          dm_host := snd (snd (terminate_matching_runs toy_broker ''human'' None None run_session reserved_host))\<rparr>) = (ph, D')
      \<and> (7, SIGTERM) \<in> set (rh_signals (dm_host D'))"
proof -
  let ?t = "terminate_matching_runs toy_broker ''human'' None None run_session reserved_host"
  let ?D = "(daemon_of run_session reserved_host)\<lparr>dm_session := Some (fst (snd ?t)), dm_host := snd (snd ?t)\<rparr>"
  obtain ph D' where r: "run_step toy_broker flat_kernel toy_machine (Spawned launch_toy 7) ?D = (ph, D')" by force
  have "(7, SIGTERM) \<in> set (rh_signals (dm_host D'))"
    using revoked_reservation_never_lives [of "daemon_of run_session reserved_host" launch_toy
        "\<lparr>rm_agent = ''a'', rm_project = ''P'', rm_pid = 0, rm_pgid = 0, rm_started_at = 0\<rparr>" run_session None None
        toy_broker "''human''" "fst ?t" "fst (snd ?t)" "snd (snd ?t)" flat_kernel toy_machine 7 ph D'] r
    by (simp add: daemon_of_def reserved_host_def launch_toy_def unique_runs_def matches_run_def
        del: run_step.simps)
  with r show ?thesis by blast
qed

lemma toy_broker_more [simp]:
  "rfc3339 toy_broker t = Some ''t''" "line_json toy_broker l = ''l''"
  by (simp_all add: toy_broker_def toy_vault_def vault_lib.defs)

lemma toy_broker_resync [simp]: "resync toy_broker w lg = lg"
proof (cases "read_to_string (lg_path lg) w")
  case (Some c)
  then show ?thesis by (cases "audit_lines c") (simp_all add: resync_def)
qed (simp add: resync_def)

text \<open>A log with room for more, on a machine without faults.\<close>

definition roomy :: "nat \<Rightarrow> session \<Rightarrow> bool" where
  "roomy n s \<longleftrightarrow> lg_path (s_audit s) = ''/a'' \<and> lg_soft (s_audit s) = AUDIT_SOFT_LIMIT \<and> lg_hard (s_audit s) = MAX_AUDIT_LEN
     \<and> length (lg_last_hash (s_audit s)) = 32
     \<and> (\<forall>i. w_fault (s_world s) i = None) \<and> (\<exists>c. w_dir (s_world s) ''/a'' = Some c \<and> length c \<le> n)"

lemma roomy_entry:
  assumes "roomy n s" and "n \<le> 100"
    and that: "\<And>ts lg. ev_seq (mk ts lg) = lg_seq lg + 1 \<and> ev_prev_hash (mk ts lg) = hex (lg_last_hash lg)"
  shows "\<exists>lg w. append_entry toy_broker (stage_event toy_broker mk key prio (s_audit s) (s_world s)) (s_audit s) (s_world s)
    = (Inr (), lg, w) \<and> roomy (n + 2) (s\<lparr>s_audit := lg, s_world := w\<rparr>)"
proof -
  have "length (toy_hash x) = 32" for x by (simp add: toy_hash_def)
  then show ?thesis
  using assms that
  by (cases prio) (auto simp: append_entry_def stage_event_def Let_def
     preflight_def file_len_def roomy_def append_staged_def append_sync_def fault_now_def AUDIT_SOFT_LIMIT_def MAX_AUDIT_LEN_def AUDIT_HEADROOM_def entry_hash_def)
qed

lemma roomy_records:
  assumes "roomy n s" and "n \<le> 100"
  shows "\<exists>s'. run_record_with toy_broker r prio s = (Inr (), s') \<and> roomy (n + 2) s'"
    and "\<exists>s'. record_with toy_broker r' key prio s = (Inr (), s') \<and> roomy (n + 2) s'"
  using roomy_entry [OF assms, of "run_event r" "s_audit_key s" prio] roomy_entry [OF assms, of "record_event r'" key prio]
  by (auto simp: run_record_with_def append_run_def stage_run_def record_with_def append_audit_def stage_def
      run_event_def record_event_def)

text \<open>C27: The lock of the vault does not stop a run that is authorised but not yet reserved: whatever the
  lock signals and drops, the thread of that run goes on to reserve, record and start its process with
  the secrets it was handed before, on a vault without keys, as long as the audit log takes the record.\<close>

theorem authorised_run_outlives_lock:
  assumes "lock_and_drain L actor s h = (r, s1, h1)"
    and "audit_run_allowed L (rd_actor (la_ready la)) (rd_project (la_ready la)) (rd_keys (la_ready la)) (arg_count la) s1
       = (Inr (), s2)"
    and "ma_spawn m = Inr pid"
  shows "\<exists>D1 D2 D3. run_step L K m (Named la) (D\<lparr>dm_session := Some s1, dm_host := h1\<rparr>) = (Reserved la, D1)
    \<and> run_step L K m (Reserved la) D1 = (Recorded la, D2)
    \<and> run_step L K m (Recorded la) D2 = (Spawned la pid, D2)
    \<and> run_step L K m (Spawned la pid) D2 = (Live la pid, D3)
    \<and> dm_session D3 = Some s2 \<and> s_keys s2 = None \<and> s_doc s2 = None
    \<and> (\<exists>meta. map_of (rh_runs (dm_host D3)) (la_run_id la) = Some meta \<and> rm_pgid meta = pid)"
proof -
  have shut: "s_keys s1 = None" "s_doc s1 = None" "rh_runs h1 = []"
    using lock_and_drain_effect(2) [OF assms(1)] by (simp_all add: shut_def)
  have "rec_step s1 s2"
    using run_record_step [of s1] assms(2) by (metis audit_run_allowed_def snd_conv)
  then have s2: "s_keys s2 = None" "s_doc s2 = None" using shut by (simp_all add: rec_step_fields)
  show ?thesis
    using shut s2 assms(2,3)
    by (simp add: run_reserves_def try_reserve_def MAX_RUNS_TOTAL_def MAX_RUNS_PER_AGENT_def owned_runs_def
        set_runs_def run_records_def on_session_def run_spawns_def run_activates_def activate_def)
qed

lemma toy_lock_records:
  "\<exists>s1 h1 s2. lock_and_drain toy_broker ''human'' (lock_session run_session) no_runs = (Inr (), s1, h1)
    \<and> audit_run_allowed toy_broker actor project keys n s1 = (Inr (), s2)"
proof -
  let ?s = "lock_session run_session"
  let ?r = "mk_record ''human'' ''vault.lock'' None [] None Allowed None"
  have room: "roomy 0 ?s"
    by (simp add: roomy_def run_session_def) (simp add: toy_log_def calm_world_def)
  obtain s0 where s0: "record_with toy_broker ?r (s_audit_key ?s) Lifecycle ?s = (Inr (), s0)" "roomy 2 s0"
    using roomy_records(2) [OF room, of ?r "s_audit_key ?s" Lifecycle] by (auto simp: numeral_2_eq_2)
  have "s_keys s0 = None" using rec_step_fields(7) [OF record_with_step [OF s0(1)]] by simp
  then have "lock_and_drain toy_broker ''human'' ?s no_runs = (Inr (), lock_session s0, no_runs)"
    using s0(1) by (simp add: lock_and_drain_def audit_record_lifecycle_def terminate_matching_runs_def
        take_matching_def no_runs_def lock_persist_def mk_record_def)
  moreover have "roomy 2 (lock_session s0)" using s0(2) by (simp add: roomy_def)
  ultimately show ?thesis
    using roomy_records(1) [of 2 "lock_session s0"] unfolding audit_run_allowed_def by (simp) blast
qed

theorem authorised_run_outlives_lock_witness:
  "\<exists>s1 h1 D2 D3 s2. lock_and_drain toy_broker ''human'' (lock_session run_session) no_runs = (Inr (), s1, h1)
    \<and> run_step toy_broker flat_kernel
        toy_machine
        (Spawned launch_toy 7) D2 = (Live launch_toy 7, D3)
    \<and> dm_session D3 = Some s2 \<and> s_keys s2 = None \<and> rh_runs (dm_host D3) \<noteq> []"
proof -
  obtain s1 h1 s2 where l: "lock_and_drain toy_broker ''human'' (lock_session run_session) no_runs = (Inr (), s1, h1)"
    and a: "audit_run_allowed toy_broker (rd_actor (la_ready launch_toy)) (rd_project (la_ready launch_toy))
      (rd_keys (la_ready launch_toy)) (arg_count launch_toy) s1 = (Inr (), s2)"
    using toy_lock_records by blast
  from authorised_run_outlives_lock [OF l a, of toy_machine 7 flat_kernel "daemon_of run_session no_runs"]
  obtain D2 D3 meta where "run_step toy_broker flat_kernel toy_machine (Spawned launch_toy 7) D2 = (Live launch_toy 7, D3)"
    "dm_session D3 = Some s2" "s_keys s2 = None" "map_of (rh_runs (dm_host D3)) (la_run_id launch_toy) = Some meta"
    by (auto simp: toy_machine_def simp del: run_step.simps)
  with l show ?thesis by (metis map_of.simps(1) option.distinct(1))
qed

end
