(* ===== verification/FdPass.thy ===== *)
theory FdPass
  imports Fsops Wire
begin

text \<open>
  \<open>src/fdpass.rs\<close>: one request with the file descriptors that travel beside it. A call of \<open>recvmsg\<close>
  is an event: an error, or bytes with flags and control messages. A control message is given by its
  offset in the control buffer, its header fields and the words at \<open>CMSG_DATA\<close>; the headers are those
  that \<open>CMSG_FIRSTHDR\<close> and \<open>CMSG_NXTHDR\<close> visit. A received descriptor is a number; those that are
  not returned are closed.
\<close>

definition MAX_RECV_FDS :: nat where "MAX_RECV_FDS = 32"
definition SOL_SOCKET :: int where "SOL_SOCKET = 1"
definition SCM_RIGHTS :: int where "SCM_RIGHTS = 1"

text \<open>\<open>size_of::<cmsghdr>()\<close>, which is also \<open>CMSG_LEN(0)\<close>, and the size of a descriptor, on 64-bit Linux.\<close>

definition CMSG_HDR :: nat where "CMSG_HDR = 16"
definition FD_SIZE :: nat where "FD_SIZE = 4"

record cmsg =
  cm_off :: nat
  cm_level :: int
  cm_type :: int
  cm_len :: nat
  cm_data :: "int list"

record received =
  rv_bytes :: string
  rv_trunc :: bool
  rv_ctrunc :: bool
  rv_delivered :: nat
  rv_cmsgs :: "cmsg list"

definition first_error :: "vault_error option \<Rightarrow> string \<Rightarrow> vault_error option" where
  "first_error err msg = (case err of None \<Rightarrow> Some (Protocol msg) | Some e \<Rightarrow> Some e)"

text \<open>The payload of one \<open>SCM_RIGHTS\<close> message: the descriptors owned, and whether it is malformed. Only
  the delivered part is read.\<close>

definition rights_payload :: "nat \<Rightarrow> bool \<Rightarrow> cmsg \<Rightarrow> int list \<times> bool" where
  "rights_payload delivered ctrunc cm =
     (let avail = delivered - cm_off cm;
          safe_payload = min (cm_len cm) avail - CMSG_HDR;
          slots = take (safe_payload div FD_SIZE) (cm_data cm)
      in (filter (\<lambda>raw. raw \<ge> 0) slots,
          (cm_len cm - CMSG_HDR) mod FD_SIZE \<noteq> 0 \<or> (cm_len cm > avail \<and> \<not> ctrunc)
          \<or> (\<exists>raw\<in>set slots. raw < 0)))"

fun walk_cmsgs ::
  "nat \<Rightarrow> bool \<Rightarrow> cmsg list \<Rightarrow> int list \<Rightarrow> vault_error option \<Rightarrow> int list \<times> vault_error option" where
  "walk_cmsgs delivered ctrunc [] fds err = (fds, err)"
| "walk_cmsgs delivered ctrunc (cm # cms) fds err =
     (if cm_off cm + CMSG_HDR > delivered then (fds, first_error err ''malformed ancillary'')
      else if cm_len cm < CMSG_HDR then (fds, first_error err ''malformed ancillary'')
      else if cm_level cm \<noteq> SOL_SOCKET \<or> cm_type cm \<noteq> SCM_RIGHTS
        then walk_cmsgs delivered ctrunc cms fds (first_error err ''unexpected ancillary'')
      else if min (cm_len cm) (delivered - cm_off cm) < CMSG_HDR
        then (fds, first_error err ''malformed ancillary'')
      else (case rights_payload delivered ctrunc cm of (owned, bad) \<Rightarrow>
        (let fds' = fds @ owned;
             err' = (if bad then first_error err ''malformed ancillary'' else err);
             err'' = (if length fds' > MAX_RECV_FDS then first_error err' ''too many file descriptors'' else err')
         in walk_cmsgs delivered ctrunc cms fds' err'')))"

text \<open>What one complete line makes of the bytes so far.\<close>

definition parse_first_line :: "('w) wire_lib_scheme \<Rightarrow> string \<Rightarrow> request res" where
  "parse_first_line W acc =
     (let line = takeWhile (\<lambda>c. c \<noteq> NL) acc in
      if length line > MAX_MESSAGE_LEN then Inl TooLarge
      else if length acc \<noteq> length line + 1 then Inl (Protocol ''trailing bytes after request'')
      else case req_de W line of
        None \<Rightarrow> Inl (Protocol ''invalid request'')
      | Some req \<Rightarrow>
          if rq_v req \<noteq> WIRE_VERSION then Inl (Protocol ''unsupported protocol version'') else Inr req)"

text \<open>The loop over \<open>recvmsg\<close>; the end of the stream is the end of the events, or an empty read.\<close>

fun recv_loop ::
  "('w) wire_lib_scheme \<Rightarrow> string \<Rightarrow> int list \<Rightarrow> (io_error + received) list \<Rightarrow>
     (request \<times> int list) res \<times> (io_error + received) list" where
  "recv_loop W acc fds [] =
     (Inl (Protocol (if acc = [] then ''connection closed'' else ''unterminated message'')), [])"
| "recv_loop W acc fds (Inl e # evs) =
     (if errno e = Some EINTR then recv_loop W acc fds evs else (Inl (Io e), evs))"
| "recv_loop W acc fds (Inr rv # evs) =
     (if rv_bytes rv = []
      then (Inl (Protocol (if acc = [] then ''connection closed'' else ''unterminated message'')), evs)
      else (case walk_cmsgs (rv_delivered rv) (rv_ctrunc rv) (rv_cmsgs rv) fds None of (fds', err) \<Rightarrow>
        if rv_trunc rv then (Inl (Protocol ''message truncated''), evs)
        else if rv_ctrunc rv then (Inl (Protocol ''ancillary truncated''), evs)
        else (case err of
          Some e \<Rightarrow> (Inl e, evs)
        | None \<Rightarrow>
            (let acc' = acc @ rv_bytes rv in
             if NL \<in> set acc' then (res_bind (parse_first_line W acc') (\<lambda>req. Inr (req, fds')), evs)
             else if length acc' > MAX_MESSAGE_LEN then (Inl TooLarge, evs)
             else recv_loop W acc' fds' evs))))"

definition recv_request_with_fds ::
  "('w) wire_lib_scheme \<Rightarrow> (io_error + received) list \<Rightarrow>
     (request \<times> int list) res \<times> (io_error + received) list" where
  "recv_request_with_fds W evs = recv_loop W [] [] evs"

text \<open>The sending loop: a result of \<open>send\<close> is an error or the number of bytes taken. The result tells
  how many bytes went out; \<open>what\<close> is the text of a zero-length send. With no more results the call is
  still waiting.\<close>

fun send_loop :: "string \<Rightarrow> nat \<Rightarrow> nat \<Rightarrow> (io_error + nat) list \<Rightarrow> (unit res \<times> nat) option" where
  "send_loop what len off [] = (if off \<ge> len then Some (Inr (), off) else None)"
| "send_loop what len off (r # rs) =
     (if off \<ge> len then Some (Inr (), off)
      else case r of
        Inl e \<Rightarrow> if errno e = Some EINTR then send_loop what len off rs else Some (Inl (Io e), off)
      | Inr n \<Rightarrow>
          if n = 0 then Some (Inl (Io (Io_Error None what)), off) else send_loop what len (off + n) rs)"

definition send_request_with_fds ::
  "('w) wire_lib_scheme \<Rightarrow> request \<Rightarrow> int list \<Rightarrow> (io_error + nat) list \<Rightarrow> (unit res \<times> string) option" where
  "send_request_with_fds W req fds rs =
     (let bytes = req_ser W req @ [NL] in
      if length bytes - 1 > MAX_MESSAGE_LEN then Some (Inl TooLarge, [])
      else map_option (\<lambda>(r, n). (r, take n bytes))
             (send_loop (if fds = [] then ''short send'' else ''short sendmsg'') (length bytes) 0 rs))"

section \<open>Bounds\<close>

text \<open>The first error stays, so that a walk without one kept every descriptor within the cap.\<close>

lemma first_error_Some [simp]: "first_error (Some e) msg = Some e" "first_error None msg = Some (Protocol msg)"
  by (simp_all add: first_error_def)

lemma walk_cmsgs_error: "snd (walk_cmsgs delivered ctrunc cms fds (Some e)) = Some e"
proof (induction cms arbitrary: fds)
  case (Cons cm cms)
  obtain owned bad where "rights_payload delivered ctrunc cm = (owned, bad)" by force
  with Cons show ?case by (simp add: Let_def)
qed simp

lemma walk_cmsgs_bound:
  "snd (walk_cmsgs delivered ctrunc cms fds None) = None \<Longrightarrow> length fds \<le> MAX_RECV_FDS \<Longrightarrow>
    length (fst (walk_cmsgs delivered ctrunc cms fds None)) \<le> MAX_RECV_FDS"
proof (induction cms arbitrary: fds)
  case (Cons cm cms)
  obtain owned bad where p: "rights_payload delivered ctrunc cm = (owned, bad)" by force
  show ?case
  proof (cases "bad \<or> length (fds @ owned) > MAX_RECV_FDS")
    case True
    with Cons.prems p show ?thesis
      by (cases bad) (simp_all add: Let_def walk_cmsgs_error split: if_splits)
  next
    case False
    then have "length (fds @ owned) \<le> MAX_RECV_FDS" by simp
    with Cons.IH [OF _ this] Cons.prems False p show ?thesis
      by (simp add: Let_def walk_cmsgs_error split: if_splits)
  qed
qed simp

end
