(* ===== verification/Ipc.thy ===== *)
theory Ipc
  imports HostProcess Model
begin

text \<open>
  \<open>src/ipc.rs\<close>, the client's check that the process at the other end of the socket holds the broker's
  instance lock: the table of \<open>/proc/locks\<close> is read and its line for the lock file looked up. The
  locks themselves are in \<open>Store\<close>. The metadata of the lock file, the text of the table and the peer's
  credentials are what the kernel answers.
\<close>

section \<open>Numbers in texts\<close>

text \<open>\<open>str::split_whitespace\<close> and \<open>from_str_radix\<close> for unsigned and signed integers: one sign may lead,
  a minus only for the signed ones; there is at least one digit and the value fits.\<close>

fun words_of :: "nat list \<Rightarrow> nat list \<Rightarrow> nat list list" where
  "words_of w [] = (if w = [] then [] else [w])"
| "words_of w (c # cs) =
     (if is_whitespace c then (if w = [] then words_of [] cs else w # words_of [] cs)
      else words_of (w @ [c]) cs)"

lemma chars_ascii: "\<forall>c\<in>set s. (of_char c :: nat) < 128 \<Longrightarrow> chars s = map of_char s"
proof -
  assume a: "\<forall>c\<in>set s. (of_char c :: nat) < 128"
  then have "utf8_decode_bytes (map of_char s) = Some (map of_char s)" by (induction s) simp_all
  then show ?thesis by (simp add: chars_def utf8_decode_def)
qed

lemma utf8_encode_plain: "\<forall>c\<in>set s. (of_char c :: nat) < 128 \<Longrightarrow> utf8_encode (map of_char s) = s"
  by (induction s) (simp_all add: utf8_encode_def utf8_encode1_def)

definition split_whitespace :: "string \<Rightarrow> string list" where
  "split_whitespace s = map utf8_encode (words_of [] (chars s))"

fun digits_value :: "nat \<Rightarrow> nat \<Rightarrow> string \<Rightarrow> nat option" where
  "digits_value base acc [] = Some acc"
| "digits_value base acc (c # cs) =
     (case to_digit16 c of
        None \<Rightarrow> None
      | Some d \<Rightarrow> if d < base then digits_value base (acc * base + d) cs else None)"

definition natural_of :: "nat \<Rightarrow> string \<Rightarrow> nat option" where
  "natural_of base s = (if s = [] then None else digits_value base 0 s)"

definition parse_unsigned :: "nat \<Rightarrow> nat \<Rightarrow> string \<Rightarrow> nat option" where
  "parse_unsigned base bound s =
     (case natural_of base (if s \<noteq> [] \<and> hd s = CHR ''+'' then List.tl s else s) of
        None \<Rightarrow> None
      | Some n \<Rightarrow> if n < bound then Some n else None)"

definition parse_i32 :: "string \<Rightarrow> int option" where
  "parse_i32 s =
     (if s \<noteq> [] \<and> hd s = CHR ''-''
      then (case natural_of 10 (List.tl s) of
              None \<Rightarrow> None | Some n \<Rightarrow> if n \<le> 2 ^ 31 then Some (- int n) else None)
      else map_option int (parse_unsigned 10 (2 ^ 31) s))"

section \<open>Who holds a lock\<close>

text \<open>Device (major and minor) and inode of a file.\<close>

type_synonym file_identity = "nat \<times> nat \<times> nat"

definition names_file :: "file_identity \<Rightarrow> string \<Rightarrow> bool" where
  "names_file md s =
     (case split_on CHR '':'' s of
        [a, b, c] \<Rightarrow>
          (case (parse_unsigned 16 (2 ^ 32) a, parse_unsigned 16 (2 ^ 32) b, parse_unsigned 10 (2 ^ 64) c) of
             (Some maj, Some mnr, Some ino) \<Rightarrow> (maj, mnr, ino) = md
           | _ \<Rightarrow> False)
      | _ \<Rightarrow> False)"

definition is_write_flock :: "string list \<Rightarrow> bool" where
  "is_write_flock f \<longleftrightarrow>
     8 \<le> length f \<and> f ! 0 \<noteq> [] \<and> last (f ! 0) = CHR '':'' \<and> f ! 1 = ''FLOCK'' \<and> f ! 3 = ''WRITE''"

fun holder_in :: "file_identity \<Rightarrow> string list \<Rightarrow> int option" where
  "holder_in md [] = None"
| "holder_in md (line # rest) =
     (let f = split_whitespace line in
      if is_write_flock f \<and> names_file md (f ! 5) then parse_i32 (f ! 4) else holder_in md rest)"

record ipc_view =
  iv_metadata :: "string \<Rightarrow> file_identity option"
  iv_proc_locks :: "string option"
  iv_peer :: "io_error + int \<times> nat"

definition lock_holder_pid :: "ipc_view \<Rightarrow> string \<Rightarrow> int option" where
  "lock_holder_pid V lock =
     (case iv_metadata V lock of
        None \<Rightarrow> None
      | Some md \<Rightarrow> (case iv_proc_locks V of None \<Rightarrow> None | Some text \<Rightarrow> holder_in md (rust_lines text)))"

definition server_unverified :: vault_error where
  "server_unverified =
     Protocol ''server identity could not be verified; refusing to send credentials (no svault daemon holds the instance lock for this socket)''"

definition verify_server :: "process \<Rightarrow> ipc_view \<Rightarrow> string \<Rightarrow> unit res" where
  "verify_server pr V socket =
     (case iv_peer V of
        Inl e \<Rightarrow> Inl (Io e)
      | Inr (pid, uid) \<Rightarrow>
          if pid \<le> 0 \<or> uid \<noteq> pr_euid pr then Inl server_unverified
          else if lock_holder_pid V (instance_lock_path socket) \<noteq> Some pid then Inl server_unverified
          else Inr ())"

definition peer_uid_ok :: "process \<Rightarrow> io_error + int \<times> nat \<Rightarrow> bool" where
  "peer_uid_ok pr peer = (case peer of Inl _ \<Rightarrow> False | Inr (_, uid) \<Rightarrow> uid = pr_euid pr)"

text \<open>An accepted peer is a process of the same user, and the first write lock of the table on the
  socket's lock file is its own.\<close>

lemma verify_server_iff:
  "verify_server pr V socket = Inr () \<longleftrightarrow>
     (\<exists>pid. iv_peer V = Inr (pid, pr_euid pr) \<and> 0 < pid
        \<and> lock_holder_pid V (instance_lock_path socket) = Some pid)"
  by (auto simp: verify_server_def not_le split: sum.split)

end
