(* ===== verification/Client.thy ===== *)
theory Client
  imports BrokerIdentity FdPass Ipc
begin

text \<open>
  \<open>src/client.rs\<close>: the client's end of a connection. Before a line with credentials is written the
  peer must hold the socket's lock and prove the pinned identity. A connection is a \<open>peer\<close> with the
  lines written to it so far; every function returns the lines it wrote. Setting a timeout on the
  connected socket does not fail.
\<close>

datatype auth = NoAuth | AgentToken string | Passphrase string | SessionAuth string

record run_started =
  rn_run_id :: string
  rn_pid :: int

record run_exit =
  rx_run_id :: string
  rx_code :: "int option"
  rx_signal :: "string option"

fun auth_field_of :: "auth \<Rightarrow> auth_field option" where
  "auth_field_of NoAuth = None"
| "auth_field_of (AgentToken t) = Some \<lparr>au_token = Some t, au_passphrase = None, au_session = None\<rparr>"
| "auth_field_of (Passphrase p) = Some \<lparr>au_token = None, au_passphrase = Some p, au_session = None\<rparr>"
| "auth_field_of (SessionAuth s) = Some \<lparr>au_token = None, au_passphrase = None, au_session = Some s\<rparr>"

definition client_request :: "string \<Rightarrow> string \<Rightarrow> auth \<Rightarrow> json \<Rightarrow> request" where
  "client_request i op auth params =
     \<lparr>rq_v = WIRE_VERSION, rq_id = i, rq_op = op, rq_auth = auth_field_of auth, rq_params = params\<rparr>"

section \<open>Broker errors\<close>

record broker_error =
  be_code :: string
  be_msg :: string
  be_data :: "json option"

definition broker_io :: "io_error \<Rightarrow> broker_error" where
  "broker_io e = \<lparr>be_code = ''E_IO'', be_msg = (case e of Io_Error _ msg \<Rightarrow> msg), be_data = None\<rparr>"

definition broker_protocol :: "string \<Rightarrow> broker_error" where
  "broker_protocol why = \<lparr>be_code = ''E_PROTOCOL'', be_msg = why, be_data = None\<rparr>"

definition into_protocol :: "('y) identity_lib_scheme \<Rightarrow> broker_error \<Rightarrow> vault_error" where
  "into_protocol E e =
     (case be_data e of
        Some d \<Rightarrow>
          if be_code e = ''E_APPROVAL_PENDING'' then
            Protocol (''approval pending: approval_id=''
              @ (case Option.bind (get_member d ''approval_id'') as_str of None \<Rightarrow> [] | Some i \<Rightarrow> i)
              @ '' expires_in='' @ (case get_member d ''expires_in'' of None \<Rightarrow> [] | Some v \<Rightarrow> value_ser E v) @ ''s'')
          else Protocol (be_code e @ '': '' @ be_msg e)
      | None \<Rightarrow> Protocol (be_code e @ '': '' @ be_msg e))"

section \<open>Answers\<close>

definition checked_result :: "response \<Rightarrow> string \<Rightarrow> json res" where
  "checked_result resp i =
     (if rs_id resp \<noteq> i then Inl (Protocol ''response id mismatch'')
      else if rs_ok resp then Inr (case rs_result resp of Some r \<Rightarrow> r | None \<Rightarrow> JNull)
      else case rs_error resp of
        None \<Rightarrow> Inl (Protocol ''error without message'')
      | Some e \<Rightarrow>
          Inl (if we_code e = ''E_SESSION_EXPIRED'' then SessionExpired
               else if we_code e = ''E_AUTH'' then Auth else Protocol (we_msg e)))"

fun as_i32 :: "json \<Rightarrow> int option" where
  "as_i32 (JInt n) = (if - (2 ^ 31) \<le> n \<and> n < 2 ^ 31 then Some n else None)"
| "as_i32 _ = None"

definition parse_started :: "string \<Rightarrow> response \<Rightarrow> run_started res" where
  "parse_started i resp =
     res_bind (checked_result resp i) (\<lambda>r.
       if Option.bind (get_member r ''status'') as_str \<noteq> Some ''started''
       then Inl (Protocol ''run: expected started response'')
       else res_bind (ok_or (Protocol ''run: started response missing run_id'')
                        (Option.bind (get_member r ''run_id'') as_str)) (\<lambda>run_id.
         case Option.bind (get_member r ''pid'') as_i32 of
           None \<Rightarrow> Inl (Protocol ''run: started response missing pid'')
         | Some pid \<Rightarrow>
             if pid > 0 then Inr \<lparr>rn_run_id = run_id, rn_pid = pid\<rparr>
             else Inl (Protocol ''run: started response missing pid'')))"

definition optional_field :: "vault_error \<Rightarrow> (json \<Rightarrow> 'a option) \<Rightarrow> json \<Rightarrow> string \<Rightarrow> 'a option res" where
  "optional_field e as v field =
     (case get_member v field of
        None \<Rightarrow> Inr None
      | Some x \<Rightarrow> (case as x of None \<Rightarrow> Inl e | Some y \<Rightarrow> Inr (Some y)))"

definition parse_exited :: "string \<Rightarrow> string \<Rightarrow> response \<Rightarrow> run_exit res" where
  "parse_exited i run_id resp =
     res_bind (checked_result resp i) (\<lambda>r.
       if Option.bind (get_member r ''status'') as_str \<noteq> Some ''exited''
       then Inl (Protocol ''run: expected exited response'')
       else res_bind (ok_or (Protocol ''run: exited response missing run_id'')
                        (Option.bind (get_member r ''run_id'') as_str)) (\<lambda>exited.
         if exited \<noteq> run_id then Inl (Protocol ''response run_id mismatch'')
         else res_bind (optional_field (Protocol ''run: bad exit_code'') as_i32 r ''exit_code'') (\<lambda>exit_code.
           res_bind (optional_field (Protocol ''run: bad signal'') as_str r ''signal'') (\<lambda>sig.
             if exit_code = None \<and> sig = None then Inl (Protocol ''run: exited response lacks status'')
             else Inr \<lparr>rx_run_id = run_id, rx_code = exit_code, rx_signal = sig\<rparr>))))"

section \<open>The human's confirmation\<close>

text \<open>What \<open>/dev/tty\<close> gives: it cannot be opened, or a line is read from it.\<close>

type_synonym terminal = "(io_error + string) option"

definition confirm_broker_pin :: "string \<Rightarrow> string option \<Rightarrow> terminal \<Rightarrow> unit res" where
  "confirm_broker_pin presented expected tty =
     (if (case expected of None \<Rightarrow> False | Some e \<Rightarrow> e \<noteq> presented)
      then Inl (BrokerUntrusted ''broker fingerprint does not match --trust-fingerprint; refusing to send credentials'')
      else case tty of
        None \<Rightarrow> Inl (BrokerUntrusted no_pin_message)
      | Some (Inl e) \<Rightarrow> Inl (Io e)
      | Some (Inr line) \<Rightarrow>
          if trim (chars line) \<noteq> chars ''yes''
          then Inl (BrokerUntrusted ''broker identity not confirmed; refusing to send credentials'')
          else Inr ())"

section \<open>Connecting\<close>

datatype trust_mode = NonInteractive | Interactive

record connect_options =
  co_trust :: trust_mode
  co_trust_fingerprint :: "string option"

record link =
  lk_connect :: "io_error + peer"
  lk_ipc :: ipc_view
  lk_tty :: terminal

definition interactive_result :: "string \<Rightarrow> response \<Rightarrow> json res" where
  "interactive_result i resp =
     (if rs_id resp \<noteq> i then Inl (BrokerUntrusted ''broker handshake id mismatch'')
      else if rs_ok resp then ok_or (BrokerUntrusted ''broker handshake empty'') (rs_result resp)
      else case rs_error resp of
        Some e \<Rightarrow> Inl (BrokerUntrusted (''broker handshake refused: '' @ we_msg e))
      | None \<Rightarrow> Inl (BrokerUntrusted ''broker handshake refused''))"

text \<open>The interactive leg reads the answer with its own error texts and verifies in the same way.\<close>

definition proven_key_interactive ::
  "('y) identity_lib_scheme \<Rightarrow> process \<Rightarrow> string \<Rightarrow> string \<Rightarrow> string \<Rightarrow> stream \<Rightarrow> string res" where
  "proven_key_interactive E pr socket i client_nonce answer =
     res_bind (fst (read_response E answer)) (\<lambda>resp.
       res_bind (interactive_result i resp) (\<lambda>r.
         res_bind (parse_key r ''public_key'') (\<lambda>presented.
           res_bind (parse_nonce r) (\<lambda>server_nonce.
             res_bind (parse_sig r) (\<lambda>signature.
               if verify_hello E pr presented client_nonce server_nonce signature socket = Inr ()
               then Inr presented
               else Inl (BrokerUntrusted ''broker signature verification failed''))))))"

definition pin_interactively ::
  "('z) crypto_lib_scheme \<Rightarrow> ('y) identity_lib_scheme \<Rightarrow> process \<Rightarrow> string \<Rightarrow> string option \<Rightarrow> terminal \<Rightarrow> string \<Rightarrow>
     world \<Rightarrow> unit res \<times> world" where
  "pin_interactively L E pr socket trust_fingerprint tty presented w =
     try_bind (decide_pin L E pr socket presented True trust_fingerprint True w) (\<lambda>d w1.
       case d of
         Proceed _ \<Rightarrow> (Inr (), w1)
       | NeedHumanConfirm fp \<Rightarrow>
           try_bind (confirm_broker_pin fp trust_fingerprint tty, w1) (\<lambda>_ w1.
             store_pin L E pr socket presented w1))"

definition handshake_interactive ::
  "('z) crypto_lib_scheme \<Rightarrow> ('y) identity_lib_scheme \<Rightarrow> process \<Rightarrow> peer \<Rightarrow> string \<Rightarrow> string option \<Rightarrow> terminal \<Rightarrow>
     world \<Rightarrow> unit res \<times> string list \<times> world" where
  "handshake_interactive L E pr peer socket trust_fingerprint tty w =
     (case challenge (hello_request_line E) peer w of
        (Inl e, sent, w1) \<Rightarrow> (Inl e, sent, w1)
      | (Inr (i, client_nonce, answer), sent, w1) \<Rightarrow>
          (case proven_key_interactive E pr socket i client_nonce answer of
             Inl e \<Rightarrow> (Inl e, sent, w1)
           | Inr presented \<Rightarrow>
               (case pin_interactively L E pr socket trust_fingerprint tty presented w1 of
                  (r, w2) \<Rightarrow> (r, sent, w2))))"

definition client_handshake ::
  "('z) crypto_lib_scheme \<Rightarrow> ('y) identity_lib_scheme \<Rightarrow> process \<Rightarrow> peer \<Rightarrow> string \<Rightarrow> connect_options \<Rightarrow> terminal \<Rightarrow>
     world \<Rightarrow> unit res \<times> string list \<times> world" where
  "client_handshake L E pr peer socket opts tty w =
     (if co_trust opts \<noteq> Interactive then
        (if co_trust_fingerprint opts \<noteq> None
         then (Inl (BrokerUntrusted ''refusing to pin a broker identity non-interactively; refusing to send credentials (a human must pin once at a TTY: run any `svault` command interactively, verify the fingerprint out-of-band, answer `yes`)''), [], w)
         else handshake_strict L E pr peer socket w)
      else handshake_interactive L E pr peer socket (co_trust_fingerprint opts) tty w)"

text \<open>A connected client: its peer and the lines written so far.\<close>

record client =
  cl_peer :: peer
  cl_sent :: "string list"

definition connect_with ::
  "('z) crypto_lib_scheme \<Rightarrow> ('y) identity_lib_scheme \<Rightarrow> process \<Rightarrow> link \<Rightarrow> string \<Rightarrow> connect_options \<Rightarrow> world \<Rightarrow>
     client res \<times> string list \<times> world" where
  "connect_with L E pr lk socket opts w =
     (case lk_connect lk of
        Inl e \<Rightarrow> (Inl (Io e), [], w)
      | Inr peer \<Rightarrow>
          (case verify_server pr (lk_ipc lk) socket of
             Inl _ \<Rightarrow>
               (Inl (BrokerUntrusted ''server identity could not be verified; refusing to send credentials (no svault daemon holds the instance lock for this socket)''), [], w)
           | Inr _ \<Rightarrow>
               (case client_handshake L E pr peer socket opts (lk_tty lk) w of
                  (Inl e, sent, w1) \<Rightarrow> (Inl e, sent, w1)
                | (Inr _, sent, w1) \<Rightarrow> (Inr \<lparr>cl_peer = peer, cl_sent = sent\<rparr>, sent, w1))))"

definition client_connect ::
  "('z) crypto_lib_scheme \<Rightarrow> ('y) identity_lib_scheme \<Rightarrow> process \<Rightarrow> link \<Rightarrow> string \<Rightarrow> world \<Rightarrow>
     client res \<times> string list \<times> world" where
  "client_connect L E pr lk socket w =
     connect_with L E pr lk socket \<lparr>co_trust = NonInteractive, co_trust_fingerprint = None\<rparr> w"

section \<open>Calls\<close>

text \<open>One request; the line is added to what was sent, also when writing it failed.\<close>

definition client_call ::
  "('y) identity_lib_scheme \<Rightarrow> string \<Rightarrow> auth \<Rightarrow> json \<Rightarrow> client \<Rightarrow> world \<Rightarrow> json res \<times> client \<times> world" where
  "client_call E op auth params c w =
     (case random_bytes 8 w of
        (Inl e, w1) \<Rightarrow> (Inl e, c, w1)
      | (Inr tag, w1) \<Rightarrow>
          (let line = req_ser E (client_request (hex tag) op auth params) @ [NL];
               c' = c\<lparr>cl_sent := cl_sent c @ [line]\<rparr> in
           case cl_peer c (cl_sent c') of
             Inl e \<Rightarrow> (Inl (Io e), c', w1)
           | Inr answer \<Rightarrow>
               (res_bind (fst (read_response E answer)) (\<lambda>resp. checked_result resp (hex tag)), c', w1)))"

text \<open>A managed run: one request with descriptors, two answers read by one reader. \<open>sends\<close> are the
  results of the sending calls; without enough of them the call is still waiting.\<close>

definition run_with_secrets ::
  "('y) identity_lib_scheme \<Rightarrow> auth \<Rightarrow> json \<Rightarrow> int list \<Rightarrow> (io_error + nat) list \<Rightarrow> client \<Rightarrow> world \<Rightarrow>
     ((run_started \<times> run_exit) res \<times> run_started option \<times> client \<times> world) option" where
  "run_with_secrets E auth params fds sends c w =
     (case random_bytes 8 w of
        (Inl e, w1) \<Rightarrow> Some (Inl e, None, c, w1)
      | (Inr tag, w1) \<Rightarrow>
          (let i = hex tag; req = client_request i ''run_with_secrets'' auth params in
           case send_request_with_fds E req fds sends of
             None \<Rightarrow> None
           | Some (Inl e, out) \<Rightarrow> Some (Inl e, None, c\<lparr>cl_sent := cl_sent c @ [out]\<rparr>, w1)
           | Some (Inr _, out) \<Rightarrow>
               (let c' = c\<lparr>cl_sent := cl_sent c @ [out]\<rparr> in
                case cl_peer c (cl_sent c') of
                  Inl e \<Rightarrow> Some (Inl (Io e), None, c', w1)
                | Inr answer \<Rightarrow>
                    (case read_response E answer of
                       (Inl e, _) \<Rightarrow> Some (Inl e, None, c', w1)
                     | (Inr first, answer1) \<Rightarrow>
                         (case parse_started i first of
                            Inl e \<Rightarrow> Some (Inl e, None, c', w1)
                          | Inr started \<Rightarrow>
                              Some (res_bind (fst (read_response E answer1)) (\<lambda>second.
                                      res_bind (parse_exited i (rn_run_id started) second) (\<lambda>exited.
                                        Inr (started, exited))),
                                    Some started, c', w1))))))"

definition client_run_signal ::
  "('y) identity_lib_scheme \<Rightarrow> auth \<Rightarrow> string \<Rightarrow> string \<Rightarrow> client \<Rightarrow> world \<Rightarrow> string res \<times> client \<times> world" where
  "client_run_signal E auth run_id sig c w =
     (case client_call E ''run_signal'' auth (jobj [(''run_id'', JStr run_id), (''signal'', JStr sig)]) c w of
        (r, c', w1) \<Rightarrow>
          (res_bind r (\<lambda>v.
             case Option.bind (get_member v ''run_id'') as_str of
               None \<Rightarrow> Inl (Protocol ''run_signal response missing run_id'')
             | Some acked \<Rightarrow>
                 if acked \<noteq> run_id then Inl (Protocol ''response run_id mismatch'')
                 else if get_member v ''signaled'' \<noteq> Some (JBool True)
                 then Inl (Protocol ''run_signal not acknowledged'')
                 else Inr acked), c', w1))"

section \<open>The shared transport\<close>

text \<open>\<open>BufRead::read_until\<close>: up to and including the delimiter, or to the end; interrupted reads are
  repeated. There is no bound on what it buffers.\<close>

fun read_until :: "char \<Rightarrow> string \<Rightarrow> stream \<Rightarrow> io_error + string" where
  "read_until d buf [] = Inr buf"
| "read_until d buf (Inl e # rest) = (if errno e = Some EINTR then read_until d buf rest else Inl e)"
| "read_until d buf (Inr chunk # rest) =
     (if d \<in> set chunk then Inr (buf @ takeWhile (\<lambda>c. c \<noteq> d) chunk @ [d])
      else read_until d (buf @ chunk) rest)"

definition strip_newline :: "string \<Rightarrow> string" where
  "strip_newline buf = (if buf \<noteq> [] \<and> last buf = NL then butlast buf else buf)"

definition broker_answer :: "('y) identity_lib_scheme \<Rightarrow> string \<Rightarrow> string \<Rightarrow> broker_error + json" where
  "broker_answer E i buf =
     (if length buf > MAX_MESSAGE_LEN + 1 then Inl (broker_protocol ''response too large'')
      else case value_de E (strip_newline buf) of
        None \<Rightarrow> Inl (broker_protocol ''invalid response'')
      | Some resp \<Rightarrow>
          if get_member resp ''v'' \<noteq> Some (jnat WIRE_VERSION)
          then Inl (broker_protocol ''unsupported protocol version'')
          else if Option.bind (get_member resp ''id'') as_str \<noteq> Some i
          then Inl (broker_protocol ''response id mismatch'')
          else if get_member resp ''ok'' = Some (JBool True)
          then Inr (case get_member resp ''result'' of None \<Rightarrow> JNull | Some r \<Rightarrow> r)
          else (let err = index_member resp ''error'' in
            Inl \<lparr>be_code = (case Option.bind (get_member err ''code'') as_str of None \<Rightarrow> ''E_PROTOCOL'' | Some c \<Rightarrow> c),
                 be_msg = (case Option.bind (get_member err ''msg'') as_str of None \<Rightarrow> ''broker error'' | Some m \<Rightarrow> m),
                 be_data = (case get_member err ''data'' of
                              None \<Rightarrow> None | Some d \<Rightarrow> if is_null d then None else Some d)\<rparr>))"

definition broker_call_with_auth ::
  "('z) crypto_lib_scheme \<Rightarrow> ('y) identity_lib_scheme \<Rightarrow> process \<Rightarrow> link \<Rightarrow> string \<Rightarrow> string \<Rightarrow> auth \<Rightarrow> json \<Rightarrow> world \<Rightarrow>
     (broker_error + json) \<times> string list \<times> world" where
  "broker_call_with_auth L E pr lk socket op auth params w =
     (case lk_connect lk of
        Inl e \<Rightarrow> (Inl (broker_io e), [], w)
      | Inr peer \<Rightarrow>
          (case verify_server pr (lk_ipc lk) socket of
             Inl e \<Rightarrow> (Inl \<lparr>be_code = code e, be_msg = display_error e, be_data = None\<rparr>, [], w)
           | Inr _ \<Rightarrow>
               (case handshake_strict L E pr peer socket w of
                  (Inl e, sent, w1) \<Rightarrow>
                    (Inl \<lparr>be_code = code e,
                          be_msg = display_error e @ '' (first MCP use on this machine fails closed until a human pins once: run any `svault` command at a TTY and answer `yes`)'',
                          be_data = None\<rparr>, sent, w1)
                | (Inr _, sent, w1) \<Rightarrow>
                    (case random_bytes 8 w1 of
                       (Inl e, w2) \<Rightarrow>
                         (Inl (case e of Io io \<Rightarrow> broker_io io | _ \<Rightarrow> broker_protocol (display_error e)), sent, w2)
                     | (Inr tag, w2) \<Rightarrow>
                         (let line = req_ser E (client_request (hex tag) op auth params) @ [NL];
                              sent' = sent @ [line] in
                          case peer sent' of
                            Inl e \<Rightarrow> (Inl (broker_io e), sent', w2)
                          | Inr answer \<Rightarrow>
                              (case read_until NL [] answer of
                                 Inl e \<Rightarrow> (Inl (broker_io e), sent', w2)
                               | Inr buf \<Rightarrow> (broker_answer E (hex tag) buf, sent', w2)))))))"

end
