(* ===== verification/Mcp.thy ===== *)
theory Mcp
  imports Client "HOL-Library.AList"
begin

text \<open>
  \<open>src/mcp.rs\<close>: the stdio adapter between JSON-RPC lines and broker requests. It keeps the lease
  credentials by their public handles; the only thing it decides is which of them goes on the wire.
\<close>

section \<open>Members of an object\<close>

text \<open>\<open>args[k] = x\<close> and \<open>obj.remove(k)\<close> on an object, whose members are kept in key order.\<close>

fun set_member :: "json \<Rightarrow> string \<Rightarrow> json \<Rightarrow> json" where
  "set_member (JObj kvs) k x = JObj (sort_key fst (AList.update k x kvs))"
| "set_member v k x = v"

fun remove_member :: "json \<Rightarrow> string \<Rightarrow> json" where
  "remove_member (JObj kvs) k = JObj (filter (\<lambda>(k', _). k' \<noteq> k) kvs)"
| "remove_member v k = v"

definition is_object :: "json \<Rightarrow> bool" where
  "is_object v \<longleftrightarrow> as_object v \<noteq> None"

section \<open>The broker call\<close>

definition broker_call ::
  "('z) crypto_lib_scheme \<Rightarrow> ('y) identity_lib_scheme \<Rightarrow> process \<Rightarrow> link \<Rightarrow> string \<Rightarrow> string \<Rightarrow> auth \<Rightarrow> json \<Rightarrow> world \<Rightarrow>
     (broker_error + json) \<times> string list \<times> world" where
  "broker_call L E pr lk socket op auth params w =
     (case auth of
        SessionAuth _ \<Rightarrow> (Inl (broker_protocol ''human sessions are not available to agent tools''), [], w)
      | _ \<Rightarrow> broker_call_with_auth L E pr lk socket op auth params w)"

section \<open>Tools\<close>

definition tool_op :: "string \<Rightarrow> string option" where
  "tool_op name =
     (if name = ''list_secrets'' then Some ''secrets.list''
      else if name = ''inject_file'' then Some ''inject_file''
      else if name = ''reveal'' then Some ''reveal''
      else if name = ''approval_status'' then Some ''approvals.status''
      else if name = ''lease_create'' then Some ''lease.create''
      else if name = ''lease_revoke'' then Some ''lease.revoke''
      else None)"

definition consumes_lease :: "string \<Rightarrow> bool" where
  "consumes_lease tool \<longleftrightarrow> tool \<in> {''list_secrets'', ''inject_file'', ''reveal''}"

definition str_prop :: "string \<Rightarrow> json" where
  "str_prop desc = jobj [(''type'', JStr ''string''), (''description'', JStr desc)]"

definition input_schema :: "string list \<Rightarrow> (string \<times> json) list \<Rightarrow> json" where
  "input_schema required props =
     jobj [(''type'', JStr ''object''), (''required'', jstrs required), (''properties'', jobj props)]"

definition tool :: "string \<Rightarrow> string \<Rightarrow> json \<Rightarrow> json" where
  "tool name desc schema =
     jobj [(''name'', JStr name), (''description'', JStr desc), (''inputSchema'', schema)]"

definition lease_handle_prop :: json where
  "lease_handle_prop = str_prop ''Optional lease handle from lease_create (the credential stays server-side)''"

text \<open>A dash of the texts is written with its UTF-8 bytes.\<close>

definition em_dash :: string where
  "em_dash = [CHR 0xE2, CHR 0x80, CHR 0x94]"

definition tools_list :: json where
  "tools_list = JArr
     [tool ''list_secrets'' (''List a project's secret key names and metadata '' @ em_dash @ '' never values.'')
        (input_schema [''project'']
           [(''project'', str_prop ''Project name''), (''lease_id'', lease_handle_prop)]),
      tool ''inject_file'' ''Write project secrets to a dotenv file under an authorized folder; returns names and counts only.''
        (input_schema [''project'', ''path'']
           [(''project'', str_prop ''Project name''),
            (''path'', str_prop ''Relative destination path under an authorized folder''),
            (''keys'', jobj [(''type'', JStr ''array''), (''items'', jobj [(''type'', JStr ''string'')]),
                             (''description'', JStr ''Secret names to write (omitted = all)'')]),
            (''lease_id'', lease_handle_prop)]),
      tool ''reveal'' ''Reveal one secret value. Without approval_id this requests approval (E_APPROVAL_PENDING with approval_id); with an approved approval_id it claims the value exactly once.''
        (input_schema [''project'', ''key'']
           [(''project'', str_prop ''Project name''), (''key'', str_prop ''Secret key name''),
            (''approval_id'', str_prop ''Approval from a prior pending reveal''),
            (''lease_id'', lease_handle_prop)]),
      tool ''approval_status'' ''Poll an own approval's state: pending | approved | denied | expired | consumed.''
        (input_schema [''approval_id'']
           [(''approval_id'', str_prop ''Approval id from a pending reveal'')]),
      tool ''lease_create'' ''Create a lease: a TTL-bound subset of the caller's own grant on a project. Returns the public lease handle; the lease credential is retained server-side and is never returned to the model.''
        (input_schema [''project'', ''ops'', ''ttl_secs'']
           [(''project'', str_prop ''Project name''),
            (''ops'', str_prop ''Comma-separated op subset, e.g. read,inject''),
            (''ttl_secs'', jobj [(''type'', JStr ''integer''), (''minimum'', jnat 1),
                                 (''description'', JStr ''Time to live in seconds'')])]),
      tool ''lease_revoke'' ''Revoke an owned lease immediately.''
        (input_schema [''lease_id'']
           [(''lease_id'', str_prop ''Lease handle from lease_create'')])]"

section \<open>Leases\<close>

type_synonym leases = "string \<rightharpoonup> string"

definition apply_lease :: "leases \<Rightarrow> json \<Rightarrow> (string \<times> string) + json" where
  "apply_lease leases args =
     (if (case get_member args ''lease'' of None \<Rightarrow> False | Some v \<Rightarrow> \<not> is_null v)
      then Inl (''E_INVALID_INPUT'', ''lease credentials are not accepted from the caller; use lease_id'')
      else case Option.bind (get_member args ''lease_id'') as_str of
        None \<Rightarrow> Inr args
      | Some handle \<Rightarrow>
          (case leases handle of
             None \<Rightarrow> Inl (''E_LEASE_EXPIRED'', ''unknown lease: '' @ handle)
           | Some credential \<Rightarrow> Inr (remove_member (set_member args ''lease'' (JStr credential)) ''lease_id'')))"

section \<open>Messages\<close>

definition rpc_result :: "json \<Rightarrow> json \<Rightarrow> json" where
  "rpc_result i result = jobj [(''jsonrpc'', JStr ''2.0''), (''id'', i), (''result'', result)]"

definition rpc_error :: "json \<Rightarrow> int \<Rightarrow> string \<Rightarrow> json" where
  "rpc_error i c message =
     jobj [(''jsonrpc'', JStr ''2.0''), (''id'', i),
           (''error'', jobj [(''code'', JInt c), (''message'', JStr message)])]"

definition tool_text :: "string \<Rightarrow> bool \<Rightarrow> json" where
  "tool_text text is_error =
     jobj ((''content'', JArr [jobj [(''type'', JStr ''text''), (''text'', JStr text)]])
           # (if is_error then [(''isError'', JBool True)] else []))"

definition PKG_VERSION :: string where "PKG_VERSION = ''0.1.0''"

text \<open>The answer of the broker turned into the tool's answer; only here do the kept leases change.\<close>

definition keep_lease :: "json \<Rightarrow> leases \<Rightarrow> leases" where
  "keep_lease reply leases =
     (case (Option.bind (get_member reply ''lease_id'') as_str,
            Option.bind (get_member reply ''lease_credential'') as_str) of
        (Some handle, Some credential) \<Rightarrow> leases(handle \<mapsto> credential)
      | _ \<Rightarrow> leases)"

definition forget_lease :: "json \<Rightarrow> leases \<Rightarrow> leases" where
  "forget_lease reply leases =
     (case Option.bind (get_member reply ''lease_id'') as_str of
        None \<Rightarrow> leases | Some handle \<Rightarrow> leases(handle := None))"

definition tool_success :: "('y) identity_lib_scheme \<Rightarrow> string \<Rightarrow> json \<Rightarrow> json \<Rightarrow> leases \<Rightarrow> json \<times> leases" where
  "tool_success E name i reply leases =
     (let (reply', leases') =
            (if name = ''lease_create'' then (remove_member reply ''lease_credential'', keep_lease reply leases)
             else (reply, leases));
          leases'' = (if name = ''lease_revoke'' then forget_lease reply' leases' else leases')
      in (rpc_result i (tool_text (value_ser E reply') False), leases''))"

definition error_detail :: "broker_error \<Rightarrow> json" where
  "error_detail e =
     jobj ([(''code'', JStr (be_code e)), (''message'', JStr (be_msg e))]
           @ (case be_data e of None \<Rightarrow> [] | Some d \<Rightarrow> [(''data'', d)]))"

text \<open>The name, and the arguments of a call: anything but an object counts as none.\<close>

definition tool_name :: "json \<Rightarrow> string" where
  "tool_name params = (case Option.bind (get_member params ''name'') as_str of None \<Rightarrow> [] | Some n \<Rightarrow> n)"

definition tool_args :: "json \<Rightarrow> json" where
  "tool_args params =
     (case get_member params ''arguments'' of
        None \<Rightarrow> JObj [] | Some args \<Rightarrow> if is_object args then args else JObj [])"

definition tool_input :: "string \<Rightarrow> leases \<Rightarrow> json \<Rightarrow> (string \<times> string) + json" where
  "tool_input name leases args = (if consumes_lease name then apply_lease leases args else Inr args)"

text \<open>A call of a tool. \<open>call\<close> is the broker call with its state: the connections to come and the
  machine.\<close>

definition call_tool ::
  "('y) identity_lib_scheme \<Rightarrow> (string \<Rightarrow> json \<Rightarrow> 's \<Rightarrow> (broker_error + json) \<times> 's) \<Rightarrow> json \<Rightarrow> json \<Rightarrow>
     leases \<Rightarrow> 's \<Rightarrow> json \<times> leases \<times> 's" where
  "call_tool E call i params leases s =
     (case tool_op (tool_name params) of
        None \<Rightarrow> (rpc_error i (- 32602) (''unknown tool: '' @ tool_name params), leases, s)
      | Some op \<Rightarrow>
          (case tool_input (tool_name params) leases (tool_args params) of
             Inl (c, why) \<Rightarrow>
               (rpc_result i (tool_text (value_ser E (jobj [(''code'', JStr c), (''message'', JStr why)])) True),
                leases, s)
           | Inr args \<Rightarrow>
               (case call op args s of
                  (Inr reply, s') \<Rightarrow>
                    (case tool_success E (tool_name params) i reply leases of (r, leases') \<Rightarrow> (r, leases', s'))
                | (Inl e, s') \<Rightarrow> (rpc_result i (tool_text (value_ser E (error_detail e)) True), leases, s'))))"

text \<open>The members of a message.\<close>

definition message_id :: "json \<Rightarrow> json" where
  "message_id msg = (case get_member msg ''id'' of None \<Rightarrow> JNull | Some v \<Rightarrow> v)"

definition message_method :: "json \<Rightarrow> string" where
  "message_method msg = (case Option.bind (get_member msg ''method'') as_str of None \<Rightarrow> [] | Some m \<Rightarrow> m)"

definition message_params :: "json \<Rightarrow> json" where
  "message_params msg = (case get_member msg ''params'' of None \<Rightarrow> JNull | Some p \<Rightarrow> p)"

definition initialize_result :: "json \<Rightarrow> json" where
  "initialize_result msg =
     (let version =
            (case Option.bind (Option.bind (get_member msg ''params'') (\<lambda>p. get_member p ''protocolVersion'')) as_str of
               None \<Rightarrow> ''2024-11-05'' | Some v \<Rightarrow> v)
      in jobj [(''protocolVersion'', JStr version),
               (''capabilities'', jobj [(''tools'', JObj [])]),
               (''serverInfo'', jobj [(''name'', JStr ''svault''), (''version'', JStr PKG_VERSION)])])"

text \<open>What every message but a call of a tool is answered.\<close>

definition simple_answer :: "json \<Rightarrow> json option" where
  "simple_answer msg =
     (let i = message_id msg; meth = message_method msg; has_id = (i \<noteq> JNull)
      in if meth = ''initialize'' then Some (rpc_result i (initialize_result msg))
         else if meth = ''ping'' then Some (rpc_result i (JObj []))
         else if meth = ''tools/list'' then Some (rpc_result i (jobj [(''tools'', tools_list)]))
         else if meth \<in> {''notifications/initialized'', ''notifications/cancelled''} then None
         else if meth = [] then (if has_id then Some (rpc_error i (- 32600) ''invalid request'') else None)
         else (if has_id then Some (rpc_error i (- 32601) ''method not found'') else None))"

definition handle_message ::
  "('y) identity_lib_scheme \<Rightarrow> (string \<Rightarrow> json \<Rightarrow> 's \<Rightarrow> (broker_error + json) \<times> 's) \<Rightarrow> json \<Rightarrow>
     leases \<Rightarrow> 's \<Rightarrow> json option \<times> leases \<times> 's" where
  "handle_message E call msg leases s =
     (if message_method msg = ''tools/call'' then
        (case call_tool E call (message_id msg) (message_params msg) leases s of
           (r, leases', s') \<Rightarrow> (Some r, leases', s'))
      else (simple_answer msg, leases, s))"

section \<open>Frames\<close>

definition FRAME_CAP :: nat where "FRAME_CAP = MAX_MESSAGE_LEN"
definition DRAIN_CAP :: nat where "DRAIN_CAP = MAX_MESSAGE_LEN"

datatype frame = Line string | Eof | Oversize bool

fun drain_frame :: "nat \<Rightarrow> stream \<Rightarrow> (io_error + frame) \<times> stream" where
  "drain_frame skipped [] = (Inr (Oversize True), [])"
| "drain_frame skipped (Inl e # rest) = (Inl e, rest)"
| "drain_frame skipped (Inr chunk # rest) =
     (if chunk = [] then drain_frame skipped rest
      else if NL \<in> set chunk
      then (Inr (Oversize True), Inr (List.tl (dropWhile (\<lambda>c. c \<noteq> NL) chunk)) # rest)
      else if skipped + length chunk \<ge> DRAIN_CAP then (Inr (Oversize False), rest)
      else drain_frame (skipped + length chunk) rest)"

fun read_frame :: "string \<Rightarrow> stream \<Rightarrow> (io_error + frame) \<times> stream" where
  "read_frame buf [] = (Inr (if buf = [] then Eof else Line buf), [])"
| "read_frame buf (Inl e # rest) = (Inl e, rest)"
| "read_frame buf (Inr chunk # rest) =
     (if chunk = [] then read_frame buf rest
      else if NL \<in> set chunk then
        (let buf' = buf @ takeWhile (\<lambda>c. c \<noteq> NL) chunk;
             rest' = Inr (List.tl (dropWhile (\<lambda>c. c \<noteq> NL) chunk)) # rest
         in (Inr (if length buf' > FRAME_CAP then Oversize True else Line buf'), rest'))
      else if length (buf @ chunk) > FRAME_CAP then drain_frame 0 rest
      else read_frame (buf @ chunk) rest)"

text \<open>Every frame uses up a part of the stream.\<close>

fun stream_size :: "stream \<Rightarrow> nat" where
  "stream_size [] = 0"
| "stream_size (Inl e # rest) = Suc (stream_size rest)"
| "stream_size (Inr chunk # rest) = Suc (length chunk + stream_size rest)"

lemma rest_of_chunk: "NL \<in> set chunk \<Longrightarrow> length (dropWhile (\<lambda>c. c \<noteq> NL) chunk) - Suc 0 < length chunk"
  using length_dropWhile_le [of "\<lambda>c. c \<noteq> NL" chunk] by (cases chunk) auto

lemma drain_frame_shrinks: "drain_frame skipped st = (r, st') \<Longrightarrow> stream_size st' \<le> stream_size st"
  by (induction skipped st arbitrary: r st' rule: drain_frame.induct)
    (auto split: if_splits dest: rest_of_chunk)

lemma read_frame_shrinks:
  "read_frame buf st = (Inr fr, st') \<Longrightarrow> buf \<noteq> [] \<or> fr \<noteq> Eof \<Longrightarrow> st \<noteq> [] \<or> buf = [] \<Longrightarrow>
    stream_size st' < stream_size st"
proof (induction buf st arbitrary: fr st' rule: read_frame.induct)
  case (3 buf chunk rest)
  consider "chunk = []" | "chunk \<noteq> []" "NL \<in> set chunk"
    | "chunk \<noteq> []" "NL \<notin> set chunk" "length (buf @ chunk) > FRAME_CAP"
    | "chunk \<noteq> []" "NL \<notin> set chunk" "length (buf @ chunk) \<le> FRAME_CAP" by linarith
  then show ?case
  proof cases
    case 1
    with 3 show ?thesis by (cases rest) (auto split: if_splits)
  next
    case 2
    with 3(3) rest_of_chunk [of chunk] show ?thesis by (auto simp: Let_def)
  next
    case 3
    with "3.prems"(1) drain_frame_shrinks show ?thesis by (fastforce simp: not_le)
  next
    case 4
    with 3 show ?thesis by (cases rest) (auto split: if_splits)
  qed
qed (auto split: if_splits)

lemma read_frame_next: "read_frame [] st = (Inr fr, st') \<Longrightarrow> fr \<noteq> Eof \<Longrightarrow> stream_size st' < stream_size st"
  by (erule read_frame_shrinks) simp_all

section \<open>The loop\<close>

definition parse_error :: "string \<Rightarrow> json" where
  "parse_error what = rpc_error JNull (- 32700) what"

text \<open>What one line makes: nothing, or an answer; bytes first, UTF-8 second.\<close>

definition handle_line ::
  "('y) identity_lib_scheme \<Rightarrow> (string \<Rightarrow> json \<Rightarrow> 's \<Rightarrow> (broker_error + json) \<times> 's) \<Rightarrow> string \<Rightarrow>
     leases \<Rightarrow> 's \<Rightarrow> json option \<times> leases \<times> 's" where
  "handle_line E call raw leases s =
     (if \<not> valid_utf8 raw then (Some (parse_error ''parse error''), leases, s)
      else if trim (chars raw) = [] then (None, leases, s)
      else case value_de E raw of
        None \<Rightarrow> (Some (parse_error ''parse error''), leases, s)
      | Some msg \<Rightarrow> handle_message E call msg leases s)"

text \<open>The answers written, and whether the session ended in an error of reading. Writing to the
  output does not fail.\<close>

function serve_mcp ::
  "('y) identity_lib_scheme \<Rightarrow> (string \<Rightarrow> json \<Rightarrow> 's \<Rightarrow> (broker_error + json) \<times> 's) \<Rightarrow> stream \<Rightarrow>
     leases \<Rightarrow> 's \<Rightarrow> json list \<times> unit res" where
  "serve_mcp E call st leases s =
     (case read_frame [] st of
        (Inl e, _) \<Rightarrow> ([], Inl (Io e))
      | (Inr fr, st1) \<Rightarrow>
          (case fr of
             Eof \<Rightarrow> ([], Inr ())
           | Oversize resynced \<Rightarrow>
               (let resp = parse_error ''parse error: message too large'' in
                if resynced then (case serve_mcp E call st1 leases s of (out, r) \<Rightarrow> (resp # out, r))
                else ([resp], Inr ()))
           | Line raw \<Rightarrow>
               (case handle_line E call raw leases s of (resp, leases', s') \<Rightarrow>
                 (case serve_mcp E call st1 leases' s' of (out, r) \<Rightarrow>
                   ((case resp of None \<Rightarrow> out | Some v \<Rightarrow> v # out), r)))))"
  by pat_completeness auto
termination
  by (relation "measure (\<lambda>(E, call, st, leases, s). stream_size st)") (auto dest!: read_frame_next [OF sym])

definition mcp_auth :: "string option \<Rightarrow> auth" where
  "mcp_auth token = (case token of Some t \<Rightarrow> AgentToken t | None \<Rightarrow> NoAuth)"

text \<open>The calls of one session: the n-th call meets the n-th connection.\<close>

definition adapter_call ::
  "('z) crypto_lib_scheme \<Rightarrow> ('y) identity_lib_scheme \<Rightarrow> process \<Rightarrow> (nat \<Rightarrow> link) \<Rightarrow> string \<Rightarrow> auth \<Rightarrow>
     string \<Rightarrow> json \<Rightarrow> nat \<times> world \<Rightarrow> (broker_error + json) \<times> (nat \<times> world)" where
  "adapter_call L E pr net socket auth op params s =
     (case broker_call L E pr (net (fst s)) socket op auth params (snd s) of
        (r, _, w) \<Rightarrow> (r, (Suc (fst s), w)))"

definition serve_adapter ::
  "('z) crypto_lib_scheme \<Rightarrow> ('y) identity_lib_scheme \<Rightarrow> process \<Rightarrow> (nat \<Rightarrow> link) \<Rightarrow> string \<Rightarrow> string option \<Rightarrow>
     stream \<Rightarrow> world \<Rightarrow> json list \<times> unit res" where
  "serve_adapter L E pr net socket token st w =
     serve_mcp E (adapter_call L E pr net socket (mcp_auth token)) st Map.empty (0, w)"

end
