(* ===== verification/McpTheorems.thy ===== *)
theory McpTheorems
  imports Mcp
begin

text \<open>
  What of the lease credentials leaves the MCP adapter: nothing to the model, and to the broker exactly
  the credential behind the handle that a call names.
\<close>

section \<open>Members\<close>

lemma get_remove_member [simp]:
  "get_member (remove_member v k) k' = (if k' = k then None else get_member v k')"
proof (cases v)
  case (JObj kvs)
  have "map_of (filter (\<lambda>(k', _). k' \<noteq> k) kvs) k' = (if k' = k then None else map_of kvs k')"
    by (induction kvs) auto
  with JObj show ?thesis by simp
qed simp_all

lemma filter_update_same:
  "filter (\<lambda>(k', _). k' \<noteq> k) (AList.update k x kvs) = filter (\<lambda>(k', _). k' \<noteq> k) kvs"
  by (induction kvs) auto

lemma remove_set_member: "is_object v \<Longrightarrow> remove_member (set_member v k x) k = remove_member (set_member v k y) k"
  by (cases v) (simp_all add: is_object_def filter_sort filter_update_same)

lemma remove_remove_member: "remove_member (remove_member v k) k' = remove_member (remove_member v k') k"
  by (cases v) (auto simp: conj_commute intro!: filter_cong)

lemma get_set_member:
  assumes "v = JObj kvs" and "distinct (map fst kvs)"
  shows "get_member (set_member v k x) k' = (if k' = k then Some x else get_member v k')"
proof -
  have d: "distinct (map fst (AList.update k x kvs))" using assms(2) by (simp add: distinct_update)
  then have "map_of (sort_key fst (AList.update k x kvs)) = map_of (AList.update k x kvs)"
    by (subst map_of_inject_set) (simp_all add: distinct_map)
  then show ?thesis by (simp add: assms(1) update_conv)
qed

section \<open>On the wire\<close>

text \<open>Arguments as the JSON parser gives them: an object has no member twice.\<close>

definition plain_args :: "json \<Rightarrow> bool" where
  "plain_args args \<longleftrightarrow> (\<exists>kvs. args = JObj kvs \<and> distinct (map fst kvs))"

lemma apply_lease_sends:
  assumes "plain_args args" and "apply_lease leases args = Inr args'"
  shows "(case Option.bind (get_member args ''lease_id'') as_str of
            None \<Rightarrow> args' = args \<and> get_member args' ''lease'' \<in> {None, Some JNull}
          | Some handle \<Rightarrow> \<exists>c. leases handle = Some c \<and> get_member args' ''lease'' = Some (JStr c)
              \<and> get_member args' ''lease_id'' = None
              \<and> (\<forall>k. k \<notin> {''lease'', ''lease_id''} \<longrightarrow> get_member args' k = get_member args k))"
proof -
  from assms(1) obtain kvs where kvs: "args = JObj kvs" "distinct (map fst kvs)" by (auto simp: plain_args_def)
  note g = get_set_member [OF kvs]
  show ?thesis
    using assms(2)
    by (auto simp: apply_lease_def g is_null_def split: if_splits option.splits)
qed

section \<open>To the model\<close>

text \<open>Two brokers whose answers differ at most in the credentials they mint, whatever credentials they
  are shown.\<close>

definition couples ::
  "('s \<Rightarrow> 't \<Rightarrow> bool) \<Rightarrow> (string \<Rightarrow> json \<Rightarrow> 's \<Rightarrow> (broker_error + json) \<times> 's) \<Rightarrow>
     (string \<Rightarrow> json \<Rightarrow> 't \<Rightarrow> (broker_error + json) \<times> 't) \<Rightarrow> bool" where
  "couples R call call' \<longleftrightarrow>
     (\<forall>op p p' s s'. R s s' \<longrightarrow> remove_member p ''lease'' = remove_member p' ''lease'' \<longrightarrow>
        R (snd (call op p s)) (snd (call' op p' s'))
        \<and> (case (fst (call op p s), fst (call' op p' s')) of
             (Inl e, Inl e') \<Rightarrow> e = e'
           | (Inr v, Inr v') \<Rightarrow>
               (if op = ''lease.create''
                then remove_member v ''lease_credential'' = remove_member v' ''lease_credential''
                  \<and> (Option.bind (get_member v ''lease_credential'') as_str = None
                     \<longleftrightarrow> Option.bind (get_member v' ''lease_credential'') as_str = None)
                else v = v')
           | _ \<Rightarrow> False))"

lemma tool_create: "tool_op name = Some ''lease.create'' \<longleftrightarrow> name = ''lease_create''"
  by (simp add: tool_op_def)

lemma apply_lease_couples:
  assumes "is_object args" and "dom leases = dom leases'"
  shows "case (apply_lease leases args, apply_lease leases' args) of
      (Inl e, Inl e') \<Rightarrow> e = e'
    | (Inr p, Inr p') \<Rightarrow> remove_member p ''lease'' = remove_member p' ''lease''
    | _ \<Rightarrow> False"
proof -
  have n: "leases h = None \<longleftrightarrow> leases' h = None" for h using assms(2) by (metis domIff)
  show ?thesis
  proof (cases "Option.bind (get_member args ''lease_id'') as_str")
    case None
    then show ?thesis by (simp add: apply_lease_def)
  next
    case (Some h)
    show ?thesis
    proof (cases "leases h")
      case None
      with n have "leases' h = None" by simp
      with None Some show ?thesis by (simp add: apply_lease_def)
    next
      case (Some c)
      with n [of h] obtain c' where "leases' h = Some c'" by (cases "leases' h") simp_all
      with Some \<open>Option.bind (get_member args ''lease_id'') as_str = Option.Some h\<close> assms(1) show ?thesis
        by (simp add: apply_lease_def remove_remove_member [of _ "''lease_id''"] remove_set_member [of args "''lease''" "JStr c" "JStr c'"])
    qed
  qed
qed

lemma keep_lease_dom:
  assumes "get_member v ''lease_id'' = get_member v' ''lease_id''"
    and "Option.bind (get_member v ''lease_credential'') as_str = None
      \<longleftrightarrow> Option.bind (get_member v' ''lease_credential'') as_str = None"
    and "dom leases = dom leases'"
  shows "dom (keep_lease v leases) = dom (keep_lease v' leases')"
  unfolding keep_lease_def assms(1)
  using assms(2,3)
  by (cases "Option.bind (get_member v' ''lease_id'') as_str";
      cases "Option.bind (get_member v ''lease_credential'') as_str";
      cases "Option.bind (get_member v' ''lease_credential'') as_str") simp_all

lemma forget_lease_dom: "dom leases = dom leases' \<Longrightarrow> dom (forget_lease v leases) = dom (forget_lease v leases')"
  by (cases "Option.bind (get_member v ''lease_id'') as_str") (simp_all add: forget_lease_def)

lemma tool_success_couples:
  assumes "tool_op name = Some op" and "dom leases = dom leases'"
    and "if op = ''lease.create''
      then remove_member v ''lease_credential'' = remove_member v' ''lease_credential''
        \<and> (Option.bind (get_member v ''lease_credential'') as_str = None
           \<longleftrightarrow> Option.bind (get_member v' ''lease_credential'') as_str = None)
      else v = v'"
  shows "fst (tool_success E name i v leases) = fst (tool_success E name i v' leases')"
    "dom (snd (tool_success E name i v leases)) = dom (snd (tool_success E name i v' leases'))"
proof -
  have "fst (tool_success E name i v leases) = fst (tool_success E name i v' leases')
      \<and> dom (snd (tool_success E name i v leases)) = dom (snd (tool_success E name i v' leases'))"
  proof (cases "name = ''lease_create''")
    case True
    with assms(1) have "op = ''lease.create''" by (simp add: tool_op_def)
    with assms(3) have r: "remove_member v ''lease_credential'' = remove_member v' ''lease_credential''"
      and c: "Option.bind (get_member v ''lease_credential'') as_str = None
           \<longleftrightarrow> Option.bind (get_member v' ''lease_credential'') as_str = None" by simp_all
    have h: "get_member v ''lease_id'' = get_member v' ''lease_id''"
      using arg_cong [OF r, of "\<lambda>x. get_member x ''lease_id''"] by simp
    show ?thesis
      using keep_lease_dom [OF h c assms(2)] by (simp add: tool_success_def True r)
  next
    case False
    then have "op \<noteq> ''lease.create''" using assms(1) tool_create [of name] by metis
    with assms(3) have "v = v'" by (simp only: if_False)
    with False assms(2) forget_lease_dom [of leases leases' v'] show ?thesis
      by (simp add: tool_success_def)
  qed
  then show "fst (tool_success E name i v leases) = fst (tool_success E name i v' leases')"
    "dom (snd (tool_success E name i v leases)) = dom (snd (tool_success E name i v' leases'))" by simp_all
qed

lemma call_tool_couples:
  assumes "couples R call call'" and "R s s'" and "dom leases = dom leases'"
  shows "fst (call_tool E call i params leases s) = fst (call_tool E call' i params leases' s')"
    "dom (fst (snd (call_tool E call i params leases s))) = dom (fst (snd (call_tool E call' i params leases' s')))"
    "R (snd (snd (call_tool E call i params leases s))) (snd (snd (call_tool E call' i params leases' s')))"
proof -
  let ?name = "tool_name params" and ?args = "tool_args params"
  have o': "is_object ?args" by (simp add: tool_args_def is_object_def split: option.split)
  have "fst (call_tool E call i params leases s) = fst (call_tool E call' i params leases' s')
    \<and> dom (fst (snd (call_tool E call i params leases s))) = dom (fst (snd (call_tool E call' i params leases' s')))
    \<and> R (snd (snd (call_tool E call i params leases s))) (snd (snd (call_tool E call' i params leases' s')))"
  proof (cases "tool_op ?name")
    case None
    with assms show ?thesis by (simp add: call_tool_def)
  next
    case (Some op)
    note op = this
    have a: "case (tool_input ?name leases ?args, tool_input ?name leases' ?args) of (Inl e, Inl e') \<Rightarrow> e = e'
        | (Inr p, Inr p') \<Rightarrow> remove_member p ''lease'' = remove_member p' ''lease'' | _ \<Rightarrow> False"
      using apply_lease_couples [OF o' assms(3)] by (simp add: tool_input_def)
    show ?thesis
    proof (cases "tool_input ?name leases ?args")
      case (Inl e)
      with a have "tool_input ?name leases' ?args = Inl e" by (cases "tool_input ?name leases' ?args") (simp_all only: sum.case prod.case)
      with Inl op assms show ?thesis by (cases e) (simp add: call_tool_def)
    next
      case (Inr p)
      with a obtain p' where p': "tool_input ?name leases' ?args = Inr p'" and r: "remove_member p ''lease'' = remove_member p' ''lease''"
        by (cases "tool_input ?name leases' ?args") (simp_all only: sum.case prod.case simp_thms)
      obtain x t x' t' where k: "call op p s = (x, t)" "call' op p' s' = (x', t')" by (metis prod.exhaust)
      from assms(1) [unfolded couples_def, rule_format, OF assms(2) r, of op] k
      have R: "R t t'" and v: "case (x, x') of (Inl e, Inl e') \<Rightarrow> e = e'
         | (Inr v, Inr v') \<Rightarrow>
               (if op = ''lease.create''
                then remove_member v ''lease_credential'' = remove_member v' ''lease_credential''
                  \<and> (Option.bind (get_member v ''lease_credential'') as_str = None
                     \<longleftrightarrow> Option.bind (get_member v' ''lease_credential'') as_str = None)
                else v = v')
           | _ \<Rightarrow> False" by simp_all
      show ?thesis
      proof (cases x)
        case (Inl e)
        with v have "x' = Inl e" by (cases x') simp_all
        with Inl op Inr p' k R assms(3) show ?thesis by (simp add: call_tool_def)
      next
        case (Inr y)
        with v obtain y' where "x' = Inr y'" by (cases x') simp_all
        with v Inr have y: "if op = ''lease.create''
            then remove_member y ''lease_credential'' = remove_member y' ''lease_credential''
              \<and> (Option.bind (get_member y ''lease_credential'') as_str = None
                 \<longleftrightarrow> Option.bind (get_member y' ''lease_credential'') as_str = None)
            else y = y'" by simp
        from tool_success_couples [where E = E and i = i, OF op assms(3) y] Inr \<open>x' = Inr y'\<close> op \<open>tool_input ?name leases ?args = Inr p\<close> p' k R
        show ?thesis by (simp add: call_tool_def case_prod_beta)
      qed
    qed
  qed
  then show "fst (call_tool E call i params leases s) = fst (call_tool E call' i params leases' s')"
    "dom (fst (snd (call_tool E call i params leases s))) = dom (fst (snd (call_tool E call' i params leases' s')))"
    "R (snd (snd (call_tool E call i params leases s))) (snd (snd (call_tool E call' i params leases' s')))"
    by simp_all
qed

text \<open>Two adapters in the same situation towards the model.\<close>

definition same_view :: "('s \<Rightarrow> 't \<Rightarrow> bool) \<Rightarrow> json option \<times> leases \<times> 's \<Rightarrow> json option \<times> leases \<times> 't \<Rightarrow> bool" where
  "same_view R x y \<longleftrightarrow> fst x = fst y \<and> dom (fst (snd x)) = dom (fst (snd y)) \<and> R (snd (snd x)) (snd (snd y))"

lemma handle_message_couples:
  assumes "couples R call call'" and "R s s'" and "dom leases = dom leases'"
  shows "same_view R (handle_message E call msg leases s) (handle_message E call' msg leases' s')"
proof -
  have quiet: "same_view R (x, leases, s) (x, leases', s')" for x using assms by (simp add: same_view_def)
  have tool: "same_view R
      (case call_tool E call i p leases s of (r, l, t) \<Rightarrow> (Some r, l, t))
      (case call_tool E call' i p leases' s' of (r, l, t) \<Rightarrow> (Some r, l, t))" for i p
    using call_tool_couples [where E = E and i = i and params = p, OF assms] by (simp add: same_view_def case_prod_beta)
  show ?thesis
  proof (cases "message_method msg = ''tools/call''")
    case True
    with tool show ?thesis by (simp add: handle_message_def)
  next
    case False
    with quiet show ?thesis by (simp add: handle_message_def)
  qed
qed

lemma handle_line_couples:
  assumes "couples R call call'" and "R s s'" and "dom leases = dom leases'"
  shows "same_view R (handle_line E call raw leases s) (handle_line E call' raw leases' s')"
proof (cases "value_de E raw")
  case None
  with assms(2,3) show ?thesis by (simp add: handle_line_def same_view_def)
next
  case (Some msg)
  with handle_message_couples [where E = E and msg = msg, OF assms] assms(2,3) show ?thesis
    by (simp add: handle_line_def same_view_def)
qed

text \<open>C35: The model never learns a lease credential: the answers of a whole session, and how it ends, are
  the same for two brokers that differ only in the credentials they mint, whatever lines arrive and
  whichever leases the adapter holds.\<close>

theorem mcp_output_independent_of_credentials:
  assumes "couples R call call'" and "R s s'" and "dom leases = dom leases'"
  shows "serve_mcp E call st leases s = serve_mcp E call' st leases' s'"
  using assms
proof (induction E call st leases s arbitrary: leases' s' rule: serve_mcp.induct)
  case (1 E call st leases s)
  note l = serve_mcp.simps [of E call st leases s] and r = serve_mcp.simps [of E call' st leases' s']
  obtain fr st1 where f: "read_frame [] st = (fr, st1)" by force
  show ?case
  proof (cases fr)
    case (Inl e)
    with f show ?thesis unfolding l r by simp
  next
    case (Inr frame)
    show ?thesis
    proof (cases frame)
      case (Line raw)
      obtain x le t x' le' t' where h: "handle_line E call raw leases s = (x, le, t)"
        "handle_line E call' raw leases' s' = (x', le', t')" by (metis prod_cases3)
      with handle_line_couples [where E = E and raw = raw, OF "1.prems"] have v: "x = x'" "dom le = dom le'" "R t t'"
        by (auto simp: same_view_def)
      have "serve_mcp E call st1 le t = serve_mcp E call' st1 le' t'"
        by (rule "1.IH"(1) [OF f [symmetric] Inr Line h(1) [symmetric] refl]) (use v "1.prems"(1) in simp_all)
      with f Inr Line h v(1) show ?thesis unfolding l r by simp
    next
      case Eof
      with f Inr show ?thesis unfolding l r by simp
    next
      case (Oversize resynced)
      have "resynced \<Longrightarrow> serve_mcp E call st1 leases s = serve_mcp E call' st1 leases' s'"
        by (rule "1.IH"(2) [OF f [symmetric] Inr Oversize refl]) (use "1.prems" in simp_all)
      with f Inr Oversize show ?thesis unfolding l r by (simp add: Let_def)
    qed
  qed
qed

definition minting :: "string \<Rightarrow> string \<Rightarrow> json \<Rightarrow> unit \<Rightarrow> (broker_error + json) \<times> unit" where
  "minting c op params s =
     (if op = ''lease.create''
      then (Inr (JObj [(''lease_credential'', JStr c), (''lease_id'', JStr ''l'')]), s)
      else (Inr JNull, s))"

definition toy_adapter :: identity_lib where
  "toy_adapter =
     \<lparr>req_de = (\<lambda>_. None), req_ser = (\<lambda>_. []), resp_de = (\<lambda>_. None), resp_ser = (\<lambda>_. []),
      ed_public = id, ed_sign = (\<lambda>_ _. []), ed_point = (\<lambda>_. True), ed_verify = (\<lambda>_ _ _. True),
      value_ser = (\<lambda>v. case get_member v ''lease_credential'' of None \<Rightarrow> ''no credential'' | Some _ \<Rightarrow> ''credential''),
      value_de = (\<lambda>_. Some (JObj [(''method'', JStr ''tools/call''),
                                (''params'', JObj [(''name'', JStr ''lease_create'')])]))\<rparr>"

theorem mcp_output_independent_of_credentials_witness:
  "serve_mcp toy_adapter (minting ''c1'') [Inr (''m'' @ [NL])] Map.empty ()
    = serve_mcp toy_adapter (minting ''c2'') [Inr (''m'' @ [NL])] Map.empty ()"
  by (rule mcp_output_independent_of_credentials [where R = "\<lambda>_ _. True"])
    (simp_all add: couples_def minting_def)

end
