(* ===== verification/BrokerServe.thy ===== *)
theory BrokerServe
  imports BrokerRun FdPass Ipc
begin

text \<open>
  \<open>src/broker.rs\<close>, the daemon around its requests: start-up, the idle timer, the answer to
  \<open>broker.hello\<close>, and one connection from its accepted socket to its answer. What the socket delivers,
  and whether the answer to a hello could be written, are arguments; a managed run goes on in
  \<open>BrokerRun\<close>.
\<close>

record server =
  sv_daemon :: daemon
  sv_secret :: string
  sv_lock :: string

section \<open>Start-up\<close>

definition remove_file :: "string \<Rightarrow> world \<Rightarrow> unit res \<times> world" where
  "remove_file path w =
     (if fault_now w \<noteq> None then (Inl io_failed, tick w) else (Inr (), set_file path None (tick w)))"

text \<open>The instance lock is held from here on; a failure drops it.\<close>

definition daemon_locked ::
  "('z) vault_lib_scheme \<Rightarrow> string \<Rightarrow> string \<Rightarrow> nat \<Rightarrow> string \<Rightarrow> world \<Rightarrow> server res \<times> world" where
  "daemon_locked L socket vault idle lock w =
     try_bind (load_or_generate vault w) (\<lambda>secret w1.
       try_bind (if w_dir w1 socket \<noteq> None then remove_file socket w1 else (Inr (), w1)) (\<lambda>_ w2.
         try_bind
           (if w_dir w2 vault \<noteq> None
            then try_bind (load_session L vault idle w2) (\<lambda>s w3. (Inr (Some (defer_idle_lock s)), w3))
            else (Inr None, w2))
           (\<lambda>so w3.
             (Inr \<lparr>sv_daemon =
                     \<lparr>dm_vault_path = vault, dm_socket_path = socket, dm_idle_lock = idle, dm_world = w3,
                      dm_session = so, dm_host = \<lparr>rh_runs = [], rh_signals = []\<rparr>, dm_deadline = None\<rparr>,
                   sv_secret = secret, sv_lock = lock\<rparr>,
              w3))))"

definition daemon_new ::
  "('z) vault_lib_scheme \<Rightarrow> string \<Rightarrow> string \<Rightarrow> nat \<Rightarrow> world \<Rightarrow> server res \<times> world" where
  "daemon_new L socket vault idle w =
     try_bind (if dir_part socket = [] then (Inr (), w) else ensure_private_dir (dir_part socket) w) (\<lambda>_ w1.
       try_bind (acquire_file (instance_lock_path socket) w1) (\<lambda>lock w2.
         unlocking_on_error lock (daemon_locked L socket vault idle lock w2)))"

section \<open>The idle timer\<close>

record idle_watch =
  iw_deadline :: "nat option"
  iw_shutdown :: bool

definition watch_new :: idle_watch where
  "watch_new = \<lparr>iw_deadline = None, iw_shutdown = False\<rparr>"

text \<open>The flag tells whether the parked thread is woken.\<close>

definition watch_arm :: "nat option \<Rightarrow> idle_watch \<Rightarrow> idle_watch \<times> bool" where
  "watch_arm deadline iw =
     (if iw_deadline iw = deadline then (iw, False) else (iw\<lparr>iw_deadline := deadline\<rparr>, True))"

definition watch_shutdown :: "idle_watch \<Rightarrow> idle_watch \<times> bool" where
  "watch_shutdown iw = (iw\<lparr>iw_shutdown := True\<rparr>, True)"

text \<open>One look of the parked thread: it ends, it fires, or it parks again for at most so long.\<close>

datatype watch_look = Ends | Fires | Parks "nat option"

definition watch_look_at :: "nat \<Rightarrow> idle_watch \<Rightarrow> watch_look" where
  "watch_look_at now iw =
     (if iw_shutdown iw then Ends
      else case iw_deadline iw of
        None \<Rightarrow> Parks None
      | Some deadline \<Rightarrow> if now \<ge> deadline then Fires else Parks (Some (deadline - now)))"

section \<open>Connections\<close>

definition end_connection :: "nat \<Rightarrow> nat" where
  "end_connection live = live - 1"

definition answer_hello ::
  "('y) identity_lib_scheme \<Rightarrow> process \<Rightarrow> string \<Rightarrow> string \<Rightarrow> request \<Rightarrow> world \<Rightarrow> response \<times> world" where
  "answer_hello E pr secret socket req w =
     (let i = rq_id req;
          no = (response_err i ''E_PROTOCOL'' ''broker.hello needs a 32-byte hex client_nonce'', w)
      in case Option.bind (get_member (rq_params req) ''client_nonce'') as_str of
        None \<Rightarrow> no
      | Some h \<Rightarrow>
          (case unhex h of
             None \<Rightarrow> no
           | Some client_nonce \<Rightarrow>
               if length client_nonce \<noteq> HELLO_NONCE_LEN then no
               else (case hello_reply E pr secret client_nonce socket w of
                 (Inr (server_nonce, sig), w1) \<Rightarrow>
                   (response_ok i (jobj [(''public_key'', JStr (hex (ed_public E secret))),
                                         (''server_nonce'', JStr (hex server_nonce)),
                                         (''signature'', JStr (hex sig))]), w1)
               | (Inl e, w1) \<Rightarrow> (response_of_error i e, w1))))"

text \<open>The random bytes of the answer come from the daemon's machine.\<close>

definition server_hello ::
  "('y) identity_lib_scheme \<Rightarrow> process \<Rightarrow> request \<Rightarrow> server \<Rightarrow> response \<times> server" where
  "server_hello E pr req sv =
     (case answer_hello E pr (sv_secret sv) (dm_socket_path (sv_daemon sv)) req (machine_of (sv_daemon sv)) of
        (resp, w) \<Rightarrow> (resp, sv\<lparr>sv_daemon := set_machine w (sv_daemon sv)\<rparr>))"

text \<open>How a connection goes on: closed after these responses, or kept by a managed run. An error of
  \<open>handle_connection\<close> is answered by the thread that serves the connection.\<close>

datatype outcome = Closed "response list" server | Launching "response list" request nat server

definition connection_error :: "vault_error \<Rightarrow> response" where
  "connection_error e = response_of_error ''connection'' e"

definition serve_request ::
  "('z) broker_lib_scheme \<Rightarrow> 'fd kernel \<Rightarrow> response list \<Rightarrow> request \<Rightarrow> nat \<Rightarrow> server \<Rightarrow> outcome option" where
  "serve_request L K before req fds sv =
     map_option
       (\<lambda>r. case r of
          Replied resp D \<Rightarrow> Closed (before @ [resp]) (sv\<lparr>sv_daemon := D\<rparr>)
        | StartsRun req D \<Rightarrow> Launching before req fds (sv\<lparr>sv_daemon := D\<rparr>))
       (dispatch_on_connection L K req fds (sv_daemon sv))"

definition handle_connection ::
  "('z) broker_lib_scheme \<Rightarrow> 'fd kernel \<Rightarrow> ('y) identity_lib_scheme \<Rightarrow> process \<Rightarrow> io_error + int \<times> nat \<Rightarrow>
     (io_error + received) list \<Rightarrow> io_error option \<Rightarrow> server \<Rightarrow> outcome option" where
  "handle_connection L K E pr peer_cred evs write_error sv =
     (if \<not> peer_uid_ok pr peer_cred
      then Some (Closed [response_err ''peer'' ''E_AUTH'' ''peer uid does not match the daemon owner''] sv)
      else case recv_request_with_fds E evs of
        (Inl e, _) \<Rightarrow> Some (Closed [connection_error e] sv)
      | (Inr (req, fds), evs1) \<Rightarrow>
          if rq_op req = HELLO_OP then
            (if fds \<noteq> []
             then Some (Closed [response_err (rq_id req) ''E_PROTOCOL'' ''broker.hello carries no file descriptors''] sv)
             else (case server_hello E pr req sv of (resp, sv1) \<Rightarrow>
               (case write_error of
                  Some e \<Rightarrow> Some (Closed [resp, connection_error (Io e)] sv1)
                | None \<Rightarrow>
                    (case recv_request_with_fds E evs1 of
                       (Inl e, _) \<Rightarrow> Some (Closed [resp, connection_error e] sv1)
                     | (Inr (req2, fds2), _) \<Rightarrow> serve_request L K [resp] req2 (length fds2) sv1))))
          else serve_request L K [] req (length fds) sv)"

end
