(* ===== verification/CliInput.thy ===== *)
theory CliInput
  imports BrokerServe Mcp
begin

text \<open>
  \<open>src/cli.rs\<close>, what a command is made of: the parsed command line, the sources of its credentials
  (descriptors, files, the environment, prompts) and the parameters of a managed run. The parser of
  the command line is not part of the repository; its result is an argument. What the process reads
  from descriptors, prompts and the network is what a \<open>console\<close> answers.
\<close>

section \<open>The command line\<close>

datatype project_cmd =
    Project_Add string "string list"
  | Project_List
  | Project_Path_Add string string
  | Project_Path_Remove string string
  | Project_Remove string

datatype secret_cmd = Secret_Set string string | Secret_List string | Secret_Delete string string

datatype agent_cmd = Agent_Add string "string option" | Agent_Revoke string | Agent_List

datatype grant_cmd = Grant_Add string string string | Grant_Revoke string string | Grant_List

datatype audit_cmd = Audit_Show nat | Audit_Verify

datatype lease_cmd = Lease_Create string string nat | Lease_List | Lease_Revoke string

datatype approval_cmd =
    Approval_Status string
  | Approval_Pending
  | Approval_Approve string
  | Approval_Deny string

datatype trust_cmd = Trust_Show | Trust_Reset

record run_cmd =
  rc_project :: string
  rc_keys :: "string list"
  rc_cwd :: "string option"
  rc_env :: "string list"
  rc_timeout_secs :: "nat option"
  rc_command :: "string list"

datatype cmd =
    Cmd_Daemon
  | Cmd_Init
  | Cmd_Status
  | Cmd_Unlock
  | Cmd_Lock
  | Cmd_Project project_cmd
  | Cmd_Secret secret_cmd
  | Cmd_Agent agent_cmd
  | Cmd_Grant grant_cmd
  | Cmd_Audit audit_cmd
  | Cmd_Run run_cmd
  | Cmd_Run_Signal string string
  | Cmd_Lease lease_cmd
  | Cmd_Reveal string string "string option"
  | Cmd_Inject string string "string list"
  | Cmd_Approval approval_cmd
  | Cmd_Mcp_Serve
  | Cmd_Trust trust_cmd

record cli =
  cli_file :: "string option"
  cli_socket :: "string option"
  cli_passphrase_file :: "string option"
  cli_token_file :: "string option"
  cli_token_fd :: "int option"
  cli_lease_file :: "string option"
  cli_idle_lock_secs :: "nat option"
  cli_trust_fingerprint :: "string option"
  cli_command :: cmd

section \<open>The process\<close>

text \<open>What the process is given: its environment, whether standard input is a terminal, the answers of
  the password prompt in order, what an inherited descriptor reads to its end, whether a path is a
  regular file (not followed), and the connections in order.\<close>

record console =
  cn_process :: process
  cn_terminal :: bool
  cn_prompt :: "nat \<Rightarrow> io_error + string"
  cn_fd :: "int \<Rightarrow> io_error + string"
  cn_regular :: "string \<Rightarrow> io_error + bool"
  cn_net :: "nat \<Rightarrow> link"

record cli_state =
  cs_world :: world
  cs_stdin :: stream
  cs_prompts :: nat
  cs_conns :: nat
  cs_out :: string
  cs_err :: string

definition say :: "string \<Rightarrow> cli_state \<Rightarrow> cli_state" where
  "say line st = st\<lparr>cs_out := cs_out st @ line @ [NL]\<rparr>"

definition complain :: "string \<Rightarrow> cli_state \<Rightarrow> cli_state" where
  "complain line st = st\<lparr>cs_err := cs_err st @ line @ [NL]\<rparr>"

section \<open>Reading\<close>

definition text_of :: "string \<Rightarrow> string res" where
  "text_of bytes =
     (if valid_utf8 bytes then Inr bytes
      else Inl (Io (Io_Error None ''stream did not contain valid UTF-8'')))"

fun read_to_end :: "string \<Rightarrow> stream \<Rightarrow> io_error + string" where
  "read_to_end buf [] = Inr buf"
| "read_to_end buf (Inl e # rest) = (if errno e = Some EINTR then read_to_end buf rest else Inl e)"
| "read_to_end buf (Inr chunk # rest) = read_to_end (buf @ chunk) rest"

text \<open>\<open>read_to_string\<close> on standard input and on a file that is opened for it.\<close>

definition read_stdin :: "cli_state \<Rightarrow> string res \<times> cli_state" where
  "read_stdin st =
     (res_bind (map_err Io (read_to_end [] (cs_stdin st))) text_of, st\<lparr>cs_stdin := []\<rparr>)"

definition read_file :: "string \<Rightarrow> cli_state \<Rightarrow> string res \<times> cli_state" where
  "read_file path st =
     (let w = cs_world st in
      case w_dir w path of
        None \<Rightarrow> (Inl (Io (Io_Error (Some 2) ''No such file or directory'')), st)
      | Some bytes \<Rightarrow>
          (if fault_now w \<noteq> None then Inl io_failed else text_of bytes, st\<lparr>cs_world := tick w\<rparr>))"

text \<open>\<open>read_line\<close> through a buffered reader of its own: what the reader took beyond the line is lost.\<close>

fun after_line :: "stream \<Rightarrow> stream" where
  "after_line [] = []"
| "after_line (Inl e # rest) = (if errno e = Some EINTR then after_line rest else rest)"
| "after_line (Inr chunk # rest) = (if NL \<in> set chunk then rest else after_line rest)"

definition read_stdin_line :: "cli_state \<Rightarrow> string res \<times> cli_state" where
  "read_stdin_line st =
     (res_bind (map_err Io (read_until NL [] (cs_stdin st))) text_of, st\<lparr>cs_stdin := after_line (cs_stdin st)\<rparr>)"

text \<open>One line ending is dropped, with the carriage return before it.\<close>

definition trim_line :: "string \<Rightarrow> string" where
  "trim_line s = (if s \<noteq> [] \<and> last s = NL then strip_cr (butlast s) else s)"

definition trimmed :: "string res \<times> cli_state \<Rightarrow> string res \<times> cli_state" where
  "trimmed x = (case x of (r, st) \<Rightarrow> (res_bind r (\<lambda>s. Inr (trim_line s)), st))"

section \<open>Paths\<close>

definition cli_socket_path :: "console \<Rightarrow> cli \<Rightarrow> string res" where
  "cli_socket_path C cli =
     (case cli_socket cli of Some p \<Rightarrow> Inr p | None \<Rightarrow> default_socket_path (cn_process C))"

definition cli_vault_path :: "console \<Rightarrow> cli \<Rightarrow> string res" where
  "cli_vault_path C cli =
     (case cli_file cli of Some p \<Rightarrow> Inr p | None \<Rightarrow> default_vault_path (env_var (cn_process C)))"

definition cli_idle_lock :: "cli \<Rightarrow> nat" where
  "cli_idle_lock cli =
     (case cli_idle_lock_secs cli of Some s \<Rightarrow> s * SEC | None \<Rightarrow> DEFAULT_IDLE_LOCK)"

section \<open>Credentials\<close>

definition agent_token :: "console \<Rightarrow> cli \<Rightarrow> cli_state \<Rightarrow> string option res \<times> cli_state" where
  "agent_token C cli st =
     (case cli_token_fd cli of
        Some fd \<Rightarrow>
          try_bind (trimmed (if fd = 0 then read_stdin st else (res_bind (map_err Io (cn_fd C fd)) text_of, st)))
            (\<lambda>t st. (Inr (Some t), st))
      | None \<Rightarrow>
          (case cli_token_file cli of
             Some p \<Rightarrow>
               try_bind (trimmed (if p = ''-'' then read_stdin st else read_file p st)) (\<lambda>t st. (Inr (Some t), st))
           | None \<Rightarrow> (Inr (env_var (cn_process C) ''SVAULT_TOKEN''), st)))"

definition agent_auth :: "string option \<Rightarrow> auth res" where
  "agent_auth token = (case token of Some t \<Rightarrow> Inr (AgentToken t) | None \<Rightarrow> Inl Permission)"

definition read_lease_credential :: "console \<Rightarrow> string \<Rightarrow> cli_state \<Rightarrow> string res \<times> cli_state" where
  "read_lease_credential C path st =
     (if path = ''-'' then trimmed (read_stdin st)
      else case cn_regular C path of
        Inl e \<Rightarrow> (Inl (Io e), st)
      | Inr regular \<Rightarrow>
          if \<not> regular then (Inl (Io (Io_Error None ''lease credential source must be a regular file'')), st)
          else trimmed (read_file path st))"

definition lease_scoped :: "console \<Rightarrow> cli \<Rightarrow> json \<Rightarrow> cli_state \<Rightarrow> json res \<times> cli_state" where
  "lease_scoped C cli params st =
     (case cli_lease_file cli of
        None \<Rightarrow> (Inr params, st)
      | Some path \<Rightarrow>
          try_bind (read_lease_credential C path st) (\<lambda>credential st.
            (Inr (if credential \<noteq> [] then set_member params ''lease'' (JStr credential) else params), st)))"

definition prompt_tty :: "console \<Rightarrow> cli_state \<Rightarrow> string res \<times> cli_state" where
  "prompt_tty C st = (map_err Io (cn_prompt C (cs_prompts st)), st\<lparr>cs_prompts := Suc (cs_prompts st)\<rparr>)"

definition read_passphrase_file :: "string \<Rightarrow> cli_state \<Rightarrow> string res \<times> cli_state" where
  "read_passphrase_file path st = trimmed (if path = ''-'' then read_stdin st else read_file path st)"

definition passphrase_warning :: string where
  "passphrase_warning =
     ''warning: reading the passphrase from a file '' @ em_dash @ '' test convenience only; prefer the interactive prompt''"

definition read_passphrase :: "console \<Rightarrow> string option \<Rightarrow> bool \<Rightarrow> cli_state \<Rightarrow> string res \<times> cli_state" where
  "read_passphrase C passphrase_file confirm st =
     (case passphrase_file of
        Some pf \<Rightarrow> read_passphrase_file pf (complain passphrase_warning st)
      | None \<Rightarrow>
          if cn_terminal C then
            try_bind (prompt_tty C st) (\<lambda>first st.
              if confirm then
                try_bind (prompt_tty C st) (\<lambda>second st.
                  (if first \<noteq> second then Inl Mismatch else Inr first, st))
              else (Inr first, st))
          else (Inl HumanRequired, st))"

definition human_auth :: "console \<Rightarrow> cli \<Rightarrow> cli_state \<Rightarrow> auth res \<times> cli_state" where
  "human_auth C cli st =
     try_bind (read_passphrase C (cli_passphrase_file cli) False st) (\<lambda>pass st. (Inr (Passphrase pass), st))"

text \<open>The credentials of a command that agents and humans share.\<close>

definition dual_auth :: "console \<Rightarrow> cli \<Rightarrow> string option \<Rightarrow> cli_state \<Rightarrow> auth res \<times> cli_state" where
  "dual_auth C cli token st =
     (case token of Some t \<Rightarrow> (Inr (AgentToken t), st) | None \<Rightarrow> human_auth C cli st)"

definition read_secret_value :: "console \<Rightarrow> cli_state \<Rightarrow> string res \<times> cli_state" where
  "read_secret_value C st =
     (if cn_terminal C then
        try_bind (prompt_tty C st) (\<lambda>v st. (Inr v, complain ''value read from terminal'' st))
      else trimmed (read_stdin_line st))"

definition validate_run_token_source :: "cli \<Rightarrow> unit res" where
  "validate_run_token_source cli =
     (if (case cli_token_fd cli of None \<Rightarrow> False | Some fd \<Rightarrow> fd \<le> 2) \<or> cli_token_file cli = Some ''-''
      then Inl (InvalidInput ''run token source cannot alias child stdio'')
      else Inr ())"

text \<open>Enrollment tokens: the file must not exist, and is written before the command succeeds.\<close>

definition write_token_file :: "string \<Rightarrow> string \<Rightarrow> world \<Rightarrow> unit res \<times> world" where
  "write_token_file path token w =
     try_bind (if dir_part path = [] then (Inr (), w) else ensure_private_dir (dir_part path) w) (\<lambda>_ w1.
       if w_dir w1 path \<noteq> None then (Inl Exists, tick w1)
       else if fault_now w1 \<noteq> None then (Inl io_failed, tick w1)
       else (let w2 = tick (set_file path (Some []) w1) in
         case fault_now w2 of
           Some k \<Rightarrow> (Inl io_failed, tick (set_file path (Some (take k (token @ [NL]))) w2))
         | None \<Rightarrow>
             (let w3 = tick (set_file path (Some (token @ [NL])) w2) in
              if fault_now w3 \<noteq> None then (Inl io_failed, tick w3) else (Inr (), tick w3))))"

section \<open>The parameters of a run\<close>

definition build_argv :: "string list \<Rightarrow> (string \<times> string list) res" where
  "build_argv command =
     (case command of
        [] \<Rightarrow> Inl (InvalidInput ''missing command'')
      | executable # _ \<Rightarrow>
          if executable = [] \<or> has_nul executable then Inl (InvalidInput ''invalid executable'')
          else if list_ex has_nul command then Inl (InvalidInput ''invalid argv value'')
          else Inr (executable, command))"

definition env_override :: "string \<Rightarrow> (string \<times> string) res" where
  "env_override item =
     (case dropWhile (\<lambda>c. c \<noteq> CHR ''='') item of
        [] \<Rightarrow> Inl (InvalidInput ''invalid env entry'')
      | _ # value \<Rightarrow>
          (let name = takeWhile (\<lambda>c. c \<noteq> CHR ''='') item in
           if name = [] \<or> has_nul name \<or> has_nul value \<or> is_forbidden_env_name name \<or> name \<notin> set ALLOWED_ENV
           then Inl (InvalidInput ''invalid env entry'')
           else Inr (name, value)))"

text \<open>A later override of the same name replaces the earlier one.\<close>

fun env_overrides :: "string list \<Rightarrow> (string \<rightharpoonup> string) \<Rightarrow> (string \<rightharpoonup> string) res" where
  "env_overrides [] m = Inr m"
| "env_overrides (item # items) m =
     res_bind (env_override item) (\<lambda>(name, value). env_overrides items (m(name \<mapsto> value)))"

definition run_env_value :: "process \<Rightarrow> (string \<rightharpoonup> string) \<Rightarrow> string \<Rightarrow> string option" where
  "run_env_value pr m name =
     (case m name of
        Some v \<Rightarrow> Some v
      | None \<Rightarrow> if is_forbidden_env_name name then None else env_var pr name)"

definition collect_env :: "process \<Rightarrow> (string \<rightharpoonup> string) \<Rightarrow> string list \<Rightarrow> (string \<times> json) list" where
  "collect_env pr m names =
     List.map_filter (\<lambda>name. map_option (\<lambda>v. (name, JStr v)) (run_env_value pr m name)) names"

definition build_run_params :: "process \<Rightarrow> run_cmd \<Rightarrow> string \<Rightarrow> string list \<Rightarrow> json res" where
  "build_run_params pr rc executable argv =
     res_bind (env_overrides (rc_env rc) Map.empty) (\<lambda>m.
       let env = collect_env pr m ALLOWED_ENV in
       Inr (jobj
         ([(''project'', JStr (rc_project rc)), (''executable'', JStr executable), (''argv'', jstrs argv)]
          @ (case rc_cwd rc of None \<Rightarrow> [] | Some dir \<Rightarrow> [(''cwd'', JStr (to_string_lossy dir))])
          @ (if rc_keys rc \<noteq> [] then [(''keys'', jstrs (rc_keys rc))] else [])
          @ (if env \<noteq> [] then [(''env'', jobj env)] else [])
          @ (case rc_timeout_secs rc of None \<Rightarrow> [] | Some t \<Rightarrow> [(''timeout_secs'', jnat t)]))))"

end
