(* ===== verification/Cli.thy ===== *)
theory Cli
  imports CliInput
begin

text \<open>
  \<open>src/cli.rs\<close>, the commands: one definition per arm of \<open>execute\<close>, each with its requests to the
  broker and the lines it prints. The human commands use the connection that \<open>connect_client\<close> made
  trusted; leases, reveals and approvals open a second one through the strict transport of the MCP
  adapter. Writing to the standard streams does not fail.
\<close>

type_synonym 'a cli_step = "cli_state \<Rightarrow> 'a res \<times> cli_state"

section \<open>Requests\<close>

definition next_link :: "console \<Rightarrow> cli_state \<Rightarrow> link" where
  "next_link C st = cn_net C (cs_conns st)"

definition expected_fingerprint :: "cli \<Rightarrow> string option res" where
  "expected_fingerprint cli =
     (case cli_trust_fingerprint cli of
        None \<Rightarrow> Inr None | Some s \<Rightarrow> res_bind (parse_fingerprint s) (\<lambda>k. Inr (Some k)))"

definition connect_client ::
  "('z) crypto_lib_scheme \<Rightarrow> ('y) identity_lib_scheme \<Rightarrow> console \<Rightarrow> cli \<Rightarrow> client cli_step" where
  "connect_client L E C cli st =
     try_bind (cli_socket_path C cli, st) (\<lambda>socket st.
       try_bind (expected_fingerprint cli, st) (\<lambda>fp st.
           case connect_with L E (cn_process C) (next_link C st) socket
                  \<lparr>co_trust = if cn_terminal C then Interactive else NonInteractive, co_trust_fingerprint = fp\<rparr>
                  (cs_world st) of
             (r, _, w) \<Rightarrow> (r, st\<lparr>cs_world := w, cs_conns := Suc (cs_conns st)\<rparr>)))"

definition cli_call ::
  "('y) identity_lib_scheme \<Rightarrow> client \<Rightarrow> string \<Rightarrow> auth \<Rightarrow> json \<Rightarrow> json cli_step" where
  "cli_call E c op auth params st =
     (case client_call E op auth params c (cs_world st) of (r, _, w) \<Rightarrow> (r, st\<lparr>cs_world := w\<rparr>))"

definition cli_broker_call ::
  "('z) crypto_lib_scheme \<Rightarrow> ('y) identity_lib_scheme \<Rightarrow> console \<Rightarrow> string \<Rightarrow> string \<Rightarrow> auth \<Rightarrow> json \<Rightarrow>
     cli_state \<Rightarrow> (broker_error + json) \<times> cli_state" where
  "cli_broker_call L E C socket op auth params st =
     (case broker_call L E (cn_process C) (next_link C st) socket op auth params (cs_world st) of
        (r, _, w) \<Rightarrow> (r, st\<lparr>cs_world := w, cs_conns := Suc (cs_conns st)\<rparr>))"

definition cli_strict_call ::
  "('z) crypto_lib_scheme \<Rightarrow> ('y) identity_lib_scheme \<Rightarrow> console \<Rightarrow> string \<Rightarrow> string \<Rightarrow> auth \<Rightarrow> json \<Rightarrow> json cli_step" where
  "cli_strict_call L E C socket op auth params st =
     (case cli_broker_call L E C socket op auth params st of (r, st) \<Rightarrow> (map_err (into_protocol E) r, st))"

text \<open>A command of the human: the passphrase is read and the request made.\<close>

definition human_call ::
  "('y) identity_lib_scheme \<Rightarrow> console \<Rightarrow> cli \<Rightarrow> client \<Rightarrow> string \<Rightarrow> json \<Rightarrow> json cli_step" where
  "human_call E C cli c op params st =
     try_bind (human_auth C cli st) (\<lambda>auth st. cli_call E c op auth params st)"

section \<open>Rendering\<close>

definition text_member :: "json \<Rightarrow> string \<Rightarrow> string" where
  "text_member v k = (case as_str (index_member v k) of None \<Rightarrow> [] | Some s \<Rightarrow> s)"

definition shown_member :: "('y) identity_lib_scheme \<Rightarrow> json \<Rightarrow> string \<Rightarrow> string" where
  "shown_member E v k = value_ser E (index_member v k)"

definition rows :: "json \<Rightarrow> string \<Rightarrow> json list" where
  "rows v k = (case as_array (index_member v k) of None \<Rightarrow> [] | Some xs \<Rightarrow> xs)"

fun as_bool :: "json \<Rightarrow> bool option" where
  "as_bool (JBool b) = Some b"
| "as_bool _ = None"

definition say_all :: "string list \<Rightarrow> cli_state \<Rightarrow> cli_state" where
  "say_all lines st = fold say lines st"

definition MIDDLE_DOT :: string where
  "MIDDLE_DOT = [CHR 0xC2, CHR 0xB7]"

text \<open>\<open>{names:?}\<close>: quoted texts; which characters beyond ASCII print as themselves is a table of the
  standard library, an argument.\<close>

fun hex_text :: "nat \<Rightarrow> string" where
  "hex_text n = (if n < 16 then [hex_digit n] else hex_text (n div 16) @ [hex_digit (n mod 16)])"

declare hex_text.simps [simp del]

definition debug_char :: "(nat \<Rightarrow> bool) \<Rightarrow> nat \<Rightarrow> nat list" where
  "debug_char printable c =
     (if c = 0 then [92, 48] else if c = 9 then [92, 116] else if c = 10 then [92, 110]
      else if c = 13 then [92, 114] else if c = 34 then [92, 34] else if c = 92 then [92, 92]
      else if 32 \<le> c \<and> c < 127 \<or> 127 < c \<and> printable c then [c]
      else [92, 117, 123] @ map of_char (hex_text c) @ [125])"

definition debug_text :: "(nat \<Rightarrow> bool) \<Rightarrow> string \<Rightarrow> string" where
  "debug_text printable s = utf8_encode ([34] @ concat (map (debug_char printable) (chars s)) @ [34])"

fun join_with :: "string \<Rightarrow> string list \<Rightarrow> string" where
  "join_with sep [] = []"
| "join_with sep [s] = s"
| "join_with sep (s # ss) = s @ sep @ join_with sep ss"

definition debug_texts :: "(nat \<Rightarrow> bool) \<Rightarrow> string list \<Rightarrow> string" where
  "debug_texts printable ss = ''['' @ join_with '', '' (map (debug_text printable) ss) @ '']''"

definition optional_text :: "json \<Rightarrow> string \<Rightarrow> string \<Rightarrow> string" where
  "optional_text entry k label =
     (case as_str (index_member entry k) of None \<Rightarrow> [] | Some s \<Rightarrow> label @ s)"

definition render_audit_line :: "('y) identity_lib_scheme \<Rightarrow> (nat \<Rightarrow> bool) \<Rightarrow> json \<Rightarrow> string" where
  "render_audit_line E printable entry =
     ''#'' @ shown_member E entry ''seq'' @ '' '' @ shown_member E entry ''ts'' @ '' ''
     @ shown_member E entry ''actor'' @ '' '' @ shown_member E entry ''op'' @ '' ''
     @ shown_member E entry ''decision''
     @ optional_text entry ''reason'' '' reason='' @ optional_text entry ''project'' '' project=''
     @ (case as_array (index_member entry ''keys'') of
          None \<Rightarrow> []
        | Some ks \<Rightarrow>
            (let names = List.map_filter as_str ks in
             if names \<noteq> [] then '' keys='' @ debug_texts printable names else []))
     @ optional_text entry ''target'' '' target=''
     @ (if is_null (index_member entry ''mac'') then '' [unauthenticated]'' else [])"

section \<open>Vault\<close>

definition cmd_init :: "('y) identity_lib_scheme \<Rightarrow> console \<Rightarrow> cli \<Rightarrow> client \<Rightarrow> unit cli_step" where
  "cmd_init E C cli c st =
     try_bind (read_passphrase C (cli_passphrase_file cli) True st) (\<lambda>pass st.
       try_bind (cli_call E c ''vault.create'' NoAuth (jobj [(''passphrase'', JStr pass)]) st) (\<lambda>_ st.
         (Inr (), say ''vault created'' st)))"

definition cmd_status :: "('y) identity_lib_scheme \<Rightarrow> client \<Rightarrow> unit cli_step" where
  "cmd_status E c st =
     try_bind (cli_call E c ''vault.status'' NoAuth (JObj []) st) (\<lambda>r st.
       (Inr (), say_all
         [''version: '' @ shown_member E r ''version'', ''created: '' @ text_member r ''created'',
          ''state: '' @ (if as_bool (index_member r ''locked'') = Some False then ''unlocked'' else ''locked'')] st))"

definition cmd_unlock :: "('y) identity_lib_scheme \<Rightarrow> console \<Rightarrow> cli \<Rightarrow> client \<Rightarrow> unit cli_step" where
  "cmd_unlock E C cli c st =
     try_bind (read_passphrase C (cli_passphrase_file cli) False st) (\<lambda>pass st.
       try_bind (cli_call E c ''vault.unlock'' (Passphrase pass) (JObj []) st) (\<lambda>_ st.
         (Inr (), say ''unlocked (the daemon session holds the key material)'' st)))"

definition cmd_lock :: "('y) identity_lib_scheme \<Rightarrow> console \<Rightarrow> cli \<Rightarrow> client \<Rightarrow> string option \<Rightarrow> unit cli_step" where
  "cmd_lock E C cli c token st =
     try_bind (dual_auth C cli token st) (\<lambda>auth st.
       try_bind (cli_call E c ''vault.lock'' auth (JObj []) st) (\<lambda>_ st. (Inr (), say ''locked'' st)))"

section \<open>Projects and secrets\<close>

definition project_lines :: "json \<Rightarrow> string list" where
  "project_lines p =
     (text_member p ''name'' @ '' ('' @ show_nat (length (rows p ''paths'')) @ '' authorized folders)'')
     # map (\<lambda>path. ''  '' @ (case as_str path of None \<Rightarrow> [] | Some s \<Rightarrow> s)) (rows p ''paths'')"

definition path_params :: "string \<Rightarrow> string \<Rightarrow> json" where
  "path_params name path = jobj [(''name'', JStr name), (''path'', JStr (to_string_lossy path))]"

fun cmd_project :: "('y) identity_lib_scheme \<Rightarrow> console \<Rightarrow> cli \<Rightarrow> client \<Rightarrow> project_cmd \<Rightarrow> unit cli_step" where
  "cmd_project E C cli c (Project_Add name paths) st =
     try_bind (human_call E C cli c ''project.add''
         (jobj [(''name'', JStr name), (''paths'', jstrs (map to_string_lossy paths))]) st) (\<lambda>_ st.
       (Inr (), say (''project added: '' @ name) st))"
| "cmd_project E C cli c Project_List st =
     try_bind (human_call E C cli c ''project.list'' (JObj []) st) (\<lambda>r st.
       (Inr (), say_all (concat (map project_lines (rows r ''projects''))) st))"
| "cmd_project E C cli c (Project_Path_Add name path) st =
     try_bind (human_call E C cli c ''project.path.add'' (path_params name path) st) (\<lambda>_ st.
       (Inr (), say (''authorized folder added to '' @ name) st))"
| "cmd_project E C cli c (Project_Path_Remove name path) st =
     try_bind (human_call E C cli c ''project.path.remove'' (path_params name path) st) (\<lambda>_ st.
       (Inr (), say (''authorized folder removed from '' @ name) st))"
| "cmd_project E C cli c (Project_Remove name) st =
     try_bind (human_call E C cli c ''project.remove'' (jobj [(''name'', JStr name)]) st) (\<lambda>_ st.
       (Inr (), say (''project removed: '' @ name) st))"

fun cmd_secret ::
  "('y) identity_lib_scheme \<Rightarrow> console \<Rightarrow> cli \<Rightarrow> client \<Rightarrow> string option \<Rightarrow> secret_cmd \<Rightarrow> unit cli_step" where
  "cmd_secret E C cli c token (Secret_Set project key) st =
     try_bind (read_secret_value C st) (\<lambda>v st.
       try_bind (human_call E C cli c ''secret.set''
           (jobj [(''project'', JStr project), (''key'', JStr key), (''value'', JStr v)]) st) (\<lambda>_ st.
         (Inr (), say (''secret set: '' @ project @ ''/'' @ key) st)))"
| "cmd_secret E C cli c token (Secret_List project) st =
     try_bind (dual_auth C cli token st) (\<lambda>auth st.
       try_bind (lease_scoped C cli (jobj [(''project'', JStr project)]) st) (\<lambda>params st.
         try_bind (cli_call E c ''secrets.list'' auth params st) (\<lambda>r st.
           (Inr (), say_all
             (map (\<lambda>s. text_member s ''key'' @ '' (updated '' @ text_member s ''updated'' @ '')'') (rows r ''secrets''))
             st))))"
| "cmd_secret E C cli c token (Secret_Delete project key) st =
     try_bind (human_call E C cli c ''secret.delete''
         (jobj [(''project'', JStr project), (''key'', JStr key)]) st) (\<lambda>_ st.
       (Inr (), say (''secret deleted: '' @ project @ ''/'' @ key) st))"

section \<open>Agents and grants\<close>

text \<open>The token is printed before it is written to the file.\<close>

fun cmd_agent :: "('y) identity_lib_scheme \<Rightarrow> console \<Rightarrow> cli \<Rightarrow> client \<Rightarrow> agent_cmd \<Rightarrow> unit cli_step" where
  "cmd_agent E C cli c (Agent_Add name token_path) st =
     try_bind (human_call E C cli c ''agents.add'' (jobj [(''name'', JStr name)]) st) (\<lambda>r st.
       let token = text_member r ''token'';
           st1 = say_all [''agent enrolled: '' @ name @ '' ('' @ text_member r ''agent_id'' @ '')'',
                          ''token (shown once, store it now): '' @ token] st
       in case token_path of
            None \<Rightarrow> (Inr (), st1)
          | Some p \<Rightarrow>
              (case write_token_file p token (cs_world st1) of
                 (Inl e, w) \<Rightarrow> (Inl e, st1\<lparr>cs_world := w\<rparr>)
               | (Inr _, w) \<Rightarrow>
                   (Inr (), say (''token written to '' @ to_string_lossy p @ '' (0600)'') (st1\<lparr>cs_world := w\<rparr>))))"
| "cmd_agent E C cli c (Agent_Revoke name) st =
     try_bind (human_call E C cli c ''agents.revoke'' (jobj [(''name'', JStr name)]) st) (\<lambda>_ st.
       (Inr (), say (''agent revoked: '' @ name) st))"
| "cmd_agent E C cli c Agent_List st =
     try_bind (human_call E C cli c ''agents.list'' (JObj []) st) (\<lambda>r st.
       (Inr (), say_all
         (map (\<lambda>a. text_member a ''name'' @ '' ('' @ text_member a ''status'' @ '', token prefix ''
                    @ text_member a ''token_prefix'' @ '')'') (rows r ''agents'')) st))"

fun cmd_grant :: "('y) identity_lib_scheme \<Rightarrow> console \<Rightarrow> cli \<Rightarrow> client \<Rightarrow> grant_cmd \<Rightarrow> unit cli_step" where
  "cmd_grant E C cli c (Grant_Add agent project ops) st =
     try_bind (human_call E C cli c ''grants.grant''
         (jobj [(''agent'', JStr agent), (''project'', JStr project), (''ops'', JStr ops)]) st) (\<lambda>_ st.
       (Inr (), say (''grant added: '' @ agent @ '' on '' @ project @ '' ('' @ ops @ '')'') st))"
| "cmd_grant E C cli c (Grant_Revoke agent project) st =
     try_bind (human_call E C cli c ''grants.revoke''
         (jobj [(''agent'', JStr agent), (''project'', JStr project)]) st) (\<lambda>_ st.
       (Inr (), say (''grant revoked: '' @ agent @ '' on '' @ project) st))"
| "cmd_grant E C cli c Grant_List st =
     try_bind (human_call E C cli c ''grants.list'' (JObj []) st) (\<lambda>r st.
       (Inr (), say_all
         (map (\<lambda>g. text_member g ''agent'' @ '' on '' @ text_member g ''project'' @ '' ops=''
                    @ shown_member E g ''ops'' @ '' revoked='' @ shown_member E g ''revoked'') (rows r ''grants'')) st))"

section \<open>Audit\<close>

fun cmd_audit ::
  "('y) identity_lib_scheme \<Rightarrow> (nat \<Rightarrow> bool) \<Rightarrow> console \<Rightarrow> cli \<Rightarrow> client \<Rightarrow> audit_cmd \<Rightarrow> unit cli_step" where
  "cmd_audit E printable C cli c (Audit_Show n) st =
     try_bind (human_call E C cli c ''audit.show'' (jobj [(''tail'', jnat n)]) st) (\<lambda>r st.
       (Inr (), say_all (map (render_audit_line E printable) (rows r ''entries'')) st))"
| "cmd_audit E printable C cli c Audit_Verify st =
     try_bind (human_call E C cli c ''audit.verify'' (JObj []) st) (\<lambda>r st.
       (Inr (), say
         (''entries: '' @ shown_member E r ''entries'' @ '' '' @ MIDDLE_DOT @ '' macs verified: ''
          @ shown_member E r ''macs_verified'' @ '' '' @ MIDDLE_DOT @ '' macs null: ''
          @ shown_member E r ''macs_null'') st))"

definition cmd_run_signal ::
  "('y) identity_lib_scheme \<Rightarrow> client \<Rightarrow> string option \<Rightarrow> string \<Rightarrow> string \<Rightarrow> unit cli_step" where
  "cmd_run_signal E c token run_id sig st =
     try_bind (agent_auth token, st) (\<lambda>auth st.
       case client_run_signal E auth run_id sig c (cs_world st) of
         (Inl e, _, w) \<Rightarrow> (Inl e, st\<lparr>cs_world := w\<rparr>)
       | (Inr acked, _, w) \<Rightarrow> (Inr (), say (''run '' @ acked @ '' signaled'') (st\<lparr>cs_world := w\<rparr>)))"

section \<open>Leases, reveals, approvals\<close>

definition lease_line :: "('y) identity_lib_scheme \<Rightarrow> json \<Rightarrow> string" where
  "lease_line E l =
     text_member l ''lease_id'' @ '' ['' @ text_member l ''lease_prefix'' @ ''] '' @ text_member l ''project'' @ '' ''
     @ (case get_member l ''ops'' of
          None \<Rightarrow> [] | Some v \<Rightarrow> (case as_str v of Some s \<Rightarrow> s | None \<Rightarrow> value_ser E v))
     @ '' (expires in '' @ shown_member E l ''expires_in'' @ ''s)''"

fun cmd_lease ::
  "('z) crypto_lib_scheme \<Rightarrow> ('y) identity_lib_scheme \<Rightarrow> console \<Rightarrow> cli \<Rightarrow> string option \<Rightarrow> lease_cmd \<Rightarrow> unit cli_step" where
  "cmd_lease L E C cli token (Lease_Create project ops ttl) st =
     try_bind (agent_auth token, st) (\<lambda>auth st.
       try_bind (cli_socket_path C cli, st) (\<lambda>socket st.
         try_bind (cli_strict_call L E C socket ''lease.create'' auth
             (jobj [(''project'', JStr project), (''ops'', JStr ops), (''ttl_secs'', jnat ttl)]) st) (\<lambda>r st.
           (Inr (), say_all
             ((''lease created: '' @ text_member r ''lease_id'' @ '' (expires in '' @ shown_member E r ''expires_in'' @ ''s)'')
              # (case as_str (index_member r ''lease_credential'') of
                   None \<Rightarrow> []
                 | Some credential \<Rightarrow> [''lease credential (shown once, store it now): '' @ credential])) st))))"
| "cmd_lease L E C cli token Lease_List st =
     try_bind (dual_auth C cli token st) (\<lambda>auth st.
       try_bind (cli_socket_path C cli, st) (\<lambda>socket st.
         try_bind (cli_strict_call L E C socket ''lease.list'' auth (JObj []) st) (\<lambda>r st.
           (Inr (), say_all (map (lease_line E) (rows r ''leases'')) st))))"
| "cmd_lease L E C cli token (Lease_Revoke lease_id) st =
     try_bind (dual_auth C cli token st) (\<lambda>auth st.
       try_bind (cli_socket_path C cli, st) (\<lambda>socket st.
         try_bind (cli_strict_call L E C socket ''lease.revoke'' auth (jobj [(''lease_id'', JStr lease_id)]) st) (\<lambda>_ st.
           (Inr (), say (''lease revoked: '' @ lease_id) st))))"

text \<open>A pending reveal prints what identifies it and fails.\<close>

definition pending_line :: "('y) identity_lib_scheme \<Rightarrow> broker_error \<Rightarrow> string" where
  "pending_line E e =
     ''approval pending: ''
     @ (case Option.bind (Option.bind (be_data e) (\<lambda>d. get_member d ''approval_id'')) as_str of None \<Rightarrow> [] | Some i \<Rightarrow> i)
     @ '' (expires in ''
     @ (case Option.bind (be_data e) (\<lambda>d. get_member d ''expires_in'') of None \<Rightarrow> [] | Some v \<Rightarrow> value_ser E v)
     @ ''s)''"

definition cmd_reveal ::
  "('z) crypto_lib_scheme \<Rightarrow> ('y) identity_lib_scheme \<Rightarrow> console \<Rightarrow> cli \<Rightarrow> string option \<Rightarrow> string \<Rightarrow> string \<Rightarrow>
     string option \<Rightarrow> unit cli_step" where
  "cmd_reveal L E C cli token project key approval_id st =
     try_bind (dual_auth C cli token st) (\<lambda>auth st.
       try_bind (lease_scoped C cli (jobj [(''project'', JStr project), (''key'', JStr key)]) st) (\<lambda>params st.
         let params' = (case approval_id of None \<Rightarrow> params | Some a \<Rightarrow> set_member params ''approval_id'' (JStr a)) in
         try_bind (cli_socket_path C cli, st) (\<lambda>socket st.
           case cli_broker_call L E C socket ''reveal'' auth params' st of
             (Inr r, st) \<Rightarrow>
               (case Option.bind (get_member r ''value'') as_str of
                  None \<Rightarrow> (Inl (Protocol ''reveal response missing value''), st)
                | Some v \<Rightarrow> (Inr (), say v st))
           | (Inl e, st) \<Rightarrow>
               (Inl (into_protocol E e),
                if be_code e = ''E_APPROVAL_PENDING'' then say (pending_line E e) st else st))))"

definition cmd_inject ::
  "('y) identity_lib_scheme \<Rightarrow> console \<Rightarrow> cli \<Rightarrow> client \<Rightarrow> string option \<Rightarrow> string \<Rightarrow> string \<Rightarrow> string list \<Rightarrow>
     unit cli_step" where
  "cmd_inject E C cli c token project path keys st =
     try_bind (agent_auth token, st) (\<lambda>auth st.
       let params = jobj ([(''project'', JStr project), (''path'', JStr path)]
                          @ (if keys \<noteq> [] then [(''keys'', jstrs keys)] else [])) in
       try_bind (lease_scoped C cli params st) (\<lambda>params st.
         try_bind (cli_call E c ''inject_file'' auth params st) (\<lambda>r st.
           (Inr (), say_all
             ((''injected '' @ shown_member E r ''count'' @ '' keys to ''
               @ (case as_str (index_member r ''path'') of None \<Rightarrow> path | Some p \<Rightarrow> p))
              # map (\<lambda>k. case as_str k of None \<Rightarrow> [] | Some s \<Rightarrow> s) (rows r ''keys'')) st))))"

definition approval_params :: "string \<Rightarrow> json" where
  "approval_params approval_id = jobj [(''approval_id'', JStr approval_id)]"

text \<open>A decision of the human over the strict transport.\<close>

definition human_strict_call ::
  "('z) crypto_lib_scheme \<Rightarrow> ('y) identity_lib_scheme \<Rightarrow> console \<Rightarrow> cli \<Rightarrow> string \<Rightarrow> json \<Rightarrow> json cli_step" where
  "human_strict_call L E C cli op params st =
     try_bind (cli_socket_path C cli, st) (\<lambda>socket st.
       try_bind (human_auth C cli st) (\<lambda>auth st. cli_strict_call L E C socket op auth params st))"

fun cmd_approval ::
  "('z) crypto_lib_scheme \<Rightarrow> ('y) identity_lib_scheme \<Rightarrow> console \<Rightarrow> cli \<Rightarrow> string option \<Rightarrow> approval_cmd \<Rightarrow> unit cli_step" where
  "cmd_approval L E C cli token (Approval_Status approval_id) st =
     try_bind (agent_auth token, st) (\<lambda>auth st.
       try_bind (cli_socket_path C cli, st) (\<lambda>socket st.
         try_bind (cli_strict_call L E C socket ''approvals.status'' auth (approval_params approval_id) st) (\<lambda>r st.
           (Inr (), say (text_member r ''status'' @ '' '' @ approval_id @ '' (expires in ''
                         @ shown_member E r ''expires_in'' @ ''s)'') st))))"
| "cmd_approval L E C cli token Approval_Pending st =
     try_bind (human_strict_call L E C cli ''approvals.pending'' (JObj []) st) (\<lambda>r st.
       (Inr (), say_all
         (map (\<lambda>a. text_member a ''approval_id'' @ '' '' @ text_member a ''agent'' @ '' '' @ text_member a ''project''
                    @ ''/'' @ text_member a ''key'' @ '' '' @ text_member a ''status'') (rows r ''approvals'')) st))"
| "cmd_approval L E C cli token (Approval_Approve approval_id) st =
     try_bind (human_strict_call L E C cli ''approvals.approve'' (approval_params approval_id) st) (\<lambda>_ st.
       (Inr (), say (''approved: '' @ approval_id) st))"
| "cmd_approval L E C cli token (Approval_Deny approval_id) st =
     try_bind (human_strict_call L E C cli ''approvals.deny'' (approval_params approval_id) st) (\<lambda>_ st.
       (Inr (), say (''denied: '' @ approval_id) st))"

section \<open>Trust\<close>

definition trust_show_live :: "('y) identity_lib_scheme \<Rightarrow> console \<Rightarrow> string cli_step" where
  "trust_show_live E C st =
     (case broker_fingerprint_live E (lk_connect (next_link C st)) (cs_world st) of
        (r, w) \<Rightarrow> (r, st\<lparr>cs_world := w, cs_conns := Suc (cs_conns st)\<rparr>))"

definition disagree_warning :: string where
  "disagree_warning =
     ''svault: WARNING: live daemon and identity file disagree '' @ em_dash
     @ '' restart the daemon after `trust reset` before re-pinning''"

definition show_fingerprints :: "string option \<Rightarrow> string option \<Rightarrow> unit cli_step" where
  "show_fingerprints live from_file st =
     (case (live, from_file) of
        (Some l, Some f) \<Rightarrow>
          (Inr (),
           if l = f then say (''broker fingerprint: '' @ l) st
           else complain disagree_warning
             (say_all [''broker fingerprint (live daemon): '' @ l, ''broker fingerprint (identity file): '' @ f] st))
      | (Some l, None) \<Rightarrow> (Inr (), say (''broker fingerprint: '' @ l) st)
      | (None, Some f) \<Rightarrow> (Inr (), say (''broker fingerprint (identity file, daemon not reachable): '' @ f) st)
      | (None, None) \<Rightarrow> (Inl (BrokerUntrusted ''no live daemon and no identity file; nothing to show''), st))"

definition ok_part :: "'a res \<Rightarrow> 'a option" where
  "ok_part r = (case r of Inl _ \<Rightarrow> None | Inr x \<Rightarrow> Some x)"

definition reset_prompt :: "string list" where
  "reset_prompt =
     [''svault: ROTATING the broker identity will break every existing client pin until re-pinned.'',
      ''svault: type `ROTATE` to proceed, anything else aborts.'']"

definition confirm_reset_tty :: "unit cli_step" where
  "confirm_reset_tty st =
     try_bind (read_stdin_line (fold complain reset_prompt st)) (\<lambda>line st.
       (if trim (chars line) \<noteq> chars ''ROTATE'' then Inl (BrokerUntrusted ''rotation aborted'') else Inr (), st))"

definition rotated_notice :: string where
  "rotated_notice =
     ''svault: broker identity ROTATED '' @ em_dash
     @ '' restart the daemon, then re-pin every client at a TTY (all existing pins now fail closed by design)''"

definition daemon_serving :: vault_error where
  "daemon_serving = InvalidInput
     ''a daemon is still serving this socket: stop it before `trust reset`, then start it again afterwards so it loads the new identity''"

fun execute_trust :: "('y) identity_lib_scheme \<Rightarrow> console \<Rightarrow> cli \<Rightarrow> trust_cmd \<Rightarrow> unit cli_step" where
  "execute_trust E C cli Trust_Show st =
     try_bind (cli_socket_path C cli, st) (\<lambda>socket st.
       case trust_show_live E C st of (live, st) \<Rightarrow>
         try_bind (cli_vault_path C cli, st) (\<lambda>vault st.
           case load_or_generate vault (cs_world st) of (secret, w) \<Rightarrow>
             show_fingerprints (ok_part live)
               (map_option (\<lambda>key. fingerprint (ed_public E key)) (ok_part secret)) (st\<lparr>cs_world := w\<rparr>)))"
| "execute_trust E C cli Trust_Reset st =
     (if \<not> cn_terminal C \<and> cli_passphrase_file cli = None then (Inl HumanRequired, st)
      else try_bind (cli_socket_path C cli, st) (\<lambda>socket st.
        case trust_show_live E C st of
          (Inr _, st) \<Rightarrow> (Inl daemon_serving, st)
        | (Inl _, st) \<Rightarrow>
            try_bind (confirm_reset_tty st) (\<lambda>_ st.
              try_bind (cli_vault_path C cli, st) (\<lambda>vault st.
                case regenerate E vault (cs_world st) of
                  (Inl e, w) \<Rightarrow> (Inl e, st\<lparr>cs_world := w\<rparr>)
                | (Inr key, w) \<Rightarrow>
                    (Inr (), say (''new broker fingerprint: '' @ fingerprint key)
                               (complain rotated_notice (st\<lparr>cs_world := w\<rparr>)))))))"

section \<open>Runs\<close>

text \<open>The exit code of a managed run; \<open>sends\<close> are the results of passing the descriptors, and without
  enough of them the command is still waiting.\<close>

definition execute_run ::
  "('z) crypto_lib_scheme \<Rightarrow> ('y) identity_lib_scheme \<Rightarrow> console \<Rightarrow> (io_error + nat) list \<Rightarrow> cli \<Rightarrow> run_cmd \<Rightarrow>
     cli_state \<Rightarrow> (int res \<times> cli_state) option" where
  "execute_run L E C sends cli rc st =
     (case res_bind (build_argv (rc_command rc)) (\<lambda>(executable, argv).
             res_bind (build_run_params (cn_process C) rc executable argv) (\<lambda>params.
               res_bind (validate_run_token_source cli) (\<lambda>_. Inr params))) of
        Inl e \<Rightarrow> Some (Inl e, st)
      | Inr params \<Rightarrow>
          (case try_bind (agent_token C cli st) (\<lambda>token st.
                  try_bind (agent_auth token, st) (\<lambda>auth st.
                    try_bind (cli_socket_path C cli, st) (\<lambda>socket st.
                      case client_connect L E (cn_process C) (next_link C st) socket (cs_world st) of
                        (r, _, w) \<Rightarrow>
                          (res_bind r (\<lambda>c. Inr (auth, c)), st\<lparr>cs_world := w, cs_conns := Suc (cs_conns st)\<rparr>)))) of
             (Inl e, st) \<Rightarrow> Some (Inl e, st)
           | (Inr (auth, c), st) \<Rightarrow>
               map_option
                 (\<lambda>(r, started, _, w).
                   let st1 = st\<lparr>cs_world := w\<rparr>;
                       st2 = (case started of
                                None \<Rightarrow> st1
                              | Some s \<Rightarrow> complain (''run '' @ rn_run_id s @ '' pid '' @ show_int (rn_pid s)) st1)
                   in case r of
                        Inl e \<Rightarrow> (Inl e, st2)
                      | Inr (_, ex) \<Rightarrow>
                          (case (rx_code ex, rx_signal ex) of
                             (Some n, _) \<Rightarrow> (Inr n, complain (''run '' @ rx_run_id ex @ '' exited '' @ show_int n) st2)
                           | (None, Some s) \<Rightarrow> (Inr 1, complain (''run '' @ rx_run_id ex @ '' signaled '' @ s) st2)
                           | (None, None) \<Rightarrow> (Inl (Protocol ''run: exited response lacks status''), st2)))
                 (run_with_secrets E auth params [0, 1, 2] sends c (cs_world st))))"

section \<open>The command\<close>

text \<open>The commands over the trusted connection.\<close>

fun execute_connected ::
  "('z) crypto_lib_scheme \<Rightarrow> ('y) identity_lib_scheme \<Rightarrow> (nat \<Rightarrow> bool) \<Rightarrow> console \<Rightarrow> cli \<Rightarrow> client \<Rightarrow>
     string option \<Rightarrow> cmd \<Rightarrow> unit cli_step" where
  "execute_connected L E printable C cli c token Cmd_Init st = cmd_init E C cli c st"
| "execute_connected L E printable C cli c token Cmd_Status st = cmd_status E c st"
| "execute_connected L E printable C cli c token Cmd_Unlock st = cmd_unlock E C cli c st"
| "execute_connected L E printable C cli c token Cmd_Lock st = cmd_lock E C cli c token st"
| "execute_connected L E printable C cli c token (Cmd_Project p) st = cmd_project E C cli c p st"
| "execute_connected L E printable C cli c token (Cmd_Secret p) st = cmd_secret E C cli c token p st"
| "execute_connected L E printable C cli c token (Cmd_Agent p) st = cmd_agent E C cli c p st"
| "execute_connected L E printable C cli c token (Cmd_Grant p) st = cmd_grant E C cli c p st"
| "execute_connected L E printable C cli c token (Cmd_Audit p) st = cmd_audit E printable C cli c p st"
| "execute_connected L E printable C cli c token (Cmd_Run_Signal r s) st = cmd_run_signal E c token r s st"
| "execute_connected L E printable C cli c token (Cmd_Lease p) st = cmd_lease L E C cli token p st"
| "execute_connected L E printable C cli c token (Cmd_Reveal p k a) st = cmd_reveal L E C cli token p k a st"
| "execute_connected L E printable C cli c token (Cmd_Inject p d ks) st = cmd_inject E C cli c token p d ks st"
| "execute_connected L E printable C cli c token (Cmd_Approval p) st = cmd_approval L E C cli token p st"
| "execute_connected L E printable C cli c token _ st = (Inr (), st)"

text \<open>What a command ends in: its result, or a daemon that serves on. \<open>bind_error\<close> tells whether the
  daemon's socket could be bound.\<close>

datatype ending = Returns "unit res" | Serves server

text \<open>A daemon that is dropped gives back its locks.\<close>

definition drop_server :: "server \<Rightarrow> world \<Rightarrow> world" where
  "drop_server sv w =
     release_lock (sv_lock sv)
       (case dm_session (sv_daemon sv) of None \<Rightarrow> w | Some s \<Rightarrow> release_lock (s_lock s) w)"

definition start_daemon ::
  "('z) vault_lib_scheme \<Rightarrow> console \<Rightarrow> io_error option \<Rightarrow> cli \<Rightarrow> cli_state \<Rightarrow> ending \<times> cli_state" where
  "start_daemon L C bind_error cli st =
     (case res_bind (cli_socket_path C cli) (\<lambda>socket. res_bind (cli_vault_path C cli) (\<lambda>vault. Inr (socket, vault))) of
        Inl e \<Rightarrow> (Returns (Inl e), st)
      | Inr (socket, vault) \<Rightarrow>
          (case daemon_new L socket vault (cli_idle_lock cli) (cs_world st) of
             (Inl e, w) \<Rightarrow> (Returns (Inl e), st\<lparr>cs_world := w\<rparr>)
           | (Inr sv, w) \<Rightarrow>
               (case bind_error of
                  Some e \<Rightarrow> (Returns (Inl (Io e)), st\<lparr>cs_world := drop_server sv w\<rparr>)
                | None \<Rightarrow> (Serves sv, st\<lparr>cs_world := w\<rparr>))))"

definition execute_mcp ::
  "('z) crypto_lib_scheme \<Rightarrow> ('y) identity_lib_scheme \<Rightarrow> console \<Rightarrow> cli \<Rightarrow> unit cli_step" where
  "execute_mcp L E C cli st =
     try_bind (agent_token C cli st) (\<lambda>token st.
       try_bind (cli_socket_path C cli, st) (\<lambda>socket st.
         case serve_adapter L E (cn_process C) (\<lambda>n. cn_net C (cs_conns st + n)) socket token (cs_stdin st) (cs_world st) of
           (out, r) \<Rightarrow> (r, say_all (map (value_ser E) out) (st\<lparr>cs_stdin := []\<rparr>))))"

definition execute ::
  "('x) vault_lib_scheme \<Rightarrow> ('y) identity_lib_scheme \<Rightarrow> (nat \<Rightarrow> bool) \<Rightarrow> console \<Rightarrow> io_error option \<Rightarrow> cli \<Rightarrow>
     cli_state \<Rightarrow> ending \<times> cli_state" where
  "execute L E printable C bind_error cli st =
     (case cli_command cli of
        Cmd_Daemon \<Rightarrow> start_daemon L C bind_error cli st
      | Cmd_Mcp_Serve \<Rightarrow> map_prod Returns id (execute_mcp L E C cli st)
      | Cmd_Trust t \<Rightarrow> map_prod Returns id (execute_trust E C cli t st)
      | command \<Rightarrow>
          map_prod Returns id
            (try_bind (connect_client L E C cli st) (\<lambda>c st.
               try_bind (agent_token C cli st) (\<lambda>token st.
                 execute_connected L E printable C cli c token command st))))"

text \<open>The process: the exit code, a daemon that goes on, or a run that is waited for. \<open>parsed\<close> is what
  the parser makes of the arguments, its own exit code when it refuses them.\<close>

datatype process_end = Exit int | Daemon_Runs server

definition report :: "unit res \<Rightarrow> cli_state \<Rightarrow> process_end \<times> cli_state" where
  "report r st = (case r of Inr _ \<Rightarrow> (Exit 0, st) | Inl e \<Rightarrow> (Exit 1, complain (display_error e) st))"

definition cli_run ::
  "('x) vault_lib_scheme \<Rightarrow> ('y) identity_lib_scheme \<Rightarrow> (nat \<Rightarrow> bool) \<Rightarrow> console \<Rightarrow> (io_error + nat) list \<Rightarrow>
     io_error option \<Rightarrow> int + cli \<Rightarrow> cli_state \<Rightarrow> (process_end \<times> cli_state) option" where
  "cli_run L E printable C sends bind_error parsed st =
     (case parsed of
        Inl exit_code \<Rightarrow> Some (Exit exit_code, st)
      | Inr cli \<Rightarrow>
          (case cli_command cli of
             Cmd_Run rc \<Rightarrow>
               map_option (\<lambda>(r, st). case r of
                   Inr n \<Rightarrow> (Exit n, st)
                 | Inl e \<Rightarrow> (Exit 1, complain (display_error e) st)) (execute_run L E C sends cli rc st)
           | _ \<Rightarrow>
               (case execute L E printable C bind_error cli st of
                  (Returns r, st) \<Rightarrow> Some (report r st)
                | (Serves sv, st) \<Rightarrow> Some (Daemon_Runs sv, st))))"

end
