(* ===== verification/Handshake.thy ===== *)
theory Handshake
  imports BrokerServe Client
begin

text \<open>
  The handshake from both ends: what a client knows of the peer whose answer it accepted, and that the
  daemon's own answer is accepted.
\<close>

section \<open>Objects\<close>

lemma get_member_jobj: "distinct (map fst kvs) \<Longrightarrow> get_member (jobj kvs) k = map_of kvs k"
proof -
  assume d: "distinct (map fst kvs)"
  then have "distinct (map fst (sort_key fst kvs))" by (simp add: distinct_map)
  with d have "map_of (sort_key fst kvs) = map_of kvs" by (subst map_of_inject_set) simp_all
  then show ?thesis by (simp add: jobj_def)
qed

section \<open>What is signed\<close>

lemma signed_message_inj:
  assumes "length cn = length cn'" and "length sn = length sn'"
  shows "signed_message pr cn sn socket = signed_message pr' cn' sn' socket' \<longleftrightarrow>
    cn = cn' \<and> sn = sn' \<and> canonical_socket_path pr socket = canonical_socket_path pr' socket'"
  using assms by (simp add: signed_message_def)

text \<open>The holder of the key answered this nonce for this socket.\<close>

definition answered_by ::
  "('y) identity_lib_scheme \<Rightarrow> process \<Rightarrow> string \<Rightarrow> string \<Rightarrow> string \<Rightarrow> bool" where
  "answered_by E pr socket cn key \<longleftrightarrow>
     (\<exists>sn sig. length key = 32 \<and> length sn = 32 \<and> ed_point E key
        \<and> ed_verify E key (signed_message pr cn sn socket) sig)"

lemma hex_field_length: "hex_field n msg v field = Inr raw \<Longrightarrow> length raw = n"
  by (auto simp: hex_field_def split: option.splits if_splits)

lemma verify_hello_ok:
  "verify_hello E pr key cn sn sig socket = Inr u \<longleftrightarrow> ed_point E key \<and> ed_verify E key (signed_message pr cn sn socket) sig"
  by (simp add: verify_hello_def)

lemma proven_key_answered: "proven_key E pr socket i cn answer = Inr key \<Longrightarrow> answered_by E pr socket cn key"
  by (auto simp: proven_key_def res_bind_Inr_iff parse_key_def parse_nonce_def verify_hello_ok answered_by_def
      HELLO_NONCE_LEN_def dest!: hex_field_length)

lemma proven_key_interactive_answered:
  "proven_key_interactive E pr socket i cn answer = Inr key \<Longrightarrow> answered_by E pr socket cn key"
  by (auto simp: proven_key_interactive_def res_bind_Inr_iff parse_key_def parse_nonce_def verify_hello_ok
      answered_by_def HELLO_NONCE_LEN_def split: if_splits dest!: hex_field_length)

section \<open>Pins\<close>

text \<open>The pin file of the socket exists and names this key.\<close>

definition pinned :: "('z) crypto_lib_scheme \<Rightarrow> ('y) identity_lib_scheme \<Rightarrow> process \<Rightarrow> string \<Rightarrow> world \<Rightarrow> string \<Rightarrow> bool" where
  "pinned L E pr socket w key \<longleftrightarrow>
     (\<exists>path bytes. pin_path L pr socket = Inr path \<and> w_dir w path = Some bytes \<and> read_pin E pr socket bytes = Inr key)"

definition no_pin :: "('z) crypto_lib_scheme \<Rightarrow> process \<Rightarrow> string \<Rightarrow> world \<Rightarrow> bool" where
  "no_pin L pr socket w \<longleftrightarrow> (\<exists>path. pin_path L pr socket = Inr path \<and> w_dir w path = None)"

lemma load_pin_cases:
  "load_pin L E pr socket w = (Inr (Some key), w') \<Longrightarrow> pinned L E pr socket w key \<and> w_dir w' = w_dir w"
  "load_pin L E pr socket w = (Inr None, w') \<Longrightarrow> no_pin L pr socket w \<and> w' = w"
  by (cases "pin_path L pr socket";
      auto simp: load_pin_def pinned_def no_pin_def res_bind_Inr_iff split: option.splits if_splits)+

lemma decide_pin_cases:
  assumes "decide_pin L E pr socket presented True fp interactive w = (Inr d, w')"
  shows "(d = Proceed presented \<and> pinned L E pr socket w presented \<and> w_dir w' = w_dir w)
    \<or> (d = NeedHumanConfirm presented \<and> interactive \<and> no_pin L pr socket w \<and> (fp = None \<or> fp = Some presented) \<and> w' = w)"
proof -
  obtain r w1 where l: "load_pin L E pr socket w = (r, w1)" by force
  show ?thesis
  proof (cases r)
    case (Inl e)
    with assms l show ?thesis by (simp add: decide_pin_def)
  next
    case (Inr pin)
    show ?thesis
    proof (cases pin)
      case None
      with assms l Inr load_pin_cases(2) [of L E pr socket w w1] show ?thesis
        by (auto simp: decide_pin_def split: if_splits option.splits)
    next
      case (Some key)
      with assms l Inr load_pin_cases(1) [of L E pr socket w key w1] show ?thesis
        by (auto simp: decide_pin_def split: if_splits)
    qed
  qed
qed

lemma same_files_pinned:
  "w_dir w' = w_dir w \<Longrightarrow> pinned L E pr socket w' = pinned L E pr socket w"
  "w_dir w' = w_dir w \<Longrightarrow> no_pin L pr socket w' = no_pin L pr socket w"
  by (auto simp: pinned_def no_pin_def fun_eq_iff)

section \<open>The handshake\<close>

definition drawn_at :: "nat \<Rightarrow> nat \<Rightarrow> world \<Rightarrow> string" where
  "drawn_at k n w = map (w_rng w) [w_rng_pos w + k..<w_rng_pos w + k + n]"

lemma random_bytes_drawn:
  "random_bytes n w = (Inr bs, w') \<Longrightarrow> bs = drawn_at 0 n w \<and> w' = w\<lparr>w_rng_pos := w_rng_pos w + n\<rparr>"
  by (auto simp: random_bytes_def Let_def drawn_at_def split: if_splits)

text \<open>What the client drew for this connection: its nonce and the identifier of its hello.\<close>

definition my_nonce :: "world \<Rightarrow> string" where
  "my_nonce w = drawn_at 0 32 w"

definition hello_id :: "world \<Rightarrow> string" where
  "hello_id w = hex (drawn_at 32 8 w)"

lemma challenge_cases:
  assumes "challenge mk peer w = (r, sent, w')"
  shows "w_dir w' = w_dir w" "sent = [] \<or> sent = [mk (hello_id w) (my_nonce w)]"
    "r = Inr (i, cn, answer) \<Longrightarrow> i = hello_id w \<and> cn = my_nonce w \<and> sent = [mk i cn]
       \<and> peer sent = Inr answer \<and> w' = w\<lparr>w_rng_pos := w_rng_pos w + 40\<rparr>"
proof -
  obtain q1 w1 where a: "random_bytes HELLO_NONCE_LEN w = (q1, w1)" by force
  obtain q2 w2 where b: "random_bytes 8 w1 = (q2, w2)" by force
  have n1: "cn = my_nonce w \<and> w1 = w\<lparr>w_rng_pos := w_rng_pos w + 32\<rparr>" if "q1 = Inr cn" for cn
    using random_bytes_drawn [of HELLO_NONCE_LEN w cn w1] a that by (simp add: HELLO_NONCE_LEN_def my_nonce_def)
  have n2: "hex tag = hello_id w \<and> w2 = w\<lparr>w_rng_pos := w_rng_pos w + 40\<rparr>" if "q1 = Inr cn" "q2 = Inr tag" for cn tag
    using random_bytes_drawn [of 8 w1 tag w2] b that n1 [OF that(1)] by (simp add: hello_id_def drawn_at_def add.assoc)
  have "w_dir w' = w_dir w \<and> (sent = [] \<or> sent = [mk (hello_id w) (my_nonce w)])
    \<and> (r = Inr (i, cn, answer) \<longrightarrow> i = hello_id w \<and> cn = my_nonce w \<and> sent = [mk i cn]
       \<and> peer sent = Inr answer \<and> w' = w\<lparr>w_rng_pos := w_rng_pos w + 40\<rparr>)"
  proof (cases q1)
    case (Inl e)
    with assms a random_bytes_frame(1) [OF a] show ?thesis by (auto simp: challenge_def)
  next
    case (Inr cn')
    note c = this
    show ?thesis
    proof (cases q2)
      case (Inl e)
      with assms a b c random_bytes_frame(1) [OF b] n1 show ?thesis by (auto simp: challenge_def)
    next
      case (Inr tag)
      with n1 [OF c] n2 [OF c Inr] assms a b c show ?thesis
        by (cases "peer [mk (hex tag) cn']") (auto simp: challenge_def Let_def map_err_def)
    qed
  qed
  then show "w_dir w' = w_dir w" "sent = [] \<or> sent = [mk (hello_id w) (my_nonce w)]"
    "r = Inr (i, cn, answer) \<Longrightarrow> i = hello_id w \<and> cn = my_nonce w \<and> sent = [mk i cn]
       \<and> peer sent = Inr answer \<and> w' = w\<lparr>w_rng_pos := w_rng_pos w + 40\<rparr>" by blast+
qed

lemma load_pin_dir: "load_pin L E pr socket w = (r, w') \<Longrightarrow> w_dir w' = w_dir w"
  by (cases "pin_path L pr socket") (auto simp: load_pin_def split: option.splits if_splits)

lemma decide_pin_dir: "decide_pin L E pr socket presented ok fp interactive w = (r, w') \<Longrightarrow> w_dir w' = w_dir w"
proof -
  assume d: "decide_pin L E pr socket presented ok fp interactive w = (r, w')"
  obtain r1 w1 where l: "load_pin L E pr socket w = (r1, w1)" by force
  from d have "w' = w1" by (cases r1) (simp_all add: decide_pin_def l)
  with load_pin_dir [OF l] show ?thesis by simp
qed

lemma handshake_strict_pinned:
  assumes "handshake_strict L E pr peer socket w = (r, sent, w')"
  shows "w_dir w' = w_dir w" "sent = [] \<or> sent = [hello_line E (hello_id w) (my_nonce w)]"
    "r = Inr u \<Longrightarrow> sent = [hello_line E (hello_id w) (my_nonce w)]
       \<and> (\<exists>key. pinned L E pr socket w key \<and> answered_by E pr socket (my_nonce w) key)"
proof -
  obtain q s1 w1 where c: "challenge (hello_line E) peer w = (q, s1, w1)" by (metis prod_cases3)
  note cc = challenge_cases [OF c]
  have "w_dir w' = w_dir w \<and> (sent = [] \<or> sent = [hello_line E (hello_id w) (my_nonce w)])
    \<and> (r = Inr u \<longrightarrow> sent = [hello_line E (hello_id w) (my_nonce w)]
       \<and> (\<exists>key. pinned L E pr socket w key \<and> answered_by E pr socket (my_nonce w) key))"
  proof (cases q)
    case (Inl e)
    with assms c cc(1,2) show ?thesis by (auto simp: handshake_strict_def)
  next
    case (Inr x)
    obtain i cn answer where x: "x = (i, cn, answer)" by (metis prod_cases3)
    note q = cc(3) [OF Inr [unfolded x]]
    show ?thesis
    proof (cases "proven_key E pr socket i cn answer")
      case (Inl e)
      with assms c cc(1,2) Inr x show ?thesis by (auto simp: handshake_strict_def)
    next
      case (Inr key)
      obtain d w3 where d: "decide_pin L E pr socket key True None False w1 = (d, w3)" by force
      show ?thesis
      proof (cases d)
        case (Inl e)
        with assms c cc(1,2) \<open>q = Inr x\<close> x Inr d decide_pin_dir [OF d] show ?thesis
          by (auto simp: handshake_strict_def)
      next
        case (Inr dd)
        from decide_pin_cases [OF d [unfolded Inr]]
        have "dd = Proceed key" "pinned L E pr socket w key"
          by (simp_all add: same_files_pinned(1) [OF cc(1), of L E pr socket])
        moreover have "answered_by E pr socket (my_nonce w) key"
          using proven_key_answered [OF \<open>proven_key E pr socket i cn answer = Inr key\<close>] q by simp
        ultimately show ?thesis
          using assms c cc(1) \<open>q = Inr x\<close> x Inr d decide_pin_dir [OF d] q
            \<open>proven_key E pr socket i cn answer = Inr key\<close>
          by (auto simp: handshake_strict_def intro!: exI [of _ key])
      qed
    qed
  qed
  then show "w_dir w' = w_dir w" "sent = [] \<or> sent = [hello_line E (hello_id w) (my_nonce w)]"
    "r = Inr u \<Longrightarrow> sent = [hello_line E (hello_id w) (my_nonce w)]
       \<and> (\<exists>key. pinned L E pr socket w key \<and> answered_by E pr socket (my_nonce w) key)" by blast+
qed

text \<open>The process at the other end is one of this user that holds the socket's lock.\<close>

definition lock_owner :: "process \<Rightarrow> ipc_view \<Rightarrow> string \<Rightarrow> bool" where
  "lock_owner pr V socket \<longleftrightarrow>
     (\<exists>pid. iv_peer V = Inr (pid, pr_euid pr) \<and> 0 < pid
        \<and> lock_holder_pid V (instance_lock_path socket) = Some pid)"

section \<open>An honest daemon\<close>

text \<open>The peer that the daemon's \<open>handle_connection\<close> is: after so many lines it has written all its
  answers to them, and the client has read all but the last one it is waiting for.\<close>

definition plain_message :: "string \<Rightarrow> received" where
  "plain_message line = \<lparr>rv_bytes = line, rv_trunc = False, rv_ctrunc = False, rv_delivered = 0, rv_cmsgs = []\<rparr>"

definition daemon_peer ::
  "('z) broker_lib_scheme \<Rightarrow> 'fd kernel \<Rightarrow> ('y) identity_lib_scheme \<Rightarrow> process \<Rightarrow> io_error + int \<times> nat \<Rightarrow> server \<Rightarrow> peer" where
  "daemon_peer L K E pr cred sv sent =
     (let written = (case handle_connection L K E pr cred (map (Inr \<circ> plain_message) sent) None sv of
                       None \<Rightarrow> [] | Some (Closed rs _) \<Rightarrow> rs | Some (Launching rs _ _ _) \<Rightarrow> rs)
      in Inr (map (Inr \<circ> write_response E) (drop (length sent - 1) written)))"

text \<open>What is documented of Ed25519: sizes, and that a signature verifies under its own key.\<close>

definition signing_laws :: "('y) identity_lib_scheme \<Rightarrow> bool" where
  "signing_laws E \<longleftrightarrow>
     (\<forall>sk. length sk = 32 \<longrightarrow> length (ed_public E sk) = 32 \<and> ed_point E (ed_public E sk)
        \<and> (\<forall>m. length (ed_sign E sk m) = 64 \<and> ed_verify E (ed_public E sk) m (ed_sign E sk m)))"

text \<open>The codec reads this request from this line, and this response from its own text.\<close>

definition reads_request :: "('y) wire_lib_scheme \<Rightarrow> string \<Rightarrow> request \<Rightarrow> bool" where
  "reads_request E line req \<longleftrightarrow>
     (\<exists>l. line = l @ [NL] \<and> NL \<notin> set l \<and> length l \<le> MAX_MESSAGE_LEN \<and> req_de E l = Some req)
     \<and> rq_v req = WIRE_VERSION"

definition reads_response :: "('y) wire_lib_scheme \<Rightarrow> response \<Rightarrow> bool" where
  "reads_response E r \<longleftrightarrow>
     NL \<notin> set (resp_ser E r) \<and> length (resp_ser E r) \<le> MAX_MESSAGE_LEN \<and> resp_de E (resp_ser E r) = Some r"

lemma takeWhile_line: "NL \<notin> set l \<Longrightarrow> takeWhile (\<lambda>c. c \<noteq> NL) (l @ NL # later) = l"
  by (subst takeWhile_append2) auto

lemma recv_plain:
  assumes "reads_request E line req"
  shows "recv_request_with_fds E (Inr (plain_message line) # evs) = (Inr (req, []), evs)"
proof -
  from assms obtain l where l: "line = l @ [NL]" "NL \<notin> set l" "length l \<le> MAX_MESSAGE_LEN" "req_de E l = Some req"
    and v: "rq_v req = WIRE_VERSION" by (auto simp: reads_request_def)
  from l v takeWhile_line [OF l(2), of "[]"] show ?thesis
    by (simp add: recv_request_with_fds_def plain_message_def parse_first_line_def Let_def)
qed

lemma read_written:
  assumes "reads_response E r" and "rs_v r = WIRE_VERSION"
  shows "fst (read_response E (Inr (write_response E r) # later)) = Inr r"
  using assms takeWhile_line [of "resp_ser E r" "[]"]
  by (simp add: read_response_def write_response_def reads_response_def Let_def)

lemma read_until_written:
  "NL \<notin> set (resp_ser E r) \<Longrightarrow> read_until NL [] (Inr (write_response E r) # later) = Inr (write_response E r)"
  using takeWhile_line [of "resp_ser E r" "[]"] by (simp add: write_response_def)

text \<open>The daemon's answer to a hello proves its key to the client that sent it.\<close>

lemma server_hello_proves:
  assumes "signing_laws E" and "length (sv_secret sv) = 32" and "length cn = 32"
    and "canonical_socket_path prd (dm_socket_path (sv_daemon sv)) = canonical_socket_path pr socket"
    and "\<forall>i. w_rng_ok (machine_of (sv_daemon sv)) i"
    and "server_hello E prd (hello_request i cn) sv = (resp, sv1)" and "reads_response E resp"
  shows "proven_key E pr socket i cn (Inr (write_response E resp) # later) = Inr (ed_public E (sv_secret sv))"
proof -
  obtain q w1 where r: "random_bytes HELLO_NONCE_LEN (machine_of (sv_daemon sv)) = (q, w1)" by force
  from r assms(5) obtain sn where q: "q = Inr sn" by (cases q) (auto simp: random_bytes_def Let_def split: if_splits)
  then have sn: "length sn = 32" using random_bytes_length [OF r [unfolded q]] by (simp add: HELLO_NONCE_LEN_def)
  let ?m = "signed_message prd cn sn (dm_socket_path (sv_daemon sv))"
  have resp: "resp = response_ok i (jobj [(''public_key'', JStr (hex (ed_public E (sv_secret sv)))),
      (''server_nonce'', JStr (hex sn)), (''signature'', JStr (hex (ed_sign E (sv_secret sv) ?m)))])"
    using assms(3,6) r q
    by (auto simp: server_hello_def answer_hello_def hello_request_def get_member_jobj unhex_hex hello_reply_def
        HELLO_NONCE_LEN_def Let_def)
  have "rs_v resp = WIRE_VERSION" by (simp add: resp response_ok_def)
  from read_written [OF assms(7) this, of later]
  have f: "fst (read_response E (Inr (write_response E resp) # later)) = Inr resp" .
  have m: "?m = signed_message pr cn sn socket" using assms(4) by (simp add: signed_message_def)
  have k: "length (ed_public E (sv_secret sv)) = 32" "ed_point E (ed_public E (sv_secret sv))"
    "length (ed_sign E (sv_secret sv) ?m) = 64" "ed_verify E (ed_public E (sv_secret sv)) ?m (ed_sign E (sv_secret sv) ?m)"
    using assms(1,2) unfolding signing_laws_def by blast+
  show ?thesis
    unfolding proven_key_def f
    by (simp add: resp response_ok_def handshake_result_def parse_key_def parse_nonce_def parse_sig_def hex_field_def
        get_member_jobj unhex_hex sn k verify_hello_def HELLO_NONCE_LEN_def m [symmetric] map_err_def)
qed

lemma challenge_ok:
  assumes "\<forall>i. w_rng_ok w i" and "peer [mk (hello_id w) (my_nonce w)] = Inr answer"
  shows "challenge mk peer w =
    (Inr (hello_id w, my_nonce w, answer), [mk (hello_id w) (my_nonce w)], w\<lparr>w_rng_pos := w_rng_pos w + 40\<rparr>)"
proof -
  have "random_bytes HELLO_NONCE_LEN w = (Inr (my_nonce w), w\<lparr>w_rng_pos := w_rng_pos w + 32\<rparr>)"
    using assms(1) by (simp add: random_bytes_def my_nonce_def drawn_at_def HELLO_NONCE_LEN_def)
  moreover have "random_bytes 8 (w\<lparr>w_rng_pos := w_rng_pos w + 32\<rparr>)
      = (Inr (drawn_at 32 8 w), w\<lparr>w_rng_pos := w_rng_pos w + 40\<rparr>)"
    using assms(1) by (simp add: random_bytes_def drawn_at_def add.assoc)
  ultimately show ?thesis using assms(2) by (simp add: challenge_def hello_id_def [symmetric] map_err_def)
qed

lemma decide_pin_pinned:
  assumes "pinned L E pr socket w key" and "fault_now w = None"
  shows "decide_pin L E pr socket key True fp interactive w = (Inr (Proceed key), tick w)"
  using assms by (auto simp: pinned_def decide_pin_def load_pin_def)

lemma daemon_answers_hello:
  assumes "peer_uid_ok prd cred" and "reads_request E line (hello_request i cn)"
    and "server_hello E prd (hello_request i cn) sv = (hr, sv1)"
  shows "\<exists>later. daemon_peer L K E prd cred sv [line] = Inr (Inr (write_response E hr) # later)"
  using assms recv_plain [OF assms(2), of "[]"]
  by (simp add: daemon_peer_def handle_connection_def hello_request_def recv_request_with_fds_def)

lemma daemon_answers_request:
  assumes "peer_uid_ok prd cred" and "reads_request E line (hello_request i cn)"
    and "server_hello E prd (hello_request i cn) sv = (hr, sv1)" and "reads_request E line2 req"
    and "dispatch_on_connection L K req 0 (sv_daemon sv1) = Some (Replied resp D)"
  shows "daemon_peer L K E prd cred sv [line, line2] = Inr [Inr (write_response E resp)]"
  using assms recv_plain [OF assms(2)] recv_plain [OF assms(4), of "[]"]
  by (simp add: daemon_peer_def handle_connection_def hello_request_def serve_request_def)

text \<open>The handshake with an honest daemon whose key is pinned.\<close>

lemma honest_handshake:
  assumes "signing_laws E" and "length (sv_secret sv) = 32" and "peer_uid_ok prd cred"
    and "canonical_socket_path prd (dm_socket_path (sv_daemon sv)) = canonical_socket_path pr socket"
    and "pinned L E pr socket w (ed_public E (sv_secret sv))" and "fault_now w = None"
    and "\<forall>i. w_rng_ok w i" and "\<forall>i. w_rng_ok (machine_of (sv_daemon sv)) i"
    and "reads_request E (hello_line E (hello_id w) (my_nonce w)) (hello_request (hello_id w) (my_nonce w))"
    and "server_hello E prd (hello_request (hello_id w) (my_nonce w)) sv = (hr, sv1)" and "reads_response E hr"
  shows "handshake_strict L E pr (daemon_peer L' K E prd cred sv) socket w =
    (Inr (), [hello_line E (hello_id w) (my_nonce w)], tick (w\<lparr>w_rng_pos := w_rng_pos w + 40\<rparr>))"
proof -
  let ?peer = "daemon_peer L' K E prd cred sv" and ?hello = "hello_line E (hello_id w) (my_nonce w)"
  let ?w1 = "w\<lparr>w_rng_pos := w_rng_pos w + 40\<rparr>"
  obtain later where a: "?peer [?hello] = Inr (Inr (write_response E hr) # later)"
    using daemon_answers_hello [OF assms(3,9,10)] by blast
  have n: "length (my_nonce w) = 32" by (simp add: my_nonce_def drawn_at_def)
  note k = server_hello_proves [OF assms(1,2) n assms(4,8,10,11), of later]
  have p: "pinned L E pr socket ?w1 (ed_public E (sv_secret sv))" "fault_now ?w1 = None"
    using assms(5,6) by (simp_all add: pinned_def fault_now_def)
  show ?thesis
    by (simp add: handshake_strict_def challenge_ok [where mk = "hello_line E" and peer = "?peer", OF assms(7) a] k decide_pin_pinned [OF p])
qed

end
