(* ===== verification/ClientTheorems.thy ===== *)
theory ClientTheorems
  imports Handshake ToyBroker Containment
begin

text \<open>
  The properties of the two ends of a connection: whom a client trusts, when it writes credentials, and
  that an honest daemon is reached. The witnesses connect a client to the daemon of an absent vault.
\<close>

section \<open>Whom a client talks to\<close>

text \<open>C32: Credentials reach the pinned broker only: a call writes nothing, or one line that is made of
  fresh random bytes alone, or that line and then the request; and the request is written only when the
  process at the other end holds the socket's lock and has signed the fresh nonce and the canonical
  socket path with the very key that is pinned for this socket.\<close>

theorem credentials_only_to_pinned_broker:
  assumes "broker_call_with_auth L E pr lk socket op auth params w = (r, sent, w')"
  shows "sent = [] \<or> sent = [hello_line E (hello_id w) (my_nonce w)]
    \<or> (\<exists>i. sent = [hello_line E (hello_id w) (my_nonce w), req_ser E (client_request i op auth params) @ [NL]])
      \<and> lock_owner pr (lk_ipc lk) socket
      \<and> (\<exists>key. pinned L E pr socket w key \<and> answered_by E pr socket (my_nonce w) key)"
proof (cases "lk_connect lk")
  case (Inl e)
  with assms show ?thesis by (simp add: broker_call_with_auth_def)
next
  case (Inr peer)
  note c = this
  obtain q s1 w1 where h: "handshake_strict L E pr peer socket w = (q, s1, w1)" by (metis prod_cases3)
  obtain q2 w2 where b: "random_bytes 8 w1 = (q2, w2)" by force
  note hs = handshake_strict_pinned [OF h]
  show ?thesis
  proof (cases "verify_server pr (lk_ipc lk) socket")
    case (Inl e)
    with assms c show ?thesis by (simp add: broker_call_with_auth_def)
  next
    case (Inr u)
    then have o': "lock_owner pr (lk_ipc lk) socket" using verify_server_iff by (simp add: lock_owner_def)
    show ?thesis
    proof (cases q)
      case (Inl e)
      with assms c h hs(2) Inr show ?thesis by (auto simp: broker_call_with_auth_def)
    next
      case (Inr u')
      note ok = hs(3) [OF Inr]
      show ?thesis
      proof (cases q2)
        case (Inl e)
        with assms c h hs(2) b \<open>q = Inr u'\<close> \<open>verify_server pr (lk_ipc lk) socket = Inr u\<close> show ?thesis
          by (auto simp: broker_call_with_auth_def)
      next
        case (Inr tag)
        with assms c h b \<open>q = Inr u'\<close> \<open>verify_server pr (lk_ipc lk) socket = Inr u\<close> ok
        have "sent = [hello_line E (hello_id w) (my_nonce w), req_ser E (client_request (hex tag) op auth params) @ [NL]]"
          by (simp add: broker_call_with_auth_def Let_def split: sum.splits)
        with o' ok show ?thesis by blast
      qed
    qed
  qed
qed

lemma handshake_interactive_trusts:
  assumes "handshake_interactive L E pr peer socket fp tty w = (Inr u, sent, w')"
  shows "sent = [hello_request_line E (hello_id w) (my_nonce w)]
    \<and> (\<exists>key. answered_by E pr socket (my_nonce w) key
       \<and> (pinned L E pr socket w key
          \<or> no_pin L pr socket w \<and> (fp = None \<or> fp = Some key) \<and> confirm_broker_pin key fp tty = Inr ()))"
proof -
  obtain q s1 w1 where c: "challenge (hello_request_line E) peer w = (q, s1, w1)" by (metis prod_cases3)
  note cc = challenge_cases [OF c]
  obtain i cn answer where q: "q = Inr (i, cn, answer)"
    using assms c by (cases q) (auto simp: handshake_interactive_def)
  note qq = cc(3) [OF q]
  obtain key where k: "proven_key_interactive E pr socket i cn answer = Inr key"
    using assms c q by (cases "proven_key_interactive E pr socket i cn answer") (auto simp: handshake_interactive_def)
  then have p: "pin_interactively L E pr socket fp tty key w1 = (Inr u, w')" and s: "sent = s1"
    using assms c q by (auto simp: handshake_interactive_def split: prod.splits)
  obtain d w3 where d: "decide_pin L E pr socket key True fp True w1 = (d, w3)" by force
  obtain dd where dd: "d = Inr dd" using p d by (cases d) (auto simp: pin_interactively_def)
  have "pinned L E pr socket w key
      \<or> no_pin L pr socket w \<and> (fp = None \<or> fp = Some key) \<and> confirm_broker_pin key fp tty = Inr ()"
    using decide_pin_cases [OF d [unfolded dd]] p d dd
    by (cases "confirm_broker_pin key fp tty")
      (auto simp: pin_interactively_def same_files_pinned [OF cc(1), of L] split: pin_decision.splits)
  with qq s proven_key_interactive_answered [OF k] show ?thesis by blast
qed

text \<open>A client is connected only to a broker it may trust: the process at the other end holds the
  socket's lock, has signed this connection's fresh nonce, and either its key is the pinned one or, on
  first contact and in interactive mode only, a human confirmed it at the terminal; a fingerprint given
  on the command line can refuse but never replaces the confirmation.\<close>

lemma connect_with_trusts:
  assumes "connect_with L E pr lk socket opts w = (Inr c, sent, w')"
  shows "cl_sent c = sent \<and> length sent = 1 \<and> lock_owner pr (lk_ipc lk) socket
    \<and> (\<exists>key. answered_by E pr socket (my_nonce w) key
       \<and> (pinned L E pr socket w key
          \<or> co_trust opts = Interactive \<and> no_pin L pr socket w
             \<and> co_trust_fingerprint opts \<in> {None, Some key}
             \<and> (\<exists>line. lk_tty lk = Some (Inr line) \<and> trim (chars line) = chars ''yes'')))"
proof -
  obtain peer where p: "lk_connect lk = Inr peer"
    using assms by (cases "lk_connect lk") (auto simp: connect_with_def)
  obtain u where v: "verify_server pr (lk_ipc lk) socket = Inr u"
    using assms p by (cases "verify_server pr (lk_ipc lk) socket") (auto simp: connect_with_def)
  obtain u' where h: "client_handshake L E pr peer socket opts (lk_tty lk) w = (Inr u', sent, w')" and c: "cl_sent c = sent"
    using assms p v
    by (cases "client_handshake L E pr peer socket opts (lk_tty lk) w")
      (auto simp: connect_with_def split: sum.splits)
  have o': "lock_owner pr (lk_ipc lk) socket" using v verify_server_iff by (simp add: lock_owner_def)
  have y: "\<exists>line. lk_tty lk = Some (Inr line) \<and> trim (chars line) = chars ''yes''"
    if "confirm_broker_pin key fp (lk_tty lk) = Inr ()" for key fp
    using that by (auto simp: confirm_broker_pin_def split: if_splits option.splits sum.splits)
  show ?thesis
  proof (cases "co_trust opts")
    case NonInteractive
    with h have "handshake_strict L E pr peer socket w = (Inr u', sent, w')"
      by (simp add: client_handshake_def split: if_splits)
    from handshake_strict_pinned(3) [OF this] c o' show ?thesis by auto
  next
    case Interactive
    with h have "handshake_interactive L E pr peer socket (co_trust_fingerprint opts) (lk_tty lk) w = (Inr u', sent, w')"
      by (simp add: client_handshake_def)
    from handshake_interactive_trusts [OF this] c o' y Interactive show ?thesis by auto
  qed
qed

text \<open>C34: A call of an honest client reaches an honest daemon: when the daemon's key is the one pinned for
  the socket and both name the same canonical path, the handshake succeeds and the result is exactly
  what the client makes of the response that the daemon's dispatch gives to the request.\<close>

theorem honest_call_is_answered:
  assumes "signing_laws E" and "length (sv_secret sv) = 32" and "peer_uid_ok prd cred"
    and "canonical_socket_path prd (dm_socket_path (sv_daemon sv)) = canonical_socket_path pr socket"
    and "lk_connect lk = Inr (daemon_peer L' K E prd cred sv)" and "lock_owner pr (lk_ipc lk) socket"
    and "pinned L E pr socket w (ed_public E (sv_secret sv))" and "fault_now w = None"
    and "\<forall>i. w_rng_ok w i" and "\<forall>i. w_rng_ok (machine_of (sv_daemon sv)) i"
    and "reads_request E (hello_line E (hello_id w) (my_nonce w)) (hello_request (hello_id w) (my_nonce w))"
    and "server_hello E prd (hello_request (hello_id w) (my_nonce w)) sv = (hr, sv1)" and "reads_response E hr"
    and "req = client_request (hex (drawn_at 40 8 w)) op auth params" and "reads_request E (req_ser E req @ [NL]) req"
    and "dispatch_on_connection L' K req 0 (sv_daemon sv1) = Some (Replied resp D)"
    and "NL \<notin> set (resp_ser E resp)"
  shows "\<exists>w'. broker_call_with_auth L E pr lk socket op auth params w =
    (broker_answer E (rq_id req) (write_response E resp),
     [hello_line E (hello_id w) (my_nonce w), req_ser E req @ [NL]], w')"
proof -
  let ?peer = "daemon_peer L' K E prd cred sv" and ?hello = "hello_line E (hello_id w) (my_nonce w)"
  let ?w1 = "w\<lparr>w_rng_pos := w_rng_pos w + 40\<rparr>"
  note h = honest_handshake [OF assms(1-4,7-13)]
  have b: "random_bytes 8 (tick ?w1) = (Inr (drawn_at 40 8 w), (tick ?w1)\<lparr>w_rng_pos := w_rng_pos w + 48\<rparr>)"
    using assms(9) by (simp add: random_bytes_def drawn_at_def add.assoc)
  have v: "verify_server pr (lk_ipc lk) socket = Inr ()"
    using assms(6) verify_server_iff by (simp add: lock_owner_def)
  have "?peer [?hello, req_ser E req @ [NL]] = Inr [Inr (write_response E resp)]"
    by (rule daemon_answers_request [OF assms(3,11,12,15,16)])
  then show ?thesis
    using read_until_written [OF assms(17), of "[]"] assms(14)
    by (simp add: broker_call_with_auth_def assms(5) v h b Let_def client_request_def)
qed

section \<open>A concrete connection\<close>

definition toy_key :: string where
  "toy_key = replicate 32 (CHR ''k'')"

definition toy_process :: process where
  "toy_process = \<lparr>pr_env = [''HOME'' \<mapsto> ''/home''], pr_cwd = Some ''/'', pr_euid = 0\<rparr>"

definition toy_pin :: string where
  "toy_pin = (case pin_path toy_broker toy_process ''/s'' of Inr path \<Rightarrow> path | Inl _ \<Rightarrow> [])"

definition toy_client_world :: world where
  "toy_client_world = calm_world [toy_pin \<mapsto> toy_key]"

definition toy_hello :: request where
  "toy_hello = hello_request (hello_id toy_client_world) (my_nonce toy_client_world)"

definition toy_call :: request where
  "toy_call = client_request (hex (drawn_at 40 8 toy_client_world)) ''vault.status'' NoAuth JNull"

definition toy_server :: server where
  "toy_server =
     \<lparr>sv_daemon = \<lparr>dm_vault_path = ''/v'', dm_socket_path = ''/s'', dm_idle_lock = 5,
                    dm_world = calm_world Map.empty, dm_session = None,
                    dm_host = \<lparr>rh_runs = [], rh_signals = []\<rparr>, dm_deadline = None\<rparr>,
      sv_secret = toy_key, sv_lock = ''/s.lock''\<rparr>"

definition toy_hello_answer :: response where
  "toy_hello_answer =
     response_ok (rq_id toy_hello)
       (jobj [(''public_key'', JStr (hex toy_key)),
              (''server_nonce'', JStr (hex (drawn_at 0 32 (calm_world Map.empty)))),
              (''signature'', JStr (hex (replicate 64 (CHR ''s''))))])"

text \<open>A codec that knows one line of each kind.\<close>

definition toy_identity :: identity_lib where
  "toy_identity =
     \<lparr>req_de = (\<lambda>s. if s = ''h'' then Some toy_hello else Some toy_call), req_ser = (\<lambda>_. ''r''),
      resp_de = (\<lambda>_. Some toy_hello_answer), resp_ser = (\<lambda>_. ''a''),
      ed_public = id, ed_sign = (\<lambda>_ _. replicate 64 (CHR ''s'')), ed_point = (\<lambda>_. True),
      ed_verify = (\<lambda>_ _ _. True), value_ser = (\<lambda>_. ''h''), value_de = (\<lambda>_. None)\<rparr>"

definition toy_lock_table :: string where
  "toy_lock_table = ''1: FLOCK ADVISORY WRITE 7 08:02:3 0 EOF''"

definition toy_view :: ipc_view where
  "toy_view =
     \<lparr>iv_metadata = (\<lambda>_. Some (8, 2, 3)),
      iv_proc_locks = Some toy_lock_table, iv_peer = Inr (7, 0)\<rparr>"

definition toy_link :: link where
  "toy_link =
     \<lparr>lk_connect = Inr (daemon_peer toy_broker flat_kernel toy_identity toy_process (Inr (7, 0)) toy_server),
      lk_ipc = toy_view,
      lk_tty = None\<rparr>"

lemma toy_lock_table_words:
  "split_whitespace toy_lock_table = [''1:'', ''FLOCK'', ''ADVISORY'', ''WRITE'', ''7'', ''08:02:3'', ''0'', ''EOF'']"
proof -
  have "words_of [] (chars toy_lock_table)
    = map (map of_char) [''1:'', ''FLOCK'', ''ADVISORY'', ''WRITE'', ''7'', ''08:02:3'', ''0'', ''EOF'']"
    by (simp add: toy_lock_table_def chars_ascii is_whitespace_def)
  moreover have "map utf8_encode (map (map of_char) ws) = ws" if "\<forall>w\<in>set ws. \<forall>c\<in>set w. (of_char c :: nat) < 128" for ws
    using that by (induction ws) (simp_all add: utf8_encode_plain)
  from this [of "[''1:'', ''FLOCK'', ''ADVISORY'', ''WRITE'', ''7'', ''08:02:3'', ''0'', ''EOF'']"]
  have "map utf8_encode (map (map of_char) [''1:'', ''FLOCK'', ''ADVISORY'', ''WRITE'', ''7'', ''08:02:3'', ''0'', ''EOF'']) = [''1:'', ''FLOCK'', ''ADVISORY'', ''WRITE'', ''7'', ''08:02:3'', ''0'', ''EOF'']"
    by simp
  ultimately show ?thesis by (simp only: split_whitespace_def)
qed

lemma toy_lock_owner: "lock_owner toy_process (lk_ipc toy_link) ''/s''"
proof -
  have l: "rust_lines toy_lock_table = [toy_lock_table]"
    by (simp add: toy_lock_table_def rust_lines_def NL_def)
  have n: "names_file (8, 2, 3) ''08:02:3''"
    by (simp add: names_file_def parse_unsigned_def natural_of_def to_digit16_def)
  have "lock_holder_pid toy_view (instance_lock_path ''/s'') = Some 7"
    by (simp add: lock_holder_pid_def toy_view_def l toy_lock_table_words is_write_flock_def n parse_i32_def
        parse_unsigned_def natural_of_def to_digit16_def)
  then show ?thesis by (simp add: lock_owner_def toy_link_def) (simp add: toy_view_def toy_process_def)
qed

lemma toy_pinned: "pinned toy_broker toy_identity toy_process ''/s'' toy_client_world toy_key"
proof -
  have "pin_path toy_broker toy_process ''/s'' = Inr toy_pin"
    by (simp add: toy_pin_def pin_path_def pin_dir_def env_var_def valid_utf8_ascii toy_process_def Let_def)
  then show ?thesis
    by (simp add: pinned_def toy_client_world_def calm_world_def read_pin_def toy_key_def)
qed

lemma toy_server_hello:
  "\<exists>sv1. server_hello toy_identity toy_process toy_hello toy_server = (toy_hello_answer, sv1)
     \<and> dm_session (sv_daemon sv1) = None"
  by (simp add: server_hello_def answer_hello_def toy_hello_def toy_server_def hello_request_def toy_hello_answer_def
      get_member_jobj unhex_hex hello_reply_def random_bytes_def my_nonce_def drawn_at_def HELLO_NONCE_LEN_def
      machine_of_def set_machine_def toy_identity_def toy_key_def calm_world_def Let_def)

lemma toy_codec:
  "signing_laws toy_identity" "req_ser toy_identity r = ''r''" "value_ser toy_identity v = ''h''"
  "ed_public toy_identity k = k" "resp_ser toy_identity a = ''a''"
  by (simp_all add: toy_identity_def signing_laws_def)

lemma toy_not_NL: "NL \<notin> set ''h''" "NL \<notin> set ''r''" "NL \<notin> set ''a''"
  by (simp_all add: NL_def)

lemma toy_reads:
  "reads_request toy_identity (''h'' @ [NL]) toy_hello" "reads_request toy_identity (''r'' @ [NL]) toy_call"
  "reads_response toy_identity toy_hello_answer"
  by (auto simp: reads_request_def reads_response_def NL_def MAX_MESSAGE_LEN_def toy_identity_def
      toy_hello_def hello_request_def toy_call_def client_request_def)

lemma toy_premises:
  "length (sv_secret toy_server) = 32" "peer_uid_ok toy_process (Inr (7, 0))"
  "canonical_socket_path toy_process (dm_socket_path (sv_daemon toy_server)) = canonical_socket_path toy_process ''/s''"
  "lk_connect toy_link = Inr (daemon_peer toy_broker flat_kernel toy_identity toy_process (Inr (7, 0)) toy_server)"
  "pinned toy_broker toy_identity toy_process ''/s'' toy_client_world (ed_public toy_identity (sv_secret toy_server))"
  "fault_now toy_client_world = None" "\<forall>i. w_rng_ok toy_client_world i"
  "\<forall>i. w_rng_ok (machine_of (sv_daemon toy_server)) i"
  using toy_pinned
  by (simp_all add: toy_codec toy_server_def toy_key_def peer_uid_ok_def toy_process_def toy_link_def
      toy_client_world_def calm_world_def fault_now_def machine_of_def)

lemma toy_hello_line:
  "hello_line toy_identity (hello_id toy_client_world) (my_nonce toy_client_world) = ''h'' @ [NL]"
  by (simp add: hello_line_def toy_codec)

theorem honest_call_is_answered_witness:
  "\<exists>w'. broker_call_with_auth toy_broker toy_identity toy_process toy_link ''/s'' ''vault.status'' NoAuth JNull toy_client_world
    = (broker_answer toy_identity (rq_id toy_call) (''a'' @ [NL]), [''h'' @ [NL], ''r'' @ [NL]], w')"
proof -
  obtain sv1 where h: "server_hello toy_identity toy_process toy_hello toy_server = (toy_hello_answer, sv1)"
    and n: "dm_session (sv_daemon sv1) = None" using toy_server_hello by blast
  have "\<exists>resp D. dispatch_on_connection toy_broker flat_kernel toy_call 0 (sv_daemon sv1) = Some (Replied resp D)"
    using n by (simp add: dispatch_on_connection_def handle_request_def derive_human_proof_def idle_check_def
        dispatch_def toy_call_def client_request_def HELLO_OP_def split: option.split)
  then obtain resp D where "dispatch_on_connection toy_broker flat_kernel toy_call 0 (sv_daemon sv1) = Some (Replied resp D)"
    by blast
  from honest_call_is_answered [OF toy_codec(1) toy_premises(1-4) toy_lock_owner toy_premises(5-8) _
      h [unfolded toy_hello_def] toy_reads(3) toy_call_def _ this] toy_reads(1,2) toy_not_NL(3)
  show ?thesis by (simp add: toy_hello_line toy_hello_def toy_codec write_response_def)
qed

theorem credentials_only_to_pinned_broker_witness:
  "(\<lambda>sent. sent = [] \<or> sent = [''h'' @ [NL]]
      \<or> (\<exists>i. sent = [''h'' @ [NL], req_ser toy_identity (client_request i ''vault.status'' NoAuth JNull) @ [NL]])
        \<and> lock_owner toy_process (lk_ipc toy_link) ''/s''
        \<and> (\<exists>key. pinned toy_broker toy_identity toy_process ''/s'' toy_client_world key
            \<and> answered_by toy_identity toy_process ''/s'' (my_nonce toy_client_world) key))
    (fst (snd (broker_call_with_auth toy_broker toy_identity toy_process toy_link ''/s'' ''vault.status'' NoAuth JNull
      toy_client_world)))"
proof -
  obtain r sent w' where c: "broker_call_with_auth toy_broker toy_identity toy_process toy_link ''/s'' ''vault.status'' NoAuth JNull
      toy_client_world = (r, sent, w')" by (metis prod_cases3)
  from credentials_only_to_pinned_broker [OF c] show ?thesis unfolding c fst_conv snd_conv toy_hello_line .
qed

lemma toy_connects:
  "\<exists>c w'. connect_with toy_broker toy_identity toy_process toy_link ''/s''
      \<lparr>co_trust = NonInteractive, co_trust_fingerprint = None\<rparr> toy_client_world = (Inr c, [''h'' @ [NL]], w')"
proof -
  obtain sv1 where h: "server_hello toy_identity toy_process toy_hello toy_server = (toy_hello_answer, sv1)"
    using toy_server_hello by blast
  have "handshake_strict toy_broker toy_identity toy_process
      (daemon_peer toy_broker flat_kernel toy_identity toy_process (Inr (7, 0)) toy_server) ''/s'' toy_client_world
    = (Inr (), [''h'' @ [NL]], tick (toy_client_world\<lparr>w_rng_pos := w_rng_pos toy_client_world + 40\<rparr>))"
    using honest_handshake [OF toy_codec(1) toy_premises(1-3,5-8) _ h [unfolded toy_hello_def] toy_reads(3)] toy_reads(1)
    by (simp add: toy_hello_line toy_hello_def)
  moreover have "verify_server toy_process (lk_ipc toy_link) ''/s'' = Inr ()"
    using toy_lock_owner verify_server_iff by (simp add: lock_owner_def)
  ultimately show ?thesis
    by (simp add: connect_with_def client_handshake_def toy_premises(4))
qed

end
