(* ===== verification/CliTheorems.thy ===== *)
theory CliTheorems
  imports Cli ClientTheorems
begin

text \<open>
  The properties of the command line: nothing is read or printed before the broker is trusted, what a run
  command asks of the broker is what the broker reads, and which credentials a command may use.
\<close>

section \<open>Trust before credentials\<close>

text \<open>The broker at the other end of the next connection is one the command may trust.\<close>

definition trusted_broker ::
  "('z) crypto_lib_scheme \<Rightarrow> ('y) identity_lib_scheme \<Rightarrow> console \<Rightarrow> cli \<Rightarrow> cli_state \<Rightarrow> bool" where
  "trusted_broker L E C cli st \<longleftrightarrow>
     (\<exists>socket key. cli_socket_path C cli = Inr socket
        \<and> lock_owner (cn_process C) (lk_ipc (next_link C st)) socket
        \<and> answered_by E (cn_process C) socket (my_nonce (cs_world st)) key
        \<and> (pinned L E (cn_process C) socket (cs_world st) key
           \<or> cn_terminal C \<and> no_pin L (cn_process C) socket (cs_world st)
             \<and> (\<exists>line. lk_tty (next_link C st) = Some (Inr line) \<and> trim (chars line) = chars ''yes'')))"

lemma connect_client_trusts:
  assumes "connect_client L E C cli st = (Inr c, st')"
  shows "trusted_broker L E C cli st"
proof -
  obtain socket fp where s: "cli_socket_path C cli = Inr socket"
    and k: "fst (connect_with L E (cn_process C) (next_link C st) socket
      \<lparr>co_trust = if cn_terminal C then Interactive else NonInteractive, co_trust_fingerprint = fp\<rparr> (cs_world st)) = Inr c"
    using assms
    by (cases "cli_socket_path C cli"; cases "expected_fingerprint cli")
      (auto simp: connect_client_def try_bind_Inr case_prod_beta)
  from k obtain sent w where k: "connect_with L E (cn_process C) (next_link C st) socket
      \<lparr>co_trust = if cn_terminal C then Interactive else NonInteractive, co_trust_fingerprint = fp\<rparr> (cs_world st)
      = (Inr c, sent, w)" by (metis prod.collapse)
  from connect_with_trusts [OF k] s show ?thesis
    by (auto simp: trusted_broker_def split: if_splits)
qed

lemma connect_client_fields:
  assumes "connect_client L E C cli st = (r, st')"
  shows "\<exists>w n. st' = st\<lparr>cs_world := w, cs_conns := n\<rparr>"
proof -
  have same: "\<exists>w n. st = st\<lparr>cs_world := w, cs_conns := n\<rparr>"
    by (rule exI [of _ "cs_world st"], rule exI [of _ "cs_conns st"]) simp
  show ?thesis
  proof (cases "cli_socket_path C cli")
    case (Inl e)
    with assms same show ?thesis by (simp add: connect_client_def)
  next
    case (Inr socket)
    then show ?thesis
      using assms same by (cases "expected_fingerprint cli") (auto simp: connect_client_def case_prod_beta)
  qed
qed

lemma connect_client_fails:
  assumes "connect_client L E C cli st = (Inl e, st')"
  shows "cs_prompts st' = cs_prompts st" "cs_stdin st' = cs_stdin st" "cs_out st' = cs_out st" "cs_err st' = cs_err st"
  using connect_client_fields [OF assms] by auto


section \<open>Runs\<close>

lemma parse_argv_strings: "parse_argv used (map JStr ss) = Inr r \<Longrightarrow> r = ss"
  by (induction ss arbitrary: used r) (auto simp: res_bind_Inr_iff split: if_splits)

lemma parse_key_items_strings: "parse_key_items (map JStr ks) = Inr r \<Longrightarrow> r = ks"
  by (induction ks arbitrary: r) (auto simp: res_bind_Inr_iff split: if_splits)

lemma parse_env_items_strings:
  "parse_env_items used kvs = Inr r \<Longrightarrow> kvs = map (\<lambda>(k, v). (k, JStr v)) r"
proof (induction used kvs arbitrary: r rule: parse_env_items.induct)
  case (2 used k v items)
  then show ?case
    by (cases v) (auto simp: res_bind_Inr_iff split: if_splits)
qed simp

lemma ALLOWED_ENV_distinct: "distinct ALLOWED_ENV"
  by (simp add: ALLOWED_ENV_def)

lemma collect_env_map: "map fst (collect_env pr m names) = filter (\<lambda>n. run_env_value pr m n \<noteq> None) names"
  by (induction names) (auto simp: collect_env_def List.map_filter_simps split: option.split)

lemma collect_env_set:
  "(name, x) \<in> set (collect_env pr m names) \<longleftrightarrow> name \<in> set names \<and> (\<exists>v. run_env_value pr m name = Some v \<and> x = JStr v)"
  by (force simp: collect_env_def List.map_filter_def)

lemma map_of_sorted: "distinct (map fst kvs) \<Longrightarrow> map_of (sort_key fst kvs) = map_of kvs"
  by (subst map_of_inject_set) (simp_all add: distinct_map)

text \<open>The members of the parameters that a run command builds.\<close>

lemma run_params_members:
  assumes "env_overrides (rc_env rc) Map.empty = Inr m"
  shows "\<exists>kvs. build_run_params pr rc executable argv = Inr (JObj kvs)
    \<and> map_of kvs ''project'' = Some (JStr (rc_project rc)) \<and> map_of kvs ''executable'' = Some (JStr executable)
    \<and> map_of kvs ''argv'' = Some (jstrs argv)
    \<and> map_of kvs ''cwd'' = map_option (\<lambda>d. JStr (to_string_lossy d)) (rc_cwd rc)
    \<and> map_of kvs ''keys'' = (if rc_keys rc = [] then None else Some (jstrs (rc_keys rc)))
    \<and> map_of kvs ''env'' = (let env = collect_env pr m ALLOWED_ENV in if env = [] then None else Some (jobj env))
    \<and> map_of kvs ''timeout_secs'' = map_option jnat (rc_timeout_secs rc)"
proof -
  let ?env = "collect_env pr m ALLOWED_ENV"
  let ?kvs = "[(''project'', JStr (rc_project rc)), (''executable'', JStr executable), (''argv'', jstrs argv)]
          @ (case rc_cwd rc of None \<Rightarrow> [] | Some dir \<Rightarrow> [(''cwd'', JStr (to_string_lossy dir))])
          @ (if rc_keys rc \<noteq> [] then [(''keys'', jstrs (rc_keys rc))] else [])
          @ (if ?env \<noteq> [] then [(''env'', jobj ?env)] else [])
          @ (case rc_timeout_secs rc of None \<Rightarrow> [] | Some t \<Rightarrow> [(''timeout_secs'', jnat t)])"
  have "distinct (map fst ?kvs)"
    by (cases "rc_cwd rc"; cases "rc_keys rc = []"; cases "?env = []"; cases "rc_timeout_secs rc"; simp)
  note k = map_of_sorted [OF this]
  have "build_run_params pr rc executable argv = Inr (JObj (sort_key fst ?kvs))"
    using assms by (simp add: build_run_params_def jobj_def Let_def)
  moreover have "map_of ?kvs ''project'' = Some (JStr (rc_project rc)) \<and> map_of ?kvs ''executable'' = Some (JStr executable)
    \<and> map_of ?kvs ''argv'' = Some (jstrs argv)
    \<and> map_of ?kvs ''cwd'' = map_option (\<lambda>d. JStr (to_string_lossy d)) (rc_cwd rc)
    \<and> map_of ?kvs ''keys'' = (if rc_keys rc = [] then None else Some (jstrs (rc_keys rc)))
    \<and> map_of ?kvs ''env'' = (if ?env = [] then None else Some (jobj ?env))
    \<and> map_of ?kvs ''timeout_secs'' = map_option jnat (rc_timeout_secs rc)"
    by (cases "rc_cwd rc"; cases "rc_keys rc = []"; cases "?env = []"; cases "rc_timeout_secs rc"; simp)
  ultimately show ?thesis by (intro exI [of _ "sort_key fst ?kvs"]) (simp only: k Let_def simp_thms)
qed

text \<open>C36: What a run command asks is what the broker reads: when the command line is accepted and its
  parameters are read by the broker, the run has the project, executable, argument vector, directory,
  selected keys and limit of the command line (no key selects all), and its environment is exactly the
  overrides of the command line and, for the other allowed names, the caller's own variables; no other
  variable of the caller ever reaches the broker.\<close>

theorem run_command_round_trip:
  assumes "build_argv (rc_command rc) = Inr (executable, argv)"
    and "build_run_params pr rc executable argv = Inr params" and "parse_run_params params = Inr ps"
  shows "rp_project ps = rc_project rc \<and> rp_executable ps = hd (rc_command rc) \<and> rp_argv ps = rc_command rc
    \<and> rp_cwd ps = map_option to_string_lossy (rc_cwd rc)
    \<and> rp_keys ps = (if rc_keys rc = [] then None else Some (rc_keys rc)) \<and> rp_timeout_secs ps = rc_timeout_secs rc
    \<and> (\<exists>overrides. env_overrides (rc_env rc) Map.empty = Inr overrides
        \<and> (\<forall>name v. (name, v) \<in> set (rp_env ps) \<longleftrightarrow> name \<in> set ALLOWED_ENV
             \<and> (case overrides name of
                  Some x \<Rightarrow> v = x
                | None \<Rightarrow> \<not> is_forbidden_env_name name \<and> env_var pr name = Some v)))"
proof -
  have a: "executable = hd (rc_command rc)" "argv = rc_command rc"
    using assms(1) by (auto simp: build_argv_def split: list.splits if_splits)
  obtain m where m: "env_overrides (rc_env rc) Map.empty = Inr m"
    using assms(2) by (cases "env_overrides (rc_env rc) Map.empty") (simp_all add: build_run_params_def)
  let ?env = "collect_env pr m ALLOWED_ENV"
  obtain kvs where p: "params = JObj kvs" and k: "map_of kvs ''project'' = Some (JStr (rc_project rc))"
    "map_of kvs ''executable'' = Some (JStr executable)" "map_of kvs ''argv'' = Some (jstrs argv)"
    "map_of kvs ''cwd'' = map_option (\<lambda>d. JStr (to_string_lossy d)) (rc_cwd rc)"
    "map_of kvs ''keys'' = (if rc_keys rc = [] then None else Some (jstrs (rc_keys rc)))"
    "map_of kvs ''env'' = (if ?env = [] then None else Some (jobj ?env))"
    "map_of kvs ''timeout_secs'' = map_option jnat (rc_timeout_secs rc)"
    using run_params_members [OF m, of pr executable argv] assms(2) by (auto simp: Let_def)
  from assms(3) p k have q: "rp_project ps = rc_project rc" "rp_executable ps = executable"
    "parse_argv 0 (map JStr argv) = Inr (rp_argv ps)" "parse_cwd (map_of kvs ''cwd'') = Inr (rp_cwd ps)"
    "parse_run_keys (map_of kvs ''keys'') = Inr (rp_keys ps)" "parse_run_env (map_of kvs ''env'') = Inr (rp_env ps)"
    "parse_timeout (map_of kvs ''timeout_secs'') = Inr (rp_timeout_secs ps)"
    by (auto simp: parse_run_params_def Let_def res_bind_Inr_iff jstrs_def split: if_splits)
  have "rp_cwd ps = map_option to_string_lossy (rc_cwd rc)"
    using q(4) k(4) by (cases "rc_cwd rc") (auto simp: parse_cwd_def split: if_splits)
  moreover have "rp_keys ps = (if rc_keys rc = [] then None else Some (rc_keys rc))"
    using q(5) k(5)
    by (auto simp: parse_run_keys_def jstrs_def res_bind_Inr_iff dest!: parse_key_items_strings split: if_splits)
  moreover have "rp_timeout_secs ps = rc_timeout_secs rc"
    using q(7) k(7) by (cases "rc_timeout_secs rc") (auto simp: parse_timeout_def jnat_def split: if_splits)
  moreover have "map (\<lambda>(k, v). (k, JStr v)) (rp_env ps) = sort_key fst ?env"
    using q(6) k(6)
    by (auto simp: parse_run_env_def jobj_def split: if_splits dest!: parse_env_items_strings [symmetric])
  then have "(\<lambda>(k, v). (k, JStr v)) ` set (rp_env ps) = set ?env" by (metis set_map set_sort)
  then have "(name, v) \<in> set (rp_env ps) \<longleftrightarrow> (name, JStr v) \<in> set ?env" for name v by force
  then have "(name, v) \<in> set (rp_env ps) \<longleftrightarrow> name \<in> set ALLOWED_ENV
       \<and> (case m name of Some x \<Rightarrow> v = x | None \<Rightarrow> \<not> is_forbidden_env_name name \<and> env_var pr name = Some v)" for name v
    by (auto simp: collect_env_set run_env_value_def split: option.split)
  ultimately show ?thesis
    using q(1,2) a m parse_argv_strings [OF q(3)] by simp
qed

section \<open>What the commands let through\<close>

text \<open>The rotation of the broker's identity asks for no human: a passphrase file is named but never read,
  and the confirmation comes from standard input.\<close>

lemma confirmed_from_stdin:
  assumes "cs_stdin st = [Inr (''ROTATE'' @ [NL])]"
  shows "\<exists>st'. confirm_reset_tty st = (Inr (), st') \<and> cs_world st' = cs_world st \<and> cs_prompts st' = cs_prompts st"
proof -
  have "valid_utf8 (''ROTATE'' @ [NL])" by (rule valid_utf8_ascii) (simp add: NL_def)
  moreover have "read_until NL [] [Inr (''ROTATE'' @ [NL])] = Inr (''ROTATE'' @ [NL])" by (simp add: NL_def)
  moreover have "trim (chars (''ROTATE'' @ [NL])) = chars ''ROTATE''"
    by (simp add: chars_ascii NL_def trim_def is_whitespace_def)
  ultimately show ?thesis
    using assms by (simp add: confirm_reset_tty_def read_stdin_line_def reset_prompt_def complain_def text_of_def map_err_def)
qed

lemma regenerate_calm:
  assumes "\<forall>i. w_fault w i = None" and "\<forall>i. w_rng_ok w i"
  shows "\<exists>w'. regenerate E vault w = (Inr (ed_public E (drawn_at 0 32 w)), w')
    \<and> w_dir w' (identity_path vault) = Some (drawn_at 0 32 w)"
  using assms
  by (simp add: regenerate_def ensure_private_dir_def fault_now_def random_bytes_def write_identity_def Let_def drawn_at_def)

lemma identity_rotated_without_human:
  assumes "\<not> cn_terminal C" and "cli_passphrase_file cli = Some any" and "cs_stdin st = [Inr (''ROTATE'' @ [NL])]"
    and "cli_socket_path C cli = Inr socket" and "lk_connect (next_link C st) = Inl e" and "cli_vault_path C cli = Inr vault"
    and "\<forall>i. w_fault (cs_world st) i = None" and "\<forall>i. w_rng_ok (cs_world st) i"
  shows "\<exists>st'. execute_trust E C cli Trust_Reset st = (Inr (), st') \<and> cs_prompts st' = cs_prompts st
    \<and> w_dir (cs_world st') (identity_path vault) = Some (drawn_at 0 32 (cs_world st))"
proof -
  let ?st = "st\<lparr>cs_world := cs_world st, cs_conns := Suc (cs_conns st)\<rparr>"
  have l: "trust_show_live E C st = (Inl (Io e), ?st)"
    using assms(5) by (simp add: trust_show_live_def broker_fingerprint_live_def)
  obtain st1 where c: "confirm_reset_tty ?st = (Inr (), st1)" and w: "cs_world st1 = cs_world st" "cs_prompts st1 = cs_prompts st"
    using confirmed_from_stdin [of ?st] assms(3) by auto
  obtain w' where r: "regenerate E vault (cs_world st) = (Inr (ed_public E (drawn_at 0 32 (cs_world st))), w')"
    and d: "w_dir w' (identity_path vault) = Some (drawn_at 0 32 (cs_world st))"
    using regenerate_calm [OF assms(7,8)] by blast
  show ?thesis
    using assms(1,2,4,6) l c w r d by (simp add: say_def complain_def)
qed

text \<open>An empty lease file is no lease: the request goes out on the agent's full grant.\<close>

lemma empty_lease_file_is_no_lease:
  assumes "cli_lease_file cli = Some path" and "path \<noteq> ''-''" and "cn_regular C path = Inr True"
    and "w_dir (cs_world st) path = Some []" and "fault_now (cs_world st) = None"
  shows "fst (lease_scoped C cli params st) = Inr params"
  using assms by (simp add: lease_scoped_def read_lease_credential_def read_file_def trimmed_def text_of_def trim_line_def Let_def)

section \<open>A concrete command line\<close>

definition toy_console :: console where
  "toy_console =
     \<lparr>cn_process = toy_process, cn_terminal = False, cn_prompt = (\<lambda>_. Inr []), cn_fd = (\<lambda>_. Inr []),
      cn_regular = (\<lambda>_. Inr True), cn_net = (\<lambda>_. toy_link)\<rparr>"

definition toy_cli :: cli where
  "toy_cli =
     \<lparr>cli_file = Some ''/v'', cli_socket = Some ''/s'', cli_passphrase_file = Some ''-'', cli_token_file = None,
      cli_token_fd = None, cli_lease_file = None, cli_idle_lock_secs = None, cli_trust_fingerprint = None,
      cli_command = Cmd_Unlock\<rparr>"

definition toy_state :: cli_state where
  "toy_state =
     \<lparr>cs_world = toy_client_world, cs_stdin = [Inr (''p'' @ [NL])], cs_prompts = 0, cs_conns = 0, cs_out = [], cs_err = []\<rparr>"


definition toy_run :: run_cmd where
  "toy_run =
     \<lparr>rc_project = ''P'', rc_keys = [''K''], rc_cwd = None, rc_env = [''TERM=x''], rc_timeout_secs = Some 5,
      rc_command = [''ls'', ''-l'']\<rparr>"

definition bare_process :: process where
  "bare_process = \<lparr>pr_env = Map.empty, pr_cwd = None, pr_euid = 0\<rparr>"

lemma toy_run_argv: "build_argv (rc_command toy_run) = Inr (''ls'', [''ls'', ''-l''])"
  by (simp add: toy_run_def build_argv_def has_nul_def)

lemma toy_overrides: "env_overrides (rc_env toy_run) Map.empty = Inr [''TERM'' \<mapsto> ''x'']"
  by (simp add: toy_run_def env_override_def Let_def has_nul_def is_forbidden_env_name_def to_ascii_uppercase_def
      ascii_upper_def begins_with_def ALLOWED_ENV_def)

lemma toy_run_built:
  "build_run_params bare_process toy_run ''ls'' [''ls'', ''-l'']
    = Inr (JObj [(''argv'', jstrs [''ls'', ''-l'']), (''env'', JObj [(''TERM'', JStr ''x'')]), (''executable'', JStr ''ls''),
                 (''keys'', jstrs [''K'']), (''project'', JStr ''P''), (''timeout_secs'', jnat 5)])"
  unfolding build_run_params_def toy_overrides
  by (simp add: toy_run_def collect_env_def ALLOWED_ENV_def List.map_filter_simps run_env_value_def env_var_def
      bare_process_def jobj_def Let_def)

lemma toy_run_parsed:
  "\<exists>ps. parse_run_params (JObj [(''argv'', jstrs [''ls'', ''-l'']), (''env'', JObj [(''TERM'', JStr ''x'')]), (''executable'', JStr ''ls''),
                 (''keys'', jstrs [''K'']), (''project'', JStr ''P''), (''timeout_secs'', jnat 5)]) = Inr ps"
  by (simp add: parse_run_params_def Let_def jstrs_def jnat_def has_nul_def parse_cwd_def parse_run_keys_def parse_run_env_def
      parse_timeout_def valid_project_name_def MAX_PROJECT_NAME_def is_ascii_alphanumeric_def is_ascii_alphabetic_def
      valid_key_def MAX_KEY_LEN_def MAX_EXECUTABLE_BYTES_def MAX_ARGV_ENTRIES_def MAX_ARGV_BYTES_def MAX_KEYS_def
      MAX_ENV_ENTRIES_def MAX_ENV_BYTES_def MAX_DURATION_SECS_def)

theorem run_command_round_trip_witness:
  "\<exists>ps::run_params. rp_project ps = ''P'' \<and> rp_argv ps = [''ls'', ''-l''] \<and> rp_keys ps = Some [''K''] \<and> rp_timeout_secs ps = Some 5
    \<and> (''TERM'', ''x'') \<in> set (rp_env ps)"
proof -
  obtain ps where "parse_run_params (JObj [(''argv'', jstrs [''ls'', ''-l'']), (''env'', JObj [(''TERM'', JStr ''x'')]), (''executable'', JStr ''ls''),
                 (''keys'', jstrs [''K'']), (''project'', JStr ''P''), (''timeout_secs'', jnat 5)]) = Inr ps"
    using toy_run_parsed by blast
  note rt = run_command_round_trip [OF toy_run_argv toy_run_built this]
  from rt have "rp_project ps = ''P''" "rp_argv ps = [''ls'', ''-l'']" "rp_keys ps = Some [''K'']" "rp_timeout_secs ps = Some 5"
    by (simp_all add: toy_run_def)
  moreover from rt toy_overrides have "(''TERM'', ''x'') \<in> set (rp_env ps)"
    by (auto simp: ALLOWED_ENV_def)
  ultimately show ?thesis by blast
qed

end
