(* ===== verification/Dashboard.thy ===== *)
theory Dashboard
  imports Cli
begin

text \<open>
  \<open>dashboard/src/backend.rs\<close>, first part: errors as the front end sees them, the state of the
  application and the commands that work without a held session. What the backend uses of the library
  crate is a record of functions over their state \<open>'s\<close>, the machine and the connections to come;
  \<open>library_backend\<close> fills it with the model of the crate. The mutex of the session is never
  poisoned, since no code panics while holding it.
\<close>

section \<open>Errors\<close>

record cmd_error =
  ce_code :: string
  ce_message :: string

fun vault_message :: "vault_error \<Rightarrow> string" where
  "vault_message (Io _) = ''filesystem error''"
| "vault_message (Protocol _) = ''protocol error''"
| "vault_message (Corrupt _) = ''vault file corrupted''"
| "vault_message (AuditWrite _) = ''audit write failed''"
| "vault_message (InvalidInput _) = ''invalid input''"
| "vault_message (AuditFull _) = ''audit log is full''"
| "vault_message (BrokerUntrusted _) = ''broker identity could not be verified''"
| "vault_message e = display_error e"

definition from_vault_error :: "vault_error \<Rightarrow> cmd_error" where
  "from_vault_error e = \<lparr>ce_code = code e, ce_message = vault_message e\<rparr>"

definition message_table :: "(string \<times> string) list" where
  "message_table =
     [(''E_AUTH'', ''authentication failed''), (''E_LOCKED'', ''vault is locked''),
      (''E_BUSY'', ''too many concurrent operations''), (''E_VAULT_CORRUPT'', ''vault file corrupted''),
      (''E_INSECURE_PARAMS'', ''kdf parameters outside accepted bounds''),
      (''E_WEAK_PASSPHRASE'', ''passphrase must be at least 12 characters''),
      (''E_HUMAN_REQUIRED'', ''this operation is human-only''), (''E_EXISTS'', ''already exists''),
      (''E_MISMATCH'', ''passphrases do not match''), (''E_NOT_FOUND'', ''not found''),
      (''E_PERMISSION'', ''permission denied''),
      (''E_PATH_NOT_AUTHORIZED'', ''path outside authorized folders''),
      (''E_LEASE_EXPIRED'', ''lease expired or revoked''),
      (''E_SESSION_EXPIRED'', ''session expired or revoked''),
      (''E_APPROVAL_PENDING'', ''approval pending''), (''E_APPROVAL_DENIED'', ''approval denied''),
      (''E_APPROVAL_CONSUMED'', ''approval already claimed''), (''E_APPROVAL_EXPIRED'', ''approval expired''),
      (''E_TOO_LARGE'', ''message too large''), (''E_VAULT_TOO_LARGE'', ''vault would exceed the maximum size''),
      (''E_INVALID_INPUT'', ''invalid input''), (''E_AUDIT_FULL'', ''audit log is full''),
      (''E_AUDIT_WRITE'', ''audit write failed''),
      (''E_BROKER_UNTRUSTED'', ''broker identity could not be verified''), (''E_IO'', ''filesystem error''),
      (''E_PROTOCOL'', ''protocol error'')]"

definition broker_message :: "string \<Rightarrow> string" where
  "broker_message c = (case map_of message_table c of None \<Rightarrow> ''broker error'' | Some m \<Rightarrow> m)"

definition from_broker_error :: "broker_error \<Rightarrow> cmd_error" where
  "from_broker_error e = \<lparr>ce_code = be_code e, ce_message = broker_message (be_code e)\<rparr>"

definition malformed :: cmd_error where
  "malformed = \<lparr>ce_code = ''E_PROTOCOL'', ce_message = broker_message ''E_PROTOCOL''\<rparr>"

section \<open>State\<close>

record app_state =
  ap_socket :: string
  ap_session :: "string option"

definition session_auth :: "app_state \<Rightarrow> auth option" where
  "session_auth app = map_option SessionAuth (ap_session app)"

definition forget_session :: "app_state \<Rightarrow> app_state" where
  "forget_session app = app\<lparr>ap_session := None\<rparr>"

definition take_session :: "app_state \<Rightarrow> string option \<times> app_state" where
  "take_session app = (ap_session app, forget_session app)"

text \<open>What the backend uses of the library crate.\<close>

record 's backend =
  bk_call :: "string \<Rightarrow> string \<Rightarrow> auth \<Rightarrow> json \<Rightarrow> 's \<Rightarrow> (broker_error + json) \<times> 's"
  bk_pin :: "string \<Rightarrow> 's \<Rightarrow> string option res \<times> 's"
  bk_live :: "string \<Rightarrow> 's \<Rightarrow> string res \<times> 's"
  bk_write_token :: "string \<Rightarrow> string \<Rightarrow> 's \<Rightarrow> unit res \<times> 's"

type_synonym ('s, 'a) dash_step = "'s \<Rightarrow> (cmd_error + 'a) \<times> 's"

definition dash_call :: "'s backend \<Rightarrow> app_state \<Rightarrow> string \<Rightarrow> auth \<Rightarrow> json \<Rightarrow> ('s, json) dash_step" where
  "dash_call T app op auth params s =
     apfst (map_err from_broker_error) (bk_call T (ap_socket app) op auth params s)"

definition session_expired :: cmd_error where
  "session_expired = \<lparr>ce_code = ''E_SESSION_EXPIRED'', ce_message = ''session expired or revoked''\<rparr>"

text \<open>Without a session the gate of the connection still runs, over a public operation.\<close>

definition require_session_auth :: "'s backend \<Rightarrow> app_state \<Rightarrow> ('s, auth) dash_step" where
  "require_session_auth T app s =
     (case session_auth app of
        Some auth \<Rightarrow> (Inr auth, s)
      | None \<Rightarrow>
          try_bind (dash_call T app ''vault.status'' NoAuth (JObj []) s) (\<lambda>_ s. (Inl session_expired, s)))"

section \<open>Fields of an answer\<close>

definition opt_str :: "json \<Rightarrow> string \<Rightarrow> string option" where
  "opt_str v k = Option.bind (get_member v k) as_str"

definition opt_u64 :: "json \<Rightarrow> string \<Rightarrow> nat option" where
  "opt_u64 v k = Option.bind (get_member v k) as_u64"

definition opt_array :: "json \<Rightarrow> string \<Rightarrow> json list option" where
  "opt_array v k = Option.bind (get_member v k) as_array"

definition str_or_empty :: "json \<Rightarrow> string \<Rightarrow> string" where
  "str_or_empty v k = (case opt_str v k of None \<Rightarrow> [] | Some s \<Rightarrow> s)"

definition u64_or_zero :: "json \<Rightarrow> string \<Rightarrow> nat" where
  "u64_or_zero v k = (case opt_u64 v k of None \<Rightarrow> 0 | Some n \<Rightarrow> n)"

definition bool_or :: "bool \<Rightarrow> json \<Rightarrow> string \<Rightarrow> bool" where
  "bool_or d v k = (case Option.bind (get_member v k) as_bool of None \<Rightarrow> d | Some b \<Rightarrow> b)"

definition array_or_empty :: "json \<Rightarrow> string \<Rightarrow> json list" where
  "array_or_empty v k = (case opt_array v k of None \<Rightarrow> [] | Some xs \<Rightarrow> xs)"

definition texts_of :: "json \<Rightarrow> string \<Rightarrow> string list" where
  "texts_of v k = List.map_filter as_str (array_or_empty v k)"

section \<open>Status and pins\<close>

record status_out =
  so_version :: nat
  so_created :: string
  so_locked :: bool
  so_online :: bool
  so_trusted :: bool
  so_initialized :: bool
  so_fingerprint :: "string option"

record pin_status_out =
  ps_pinned :: bool
  ps_fingerprint :: "string option"

definition pin_fingerprint :: "'s backend \<Rightarrow> app_state \<Rightarrow> ('s, string option) dash_step" where
  "pin_fingerprint T app s =
     apfst (map_err from_vault_error \<circ> map_sum id (map_option fingerprint)) (bk_pin T (ap_socket app) s)"

text \<open>\<open>load_pin(..).map(is_some).unwrap_or(false)\<close> and \<open>pin_fingerprint(..).ok().flatten()\<close>.\<close>

definition is_pinned :: "'s backend \<Rightarrow> app_state \<Rightarrow> 's \<Rightarrow> bool \<times> 's" where
  "is_pinned T app s = apfst (\<lambda>r. case r of Inr (Some _) \<Rightarrow> True | _ \<Rightarrow> False) (bk_pin T (ap_socket app) s)"

definition known_fingerprint :: "'s backend \<Rightarrow> app_state \<Rightarrow> 's \<Rightarrow> string option \<times> 's" where
  "known_fingerprint T app s = apfst (case_sum (\<lambda>_. None) id) (pin_fingerprint T app s)"

definition pinned_posture :: "'s backend \<Rightarrow> app_state \<Rightarrow> 's \<Rightarrow> (bool \<times> string option) \<times> 's" where
  "pinned_posture T app s =
     (case is_pinned T app s of
        (p, s1) \<Rightarrow>
          if p then (case known_fingerprint T app s1 of (fp, s2) \<Rightarrow> ((True, fp), s2))
          else ((False, None), s1))"

text \<open>\<open>as u32\<close> keeps the low bits. The status never fails.\<close>

definition answered_status :: "json \<Rightarrow> bool \<times> string option \<Rightarrow> status_out" where
  "answered_status v posture =
     \<lparr>so_version = u64_or_zero v ''version'' mod 2 ^ 32, so_created = str_or_empty v ''created'',
      so_locked = bool_or True v ''locked'', so_online = True, so_trusted = fst posture,
      so_initialized = True, so_fingerprint = snd posture\<rparr>"

definition unknown_status :: "bool \<Rightarrow> bool \<Rightarrow> bool \<times> string option \<Rightarrow> status_out" where
  "unknown_status online initialized posture =
     \<lparr>so_version = 0, so_created = [], so_locked = True, so_online = online, so_trusted = fst posture,
      so_initialized = initialized, so_fingerprint = snd posture\<rparr>"

definition status_of :: "'s backend \<Rightarrow> app_state \<Rightarrow> cmd_error + json \<Rightarrow> 's \<Rightarrow> status_out \<times> 's" where
  "status_of T app r s =
     (case r of
        Inr v \<Rightarrow> apfst (answered_status v) (pinned_posture T app s)
      | Inl e \<Rightarrow>
          if ce_code e = ''E_BROKER_UNTRUSTED'' then
            apfst (\<lambda>fp. unknown_status True True (False, fp)) (known_fingerprint T app s)
          else if ce_code e \<in> {''E_AUDIT_FULL'', ''E_AUDIT_WRITE'', ''E_BUSY''} then
            apfst (unknown_status True True) (pinned_posture T app s)
          else if ce_code e = ''E_NOT_FOUND'' then
            apfst (unknown_status True False) (pinned_posture T app s)
          else (unknown_status False False (False, None), s))"

definition get_status :: "'s backend \<Rightarrow> app_state \<Rightarrow> 's \<Rightarrow> status_out \<times> 's" where
  "get_status T app s =
     (case dash_call T app ''vault.status'' NoAuth (JObj []) s of (r, s1) \<Rightarrow> status_of T app r s1)"

definition pin_status :: "'s backend \<Rightarrow> app_state \<Rightarrow> ('s, pin_status_out) dash_step" where
  "pin_status T app s =
     try_bind (pin_fingerprint T app s) (\<lambda>fp s1.
       apfst (map_err from_vault_error \<circ> map_sum id (\<lambda>p. \<lparr>ps_pinned = p \<noteq> None, ps_fingerprint = fp\<rparr>))
         (bk_pin T (ap_socket app) s1))"

definition probe_fingerprint :: "'s backend \<Rightarrow> app_state \<Rightarrow> ('s, string) dash_step" where
  "probe_fingerprint T app s =
     (case bk_live T (ap_socket app) s of
        (r, s1) \<Rightarrow>
          (map_err from_vault_error (res_bind r (\<lambda>k. map_sum id fingerprint (parse_fingerprint k))), s1))"

section \<open>Unlocking and locking\<close>

record unlock_out =
  un_unlocked :: bool
  un_session_prefix :: "string option"
  un_expires_at :: "string option"
  un_expires_in :: "nat option"
  un_max_expires_at :: "string option"
  un_max_expires_in :: "nat option"

definition unlocked_answer :: "json \<Rightarrow> unlock_out" where
  "unlocked_answer v =
     \<lparr>un_unlocked = True, un_session_prefix = opt_str v ''session_prefix'',
      un_expires_at = opt_str v ''expires_at'', un_expires_in = opt_u64 v ''expires_in'',
      un_max_expires_at = opt_str v ''max_expires_at'', un_max_expires_in = opt_u64 v ''max_expires_in''\<rparr>"

definition dash_unlock ::
  "'s backend \<Rightarrow> app_state \<Rightarrow> string \<Rightarrow> 's \<Rightarrow> (cmd_error + unlock_out) \<times> app_state \<times> 's" where
  "dash_unlock T app passphrase s =
     (case dash_call T app ''vault.unlock'' (Passphrase passphrase) (JObj []) s of
        (Inl e, s1) \<Rightarrow> (Inl e, app, s1)
      | (Inr v, s1) \<Rightarrow>
          if \<not> bool_or False v ''unlocked''
          then (Inl \<lparr>ce_code = ''E_AUTH'', ce_message = ''authentication failed''\<rparr>, app, s1)
          else (Inr (unlocked_answer v), app\<lparr>ap_session := opt_str v ''session_credential''\<rparr>, s1))"

definition held_or_none :: "app_state \<Rightarrow> auth" where
  "held_or_none app = (case session_auth app of None \<Rightarrow> NoAuth | Some auth \<Rightarrow> auth)"

text \<open>The answer is only whether the front end is to show the locked gate.\<close>

definition dash_lock :: "'s backend \<Rightarrow> app_state \<Rightarrow> 's \<Rightarrow> (cmd_error + bool) \<times> app_state \<times> 's" where
  "dash_lock T app s =
     (case dash_call T app ''vault.lock'' (held_or_none app) (JObj []) s of
        (wire, s1) \<Rightarrow>
          (case wire of
             Inr _ \<Rightarrow> Inr True
           | Inl e \<Rightarrow> if ce_code e = ''E_IO'' \<or> ce_code e = ''E_PROTOCOL'' then Inr True else Inl e,
           forget_session app, s1))"

text \<open>The lock of a closing window runs on a worker. \<open>spawned\<close> tells whether the worker could be started,
  \<open>in_time\<close> whether it was done within the budget; the state returned is the one after the worker.\<close>

definition shutdown_lock ::
  "'s backend \<Rightarrow> string \<Rightarrow> auth \<Rightarrow> bool \<Rightarrow> bool \<Rightarrow> 's \<Rightarrow> bool \<times> 's" where
  "shutdown_lock T socket auth spawned in_time s =
     (if \<not> spawned then (False, s)
      else (in_time, snd (bk_call T socket ''vault.lock'' auth (JObj []) s)))"

definition close_window :: "'s backend \<Rightarrow> bool \<Rightarrow> bool \<Rightarrow> app_state \<Rightarrow> 's \<Rightarrow> bool option \<times> app_state \<times> 's" where
  "close_window T spawned in_time app s =
     (case take_session app of
        (None, app1) \<Rightarrow> (None, app1, s)
      | (Some cred, app1) \<Rightarrow>
          (case shutdown_lock T (ap_socket app1) (SessionAuth cred) spawned in_time s of
             (locked, s1) \<Rightarrow> (Some locked, app1, s1)))"

definition dash_health :: "'s backend \<Rightarrow> app_state \<Rightarrow> ('s, json) dash_step" where
  "dash_health T app s = dash_call T app ''vault.health'' (held_or_none app) (JObj []) s"

section \<open>The overview\<close>

definition OVERVIEW_SECRETS_PROJECT_CAP :: nat where
  "OVERVIEW_SECRETS_PROJECT_CAP = 50"

record overview_out =
  ov_online :: bool
  ov_trusted :: bool
  ov_fingerprint :: "string option"
  ov_version :: nat
  ov_created :: string
  ov_locked :: bool
  ov_session_held :: bool
  ov_projects :: "nat option"
  ov_secrets_total :: "nat option"
  ov_secrets_total_exact :: bool
  ov_agents_active :: "nat option"
  ov_runs_active :: "nat option"
  ov_approvals_pending :: "nat option"
  ov_leases_active :: "nat option"
  ov_idle_lock_secs :: "nat option"
  ov_idle_in :: "nat option"
  ov_audit_bytes :: "nat option"
  ov_audit_soft_limit :: "nat option"
  ov_audit_hard_limit :: "nat option"
  ov_vault_bytes :: "nat option"
  ov_vault_max_bytes :: "nat option"

definition health_field :: "json option \<Rightarrow> string \<Rightarrow> nat option" where
  "health_field h k = Option.bind h (\<lambda>v. opt_u64 v k)"

definition overview_of ::
  "status_out \<Rightarrow> bool \<Rightarrow> json option \<Rightarrow> nat option \<Rightarrow> nat option \<times> bool \<Rightarrow> nat option \<Rightarrow> overview_out" where
  "overview_of st held h projects secrets agents =
     \<lparr>ov_online = so_online st, ov_trusted = so_trusted st, ov_fingerprint = so_fingerprint st,
      ov_version = so_version st, ov_created = so_created st, ov_locked = so_locked st,
      ov_session_held = held, ov_projects = projects, ov_secrets_total = fst secrets,
      ov_secrets_total_exact = snd secrets, ov_agents_active = agents,
      ov_runs_active = health_field h ''runs_active'',
      ov_approvals_pending = health_field h ''approvals_pending'',
      ov_leases_active = health_field h ''leases_active'',
      ov_idle_lock_secs = health_field h ''idle_lock_secs'', ov_idle_in = health_field h ''idle_in'',
      ov_audit_bytes = health_field h ''audit_bytes'',
      ov_audit_soft_limit = health_field h ''audit_soft_limit'',
      ov_audit_hard_limit = health_field h ''audit_hard_limit'',
      ov_vault_bytes = health_field h ''vault_bytes'',
      ov_vault_max_bytes = health_field h ''vault_max_bytes''\<rparr>"

definition posture_only :: "status_out \<Rightarrow> bool \<Rightarrow> overview_out" where
  "posture_only st held = overview_of st held None None (None, False) None"

text \<open>A part of the overview: an expired session ends it, any other failure leaves the part unknown.\<close>

definition optional_answer :: "cmd_error + json \<Rightarrow> cmd_error + json option" where
  "optional_answer r =
     (case r of
        Inr v \<Rightarrow> Inr (Some v)
      | Inl e \<Rightarrow> if ce_code e = ''E_SESSION_EXPIRED'' then Inl e else Inr None)"

definition optional_call :: "'s backend \<Rightarrow> app_state \<Rightarrow> string \<Rightarrow> auth \<Rightarrow> json \<Rightarrow> ('s, json option) dash_step" where
  "optional_call T app op auth params s = apfst optional_answer (dash_call T app op auth params s)"

definition names_of :: "json \<Rightarrow> string list" where
  "names_of v = List.map_filter (\<lambda>p. opt_str p ''name'') (array_or_empty v ''projects'')"

definition active_agents :: "json \<Rightarrow> nat option" where
  "active_agents v =
     map_option (\<lambda>arr. length (filter (\<lambda>a. opt_str a ''status'' = Some ''active'') arr)) (opt_array v ''agents'')"

fun sum_secrets :: "'s backend \<Rightarrow> app_state \<Rightarrow> auth \<Rightarrow> string list \<Rightarrow> nat \<Rightarrow> ('s, nat option) dash_step" where
  "sum_secrets T app auth [] t s = (Inr (Some t), s)"
| "sum_secrets T app auth (name # names) t s =
     try_bind (optional_call T app ''secrets.list'' auth (jobj [(''project'', JStr name)]) s) (\<lambda>q s1.
       case Option.bind q (\<lambda>v. opt_array v ''secrets'') of
         None \<Rightarrow> (Inr None, s1)
       | Some arr \<Rightarrow> sum_secrets T app auth names (t + length arr) s1)"

definition secrets_total ::
  "'s backend \<Rightarrow> app_state \<Rightarrow> auth \<Rightarrow> string list option \<Rightarrow> ('s, nat option \<times> bool) dash_step" where
  "secrets_total T app auth project_names s =
     (case project_names of
        None \<Rightarrow> (Inr (None, False), s)
      | Some names \<Rightarrow>
          try_bind (sum_secrets T app auth (take OVERVIEW_SECRETS_PROJECT_CAP names) 0 s) (\<lambda>q s1.
            (Inr (q, q \<noteq> None \<and> length names \<le> OVERVIEW_SECRETS_PROJECT_CAP), s1)))"

definition counted_overview :: "'s backend \<Rightarrow> app_state \<Rightarrow> status_out \<Rightarrow> bool \<Rightarrow> auth \<Rightarrow> ('s, overview_out) dash_step" where
  "counted_overview T app st held auth s =
     try_bind (optional_call T app ''vault.health'' auth (JObj []) s) (\<lambda>h s1.
       try_bind (optional_call T app ''project.list'' auth (JObj []) s1) (\<lambda>p s2.
         try_bind (optional_call T app ''agents.list'' auth (JObj []) s2) (\<lambda>a s3.
           try_bind (secrets_total T app auth (map_option names_of p) s3) (\<lambda>secrets s4.
             (Inr (overview_of st held h (map_option (length \<circ> names_of) p) secrets
                     (Option.bind a active_agents)), s4)))))"

definition overview_of_status :: "'s backend \<Rightarrow> app_state \<Rightarrow> status_out \<Rightarrow> ('s, overview_out) dash_step" where
  "overview_of_status T app st s =
     (let held = session_auth app \<noteq> None in
      if so_locked st \<or> \<not> so_online st \<or> \<not> so_trusted st then (Inr (posture_only st held), s)
      else case session_auth app of
        None \<Rightarrow> (Inr (posture_only st False), s)
      | Some auth \<Rightarrow> counted_overview T app st held auth s)"

definition overview_refresh :: "'s backend \<Rightarrow> app_state \<Rightarrow> ('s, overview_out) dash_step" where
  "overview_refresh T app s = (case get_status T app s of (st, s1) \<Rightarrow> overview_of_status T app st s1)"

end
