(* ===== verification/DashboardOps.thy ===== *)
theory DashboardOps
  imports Dashboard
begin

text \<open>
  \<open>dashboard/src/backend.rs\<close>, second part: the commands over the held session, the table of all thirty
  commands, sequences of them, and the backend over the model of the library crate. Every command
  has a fixed operation and a fixed shape of its parameters.
\<close>

section \<open>Answers\<close>

record project_entry =
  pe_name :: string
  pe_paths :: "string list"

record listed_secret =
  se_key :: string
  se_updated :: string

record agent_entry =
  ae_name :: string
  ae_status :: string
  ae_token_prefix :: string

record agent_add_out =
  ao_agent_id :: string
  ao_token :: string
  ao_token_saved_path :: "string option"

record grant_entry =
  ge_agent :: string
  ge_project :: string
  ge_ops :: "string list"
  ge_revoked :: bool

record approval_entry =
  pa_approval_id :: string
  pa_agent :: string
  pa_project :: string
  pa_key :: string
  pa_status :: string
  pa_expires_at :: string

record lease_entry =
  le_lease_id :: string
  le_lease_prefix :: string
  le_project :: string
  le_ops :: "string list"
  le_expires_at :: string
  le_expires_in :: nat
  le_status :: string

record run_entry =
  re_run_id :: string
  re_agent :: string
  re_project :: string
  re_pid :: int
  re_started_at :: string
  re_status :: string

record audit_entry_out =
  eo_seq :: nat
  eo_ts :: string
  eo_actor :: string
  eo_op :: string
  eo_project :: "string option"
  eo_keys :: "string list"
  eo_decision :: string
  eo_reason :: "string option"
  eo_run_id :: "string option"
  eo_authenticated :: bool

record audit_verify_out =
  av_entries :: nat
  av_macs_verified :: nat
  av_macs_null :: nat

text \<open>The one answer of a command.\<close>

datatype dash_out =
    Status status_out | Pins pin_status_out | Probe string | Unlocked unlock_out | Locked_Shown bool
  | Raw json | Overview overview_out | Projects "project_entry list" | Added string | Removed string
  | Secrets "listed_secret list" | Was_Set string | Deleted string | Agents "agent_entry list"
  | Agent_Added agent_add_out | Revoked string | Grants "grant_entry list" | Granted string
  | Approvals "approval_entry list" | Decision string string | Revealed string
  | Leases "lease_entry list" | Lease_Revoked string bool | Runs_Shown "run_entry list"
  | Audit_Page "audit_entry_out list" "nat option" | Audit_Verified audit_verify_out

section \<open>Rows\<close>

text \<open>\<open>filter_map\<close> with question marks: a row without one of its required fields is skipped.\<close>

definition req_str :: "json \<Rightarrow> string \<Rightarrow> (string \<Rightarrow> 'a option) \<Rightarrow> 'a option" where
  "req_str v k f = Option.bind (opt_str v k) f"

definition project_row :: "json \<Rightarrow> project_entry option" where
  "project_row p = req_str p ''name'' (\<lambda>n. Some \<lparr>pe_name = n, pe_paths = texts_of p ''paths''\<rparr>)"

definition secret_row :: "json \<Rightarrow> listed_secret option" where
  "secret_row v = req_str v ''key'' (\<lambda>k. req_str v ''updated'' (\<lambda>u. Some \<lparr>se_key = k, se_updated = u\<rparr>))"

definition agent_row :: "json \<Rightarrow> agent_entry option" where
  "agent_row a =
     req_str a ''name'' (\<lambda>n. req_str a ''status'' (\<lambda>st. req_str a ''token_prefix'' (\<lambda>p.
       Some \<lparr>ae_name = n, ae_status = st, ae_token_prefix = p\<rparr>)))"

definition grant_row :: "json \<Rightarrow> grant_entry option" where
  "grant_row g =
     req_str g ''agent'' (\<lambda>a. req_str g ''project'' (\<lambda>p.
       Some \<lparr>ge_agent = a, ge_project = p, ge_ops = texts_of g ''ops'', ge_revoked = bool_or False g ''revoked''\<rparr>))"

definition approval_row :: "json \<Rightarrow> approval_entry option" where
  "approval_row a =
     req_str a ''approval_id'' (\<lambda>i. req_str a ''agent'' (\<lambda>ag. req_str a ''project'' (\<lambda>p.
       req_str a ''key'' (\<lambda>k. req_str a ''status'' (\<lambda>st. req_str a ''expires_at'' (\<lambda>x.
         Some \<lparr>pa_approval_id = i, pa_agent = ag, pa_project = p, pa_key = k, pa_status = st, pa_expires_at = x\<rparr>))))))"

definition lease_row :: "json \<Rightarrow> lease_entry option" where
  "lease_row l =
     req_str l ''lease_id'' (\<lambda>i. req_str l ''lease_prefix'' (\<lambda>px. req_str l ''project'' (\<lambda>p.
       req_str l ''expires_at'' (\<lambda>x. req_str l ''status'' (\<lambda>st.
         Some \<lparr>le_lease_id = i, le_lease_prefix = px, le_project = p, le_ops = texts_of l ''ops'',
               le_expires_at = x, le_expires_in = u64_or_zero l ''expires_in'', le_status = st\<rparr>)))))"

text \<open>\<open>as i32\<close> keeps the low bits.\<close>

definition wrap_i32 :: "int \<Rightarrow> int" where
  "wrap_i32 n = (n + 2 ^ 31) mod 2 ^ 32 - 2 ^ 31"

fun as_i64 :: "json \<Rightarrow> int option" where
  "as_i64 (JInt n) = (if - (2 ^ 63) \<le> n \<and> n < 2 ^ 63 then Some n else None)"
| "as_i64 _ = None"

definition run_row :: "json \<Rightarrow> run_entry option" where
  "run_row r =
     req_str r ''run_id'' (\<lambda>i. req_str r ''agent'' (\<lambda>a. req_str r ''project'' (\<lambda>p.
       req_str r ''started_at'' (\<lambda>x. req_str r ''status'' (\<lambda>st.
         Some \<lparr>re_run_id = i, re_agent = a, re_project = p,
               re_pid = wrap_i32 (case Option.bind (get_member r ''pid'') as_i64 of None \<Rightarrow> 0 | Some n \<Rightarrow> n),
               re_started_at = x, re_status = st\<rparr>)))))"

definition audit_row :: "json \<Rightarrow> audit_entry_out option" where
  "audit_row l =
     Option.bind (opt_u64 l ''seq'') (\<lambda>n. req_str l ''ts'' (\<lambda>t. req_str l ''actor'' (\<lambda>a.
       req_str l ''op'' (\<lambda>op. req_str l ''decision'' (\<lambda>d.
         Some \<lparr>eo_seq = n, eo_ts = t, eo_actor = a, eo_op = op, eo_project = opt_str l ''project'',
               eo_keys = texts_of l ''keys'', eo_decision = d, eo_reason = opt_str l ''reason'',
               eo_run_id = opt_str l ''run_id'', eo_authenticated = opt_str l ''mac'' \<noteq> None\<rparr>)))))"

section \<open>Commands over the held session\<close>

text \<open>The shape they share: the credential, one request, and what the front end is given of the answer.\<close>

definition session_call ::
  "'s backend \<Rightarrow> app_state \<Rightarrow> string \<Rightarrow> json \<Rightarrow> (json \<Rightarrow> cmd_error + 'a) \<Rightarrow> ('s, 'a) dash_step" where
  "session_call T app op params shown s =
     try_bind (require_session_auth T app s) (\<lambda>auth s1.
       try_bind (dash_call T app op auth params s1) (\<lambda>v s2. (shown v, s2)))"

definition projects_list :: "'s backend \<Rightarrow> app_state \<Rightarrow> ('s, dash_out) dash_step" where
  "projects_list T app = session_call T app ''project.list'' (JObj [])
     (\<lambda>v. Inr (Projects (List.map_filter project_row (array_or_empty v ''projects''))))"

definition project_add_cmd :: "'s backend \<Rightarrow> app_state \<Rightarrow> string \<Rightarrow> string list \<Rightarrow> ('s, dash_out) dash_step" where
  "project_add_cmd T app name paths =
     session_call T app ''project.add'' (jobj [(''name'', JStr name), (''paths'', jstrs paths)])
       (\<lambda>v. Inr (Added (str_or_empty v ''added'')))"

definition project_remove_cmd :: "'s backend \<Rightarrow> app_state \<Rightarrow> string \<Rightarrow> ('s, dash_out) dash_step" where
  "project_remove_cmd T app name =
     session_call T app ''project.remove'' (jobj [(''name'', JStr name)])
       (\<lambda>v. Inr (Removed (str_or_empty v ''removed'')))"

definition project_path_add_cmd :: "'s backend \<Rightarrow> app_state \<Rightarrow> string \<Rightarrow> string \<Rightarrow> ('s, dash_out) dash_step" where
  "project_path_add_cmd T app name path =
     session_call T app ''project.path.add'' (jobj [(''name'', JStr name), (''path'', JStr path)])
       (\<lambda>v. Inr (Added (str_or_empty v ''added'')))"

definition project_path_remove_cmd :: "'s backend \<Rightarrow> app_state \<Rightarrow> string \<Rightarrow> string \<Rightarrow> ('s, dash_out) dash_step" where
  "project_path_remove_cmd T app name path =
     session_call T app ''project.path.remove'' (jobj [(''name'', JStr name), (''path'', JStr path)])
       (\<lambda>v. Inr (Removed (str_or_empty v ''removed'')))"

definition secrets_list_cmd :: "'s backend \<Rightarrow> app_state \<Rightarrow> string \<Rightarrow> ('s, dash_out) dash_step" where
  "secrets_list_cmd T app project =
     session_call T app ''secrets.list'' (jobj [(''project'', JStr project)])
       (\<lambda>v. Inr (Secrets (List.map_filter secret_row (array_or_empty v ''secrets''))))"

definition secret_set_cmd ::
  "'s backend \<Rightarrow> app_state \<Rightarrow> string \<Rightarrow> string \<Rightarrow> string \<Rightarrow> ('s, dash_out) dash_step" where
  "secret_set_cmd T app project key value =
     session_call T app ''secret.set''
       (jobj [(''project'', JStr project), (''key'', JStr key), (''value'', JStr value)])
       (\<lambda>v. Inr (Was_Set (str_or_empty v ''set'')))"

definition secret_delete_cmd :: "'s backend \<Rightarrow> app_state \<Rightarrow> string \<Rightarrow> string \<Rightarrow> ('s, dash_out) dash_step" where
  "secret_delete_cmd T app project key =
     session_call T app ''secret.delete'' (jobj [(''project'', JStr project), (''key'', JStr key)])
       (\<lambda>v. Inr (Deleted (str_or_empty v ''deleted'')))"

definition agents_list_cmd :: "'s backend \<Rightarrow> app_state \<Rightarrow> ('s, dash_out) dash_step" where
  "agents_list_cmd T app = session_call T app ''agents.list'' (JObj [])
     (\<lambda>v. Inr (Agents (List.map_filter agent_row (array_or_empty v ''agents''))))"

text \<open>The token of a new agent is in the answer; with a path it is first written to a new file, and when
  that fails the answer is the error, without the token.\<close>

definition token_file_error :: "vault_error \<Rightarrow> cmd_error" where
  "token_file_error e =
     (if e = Exists then \<lparr>ce_code = ''E_EXISTS'', ce_message = broker_message ''E_EXISTS''\<rparr>
      else from_vault_error e)"

definition deliver_token ::
  "'s backend \<Rightarrow> string option \<Rightarrow> string \<Rightarrow> string \<Rightarrow> ('s, dash_out) dash_step" where
  "deliver_token T token_path agent_id token s =
     (let shown = (\<lambda>saved. Inr (Agent_Added \<lparr>ao_agent_id = agent_id, ao_token = token, ao_token_saved_path = saved\<rparr>)) in
      case token_path of
        None \<Rightarrow> (shown None, s)
      | Some path \<Rightarrow>
          if path = [] then (shown None, s)
          else try_bind (apfst (map_err token_file_error) (bk_write_token T path token s)) (\<lambda>_ s1.
            (shown (Some path), s1)))"

definition agent_add_cmd ::
  "'s backend \<Rightarrow> app_state \<Rightarrow> string \<Rightarrow> string option \<Rightarrow> ('s, dash_out) dash_step" where
  "agent_add_cmd T app name token_path s =
     try_bind (session_call T app ''agents.add'' (jobj [(''name'', JStr name)])
         (\<lambda>v. Inr (str_or_empty v ''agent_id'', str_or_empty v ''token'')) s)
       (\<lambda>r. deliver_token T token_path (fst r) (snd r))"

definition agent_revoke_cmd :: "'s backend \<Rightarrow> app_state \<Rightarrow> string \<Rightarrow> ('s, dash_out) dash_step" where
  "agent_revoke_cmd T app name =
     session_call T app ''agents.revoke'' (jobj [(''name'', JStr name)])
       (\<lambda>v. Inr (Revoked (str_or_empty v ''revoked'')))"

definition grants_list_cmd :: "'s backend \<Rightarrow> app_state \<Rightarrow> ('s, dash_out) dash_step" where
  "grants_list_cmd T app = session_call T app ''grants.list'' (JObj [])
     (\<lambda>v. Inr (Grants (List.map_filter grant_row (array_or_empty v ''grants''))))"

definition grant_set_cmd ::
  "'s backend \<Rightarrow> app_state \<Rightarrow> string \<Rightarrow> string \<Rightarrow> string \<Rightarrow> ('s, dash_out) dash_step" where
  "grant_set_cmd T app agent project ops =
     session_call T app ''grants.grant''
       (jobj [(''agent'', JStr agent), (''project'', JStr project), (''ops'', JStr ops)])
       (\<lambda>v. Inr (Granted (str_or_empty v ''granted'')))"

definition grant_revoke_cmd :: "'s backend \<Rightarrow> app_state \<Rightarrow> string \<Rightarrow> string \<Rightarrow> ('s, dash_out) dash_step" where
  "grant_revoke_cmd T app agent project =
     session_call T app ''grants.revoke'' (jobj [(''agent'', JStr agent), (''project'', JStr project)])
       (\<lambda>v. Inr (Revoked (str_or_empty v ''revoked'')))"

definition approvals_pending_cmd :: "'s backend \<Rightarrow> app_state \<Rightarrow> ('s, dash_out) dash_step" where
  "approvals_pending_cmd T app = session_call T app ''approvals.pending'' (JObj [])
     (\<lambda>v. Inr (Approvals (List.map_filter approval_row (array_or_empty v ''approvals''))))"

definition approval_approve_cmd :: "'s backend \<Rightarrow> app_state \<Rightarrow> string \<Rightarrow> ('s, dash_out) dash_step" where
  "approval_approve_cmd T app approval_id =
     session_call T app ''approvals.approve'' (jobj [(''approval_id'', JStr approval_id)])
       (\<lambda>v. Inr (Decision (str_or_empty v ''approval_id'') (str_or_empty v ''status'')))"

definition approval_deny_cmd :: "'s backend \<Rightarrow> app_state \<Rightarrow> string \<Rightarrow> ('s, dash_out) dash_step" where
  "approval_deny_cmd T app approval_id =
     session_call T app ''approvals.deny'' (jobj [(''approval_id'', JStr approval_id)])
       (\<lambda>v. Inr (Decision (str_or_empty v ''approval_id'') (str_or_empty v ''status'')))"

definition reveal_cmd :: "'s backend \<Rightarrow> app_state \<Rightarrow> string \<Rightarrow> string \<Rightarrow> ('s, dash_out) dash_step" where
  "reveal_cmd T app project key =
     session_call T app ''reveal'' (jobj [(''project'', JStr project), (''key'', JStr key)])
       (\<lambda>v. map_sum id Revealed (ok_or malformed (opt_str v ''value'')))"

definition leases_list_cmd :: "'s backend \<Rightarrow> app_state \<Rightarrow> ('s, dash_out) dash_step" where
  "leases_list_cmd T app = session_call T app ''lease.list'' (JObj [])
     (\<lambda>v. map_sum id (\<lambda>arr. Leases (List.map_filter lease_row arr)) (ok_or malformed (opt_array v ''leases'')))"

definition lease_revoke_cmd :: "'s backend \<Rightarrow> app_state \<Rightarrow> string \<Rightarrow> ('s, dash_out) dash_step" where
  "lease_revoke_cmd T app lease_id =
     session_call T app ''lease.revoke'' (jobj [(''lease_id'', JStr lease_id)])
       (\<lambda>v. Inr (Lease_Revoked (str_or_empty v ''lease_id'') (bool_or False v ''revoked'')))"

definition runs_list_cmd :: "'s backend \<Rightarrow> app_state \<Rightarrow> ('s, dash_out) dash_step" where
  "runs_list_cmd T app = session_call T app ''runs.list'' (JObj [])
     (\<lambda>v. map_sum id (\<lambda>arr. Runs_Shown (List.map_filter run_row arr)) (ok_or malformed (opt_array v ''runs'')))"

definition next_cursor :: "json \<Rightarrow> cmd_error + nat option" where
  "next_cursor v =
     (case get_member v ''next_before_seq'' of
        None \<Rightarrow> Inr None
      | Some n \<Rightarrow> if is_null n then Inr None else map_sum id Some (ok_or malformed (as_u64 n)))"

definition audit_page :: "json \<Rightarrow> cmd_error + dash_out" where
  "audit_page v =
     res_bind (ok_or malformed (opt_array v ''entries'')) (\<lambda>arr.
       res_bind (next_cursor v) (\<lambda>cursor. Inr (Audit_Page (List.map_filter audit_row arr) cursor)))"

definition audit_show_params :: "nat \<Rightarrow> nat option \<Rightarrow> json" where
  "audit_show_params tail_len before_seq =
     jobj ((''tail'', jnat tail_len) # (case before_seq of None \<Rightarrow> [] | Some b \<Rightarrow> [(''before_seq'', jnat b)]))"

definition audit_show_cmd :: "'s backend \<Rightarrow> app_state \<Rightarrow> nat \<Rightarrow> nat option \<Rightarrow> ('s, dash_out) dash_step" where
  "audit_show_cmd T app tail_len before_seq s =
     (if \<not> (1 \<le> tail_len \<and> tail_len \<le> 1000)
      then (Inl \<lparr>ce_code = ''E_INVALID_INPUT'', ce_message = broker_message ''E_INVALID_INPUT''\<rparr>, s)
      else session_call T app ''audit.show'' (audit_show_params tail_len before_seq) audit_page s)"

definition audit_counters :: "json \<Rightarrow> cmd_error + dash_out" where
  "audit_counters v =
     res_bind (ok_or malformed (opt_u64 v ''entries'')) (\<lambda>n.
       res_bind (ok_or malformed (opt_u64 v ''macs_verified'')) (\<lambda>ok.
         res_bind (ok_or malformed (opt_u64 v ''macs_null'')) (\<lambda>nul.
           Inr (Audit_Verified \<lparr>av_entries = n, av_macs_verified = ok, av_macs_null = nul\<rparr>))))"

definition audit_verify_cmd :: "'s backend \<Rightarrow> app_state \<Rightarrow> ('s, dash_out) dash_step" where
  "audit_verify_cmd T app = session_call T app ''audit.verify'' (JObj []) audit_counters"

section \<open>The commands\<close>

definition COMMANDS :: "string list" where
  "COMMANDS =
     [''get_status'', ''pin_status'', ''probe_fingerprint'', ''unlock'', ''lock'', ''health'',
      ''overview_refresh'', ''projects_list'', ''project_add'', ''project_remove'', ''project_path_add'',
      ''project_path_remove'', ''secrets_list'', ''secret_set'', ''secret_delete'', ''agents_list'',
      ''agent_add'', ''agent_revoke'', ''grants_list'', ''grant_set'', ''grant_revoke'',
      ''approvals_pending'', ''approval_approve'', ''approval_deny'', ''reveal'', ''leases_list'',
      ''lease_revoke'', ''runs_list'', ''audit_show'', ''audit_verify'']"

datatype dash_cmd =
    Dash_Get_Status | Dash_Pin_Status | Dash_Probe_Fingerprint | Dash_Unlock string | Dash_Lock | Dash_Health
  | Dash_Overview_Refresh | Dash_Projects_List | Dash_Project_Add string "string list"
  | Dash_Project_Remove string | Dash_Project_Path_Add string string | Dash_Project_Path_Remove string string
  | Dash_Secrets_List string | Dash_Secret_Set string string string | Dash_Secret_Delete string string
  | Dash_Agents_List | Dash_Agent_Add string "string option" | Dash_Agent_Revoke string
  | Dash_Grants_List | Dash_Grant_Set string string string | Dash_Grant_Revoke string string
  | Dash_Approvals_Pending | Dash_Approval_Approve string | Dash_Approval_Deny string
  | Dash_Reveal string string | Dash_Leases_List | Dash_Lease_Revoke string | Dash_Runs_List
  | Dash_Audit_Show nat "nat option" | Dash_Audit_Verify

text \<open>The commands that leave the application's state alone.\<close>

fun read_command :: "'s backend \<Rightarrow> app_state \<Rightarrow> dash_cmd \<Rightarrow> ('s, dash_out) dash_step" where
  "read_command T app Dash_Get_Status s = apfst (\<lambda>st. Inr (Status st)) (get_status T app s)"
| "read_command T app Dash_Pin_Status s = apfst (map_sum id Pins) (pin_status T app s)"
| "read_command T app Dash_Probe_Fingerprint s = apfst (map_sum id Probe) (probe_fingerprint T app s)"
| "read_command T app Dash_Health s = apfst (map_sum id Raw) (dash_health T app s)"
| "read_command T app Dash_Overview_Refresh s = apfst (map_sum id Overview) (overview_refresh T app s)"
| "read_command T app Dash_Projects_List s = projects_list T app s"
| "read_command T app (Dash_Project_Add name paths) s = project_add_cmd T app name paths s"
| "read_command T app (Dash_Project_Remove name) s = project_remove_cmd T app name s"
| "read_command T app (Dash_Project_Path_Add name path) s = project_path_add_cmd T app name path s"
| "read_command T app (Dash_Project_Path_Remove name path) s = project_path_remove_cmd T app name path s"
| "read_command T app (Dash_Secrets_List project) s = secrets_list_cmd T app project s"
| "read_command T app (Dash_Secret_Set project key v) s = secret_set_cmd T app project key v s"
| "read_command T app (Dash_Secret_Delete project key) s = secret_delete_cmd T app project key s"
| "read_command T app Dash_Agents_List s = agents_list_cmd T app s"
| "read_command T app (Dash_Agent_Add name token_path) s = agent_add_cmd T app name token_path s"
| "read_command T app (Dash_Agent_Revoke name) s = agent_revoke_cmd T app name s"
| "read_command T app Dash_Grants_List s = grants_list_cmd T app s"
| "read_command T app (Dash_Grant_Set agent project ops) s = grant_set_cmd T app agent project ops s"
| "read_command T app (Dash_Grant_Revoke agent project) s = grant_revoke_cmd T app agent project s"
| "read_command T app Dash_Approvals_Pending s = approvals_pending_cmd T app s"
| "read_command T app (Dash_Approval_Approve i) s = approval_approve_cmd T app i s"
| "read_command T app (Dash_Approval_Deny i) s = approval_deny_cmd T app i s"
| "read_command T app (Dash_Reveal project key) s = reveal_cmd T app project key s"
| "read_command T app Dash_Leases_List s = leases_list_cmd T app s"
| "read_command T app (Dash_Lease_Revoke i) s = lease_revoke_cmd T app i s"
| "read_command T app Dash_Runs_List s = runs_list_cmd T app s"
| "read_command T app (Dash_Audit_Show n before) s = audit_show_cmd T app n before s"
| "read_command T app Dash_Audit_Verify s = audit_verify_cmd T app s"
| "read_command T app c s = (Inl malformed, s)"

definition dash_command ::
  "'s backend \<Rightarrow> dash_cmd \<Rightarrow> app_state \<Rightarrow> 's \<Rightarrow> (cmd_error + dash_out) \<times> app_state \<times> 's" where
  "dash_command T c app s =
     (case c of
        Dash_Unlock passphrase \<Rightarrow> apfst (map_sum id Unlocked) (dash_unlock T app passphrase s)
      | Dash_Lock \<Rightarrow> apfst (map_sum id Locked_Shown) (dash_lock T app s)
      | _ \<Rightarrow> (case read_command T app c s of (r, s1) \<Rightarrow> (r, app, s1)))"

text \<open>What the front end is told by a sequence of commands.\<close>

fun dash_session ::
  "'s backend \<Rightarrow> dash_cmd list \<Rightarrow> app_state \<Rightarrow> 's \<Rightarrow> (cmd_error + dash_out) list \<times> app_state \<times> 's" where
  "dash_session T [] app s = ([], app, s)"
| "dash_session T (c # cs) app s =
     (case dash_command T c app s of
        (r, app1, s1) \<Rightarrow> apfst (\<lambda>rs. r # rs) (dash_session T cs app1 s1))"

section \<open>Start-up and the window\<close>

text \<open>The socket of the environment, else the default one, else a path where no daemon listens.\<close>

definition dash_socket :: "process \<Rightarrow> string" where
  "dash_socket pr =
     (case (case env_var pr ''SVAULT_SOCKET'' of None \<Rightarrow> None | Some p \<Rightarrow> if p = [] then None else Some p) of
        Some p \<Rightarrow> p
      | None \<Rightarrow>
          (case default_socket_path pr of
             Inr p \<Rightarrow> p | Inl _ \<Rightarrow> ''/tmp/svault-no-socket-configured.sock''))"

definition new_app :: "string \<Rightarrow> app_state" where
  "new_app socket = \<lparr>ap_socket = socket, ap_session = None\<rparr>"

text \<open>Only the application's own scheme may be navigated to.\<close>

definition allow_navigation :: "string \<Rightarrow> bool" where
  "allow_navigation raw_url =
     (\<not> (case raw_url of [] \<Rightarrow> False | b # _ \<Rightarrow> (of_char b :: nat) \<le> 32)
      \<and> CHR '':'' \<in> set raw_url
      \<and> to_ascii_uppercase (takeWhile (\<lambda>c. c \<noteq> CHR '':'') raw_url) = ''TAURI'')"

section \<open>The backend over the library crate\<close>

text \<open>The state is the machine and the number of connections made; \<open>net\<close> gives the next ones.\<close>

type_synonym dash_world = "world \<times> nat"

definition library_backend ::
  "('z) crypto_lib_scheme \<Rightarrow> ('y) identity_lib_scheme \<Rightarrow> process \<Rightarrow> (nat \<Rightarrow> link) \<Rightarrow> dash_world backend" where
  "library_backend L E pr net =
     \<lparr>bk_call = (\<lambda>socket op auth params (w, n).
        case broker_call_with_auth L E pr (net n) socket op auth params w of (r, _, w1) \<Rightarrow> (r, (w1, Suc n))),
      bk_pin = (\<lambda>socket (w, n). apsnd (\<lambda>w1. (w1, n)) (load_pin L E pr socket w)),
      bk_live = (\<lambda>socket (w, n).
        apsnd (\<lambda>w1. (w1, Suc n)) (broker_fingerprint_live E (lk_connect (net n)) w)),
      bk_write_token = (\<lambda>path token (w, n). apsnd (\<lambda>w1. (w1, n)) (write_token_file path token w))\<rparr>"

end
