(* ===== verification/DashboardTheorems.thy ===== *)
theory DashboardTheorems
  imports DashboardOps ClientTheorems
begin

text \<open>
  What the dashboard tells its front end when something fails: the fixed text of the error's code and nothing
  else. At the end: what the closing window, the enrolment of an agent and the overview do not keep, and
  where the webview may go.
\<close>

section \<open>Fixed messages\<close>

definition fixed_message :: "cmd_error \<Rightarrow> bool" where
  "fixed_message e \<longleftrightarrow> ce_message e = broker_message (ce_code e)"

definition fixed :: "(cmd_error + 'a) \<times> 's \<Rightarrow> bool" where
  "fixed m \<longleftrightarrow> (\<forall>e. fst m = Inl e \<longrightarrow> fixed_message e)"

definition odd_messages :: "vault_error set" where
  "odd_messages = {HumanRequired, Exists, VaultTooLarge}"

lemma fixed_vault_error: "e \<notin> odd_messages \<Longrightarrow> fixed_message (from_vault_error e)"
  by (cases e) (simp_all add: odd_messages_def fixed_message_def from_vault_error_def broker_message_def message_table_def)

lemma fixed_broker_error [simp]: "fixed_message (from_broker_error e)"
  by (simp add: fixed_message_def from_broker_error_def)

lemma fixed_constants [simp]: "fixed_message malformed" "fixed_message session_expired"
    "fixed_message \<lparr>ce_code = ''E_AUTH'', ce_message = ''authentication failed''\<rparr>"
    "fixed_message \<lparr>ce_code = c, ce_message = broker_message c\<rparr>"
  by (simp_all add: fixed_message_def malformed_def session_expired_def broker_message_def message_table_def)

lemma fixed_simps [simp]: "fixed (Inr x, s)" "fixed (Inl e, s) \<longleftrightarrow> fixed_message e"
  by (simp_all add: fixed_def)

lemma fixed_try_bind [intro]: "fixed m \<Longrightarrow> (\<And>x s. fixed (k x s)) \<Longrightarrow> fixed (try_bind m k)"
  by (cases m; cases "fst m") auto

lemma fixed_apfst [simp]: "fixed (apfst (map_sum id f) m) = fixed m" "fixed (apfst (\<lambda>x. Inr (f x)) m')"
  by (cases m; cases "fst m"; simp add: fixed_def) (simp add: fixed_def)

lemma fixed_dash_call [simp]: "fixed (dash_call T app op auth params s)"
  by (auto simp: fixed_def dash_call_def map_err_def split: sum.splits)

lemma fixed_call_error: "dash_call T app op auth params s = (Inl e, s') \<Longrightarrow> fixed_message e"
  using fixed_dash_call [of T app op auth params s] by (simp add: fixed_def del: fixed_dash_call)

lemma fixed_require_session [simp]: "fixed (require_session_auth T app s)"
  by (auto simp: require_session_auth_def split: option.split)

lemma fixed_session_call:
  assumes "\<And>v e. shown v = Inl e \<Longrightarrow> fixed_message e"
  shows "fixed (session_call T app op params shown s)"
proof -
  have "fixed (shown v, s)" for v s using assms by (simp add: fixed_def)
  then show ?thesis unfolding session_call_def by (intro fixed_try_bind) simp_all
qed

text \<open>The library crate's own errors on the way to the front end.\<close>

locale plain_backend =
  fixes T :: "'s backend"
  assumes pin: "bk_pin T socket s = (Inl e, s') \<Longrightarrow> e \<notin> odd_messages"
    and live: "bk_live T socket s = (Inl e, s') \<Longrightarrow> e \<notin> odd_messages"
    and write_token: "bk_write_token T path token s = (Inl e, s') \<Longrightarrow> e \<notin> odd_messages - {Exists}"
begin

lemma fixed_pin: "fixed (pin_fingerprint T app s)"
  using pin [of "ap_socket app" s]
  by (cases "bk_pin T (ap_socket app) s"; cases "fst (bk_pin T (ap_socket app) s)")
    (auto simp: pin_fingerprint_def fixed_vault_error)

lemma fixed_pin_status: "fixed (pin_status T app s)"
  unfolding pin_status_def
proof (rule fixed_try_bind [OF fixed_pin])
  fix fp s1
  show "fixed (apfst (map_err from_vault_error \<circ> map_sum id (\<lambda>p. \<lparr>ps_pinned = p \<noteq> None, ps_fingerprint = fp\<rparr>))
      (bk_pin T (ap_socket app) s1))"
    using pin [of "ap_socket app" s1]
    by (cases "bk_pin T (ap_socket app) s1"; cases "fst (bk_pin T (ap_socket app) s1)") (auto simp: fixed_vault_error)
qed

lemma fixed_probe: "fixed (probe_fingerprint T app s)"
proof -
  have p: "e \<notin> odd_messages" if "parse_fingerprint k = Inl e" for k e
    using that by (auto simp: parse_fingerprint_def odd_messages_def ok_or_def split: if_splits option.splits)
  obtain r s1 where b: "bk_live T (ap_socket app) s = (r, s1)" by force
  show ?thesis
  proof (cases r)
    case (Inl e)
    with b live [of "ap_socket app" s e s1] show ?thesis by (simp add: probe_fingerprint_def fixed_vault_error)
  next
    case (Inr k)
    with b p show ?thesis by (cases "parse_fingerprint k") (auto simp: probe_fingerprint_def fixed_vault_error)
  qed
qed

lemma fixed_token_file: "fixed (apfst (map_err token_file_error) (bk_write_token T path token s))"
  using write_token [of path token s]
  by (cases "bk_write_token T path token s"; cases "fst (bk_write_token T path token s)")
    (auto simp: token_file_error_def fixed_vault_error)


lemma fixed_agent_add: "fixed (agent_add_cmd T app name token_path s)"
proof -
  have "fixed (deliver_token T token_path agent_id token s1)" for agent_id token s1
    by (auto simp: deliver_token_def Let_def split: option.split intro: fixed_token_file)
  then show ?thesis unfolding agent_add_cmd_def by (intro fixed_try_bind fixed_session_call) auto
qed

lemma fixed_optional_call: "fixed (optional_call T app op auth params s)"
  using fixed_dash_call [of T app op auth params s]
  by (auto simp: optional_call_def optional_answer_def fixed_def split: sum.splits if_splits)

lemma fixed_sum_secrets: "fixed (sum_secrets T app auth names t s)"
  by (induction names arbitrary: t s) (auto split: option.split intro!: fixed_try_bind fixed_optional_call)

lemma fixed_overview: "fixed (overview_refresh T app s)"
proof -
  have "fixed (secrets_total T app auth names s)" for auth names s
    by (auto simp: secrets_total_def split: option.split intro!: fixed_try_bind fixed_sum_secrets)
  then show ?thesis
    by (auto simp: overview_refresh_def overview_of_status_def counted_overview_def Let_def split: option.split prod.split
        intro!: fixed_try_bind fixed_optional_call)
qed

lemma fixed_session_commands:
  "fixed (projects_list T app s)" "fixed (project_add_cmd T app n ps s)" "fixed (project_remove_cmd T app n s)"
  "fixed (project_path_add_cmd T app n p s)" "fixed (project_path_remove_cmd T app n p s)"
  "fixed (secrets_list_cmd T app n s)" "fixed (secret_set_cmd T app n k v s)" "fixed (secret_delete_cmd T app n k s)"
  "fixed (agents_list_cmd T app s)" "fixed (agent_revoke_cmd T app n s)" "fixed (grants_list_cmd T app s)"
  "fixed (grant_set_cmd T app n p k s)" "fixed (grant_revoke_cmd T app n p s)" "fixed (approvals_pending_cmd T app s)"
  "fixed (approval_approve_cmd T app n s)" "fixed (approval_deny_cmd T app n s)" "fixed (reveal_cmd T app n k s)"
  "fixed (leases_list_cmd T app s)" "fixed (lease_revoke_cmd T app n s)" "fixed (runs_list_cmd T app s)"
  "fixed (audit_verify_cmd T app s)"
  unfolding projects_list_def project_add_cmd_def project_remove_cmd_def project_path_add_cmd_def
    project_path_remove_cmd_def secrets_list_cmd_def secret_set_cmd_def secret_delete_cmd_def agents_list_cmd_def
    agent_revoke_cmd_def grants_list_cmd_def grant_set_cmd_def grant_revoke_cmd_def approvals_pending_cmd_def
    approval_approve_cmd_def approval_deny_cmd_def reveal_cmd_def leases_list_cmd_def lease_revoke_cmd_def
    runs_list_cmd_def audit_verify_cmd_def
  by (rule fixed_session_call;
      auto simp: audit_counters_def res_bind_def ok_or_def split: option.splits sum.splits)+

lemma fixed_audit_show: "fixed (audit_show_cmd T app n before s)"
  unfolding audit_show_cmd_def
  by (auto simp: audit_page_def next_cursor_def res_bind_def ok_or_def split: option.splits sum.splits if_splits
      intro!: fixed_session_call)

lemma fixed_read_command: "fixed (read_command T app c s)"
  by (cases c) (auto simp: dash_health_def fixed_session_commands fixed_audit_show fixed_agent_add fixed_overview
      fixed_probe fixed_pin_status)

lemma fixed_unlock: "fst (dash_unlock T app passphrase s) = Inl e \<Longrightarrow> fixed_message e"
  by (auto simp: dash_unlock_def dest: fixed_call_error split: prod.splits sum.splits if_splits)

lemma fixed_lock: "fst (dash_lock T app s) = Inl e \<Longrightarrow> fixed_message e"
  by (auto simp: dash_lock_def dest: fixed_call_error split: prod.splits sum.splits if_splits)

lemma fixed_dash_command:
  assumes "fst (dash_command T c app s) = Inl e"
  shows "fixed_message e"
proof -
  have u: "fixed_message e" if "map_sum id f r = Inl e" "\<And>e. r = Inl e \<Longrightarrow> fixed_message e"
    for f :: "'x \<Rightarrow> dash_out" and r using that by (cases r) simp_all
  have r: "fixed_message e" if "fst (case read_command T app c s of (r, s1) \<Rightarrow> (r, app, s1)) = Inl e"
    using that fixed_read_command [of app c s] by (cases "read_command T app c s") (simp add: fixed_def)
  show ?thesis
    using assms r u [OF _ fixed_unlock] u [OF _ fixed_lock]
    by (cases c) (auto simp: dash_command_def)
qed

end

text \<open>The library crate, as it is modelled, is such a backend.\<close>

lemma random_bytes_io: "random_bytes n w = (Inl e, w') \<Longrightarrow> \<exists>io. e = Io io"
  by (auto simp: random_bytes_def Let_def split: if_splits)

lemma read_line_plain: "fst (read_line_bounded buf st) = Inl e \<Longrightarrow> e \<notin> odd_messages"
  by (induction buf st rule: read_line_bounded.induct) (auto simp: odd_messages_def Let_def split: if_splits)

lemma read_response_plain: "fst (read_response E st) = Inl e \<Longrightarrow> e \<notin> odd_messages"
  using read_line_plain [of "[]" st e]
  by (auto simp: read_response_def try_bind_def odd_messages_def split: sum.splits option.splits if_splits)

lemma challenge_plain: "fst (challenge mk_line peer w) = Inl e \<Longrightarrow> \<exists>io. e = Io io"
  by (auto simp: challenge_def Let_def map_err_def dest: random_bytes_io split: prod.splits sum.splits)

lemma load_pin_plain: "load_pin L E pr socket w = (Inl e, w') \<Longrightarrow> e \<notin> odd_messages"
proof -
  have r: "read_pin E pr socket bytes = Inl e \<Longrightarrow> e \<notin> odd_messages" for bytes
    by (auto simp: read_pin_def corrupt_pin_def odd_messages_def split: if_splits option.splits)
  have p: "pin_path L pr socket = Inl e \<Longrightarrow> e \<notin> odd_messages"
    by (auto simp: pin_path_def pin_dir_def odd_messages_def Let_def res_bind_def split: if_splits option.splits sum.splits)
  show "load_pin L E pr socket w = (Inl e, w') \<Longrightarrow> e \<notin> odd_messages"
    using r p by (auto simp: load_pin_def try_bind_def res_bind_def io_failed_def odd_messages_def
        split: sum.splits option.splits if_splits)
qed

lemma fingerprint_live_plain:
  assumes "broker_fingerprint_live E connect w = (Inl e, w')"
  shows "e \<notin> odd_messages"
proof (cases connect)
  case (Inl io)
  with assms show ?thesis by (auto simp: broker_fingerprint_live_def odd_messages_def)
next
  case (Inr peer)
  obtain r sent w1 where c: "challenge (hello_request_line E) peer w = (r, sent, w1)" by (metis prod_cases3)
  show ?thesis
  proof (cases r)
    case (Inl e')
    with c Inr assms challenge_plain [of "hello_request_line E" peer w e'] show ?thesis
      by (auto simp: broker_fingerprint_live_def odd_messages_def)
  next
    case (Inr x)
    with c \<open>connect = Inr peer\<close> assms read_response_plain [of E] show ?thesis
      by (cases x)
        (auto simp: broker_fingerprint_live_def res_bind_def ok_or_def odd_messages_def
          split: sum.splits option.splits if_splits)
  qed
qed

lemma write_token_file_plain: "write_token_file path token w = (Inl e, w') \<Longrightarrow> e \<notin> odd_messages - {Exists}"
  by (auto simp: write_token_file_def ensure_private_dir_def io_failed_def odd_messages_def Let_def
      split: if_splits option.splits)

interpretation lib: plain_backend "library_backend L E pr net" for L E pr net
proof
  fix socket e path token and s s' :: dash_world
  obtain w n where s: "s = (w, n)" by force
  show "e \<notin> odd_messages" if "bk_pin (library_backend L E pr net) socket s = (Inl e, s')"
    using that load_pin_plain [of L E pr socket w e]
    by (cases "load_pin L E pr socket w") (auto simp: library_backend_def s)
  show "e \<notin> odd_messages" if "bk_live (library_backend L E pr net) socket s = (Inl e, s')"
    using that fingerprint_live_plain [of E "lk_connect (net n)" w e]
    by (cases "broker_fingerprint_live E (lk_connect (net n)) w") (auto simp: library_backend_def s)
  show "e \<notin> odd_messages - {Exists}" if "bk_write_token (library_backend L E pr net) path token s = (Inl e, s')"
    using that write_token_file_plain [of path token w e]
    by (cases "write_token_file path token w") (auto simp: library_backend_def s)
qed

text \<open>C39: Whatever fails, the front end is shown the fixed message of the error's code: for every command, every
  state of the application and every behaviour of broker and system, the text is a function of the
  code, so that no path, no text of the broker or of the operating system and no secret is in it.\<close>

theorem dashboard_messages_fixed:
  assumes "fst (dash_command (library_backend L E pr net) c app s) = Inl e"
  shows "ce_message e = broker_message (ce_code e)"
  using lib.fixed_dash_command [OF assms] by (simp add: fixed_message_def)

theorem dashboard_messages_fixed_witness:
  "\<exists>e. fst (dash_command (library_backend toy_broker toy_identity toy_process (\<lambda>_. toy_link\<lparr>lk_connect := Inl (Io_Error (Some 2) ''/run/secret'')\<rparr>))
      Dash_Projects_List (new_app ''/s'') (toy_client_world, 0)) = Inl e
    \<and> ce_code e = ''E_IO'' \<and> ce_message e = broker_message (ce_code e)"
proof -
  let ?m = "fst (dash_command (library_backend toy_broker toy_identity toy_process (\<lambda>_. toy_link\<lparr>lk_connect := Inl (Io_Error (Some 2) ''/run/secret'')\<rparr>))
      Dash_Projects_List (new_app ''/s'') (toy_client_world, 0))"
  have "\<exists>e. ?m = Inl e \<and> ce_code e = ''E_IO''"
    by (simp add: dash_command_def projects_list_def session_call_def require_session_auth_def session_auth_def
        new_app_def dash_call_def library_backend_def broker_call_with_auth_def broker_io_def from_broker_error_def)
  then obtain e where e: "?m = Inl e" "ce_code e = ''E_IO''" by blast
  from dashboard_messages_fixed [OF e(1)] e show ?thesis by blast
qed

section \<open>Where the backend falls short\<close>

text \<open>Whatever the broker answers to the lock of a closing window, in time is taken for locked.\<close>

lemma refused_close_counts_as_locked:
  "ap_session app = Some c \<Longrightarrow> fst (close_window T True True app s) = Some True"
  by (simp add: close_window_def take_session_def shutdown_lock_def)

lemma close_drops_session: "ap_session (fst (snd (close_window T spawned in_time app s))) = None"
  by (auto simp: close_window_def take_session_def forget_session_def split: option.split prod.split)

text \<open>The agent is enrolled, its token is neither shown nor stored.\<close>

lemma enrolled_token_lost:
  assumes "session_call T app ''agents.add'' (jobj [(''name'', JStr name)])
      (\<lambda>v. Inr (str_or_empty v ''agent_id'', str_or_empty v ''token'')) s = (Inr (i, token), s1)"
    and "bk_write_token T path token s1 = (Inl e, s2)" and "path \<noteq> []"
  shows "agent_add_cmd T app name (Some path) s = (Inl (token_file_error e), s2)"
  using assms by (simp add: agent_add_cmd_def deliver_token_def Let_def)

lemma missing_projects_count_as_zero:
  "secrets_total T app auth (Some (names_of (JObj []))) s = (Inr (Some 0, True), s)"
  by (simp add: secrets_total_def names_of_def array_or_empty_def opt_array_def map_filter_simps)

text \<open>The webview may go only where the scheme is the application's, in any case.\<close>

lemma scheme_letter: "32 < (of_char c :: nat) \<and> c \<noteq> CHR '':''" if "ascii_upper c \<in> set ''TAURI''" for c
  proof (cases "ascii_upper c = c")
    case True
    with that have "c \<in> set ''TAURI''" by (simp only:)
    then have "c = CHR ''T'' \<or> c = CHR ''A'' \<or> c = CHR ''U'' \<or> c = CHR ''R'' \<or> c = CHR ''I''" by simp
    then show ?thesis by (elim disjE) simp_all
  next
    case False
    then have "97 \<le> (of_char c :: nat)" by (simp add: ascii_upper_def Let_def split: if_splits)
    then show ?thesis by auto
  qed

lemma allowed_scheme:
  assumes "allow_navigation url"
  shows "\<exists>scheme rest. url = scheme @ CHR '':'' # rest \<and> to_ascii_uppercase scheme = ''TAURI''"
proof -
  have "CHR '':'' \<in> set url" using assms by (simp add: allow_navigation_def)
  then have "url = takeWhile (\<lambda>c. c \<noteq> CHR '':'') url @ CHR '':'' # List.tl (dropWhile (\<lambda>c. c \<noteq> CHR '':'') url)"
    by (induction url) auto
  moreover have "to_ascii_uppercase (takeWhile (\<lambda>c. c \<noteq> CHR '':'') url) = ''TAURI''" using assms by (simp only: allow_navigation_def)
  ultimately show ?thesis by (intro exI conjI)
qed

lemma scheme_allowed:
  assumes u: "url = scheme @ CHR '':'' # rest" and s: "to_ascii_uppercase scheme = ''TAURI''"
  shows "allow_navigation url"
proof -
  have ne: "\<forall>c\<in>set scheme. 32 < (of_char c :: nat) \<and> c \<noteq> CHR '':''"
  proof
    fix c assume "c \<in> set scheme"
    then have "ascii_upper c \<in> set (to_ascii_uppercase scheme)" by (simp add: to_ascii_uppercase_def)
    with s show "32 < (of_char c :: nat) \<and> c \<noteq> CHR '':''" by (intro scheme_letter) (simp only:)
  qed
  then have tw: "takeWhile (\<lambda>c. c \<noteq> CHR '':'') url = scheme" by (simp add: u takeWhile_append2)
  have nb: "\<not> (case url of [] \<Rightarrow> False | b # _ \<Rightarrow> (of_char b :: nat) \<le> 32)" using ne by (cases scheme) (simp_all add: u)
  have "CHR '':'' \<in> set url" by (simp add: u)
  with tw s nb show "allow_navigation url" unfolding allow_navigation_def by (simp only: simp_thms)
qed

lemma allow_navigation_iff:
  "allow_navigation url \<longleftrightarrow> (\<exists>scheme rest. url = scheme @ CHR '':'' # rest \<and> to_ascii_uppercase scheme = ''TAURI'')"
  using allowed_scheme scheme_allowed by blast

end
