(* ===== verification/DashboardWire.thy ===== *)
theory DashboardWire
  imports DashboardOps
begin

text \<open>
  The requests of the dashboard. A backend is observed by one that keeps a record of every request with
  its answer; on these records is stated which credential goes with which operation, how many
  requests a command makes, and what the overview's counters are counted from.
\<close>

section \<open>Observed backends\<close>

type_synonym dash_entry = "string \<times> auth \<times> json \<times> (broker_error + json)"

definition recording :: "'s backend \<Rightarrow> ('s \<times> dash_entry list) backend" where
  "recording T =
     \<lparr>bk_call = (\<lambda>socket op auth params (s, log).
        case bk_call T socket op auth params s of (r, s1) \<Rightarrow> (r, (s1, log @ [(op, auth, params, r)]))),
      bk_pin = (\<lambda>socket (s, log). apsnd (\<lambda>s1. (s1, log)) (bk_pin T socket s)),
      bk_live = (\<lambda>socket (s, log). apsnd (\<lambda>s1. (s1, log)) (bk_live T socket s)),
      bk_write_token = (\<lambda>path token (s, log). apsnd (\<lambda>s1. (s1, log)) (bk_write_token T path token s))\<rparr>"

text \<open>At most \<open>n\<close> requests, each of them as \<open>P\<close> says.\<close>

definition logs :: "nat \<Rightarrow> (dash_entry \<Rightarrow> bool) \<Rightarrow> ('s \<times> dash_entry list \<Rightarrow> 'r \<times> 's \<times> dash_entry list) \<Rightarrow> bool" where
  "logs n P m \<longleftrightarrow>
     (\<forall>s log. \<exists>es. snd (snd (m (s, log))) = log @ es \<and> length es \<le> n \<and> (\<forall>e\<in>set es. P e))"

lemma logs_mono: "logs n P m \<Longrightarrow> n \<le> k \<Longrightarrow> logs k P m"
  unfolding logs_def by (meson order_trans)

lemma logs_pure: "logs n P (\<lambda>s. (x, s))"
  by (simp add: logs_def)

lemma logs_case:
  assumes "logs n P m" and "\<And>r. logs k P (f r)"
  shows "logs (n + k) P (\<lambda>s. case m s of (r, s1) \<Rightarrow> f r s1)"
  unfolding logs_def
proof (intro allI)
  fix s log
  obtain r s1 log1 where m: "m (s, log) = (r, s1, log1)" by (metis prod_cases3)
  with assms(1) obtain es where es: "log1 = log @ es" "length es \<le> n" "\<forall>e\<in>set es. P e"
    unfolding logs_def by (metis snd_conv)
  from assms(2) [of r] obtain fs where "snd (snd (f r (s1, log1))) = log1 @ fs" "length fs \<le> k" "\<forall>e\<in>set fs. P e"
    unfolding logs_def by metis
  with m es show "\<exists>es. snd (snd (case m (s, log) of (r, s1) \<Rightarrow> f r s1)) = log @ es \<and> length es \<le> n + k \<and> (\<forall>e\<in>set es. P e)"
    by (intro exI [of _ "es @ fs"]) auto
qed

lemma logs_bind:
  assumes "logs n P m" and "\<And>x. logs k P (f x)"
  shows "logs (n + k) P (\<lambda>s. try_bind (m s) f)"
proof -
  have "logs (n + k) P (\<lambda>s. case m s of (r, s1) \<Rightarrow> case r of Inl e \<Rightarrow> (Inl e, s1) | Inr x \<Rightarrow> f x s1)"
  proof (rule logs_case [OF assms(1)])
    fix r
    show "logs k P (\<lambda>s1. case r of Inl e \<Rightarrow> (Inl e, s1) | Inr x \<Rightarrow> f x s1)"
      by (cases r) (simp_all add: logs_pure assms(2))
  qed
  then show ?thesis by (simp add: try_bind_def case_prod_beta)
qed

lemma logs_bind_pure: "logs n P m \<Longrightarrow> logs n P (\<lambda>s. try_bind (m s) (\<lambda>x s1. (g x, s1)))"
  using logs_bind [of n P m 0 "\<lambda>x s1. (g x, s1)", OF _ logs_pure] by simp

lemma logs_if: "logs n P m \<Longrightarrow> logs n P m' \<Longrightarrow> logs n P (\<lambda>s. if b then m s else m' s)"
  by (cases b) simp_all

lemma logs_apfst: "logs n P m \<Longrightarrow> logs n P (\<lambda>s. apfst f (m s))"
  by (simp add: logs_def)

lemma logs_call:
  assumes "\<And>r. P (op, auth, params, r)"
  shows "logs (Suc 0) P (dash_call (recording T) app op auth params)"
  unfolding logs_def dash_call_def recording_def using assms by (simp split: prod.split)

lemma logs_silent:
  "logs 0 P (bk_pin (recording T) so)" "logs 0 P (bk_live (recording T) so)"
  "logs 0 P (bk_write_token (recording T) path token)"
  by (simp_all add: logs_def recording_def)

lemma logs_posture:
  "logs 0 P (pin_fingerprint (recording T) app)" "logs 0 P (is_pinned (recording T) app)"
  "logs 0 P (known_fingerprint (recording T) app)" "logs 0 P (pinned_posture (recording T) app)"
proof -
  show p: "logs 0 P (pin_fingerprint (recording T) app)" "logs 0 P (is_pinned (recording T) app)"
    unfolding pin_fingerprint_def is_pinned_def by (intro logs_apfst logs_silent)+
  show k: "logs 0 P (known_fingerprint (recording T) app)"
    unfolding known_fingerprint_def by (intro logs_apfst p)
  have "logs (0 + 0) P (\<lambda>s. case is_pinned (recording T) app s of (p, s1) \<Rightarrow>
      if p then case known_fingerprint (recording T) app s1 of (fp, s2) \<Rightarrow> ((True, fp), s2) else ((False, None), s1))"
  proof (rule logs_case [OF p(2)])
    fix r
    show "logs 0 P (\<lambda>s. if r then case known_fingerprint (recording T) app s of (fp, s2) \<Rightarrow> ((True, fp), s2)
        else ((False, None), s))"
      using logs_case [OF k logs_pure, of 0 "\<lambda>fp. (True, fp)"] by (cases r) (simp_all add: logs_pure)
  qed
  then show "logs 0 P (pinned_posture (recording T) app)" by (simp add: pinned_posture_def [abs_def])
qed

lemma logs_status:
  assumes "\<And>r. P (''vault.status'', NoAuth, JObj [], r)"
  shows "logs (Suc 0) P (get_status (recording T) app)"
proof -
  have "logs 0 P (status_of (recording T) app r)" for r
    unfolding status_of_def [abs_def]
    by (cases r) (simp_all only: sum.case, (intro logs_if logs_apfst logs_posture logs_pure)+)
  from logs_case [OF logs_call [where P = P, OF assms] this] show ?thesis by (simp add: get_status_def [abs_def])
qed

lemma logs_optional:
  assumes "\<And>r. P (op, auth, params, r)"
  shows "logs (Suc 0) P (optional_call (recording T) app op auth params)"
  unfolding optional_call_def [abs_def] by (intro logs_apfst logs_call assms)

lemma logs_sum_secrets:
  assumes "\<And>name r. P (''secrets.list'', auth, jobj [(''project'', JStr name)], r)"
  shows "logs (length names) P (sum_secrets (recording T) app auth names t)"
proof (induction names arbitrary: t)
  case Nil
  show ?case by (simp add: logs_pure sum_secrets.simps(1) [abs_def])
next
  case (Cons name names)
  have "logs (length names) P (\<lambda>s. case Option.bind q (\<lambda>v. opt_array v ''secrets'') of
         None \<Rightarrow> (Inr None, s)
       | Some arr \<Rightarrow> sum_secrets (recording T) app auth names (t + length arr) s)" for q
    using Cons by (cases "Option.bind q (\<lambda>v. opt_array v ''secrets'')") (simp_all add: logs_pure)
  from logs_bind [OF logs_optional [where P = P, OF assms] this] show ?case
    by (simp add: sum_secrets.simps(2) [abs_def])
qed

section \<open>The requests of a command\<close>

lemma logs_session_call:
  assumes "\<And>r. ap_session app = None \<Longrightarrow> P (''vault.status'', NoAuth, JObj [], r)"
    and "\<And>c r. ap_session app = Some c \<Longrightarrow> P (op, SessionAuth c, params, r)"
  shows "logs (Suc 0) P (session_call (recording T) app op params shown)"
proof (cases "ap_session app")
  case None
  then have "session_call (recording T) app op params shown
    = (\<lambda>s. try_bind (dash_call (recording T) app ''vault.status'' NoAuth (JObj []) s) (\<lambda>_ s. (Inl session_expired, s)))"
    by (auto simp: session_call_def require_session_auth_def session_auth_def try_bind_def split: sum.split)
  with logs_bind_pure [OF logs_call [where P = P, OF assms(1) [OF None]]] show ?thesis by simp
next
  case (Some c)
  then have "session_call (recording T) app op params shown
    = (\<lambda>s. try_bind (dash_call (recording T) app op (SessionAuth c) params s) (\<lambda>v s. (shown v, s)))"
    by (auto simp: session_call_def require_session_auth_def session_auth_def)
  with logs_bind_pure [OF logs_call [where P = P, OF assms(2) [OF Some]]] show ?thesis by simp
qed

text \<open>The operations that a held session is used for.\<close>

definition session_ops :: "string list" where
  "session_ops =
     [''project.list'', ''project.add'', ''project.remove'', ''project.path.add'', ''project.path.remove'',
      ''secrets.list'', ''secret.set'', ''secret.delete'', ''agents.list'', ''agents.add'', ''agents.revoke'',
      ''grants.list'', ''grants.grant'', ''grants.revoke'', ''approvals.pending'', ''approvals.approve'',
      ''approvals.deny'', ''reveal'', ''lease.list'', ''lease.revoke'', ''runs.list'', ''audit.show'',
      ''audit.verify'', ''vault.health'', ''vault.lock'']"

fun right_credential :: "app_state \<Rightarrow> dash_cmd \<Rightarrow> dash_entry \<Rightarrow> bool" where
  "right_credential app c (op, NoAuth, params, r) \<longleftrightarrow>
     op = ''vault.status'' \<or> op \<in> {''vault.lock'', ''vault.health''} \<and> ap_session app = None"
| "right_credential app c (op, SessionAuth cred, params, r) \<longleftrightarrow>
     ap_session app = Some cred \<and> op \<in> set session_ops"
| "right_credential app c (op, auth.Passphrase p, params, r) \<longleftrightarrow> op = ''vault.unlock'' \<and> c = Dash_Unlock p"
| "right_credential app c (op, AgentToken token, params, r) \<longleftrightarrow> False"

lemma logs_session:
  assumes "op \<in> set session_ops"
  shows "logs (Suc 0) (right_credential app c) (session_call (recording T) app op params shown)"
  by (rule logs_session_call) (use assms in simp_all)

lemma logs_held:
  assumes "op \<in> {''vault.lock'', ''vault.health''}"
  shows "logs (Suc 0) (right_credential app c) (dash_call (recording T) app op (held_or_none app) params)"
  by (rule logs_call) (use assms in \<open>auto simp: held_or_none_def session_auth_def session_ops_def split: option.split\<close>)

lemma logs_overview:
  "logs 54 (right_credential app c) (overview_refresh (recording T) app)"
proof -
  let ?P = "right_credential app c"
  have st: "logs (Suc 0) ?P (get_status (recording T) app)" by (rule logs_status) simp
  have part: "logs (Suc 0) ?P (optional_call (recording T) app op (SessionAuth cred) params)"
    if "ap_session app = Some cred" "op \<in> set session_ops" for op cred params
    by (rule logs_optional) (use that in simp)
  have sec: "logs 50 ?P (secrets_total (recording T) app (SessionAuth cred) names)"
    if "ap_session app = Some cred" for cred names
  proof (cases names)
    case None
    then show ?thesis by (simp add: secrets_total_def [abs_def] logs_pure)
  next
    case (Some ns)
    have "logs 50 ?P (sum_secrets (recording T) app (SessionAuth cred) (take OVERVIEW_SECRETS_PROJECT_CAP ns) 0)"
      by (rule logs_mono [OF logs_sum_secrets]) (use that in \<open>simp_all add: session_ops_def OVERVIEW_SECRETS_PROJECT_CAP_def\<close>)
    from logs_bind_pure [OF this] Some show ?thesis by (simp add: secrets_total_def [abs_def])
  qed
  have counted: "logs 53 ?P (counted_overview (recording T) app st held (SessionAuth cred))"
    if "ap_session app = Some cred" for st held cred
  proof -
    have "logs (Suc 0 + (Suc 0 + (Suc 0 + 50))) ?P (counted_overview (recording T) app st held (SessionAuth cred))"
      unfolding counted_overview_def [abs_def]
      by (intro logs_bind logs_bind_pure part sec that) (simp_all add: session_ops_def)
    then show ?thesis by simp
  qed
  have k: "logs 53 ?P (overview_of_status (recording T) app st)" for st
    using counted [of _ st True]
    by (cases "ap_session app") (auto simp: overview_of_status_def [abs_def] session_auth_def logs_pure intro!: logs_if)
  show ?thesis using logs_case [OF st k] by (simp add: overview_refresh_def [abs_def])
qed

lemma logs_map: "logs n P m \<Longrightarrow> logs n P (\<lambda>s. apfst (map_sum id f) (m s))"
  by (rule logs_apfst)

lemma logs_local:
  "logs n P (pin_status (recording T) app)" "logs n P (probe_fingerprint (recording T) app)"
proof -
  have "logs (0 + 0) P (pin_status (recording T) app)"
    unfolding pin_status_def [abs_def] by (intro logs_bind logs_posture logs_apfst logs_silent)
  then show "logs n P (pin_status (recording T) app)" by (rule logs_mono) simp
  have "logs (0 + 0) P (probe_fingerprint (recording T) app)"
    unfolding probe_fingerprint_def [abs_def] by (intro logs_case logs_silent logs_pure)
  then show "logs n P (probe_fingerprint (recording T) app)" by (rule logs_mono) simp
qed

lemma logs_agent_add: "logs (Suc 0) (right_credential app c) (agent_add_cmd (recording T) app name token_path)"
proof -
  have w: "logs 0 P (deliver_token (recording T) token_path agent_id token)" for agent_id token and P :: "dash_entry \<Rightarrow> bool"
    unfolding deliver_token_def [abs_def] Let_def
    by (cases token_path) (auto intro!: logs_pure logs_if logs_bind_pure logs_apfst logs_silent)
  have "logs (Suc 0) (right_credential app c) (session_call (recording T) app ''agents.add'' params shown)"
    for params and shown :: "json \<Rightarrow> cmd_error + string \<times> string"
    by (rule logs_session) (simp add: session_ops_def)
  from logs_bind [OF this w] show ?thesis by (simp add: agent_add_cmd_def [abs_def])
qed

lemma logs_audit_show: "logs (Suc 0) (right_credential app c) (audit_show_cmd (recording T) app n before)"
  unfolding audit_show_cmd_def [abs_def]
  by (intro logs_if logs_pure logs_session) (simp add: session_ops_def)

definition command_requests :: "dash_cmd \<Rightarrow> nat" where
  "command_requests c = (if c = Dash_Overview_Refresh then 54 else 1)"

lemma logs_read_command:
  "logs (command_requests c) (right_credential app c) (read_command (recording T) app c)"
  using logs_status [of "right_credential app c" T app] logs_overview [of app c T]
    logs_held [of "''vault.health''" app c T "JObj []"] logs_local [of _ "right_credential app c" T app]
    logs_agent_add [of app c T] logs_audit_show [of app c T]
  by (cases c)
    (simp_all add: command_requests_def read_command.simps [abs_def] dash_health_def [abs_def] logs_pure
      logs_map logs_apfst logs_session session_ops_def projects_list_def [abs_def] project_add_cmd_def [abs_def]
      project_remove_cmd_def [abs_def] project_path_add_cmd_def [abs_def] project_path_remove_cmd_def [abs_def]
      secrets_list_cmd_def [abs_def] secret_set_cmd_def [abs_def] secret_delete_cmd_def [abs_def]
      agents_list_cmd_def [abs_def] agent_revoke_cmd_def [abs_def] grants_list_cmd_def [abs_def]
      grant_set_cmd_def [abs_def] grant_revoke_cmd_def [abs_def] approvals_pending_cmd_def [abs_def]
      approval_approve_cmd_def [abs_def] approval_deny_cmd_def [abs_def] reveal_cmd_def [abs_def]
      leases_list_cmd_def [abs_def] lease_revoke_cmd_def [abs_def] runs_list_cmd_def [abs_def]
      audit_verify_cmd_def [abs_def])

text \<open>An unlock and a lock make exactly one request.\<close>

lemma recorded_call:
  assumes "dash_call (recording T) app op auth params (s, log) = (q, s1, log1)"
  shows "\<exists>r. log1 = log @ [(op, auth, params, r)] \<and> q = map_err from_broker_error r"
  using assms by (auto simp: dash_call_def recording_def split: prod.splits)

definition held_after :: "dash_cmd \<Rightarrow> app_state \<Rightarrow> dash_entry list \<Rightarrow> app_state \<Rightarrow> bool" where
  "held_after c app log app' \<longleftrightarrow>
     app' = app
     \<or> c = Dash_Lock \<and> app' = forget_session app
     \<or> (\<exists>p v. c = Dash_Unlock p \<and> log = [(''vault.unlock'', auth.Passphrase p, JObj [], Inr v)]
          \<and> app' = app\<lparr>ap_session := opt_str v ''session_credential''\<rparr>)"

lemma unlock_recorded:
  assumes "dash_unlock (recording T) app p (s, []) = (r, app', s', log)"
  shows "length log = 1" "\<forall>e\<in>set log. right_credential app (Dash_Unlock p) e" "held_after (Dash_Unlock p) app log app'"
proof -
  obtain q s1 log1 where d: "dash_call (recording T) app ''vault.unlock'' (auth.Passphrase p) (JObj []) (s, []) = (q, s1, log1)"
    by (metis prod_cases3)
  from recorded_call [OF this] obtain r' where l: "log1 = [(''vault.unlock'', auth.Passphrase p, JObj [], r')]"
    and q: "q = map_err from_broker_error r'" by auto
  show "length log = 1" "\<forall>e\<in>set log. right_credential app (Dash_Unlock p) e" "held_after (Dash_Unlock p) app log app'"
    using assms d l q by (cases r'; auto simp: dash_unlock_def held_after_def split: if_splits)+
qed

lemma lock_recorded:
  assumes "dash_lock (recording T) app (s, []) = (r, app', s', log)"
  shows "length log = 1" "\<forall>e\<in>set log. right_credential app Dash_Lock e" "app' = forget_session app"
proof -
  obtain q s1 log1 where d: "dash_call (recording T) app ''vault.lock'' (held_or_none app) (JObj []) (s, []) = (q, s1, log1)"
    by (metis prod_cases3)
  from recorded_call [OF this] obtain r' where l: "log1 = [(''vault.lock'', held_or_none app, JObj [], r')]" by auto
  show "length log = 1" "\<forall>e\<in>set log. right_credential app Dash_Lock e" "app' = forget_session app"
    using assms d l
    by (auto simp: dash_lock_def held_or_none_def session_auth_def session_ops_def split: option.splits)
qed

text \<open>C37: What the dashboard sends, for every command and every broker: at most one request (fifty-four for the
  overview); the passphrase only with the unlock it was typed for; otherwise the held session's credential
  with one of the human operations, never an agent's token; and no credential only with the public
  status, or with a lock or health request while no session is held. The credential held afterwards is the
  one held before, or none after a lock, or the one that the answer to the unlock brought.\<close>

theorem dashboard_sends_right_credential:
  assumes "dash_command (recording T) c app (s, []) = (r, app', s', log)"
  shows "length log \<le> command_requests c \<and> (\<forall>e\<in>set log. right_credential app c e) \<and> held_after c app log app'"
proof -
  have read: "length log \<le> command_requests c \<and> (\<forall>e\<in>set log. right_credential app c e) \<and> held_after c app log app'"
    if "(case read_command (recording T) app c (s, []) of (r, s1) \<Rightarrow> (r, app, s1)) = (r, app', s', log)"
  proof -
    from that have "read_command (recording T) app c (s, []) = (r, s', log)" and [simp]: "app' = app"
      by (auto split: prod.splits)
    with logs_read_command [of c app T] show ?thesis
      unfolding logs_def held_after_def by (metis append_Nil snd_conv)
  qed
  show ?thesis
  proof (cases c)
    case (Dash_Unlock p)
    with assms obtain x where "dash_unlock (recording T) app p (s, []) = (x, app', s', log)"
      by (cases "dash_unlock (recording T) app p (s, [])") (auto simp: dash_command_def)
    from unlock_recorded [OF this] Dash_Unlock show ?thesis by (simp add: command_requests_def)
  next
    case Dash_Lock
    with assms obtain x where "dash_lock (recording T) app (s, []) = (x, app', s', log)"
      by (cases "dash_lock (recording T) app (s, [])") (auto simp: dash_command_def)
    from lock_recorded [OF this] Dash_Lock show ?thesis by (simp add: command_requests_def held_after_def)
  qed (use assms read in \<open>simp_all add: dash_command_def\<close>)
qed

text \<open>A broker that unlocks with a fixed credential and knows one project with two secrets.\<close>

definition small_answer :: "string \<Rightarrow> json" where
  "small_answer op =
     (if op = ''vault.unlock'' then JObj [(''session_credential'', JStr ''c''), (''unlocked'', JBool True)]
      else if op = ''vault.status'' then JObj [(''locked'', JBool False)]
      else if op = ''project.list'' then JObj [(''projects'', JArr [JObj [(''name'', JStr ''p'')]])]
      else if op = ''secrets.list'' then JObj [(''secrets'', JArr [JNull, JNull])]
      else JObj [])"

definition small_backend :: "unit backend" where
  "small_backend =
     \<lparr>bk_call = (\<lambda>_ op _ _ s. (Inr (small_answer op), s)), bk_pin = (\<lambda>_ s. (Inr (Some ''k''), s)),
      bk_live = (\<lambda>_ s. (Inr [], s)), bk_write_token = (\<lambda>_ _ s. (Inr (), s))\<rparr>"

theorem dashboard_sends_right_credential_witness:
  "length [(''vault.unlock'', auth.Passphrase ''pw'', JObj [], Inr (small_answer ''vault.unlock'') :: broker_error + json)] \<le> command_requests (Dash_Unlock ''pw'')
    \<and> right_credential (new_app ''/s'') (Dash_Unlock ''pw'')
        (''vault.unlock'', auth.Passphrase ''pw'', JObj [], Inr (small_answer ''vault.unlock''))
    \<and> held_after (Dash_Unlock ''pw'') (new_app ''/s'')
        [(''vault.unlock'', auth.Passphrase ''pw'', JObj [], Inr (small_answer ''vault.unlock''))]
        ((new_app ''/s'')\<lparr>ap_session := Some ''c''\<rparr>)"
proof -
  have "\<exists>r. dash_command (recording small_backend) (Dash_Unlock ''pw'') (new_app ''/s'') ((), [])
      = (r, (new_app ''/s'')\<lparr>ap_session := Some ''c''\<rparr>, (),
         [(''vault.unlock'', auth.Passphrase ''pw'', JObj [], Inr (small_answer ''vault.unlock''))])"
    by (simp add: dash_command_def dash_unlock_def dash_call_def recording_def small_backend_def small_answer_def
        bool_or_def opt_str_def)
  then obtain r where "dash_command (recording small_backend) (Dash_Unlock ''pw'') (new_app ''/s'') ((), [])
      = (r, (new_app ''/s'')\<lparr>ap_session := Some ''c''\<rparr>, (),
         [(''vault.unlock'', auth.Passphrase ''pw'', JObj [], Inr (small_answer ''vault.unlock''))])" by blast
  from dashboard_sends_right_credential [OF this] show ?thesis by simp
qed

section \<open>What the overview counts\<close>

text \<open>The requests for the secrets of the named projects with the answers \<open>vs\<close>.\<close>

definition secrets_entries :: "auth \<Rightarrow> string list \<Rightarrow> json list \<Rightarrow> dash_entry list" where
  "secrets_entries auth names vs =
     map (\<lambda>(name, v). (''secrets.list'', auth, jobj [(''project'', JStr name)], Inr v)) (zip names vs)"

definition secret_count :: "json \<Rightarrow> nat" where
  "secret_count v = length (array_or_empty v ''secrets'')"

lemma optional_recorded:
  assumes "optional_call (recording T) app op auth params (s, log) = (q, s1, log1)"
  shows "\<exists>r. log1 = log @ [(op, auth, params, r)] \<and> q = optional_answer (map_err from_broker_error r)"
proof -
  obtain x where d: "dash_call (recording T) app op auth params (s, log) = (x, s1, log1)" and q: "q = optional_answer x"
    using assms by (auto simp: optional_call_def apfst_def map_prod_def split: prod.splits)
  from recorded_call [OF d] q show ?thesis by blast
qed

lemma optional_Some: "optional_answer (map_err from_broker_error r) = Inr (Some v) \<Longrightarrow> r = Inr v"
  by (cases r) (auto simp: optional_answer_def split: if_splits)

lemma sum_secrets_counts:
  "sum_secrets (recording T) app auth names t (s, log) = (Inr (Some n), s', log') \<Longrightarrow>
    \<exists>vs. length vs = length names \<and> log' = log @ secrets_entries auth names vs
      \<and> (\<forall>v\<in>set vs. opt_array v ''secrets'' \<noteq> None) \<and> n = t + sum_list (map secret_count vs)"
proof (induction names arbitrary: t s log)
  case Nil
  then show ?case by (simp add: secrets_entries_def)
next
  case (Cons name names)
  obtain q s1 log1 where o': "optional_call (recording T) app ''secrets.list'' auth (jobj [(''project'', JStr name)]) (s, log) = (q, s1, log1)"
    by (metis prod_cases3)
  from optional_recorded [OF this] obtain r
    where l: "log1 = log @ [(''secrets.list'', auth, jobj [(''project'', JStr name)], r)]"
      and q: "q = optional_answer (map_err from_broker_error r)" by blast
  from Cons.prems o' obtain v arr where v: "q = Inr (Some v)" and arr: "opt_array v ''secrets'' = Some arr"
    and k: "sum_secrets (recording T) app auth names (t + length arr) (s1, log1) = (Inr (Some n), s', log')"
    by (cases q) (auto split: option.splits bind_splits)
  from Cons.IH [OF k] obtain vs where vs: "length vs = length names" "log' = log1 @ secrets_entries auth names vs"
      "\<forall>v\<in>set vs. opt_array v ''secrets'' \<noteq> None" "n = t + length arr + sum_list (map secret_count vs)" by blast
  moreover have "secret_count v = length arr" using arr by (simp add: secret_count_def array_or_empty_def)
  ultimately show ?case
    using l q v optional_Some [of r v] arr by (intro exI [of _ "v # vs"]) (auto simp: secrets_entries_def)
qed

lemma status_recorded:
  assumes "get_status (recording T) app (s, []) = (st, s1, log1)"
  shows "\<forall>(op, _)\<in>set log1. op = ''vault.status''"
proof -
  have "logs (Suc 0) (\<lambda>(op, _). op = ''vault.status'') (get_status (recording T) app)" by (rule logs_status) simp
  with assms show ?thesis unfolding logs_def by (metis append_Nil snd_conv)
qed

text \<open>A total of secrets that the overview shows was counted, not guessed: the vault was online, trusted and
  unlocked, a session was held, the project list was answered, and the total is the sum over the answers
  for the first fifty projects of that list, one request each and each with a list of secrets; it is
  marked exact exactly when there were no more than fifty.\<close>

theorem overview_total_is_counted:
  assumes "overview_refresh (recording T) app (s, []) = (Inr ov, s', log)" and "ov_secrets_total ov = Some n"
  shows "\<exists>cred v vs. ap_session app = Some cred \<and> ov_online ov \<and> ov_trusted ov \<and> \<not> ov_locked ov
    \<and> (''project.list'', SessionAuth cred, JObj [], Inr v) \<in> set log
    \<and> ov_projects ov = Some (length (names_of v))
    \<and> length vs = length (take OVERVIEW_SECRETS_PROJECT_CAP (names_of v))
    \<and> filter (\<lambda>(op, _). op = ''secrets.list'') log
        = secrets_entries (SessionAuth cred) (take OVERVIEW_SECRETS_PROJECT_CAP (names_of v)) vs
    \<and> (\<forall>v\<in>set vs. opt_array v ''secrets'' \<noteq> None)
    \<and> n = sum_list (map secret_count vs)
    \<and> ov_secrets_total_exact ov = (length (names_of v) \<le> OVERVIEW_SECRETS_PROJECT_CAP)"
proof -
  obtain st s1 log1 where g: "get_status (recording T) app (s, []) = (st, s1, log1)" by (metis prod_cases3)
  have none: "ov_secrets_total (posture_only st held) = None" for held by (simp add: posture_only_def overview_of_def)
  from assms g none obtain cred where live: "\<not> so_locked st" "so_online st" "so_trusted st"
    and cred: "ap_session app = Some cred"
    and k: "counted_overview (recording T) app st True (SessionAuth cred) (s1, log1) = (Inr ov, s', log)"
    by (auto simp: overview_refresh_def overview_of_status_def session_auth_def Let_def split: if_splits option.splits)
  let ?auth = "SessionAuth cred"
  from k obtain h s2 log2 p s3 log3 a s4 log4 secrets
    where c1: "optional_call (recording T) app ''vault.health'' ?auth (JObj []) (s1, log1) = (Inr h, s2, log2)"
      and c2: "optional_call (recording T) app ''project.list'' ?auth (JObj []) (s2, log2) = (Inr p, s3, log3)"
      and c3: "optional_call (recording T) app ''agents.list'' ?auth (JObj []) (s3, log3) = (Inr a, s4, log4)"
      and c4: "secrets_total (recording T) app ?auth (map_option names_of p) (s4, log4) = (Inr secrets, s', log)"
      and ov: "ov = overview_of st True h (map_option (length \<circ> names_of) p) secrets (Option.bind a active_agents)"
    unfolding counted_overview_def try_bind_Inr by (metis Pair_inject prod.collapse sum.inject(2))
  from optional_recorded [OF c1] obtain r1 where l2: "log2 = log1 @ [(''vault.health'', ?auth, JObj [], r1)]" by blast
  from optional_recorded [OF c2] obtain r2 where l3: "log3 = log2 @ [(''project.list'', ?auth, JObj [], r2)]"
    and r2: "Inr p = optional_answer (map_err from_broker_error r2)" by blast
  from optional_recorded [OF c3] obtain r3 where l4: "log4 = log3 @ [(''agents.list'', ?auth, JObj [], r3)]" by blast
  have fst: "fst secrets = Some n" using assms(2) ov by (simp add: overview_of_def)
  with c4 obtain v where v: "p = Some v" by (cases p) (auto simp: secrets_total_def)
  with r2 optional_Some [of r2 v] have "r2 = Inr v" by simp
  from c4 v fst obtain y where sums: "sum_secrets (recording T) app ?auth (take OVERVIEW_SECRETS_PROJECT_CAP (names_of v)) 0 (s4, log4)
      = (Inr (Some n), s', log)" and ex: "snd secrets = (length (names_of v) \<le> OVERVIEW_SECRETS_PROJECT_CAP)"
    by (auto simp: secrets_total_def try_bind_Inr)
  from sum_secrets_counts [OF sums] obtain vs
    where vs: "length vs = length (take OVERVIEW_SECRETS_PROJECT_CAP (names_of v))"
      "log = log4 @ secrets_entries ?auth (take OVERVIEW_SECRETS_PROJECT_CAP (names_of v)) vs"
      "\<forall>v\<in>set vs. opt_array v ''secrets'' \<noteq> None" "n = sum_list (map secret_count vs)" by auto
  have "filter (\<lambda>(op, _). op = ''secrets.list'') log1 = []"
    using status_recorded [OF g] by (auto simp: filter_empty_conv)
  then have f: "filter (\<lambda>(op, _). op = ''secrets.list'') log
      = secrets_entries ?auth (take OVERVIEW_SECRETS_PROJECT_CAP (names_of v)) vs"
    by (simp add: vs(2) l2 l3 l4) (auto simp: secrets_entries_def filter_id_conv)
  show ?thesis
    using live cred vs f ex \<open>r2 = Inr v\<close> l2 l3 l4 v
    by (intro exI [of _ cred] exI [of _ v] exI [of _ vs]) (simp add: ov overview_of_def)
qed

theorem overview_total_is_counted_witness:
  "\<exists>ov s' log. overview_refresh (recording small_backend) ((new_app ''/s'')\<lparr>ap_session := Some ''c''\<rparr>) ((), []) = (Inr ov, s', log)
    \<and> ov_secrets_total ov = Some 2
    \<and> (\<exists>v vs. (''project.list'', SessionAuth ''c'', JObj [], Inr v) \<in> set log
        \<and> ov_projects ov = Some (length (names_of v)) \<and> 2 = sum_list (map secret_count vs)
        \<and> ov_secrets_total_exact ov = (length (names_of v) \<le> OVERVIEW_SECRETS_PROJECT_CAP))"
proof -
  have "\<exists>ov s' log. overview_refresh (recording small_backend) ((new_app ''/s'')\<lparr>ap_session := Some ''c''\<rparr>) ((), []) = (Inr ov, s', log)
    \<and> ov_secrets_total ov = Some 2"
    by (simp add: overview_refresh_def get_status_def status_of_def pinned_posture_def is_pinned_def known_fingerprint_def
        pin_fingerprint_def dash_call_def recording_def small_backend_def small_answer_def answered_status_def
        bool_or_def overview_of_status_def session_auth_def new_app_def counted_overview_def optional_call_def
        optional_answer_def secrets_total_def names_of_def array_or_empty_def opt_array_def opt_str_def
        map_filter_simps OVERVIEW_SECRETS_PROJECT_CAP_def overview_of_def)
  then obtain ov s' log where o': "overview_refresh (recording small_backend) ((new_app ''/s'')\<lparr>ap_session := Some ''c''\<rparr>) ((), [])
      = (Inr ov, s', log)" and n: "ov_secrets_total ov = Some 2" by blast
  from overview_total_is_counted [OF this] o' n show ?thesis by (simp add: new_app_def) blast
qed

end
