(* ===== verification/DashboardView.thy ===== *)
theory DashboardView
  imports DashboardOps McpTheorems
begin

text \<open>
  What the front end of the dashboard can learn of the session's credential: nothing. Two backends that
  treat corresponding credentials alike are run side by side; whatever commands are issued, the answers
  are the same and the credentials held stay corresponding.
\<close>

section \<open>Corresponding backends\<close>

text \<open>\<open>K\<close> relates the credentials of the one side to those of the other.\<close>

fun same_auth :: "(string \<Rightarrow> string \<Rightarrow> bool) \<Rightarrow> auth \<Rightarrow> auth \<Rightarrow> bool" where
  "same_auth K (SessionAuth c) (SessionAuth c') = K c c'"
| "same_auth K a a' = (a = a')"

definition same_answer :: "(string \<Rightarrow> string \<Rightarrow> bool) \<Rightarrow> string \<Rightarrow> json \<Rightarrow> json \<Rightarrow> bool" where
  "same_answer K op v v' \<longleftrightarrow>
     (if op = ''vault.unlock''
      then remove_member v ''session_credential'' = remove_member v' ''session_credential''
        \<and> rel_option K (opt_str v ''session_credential'') (opt_str v' ''session_credential'')
      else v = v')"

definition rel_step :: "('a \<Rightarrow> 'b \<Rightarrow> bool) \<Rightarrow> ('s \<Rightarrow> 't \<Rightarrow> bool) \<Rightarrow> ('e + 'a) \<times> 's \<Rightarrow> ('e + 'b) \<times> 't \<Rightarrow> bool" where
  "rel_step Q R m m' \<longleftrightarrow> rel_sum (=) Q (fst m) (fst m') \<and> R (snd m) (snd m')"

definition same_step :: "('s \<Rightarrow> 't \<Rightarrow> bool) \<Rightarrow> 'a \<times> 's \<Rightarrow> 'a \<times> 't \<Rightarrow> bool" where
  "same_step R m m' \<longleftrightarrow> fst m = fst m' \<and> R (snd m) (snd m')"

definition twins ::
  "('s \<Rightarrow> 't \<Rightarrow> bool) \<Rightarrow> (string \<Rightarrow> string \<Rightarrow> bool) \<Rightarrow> 's backend \<Rightarrow> 't backend \<Rightarrow> bool" where
  "twins R K T T' \<longleftrightarrow>
     (\<forall>so op a a' p s s'. R s s' \<longrightarrow> same_auth K a a' \<longrightarrow>
        rel_step (same_answer K op) R (bk_call T so op a p s) (bk_call T' so op a' p s'))
     \<and> (\<forall>so s s'. R s s' \<longrightarrow> same_step R (bk_pin T so s) (bk_pin T' so s'))
     \<and> (\<forall>so s s'. R s s' \<longrightarrow> same_step R (bk_live T so s) (bk_live T' so s'))
     \<and> (\<forall>p t s s'. R s s' \<longrightarrow> same_step R (bk_write_token T p t s) (bk_write_token T' p t s'))"

definition same_app :: "(string \<Rightarrow> string \<Rightarrow> bool) \<Rightarrow> app_state \<Rightarrow> app_state \<Rightarrow> bool" where
  "same_app K app app' \<longleftrightarrow> ap_socket app = ap_socket app' \<and> rel_option K (ap_session app) (ap_session app')"

lemma same_auth_simps [simp]: "same_auth K NoAuth NoAuth" "same_auth K (auth.Passphrase p) (auth.Passphrase p)"
  by simp_all

lemma same_step_apfst: "same_step R m m' \<Longrightarrow> same_step R (apfst f m) (apfst f m')"
  by (simp add: same_step_def)

lemma same_step_pure: "R s s' \<Longrightarrow> same_step R (x, s) (x, s')"
  by (simp add: same_step_def)

lemma same_step_case:
  assumes "same_step R m m'" and "\<And>r s s'. R s s' \<Longrightarrow> same_step R (f r s) (g r s')"
  shows "same_step R (case m of (r, s) \<Rightarrow> f r s) (case m' of (r, s) \<Rightarrow> g r s)"
  using assms by (cases m; cases m') (simp add: same_step_def)

lemma rel_step_eq: "rel_step (=) R m m' \<longleftrightarrow> same_step R m m'"
  by (simp add: rel_step_def same_step_def sum.rel_eq)

lemma rel_step_bind:
  assumes "rel_step Q R m m'" and "\<And>x y s s'. Q x y \<Longrightarrow> R s s' \<Longrightarrow> same_step R (k x s) (k' y s')"
  shows "same_step R (try_bind m k) (try_bind m' k')"
  using assms by (cases m; cases m'; cases "fst m"; cases "fst m'") (auto simp: rel_step_def same_step_def)

lemma same_step_bind:
  assumes "same_step R m m'" and "\<And>x s s'. R s s' \<Longrightarrow> same_step R (k x s) (k' x s')"
  shows "same_step R (try_bind m k) (try_bind m' k')"
  by (rule rel_step_bind [where Q = "(=)"]) (use assms in \<open>auto simp: rel_step_eq\<close>)

section \<open>Every command\<close>

lemma held_same: "same_app K app app' \<Longrightarrow> rel_option (same_auth K) (session_auth app) (session_auth app')"
  by (auto simp: same_app_def session_auth_def rel_option_iff split: option.splits)

lemma same_app_none: "same_app K app app' \<Longrightarrow> session_auth app = None \<longleftrightarrow> session_auth app' = None"
  using held_same [of K app app'] by (auto simp: rel_option_iff split: option.splits)

lemma twins_call:
  assumes "twins R K T T'" and "same_app K app app'" and "R s s'" and "same_auth K a a'"
  shows "rel_step (same_answer K op) R (dash_call T app op a p s) (dash_call T' app' op a' p s')"
proof -
  have "rel_step (same_answer K op) R (bk_call T (ap_socket app) op a p s) (bk_call T' (ap_socket app) op a' p s')"
    using assms by (simp add: twins_def)
  then show ?thesis
    using assms(2)
    by (cases "fst (bk_call T (ap_socket app) op a p s)"; cases "fst (bk_call T' (ap_socket app) op a' p s')")
      (auto simp: rel_step_def dash_call_def same_app_def)
qed

lemma twins_call_same:
  assumes "twins R K T T'" and "same_app K app app'" and "R s s'" and "same_auth K a a'" and "op \<noteq> ''vault.unlock''"
  shows "same_step R (dash_call T app op a p s) (dash_call T' app' op a' p s')"
proof -
  have "same_answer K op = (=)" using assms(5) by (auto simp: same_answer_def fun_eq_iff)
  with twins_call [OF assms(1-4), of op p] show ?thesis by (simp add: rel_step_eq)
qed

lemma twins_pin: "twins R K T T' \<Longrightarrow> R s s' \<Longrightarrow> same_step R (bk_pin T so s) (bk_pin T' so s')"
  by (simp add: twins_def)

lemma twins_posture:
  assumes "twins R K T T'" and "same_app K app app'" and "R s s'"
  shows "same_step R (pin_fingerprint T app s) (pin_fingerprint T' app' s')"
    "same_step R (is_pinned T app s) (is_pinned T' app' s')"
    "same_step R (known_fingerprint T app s) (known_fingerprint T' app' s')"
  using assms(2)
  by (auto simp: pin_fingerprint_def is_pinned_def known_fingerprint_def same_app_def
      intro!: same_step_apfst twins_pin [OF assms(1)] assms(3))

lemma twins_pinned_posture:
  assumes "twins R K T T'" and "same_app K app app'" and "R s s'"
  shows "same_step R (pinned_posture T app s) (pinned_posture T' app' s')"
  unfolding pinned_posture_def
  by (rule same_step_case [OF twins_posture(2) [OF assms]])
    (auto intro!: same_step_case [OF twins_posture(3)] same_step_pure assms)

lemma twins_status:
  assumes "twins R K T T'" and "same_app K app app'" and "R s s'"
  shows "same_step R (get_status T app s) (get_status T' app' s')"
proof -
  have "same_step R (status_of T app r t) (status_of T' app' r t')" if "R t t'" for r t t'
    using that assms(1,2)
    by (cases r) (auto simp: status_of_def intro!: same_step_apfst same_step_pure twins_pinned_posture twins_posture)
  then show ?thesis
    unfolding get_status_def by (intro same_step_case [OF twins_call_same [OF assms]]) simp_all
qed

lemma twins_require:
  assumes "twins R K T T'" and "same_app K app app'" and "R s s'"
  shows "rel_step (same_auth K) R (require_session_auth T app s) (require_session_auth T' app' s')"
proof (cases "session_auth app")
  case None
  moreover from this have "session_auth app' = None" using same_app_none [OF assms(2)] by simp
  moreover have "same_step R (dash_call T app ''vault.status'' NoAuth (JObj []) s) (dash_call T' app' ''vault.status'' NoAuth (JObj []) s')"
    by (rule twins_call_same [OF assms]) simp_all
  ultimately show ?thesis
    by (cases "dash_call T app ''vault.status'' NoAuth (JObj []) s"; cases "dash_call T' app' ''vault.status'' NoAuth (JObj []) s'";
        cases "fst (dash_call T app ''vault.status'' NoAuth (JObj []) s)")
      (auto simp: require_session_auth_def rel_step_def same_step_def)
next
  case (Some a)
  with held_same [OF assms(2)] obtain a' where "session_auth app' = Some a'" "same_auth K a a'"
    by (auto simp: rel_option_iff split: option.splits)
  with Some assms(3) show ?thesis by (simp add: require_session_auth_def rel_step_def)
qed

lemma twins_session_call:
  assumes "twins R K T T'" and "same_app K app app'" and "R s s'" and "op \<noteq> ''vault.unlock''"
  shows "same_step R (session_call T app op p shown s) (session_call T' app' op p shown s')"
  unfolding session_call_def
  by (rule rel_step_bind [OF twins_require [OF assms(1-3)]])
    (auto intro!: same_step_bind [OF twins_call_same] same_step_pure assms)

lemma twins_optional:
  assumes "twins R K T T'" and "same_app K app app'" and "R s s'" and "same_auth K a a'" and "op \<noteq> ''vault.unlock''"
  shows "same_step R (optional_call T app op a p s) (optional_call T' app' op a' p s')"
  unfolding optional_call_def by (intro same_step_apfst twins_call_same [OF assms])

lemma twins_sum_secrets:
  assumes "twins R K T T'" and "same_app K app app'" and "same_auth K a a'"
  shows "R s s' \<Longrightarrow> same_step R (sum_secrets T app a names t s) (sum_secrets T' app' a' names t s')"
proof (induction names arbitrary: t s s')
  case (Cons name names)
  then show ?case
    unfolding sum_secrets.simps
    by (intro same_step_bind [OF twins_optional [OF assms(1,2) _ assms(3)]])
      (auto intro: same_step_pure split: option.split)
qed (simp add: same_step_pure)

lemma twins_secrets_total:
  assumes "twins R K T T'" and "same_app K app app'" and "same_auth K a a'" and "R s s'"
  shows "same_step R (secrets_total T app a names s) (secrets_total T' app' a' names s')"
  using assms(4)
  by (cases names)
    (auto simp: secrets_total_def intro!: same_step_bind [OF twins_sum_secrets [OF assms(1-3)]] same_step_pure)

lemma twins_overview:
  assumes "twins R K T T'" and "same_app K app app'" and "R s s'"
  shows "same_step R (overview_refresh T app s) (overview_refresh T' app' s')"
proof -
  have c: "same_step R (counted_overview T app st held a t) (counted_overview T' app' st held a' t')"
    if "same_auth K a a'" "R t t'" for st held a a' t t'
    unfolding counted_overview_def
    by (intro same_step_bind [OF twins_optional [OF assms(1,2) _ that(1)]]
        same_step_bind [OF twins_secrets_total [OF assms(1,2) that(1)]] same_step_pure that(2))
      simp_all
  have "same_step R (overview_of_status T app st t) (overview_of_status T' app' st t')" if "R t t'" for st t t'
    using held_same [OF assms(2)] c [OF _ that] that
    by (cases "session_auth app"; cases "session_auth app'")
      (auto simp: overview_of_status_def Let_def same_step_pure)
  then show ?thesis
    unfolding overview_refresh_def by (intro same_step_case [OF twins_status [OF assms]])
qed

lemma twins_agent_add:
  assumes "twins R K T T'" and "same_app K app app'" and "R s s'"
  shows "same_step R (agent_add_cmd T app name path s) (agent_add_cmd T' app' name path s')"
proof -
  have "same_step R (bk_write_token T p token t) (bk_write_token T' p token t')" if "R t t'" for p token t t'
    using assms(1) that by (simp add: twins_def)
  then have "same_step R (deliver_token T path i token t) (deliver_token T' path i token t')" if "R t t'" for i token t t'
    using that unfolding deliver_token_def Let_def
    by (cases path) (auto intro!: same_step_bind [OF same_step_apfst] same_step_pure)
  then show ?thesis
    unfolding agent_add_cmd_def by (intro same_step_bind [OF twins_session_call [OF assms]]) simp_all
qed

lemma twins_local:
  assumes "twins R K T T'" and "same_app K app app'" and "R s s'"
  shows "same_step R (pin_status T app s) (pin_status T' app' s')"
    "same_step R (probe_fingerprint T app s) (probe_fingerprint T' app' s')"
    "same_step R (dash_health T app s) (dash_health T' app' s')"
proof -
  have so: "ap_socket app' = ap_socket app" using assms(2) by (simp add: same_app_def)
  show "same_step R (pin_status T app s) (pin_status T' app' s')"
    unfolding pin_status_def so
    by (intro same_step_bind [OF twins_posture(1) [OF assms]] same_step_apfst twins_pin [OF assms(1)])
  have "same_step R (bk_live T (ap_socket app) s) (bk_live T' (ap_socket app) s')"
    using assms(1,3) by (simp add: twins_def)
  then show "same_step R (probe_fingerprint T app s) (probe_fingerprint T' app' s')"
    unfolding probe_fingerprint_def so by (rule same_step_case) (rule same_step_pure)
  have "same_auth K (held_or_none app) (held_or_none app')"
    using held_same [OF assms(2)] by (cases "session_auth app"; cases "session_auth app'") (simp_all add: held_or_none_def)
  then show "same_step R (dash_health T app s) (dash_health T' app' s')"
    unfolding dash_health_def by (intro twins_call_same [OF assms]) simp_all
qed

lemma twins_read_command:
  assumes "twins R K T T'" and "same_app K app app'" and "R s s'"
  shows "same_step R (read_command T app c s) (read_command T' app' c s')"
  by (cases c)
    (auto simp: projects_list_def project_add_cmd_def project_remove_cmd_def project_path_add_cmd_def
      project_path_remove_cmd_def secrets_list_cmd_def secret_set_cmd_def secret_delete_cmd_def agents_list_cmd_def
      agent_revoke_cmd_def grants_list_cmd_def grant_set_cmd_def grant_revoke_cmd_def approvals_pending_cmd_def
      approval_approve_cmd_def approval_deny_cmd_def reveal_cmd_def leases_list_cmd_def lease_revoke_cmd_def
      runs_list_cmd_def audit_verify_cmd_def audit_show_cmd_def
      intro!: twins_session_call [OF assms] same_step_apfst same_step_pure twins_status twins_local twins_overview
        twins_agent_add assms)

section \<open>Sequences of commands\<close>

definition same_run ::
  "('s \<Rightarrow> 't \<Rightarrow> bool) \<Rightarrow> (string \<Rightarrow> string \<Rightarrow> bool) \<Rightarrow> 'r \<times> app_state \<times> 's \<Rightarrow> 'r \<times> app_state \<times> 't \<Rightarrow> bool" where
  "same_run R K x y \<longleftrightarrow> fst x = fst y \<and> same_app K (fst (snd x)) (fst (snd y)) \<and> R (snd (snd x)) (snd (snd y))"

lemma unlock_answer_same:
  assumes "remove_member v ''session_credential'' = remove_member v' ''session_credential''"
  shows "bool_or False v ''unlocked'' = bool_or False v' ''unlocked''" "unlocked_answer v = unlocked_answer v'"
proof -
  have g: "get_member v k = get_member v' k" if "k \<noteq> ''session_credential''" for k
    using arg_cong [OF assms, of "\<lambda>x. get_member x k"] that by simp
  show "bool_or False v ''unlocked'' = bool_or False v' ''unlocked''" "unlocked_answer v = unlocked_answer v'"
    by (simp_all add: bool_or_def unlocked_answer_def opt_str_def opt_u64_def g)
qed

lemma twins_unlock:
  assumes "twins R K T T'" and "same_app K app app'" and "R s s'"
  shows "same_run R K (dash_unlock T app p s) (dash_unlock T' app' p s')"
proof -
  let ?d = "dash_call T app ''vault.unlock'' (auth.Passphrase p) (JObj []) s"
  let ?d' = "dash_call T' app' ''vault.unlock'' (auth.Passphrase p) (JObj []) s'"
  have r: "rel_step (same_answer K ''vault.unlock'') R ?d ?d'" by (rule twins_call [OF assms]) simp
  obtain q t q' t' where d: "?d = (q, t)" "?d' = (q', t')" by (metis prod.exhaust)
  from r d have R: "R t t'" and q: "rel_sum (=) (same_answer K ''vault.unlock'') q q'" by (simp_all add: rel_step_def)
  show ?thesis
  proof (cases q)
    case (Inl e)
    with q d R assms(2) show ?thesis by (cases q') (simp_all add: dash_unlock_def same_run_def)
  next
    case (Inr v)
    with q obtain v' where v': "q' = Inr v'" and a: "same_answer K ''vault.unlock'' v v'" by (cases q') simp_all
    from a have "remove_member v ''session_credential'' = remove_member v' ''session_credential''"
      and k: "rel_option K (opt_str v ''session_credential'') (opt_str v' ''session_credential'')"
      by (simp_all add: same_answer_def)
    from unlock_answer_same [OF this(1)] k Inr v' d R assms(2) show ?thesis
      by (simp add: dash_unlock_def same_run_def same_app_def)
  qed
qed

lemma twins_lock:
  assumes "twins R K T T'" and "same_app K app app'" and "R s s'"
  shows "same_run R K (dash_lock T app s) (dash_lock T' app' s')"
proof -
  have "same_auth K (held_or_none app) (held_or_none app')"
    using held_same [OF assms(2)] by (cases "session_auth app"; cases "session_auth app'") (simp_all add: held_or_none_def)
  then have "same_step R (dash_call T app ''vault.lock'' (held_or_none app) (JObj []) s)
      (dash_call T' app' ''vault.lock'' (held_or_none app') (JObj []) s')"
    by (intro twins_call_same [OF assms]) simp_all
  then show ?thesis
    using assms(2)
    by (cases "dash_call T app ''vault.lock'' (held_or_none app) (JObj []) s";
        cases "dash_call T' app' ''vault.lock'' (held_or_none app') (JObj []) s'")
      (simp add: dash_lock_def same_run_def same_step_def same_app_def forget_session_def)
qed

lemma twins_command:
  assumes "twins R K T T'" and "same_app K app app'" and "R s s'"
  shows "same_run R K (dash_command T c app s) (dash_command T' c app' s')"
proof -
  have m: "same_run R K (apfst f x) (apfst f y)" if "same_run R K x y" for x y and f :: "'x \<Rightarrow> 'y"
    using that by (simp add: same_run_def)
  have "same_run R K (case read_command T app c s of (r, s1) \<Rightarrow> (r, app, s1))
      (case read_command T' app' c s' of (r, s1) \<Rightarrow> (r, app', s1))"
    using twins_read_command [OF assms, of c] assms(2) by (auto simp: same_run_def same_step_def split: prod.split)
  then show ?thesis
    using m [OF twins_unlock [OF assms]] m [OF twins_lock [OF assms]] by (cases c) (simp_all add: dash_command_def)
qed

text \<open>C38: The session's credential never reaches the front end: for two brokers that differ only in the
  credentials they mint, and treat corresponding credentials alike, any sequence of commands is answered
  alike, command by command, whatever credential is held at the start.\<close>

theorem dashboard_hides_credential:
  assumes "twins R K T T'" and "same_app K app app'" and "R s s'"
  shows "fst (dash_session T cs app s) = fst (dash_session T' cs app' s')"
  using assms(2,3)
proof (induction cs arbitrary: app app' s s')
  case (Cons c cs)
  obtain r app1 s1 r' app1' s1' where d: "dash_command T c app s = (r, app1, s1)" "dash_command T' c app' s' = (r', app1', s1')"
    by (metis prod_cases3)
  with twins_command [OF assms(1) Cons.prems, of c] have "r = r'" "same_app K app1 app1'" "R s1 s1'"
    by (simp_all add: same_run_def)
  with Cons.IH [of app1 app1' s1 s1'] d show ?case by simp
qed simp

text \<open>A broker that mints one credential and afterwards serves only its holder.\<close>

definition minting_backend :: "string \<Rightarrow> unit backend" where
  "minting_backend cred =
     \<lparr>bk_call = (\<lambda>_ op auth _ s.
        (if op = ''vault.unlock''
         then Inr (JObj [(''session_credential'', JStr cred), (''unlocked'', JBool True)])
         else if auth = SessionAuth cred then Inr (JObj [(''ok'', JBool True)])
         else Inl \<lparr>be_code = ''E_AUTH'', be_msg = [], be_data = None\<rparr>, s)),
      bk_pin = (\<lambda>_ s. (Inr (Some ''k''), s)), bk_live = (\<lambda>_ s. (Inr [], s)),
      bk_write_token = (\<lambda>_ _ s. (Inr (), s))\<rparr>"

lemma minting_twins:
  "twins (\<lambda>_ _. True) (\<lambda>c c'. c = ''c1'' \<and> c' = ''c2'') (minting_backend ''c1'') (minting_backend ''c2'')"
proof -
  have a: "a = SessionAuth ''c1'' \<longleftrightarrow> a' = SessionAuth ''c2''"
    if "same_auth (\<lambda>c c'. c = ''c1'' \<and> c' = ''c2'') a a'" for a a'
    using that by (cases a; cases a') auto
  show ?thesis
    using a by (auto simp: twins_def minting_backend_def rel_step_def same_step_def same_answer_def opt_str_def)
qed

theorem dashboard_hides_credential_witness:
  "fst (dash_session (minting_backend ''c1'') [Dash_Unlock ''pw'', Dash_Health, Dash_Agents_List, Dash_Lock, Dash_Health] (new_app ''/s'') ())
    = fst (dash_session (minting_backend ''c2'') [Dash_Unlock ''pw'', Dash_Health, Dash_Agents_List, Dash_Lock, Dash_Health] (new_app ''/s'') ())"
  by (rule dashboard_hides_credential [OF minting_twins]) (simp_all add: same_app_def new_app_def)

end
