(* ===== verification/RunReport.thy ===== *)
theory RunReport
  imports Handshake RunTheorems
begin

text \<open>
  The two lines of a managed run, from the thread of \<open>src/broker.rs\<close> that sends them to the parsers of
  \<open>src/client.rs\<close> that read them.
\<close>

text \<open>How the process ended, as the client's caller learns it.\<close>

definition reported_exit :: "launch \<Rightarrow> exit_status \<Rightarrow> run_exit" where
  "reported_exit la st =
     \<lparr>rx_run_id = la_run_id la, rx_code = es_code st,
      rx_signal = (case es_code st of
         Some _ \<Rightarrow> None
       | None \<Rightarrow> Some (case es_signal st of Some sig \<Rightarrow> signal_name sig | None \<Rightarrow> ''unknown''))\<rparr>"

lemma started_read:
  "0 < pid \<Longrightarrow> pid < 2 ^ 31 \<Longrightarrow>
     parse_started (la_id la) (started_answer la pid) = Inr \<lparr>rn_run_id = la_run_id la, rn_pid = pid\<rparr>"
  by (simp add: parse_started_def started_answer_def response_ok_def checked_result_def ok_or_def
      get_member_jobj)

lemma exited_read:
  assumes "\<And>c. es_code st = Some c \<Longrightarrow> - (2 ^ 31) \<le> c \<and> c < 2 ^ 31"
  shows "parse_exited (la_id la) (la_run_id la) (exit_answer la st) = Inr (reported_exit la st)"
  using assms
  by (cases "es_code st"; cases "es_signal st";
      simp add: parse_exited_def exit_answer_def exit_result_def response_ok_def checked_result_def ok_or_def
        optional_field_def reported_exit_def get_member_jobj)

text \<open>C31: The client reads what the daemon reports of a managed run: the line that a live run is announced
  with gives the run's identifier and process id, and the line sent after its exit gives the same
  identifier with the exit code or the name of the signal, exactly as the process ended; only when the
  exit could not be recorded the client is told that instead, and only a peer that went away is sent
  nothing.\<close>

theorem run_report_is_read:
  assumes "run_step L K m (Live la pid) D = (Running la' pid' deadline, D1)"
    and "run_step L K m' (Running la pid deadline) E = (Finished out, E1)"
    and "ma_try_wait m' = Inr (Some st)"
    and "0 < pid" and "pid < 2 ^ 31"
    and "\<And>c. es_code st = Some c \<Longrightarrow> - (2 ^ 31) \<le> c \<and> c < 2 ^ 31"
  shows "la' = la \<and> pid' = pid
    \<and> map (parse_started (la_id la)) (run_sends (Live la pid) (Running la' pid' deadline))
      = [Inr \<lparr>rn_run_id = la_run_id la, rn_pid = pid\<rparr>]
    \<and> map (parse_exited (la_id la) (la_run_id la)) (run_sends (Running la pid deadline) (Finished out))
      = (if ma_peer_gone m' then []
         else if fst (record_exit L la (Some st) (finish_daemon L la pid E)) = Inr ()
         then [Inr (reported_exit la st)] else [Inl (Protocol ''audit write failed'')])"
proof -
  have lost: "parse_exited (la_id la) (la_run_id la) (audit_lost la) = Inl (Protocol ''audit write failed'')"
    by (simp add: parse_exited_def audit_lost_def response_err_def checked_result_def)
  have "la' = la \<and> pid' = pid"
    using assms(1) by (auto simp: run_announces_def split: prod.splits sum.splits if_splits)
  moreover have "map (parse_exited (la_id la) (la_run_id la)) out
      = (if ma_peer_gone m' then []
         else if fst (record_exit L la (Some st) (finish_daemon L la pid E)) = Inr ()
         then [Inr (reported_exit la st)] else [Inl (Protocol ''audit write failed'')])"
    using assms(2,3) exited_read [OF assms(6)] lost
    by (auto simp: run_polls_def Let_def unless_gone_def split: prod.splits sum.splits if_splits)
  ultimately show ?thesis using assms(4,5) by (simp add: run_sends_def started_read)
qed

text \<open>The toy run exits with 3 on a daemon whose session is gone.\<close>

theorem run_report_is_read_witness:
  "\<exists>D deadline D1 out D2.
     run_step toy_broker flat_kernel toy_machine (Live launch_toy 7) D = (Running launch_toy 7 deadline, D1)
     \<and> run_step toy_broker flat_kernel (toy_machine\<lparr>ma_try_wait := Inr (Some \<lparr>es_code = Some 3, es_signal = None\<rparr>)\<rparr>)
         (Running launch_toy 7 deadline) D1 = (Finished out, D2)
     \<and> map (parse_exited (la_id launch_toy) (la_run_id launch_toy)) (run_sends (Running launch_toy 7 deadline) (Finished out))
       = [Inr \<lparr>rx_run_id = la_run_id launch_toy, rx_code = Some 3, rx_signal = None\<rparr>]"
proof -
  let ?st = "\<lparr>es_code = Some 3, es_signal = None\<rparr>"
  let ?m = "toy_machine\<lparr>ma_try_wait := Inr (Some ?st)\<rparr>"
  let ?D = "(toy_daemon toy_session)\<lparr>dm_session := None\<rparr>"
  have calm: "ma_reply_ok toy_machine" "\<not> ma_peer_gone toy_machine" by (simp_all add: toy_machine_def)
  obtain deadline where a: "run_step toy_broker flat_kernel toy_machine (Live launch_toy 7) ?D
      = (Running launch_toy 7 deadline, ?D)"
    using calm by (simp add: run_announces_def on_session_def)
  obtain out D2 where b: "run_step toy_broker flat_kernel ?m (Running launch_toy 7 deadline) ?D = (Finished out, D2)"
    by (simp add: run_polls_def Let_def record_exit_def on_session_def finish_daemon_def)
  have "fst (record_exit toy_broker launch_toy (Some ?st) (finish_daemon toy_broker launch_toy 7 ?D)) = Inr ()"
    by (simp add: record_exit_def on_session_def finish_daemon_def)
  then show ?thesis
    using run_report_is_read [OF a b, of ?st] a b calm
    by (intro exI [of _ ?D] exI [of _ deadline] exI [of _ ?D] exI [of _ out] exI [of _ D2])
      (simp add: reported_exit_def del: run_step.simps)
qed

end
