(* ===== verification/WireTypes.thy ===== *)
theory WireTypes
  imports BrokerDispatch
begin

text \<open>
  The types of the broker's answers. A type is a predicate on JSON values built from the combinators
  below; \<open>result_types\<close> gives the type of the result of every operation, as \<open>docs/protocol.md\<close> and the
  clients have them. Every answer the daemon gives to a request has the version, the request's id and
  either a result of the operation's type or one of the stable error codes.
\<close>

section \<open>Types\<close>

fun is_text :: "json \<Rightarrow> bool" where
  "is_text (JStr _) = True"
| "is_text _ = False"

fun is_bool :: "json \<Rightarrow> bool" where
  "is_bool (JBool _) = True"
| "is_bool _ = False"

fun is_integer :: "json \<Rightarrow> bool" where
  "is_integer (JInt _) = True"
| "is_integer _ = False"

fun is_count :: "json \<Rightarrow> bool" where
  "is_count (JInt i) = (0 \<le> i)"
| "is_count _ = False"

fun one_of :: "string list \<Rightarrow> json \<Rightarrow> bool" where
  "one_of ss (JStr s) = (s \<in> set ss)"
| "one_of ss _ = False"

definition nullable :: "(json \<Rightarrow> bool) \<Rightarrow> json \<Rightarrow> bool" where
  "nullable P v \<longleftrightarrow> v = JNull \<or> P v"

fun list_of :: "(json \<Rightarrow> bool) \<Rightarrow> json \<Rightarrow> bool" where
  "list_of P (JArr vs) = list_all P vs"
| "list_of P _ = False"

text \<open>Exactly the given members, each of them once.\<close>

type_synonym fields = "(string \<times> (json \<Rightarrow> bool)) list"

fun object_of :: "fields \<Rightarrow> json \<Rightarrow> bool" where
  "object_of fs (JObj kvs) =
     (distinct (map fst kvs)
      \<and> list_all (\<lambda>(k, v). list_ex (\<lambda>(k', P). k' = k \<and> P v) fs) kvs
      \<and> list_all (\<lambda>(k, _). k \<in> set (map fst kvs)) fs)"
| "object_of fs _ = False"

definition operation_names :: "string list" where
  "operation_names = [''read'', ''inject'', ''run'', ''reveal'', ''manage'']"

definition any_value :: "json \<Rightarrow> bool" where
  "any_value v \<longleftrightarrow> True"

lemma op_name_known: "op_name x \<in> set operation_names"
  by (cases x) (simp_all add: operation_names_def)

lemma object_of_jobj [simp]:
  "object_of fs (jobj kvs) \<longleftrightarrow>
     distinct (map fst kvs)
      \<and> list_all (\<lambda>(k, v). list_ex (\<lambda>(k', P). k' = k \<and> P v) fs) kvs
      \<and> list_all (\<lambda>(k, _). k \<in> set (map fst kvs)) fs"
proof -
  have "distinct (map fst (sort_key fst kvs)) = distinct (map fst kvs)"
    by (metis distinct_map distinct_sort inj_on_def mset_sort set_mset_mset set_sort)
  then show ?thesis by (simp add: jobj_def list_all_iff)
qed

lemma typed_values [simp]:
  "is_count (jnat n)" "is_integer (jnat n)" "list_of is_text (jstrs ss)" "list_of any_value (JArr vs)"
  "list_of (one_of operation_names) (jstrs (map op_name ops))"
  "list_all any_value vs" "list_all Q (map f xs) \<longleftrightarrow> (\<forall>x\<in>set xs. Q (f x))"
  "nullable P (jopt f x) \<longleftrightarrow> (case x of None \<Rightarrow> True | Some y \<Rightarrow> f y = JNull \<or> P (f y))"
  by (auto simp: jnat_def jstrs_def list_all_iff nullable_def jopt_def any_value_def op_name_known
      split: option.split)

text \<open>Every member of the type is there and has its type.\<close>

lemma object_member:
  assumes "object_of fs v" and "(k, P) \<in> set fs" and "distinct (map fst fs)"
  shows "\<exists>x. get_member v k = Some x \<and> P x"
proof -
  obtain kvs where v: "v = JObj kvs" and d: "distinct (map fst kvs)"
    and t: "\<forall>(k, v)\<in>set kvs. \<exists>(k', P)\<in>set fs. k' = k \<and> P v"
    and r: "\<forall>(k, _)\<in>set fs. k \<in> set (map fst kvs)"
    using assms(1) by (cases v) (auto simp: list_all_iff list_ex_iff)
  from bspec [OF r assms(2)] obtain x where x: "(k, x) \<in> set kvs" by auto
  with t obtain Q where "(k, Q) \<in> set fs" "Q x" by fastforce
  with assms(2,3) have "Q = P" by (metis eq_key_imp_eq_value)
  with \<open>Q x\<close> v d x show ?thesis by simp
qed

section \<open>The operations\<close>

definition session_fields :: fields where
  "session_fields =
     [(''session_credential'', is_text), (''session_prefix'', is_text),
      (''expires_at'', is_text), (''expires_in'', is_count),
      (''max_expires_at'', is_text), (''max_expires_in'', is_count)]"

definition approval_states :: "string list" where
  "approval_states = [''pending'', ''approved'', ''denied'', ''expired'', ''consumed'']"

definition vault_types :: "(string \<times> fields) list" where
  "vault_types =
     [(''vault.status'', [(''version'', is_count), (''created'', is_text), (''locked'', is_bool)]),
      (''vault.create'', [(''created'', is_text)]),
      (''vault.unlock'', [(''unlocked'', is_bool)]),
      (''vault.unlock'', (''unlocked'', is_bool) # session_fields),
      (''vault.lock'', [(''locked'', is_bool)]),
      (''vault.health'',
        [(''locked'', is_bool), (''idle_lock_secs'', is_count), (''idle_in'', nullable is_count),
         (''audit_bytes'', is_count), (''audit_soft_limit'', is_count), (''audit_hard_limit'', is_count),
         (''vault_bytes'', is_count), (''vault_max_bytes'', is_count), (''runs_active'', is_count),
         (''leases_active'', nullable is_count), (''approvals_pending'', nullable is_count)]),
      (''session.open'', session_fields),
      (''session.touch'',
        [(''expires_at'', is_text), (''expires_in'', is_count),
         (''max_expires_at'', is_text), (''max_expires_in'', is_count)]),
      (''session.close'', [(''closed'', is_bool)]),
      (''audit.show'', [(''entries'', list_of any_value), (''next_before_seq'', nullable is_count)]),
      (''audit.verify'', [(''entries'', is_count), (''macs_verified'', is_count), (''macs_null'', is_count)])]"

definition admin_types :: "(string \<times> fields) list" where
  "admin_types =
     [(''project.add'', [(''added'', is_text)]),
      (''project.list'',
        [(''projects'', list_of (object_of [(''name'', is_text), (''paths'', list_of is_text)]))]),
      (''project.path.add'', [(''added'', is_text)]),
      (''project.path.remove'', [(''removed'', is_text)]),
      (''project.remove'', [(''removed'', is_text)]),
      (''secret.set'', [(''set'', is_text)]),
      (''secret.delete'', [(''deleted'', is_text)]),
      (''agents.add'', [(''agent_id'', is_text), (''token'', is_text)]),
      (''agents.revoke'', [(''revoked'', is_text)]),
      (''agents.list'',
        [(''agents'', list_of (object_of
          [(''name'', is_text), (''status'', one_of [''active'', ''revoked'']), (''token_prefix'', is_text)]))]),
      (''grants.grant'', [(''granted'', is_text)]),
      (''grants.revoke'', [(''revoked'', is_text)]),
      (''grants.list'',
        [(''grants'', list_of (object_of
          [(''agent'', is_text), (''project'', is_text), (''ops'', list_of (one_of operation_names)),
           (''revoked'', is_bool)]))]),
      (''runs.list'',
        [(''runs'', list_of (object_of
          [(''run_id'', is_text), (''agent'', is_text), (''project'', is_text), (''pid'', is_integer),
           (''started_at'', is_text), (''status'', one_of [''running''])]))])]"

definition approval_types :: "(string \<times> fields) list" where
  "approval_types =
     [(''approvals.pending'',
        [(''approvals'', list_of (object_of
          [(''approval_id'', is_text), (''agent'', is_text), (''project'', is_text), (''key'', is_text),
           (''status'', one_of [''pending'']), (''expires_at'', is_text)]))]),
      (''approvals.approve'', [(''approval_id'', is_text), (''status'', one_of [''approved'', ''denied''])]),
      (''approvals.deny'', [(''approval_id'', is_text), (''status'', one_of [''approved'', ''denied''])]),
      (''approvals.status'',
        [(''approval_id'', is_text), (''status'', one_of approval_states), (''project'', is_text),
         (''key'', is_text), (''expires_in'', is_count)]),
      (''reveal'', [(''value'', is_text)]),
      (''secrets.list'',
        [(''secrets'', list_of (object_of [(''key'', is_text), (''updated'', is_text)]))]),
      (''inject_file'', [(''path'', is_text), (''count'', is_count), (''keys'', list_of is_text)]),
      (''lease.create'',
        [(''lease_id'', is_text), (''lease_prefix'', is_text), (''lease_credential'', is_text),
         (''expires_at'', is_text), (''expires_in'', is_count)]),
      (''lease.list'',
        [(''leases'', list_of (object_of
          [(''lease_id'', is_text), (''lease_prefix'', is_text), (''project'', is_text),
           (''ops'', list_of (one_of operation_names)), (''expires_at'', is_text),
           (''expires_in'', is_count), (''status'', one_of [''active'', ''expired'', ''revoked''])]))]),
      (''lease.revoke'', [(''lease_id'', is_text), (''revoked'', is_bool)]),
      (''run_signal'', [(''run_id'', is_text), (''signaled'', is_bool)])]"

text \<open>The handshake line, and the two lines of a managed run.\<close>

definition connection_types :: "(string \<times> fields) list" where
  "connection_types =
     [(''broker.hello'', [(''public_key'', is_text), (''server_nonce'', is_text), (''signature'', is_text)]),
      (''run_with_secrets'', [(''run_id'', is_text), (''pid'', is_integer), (''status'', one_of [''started''])]),
      (''run_with_secrets'', [(''run_id'', is_text), (''exit_code'', is_integer), (''status'', one_of [''exited''])]),
      (''run_with_secrets'', [(''run_id'', is_text), (''signal'', is_text), (''status'', one_of [''exited''])])]"

text \<open>A result has one of the operation's types: the seed of an unlock has all six session fields or none,
  the exit of a run a code or a signal.\<close>

definition result_types :: "(string \<times> fields) list" where
  "result_types = vault_types @ admin_types @ approval_types @ connection_types"

definition typed_result :: "string \<Rightarrow> json \<Rightarrow> bool" where
  "typed_result op v \<longleftrightarrow> list_ex (\<lambda>(k, fs). k = op \<and> object_of fs v) result_types"

definition error_codes :: "string list" where
  "error_codes =
     [''E_AUTH'', ''E_LOCKED'', ''E_BUSY'', ''E_VAULT_CORRUPT'', ''E_INSECURE_PARAMS'', ''E_WEAK_PASSPHRASE'',
      ''E_HUMAN_REQUIRED'', ''E_EXISTS'', ''E_MISMATCH'', ''E_NOT_FOUND'', ''E_PERMISSION'',
      ''E_PATH_NOT_AUTHORIZED'', ''E_LEASE_EXPIRED'', ''E_SESSION_EXPIRED'', ''E_APPROVAL_PENDING'',
      ''E_APPROVAL_DENIED'', ''E_APPROVAL_CONSUMED'', ''E_APPROVAL_EXPIRED'', ''E_TOO_LARGE'',
      ''E_VAULT_TOO_LARGE'', ''E_INVALID_INPUT'', ''E_AUDIT_FULL'', ''E_AUDIT_WRITE'',
      ''E_BROKER_UNTRUSTED'', ''E_IO'', ''E_PROTOCOL'']"

definition pending_data :: fields where
  "pending_data = [(''approval_id'', is_text), (''expires_in'', is_count)]"

text \<open>A typed answer: a result of the operation's type, or an error with a stable code, which carries data
  only for a pending approval.\<close>

definition typed_error :: "wire_error \<Rightarrow> bool" where
  "typed_error e \<longleftrightarrow> we_code e \<in> set error_codes
     \<and> (case we_data e of None \<Rightarrow> True | Some d \<Rightarrow> we_code e = ''E_APPROVAL_PENDING'' \<and> object_of pending_data d)"

definition typed_response :: "string \<Rightarrow> string \<Rightarrow> response \<Rightarrow> bool" where
  "typed_response i op r \<longleftrightarrow> rs_v r = WIRE_VERSION \<and> rs_id r = i
     \<and> (if rs_ok r
        then rs_error r = None
          \<and> (\<exists>v. rs_result r = Some v \<and> typed_result op v)
        else rs_result r = None \<and> (\<exists>e. rs_error r = Some e \<and> typed_error e))"

section \<open>Errors\<close>

lemma code_known [simp]: "code e \<in> set error_codes"
  by (cases e) (simp_all add: error_codes_def)

lemma typed_err: "c \<in> set error_codes \<Longrightarrow> typed_response i op (response_err i c msg)"
  by (simp add: typed_response_def response_err_def typed_error_def)

lemma typed_of_error [simp]: "typed_response i op (response_of_error i e)"
  by (simp add: response_of_error_def typed_err)

lemma typed_ok:
  "typed_result op v \<Longrightarrow> typed_response i op (response_ok i v)"
  by (simp add: typed_response_def response_ok_def)

lemma fixed_codes [simp]:
  "''E_AUTH'' \<in> set error_codes" "''E_LOCKED'' \<in> set error_codes" "''E_EXISTS'' \<in> set error_codes"
  "''E_INVALID_INPUT'' \<in> set error_codes" "''E_NOT_FOUND'' \<in> set error_codes" "''E_PROTOCOL'' \<in> set error_codes"
  "''E_SESSION_EXPIRED'' \<in> set error_codes" "''E_AUDIT_WRITE'' \<in> set error_codes"
  "''E_HUMAN_REQUIRED'' \<in> set error_codes" "''E_PERMISSION'' \<in> set error_codes"
  "''E_IO'' \<in> set error_codes" "''E_BUSY'' \<in> set error_codes"
  by (simp_all add: error_codes_def)

section \<open>Typed handlers\<close>

named_theorems typed_intro

definition typed :: "string \<Rightarrow> string \<Rightarrow> handled \<Rightarrow> bool" where
  "typed i op out \<longleftrightarrow>
     (\<forall>a s h. out = Some (a, s, h) \<longrightarrow> typed_response i op (case a of Inl r \<Rightarrow> r | Inr r \<Rightarrow> r))"

lemma typed_error_answers [typed_intro]:
  "typed i op None" "typed i op (Some (Inl (response_of_error i e), s, h))"
  "cd \<in> set error_codes \<Longrightarrow> typed i op (answer_err i cd msg s h)"
  "object_of pending_data v \<Longrightarrow>
     typed i op (Some (Inl (response_err_data i ''E_APPROVAL_PENDING'' msg v), s, h))"
  using code_known [of "ApprovalPending i n" for i n]
  by (simp_all add: typed_def answer_err_def typed_err)
    (simp add: typed_response_def response_err_data_def typed_error_def)

lemma session_expired_typed [typed_intro]: "typed i op (session_expired_answer i s h)"
  unfolding session_expired_answer_def by (intro typed_intro) simp

lemma typed_answer_ok [typed_intro]:
  "typed_result op v \<Longrightarrow> typed i op (answer_ok i v s h)"
  by (simp add: typed_def answer_ok_def typed_ok)

lemma typed_needs [typed_intro]:
  "(\<And>y. x = Some y \<Longrightarrow> typed i op (k y)) \<Longrightarrow> typed i op (needs i msg x s h k)"
  by (auto simp: needs_def intro: typed_intro split: option.split)

lemma typed_needs_agent [typed_intro]:
  "(\<And>y. cx_identity c = Agent y \<Longrightarrow> typed (cx_id c) op (k y)) \<Longrightarrow>
     typed (cx_id c) op (needs_agent c msg s h k)"
  by (auto simp: needs_agent_def intro: typed_intro split: identity.split)

lemma typed_calls [typed_intro]:
  "(\<And>x s'. m = (Inr x, s') \<Longrightarrow> typed i op (k x s')) \<Longrightarrow> typed i op (calls i h m k)"
  by (auto simp: calls_def intro: typed_intro split: prod.split sum.split)

lemma typed_calls_opt [typed_intro]:
  "(\<And>x s'. m = Some (Inr x, s') \<Longrightarrow> typed i op (k x s')) \<Longrightarrow> typed i op (calls_opt i h m k)"
  by (auto simp: calls_opt_def intro!: typed_intro split: option.split)

lemma typed_drains [typed_intro]:
  "typed_result op v \<Longrightarrow>
     typed (cx_id c) op (drains L c actor a p s h v)"
  by (auto simp: drains_def intro!: typed_intro split: prod.split)

lemma typed_cases [typed_intro]:
  "(x = None \<Longrightarrow> typed i op a) \<Longrightarrow> (\<And>y. x = Some y \<Longrightarrow> typed i op (b y)) \<Longrightarrow>
     typed i op (case x of None \<Rightarrow> a | Some y \<Rightarrow> b y)"
  "(\<And>y. z = Inl y \<Longrightarrow> typed i op (a' y)) \<Longrightarrow> (\<And>y. z = Inr y \<Longrightarrow> typed i op (b' y)) \<Longrightarrow>
     typed i op (case z of Inl y \<Rightarrow> a' y | Inr y \<Rightarrow> b' y)"
  "(\<And>u v. p = (u, v) \<Longrightarrow> typed i op (f u v)) \<Longrightarrow> typed i op (case p of (u, v) \<Rightarrow> f u v)"
  "(\<And>u v. p = (u, v) \<Longrightarrow> typed i op (g u v t)) \<Longrightarrow> typed i op ((case p of (u, v) \<Rightarrow> g u v) t)"
  "(q \<Longrightarrow> typed i op a) \<Longrightarrow> (\<not> q \<Longrightarrow> typed i op d) \<Longrightarrow> typed i op (case q of True \<Rightarrow> a | False \<Rightarrow> d)"
  "(q \<Longrightarrow> typed i op a) \<Longrightarrow> (\<not> q \<Longrightarrow> typed i op d) \<Longrightarrow> typed i op (if q then a else d)"
  "(w = Human \<Longrightarrow> typed i op a) \<Longrightarrow> (\<And>y. w = Agent y \<Longrightarrow> typed i op (e y)) \<Longrightarrow> (w = Unauthenticated \<Longrightarrow> typed i op d) \<Longrightarrow>
     typed i op (case w of Human \<Rightarrow> a | Agent y \<Rightarrow> e y | Unauthenticated \<Rightarrow> d)"
  by (cases x; cases z; cases p; cases q; cases w; auto)+

lemmas op_tables = typed_result_def result_types_def vault_types_def admin_types_def approval_types_def connection_types_def

section \<open>The operations\<close>

lemma minted_typed [simp]:
  "typed_result ''session.open'' (jobj (minted_fields L s credential prefix e m))"
  "typed_result ''vault.unlock'' (jobj ((''unlocked'', JBool True) # minted_fields L s credential prefix e m))"
  by (cases "session_display_times s e m", simp add: minted_fields_def op_tables session_fields_def)
    (cases "session_display_times s e m", simp add: minted_fields_def op_tables session_fields_def)

lemma unlocked_typed [simp]: "typed_result ''vault.unlock'' (jobj [(''unlocked'', JBool True)])"
  by (simp add: op_tables)

lemma op_vault_status_typed: "typed (cx_id c) ''vault.status'' (op_vault_status L c s h)"
  unfolding op_vault_status_def Let_def
  by (intro typed_intro) (simp_all add: op_tables  split: prod.split option.split agent_status.split)

lemma op_vault_lock_typed: "typed (cx_id c) ''vault.lock'' (op_vault_lock L c s h)"
  unfolding op_vault_lock_def Let_def
  by (intro typed_intro) (simp_all add: op_tables  split: prod.split option.split agent_status.split)

lemma op_vault_create_typed: "typed (cx_id c) ''vault.create'' (op_vault_create c s h)"
  unfolding op_vault_create_def Let_def
  by (intro typed_intro) (simp_all add: op_tables  split: prod.split option.split agent_status.split)

lemma op_vault_health_typed: "typed (cx_id c) ''vault.health'' (op_vault_health L n c s h)"
  unfolding op_vault_health_def Let_def
  by (intro typed_intro) (simp_all add: op_tables health_value_def split: prod.split option.split agent_status.split)

lemma op_project_add_typed: "typed (cx_id c) ''project.add'' (op_project_add L c req s h)"
  unfolding op_project_add_def Let_def
  by (intro typed_intro) (simp_all add: op_tables  split: prod.split option.split agent_status.split)

lemma op_project_list_typed: "typed (cx_id c) ''project.list'' (op_project_list L c s h)"
  unfolding op_project_list_def Let_def
  by (intro typed_intro) (simp_all add: op_tables  split: prod.split option.split agent_status.split)

lemma op_project_path_add_typed: "typed (cx_id c) ''project.path.add'' (op_project_path_add L c req s h)"
  unfolding op_project_path_add_def Let_def
  by (intro typed_intro) (simp_all add: op_tables  split: prod.split option.split agent_status.split)

lemma op_project_path_remove_typed: "typed (cx_id c) ''project.path.remove'' (op_project_path_remove L c req s h)"
  unfolding op_project_path_remove_def Let_def
  by (intro typed_intro) (simp_all add: op_tables  split: prod.split option.split agent_status.split)

lemma op_project_remove_typed: "typed (cx_id c) ''project.remove'' (op_project_remove L c req s h)"
  unfolding op_project_remove_def Let_def
  by (intro typed_intro) (simp_all add: op_tables  split: prod.split option.split agent_status.split)

lemma op_secret_set_typed: "typed (cx_id c) ''secret.set'' (op_secret_set L c req s h)"
  unfolding op_secret_set_def Let_def
  by (intro typed_intro) (simp_all add: op_tables  split: prod.split option.split agent_status.split)

lemma op_secret_delete_typed: "typed (cx_id c) ''secret.delete'' (op_secret_delete L c req s h)"
  unfolding op_secret_delete_def Let_def
  by (intro typed_intro) (simp_all add: op_tables  split: prod.split option.split agent_status.split)

lemma op_agents_add_typed: "typed (cx_id c) ''agents.add'' (op_agents_add L c req s h)"
  unfolding op_agents_add_def Let_def
  by (intro typed_intro) (simp_all add: op_tables  split: prod.split option.split agent_status.split)

lemma op_agents_revoke_typed: "typed (cx_id c) ''agents.revoke'' (op_agents_revoke L c req s h)"
  unfolding op_agents_revoke_def Let_def
  by (intro typed_intro) (simp_all add: op_tables  split: prod.split option.split agent_status.split)

lemma op_agents_list_typed: "typed (cx_id c) ''agents.list'' (op_agents_list L c s h)"
  unfolding op_agents_list_def Let_def
  by (intro typed_intro) (simp_all add: op_tables status_text_def split: prod.split option.split agent_status.split)

lemma op_grants_grant_typed: "typed (cx_id c) ''grants.grant'' (op_grants_grant L c req s h)"
  unfolding op_grants_grant_def Let_def
  by (intro typed_intro) (simp_all add: op_tables  split: prod.split option.split agent_status.split)

lemma op_grants_revoke_typed: "typed (cx_id c) ''grants.revoke'' (op_grants_revoke L c req s h)"
  unfolding op_grants_revoke_def Let_def
  by (intro typed_intro) (simp_all add: op_tables  split: prod.split option.split agent_status.split)

lemma op_grants_list_typed: "typed (cx_id c) ''grants.list'' (op_grants_list L c s h)"
  unfolding op_grants_list_def Let_def
  by (intro typed_intro) (simp_all add: op_tables  split: prod.split option.split agent_status.split)

lemma op_audit_show_typed: "typed (cx_id c) ''audit.show'' (op_audit_show L c req s h)"
  unfolding op_audit_show_def Let_def
  by (intro typed_intro) (simp_all add: op_tables any_value_def split: prod.split option.split agent_status.split)

lemma op_audit_verify_typed: "typed (cx_id c) ''audit.verify'' (op_audit_verify L c s h)"
  unfolding op_audit_verify_def Let_def
  by (intro typed_intro) (simp_all add: op_tables  split: prod.split option.split agent_status.split)

lemma op_approvals_pending_typed: "typed (cx_id c) ''approvals.pending'' (op_approvals_pending L c s h)"
  unfolding op_approvals_pending_def Let_def
  by (intro typed_intro) (simp_all add: op_tables  split: prod.split option.split agent_status.split)

lemma op_session_close_typed: "typed (cx_id c) ''session.close'' (op_session_close L c req s h)"
  unfolding op_session_close_def Let_def
  by (intro typed_intro) (simp_all add: op_tables  split: prod.split option.split agent_status.split)

lemma op_session_touch_typed: "typed (cx_id c) ''session.touch'' (op_session_touch L c req s h)"
  unfolding op_session_touch_def Let_def
  by (intro typed_intro) (simp_all add: op_tables  split: prod.split option.split agent_status.split)

lemma op_session_open_typed: "typed (cx_id c) ''session.open'' (op_session_open L c req s h)"
  unfolding op_session_open_def Let_def
  by (intro typed_intro) simp_all

lemma op_vault_unlock_typed: "typed (cx_id c) ''vault.unlock'' (op_vault_unlock L c req s h)"
  unfolding op_vault_unlock_def Let_def
  by (intro typed_intro) simp_all

lemma op_runs_list_typed: "typed (cx_id c) ''runs.list'' (op_runs_list L c s h)"
  unfolding op_runs_list_def Let_def
  by (intro typed_intro) (simp_all add: op_tables run_value_def split: prod.split option.split agent_status.split)

lemma op_inject_file_typed: "typed (cx_id c) ''inject_file'' (op_inject_file L K c req s h)"
  unfolding op_inject_file_def Let_def
  by (intro typed_intro) (simp_all add: op_tables  split: prod.split option.split agent_status.split)

lemma op_secrets_list_typed: "typed (cx_id c) ''secrets.list'' (op_secrets_list L c req s h)"
  unfolding op_secrets_list_def Let_def
  by (intro typed_intro) (simp_all add: op_tables  split: prod.split option.split agent_status.split)

lemma op_lease_create_typed: "typed (cx_id c) ''lease.create'' (op_lease_create L c req s h)"
  unfolding op_lease_create_def Let_def
  by (intro typed_intro) (simp_all add: op_tables  split: prod.split option.split agent_status.split)

lemma op_lease_list_typed: "typed (cx_id c) ''lease.list'' (op_lease_list L c s h)"
  unfolding op_lease_list_def Let_def
  by (intro typed_intro) (simp_all add: op_tables lease_value_def split: prod.split option.split agent_status.split)

lemma op_lease_revoke_typed: "typed (cx_id c) ''lease.revoke'' (op_lease_revoke L c req s h)"
  unfolding op_lease_revoke_def Let_def
  by (intro typed_intro) (simp_all add: op_tables  split: prod.split option.split agent_status.split)

lemma reveal_value_typed [typed_intro]: "typed i ''reveal'' (reveal_value i val s h)"
  unfolding reveal_value_def by (intro typed_intro) (simp_all add: op_tables)

lemma op_reveal_typed: "typed (cx_id c) ''reveal'' (op_reveal L c req s h)"
  unfolding op_reveal_def reveal_as_human_def reveal_as_agent_def Let_def
  by (intro typed_intro) (simp_all add: pending_data_def )

lemma approval_status_known:
  "approval_status L agent_id approval_id s = (Inr st, s') \<Longrightarrow> st \<in> set approval_states"
  by (auto simp: approval_status_def approval_view_def approval_states_def refuse_def Let_def try_bind_def
      split: prod.splits sum.splits option.splits if_splits approval_status.splits)

lemma op_approvals_status_typed: "typed (cx_id c) ''approvals.status'' (op_approvals_status L c req s h)"
  unfolding op_approvals_status_def Let_def
  by (intro typed_intro) (simp_all add: op_tables approval_status_known)

lemma op_approvals_decide_typed:
  assumes "rq_op req = ''approvals.approve'' \<or> rq_op req = ''approvals.deny''"
  shows "typed (cx_id c) (rq_op req) (op_approvals_decide L c req s h)"
  using assms unfolding op_approvals_decide_def Let_def
  by (intro typed_intro) (auto simp: op_tables )

lemma run_signal_denied_typed [typed_intro]:
  "cd \<in> set error_codes \<Longrightarrow> typed (cx_id c) op (run_signal_denied L c project run_id cd msg s h)"
  unfolding run_signal_denied_def by (rule typed_intro)

lemma op_run_signal_typed: "typed (cx_id c) ''run_signal'' (op_run_signal L c req s h)"
  unfolding op_run_signal_def Let_def
  by (intro typed_intro) (simp_all add: op_tables del: code.simps)

lemmas ops_typed =
  op_vault_status_typed op_vault_lock_typed op_vault_create_typed op_vault_health_typed op_vault_unlock_typed
  op_project_add_typed op_project_list_typed op_project_path_add_typed op_project_path_remove_typed
  op_project_remove_typed op_secret_set_typed op_secret_delete_typed op_agents_add_typed op_agents_revoke_typed
  op_agents_list_typed op_grants_grant_typed op_grants_revoke_typed op_grants_list_typed op_audit_show_typed
  op_audit_verify_typed op_approvals_pending_typed op_approvals_status_typed
  op_session_open_typed op_session_touch_typed op_session_close_typed op_runs_list_typed op_inject_file_typed
  op_secrets_list_typed op_lease_create_typed op_lease_list_typed op_lease_revoke_typed op_reveal_typed
  op_run_signal_typed

lemma dispatch_op_typed: "typed (cx_id c) (rq_op req) (dispatch_op L K n req c s h)"
proof -
  have use: "typed (cx_id c) op out \<Longrightarrow> rq_op req = op \<Longrightarrow> typed (cx_id c) (rq_op req) out" for op out by simp
  show ?thesis
    unfolding dispatch_op_def Let_def
    by (intro typed_cases(6);
        ((rule use, rule ops_typed, assumption) | (rule op_approvals_decide_typed, assumption)
         | (rule typed_error_answers, simp)))
qed

section \<open>Requests\<close>

lemma authenticate_typed:
  "authenticate L req proof s = (Inl r, s') \<Longrightarrow> typed_response (rq_id req) op r"
  by (auto simp: authenticate_def Let_def auth_failed_def expired_response_def
      intro!: typed_err split: if_splits option.splits prod.splits sum.splits)

lemma boundary_typed:
  "boundary L req who actor s = (Inl r, s') \<Longrightarrow> typed_response (rq_id req) op r"
  by (auto simp: boundary_def Let_def intro!: typed_err split: if_splits sum.splits)

definition reply_of :: "answer \<Rightarrow> response" where
  "reply_of a = (case a of Inl r \<Rightarrow> r | Inr r \<Rightarrow> r)"

lemma typed_reply: "typed i op (Some (a, s, h)) \<longleftrightarrow> typed_response i op (reply_of a)"
  by (simp add: typed_def reply_of_def)

lemma dispatch_session_typed:
  assumes "dispatch_session L K n req pf s h = Some (a, s', h')"
  shows "typed_response (rq_id req) (rq_op req) (reply_of a)"
proof -
  obtain w s1 where w: "authenticate L req pf s = (w, s1)" by force
  show ?thesis
  proof (cases w)
    case (Inl r)
    with assms w show ?thesis by (auto simp: dispatch_session_def reply_of_def authenticate_typed)
  next
    case (Inr u)
    obtain who actor where u: "u = (who, actor)" by force
    obtain b s2 where b: "boundary L req who actor s1 = (b, s2)" by force
    let ?c = "\<lparr>cx_id = rq_id req, cx_actor = actor, cx_identity = who, cx_proof = pf\<rparr>"
    show ?thesis
    proof (cases b)
      case (Inl r)
      with assms w Inr u b show ?thesis by (auto simp: dispatch_session_def reply_of_def boundary_typed)
    next
      case pass: (Inr x)
      with assms w Inr u b obtain s3 where "dispatch_op L K n req ?c s2 h = Some (a, s3, h')"
        by (auto simp: dispatch_session_def split: option.splits)
      with dispatch_op_typed [of ?c req L K n s2 h] show ?thesis by (simp add: typed_reply)
    qed
  qed
qed

lemma op_create_typed:
  "op_create L req D = (a, D') \<Longrightarrow>
     typed_response (rq_id req) ''vault.create'' (reply_of a)"
  by (auto simp: reply_of_def op_create_def Let_def expired_response_def op_tables intro!: typed_err typed_ok
      split: if_splits option.splits prod.splits sum.splits)

lemma handle_request_typed:
  assumes "handle_request L K req D = Some (resp, D')"
  shows "typed_response (rq_id req) (rq_op req) resp"
proof -
  have derived: "derive_human_proof L req so = Inl r \<Longrightarrow> typed_response (rq_id req) (rq_op req) r" for so r
    by (auto simp: derive_human_proof_def split: if_splits option.splits sum.splits)
  have dispatched: "dispatch L K req pf E = Some (a, E') \<Longrightarrow>
      typed_response (rq_id req) (rq_op req) (reply_of a)" for pf E a E'
    by (auto simp: dispatch_def reply_of_def [of "Inl _"] typed_err dest: dispatch_session_typed op_create_typed split: option.splits if_splits)
  show ?thesis
    using assms derived dispatched unfolding handle_request_def reply_of_def [symmetric]
    by (auto split: sum.splits prod.splits)
qed

end
