(* ===== verification/WireTypeTheorems.thy ===== *)
theory WireTypeTheorems
  imports WireTypes RunTheorems ClientTheorems
begin

text \<open>
  Every response the daemon sends for a request is typed: the answer to an operation, the broker's hello
  and the lines of a managed run, whose thread is followed from its first step on whatever state of the
  daemon each of its steps meets.
\<close>

section \<open>Managed runs\<close>

definition phase_typed :: "string \<Rightarrow> run_phase \<Rightarrow> bool" where
  "phase_typed i ph \<longleftrightarrow>
     (case ph of
        Arrived req _ \<Rightarrow> rq_id req = i | Awake req _ \<Rightarrow> rq_id req = i | Parsed req _ \<Rightarrow> rq_id req = i
      | Authorised j _ _ \<Rightarrow> j = i | Equipped j _ _ _ \<Rightarrow> j = i | Located j _ _ _ \<Rightarrow> j = i
      | Named la \<Rightarrow> la_id la = i | Reserved la \<Rightarrow> la_id la = i | Recorded la \<Rightarrow> la_id la = i
      | Spawned la _ \<Rightarrow> la_id la = i | Live la _ \<Rightarrow> la_id la = i | Running la _ _ \<Rightarrow> la_id la = i
      | Finished out \<Rightarrow> list_all (typed_response i ''run_with_secrets'') out)"

lemma phase_typed_simps [simp]:
  "phase_typed i (Arrived req n) \<longleftrightarrow> rq_id req = i" "phase_typed i (Awake req n) \<longleftrightarrow> rq_id req = i"
  "phase_typed i (Parsed req ps) \<longleftrightarrow> rq_id req = i" "phase_typed i (Authorised j ps rd) \<longleftrightarrow> j = i"
  "phase_typed i (Equipped j ps rd env) \<longleftrightarrow> j = i" "phase_typed i (Located j ps rd env) \<longleftrightarrow> j = i"
  "phase_typed i (Named la) \<longleftrightarrow> la_id la = i" "phase_typed i (Reserved la) \<longleftrightarrow> la_id la = i"
  "phase_typed i (Recorded la) \<longleftrightarrow> la_id la = i" "phase_typed i (Spawned la pid) \<longleftrightarrow> la_id la = i"
  "phase_typed i (Live la pid) \<longleftrightarrow> la_id la = i" "phase_typed i (Running la pid d) \<longleftrightarrow> la_id la = i"
  "phase_typed i (Finished out) \<longleftrightarrow> list_all (typed_response i ''run_with_secrets'') out"
  by (simp_all add: phase_typed_def)

lemma started_answer_typed:
  "la_id la = i \<Longrightarrow> typed_response i ''run_with_secrets'' (started_answer la pid)"
  unfolding started_answer_def by (simp add: typed_ok op_tables)

lemma exit_answer_typed: "typed_response (la_id la) ''run_with_secrets'' (exit_answer la st)"
  unfolding exit_answer_def exit_result_def
  by (rule typed_ok) (auto simp: op_tables split: option.split)

lemma audit_lost_typed: "typed_response (la_id la) op (audit_lost la)"
  by (simp add: audit_lost_def typed_err)

lemmas run_typing = exit_answer_typed audit_lost_typed typed_err deny_run_def deny_launch_def deny_ready_def

lemma authorise_run_typed:
  "authorise_run L req ps s = (Inl r, s') \<Longrightarrow> typed_response (rq_id req) op r"
  by (auto simp: authorise_run_def Let_def auth_failed_def typed_err split: if_splits option.splits prod.splits sum.splits)

lemma try_reserve_code:
  "try_reserve agent project i t reg = (Inl re, reg') \<Longrightarrow> re_code re \<in> set error_codes"
  by (auto simp: try_reserve_def split: if_splits)

lemma run_step_typed:
  assumes "run_step L K m ph D = (ph', D')" and "phase_typed i ph"
  shows "phase_typed i ph'"
proof (cases ph)
  case (Arrived req fds)
  with assms show ?thesis by (auto simp: run_wakes_def split: prod.splits sum.splits)
next
  case (Awake req fds)
  with assms show ?thesis by (auto simp: run_parses_def run_typing split: if_splits sum.splits)
next
  case (Parsed req ps)
  with assms show ?thesis
    by (auto simp: run_authorises_def typed_err authorise_run_typed split: option.splits prod.splits sum.splits)
next
  case (Authorised j ps rd)
  with assms show ?thesis by (auto simp: run_equips_def run_typing split: sum.splits)
next
  case (Equipped j ps rd env)
  with assms show ?thesis by (auto simp: run_locates_def run_typing split: option.splits prod.splits sum.splits)
next
  case (Located j ps rd env)
  with assms show ?thesis by (auto simp: run_names_def run_typing split: prod.splits sum.splits)
next
  case (Named la)
  with assms show ?thesis
    by (auto simp: run_reserves_def run_typing dest: try_reserve_code split: prod.splits sum.splits)
next
  case (Reserved la)
  with assms show ?thesis by (auto simp: run_records_def run_typing split: prod.splits sum.splits)
next
  case (Recorded la)
  with assms show ?thesis by (auto simp: run_spawns_def run_typing split: sum.splits)
next
  case (Spawned la pid)
  with assms show ?thesis by (auto simp: run_activates_def run_typing split: prod.splits bool.splits)
next
  case (Live la pid)
  with assms show ?thesis by (auto simp: run_announces_def run_typing split: prod.splits sum.splits if_splits)
next
  case (Running la pid d)
  with assms show ?thesis
    by (auto simp: run_polls_def unless_gone_def run_typing Let_def split: prod.splits sum.splits if_splits option.splits)
next
  case (Finished out)
  with assms show ?thesis by simp
qed

lemma run_sends_typed:
  assumes "run_step L K m ph D = (ph', D')" and "phase_typed i ph" and "r \<in> set (run_sends ph ph')"
  shows "typed_response i ''run_with_secrets'' r"
  using run_step_typed [OF assms(1,2)] assms(2,3)
  by (auto simp: run_sends_def started_answer_typed list_all_iff split: run_phase.splits)

inductive run_reaches :: "('z) broker_lib_scheme \<Rightarrow> 'fd kernel \<Rightarrow> request \<Rightarrow> run_phase \<Rightarrow> bool"
  for L :: "('z) broker_lib_scheme" and K :: "'fd kernel" and req :: request where
  run_starts: "run_reaches L K req (Arrived req fds)"
| run_goes_on: "run_reaches L K req ph \<Longrightarrow> run_step L K m ph D = (ph', D') \<Longrightarrow> run_reaches L K req ph'"

lemma run_reaches_typed: "run_reaches L K req ph \<Longrightarrow> phase_typed (rq_id req) ph"
  by (induction rule: run_reaches.induct) (auto intro: run_step_typed)

section \<open>Responses\<close>

text \<open>What the daemon sends for a request: its answer, its hello, or the lines of the run it starts.\<close>

inductive daemon_sends ::
    "('z) broker_lib_scheme \<Rightarrow> 'fd kernel \<Rightarrow> ('y) identity_lib_scheme \<Rightarrow> process \<Rightarrow> request \<Rightarrow> response \<Rightarrow> bool"
  for L :: "('z) broker_lib_scheme" and K :: "'fd kernel" and E :: "('y) identity_lib_scheme" and pr :: process where
  sends_answer: "dispatch_on_connection L K req fds D = Some (Replied r D') \<Longrightarrow> daemon_sends L K E pr req r"
| sends_hello: "rq_op req = HELLO_OP \<Longrightarrow> server_hello E pr req sv = (r, sv') \<Longrightarrow> daemon_sends L K E pr req r"
| sends_run: "rq_op req = ''run_with_secrets'' \<Longrightarrow> run_reaches L K req ph \<Longrightarrow> run_step L K m ph D = (ph', D') \<Longrightarrow>
    r \<in> set (run_sends ph ph') \<Longrightarrow> daemon_sends L K E pr req r"

lemma dispatch_on_connection_typed:
  "dispatch_on_connection L K req fds D = Some (Replied r D') \<Longrightarrow> typed_response (rq_id req) (rq_op req) r"
  by (auto simp: dispatch_on_connection_def typed_err intro: handle_request_typed split: if_splits)

lemma server_hello_typed:
  "server_hello E pr req sv = (r, sv') \<Longrightarrow> typed_response (rq_id req) HELLO_OP r"
  by (auto simp: server_hello_def answer_hello_def Let_def HELLO_OP_def op_tables typed_err
      intro!: typed_ok split: prod.splits option.splits if_splits sum.splits)

text \<open>C29: Every response of the daemon is well typed: whatever the request, its credentials and the state of
  the vault, and whatever happens between two steps of a managed run, a response has the protocol's
  version and the request's id, and either a result that has exactly the members of the operation's type,
  each of its type, or an error with one of the stable codes, which carries data only for a pending
  approval (the approval's id and the seconds left). No unknown operation is answered with a result.\<close>

theorem answers_are_typed:
  assumes "daemon_sends L K E pr req r"
  shows "typed_response (rq_id req) (rq_op req) r"
  using assms
proof cases
  case (sends_answer fds D D')
  then show ?thesis by (rule dispatch_on_connection_typed)
next
  case (sends_hello sv sv')
  then show ?thesis using server_hello_typed by metis
next
  case (sends_run ph m D ph' D')
  then show ?thesis using run_sends_typed [OF sends_run(3) run_reaches_typed] by simp
qed

definition toy_projects :: json where
  "toy_projects = jobj [(''projects'', JArr [jobj [(''name'', JStr ''P''), (''paths'', jstrs [])]])]"

text \<open>The owner of the session with the credential \<open>c\<close> lists the projects of the toy vault.\<close>

lemma toy_listed:
  "\<exists>s. project_list toy_broker actor toy_human_session = (Inr (d_projects toy_doc), s)"
proof -
  let ?s = toy_human_session
  have room: "roomy 0 ?s" by (simp add: roomy_def toy_human_session_def) (simp add: toy_log_def calm_world_def)
  have "gate toy_broker actor op p ks ?s = (Inr (), ?s)" for op p ks
    by (simp add: gate_def check_idle_def toy_human_session_def)
  moreover obtain s where "record_with toy_broker (mk_record actor ''project.list'' None [] None Allowed None)
      (s_audit_key ?s) Ordinary ?s = (Inr (), s)"
    using roomy_records(2) [OF room] by blast
  moreover have "s_doc ?s = Some toy_doc" by (simp add: toy_human_session_def)
  ultimately show ?thesis
    by (simp add: project_list_def finish_read_def do_project_list_def audit_record_def mk_record_def ok_or_def)
qed

lemma toy_project_list:
  "\<exists>D. handle_request toy_broker flat_kernel (toy_request ''project.list'' (by_session ''c'') [])
      (toy_daemon toy_human_session) = Some (response_ok ''i'' toy_projects, D)"
proof -
  let ?r = "toy_request ''project.list'' (by_session ''c'') []"
  have b: "boundary toy_broker ?r Human a s = (Inr (), s)" for a s
    by (simp add: boundary_def reject_lease_on_human_op_def NOT_YET_def)
  have o: "dispatch_op toy_broker flat_kernel n ?r c s h = op_project_list toy_broker c s h" for n c s h
    by (simp add: dispatch_op_def)
  obtain s where l: "project_list toy_broker (session_actor ''00'') toy_human_session = (Inr (d_projects toy_doc), s)"
    using toy_listed by blast
  have "idle_check toy_broker (toy_daemon toy_human_session) = (Inr (), toy_daemon toy_human_session)"
    by (simp add: idle_check_def idle_lock_def idle_expired_def toy_daemon_def toy_human_session_def)
  moreover have "derive_human_proof toy_broker ?r so = Inr None" for so by (simp add: derive_human_proof_def)
  ultimately show ?thesis
    by (simp add: handle_request_def dispatch_def toy_daemon_def dispatch_session_def toy_authenticate b o
        op_project_list_def l calls_def answer_ok_def toy_projects_def toy_doc_lists)
qed

theorem answers_are_typed_witness:
  "typed_response ''i'' ''project.list'' (response_ok ''i'' toy_projects)"
proof -
  let ?r = "toy_request ''project.list'' (by_session ''c'') []"
  obtain D where "handle_request toy_broker flat_kernel ?r (toy_daemon toy_human_session)
      = Some (response_ok ''i'' toy_projects, D)"
    using toy_project_list by blast
  then have "daemon_sends toy_broker flat_kernel toy_identity toy_process ?r (response_ok ''i'' toy_projects)"
    by (intro sends_answer [where fds = 0]) (simp add: dispatch_on_connection_def HELLO_OP_def)
  from answers_are_typed [OF this] show ?thesis by simp
qed

end
