(* ===== verification/DashboardTypes.thy ===== *)
theory DashboardTypes
  imports DashboardOps WireTypeTheorems
begin

text \<open>
  The dashboard on the answers of the daemon: the types of \<open>WireTypes\<close> are what the rows of
  \<open>dashboard/src/backend.rs\<close> ask for, so that the \<open>filter_map\<close>s, which skip a row without one of its
  fields, skip none.
\<close>

section \<open>Lists\<close>

text \<open>The commands that show a list: the operation, its parameters and the member that holds the rows.\<close>

fun list_request :: "dash_cmd \<Rightarrow> (string \<times> json \<times> string) option" where
  "list_request Dash_Projects_List = Some (''project.list'', JObj [], ''projects'')"
| "list_request (Dash_Secrets_List project) =
     Some (''secrets.list'', jobj [(''project'', JStr project)], ''secrets'')"
| "list_request Dash_Agents_List = Some (''agents.list'', JObj [], ''agents'')"
| "list_request Dash_Grants_List = Some (''grants.list'', JObj [], ''grants'')"
| "list_request Dash_Approvals_Pending = Some (''approvals.pending'', JObj [], ''approvals'')"
| "list_request Dash_Leases_List = Some (''lease.list'', JObj [], ''leases'')"
| "list_request Dash_Runs_List = Some (''runs.list'', JObj [], ''runs'')"
| "list_request _ = None"

text \<open>A shown row, as the members it stands for; the two numbers that are cut to their width are left out.\<close>

type_synonym shown = "(string \<times> json) list"

definition project_shown :: "project_entry \<Rightarrow> shown" where
  "project_shown r = [(''name'', JStr (pe_name r)), (''paths'', jstrs (pe_paths r))]"

definition secret_shown :: "listed_secret \<Rightarrow> shown" where
  "secret_shown r = [(''key'', JStr (se_key r)), (''updated'', JStr (se_updated r))]"

definition agent_shown :: "agent_entry \<Rightarrow> shown" where
  "agent_shown r =
     [(''name'', JStr (ae_name r)), (''status'', JStr (ae_status r)), (''token_prefix'', JStr (ae_token_prefix r))]"

definition grant_shown :: "grant_entry \<Rightarrow> shown" where
  "grant_shown r =
     [(''agent'', JStr (ge_agent r)), (''project'', JStr (ge_project r)), (''ops'', jstrs (ge_ops r)),
      (''revoked'', JBool (ge_revoked r))]"

definition approval_shown :: "approval_entry \<Rightarrow> shown" where
  "approval_shown r =
     [(''approval_id'', JStr (pa_approval_id r)), (''agent'', JStr (pa_agent r)), (''project'', JStr (pa_project r)),
      (''key'', JStr (pa_key r)), (''status'', JStr (pa_status r)), (''expires_at'', JStr (pa_expires_at r))]"

definition lease_shown :: "lease_entry \<Rightarrow> shown" where
  "lease_shown r =
     [(''lease_id'', JStr (le_lease_id r)), (''lease_prefix'', JStr (le_lease_prefix r)),
      (''project'', JStr (le_project r)), (''ops'', jstrs (le_ops r)), (''expires_at'', JStr (le_expires_at r)),
      (''status'', JStr (le_status r))]"

definition run_shown :: "run_entry \<Rightarrow> shown" where
  "run_shown r =
     [(''run_id'', JStr (re_run_id r)), (''agent'', JStr (re_agent r)), (''project'', JStr (re_project r)),
      (''started_at'', JStr (re_started_at r)), (''status'', JStr (re_status r))]"

fun shown_rows :: "dash_out \<Rightarrow> shown list" where
  "shown_rows (Projects rs) = map project_shown rs"
| "shown_rows (Secrets rs) = map secret_shown rs"
| "shown_rows (Agents rs) = map agent_shown rs"
| "shown_rows (Grants rs) = map grant_shown rs"
| "shown_rows (Approvals rs) = map approval_shown rs"
| "shown_rows (Leases rs) = map lease_shown rs"
| "shown_rows (Runs_Shown rs) = map run_shown rs"
| "shown_rows _ = []"

definition stands_for :: "json \<Rightarrow> shown \<Rightarrow> bool" where
  "stands_for v fs \<longleftrightarrow> list_all (\<lambda>(k, j). get_member v k = Some j) fs"

definition reads :: "(json \<Rightarrow> 'a option) \<Rightarrow> ('a \<Rightarrow> shown) \<Rightarrow> fields \<Rightarrow> bool" where
  "reads f shown fs \<longleftrightarrow>
     (\<forall>v. object_of fs v \<longrightarrow> (\<exists>row. f v = Some row \<and> stands_for v (shown row)))"

text \<open>One row: the fields that are there decide what is read.\<close>

lemma text_value: "is_text j \<longleftrightarrow> (\<exists>t. j = JStr t)"
  by (cases j) simp_all

lemma one_of_value: "one_of ss j \<longleftrightarrow> (\<exists>t. j = JStr t \<and> t \<in> set ss)"
  by (cases j) simp_all

lemma bool_value: "is_bool j \<longleftrightarrow> (\<exists>b. j = JBool b)"
  by (cases j) simp_all

lemma texts_back: "list_all (\<lambda>j. \<exists>t. j = JStr t) js \<Longrightarrow> jstrs (List.map_filter as_str js) = JArr js"
proof (induction js)
  case Nil
  show ?case by (simp add: jstrs_def)
next
  case (Cons j js)
  then obtain t where "j = JStr t" by auto
  with Cons show ?case by (simp add: jstrs_def)
qed

lemma texts_value:
  assumes "list_of P j" and "\<And>x. P x \<Longrightarrow> \<exists>t. x = JStr t"
  shows "\<exists>js. j = JArr js \<and> jstrs (List.map_filter as_str js) = j"
proof (cases j)
  case (JArr js)
  with assms have "list_all (\<lambda>j. \<exists>t. j = JStr t) js" by (simp add: list_all_iff)
  with JArr show ?thesis by (simp add: texts_back)
qed (use assms(1) in simp_all)

lemma text_lists:
  "list_of is_text j \<Longrightarrow> \<exists>js. j = JArr js \<and> jstrs (List.map_filter as_str js) = j"
  "list_of (one_of ss) j \<Longrightarrow> \<exists>js. j = JArr js \<and> jstrs (List.map_filter as_str js) = j"
  by (rule texts_value, assumption, auto simp: text_value one_of_value)+

lemma members:
  assumes "object_of fs v" and "distinct (map fst fs)"
  shows "list_all (\<lambda>(k, P). \<exists>x. get_member v k = Some x \<and> P x) fs"
  using object_member [OF assms(1) _ assms(2)] by (auto simp: list_all_iff)

lemmas row_reading = req_str_def opt_str_def texts_of_def array_or_empty_def opt_array_def bool_or_def
  stands_for_def text_value one_of_value bool_value

lemma project_read:
  "reads project_row project_shown [(''name'', is_text), (''paths'', list_of is_text)]"
  unfolding reads_def
proof (intro allI impI)
  fix v
  assume "object_of [(''name'', is_text), (''paths'', list_of is_text)] v"
  from members [OF this] obtain n js where "get_member v ''name'' = Some (JStr n)"
    "get_member v ''paths'' = Some (JArr js)" "jstrs (List.map_filter as_str js) = JArr js"
    by (auto simp: text_value dest!: text_lists)
  then show "\<exists>row. project_row v = Some row \<and> stands_for v (project_shown row)"
    by (simp add: row_reading project_row_def project_shown_def)
qed

lemma secret_read: "reads secret_row secret_shown [(''key'', is_text), (''updated'', is_text)]"
  unfolding reads_def
  by (intro allI impI, drule members, simp)
    (clarsimp simp: row_reading secret_row_def secret_shown_def)

lemma agent_read:
  "reads agent_row agent_shown
     [(''name'', is_text), (''status'', one_of [''active'', ''revoked'']), (''token_prefix'', is_text)]"
  unfolding reads_def
  by (intro allI impI, drule members, simp)
    (clarsimp simp: row_reading agent_row_def agent_shown_def simp del: set_simps)

lemma grant_read:
  "reads grant_row grant_shown
     [(''agent'', is_text), (''project'', is_text), (''ops'', list_of (one_of operation_names)), (''revoked'', is_bool)]"
  unfolding reads_def
proof (intro allI impI)
  fix v
  assume "object_of [(''agent'', is_text), (''project'', is_text), (''ops'', list_of (one_of operation_names)),
    (''revoked'', is_bool)] v"
  from members [OF this] obtain a p js b where "get_member v ''agent'' = Some (JStr a)"
    "get_member v ''project'' = Some (JStr p)" "get_member v ''revoked'' = Some (JBool b)"
    "get_member v ''ops'' = Some (JArr js)" "jstrs (List.map_filter as_str js) = JArr js"
    by (auto simp: text_value bool_value dest!: text_lists)
  then show "\<exists>row. grant_row v = Some row \<and> stands_for v (grant_shown row)"
    by (simp add: row_reading grant_row_def grant_shown_def)
qed

lemma approval_read:
  "reads approval_row approval_shown
     [(''approval_id'', is_text), (''agent'', is_text), (''project'', is_text), (''key'', is_text),
      (''status'', one_of [''pending'']), (''expires_at'', is_text)]"
  unfolding reads_def
  by (intro allI impI, drule members, simp)
    (clarsimp simp: row_reading approval_row_def approval_shown_def)

lemma lease_read:
  "reads lease_row lease_shown
     [(''lease_id'', is_text), (''lease_prefix'', is_text), (''project'', is_text),
      (''ops'', list_of (one_of operation_names)), (''expires_at'', is_text), (''expires_in'', is_count),
      (''status'', one_of [''active'', ''expired'', ''revoked''])]"
  (is "reads _ _ ?fs")
  unfolding reads_def
proof (intro allI impI)
  fix v
  assume o: "object_of ?fs v"
  from members [OF this] obtain i x p js e st where "get_member v ''lease_id'' = Some (JStr i)"
    "get_member v ''lease_prefix'' = Some (JStr x)" "get_member v ''project'' = Some (JStr p)"
    "get_member v ''expires_at'' = Some (JStr e)" "get_member v ''status'' = Some (JStr st)"
    "get_member v ''ops'' = Some (JArr js)" "jstrs (List.map_filter as_str js) = JArr js"
    by (auto simp: text_value one_of_value dest!: text_lists)
  then show "\<exists>row. lease_row v = Some row \<and> stands_for v (lease_shown row)"
    by (simp add: row_reading lease_row_def lease_shown_def)
qed

lemma run_read:
  "reads run_row run_shown
     [(''run_id'', is_text), (''agent'', is_text), (''project'', is_text), (''pid'', is_integer),
      (''started_at'', is_text), (''status'', one_of [''running''])]"
  unfolding reads_def
  by (intro allI impI, drule members, simp)
    (clarsimp simp: row_reading run_row_def run_shown_def)

lemmas rows_read = project_read secret_read agent_read grant_read approval_read lease_read run_read

text \<open>All rows: none is skipped.\<close>

lemma all_read:
  assumes "reads f shown fs" and "list_all (object_of fs) xs"
  shows "list_all2 stands_for xs (map shown (List.map_filter f xs))"
  using assms(2)
proof (induction xs)
  case (Cons x xs)
  with assms(1) obtain row where "f x = Some row" "stands_for x (shown row)" by (auto simp: reads_def)
  with Cons show ?case by simp
qed simp

lemma rows_of_answer:
  assumes "object_of [(m, list_of (object_of fs))] v" and "reads f shown fs"
  shows "\<exists>xs. get_member v m = Some (JArr xs) \<and> list_all2 stands_for xs (map shown (List.map_filter f xs))"
proof -
  obtain j where "get_member v m = Some j" "list_of (object_of fs) j" using members [OF assms(1)] by auto
  with all_read [OF assms(2)] show ?thesis by (cases j) auto
qed

lemma session_call_answered:
  assumes "ap_session app = Some cred"
    and "bk_call T (ap_socket app) op (SessionAuth cred) params s = (Inr v, s1)"
  shows "session_call T app op params shown s = (shown v, s1)"
  using assms by (simp add: session_call_def require_session_auth_def session_auth_def dash_call_def)

text \<open>What a list command answers to the rows \<open>xs\<close>.\<close>

fun shown_list :: "dash_cmd \<Rightarrow> json list \<Rightarrow> dash_out" where
  "shown_list Dash_Projects_List xs = Projects (List.map_filter project_row xs)"
| "shown_list (Dash_Secrets_List _) xs = Secrets (List.map_filter secret_row xs)"
| "shown_list Dash_Agents_List xs = Agents (List.map_filter agent_row xs)"
| "shown_list Dash_Grants_List xs = Grants (List.map_filter grant_row xs)"
| "shown_list Dash_Approvals_Pending xs = Approvals (List.map_filter approval_row xs)"
| "shown_list Dash_Leases_List xs = Leases (List.map_filter lease_row xs)"
| "shown_list _ xs = Runs_Shown (List.map_filter run_row xs)"

lemma list_command_answers:
  assumes "list_request cmd = Some (op, params, m)"
    and "ap_session app = Some cred"
    and "bk_call T (ap_socket app) op (SessionAuth cred) params s = (Inr v, s1)"
    and "get_member v m = Some (JArr xs)"
  shows "dash_command T cmd app s = (Inr (shown_list cmd xs), app, s1)"
  using assms(1,3,4) unfolding dash_command_def
  by (cases cmd; simp add: projects_list_def secrets_list_cmd_def agents_list_cmd_def grants_list_cmd_def
      approvals_pending_cmd_def leases_list_cmd_def runs_list_cmd_def session_call_answered [OF assms(2)]
      array_or_empty_def opt_array_def ok_or_def)

lemma list_rows_typed:
  assumes "list_request cmd = Some (op, params, m)" and "typed_result op v"
  shows "\<exists>xs. get_member v m = Some (JArr xs) \<and> list_all2 stands_for xs (shown_rows (shown_list cmd xs))"
  using assms
  by (cases cmd; clarsimp; simp add: op_tables rows_of_answer rows_read)

text \<open>C40: The lists of the dashboard show what the daemon answered: for each of the seven list commands (projects,
  secrets, agents, grants, approvals, leases, runs), when the daemon's answer to its request reaches the
  dashboard, the front end gets as many rows as the answer has, in its order, and every text, list of
  texts and flag of a row is the one of the answer: although a row with a missing or ill-typed field would
  be skipped silently, none ever is.\<close>

theorem dashboard_shows_every_row:
  assumes "list_request cmd = Some (op, params, member)"
    and "handle_request L K req D = Some (resp, D')" and "rq_op req = op" and "rs_result resp = Some v"
    and "ap_session app = Some cred"
    and "bk_call T (ap_socket app) op (SessionAuth cred) params s = (Inr v, s1)"
  shows "\<exists>rows out. get_member v member = Some (JArr rows) \<and> dash_command T cmd app s = (Inr out, app, s1)
    \<and> list_all2 stands_for rows (shown_rows out)"
proof -
  have "typed_result op v"
    using handle_request_typed [OF assms(2)] assms(3,4) by (auto simp: typed_response_def split: if_splits)
  with list_rows_typed [OF assms(1)] list_command_answers [OF assms(1,5,6)] show ?thesis by blast
qed

text \<open>A backend whose requests go straight to the toy daemon.\<close>

definition direct_backend :: "daemon backend" where
  "direct_backend =
     \<lparr>bk_call = (\<lambda>socket op auth params D.
        case handle_request toy_broker flat_kernel (client_request ''i'' op auth params) D of
          None \<Rightarrow> (Inl (broker_protocol []), D)
        | Some (r, D') \<Rightarrow> (ok_or (broker_protocol []) (rs_result r), D')),
      bk_pin = (\<lambda>_ D. (Inr None, D)), bk_live = (\<lambda>_ D. (Inl Auth, D)), bk_write_token = (\<lambda>_ _ D. (Inr (), D))\<rparr>"

theorem dashboard_shows_every_row_witness:
  "\<exists>D r. dash_command direct_backend Dash_Projects_List ((new_app ''/s'')\<lparr>ap_session := Some ''c''\<rparr>) (toy_daemon toy_human_session)
     = (Inr (Projects [r]), (new_app ''/s'')\<lparr>ap_session := Some ''c''\<rparr>, D) \<and> pe_name r = ''P''"
proof -
  let ?r = "toy_request ''project.list'' (by_session ''c'') []" and ?D = "toy_daemon toy_human_session"
  let ?app = "(new_app ''/s'')\<lparr>ap_session := Some ''c''\<rparr>"
  have r: "client_request ''i'' ''project.list'' (SessionAuth ''c'') (JObj []) = ?r"
    by (simp add: client_request_def toy_request_def by_session_def WIRE_VERSION_def)
  obtain D where D: "handle_request toy_broker flat_kernel ?r ?D = Some (response_ok ''i'' toy_projects, D)"
    using toy_project_list by blast
  then have b: "bk_call direct_backend (ap_socket ?app) ''project.list'' (SessionAuth ''c'') (JObj []) ?D
      = (Inr toy_projects, D)"
    by (simp add: direct_backend_def r ok_or_def response_ok_def)
  have "\<exists>rows out. get_member toy_projects ''projects'' = Some (JArr rows)
      \<and> dash_command direct_backend Dash_Projects_List ?app ?D = (Inr out, ?app, D)
      \<and> list_all2 stands_for rows (shown_rows out)"
    by (rule dashboard_shows_every_row [OF _ D _ _ _ b]) (simp_all add: response_ok_def)
  then obtain rows out where row: "get_member toy_projects ''projects'' = Some (JArr rows)"
    "dash_command direct_backend Dash_Projects_List ?app ?D = (Inr out, ?app, D)"
    "list_all2 stands_for rows (shown_rows out)"
    by blast
  moreover from row(1,2) b have "out = shown_list Dash_Projects_List rows"
    using list_command_answers [of Dash_Projects_List _ _ _ ?app "''c''" direct_backend ?D toy_projects D rows] by simp
  ultimately show ?thesis
    by (auto simp: toy_projects_def get_member_jobj project_row_def req_str_def opt_str_def)
qed

end
