(* ===== verification/Spec2Isabelle.thy ===== *)
theory Spec2Isabelle
  imports AuditTheorems CommitTheorems Durability DecisionTheorems Containment Dotenv RunTheorems McpTheorems
    CliTheorems DashboardTheorems DashboardWire DashboardView RunReport DashboardTypes
begin

text \<open>
  SecretsVault, a vault for secrets with a daemon (the broker) between the vault file and everybody who
  wants something from it: the human at the command line or at the dashboard, and agents with
  enrollment tokens, directly or through an adapter for language models. This library models the Rust
  code of the two crates, \<open>src/\<close> and \<open>dashboard/src/\<close> of the repository, and proves what it promises.

  \<^bold>\<open>The program.\<close> The broker keeps one vault session: while unlocked it holds the decrypted document and
  its keys. Every request is one line of JSON on a Unix socket, on a connection that begins with a
  signed hello; it carries at most one credential (an agent's token, a passphrase, a human session) and
  perhaps a lease. The broker authenticates it, applies the boundary that every operation shares, runs
  the operation on the session and records the outcome in a hash-chained audit log. Every change of
  the document is committed in one way: the audit entry first, then the vault file that names it. The
  operations for agents write secrets to files below authorized folders, show one after a human's
  approval, and start processes with secrets in their environment; live processes are kept in a
  registry and terminated when the authority behind them goes.

  \<^bold>\<open>The theories\<close>, in the order in which they build on each other; each begins with what it holds.

  \<^item> Foundations. \<open>Prelude\<close> (results with early return, maps, lists), \<open>Rust_Std\<close> (strings as bytes, UTF-8,
    number parsing), \<open>Errors\<close> (\<open>error.rs\<close>: every variant, code and text), \<open>World\<close> (the machine: files by
    path, locks, clocks, random draws, faults), \<open>Crypto\<close> (\<open>crypto.rs\<close>), \<open>Store\<close> (\<open>store.rs\<close> and the lock files of
    \<open>ipc.rs\<close>), \<open>Json\<close> (the values of \<open>serde_json\<close>).
  \<^item> The audit log, \<open>audit.rs\<close>: \<open>AuditLog\<close> has its state (the head and the sequence number cached beside the
    file) and one definition per operation. \<open>AuditChain\<close>, \<open>AuditProps\<close>, \<open>AuditTheorems\<close>: the log is a hash chain
    (locale \<open>hash_chain\<close>), appends extend it, verification accepts exactly the chains, and two logs with one
    head agree unless SHA-256 collides. \<open>Codec\<close> is a concrete serialiser for the witnesses.
  \<^item> The vault file, \<open>envelope.rs\<close>: \<open>Envelope\<close> (format, passphrase slots, key wrapping, opening, resealing) with
    \<open>EnvelopeTheorems\<close> (a created vault opens with its passphrase; what is written can be read back; a
    hostile header cannot make an unlock expensive; which failures are \<open>Auth\<close>).
  \<^item> The document, \<open>model.rs\<close>: \<open>Model\<close> (projects, secrets, agents, grants, leases, approvals, limits and the
    authorization test) with the invariant \<open>wf_doc\<close>; \<open>Dotenv\<close> (\<open>dotenv.rs\<close>) with a reference reader.
  \<^item> The session, \<open>session.rs\<close>: \<open>SessionCore\<close> (state, commit protocol, lock and idle lock), \<open>SessionProjects\<close>,
    \<open>SessionAgents\<close>, \<open>SessionLeases\<close>, \<open>SessionApprovals\<close>, \<open>HumanSessions\<close>, \<open>SessionLifecycle\<close>, \<open>SessionInject\<close>. A session is
    the record \<open>session\<close>, with the machine inside; an operation returns its result and the session it leaves, on
    every branch. \<open>DocInv\<close> and \<open>AuthorityInv\<close> interpret the locale \<open>doc_change\<close> on each change of the document,
    \<open>SessionFrame\<close>, \<open>SessionInv\<close>, \<open>SessionOps\<close>, \<open>SessionMachine\<close> carry the session invariant through every operation
    and every sequence of them; \<open>CommitTheorems\<close>, \<open>AuthorityTheorems\<close>, \<open>DecisionTheorems\<close> hold the properties,
    over the small vault of \<open>Toy\<close> in their witnesses; \<open>Durability\<close> shows that an acknowledged change is there
    after a restart, with a library and a vault file that satisfy all the laws assumed.
  \<^item> Contained file writes, \<open>fsops.rs\<close>: \<open>Fsops\<close>, with the system calls in a record. \<open>Containment\<close> states the
    documented effect of the calls as the locale \<open>contained_kernel\<close>, interpreted on \<open>flat_kernel\<close>, and proves that
    an injection changes nothing outside the authorized folders.
  \<^item> The broker, \<open>wire.rs\<close>, \<open>run.rs\<close>, \<open>fdpass.rs\<close>, \<open>ipc.rs\<close>, \<open>broker_identity.rs\<close> and \<open>broker.rs\<close>: \<open>Wire\<close> (requests and bounded
    framing), \<open>Runs\<close> (parameters, child environment, the registry), \<open>HostProcess\<close>, \<open>FdPass\<close>, \<open>Ipc\<close>, \<open>BrokerIdentity\<close>
    (signed hello, pins), then the handlers: \<open>BrokerCore\<close> (locking and draining), \<open>BrokerHumanOps\<close>,
    \<open>BrokerSessionOps\<close> and \<open>BrokerAgentOps\<close> (one definition per arm of \<open>dispatch_op\<close>), \<open>BrokerDispatch\<close> (from the
    credentials to the answer), \<open>BrokerRun\<close> (the thread of a managed run as a state machine), \<open>BrokerServe\<close>
    (start-up and connections). \<open>BrokerFrame\<close>, \<open>BrokerMachine\<close> and \<open>RunMachine\<close> interleave requests, the idle watchdog
    and the steps of run threads in any order; \<open>BrokerTheorems\<close> and \<open>RunTheorems\<close> hold the properties, with
    the quotas and the uniqueness of runs as interpretations of the locale \<open>registry_law\<close>. \<open>WireTypes\<close> gives the
    type of every operation's result and types the handlers one by one; \<open>WireTypeTheorems\<close> extends it to
    everything the daemon sends for a request, the lines of managed runs included.
  \<^item> The clients: \<open>Client\<close> (\<open>client.rs\<close>: trust before credentials, calls, runs), \<open>Mcp\<close> (\<open>mcp.rs\<close>), \<open>CliInput\<close> and \<open>Cli\<close>
    (\<open>cli.rs\<close>: every command from its parsed arguments to its output and exit code). \<open>Handshake\<close>,
    \<open>ClientTheorems\<close> put the two ends of a connection together, \<open>RunReport\<close> the two ends of a managed run;
    \<open>McpTheorems\<close> and \<open>CliTheorems\<close> hold the rest.
  \<^item> The dashboard, \<open>dashboard/src/backend.rs\<close> and the wiring in its \<open>main.rs\<close>: \<open>Dashboard\<close> and \<open>DashboardOps\<close> (all
    thirty commands over a record of what they use of the library crate, \<open>library_backend\<close> being the model
    of that crate). \<open>DashboardTheorems\<close> (fixed messages, by the locale \<open>plain_backend\<close>), \<open>DashboardWire\<close> (which
    credential goes with which request, what the overview counts), \<open>DashboardView\<close> (the front end learns
    nothing of the session's credential), \<open>DashboardTypes\<close> (typed answers lose no row on their way to the
    front end).

  \<^bold>\<open>How the code is represented.\<close> A struct is a record, an enum a datatype, a byte vector or text a list of
  bytes, \<open>Result\<close> a sum with the error on the left, a function with effects a function from the state
  to its result and the state it leaves. What several threads do under a mutex is one step; what a
  thread does between two critical sections is separate steps, so that others may come in between. Counters
  are natural numbers where the code bounds them or where they would need more memory than there is to
  overflow; ranges, truncating casts and saturating arithmetic are written out where the code has them.
  Instants are nanoseconds of the two clocks of \<open>World\<close>.

  \<^bold>\<open>Parameters and hypotheses.\<close> What is not in the repository is an argument: the cryptographic primitives and
  serialisers (records \<open>crypto_lib\<close>, \<open>vault_lib\<close>, \<open>wire_lib\<close>, \<open>identity_lib\<close> and their extensions), the system calls
  (\<open>kernel\<close>), what a socket delivers (a list of chunks or errors), the terminal and the descriptors of
  the command line (\<open>console\<close>). The theorems that need their documented behaviour assume it by name: that
  encryption, wrapping and serialisers invert (\<open>library_laws\<close> and the laws it collects), that signing
  verifies (\<open>signing_laws\<close>), the laws of \<open>contained_kernel\<close>, and \<open>documents_wf\<close>: that what decrypts under the
  vault's key was sealed by this program. Each such theorem has a witness with concrete instances.

  \<^bold>\<open>Loops and termination.\<close> Definitions are total. Loops over data are structural or have a measure. The loops that draw a fresh
  identifier, that retry an interrupted system call or that wait for a line may not end; they take the value
  None when the draws or the calls given do not suffice, and the theorems say when they suffice
  (\<open>inject_returns\<close> bounds the retries of a write by the number of interruptions; a request that runs no
  identifier loop is always answered). No property is of the form that something holds if a result appears
  where the absence of the result would be the failure.

  \<^bold>\<open>Not modelled.\<close> The primitives and codecs named above; the argument parser and the password prompt of the command
  line, which are libraries; hardening of the process (core dumps, tracing, locked memory) and wiping of
  memory, which have no effect on results; the accept loop and its threads, beyond the interleaving of
  their steps; the Tauri runtime and the JavaScript front end; the code under test modules. A timeout on
  a socket is one of the errors a read may return. Where the code has an \<open>expect\<close> or an \<open>unreachable!\<close>, failing it is
  the value None.

  \<^bold>\<open>What modelling showed\<close> is kept with the theorems: a run that was authorised before a lock may start after
  it (\<open>authorised_run_outlives_lock\<close>), resetting the identity needs no human where a file is named
  (\<open>identity_rotated_without_human\<close>), an empty lease file widens a request (\<open>empty_lease_file_is_no_lease\<close>), a
  refused lock of a closing window is taken for done (\<open>refused_close_counts_as_locked\<close>), the token of an
  enrolled agent can be lost (\<open>enrolled_token_lost\<close>).
\<close>

end
